(* ===== verification/Prelude.thy ===== *)
theory Prelude
  imports Complex_Main "HOL-Library.AList" "HOL-Library.Char_ord" "HOL-Library.List_Lexorder"
    "HOL-Library.Product_Lexorder" "HOL-Library.Option_ord"
begin

text \<open>
  What every component of the model shares: Python exceptions as values, the result type of a
  function that may raise, programs over a mutable state that may raise half way through, and
  Python dictionaries as association lists in insertion order.
\<close>

section \<open>Exceptions and results\<close>

text \<open>
  The exception classes that the modelled modules raise. The message is kept, because the paper
  engine stores it in its ledger.
\<close>

datatype exn_class =
    PortfolioError | PaperMissingDataError | PortfolioStateError
  | BacktestInputError | BacktestError | BacktestMissingDataError | BacktestAccountingError
  | BacktestCheckpointError | BacktestInterruptedError
  | BacktestSpecError | BacktestSpecValidationError | BacktestSpecConflictError
  | StrategySignalError
  | PaperSpecError | PaperLedgerError | PaperConflictError | PaperReconciliationError
  | PyAssertionError | PyKeyError | PyIndexError | PyValueError | PyTypeError | PyZeroDivisionError | PyInvalidOperation

datatype exn = Exn (exn_kind: exn_class) (exn_message: string)

type_synonym 'a result = "exn + 'a"

definition raise :: "exn_class \<Rightarrow> string \<Rightarrow> 'a result" where
  "raise c m = Inl (Exn c m)"

named_theorems monad_simps \<open>unfolding rules of results and stateful programs\<close>
named_theorems decimal_simps \<open>facts on rounded decimal arithmetic\<close>
named_theorems ledger_simps \<open>how the ledger operations change the store\<close>
named_theorems point_in_time_simps \<open>operations on the inputs that are visible at a clock\<close>
named_theorems ledger_extends \<open>stateful programs that only extend the ledger\<close>

definition bindR :: "'a result \<Rightarrow> ('a \<Rightarrow> 'b result) \<Rightarrow> 'b result" where
  "bindR x f = (case x of Inl e \<Rightarrow> Inl e | Inr v \<Rightarrow> f v)"

lemma bindR_Inl [simp, monad_simps]: "bindR (Inl e) f = Inl e"
  by (simp add: bindR_def)

lemma bindR_Inr [simp, monad_simps]: "bindR (Inr v) f = f v"
  by (simp add: bindR_def)

lemma bindR_raise [simp]: "bindR (raise c m) f = raise c m"
  by (simp add: bindR_def raise_def)

lemma raise_neq_Inr [simp]: "raise c m \<noteq> Inr v" "Inr v \<noteq> raise c m"
  by (simp_all add: raise_def)

lemma bindR_eq_Inr: "bindR x f = Inr y \<longleftrightarrow> (\<exists>v. x = Inr v \<and> f v = Inr y)"
  by (cases x) auto

lemma bindR_InrE:
  assumes "bindR x f = Inr y"
  obtains v where "x = Inr v" and "f v = Inr y"
  using assms by (auto simp: bindR_eq_Inr)

lemma bindR_cong [fundef_cong]:
  "x = x' \<Longrightarrow> (\<And>v. x' = Inr v \<Longrightarrow> f v = f' v) \<Longrightarrow> bindR x f = bindR x' f'"
  by (cases x') auto

text \<open>A loop that stops at the first exception, collecting or folding.\<close>

primrec mapR :: "('a \<Rightarrow> 'b result) \<Rightarrow> 'a list \<Rightarrow> 'b list result" where
  "mapR f [] = Inr []"
| "mapR f (x # xs) = bindR (f x) (\<lambda>y. bindR (mapR f xs) (\<lambda>ys. Inr (y # ys)))"

primrec foldR :: "('s \<Rightarrow> 'a \<Rightarrow> 's result) \<Rightarrow> 's \<Rightarrow> 'a list \<Rightarrow> 's result" where
  "foldR f s [] = Inr s"
| "foldR f s (x # xs) = bindR (f s x) (\<lambda>s'. foldR f s' xs)"

lemma mapR_Inr_iff: "mapR f xs = Inr ys \<longleftrightarrow> list_all2 (\<lambda>x y. f x = Inr y) xs ys"
  by (induction xs arbitrary: ys) (auto simp: bindR_eq_Inr list_all2_Cons1)

lemma mapR_append: "mapR f (xs @ ys) = bindR (mapR f xs) (\<lambda>us. bindR (mapR f ys) (\<lambda>vs. Inr (us @ vs)))"
proof (induction xs)
  case Nil
  then show ?case by (cases "mapR f ys") simp_all
next
  case (Cons x xs)
  then show ?case by (cases "f x"; cases "mapR f xs"; cases "mapR f ys") simp_all
qed

lemma mapR_length: "mapR f xs = Inr ys \<Longrightarrow> length ys = length xs"
  by (auto simp: mapR_Inr_iff dest: list_all2_lengthD)

lemma mapR_memD: "mapR f xs = Inr ys \<Longrightarrow> y \<in> set ys \<Longrightarrow> \<exists>x \<in> set xs. f x = Inr y"
  by (induction xs arbitrary: ys) (auto simp: bindR_eq_Inr)

lemma mapR_mem:
  assumes "mapR f xs = Inr ys" and "y \<in> set ys"
  obtains x where "x \<in> set xs" and "f x = Inr y"
  using mapR_memD[OF assms] by blast

lemma mapR_imageD: "mapR f xs = Inr ys \<Longrightarrow> x \<in> set xs \<Longrightarrow> \<exists>y \<in> set ys. f x = Inr y"
  by (induction xs arbitrary: ys) (auto simp: bindR_eq_Inr)

lemma mapR_total: "(\<And>x. x \<in> set xs \<Longrightarrow> \<exists>y. f x = Inr y) \<Longrightarrow> \<exists>ys. mapR f xs = Inr ys"
proof (induction xs)
  case (Cons x xs)
  from Cons.prems obtain y where "f x = Inr y" by auto
  moreover from Cons obtain ys where "mapR f xs = Inr ys" by auto
  ultimately show ?case by simp
qed simp

lemma foldR_total:
  assumes "P s" and "\<And>s x. x \<in> set xs \<Longrightarrow> P s \<Longrightarrow> \<exists>t. f s x = Inr t \<and> P t"
  shows "\<exists>t. foldR f s xs = Inr t \<and> P t"
  using assms
proof (induction xs arbitrary: s)
  case (Cons x xs)
  then obtain t where "f s x = Inr t" "P t" by (meson list.set_intros(1))
  with Cons show ?case by simp
qed simp

lemma mapR_cong: "(\<And>x. x \<in> set xs \<Longrightarrow> f x = g x) \<Longrightarrow> mapR f xs = mapR g xs"
  by (induction xs) auto

lemma foldR_cong: "(\<And>s x. x \<in> set xs \<Longrightarrow> f s x = g s x) \<Longrightarrow> foldR f s xs = foldR g s xs"
proof (induction xs arbitrary: s)
  case (Cons x xs)
  then have "f s x = g s x" and "\<And>s. foldR f s xs = foldR g s xs" by simp_all
  then show ?case by simp
qed simp

lemma foldR_invariant:
  assumes "foldR f s xs = Inr t" and "P s"
    and "\<And>s x t. x \<in> set xs \<Longrightarrow> P s \<Longrightarrow> f s x = Inr t \<Longrightarrow> P t"
  shows "P t"
  using assms
proof (induction xs arbitrary: s)
  case (Cons x xs)
  from Cons.prems(1) obtain u where u: "f s x = Inr u" "foldR f u xs = Inr t"
    by (auto simp: bindR_eq_Inr)
  from Cons.prems(2,3) u(1) have "P u" by auto
  with u(2) Cons.prems(3) show ?case by (intro Cons.IH[of u]) auto
qed simp

lemma foldR_append: "foldR f s (xs @ ys) = bindR (foldR f s xs) (\<lambda>t. foldR f t ys)"
proof (induction xs arbitrary: s)
  case (Cons x xs)
  then show ?case by (cases "f s x") simp_all
qed simp

section \<open>Results up to a relation\<close>

text \<open>Two runs of the same code: the same exception, or values that are related.\<close>

abbreviation same_result :: "('a \<Rightarrow> 'b \<Rightarrow> bool) \<Rightarrow> 'a result \<Rightarrow> 'b result \<Rightarrow> bool" where
  "same_result R \<equiv> rel_sum (=) R"

lemma same_raise [intro]: "same_result R (raise c m) (raise c m)"
  by (simp add: raise_def)

lemma same_value [intro]: "R a b \<Longrightarrow> same_result R (Inr a) (Inr b)"
  by simp

lemma same_bind:
  "same_result R x y \<Longrightarrow> (\<And>a b. R a b \<Longrightarrow> same_result S (f a) (g b)) \<Longrightarrow> same_result S (bindR x f) (bindR y g)"
  by (cases x; cases y) auto

lemma same_bind_eq: "(\<And>a. x = Inr a \<Longrightarrow> same_result S (f a) (g a)) \<Longrightarrow> same_result S (bindR x f) (bindR x g)"
  by (cases x) auto

lemma same_if: "(b \<Longrightarrow> same_result R x y) \<Longrightarrow> (\<not> b \<Longrightarrow> same_result R x' y') \<Longrightarrow>
    same_result R (if b then x else x') (if b then y else y')"
  by simp

lemma same_option: "(v = None \<Longrightarrow> same_result R x y) \<Longrightarrow> (\<And>w. v = Some w \<Longrightarrow> same_result R (f w) (g w)) \<Longrightarrow>
    same_result R (case v of None \<Rightarrow> x | Some w \<Rightarrow> f w) (case v of None \<Rightarrow> y | Some w \<Rightarrow> g w)"
  by (cases v) simp_all

lemma same_fold:
  "(\<And>s t x. R s t \<Longrightarrow> same_result R (f s x) (g t x)) \<Longrightarrow> R a b \<Longrightarrow> same_result R (foldR f a xs) (foldR g b xs)"
proof (induction xs arbitrary: a b)
  case (Cons x xs)
  show ?case unfolding foldR.simps by (rule same_bind[OF Cons.prems(1)[OF Cons.prems(2)]]) (rule Cons.IH[OF Cons.prems(1)])
qed simp

lemma same_compose: "same_result R x y \<Longrightarrow> same_result S z y \<Longrightarrow> (\<And>a b c. R a c \<Longrightarrow> S b c \<Longrightarrow> Q a b) \<Longrightarrow> same_result Q x z"
  by (cases x; cases y; cases z) auto

text \<open>The first run may instead stop with one of the given exceptions.\<close>

definition same_or_stops :: "exn set \<Rightarrow> ('a \<Rightarrow> 'b \<Rightarrow> bool) \<Rightarrow> 'a result \<Rightarrow> 'b result \<Rightarrow> bool" where
  "same_or_stops E R x y \<longleftrightarrow> x \<in> Inl ` E \<or> same_result R x y"

lemma same_stops [intro]: "same_result R x y \<Longrightarrow> same_or_stops E R x y"
  by (simp add: same_or_stops_def)

lemma stops_bind: "same_or_stops E R x y \<Longrightarrow> (\<And>a b. R a b \<Longrightarrow> same_or_stops E S (f a) (g b)) \<Longrightarrow>
    same_or_stops E S (bindR x f) (bindR y g)"
  by (cases x; cases y) (auto simp: same_or_stops_def)

lemma stops_fold:
  "(\<And>s t x. x \<in> set xs \<Longrightarrow> R s t \<Longrightarrow> same_or_stops E R (f s x) (g t x)) \<Longrightarrow> R a b \<Longrightarrow>
    same_or_stops E R (foldR f a xs) (foldR g b xs)"
proof (induction xs arbitrary: a b)
  case (Cons x xs)
  show ?case unfolding foldR.simps
    by (rule stops_bind[OF Cons.prems(1)[OF _ Cons.prems(2)]]) (simp_all add: Cons.IH Cons.prems(1))
qed (simp add: same_or_stops_def)

lemmas same_rules = same_raise same_value same_bind_eq same_if same_option

section \<open>Programs over a mutable state\<close>

text \<open>
  A statement that mutates a store and may raise: the store as it is when the exception leaves the
  statement is part of the result, so a handler sees every effect made before the exception.
\<close>

type_synonym ('s, 'a) prog = "'s \<Rightarrow> 'a result \<times> 's"

definition returnS :: "'a \<Rightarrow> ('s, 'a) prog" where
  "returnS v s = (Inr v, s)"

definition raiseS :: "exn_class \<Rightarrow> string \<Rightarrow> ('s, 'a) prog" where
  "raiseS c m s = (raise c m, s)"

definition liftS :: "'a result \<Rightarrow> ('s, 'a) prog" where
  "liftS r s = (r, s)"

text \<open>A read of the state that may raise and leaves it alone.\<close>

definition readS :: "('s \<Rightarrow> 'a result) \<Rightarrow> ('s, 'a) prog" where
  "readS f s = (f s, s)"

definition bindS :: "('s, 'a) prog \<Rightarrow> ('a \<Rightarrow> ('s, 'b) prog) \<Rightarrow> ('s, 'b) prog" where
  "bindS m f s = (case m s of (Inl e, t) \<Rightarrow> (Inl e, t) | (Inr v, t) \<Rightarrow> f v t)"

primrec forS :: "'a list \<Rightarrow> ('a \<Rightarrow> ('s, unit) prog) \<Rightarrow> ('s, unit) prog" where
  "forS [] f = returnS ()"
| "forS (x # xs) f = bindS (f x) (\<lambda>_. forS xs f)"

text \<open>A loop that carries a value.\<close>

primrec foldS :: "('b \<Rightarrow> 'a \<Rightarrow> ('s, 'b) prog) \<Rightarrow> 'b \<Rightarrow> 'a list \<Rightarrow> ('s, 'b) prog" where
  "foldS f v [] = returnS v"
| "foldS f v (x # xs) = bindS (f v x) (\<lambda>w. foldS f w xs)"

text \<open>\<open>try: m except (classes) as error: h error\<close>\<close>

definition tryS :: "('s, 'a) prog \<Rightarrow> exn_class set \<Rightarrow> (exn \<Rightarrow> ('s, 'a) prog) \<Rightarrow> ('s, 'a) prog" where
  "tryS m cs h s =
     (case m s of
        (Inl e, t) \<Rightarrow> (if exn_kind e \<in> cs then h e t else (Inl e, t))
      | (Inr v, t) \<Rightarrow> (Inr v, t))"

lemma bindS_Inr: "bindS m f s = (Inr v, u) \<longleftrightarrow> (\<exists>w t. m s = (Inr w, t) \<and> f w t = (Inr v, u))"
  by (auto simp: bindS_def split: sum.splits prod.splits)

lemmas prog_defs = returnS_def raiseS_def liftS_def readS_def bindS_def

text \<open>
  A relation between the states before and after a program. What has been learned about an earlier
  state \<open>s\<close> may be used at every state that the relation reaches from \<open>s\<close>.
\<close>

definition steps_after :: "('s \<Rightarrow> 's \<Rightarrow> bool) \<Rightarrow> 's \<Rightarrow> ('s, 'a) prog \<Rightarrow> bool" where
  "steps_after R s m \<longleftrightarrow> (\<forall>t. R s t \<longrightarrow> R t (snd (m t)))"

locale state_order =
  fixes R :: "'s \<Rightarrow> 's \<Rightarrow> bool"
  assumes refl: "R s s"
    and trans: "R s t \<Longrightarrow> R t u \<Longrightarrow> R s u"
begin

lemma steps_pure: "steps_after R s (returnS v)" "steps_after R s (raiseS c m)" "steps_after R s (liftS r)"
    "steps_after R s (readS f)"
  by (simp_all add: steps_after_def prog_defs refl)

lemma steps_later: "steps_after R s m \<Longrightarrow> R s t \<Longrightarrow> steps_after R t m"
  by (auto simp: steps_after_def intro: trans)

text \<open>Sequencing, where the second program may use what the first has returned.\<close>

lemma steps_bind_value:
  assumes "steps_after R s m"
    and "\<And>v t u. R s t \<Longrightarrow> m t = (Inr v, u) \<Longrightarrow> R s u \<Longrightarrow> steps_after R u (f v)"
  shows "steps_after R s (bindS m f)"
  unfolding steps_after_def
proof (intro allI impI)
  fix t
  assume t: "R s t"
  show "R t (snd (bindS m f t))"
  proof (cases "m t")
    case (Pair r u)
    with assms(1) t have u: "R t u" by (metis steps_after_def snd_conv)
    show ?thesis
    proof (cases r)
      case (Inr v)
      from assms(2)[OF t _ trans[OF t u]] Pair Inr have "R u (snd (f v u))"
        by (simp add: steps_after_def refl)
      with Pair Inr u show ?thesis by (simp add: bindS_def trans[OF u])
    qed (use Pair u in \<open>simp add: bindS_def\<close>)
  qed
qed

lemma steps_bind:
  "steps_after R s m \<Longrightarrow> (\<And>v. steps_after R s (f v)) \<Longrightarrow> steps_after R s (bindS m f)"
  by (erule steps_bind_value) (blast intro: steps_later)

lemma steps_read:
  "(\<And>v t. R s t \<Longrightarrow> f t = Inr v \<Longrightarrow> steps_after R t (g v)) \<Longrightarrow> steps_after R s (bindS (readS f) g)"
  by (rule steps_bind_value[OF steps_pure(4)]) (auto simp: readS_def)

lemma steps_lift: "(\<And>v. r = Inr v \<Longrightarrow> steps_after R s (g v)) \<Longrightarrow> steps_after R s (bindS (liftS r) g)"
  by (rule steps_bind_value[OF steps_pure(3)]) (auto simp: liftS_def intro: steps_later)

lemma steps_for: "(\<And>x. x \<in> set xs \<Longrightarrow> steps_after R s (f x)) \<Longrightarrow> steps_after R s (forS xs f)"
  by (induction xs) (auto intro: steps_pure steps_bind)

lemma steps_fold: "(\<And>v x. x \<in> set xs \<Longrightarrow> steps_after R s (f v x)) \<Longrightarrow> steps_after R s (foldS f v xs)"
  by (induction xs arbitrary: v) (auto intro: steps_pure steps_bind)

lemma steps_try:
  assumes "steps_after R s m" and "\<And>e. steps_after R s (h e)"
  shows "steps_after R s (tryS m cs h)"
  unfolding steps_after_def
proof (intro allI impI)
  fix t
  assume t: "R s t"
  show "R t (snd (tryS m cs h t))"
  proof (cases "m t")
    case (Pair r u)
    with assms(1) t have u: "R t u" by (metis steps_after_def snd_conv)
    moreover have "R u (snd (h e u))" for e using assms(2) trans[OF t u] by (simp add: steps_after_def)
    ultimately show ?thesis using Pair by (cases r) (auto simp: tryS_def intro: trans)
  qed
qed

lemma steps_if: "(b \<Longrightarrow> steps_after R s m) \<Longrightarrow> (\<not> b \<Longrightarrow> steps_after R s n) \<Longrightarrow> steps_after R s (if b then m else n)"
  by simp

lemma steps_option:
  "(x = None \<Longrightarrow> steps_after R s m) \<Longrightarrow> (\<And>v. x = Some v \<Longrightarrow> steps_after R s (f v)) \<Longrightarrow>
    steps_after R s (case x of None \<Rightarrow> m | Some v \<Rightarrow> f v)"
  by (cases x) simp_all

lemma steps_prod: "(\<And>a b. x = (a, b) \<Longrightarrow> steps_after R s (f a b)) \<Longrightarrow> steps_after R s (case x of (a, b) \<Rightarrow> f a b)"
  by (cases x) simp

text \<open>Each round of a loop that ended normally has run, between states that the relation connects.\<close>

lemma steps_for_member:
  assumes "\<And>y. y \<in> set xs \<Longrightarrow> steps_after R s (f y)" and "R s t" and "forS xs f t = (Inr (), u)" and "x \<in> set xs"
  obtains v w where "R s v" and "f x v = (Inr (), w)" and "R w u"
  using assms
proof (induction xs arbitrary: t thesis)
  case (Cons y ys)
  from Cons.prems(4) obtain t' where y: "f y t = (Inr (), t')" and ys: "forS ys f t' = (Inr (), u)"
    by (auto simp: bindS_def split: prod.splits sum.splits)
  have t': "R t t'"
    using Cons.prems(2)[of y] y Cons.prems(3) unfolding steps_after_def by (metis list.set_intros(1) snd_conv)
  have "steps_after R s (forS ys f)" using Cons.prems(2) by (intro steps_for) simp
  then have u: "R t' u"
    using trans[OF Cons.prems(3) t'] ys unfolding steps_after_def by (metis snd_conv)
  show ?case
  proof (cases "x = y")
    case True
    with Cons.prems(1,3) y u show ?thesis by blast
  next
    case False
    then show ?thesis
      by (intro Cons.IH[OF Cons.prems(1) _ trans[OF Cons.prems(3) t'] ys]) (use Cons.prems in auto)
  qed
qed simp

lemma steps_result: "(\<And>s. steps_after R s m) \<Longrightarrow> m s = (r, t) \<Longrightarrow> R s t"
  by (metis steps_after_def snd_conv refl)

lemmas steps_rules = steps_pure steps_if steps_option steps_prod steps_read steps_lift steps_for steps_fold steps_try
  steps_bind

end

section \<open>Dictionaries\<close>

text \<open>
  A Python dictionary keeps the order of insertion, and an assignment to a key it has keeps that
  key's place. \<open>AList.update\<close> does exactly that. Iteration order matters here: sums over a
  dictionary round after each addition.
\<close>

type_synonym ('k, 'v) dict = "('k \<times> 'v) list"

definition dget :: "('k, 'v) dict \<Rightarrow> 'k \<Rightarrow> 'v \<Rightarrow> 'v" where
  "dget d k v = (case map_of d k of None \<Rightarrow> v | Some w \<Rightarrow> w)"

abbreviation dset :: "'k \<Rightarrow> 'v \<Rightarrow> ('k, 'v) dict \<Rightarrow> ('k, 'v) dict" where
  "dset \<equiv> AList.update"

lemma dget_Nil [simp]: "dget [] k v = v"
  by (simp add: dget_def)

lemma map_of_dset [simp]: "map_of (dset k v d) = (map_of d)(k \<mapsto> v)"
  by (rule update_conv')

lemma dget_dset [simp]: "dget (dset k v d) k' w = (if k' = k then v else dget d k' w)"
  by (simp add: dget_def)

lemma distinct_dset: "distinct (map fst d) \<Longrightarrow> distinct (map fst (dset k v d))"
  by (rule distinct_update)

lemma dset_fresh: "k \<notin> fst ` set d \<Longrightarrow> dset k v d = d @ [(k, v)]"
  by (induction d) auto

text \<open>\<open>sorted(d.items())\<close> for distinct keys: by key.\<close>

definition sorted_items :: "('k::linorder, 'v) dict \<Rightarrow> ('k \<times> 'v) list" where
  "sorted_items d = sort_key fst d"

lemma set_sorted_items [simp]: "set (sorted_items d) = set d"
  by (simp add: sorted_items_def)

section \<open>Lists and sorting\<close>

text \<open>\<open>sorted(set(xs))\<close>\<close>

definition sorted_set :: "'a::linorder list \<Rightarrow> 'a list" where
  "sorted_set xs = sort (remdups xs)"

lemma set_sorted_set [simp]: "set (sorted_set xs) = set xs"
  by (simp add: sorted_set_def)

lemma distinct_sorted_set [simp]: "distinct (sorted_set xs)"
  by (simp add: sorted_set_def)

lemma sorted_sorted_set [simp]: "sorted (sorted_set xs)"
  by (simp add: sorted_set_def)

lemma sorted_set_eq: "sorted_set xs = sorted_list_of_set (set xs)"
  by (simp add: sorted_set_def sorted_list_of_set_sort_remdups)

lemma sorted_set_cong: "set xs = set ys \<Longrightarrow> sorted_set xs = sorted_set ys"
  by (simp add: sorted_set_eq)

lemma sorted_set_Nil [simp]: "sorted_set [] = []"
  by (simp add: sorted_set_def)

lemma sorted_set_Nil_iff [simp]: "sorted_set xs = [] \<longleftrightarrow> xs = []"
  by (metis set_empty set_sorted_set)

lemma sort_key_Nil_iff [simp]: "sort_key f xs = [] \<longleftrightarrow> xs = []"
  by (metis set_empty set_sort)

lemma sort_sort [simp]: "sort_key f (sort_key f xs) = sort_key f xs"
  by (rule sort_key_id_if_sorted) simp

lemma sort_key_filter_stable: "filter P (sort_key f xs) = sort_key f (filter P xs)"
  by (rule filter_sort)

lemma find_append: "find P (xs @ ys) = (case find P xs of None \<Rightarrow> find P ys | Some x \<Rightarrow> Some x)"
  by (induction xs) auto

lemma find_filter_irrelevant:
  "(\<And>x. x \<in> set xs \<Longrightarrow> P x \<Longrightarrow> Q x) \<Longrightarrow> find P (filter Q xs) = find P xs"
  by (induction xs) auto

end
