(* ===== verification/Decimals.thy ===== *)
theory Decimals
  imports Prelude
begin

text \<open>
  Python's \<open>decimal.Decimal\<close> as the engines use it: finite values only, compared exactly, printed
  through a normal form that drops trailing zeros. A value is therefore a rational with a finite
  decimal expansion, and an arithmetic operation is the exact operation followed by one rounding
  to the precision of the context (28 digits by default, 80 where the code opens a
  \<open>localcontext\<close>), half to even. The exponent range (about a million digits) is not modelled.
\<close>

type_synonym dec = rat

section \<open>Digits\<close>

fun num_digits :: "nat \<Rightarrow> nat" where
  "num_digits n = (if n < 10 then 1 else Suc (num_digits (n div 10)))"

declare num_digits.simps [simp del]

lemma num_digits_pos [simp]: "0 < num_digits n"
  by (subst num_digits.simps) simp

lemma num_digits_upper: "n < 10 ^ num_digits n"
proof (induction n rule: num_digits.induct)
  case (1 n)
  show ?case
  proof (cases "n < 10")
    case False
    with 1 have "n div 10 < 10 ^ num_digits (n div 10)" by simp
    then have "n < 10 * 10 ^ num_digits (n div 10)" by linarith
    with False show ?thesis by (subst num_digits.simps) simp
  qed (subst num_digits.simps, simp)
qed

lemma num_digits_lower: "0 < n \<Longrightarrow> 10 ^ (num_digits n - 1) \<le> n"
proof (induction n rule: num_digits.induct)
  case (1 n)
  show ?case
  proof (cases "n < 10")
    case True
    with 1 show ?thesis by (subst num_digits.simps) simp
  next
    case False
    with 1 have IH: "10 ^ (num_digits (n div 10) - 1) \<le> n div 10" by simp
    obtain k where k: "num_digits (n div 10) = Suc k"
      by (metis Suc_pred num_digits_pos)
    from IH k have "10 * 10 ^ k \<le> n" by simp
    with False k show ?thesis by (subst num_digits.simps) simp
  qed
qed

section \<open>Rounding\<close>

definition round_half_even :: "rat \<Rightarrow> int" where
  "round_half_even q =
     (let f = \<lfloor>q\<rfloor>; r = q - of_int f
      in if r < 1 / 2 then f else if 1 / 2 < r then f + 1 else if even f then f else f + 1)"

text \<open>The exponent of the leading digit: \<open>10 ^ magnitude q \<le> \<bar>q\<bar> < 10 ^ (magnitude q + 1)\<close>.\<close>

definition magnitude :: "rat \<Rightarrow> int" where
  "magnitude q =
     (let (n, d) = quotient_of \<bar>q\<bar>;
          e = int (num_digits (nat n)) - int (num_digits (nat d))
      in if 10 powi e \<le> \<bar>q\<bar> then e else e - 1)"

definition dec_round :: "nat \<Rightarrow> rat \<Rightarrow> rat" where
  "dec_round p q =
     (if q = 0 then 0
      else let u = 10 powi (magnitude q - int p + 1)
           in of_int (round_half_even (q / u)) * u)"

lemma pow10_pos [simp]: "0 < (10 :: rat) powi e"
  by (simp add: zero_less_power_int)

lemma pow10_le_iff [simp]: "(10 :: rat) powi a \<le> 10 powi b \<longleftrightarrow> a \<le> b"
  by (meson linorder_not_le one_less_numeral_iff order.strict_implies_order power_int_increasing
      power_int_strict_increasing semiring_norm(76))

lemma pow10_less_iff [simp]: "(10 :: rat) powi a < 10 powi b \<longleftrightarrow> a < b"
  by (meson linorder_not_le pow10_le_iff)

lemma pow10_add: "(10 :: rat) powi (a + b) = 10 powi a * 10 powi b"
  by (rule power_int_add) simp

lemma pow10_diff: "(10 :: rat) powi (a - b) = 10 powi a / 10 powi b"
  by (rule power_int_diff) simp

lemma magnitude_bounds:
  assumes "q \<noteq> 0"
  shows "10 powi magnitude q \<le> \<bar>q\<bar>" and "\<bar>q\<bar> < 10 powi (magnitude q + 1)"
proof -
  obtain n d where nd: "quotient_of \<bar>q\<bar> = (n, d)" by (cases "quotient_of \<bar>q\<bar>")
  have d: "0 < d" using quotient_of_denom_pos[OF nd] .
  have q: "\<bar>q\<bar> = of_int n / of_int d" using quotient_of_div[OF nd] .
  have n: "0 < n"
  proof -
    have "0 < (of_int n :: rat) / of_int d" using assms q by simp
    then show ?thesis using d by (simp add: zero_less_divide_iff)
  qed
  define ln ld where "ln = num_digits (nat n)" and "ld = num_digits (nat d)"
  obtain kn kd where k: "ln = Suc kn" "ld = Suc kd"
    unfolding ln_def ld_def by (metis Suc_pred num_digits_pos)
  have nb: "10 ^ kn \<le> (of_int n :: rat)" "(of_int n :: rat) < 10 ^ ln"
    and db: "10 ^ kd \<le> (of_int d :: rat)" "(of_int d :: rat) < 10 ^ ld"
  proof -
    have "10 ^ (ln - 1) \<le> nat n" "nat n < 10 ^ ln" "10 ^ (ld - 1) \<le> nat d" "nat d < 10 ^ ld"
    proof -
      have "0 < nat n" "0 < nat d" using n d by simp_all
      then show "10 ^ (ln - 1) \<le> nat n" "nat n < 10 ^ ln" "10 ^ (ld - 1) \<le> nat d" "nat d < 10 ^ ld"
        unfolding ln_def ld_def by (blast intro: num_digits_lower num_digits_upper)+
    qed
    then have "(10 ^ kn :: nat) \<le> nat n" "nat n < 10 ^ ln" "(10 ^ kd :: nat) \<le> nat d" "nat d < 10 ^ ld"
      using k by simp_all
    then have "int (10 ^ kn) \<le> n" "n < int (10 ^ ln)" "int (10 ^ kd) \<le> d" "d < int (10 ^ ld)"
      using n d by linarith+
    then have "(of_int (int (10 ^ kn)) :: rat) \<le> of_int n" "(of_int n :: rat) < of_int (int (10 ^ ln))"
      "(of_int (int (10 ^ kd)) :: rat) \<le> of_int d" "(of_int d :: rat) < of_int (int (10 ^ ld))"
      by (simp_all only: of_int_le_iff of_int_less_iff)
    then show "10 ^ kn \<le> (of_int n :: rat)" "(of_int n :: rat) < 10 ^ ln"
      "10 ^ kd \<le> (of_int d :: rat)" "(of_int d :: rat) < 10 ^ ld"
      by simp_all
  qed
  define e where "e = int ln - int ld"
  have up: "\<bar>q\<bar> < 10 powi (e + 1)"
  proof -
    have "\<bar>q\<bar> \<le> of_int n / 10 ^ kd"
      unfolding q using db(1) n by (intro divide_left_mono) (auto simp: d)
    also have "\<dots> < 10 ^ ln / 10 ^ kd"
      using nb(2) by (simp add: divide_strict_right_mono)
    also have "\<dots> = 10 powi (int ln - int kd)"
      by (simp add: pow10_diff flip: power_int_of_nat)
    also have "int ln - int kd = e + 1" using k by (simp add: e_def)
    finally show ?thesis .
  qed
  have lo: "10 powi (e - 1) < \<bar>q\<bar>"
  proof -
    have "e - 1 = int kn - int ld" using k by (simp add: e_def)
    then have "(10 :: rat) powi (e - 1) = 10 ^ kn / 10 ^ ld"
      by (simp add: pow10_diff)
    also have "\<dots> < 10 ^ kn / of_int d"
      using db(2) d by (intro divide_strict_left_mono) auto
    also have "\<dots> \<le> of_int n / of_int d"
      using nb(1) d by (intro divide_right_mono) auto
    finally show ?thesis using q by simp
  qed
  have m: "magnitude q = (if 10 powi e \<le> \<bar>q\<bar> then e else e - 1)"
    by (simp add: magnitude_def nd e_def ln_def ld_def)
  show "10 powi magnitude q \<le> \<bar>q\<bar>" using m lo by auto
  show "\<bar>q\<bar> < 10 powi (magnitude q + 1)" using m up by auto
qed

lemma magnitude_unique:
  assumes "10 powi e \<le> \<bar>q\<bar>" and "\<bar>q\<bar> < 10 powi (e + 1)"
  shows "magnitude q = e"
proof -
  have "q \<noteq> 0" using assms(1) pow10_pos[of e] by (metis abs_zero linorder_not_le)
  note b = magnitude_bounds[OF this]
  have "(10 :: rat) powi e < 10 powi (magnitude q + 1)" using assms(1) b(2) by linarith
  moreover have "(10 :: rat) powi magnitude q < 10 powi (e + 1)" using assms(2) b(1) by linarith
  ultimately show ?thesis by simp
qed

lemma magnitude_minus [simp]: "magnitude (- q) = magnitude q"
  by (simp add: magnitude_def)

lemma magnitude_mono: "0 < a \<Longrightarrow> a \<le> b \<Longrightarrow> magnitude a \<le> magnitude b"
proof -
  assume ab: "0 < a" "a \<le> b"
  have "(10 :: rat) powi magnitude a < 10 powi (magnitude b + 1)"
    using magnitude_bounds(1)[of a] magnitude_bounds(2)[of b] ab by linarith
  then show ?thesis by simp
qed


lemma round_half_even_near: "\<bar>of_int (round_half_even q) - q\<bar> \<le> 1 / 2"
proof -
  have "of_int \<lfloor>q\<rfloor> \<le> q" "q < of_int \<lfloor>q\<rfloor> + 1" by linarith+
  then show ?thesis by (simp add: round_half_even_def Let_def abs_le_iff)
qed

lemma round_half_even_of_int [simp]: "round_half_even (of_int k) = k"
  by (simp add: round_half_even_def)

lemma round_half_even_minus [simp]: "round_half_even (- q) = - round_half_even q"
proof (cases "q \<in> \<int>")
  case True
  then obtain k where "q = of_int k" by (auto elim: Ints_cases)
  then show ?thesis by (metis of_int_minus round_half_even_of_int)
next
  case False
  then have "of_int \<lfloor>q\<rfloor> \<noteq> q" by (metis Ints_of_int)
  then have "\<lfloor>- q\<rfloor> = - \<lfloor>q\<rfloor> - 1" by linarith
  then show ?thesis by (auto simp: round_half_even_def Let_def)
qed

lemma round_half_even_mono: "a \<le> b \<Longrightarrow> round_half_even a \<le> round_half_even b"
proof (cases "\<lfloor>a\<rfloor> = \<lfloor>b\<rfloor>")
  assume "a \<le> b"
  case True
  with \<open>a \<le> b\<close> show ?thesis by (auto simp: round_half_even_def Let_def)
next
  assume ab: "a \<le> b"
  case False
  with ab have "\<lfloor>a\<rfloor> + 1 \<le> \<lfloor>b\<rfloor>" by (meson floor_mono less_le zless_imp_add1_zle)
  moreover have "round_half_even a \<le> \<lfloor>a\<rfloor> + 1" "\<lfloor>b\<rfloor> \<le> round_half_even b"
    by (simp_all add: round_half_even_def Let_def)
  ultimately show ?thesis by simp
qed

lemma round_half_even_le_int: "q \<le> of_int k \<Longrightarrow> round_half_even q \<le> k"
  using round_half_even_mono[of q "of_int k"] by simp

lemma round_half_even_ge_int: "of_int k \<le> q \<Longrightarrow> k \<le> round_half_even q"
  using round_half_even_mono[of "of_int k" q] by simp

lemma dec_round_0 [simp]: "dec_round p 0 = 0"
  by (simp add: dec_round_def)

lemma dec_round_minus [simp]: "dec_round p (- q) = - dec_round p q"
  by (simp add: dec_round_def Let_def)

text \<open>The scaled coefficient has exactly \<open>p\<close> digits before the point.\<close>

lemma scaled_bounds:
  assumes "q \<noteq> 0" and "1 \<le> p"
  defines "u \<equiv> 10 powi (magnitude q - int p + 1)"
  shows "10 ^ (p - 1) \<le> \<bar>q / u\<bar>" and "\<bar>q / u\<bar> < 10 ^ p"
proof -
  have "10 ^ (p - 1) * u = 10 powi magnitude q" "10 ^ p * u = 10 powi (magnitude q + 1)"
    unfolding u_def using assms(2)
    by (simp_all add: of_nat_diff flip: power_int_of_nat pow10_add)
  moreover have "0 < u" by (simp add: u_def)
  ultimately show "10 ^ (p - 1) \<le> \<bar>q / u\<bar>" "\<bar>q / u\<bar> < 10 ^ p"
    using magnitude_bounds[OF assms(1)] by (simp_all add: abs_divide field_simps)
qed

lemma dec_round_bounds:
  assumes "0 < q" and "1 \<le> p"
  shows "10 powi magnitude q \<le> dec_round p q" and "dec_round p q \<le> 10 powi (magnitude q + 1)"
proof -
  define u :: rat where "u = 10 powi (magnitude q - int p + 1)"
  have u: "0 < u" by (simp add: u_def)
  have e: "10 ^ (p - 1) * u = 10 powi magnitude q" "10 ^ p * u = 10 powi (magnitude q + 1)"
    unfolding u_def using assms(2)
    by (simp_all add: of_nat_diff flip: power_int_of_nat pow10_add)
  have "of_int (10 ^ (p - 1)) \<le> q / u" "q / u \<le> of_int (10 ^ p)"
  proof -
    have "\<bar>q / u\<bar> = q / u" using assms(1) u by simp
    with scaled_bounds[of q p] assms
    show "of_int (10 ^ (p - 1)) \<le> q / u" "q / u \<le> of_int (10 ^ p)"
      by (simp_all flip: u_def)
  qed
  then have "(10 ^ (p - 1) :: int) \<le> round_half_even (q / u)" "round_half_even (q / u) \<le> 10 ^ p"
    by (blast intro: round_half_even_ge_int round_half_even_le_int)+
  then have "(of_int (10 ^ (p - 1)) :: rat) \<le> of_int (round_half_even (q / u))"
    "(of_int (round_half_even (q / u)) :: rat) \<le> of_int (10 ^ p)"
    by (simp_all only: of_int_le_iff)
  then have "10 ^ (p - 1) * u \<le> of_int (round_half_even (q / u)) * u"
    "of_int (round_half_even (q / u)) * u \<le> 10 ^ p * u"
    using u by simp_all
  moreover have "dec_round p q = of_int (round_half_even (q / u)) * u"
    using assms(1) by (simp add: dec_round_def u_def Let_def)
  ultimately show "10 powi magnitude q \<le> dec_round p q" "dec_round p q \<le> 10 powi (magnitude q + 1)"
    unfolding e [symmetric] by simp_all
qed

lemma dec_round_pos: "0 < q \<Longrightarrow> 1 \<le> p \<Longrightarrow> 0 < dec_round p q"
  using dec_round_bounds(1)[of q p] pow10_pos[of "magnitude q"] by linarith

lemma dec_round_mono_pos:
  assumes "0 < a" and "a \<le> b" and "1 \<le> p"
  shows "dec_round p a \<le> dec_round p b"
proof (cases "magnitude a = magnitude b")
  case True
  define u :: rat where "u = 10 powi (magnitude b - int p + 1)"
  have "0 < u" by (simp add: u_def)
  with assms(2) have "round_half_even (a / u) \<le> round_half_even (b / u)"
    by (intro round_half_even_mono) (simp add: divide_right_mono)
  with True assms \<open>0 < u\<close> show ?thesis by (simp add: dec_round_def Let_def flip: u_def)
next
  case False
  with magnitude_mono[OF assms(1,2)] have "magnitude a + 1 \<le> magnitude b" by simp
  then have "(10 :: rat) powi (magnitude a + 1) \<le> 10 powi magnitude b" by simp
  with dec_round_bounds(2)[of a p] dec_round_bounds(1)[of b p] assms show ?thesis by linarith
qed

lemma dec_round_mono:
  assumes "a \<le> b" and "1 \<le> p"
  shows "dec_round p a \<le> dec_round p b"
proof -
  consider "0 < a" | "a \<le> 0" "0 \<le> b" | "b < 0" by linarith
  then show ?thesis
  proof cases
    case 1
    with assms show ?thesis by (intro dec_round_mono_pos)
  next
    case 2
    have nn: "0 \<le> dec_round p x" if "0 \<le> x" for x
      using that dec_round_pos[of x p] assms(2) by (cases "x = 0") auto
    have "0 \<le> dec_round p (- a)" "0 \<le> dec_round p b" using 2 by (intro nn, simp)+
    then show ?thesis unfolding dec_round_minus by linarith
  next
    case 3
    with assms have "dec_round p (- b) \<le> dec_round p (- a)" by (intro dec_round_mono_pos) auto
    then show ?thesis by simp
  qed
qed


text \<open>A value of at most \<open>p\<close> significant digits, at any scale, is kept as it is.\<close>

definition fits :: "nat \<Rightarrow> rat \<Rightarrow> bool" where
  "fits p q \<longleftrightarrow> (\<exists>c e. q = of_int c * 10 powi e \<and> \<bar>c\<bar> \<le> 10 ^ p)"

lemma dec_round_fits: "1 \<le> p \<Longrightarrow> fits p (dec_round p q)"
proof (cases "q = 0")
  case True
  then show ?thesis by (auto simp: fits_def intro!: exI[of _ 0])
next
  assume p: "1 \<le> p"
  case False
  define u :: rat where "u = 10 powi (magnitude q - int p + 1)"
  have b: "\<bar>q / u\<bar> < of_int (10 ^ p)" using scaled_bounds(2)[OF False p] by (simp add: u_def)
  have "round_half_even (q / u) \<le> 10 ^ p" "round_half_even (- (q / u)) \<le> 10 ^ p"
    using b by (intro round_half_even_le_int; linarith)+
  then have "\<bar>round_half_even (q / u)\<bar> \<le> 10 ^ p" by simp
  then show ?thesis
    using False unfolding fits_def
    by (intro exI[of _ "round_half_even (q / u)"] exI[of _ "magnitude q - int p + 1"])
      (simp add: dec_round_def u_def Let_def)
qed

lemma dec_round_exact:
  assumes "fits p q" and "1 \<le> p"
  shows "dec_round p q = q"
proof (cases "q = 0")
  case False
  obtain c e where q: "q = of_int c * 10 powi e" and c: "\<bar>c\<bar> \<le> 10 ^ p"
    using assms(1) by (auto simp: fits_def)
  define s where "s = magnitude q - int p + 1"
  have "10 powi magnitude q \<le> \<bar>q\<bar>" by (rule magnitude_bounds(1)[OF False])
  also have "\<dots> = of_int \<bar>c\<bar> * 10 powi e" by (simp add: q abs_mult)
  also have "\<dots> \<le> 10 ^ p * 10 powi e"
    using c by (metis mult_right_mono of_int_le_iff of_int_numeral of_int_power pow10_pos less_imp_le)
  also have "\<dots> = 10 powi (int p + e)" by (simp add: pow10_add)
  finally have se: "s \<le> e + 1" by (simp add: s_def)
  have "\<exists>k. q / 10 powi s = of_int k"
  proof (cases "s \<le> e")
    case True
    then have "q / 10 powi s = of_int c * 10 powi (e - s)" by (simp add: q pow10_diff)
    also have "\<dots> = of_int (c * 10 ^ nat (e - s))"
      using True by (simp add: power_int_def)
    finally show ?thesis by blast
  next
    case False
    with se have s: "s = e + 1" by simp
    have "(10 :: rat) powi magnitude q \<le> of_int \<bar>c\<bar> * 10 powi e"
      using magnitude_bounds(1)[OF \<open>q \<noteq> 0\<close>] by (simp add: q abs_mult)
    moreover have "(10 :: rat) powi magnitude q = 10 ^ p * 10 powi e"
    proof -
      have "magnitude q = int p + e" using s by (simp add: s_def)
      then show ?thesis by (simp add: pow10_add)
    qed
    ultimately have "(10 ^ p :: rat) \<le> of_int \<bar>c\<bar>" by simp
    then have "10 ^ p \<le> \<bar>c\<bar>" by (metis of_int_le_iff of_int_numeral of_int_power)
    with c have "\<bar>c\<bar> = 10 ^ p" by simp
    then have c10: "c = sgn c * 10 ^ (p - 1) * 10"
      using assms(2) by (metis abs_mult_sgn mult.commute power_eq_if not_one_le_zero mult.assoc)
    have "q / 10 powi s = of_int c / 10"
      by (simp add: q s pow10_add)
    also have "\<dots> = of_int (sgn c * 10 ^ (p - 1))"
      by (subst c10) simp
    finally show ?thesis by blast
  qed
  then obtain k where k: "q / 10 powi s = of_int k" ..
  then have "q = of_int k * 10 powi s" by (simp add: field_simps)
  moreover have "dec_round p q = of_int (round_half_even (q / 10 powi s)) * 10 powi s"
    using False by (simp add: dec_round_def Let_def s_def)
  ultimately show ?thesis using k by (metis round_half_even_of_int)
qed simp

lemma dec_round_idem [simp]: "1 \<le> p \<Longrightarrow> dec_round p (dec_round p q) = dec_round p q"
  by (simp add: dec_round_exact dec_round_fits)

lemma fits_of_int: "\<bar>k\<bar> \<le> 10 ^ p \<Longrightarrow> fits p (of_int k)"
  unfolding fits_def by (rule exI[of _ k], rule exI[of _ 0]) simp


section \<open>Strings of digits\<close>

definition digit_char :: "nat \<Rightarrow> char" where
  "digit_char d = char_of (48 + d)"

definition is_digit :: "char \<Rightarrow> bool" where
  "is_digit c \<longleftrightarrow> 48 \<le> (of_char c :: nat) \<and> (of_char c :: nat) \<le> 57"

definition digit_val :: "char \<Rightarrow> nat" where
  "digit_val c = of_char c - 48"

fun nat_string :: "nat \<Rightarrow> string" where
  "nat_string n =
     (if n < 10 then [digit_char n] else nat_string (n div 10) @ [digit_char (n mod 10)])"

declare nat_string.simps [simp del]

definition nat_of_digits :: "string \<Rightarrow> nat" where
  "nat_of_digits s = foldl (\<lambda>a c. 10 * a + digit_val c) 0 s"

text \<open>Zero padding on the left, as in the format \<open>:06d\<close>.\<close>

definition pad :: "nat \<Rightarrow> string \<Rightarrow> string" where
  "pad w s = replicate (w - length s) CHR ''0'' @ s"

lemma of_char_digit_char [simp]: "d < 10 \<Longrightarrow> of_char (digit_char d) = (48 + d :: nat)"
  by (simp add: digit_char_def of_char_of)

lemma digit_char_simps [simp]:
  assumes "d < 10"
  shows "is_digit (digit_char d)" and "digit_val (digit_char d) = d"
  using assms by (simp_all add: is_digit_def digit_val_def)

lemma digit_char_0: "digit_char 0 = CHR ''0''"
  by (simp add: digit_char_def char_of_def bit_0)

lemma digit_char_inject: "a < 10 \<Longrightarrow> b < 10 \<Longrightarrow> digit_char a = digit_char b \<longleftrightarrow> a = b"
  by (metis digit_char_simps(2))

lemma zero_char [simp]: "is_digit CHR ''0''" "digit_val CHR ''0'' = 0"
  using digit_char_simps[of 0] by (simp_all add: digit_char_0)

lemma dot_not_digit [simp]: "\<not> is_digit CHR ''.''" "\<not> is_digit CHR ''-''"
  by (simp_all add: is_digit_def)

lemma nat_of_digits_snoc: "nat_of_digits (s @ [c]) = 10 * nat_of_digits s + digit_val c"
  by (simp add: nat_of_digits_def)

lemma nat_of_digits_zeros: "nat_of_digits (replicate k CHR ''0'' @ s) = nat_of_digits s"
  unfolding nat_of_digits_def by (induction k) simp_all

lemma nat_of_digits_append: "nat_of_digits (s @ t) = nat_of_digits s * 10 ^ length t + nat_of_digits t"
proof (induction t rule: rev_induct)
  case Nil
  then show ?case by (simp add: nat_of_digits_def)
next
  case (snoc c t)
  then show ?case
    by (simp add: nat_of_digits_snoc algebra_simps flip: append_assoc)
qed

lemma nat_string_digits [simp]: "list_all is_digit (nat_string n)"
proof (induction n rule: nat_string.induct)
  case (1 n)
  then show ?case by (subst nat_string.simps) simp
qed

lemma nat_of_digits_nat_string [simp]: "nat_of_digits (nat_string n) = n"
proof (induction n rule: nat_string.induct)
  case (1 n)
  show ?case
  proof (cases "n < 10")
    case True
    then show ?thesis by (subst nat_string.simps) (simp add: nat_of_digits_def)
  next
    case False
    with 1 show ?thesis by (subst nat_string.simps) (simp add: nat_of_digits_snoc)
  qed
qed

lemma nat_string_nonempty [simp]: "nat_string n \<noteq> []"
  by (subst nat_string.simps) simp

lemma nat_string_hd: "10 \<le> n \<Longrightarrow> hd (nat_string n) \<noteq> CHR ''0''"
proof (induction n rule: nat_string.induct)
  case (1 n)
  show ?case
  proof (cases "n div 10 < 10")
    case True
    then have "nat_string (n div 10) = [digit_char (n div 10)]" by (subst nat_string.simps) simp
    moreover have "digit_char (n div 10) \<noteq> CHR ''0''"
      using True \<open>10 \<le> n\<close> digit_char_inject[of "n div 10" 0] by (simp add: digit_char_0)
    ultimately show ?thesis using \<open>10 \<le> n\<close> by (subst nat_string.simps) simp
  next
    case False
    with 1 show ?thesis by (subst nat_string.simps) simp
  qed
qed

lemma length_nat_string: "length (nat_string n) = num_digits n"
proof (induction n rule: nat_string.induct)
  case (1 n)
  then show ?case
    by (subst nat_string.simps, subst num_digits.simps) simp
qed

lemma pad_digits [simp]: "list_all is_digit s \<Longrightarrow> list_all is_digit (pad w s)"
  by (auto simp: pad_def list_all_iff)

lemma nat_of_digits_pad [simp]: "nat_of_digits (pad w s) = nat_of_digits s"
  by (simp add: pad_def nat_of_digits_zeros)

lemma length_pad: "length (pad w s) = max w (length s)"
  by (simp add: pad_def)

text \<open>Strings of digits of the same length are ordered as the numbers they write.\<close>

lemma digit_val_less: "is_digit a \<Longrightarrow> is_digit b \<Longrightarrow> a < b \<longleftrightarrow> digit_val a < digit_val b"
  by (auto simp: is_digit_def digit_val_def less_char_def)

lemma digit_val_inject: "is_digit a \<Longrightarrow> is_digit b \<Longrightarrow> digit_val a = digit_val b \<longleftrightarrow> a = b"
  by (metis digit_val_less less_irrefl not_less_iff_gr_or_eq)

lemma digit_val_le_9: "is_digit c \<Longrightarrow> digit_val c \<le> 9"
  by (auto simp: is_digit_def digit_val_def)

lemma nat_of_digits_Cons: "nat_of_digits (c # s) = digit_val c * 10 ^ length s + nat_of_digits s"
  using nat_of_digits_append[of "[c]" s] by (simp add: nat_of_digits_def)

lemma nat_of_digits_bound: "list_all is_digit s \<Longrightarrow> nat_of_digits s < 10 ^ length s"
proof (induction s)
  case Nil
  then show ?case by (simp add: nat_of_digits_def)
next
  case (Cons c s)
  then have "digit_val c \<le> 9" "nat_of_digits s < 10 ^ length s" by (simp_all add: digit_val_le_9)
  then have "digit_val c * 10 ^ length s + nat_of_digits s < 9 * 10 ^ length s + 10 ^ length s"
    by (intro add_le_less_mono mult_le_mono1)
  then show ?case by (simp add: nat_of_digits_Cons)
qed

lemma digits_less_iff:
  assumes "length s = length t" and "list_all is_digit s" and "list_all is_digit t"
  shows "s < t \<longleftrightarrow> nat_of_digits s < nat_of_digits t"
  using assms
proof (induction s t rule: list_induct2)
  case (Cons a s b t)
  then have b: "nat_of_digits s < 10 ^ length t" "nat_of_digits t < 10 ^ length t"
    using nat_of_digits_bound[of s] nat_of_digits_bound[of t] by simp_all
  have d: "is_digit a" "is_digit b" using Cons.prems by simp_all
  have gap: "x * p + u < y * p + v" if "x < y" "u < p" for x y u v p :: nat
  proof -
    have "x * p + u < Suc x * p" using that by simp
    also have "\<dots> \<le> y * p" using that by (intro mult_le_mono1) simp
    finally show ?thesis by simp
  qed
  consider "digit_val a < digit_val b" | "digit_val b < digit_val a" | "a = b"
    using digit_val_inject[OF d] by linarith
  then show ?case
  proof cases
    case 1
    then show ?thesis using gap[OF 1 b(1), of "nat_of_digits t"] digit_val_less[OF d]
      Cons.hyps by (simp add: nat_of_digits_Cons)
  next
    case 2
    then show ?thesis using gap[OF 2 b(2), of "nat_of_digits s"] digit_val_less[OF d] digit_val_less[OF d(2,1)]
      Cons.hyps by (auto simp: nat_of_digits_Cons)
  next
    case 3
    then show ?thesis using Cons by (simp add: nat_of_digits_Cons)
  qed
qed simp


section \<open>Decimal strings\<close>

text \<open>The number of digits after the point that a fraction with denominator \<open>d\<close> needs.\<close>

function dec_scale :: "nat \<Rightarrow> nat" where
  "dec_scale d =
     (if d \<le> 1 then 0
      else if gcd d 10 = 1 then 0
      else Suc (dec_scale (d div gcd d 10)))"
  by pat_completeness auto
termination
proof (relation "measure id")
  fix d :: nat
  assume d: "\<not> d \<le> 1" "gcd d 10 \<noteq> 1"
  then have "0 < gcd d 10" by simp
  with d(2) have "1 < gcd d 10" by linarith
  with d(1) have "d div gcd d 10 < d" by (intro div_less_dividend) simp_all
  then show "(d div gcd d 10, d) \<in> measure id" by simp
qed simp

declare dec_scale.simps [simp del]

lemma dec_scale_dvd: "0 < d \<Longrightarrow> d dvd 10 ^ k \<Longrightarrow> d dvd 10 ^ dec_scale d"
proof (induction d rule: dec_scale.induct)
  case (1 d)
  show ?case
  proof (cases "d \<le> 1")
    case True
    with 1 have "d = 1" by simp
    then show ?thesis by simp
  next
    case False
    have g: "gcd d 10 \<noteq> 1"
    proof
      assume "gcd d 10 = 1"
      then have "coprime d 10" by (simp add: coprime_iff_gcd_eq_1)
      then have "coprime d (10 ^ k)" by simp
      with 1(3) have "is_unit d" using coprime_common_divisor[of d "10 ^ k" d] by simp
      then have "d = 1" by simp
      with False show False by simp
    qed
    define e where "e = d div gcd d 10"
    have d: "d = e * gcd d 10" by (simp add: e_def)
    have "e dvd 10 ^ k" using d 1(3) by (metis dvd_mult_left)
    moreover have "0 < e" using d 1(2) by (metis mult_0 not_gr_zero)
    ultimately have "e dvd 10 ^ dec_scale e" using 1 False g by (simp add: e_def)
    then have "e * gcd d 10 dvd 10 ^ dec_scale e * 10" by (intro mult_dvd_mono) simp_all
    with d False g show ?thesis
      by (subst dec_scale.simps) (simp add: mult.commute flip: e_def)
  qed
qed

definition is_decimal :: "rat \<Rightarrow> bool" where
  "is_decimal q \<longleftrightarrow> (\<exists>k c. q = of_int c / 10 ^ k)"

text \<open>
  The shape of a finite decimal that \<open>decimal_string\<close> (and the backtest engine's \<open>_dstr\<close>) prints:
  \<open>format(value, "f")\<close> with trailing zeros, and then a trailing point, stripped.
\<close>

definition decimal_string :: "dec \<Rightarrow> string" where
  "decimal_string q =
     (let (n, d) = quotient_of q;
          k = dec_scale (nat d);
          s = pad (Suc k) (nat_string (nat (\<bar>n\<bar> * 10 ^ k div d)));
          i = length s - k
      in (if n < 0 then ''-'' else []) @ take i s @ (if k = 0 then [] else CHR ''.'' # drop i s))"

text \<open>\<open>Decimal(s)\<close> for a string matched by \<open>^(0|[1-9][0-9]*)(\.[0-9]+)?$\<close>, else nothing.\<close>

definition parse_unsigned :: "string \<Rightarrow> dec option" where
  "parse_unsigned s =
     (let i = takeWhile is_digit s; r = dropWhile is_digit s
      in if i = [] \<or> (1 < length i \<and> hd i = CHR ''0'') then None
         else if r = [] then Some (of_nat (nat_of_digits i))
         else if hd r = CHR ''.'' \<and> tl r \<noteq> [] \<and> list_all is_digit (tl r)
         then Some (of_nat (nat_of_digits (i @ tl r)) / 10 ^ length (tl r))
         else None)"

text \<open>The same with the pattern \<open>^-?(0|[1-9][0-9]*)(\.[0-9]+)?$\<close>.\<close>

definition parse_signed :: "string \<Rightarrow> dec option" where
  "parse_signed s =
     (if s \<noteq> [] \<and> hd s = CHR ''-'' then map_option uminus (parse_unsigned (tl s))
      else parse_unsigned s)"

lemma is_decimal_of_int [simp]: "is_decimal (of_int c)"
  unfolding is_decimal_def by (rule exI[of _ 0]) auto

lemma is_decimal_simps [simp]: "is_decimal 0" "is_decimal 1" "is_decimal (numeral n)"
  using is_decimal_of_int[of 0] is_decimal_of_int[of 1] is_decimal_of_int[of "numeral n"] by simp_all

lemma is_decimal_minus [simp]: "is_decimal (- q) \<longleftrightarrow> is_decimal q"
proof -
  have "is_decimal (- q)" if "is_decimal q" for q
    using that unfolding is_decimal_def by (metis minus_divide_left of_int_minus)
  then show ?thesis by (metis minus_minus)
qed

lemma is_decimal_scaled: "is_decimal (of_int c * 10 powi e)"
proof (cases "0 \<le> e")
  case True
  then have "of_int c * 10 powi e = (of_int (c * 10 ^ nat e) :: rat)" by (simp add: power_int_def)
  then show ?thesis by (metis is_decimal_of_int)
next
  case False
  then have "(10 :: rat) powi e = inverse (10 ^ nat (- e))"
    by (simp only: power_int_def if_False power_inverse)
  then have "of_int c * 10 powi e = (of_int c / 10 ^ nat (- e) :: rat)"
    by (simp only: divide_inverse)
  then show ?thesis unfolding is_decimal_def by blast
qed

lemma is_decimal_round [simp]: "is_decimal (dec_round p q)"
  by (simp add: dec_round_def Let_def is_decimal_scaled)

lemma quotient_scale:
  assumes "is_decimal q" and "quotient_of q = (n, d)"
  shows "d dvd 10 ^ dec_scale (nat d)"
proof -
  obtain c k where q: "q = of_int c / 10 ^ k" using assms(1) by (auto simp: is_decimal_def)
  have d: "0 < d" by (rule quotient_of_denom_pos[OF assms(2)])
  have "(of_int n :: rat) / of_int d = of_int c / 10 ^ k"
    using q quotient_of_div[OF assms(2)] by simp
  then have "(of_int n :: rat) * 10 ^ k = of_int c * of_int d" 
    using d by (subst (asm) frac_eq_eq) simp_all
  then have "(of_int (n * 10 ^ k) :: rat) = of_int (c * d)" by simp
  then have "n * 10 ^ k = c * d" by (simp only: of_int_eq_iff)
  then have "d dvd n * 10 ^ k" by simp
  moreover have "coprime d n" using quotient_of_coprime[OF assms(2)] by (simp add: coprime_commute)
  ultimately have "d dvd 10 ^ k" by (simp add: coprime_dvd_mult_right_iff)
  then have "int (nat d) dvd int (10 ^ k)" using d by simp
  then have "nat d dvd 10 ^ k" by (simp only: of_nat_dvd_iff)
  then have "nat d dvd 10 ^ dec_scale (nat d)" using d by (intro dec_scale_dvd) simp_all
  then have "int (nat d) dvd int (10 ^ dec_scale (nat d))" by (simp only: of_nat_dvd_iff)
  then show ?thesis using d by simp
qed

text \<open>The digits before the point have no leading zero, and all digits together write the coefficient.\<close>

lemma padded_parts:
  fixes m k :: nat
  defines "s \<equiv> pad (Suc k) (nat_string m)"
  defines "i \<equiv> length s - k"
  shows "take i s \<noteq> []" and "length (drop i s) = k" and "list_all is_digit (take i s)"
    and "list_all is_digit (drop i s)" and "\<not> (1 < length (take i s) \<and> hd (take i s) = CHR ''0'')"
    and "nat_of_digits (take i s @ drop i s) = m"
proof -
  have len: "k < length s" by (simp add: s_def length_pad)
  then show "take i s \<noteq> []" "length (drop i s) = k" by (auto simp: i_def)
  have dig: "list_all is_digit s" by (simp add: s_def)
  then show "list_all is_digit (take i s)" "list_all is_digit (drop i s)"
    by (auto simp: list_all_iff dest: in_set_takeD in_set_dropD)
  show "nat_of_digits (take i s @ drop i s) = m" by (simp add: s_def)
  show "\<not> (1 < length (take i s) \<and> hd (take i s) = CHR ''0'')"
  proof
    assume a: "1 < length (take i s) \<and> hd (take i s) = CHR ''0''"
    then have l: "Suc k < length s" by (auto simp: i_def)
    then have s: "s = nat_string m" by (auto simp: s_def pad_def length_pad)
    with l have "2 \<le> num_digits m" by (simp add: length_nat_string)
    then have "10 \<le> m" by (subst (asm) num_digits.simps) (simp split: if_splits)
    moreover have "hd s = CHR ''0''" using a len by (simp add: i_def hd_take)
    ultimately show False using nat_string_hd s by simp
  qed
qed

lemma takeWhile_digits: "list_all P i \<Longrightarrow> (r = [] \<or> \<not> P (hd r)) \<Longrightarrow>
    takeWhile P (i @ r) = i \<and> dropWhile P (i @ r) = r"
  by (induction i) (cases r; auto)+

lemma parse_unsigned_parts:
  assumes "i \<noteq> []" and "list_all is_digit i" and "\<not> (1 < length i \<and> hd i = CHR ''0'')"
    and "list_all is_digit f"
  shows "parse_unsigned (i @ (if f = [] then [] else CHR ''.'' # f)) =
    Some (of_nat (nat_of_digits (i @ f)) / 10 ^ length f)"
  using assms takeWhile_digits[of is_digit i "if f = [] then [] else CHR ''.'' # f"]
  by (auto simp: parse_unsigned_def Let_def)


lemma decimal_string_parts:
  assumes "is_decimal q"
  obtains i f where "i \<noteq> []" and "list_all is_digit i" and "\<not> (1 < length i \<and> hd i = CHR ''0'')"
    and "list_all is_digit f" and "of_nat (nat_of_digits (i @ f)) / 10 ^ length f = \<bar>q\<bar>"
    and "decimal_string q = (if q < 0 then ''-'' else []) @ i @ (if f = [] then [] else CHR ''.'' # f)"
proof -
  obtain n d where nd: "quotient_of q = (n, d)" by (cases "quotient_of q")
  define k m s where "k = dec_scale (nat d)" and "m = nat (\<bar>n\<bar> * 10 ^ k div d)"
    and "s = pad (Suc k) (nat_string m)"
  define i f where "i = take (length s - k) s" and "f = drop (length s - k) s"
  note parts = padded_parts[of k m, folded s_def, folded i_def f_def]
  have d: "0 < d" by (rule quotient_of_denom_pos[OF nd])
  have q: "q = of_int n / of_int d" by (rule quotient_of_div[OF nd])
  have dvd: "d dvd 10 ^ k" unfolding k_def by (rule quotient_scale[OF assms nd])
  then obtain c where c: "10 ^ k = d * c" by blast
  have "0 < d * c" using c by (metis zero_less_numeral zero_less_power)
  then have "0 < c" using d by (simp add: zero_less_mult_iff)
  then have m: "int m = \<bar>n\<bar> * c"
    using d c by (simp add: m_def mult.left_commute[of "\<bar>n\<bar>"])
  have c10: "(10 ^ k :: rat) = of_int d * of_int c"
    using c by (metis of_int_mult of_int_numeral of_int_power)
  have "(of_nat m :: rat) = of_int (\<bar>n\<bar> * c)" using m by (metis of_int_of_nat_eq)
  then have "(of_nat m :: rat) / 10 ^ k = of_int \<bar>n\<bar> / of_int d"
    using c10 d power_not_zero[of "10 :: rat" k] by (simp add: field_simps)
  then have "of_nat (nat_of_digits (i @ f)) / 10 ^ length f = \<bar>q\<bar>"
    using d by (simp add: parts q abs_divide)
  have neg: "n < 0 \<longleftrightarrow> q < 0" using d by (simp add: q divide_less_0_iff)
  have emp: "f = [] \<longleftrightarrow> k = 0" using parts(2) by (metis length_0_conv)
  have "decimal_string q = (if n < 0 then ''-'' else []) @ i @ (if k = 0 then [] else CHR ''.'' # f)"
    unfolding decimal_string_def nd Let_def prod.case i_def f_def s_def m_def k_def by (rule refl)
  then have "decimal_string q = (if q < 0 then ''-'' else []) @ i @ (if f = [] then [] else CHR ''.'' # f)"
    unfolding neg emp .
  with parts \<open>of_nat (nat_of_digits (i @ f)) / 10 ^ length f = \<bar>q\<bar>\<close> show ?thesis
    by (intro that)
qed

lemma parse_unsigned_string [simp]:
  assumes "is_decimal q" and "0 \<le> q"
  shows "parse_unsigned (decimal_string q) = Some q"
proof -
  obtain i f where "i \<noteq> []" "list_all is_digit i" "\<not> (1 < length i \<and> hd i = CHR ''0'')"
    "list_all is_digit f" "of_nat (nat_of_digits (i @ f)) / 10 ^ length f = \<bar>q\<bar>"
    "decimal_string q = (if q < 0 then ''-'' else []) @ i @ (if f = [] then [] else CHR ''.'' # f)"
    by (rule decimal_string_parts[OF assms(1)])
  with parse_unsigned_parts[of i f] assms(2) show ?thesis by simp
qed

lemma parse_signed_string [simp]:
  assumes "is_decimal q"
  shows "parse_signed (decimal_string q) = Some q"
proof -
  obtain i f where if_parts: "i \<noteq> []" "list_all is_digit i" "\<not> (1 < length i \<and> hd i = CHR ''0'')"
    "list_all is_digit f" "of_nat (nat_of_digits (i @ f)) / 10 ^ length f = \<bar>q\<bar>"
    "decimal_string q = (if q < 0 then ''-'' else []) @ i @ (if f = [] then [] else CHR ''.'' # f)"
    by (rule decimal_string_parts[OF assms])
  have "hd i \<noteq> CHR ''-''" using if_parts(1,2) by (cases i) auto
  with if_parts parse_unsigned_parts[of i f] show ?thesis
    by (cases "q < 0") (simp_all add: parse_signed_def)
qed

lemma decimal_string_inject: "is_decimal a \<Longrightarrow> is_decimal b \<Longrightarrow> decimal_string a = decimal_string b \<longleftrightarrow> a = b"
  by (metis option.inject parse_signed_string)

lemma decimal_string_0 [simp]: "decimal_string 0 = ''0''"
  by code_simp

lemma is_decimal_digits: "is_decimal (of_nat m / 10 ^ k)"
  unfolding is_decimal_def by (rule exI[of _ k], rule exI[of _ "int m"]) simp

lemma parse_unsigned_decimal:
  assumes "parse_unsigned s = Some q"
  shows "is_decimal q" and "0 \<le> q"
proof -
  define i r where "i = takeWhile is_digit s" and "r = dropWhile is_digit s"
  from assms have "q = of_nat (nat_of_digits i) \<or> q = of_nat (nat_of_digits (i @ tl r)) / 10 ^ length (tl r)"
    by (auto simp: parse_unsigned_def Let_def i_def r_def split: if_splits)
  then show "is_decimal q" "0 \<le> q" using is_decimal_digits[of "nat_of_digits i" 0] by (auto simp: is_decimal_digits)
qed

lemma parse_signed_decimal: "parse_signed s = Some q \<Longrightarrow> is_decimal q"
  by (auto simp: parse_signed_def dest: parse_unsigned_decimal split: if_splits)

lemma parse_unsigned_signed: "parse_unsigned s = Some q \<Longrightarrow> parse_signed s = Some q"
  by (cases s) (auto simp: parse_signed_def parse_unsigned_def Let_def)

section \<open>Arithmetic in a context\<close>

text \<open>Python's default context has 28 digits; \<open>_PRECISION\<close> of the engines is 80.\<close>

abbreviation prec :: nat where "prec \<equiv> 28"
abbreviation wide :: nat where "wide \<equiv> 80"

definition dadd :: "nat \<Rightarrow> dec \<Rightarrow> dec \<Rightarrow> dec" where
  "dadd p a b = dec_round p (a + b)"

definition dsub :: "nat \<Rightarrow> dec \<Rightarrow> dec \<Rightarrow> dec" where
  "dsub p a b = dec_round p (a - b)"

definition dmul :: "nat \<Rightarrow> dec \<Rightarrow> dec \<Rightarrow> dec" where
  "dmul p a b = dec_round p (a * b)"

text \<open>A quotient whose divisor the code has tested; and one it has not, which raises on zero.\<close>

definition dquot :: "nat \<Rightarrow> dec \<Rightarrow> dec \<Rightarrow> dec" where
  "dquot p a b = dec_round p (a / b)"

definition ddiv :: "nat \<Rightarrow> dec \<Rightarrow> dec \<Rightarrow> dec result" where
  "ddiv p a b =
     (if b = 0 then raise PyZeroDivisionError ''division by zero'' else Inr (dquot p a b))"

text \<open>Unary minus and \<open>abs\<close> round to the context, too.\<close>

definition dneg :: "nat \<Rightarrow> dec \<Rightarrow> dec" where
  "dneg p a = dec_round p (- a)"

definition dabs :: "nat \<Rightarrow> dec \<Rightarrow> dec" where
  "dabs p a = dec_round p \<bar>a\<bar>"

text \<open>\<open>sum(values, Decimal(0))\<close>\<close>

definition dsum :: "nat \<Rightarrow> dec list \<Rightarrow> dec" where
  "dsum p xs = foldl (dadd p) 0 xs"

text \<open>\<open>to_integral_value(rounding=ROUND_DOWN)\<close>\<close>

definition round_down :: "dec \<Rightarrow> dec" where
  "round_down q = (if q < 0 then - of_int \<lfloor>- q\<rfloor> else of_int \<lfloor>q\<rfloor>)"

lemmas dec_ops = dadd_def dsub_def dmul_def dquot_def dneg_def dabs_def

lemma is_decimal_ops [simp]:
  "is_decimal (dadd p a b)" "is_decimal (dsub p a b)" "is_decimal (dmul p a b)"
  "is_decimal (dquot p a b)" "is_decimal (dneg p a)" "is_decimal (dabs p a)"
  by (simp_all add: dec_ops)

lemma is_decimal_round_down [simp]: "is_decimal (round_down q)"
  by (simp add: round_down_def)

lemma dsum_Nil [simp]: "dsum p [] = 0"
  by (simp add: dsum_def)

lemma dsum_snoc: "dsum p (xs @ [x]) = dadd p (dsum p xs) x"
  by (simp add: dsum_def)

lemma is_decimal_dsum [simp]: "is_decimal (dsum p xs)"
  by (induction xs rule: rev_induct) (simp_all add: dsum_snoc)

lemma ddiv_Inr_iff: "ddiv p a b = Inr c \<longleftrightarrow> b \<noteq> 0 \<and> c = dquot p a b"
  by (auto simp: ddiv_def)

lemma round_down_bounds: "0 \<le> q \<Longrightarrow> 0 \<le> round_down q \<and> round_down q \<le> q \<and> q < round_down q + 1"
  by (auto simp: round_down_def) linarith


section \<open>Rounding on integers, for evaluation\<close>

definition div_half_even :: "int \<Rightarrow> int \<Rightarrow> int" where
  "div_half_even a b =
     (let f = a div b; r = 2 * (a mod b)
      in if r < b then f else if b < r then f + 1 else if even f then f else f + 1)"

lemma round_half_even_quotient: "0 < b \<Longrightarrow> round_half_even (of_int a / of_int b) = div_half_even a b"
proof -
  assume b: "0 < b"
  have f: "\<lfloor>of_int a / of_int b :: rat\<rfloor> = a div b" by (rule floor_divide_of_int_eq)
  have e: "(of_int a :: rat) = of_int (a div b) * of_int b + of_int (a mod b)"
    by (metis div_mult_mod_eq of_int_add of_int_mult)
  have r: "(of_int a / of_int b :: rat) - of_int (a div b) = of_int (a mod b) / of_int b"
    using b by (subst e) (simp add: add_divide_distrib)
  have lt: "(of_int (a mod b) / of_int b :: rat) < 1 / 2 \<longleftrightarrow> 2 * (a mod b) < b"
    and gt: "(1 / 2 :: rat) < of_int (a mod b) / of_int b \<longleftrightarrow> b < 2 * (a mod b)"
  proof -
    have "(of_int (a mod b) / of_int b :: rat) < 1 / 2 \<longleftrightarrow> (of_int (2 * (a mod b)) :: rat) < of_int b"
      "(1 / 2 :: rat) < of_int (a mod b) / of_int b \<longleftrightarrow> (of_int b :: rat) < of_int (2 * (a mod b))"
      using b by (simp_all add: field_simps)
    then show "(of_int (a mod b) / of_int b :: rat) < 1 / 2 \<longleftrightarrow> 2 * (a mod b) < b"
      "(1 / 2 :: rat) < of_int (a mod b) / of_int b \<longleftrightarrow> b < 2 * (a mod b)"
      by (simp_all only: of_int_less_iff)
  qed
  show ?thesis
    unfolding round_half_even_def div_half_even_def Let_def f r lt gt by (rule refl)
qed

lemma magnitude_code [code]:
  "magnitude q =
     (let (n, d) = quotient_of \<bar>q\<bar>;
          e = int (num_digits (nat n)) - int (num_digits (nat d));
          ok = (if 0 \<le> e then 10 ^ nat e * d \<le> n else d \<le> n * 10 ^ nat (- e))
      in if ok then e else e - 1)"
proof -
  obtain n d where nd: "quotient_of \<bar>q\<bar> = (n, d)" by (cases "quotient_of \<bar>q\<bar>")
  have d: "0 < d" by (rule quotient_of_denom_pos[OF nd])
  have q: "\<bar>q\<bar> = of_int n / of_int d" by (rule quotient_of_div[OF nd])
  have "(10 :: rat) powi e \<le> \<bar>q\<bar> \<longleftrightarrow> (if 0 \<le> e then 10 ^ nat e * d \<le> n else d \<le> n * 10 ^ nat (- e))" for e
  proof (cases "0 \<le> e")
    case True
    then have "(10 :: rat) powi e \<le> \<bar>q\<bar> \<longleftrightarrow> (of_int (10 ^ nat e * d) :: rat) \<le> of_int n"
      using d by (simp add: q power_int_def field_simps)
    with True show ?thesis by (simp only: of_int_le_iff) simp
  next
    case False
    define X :: int where "X = 10 ^ nat (- e)"
    have "0 < X" by (simp add: X_def)
    have pe: "(10 :: rat) powi e = inverse (of_int X)"
      using False by (simp only: power_int_def if_False power_inverse X_def of_int_power of_int_numeral)
    have "(10 :: rat) powi e \<le> \<bar>q\<bar> \<longleftrightarrow> (of_int d :: rat) \<le> of_int (n * X)"
      unfolding pe q inverse_eq_divide using d \<open>0 < X\<close> by (simp add: field_simps)
    with False X_def show ?thesis by (simp only: of_int_le_iff) simp
  qed
  then show ?thesis by (simp add: magnitude_def nd Let_def)
qed

lemma dec_round_code [code]:
  "dec_round p q =
     (if q = 0 then 0
      else let (n, d) = quotient_of q; s = magnitude q - int p + 1
           in if s \<le> 0
              then let N = n * 10 ^ nat (- s)
                   in if d dvd N then q else of_int (div_half_even N d) / of_int (10 ^ nat (- s))
              else let D = d * 10 ^ nat s
                   in if D dvd n then q else of_int (div_half_even n D * 10 ^ nat s))"
proof (cases "q = 0")
  case False
  obtain n d where nd: "quotient_of q = (n, d)" by (cases "quotient_of q")
  have d: "0 < d" by (rule quotient_of_denom_pos[OF nd])
  have q: "q = of_int n / of_int d" by (rule quotient_of_div[OF nd])
  define s where "s = magnitude q - int p + 1"
  have exact: "of_int (div_half_even a b) = (of_int a / of_int b :: rat)" if "b dvd a" "0 < b" for a b
    using that by (auto simp: div_half_even_def)
  have dr: "dec_round p q = of_int (round_half_even (q / 10 powi s)) * 10 powi s"
    using False by (simp add: dec_round_def Let_def s_def)
  show ?thesis
  proof (cases "s \<le> 0")
    case True
    then have u: "(10 :: rat) powi s = inverse (10 ^ nat (- s))"
      by (cases "s = 0") (simp_all only: power_int_def if_False power_inverse, auto simp: power_int_def)
    have eq: "q / 10 powi s = of_int (n * 10 ^ nat (- s)) / of_int d"
      unfolding u q by (simp only: divide_inverse inverse_inverse_eq of_int_mult of_int_power
          of_int_numeral ac_simps)
    have "dec_round p q = of_int (div_half_even (n * 10 ^ nat (- s)) d) / 10 ^ nat (- s)"
    proof -
      have "dec_round p q = of_int (div_half_even (n * 10 ^ nat (- s)) d) * 10 powi s"
        unfolding dr eq round_half_even_quotient[OF d] by (rule refl)
      then show ?thesis unfolding u divide_inverse .
    qed
    moreover have "of_int (div_half_even (n * 10 ^ nat (- s)) d) / 10 ^ nat (- s) = q"
      if "d dvd n * 10 ^ nat (- s)"
      using exact[OF that d] by (simp add: q)
    ultimately show ?thesis
      unfolding nd prod.case Let_def s_def [symmetric] using True False by simp
  next
    case s: False
    then have u: "(10 :: rat) powi s = 10 ^ nat s" by (simp add: power_int_def)
    have "q / 10 powi s = of_int n / of_int (d * 10 ^ nat s)" by (simp add: q u)
    then have "dec_round p q = of_int (div_half_even n (d * 10 ^ nat s) * 10 ^ nat s)"
      using d by (simp add: dr u round_half_even_quotient del: of_int_mult) simp
    moreover have "of_int (div_half_even n (d * 10 ^ nat s) * 10 ^ nat s) = q"
      if "d * 10 ^ nat s dvd n"
      using exact[OF that] d by (simp add: q)
    ultimately show ?thesis
      unfolding nd prod.case Let_def s_def [symmetric] using s False by simp
  qed
qed simp

section \<open>The laws of a context\<close>

text \<open>
  What the engines rely on in a context: rounding keeps order and sign, is its own fixed point, and
  keeps zero and one. Both precisions in use are instances.
\<close>

locale decimal_context =
  fixes rnd :: "dec \<Rightarrow> dec"
  assumes rnd_minus: "rnd (- a) = - rnd a"
    and rnd_mono: "a \<le> b \<Longrightarrow> rnd a \<le> rnd b"
    and rnd_idem: "rnd (rnd a) = rnd a"
    and rnd_pos: "0 < a \<Longrightarrow> 0 < rnd a"
    and rnd_1: "rnd 1 = 1"
begin

lemma rnd_0: "rnd 0 = 0"
  using rnd_minus[of 0] by simp

lemma rnd_nonneg_iff: "0 \<le> rnd a \<longleftrightarrow> 0 \<le> a"
  using rnd_pos[of a] rnd_pos[of "- a"] rnd_minus[of a] rnd_0 by (metis linorder_not_le
      neg_0_less_iff_less less_imp_le order.strict_iff_order)

lemma rnd_pos_iff: "0 < rnd a \<longleftrightarrow> 0 < a"
  by (metis neg_less_0_iff_less not_le rnd_minus rnd_nonneg_iff rnd_pos)

lemma rnd_zero_iff: "rnd a = 0 \<longleftrightarrow> a = 0"
  by (metis linorder_neqE_linordered_idom rnd_0 rnd_nonneg_iff rnd_pos_iff not_less less_irrefl)

lemma rnd_le_fixed: "a \<le> b \<Longrightarrow> rnd b = b \<Longrightarrow> rnd a \<le> b"
  using rnd_mono[of a b] by simp

lemma rnd_ge_fixed: "b \<le> a \<Longrightarrow> rnd b = b \<Longrightarrow> b \<le> rnd a"
  using rnd_mono[of b a] by simp

lemma fold_add_nonneg:
  "0 \<le> s \<Longrightarrow> (\<And>x. x \<in> set xs \<Longrightarrow> 0 \<le> x) \<Longrightarrow> 0 \<le> foldl (\<lambda>a b. rnd (a + b)) s xs"
  by (induction xs arbitrary: s) (simp_all add: rnd_nonneg_iff)

lemma fold_add_mono:
  "s \<le> t \<Longrightarrow> list_all2 (\<le>) xs ys \<Longrightarrow>
    foldl (\<lambda>a b. rnd (a + b)) s xs \<le> foldl (\<lambda>a b. rnd (a + b)) t ys"
  by (rotate_tac 1, induction xs ys arbitrary: s t rule: list_all2_induct)
    (simp_all add: rnd_mono add_mono)

lemma fold_add_fixed: "rnd s = s \<Longrightarrow> rnd (foldl (\<lambda>a b. rnd (a + b)) s xs) = foldl (\<lambda>a b. rnd (a + b)) s xs"
  by (induction xs arbitrary: s) (simp_all add: rnd_idem)

end

lemma dec_round_1: "1 \<le> p \<Longrightarrow> dec_round p 1 = 1"
  using dec_round_exact[OF fits_of_int[of 1 p]] by simp

lemma decimal_context_round: "1 \<le> p \<Longrightarrow> decimal_context (dec_round p)"
  by unfold_locales (simp_all add: dec_round_mono dec_round_pos dec_round_1)

interpretation ctx28: decimal_context "dec_round prec"
  by (rule decimal_context_round) simp

interpretation ctx80: decimal_context "dec_round wide"
  by (rule decimal_context_round) simp

lemma dadd_nonneg [decimal_simps]: "0 \<le> a \<Longrightarrow> 0 \<le> b \<Longrightarrow> 0 \<le> dadd prec a b"
  by (simp add: dadd_def ctx28.rnd_nonneg_iff)

lemma dmul_nonneg [decimal_simps]: "0 \<le> a \<Longrightarrow> 0 \<le> b \<Longrightarrow> 0 \<le> dmul prec a b"
  by (simp add: dmul_def ctx28.rnd_nonneg_iff)

lemma dmul_wide_nonneg [decimal_simps]: "0 \<le> a \<Longrightarrow> 0 \<le> b \<Longrightarrow> 0 \<le> dmul wide a b"
  by (simp add: dmul_def ctx80.rnd_nonneg_iff)

lemma dquot_nonneg [decimal_simps]: "0 \<le> a \<Longrightarrow> 0 \<le> b \<Longrightarrow> 0 \<le> dquot prec a b"
  by (simp add: dquot_def ctx28.rnd_nonneg_iff)

lemma dabs_nonneg [decimal_simps]: "0 \<le> dabs prec a"
  by (simp add: dabs_def ctx28.rnd_nonneg_iff)

lemma dadd_0 [decimal_simps]: "dadd prec a 0 = dec_round prec a" "dadd prec 0 a = dec_round prec a"
  by (simp_all add: dadd_def)

lemma dmul_0 [simp]: "dmul p a 0 = 0" "dmul p 0 a = 0"
  by (simp_all add: dmul_def)

lemma dadd_fixed [decimal_simps]: "dec_round prec (dadd prec a b) = dadd prec a b"
  by (simp add: dadd_def)

lemma dsum_fixed [decimal_simps]: "dec_round prec (dsum prec xs) = dsum prec xs"
  unfolding dsum_def using ctx28.fold_add_fixed[of 0 xs] by (simp add: dadd_def [abs_def])

lemma dsum_nonneg [decimal_simps]: "(\<And>x. x \<in> set xs \<Longrightarrow> 0 \<le> x) \<Longrightarrow> 0 \<le> dsum prec xs"
  unfolding dsum_def using ctx28.fold_add_nonneg[of 0 xs] by (simp add: dadd_def [abs_def])

end
