(* ===== verification/Calendar_Time.thy ===== *)
theory Calendar_Time
  imports Decimals
begin

text \<open>
  Python's \<open>datetime.date\<close> and aware UTC \<open>datetime.datetime\<close>, as far as the engines use them:
  comparison, ISO strings, month and year, ISO week numbers. Every timestamp the loaders admit
  ends in \<open>Z\<close>, so a timestamp is its UTC fields and \<open>astimezone(UTC)\<close> is the identity.
\<close>

section \<open>Dates\<close>

datatype date = Date (dt_year: nat) (dt_month: nat) (dt_day: nat)

instantiation date :: linorder
begin

definition less_eq_date :: "date \<Rightarrow> date \<Rightarrow> bool" where
  "less_eq_date a b \<longleftrightarrow> (dt_year a, dt_month a, dt_day a) \<le> (dt_year b, dt_month b, dt_day b)"

definition less_date :: "date \<Rightarrow> date \<Rightarrow> bool" where
  "less_date a b \<longleftrightarrow> (dt_year a, dt_month a, dt_day a) < (dt_year b, dt_month b, dt_day b)"

instance
  by standard (auto simp: less_eq_date_def less_date_def date.expand)

end

fun is_leap :: "nat \<Rightarrow> bool" where
  "is_leap y \<longleftrightarrow> y mod 4 = 0 \<and> (y mod 100 \<noteq> 0 \<or> y mod 400 = 0)"

definition days_in_month :: "nat \<Rightarrow> nat \<Rightarrow> nat" where
  "days_in_month y m =
     (if m = 2 then (if is_leap y then 29 else 28)
      else if m \<in> {4, 6, 9, 11} then 30 else 31)"

definition valid_date :: "date \<Rightarrow> bool" where
  "valid_date d \<longleftrightarrow> 1 \<le> dt_year d \<and> dt_year d \<le> 9999 \<and> 1 \<le> dt_month d \<and> dt_month d \<le> 12
     \<and> 1 \<le> dt_day d \<and> dt_day d \<le> days_in_month (dt_year d) (dt_month d)"

text \<open>The proleptic Gregorian ordinal of \<open>Lib/datetime.py\<close>: 1 is 0001-01-01.\<close>

definition days_before_year :: "nat \<Rightarrow> int" where
  "days_before_year y = (let z = int y - 1 in z * 365 + z div 4 - z div 100 + z div 400)"

definition days_before_month :: "nat \<Rightarrow> nat \<Rightarrow> int" where
  "days_before_month y m = (\<Sum>k\<leftarrow>[1..<m]. int (days_in_month y k))"

definition ymd2ord :: "nat \<Rightarrow> nat \<Rightarrow> nat \<Rightarrow> int" where
  "ymd2ord y m d = days_before_year y + days_before_month y m + int d"

definition isoweek1monday :: "nat \<Rightarrow> int" where
  "isoweek1monday y =
     (let first = ymd2ord y 1 1;
          weekday = (first + 6) mod 7;
          monday = first - weekday
      in if weekday > 3 then monday + 7 else monday)"

text \<open>\<open>isocalendar()[:2]\<close>: the ISO year and week.\<close>

definition iso_year_week :: "date \<Rightarrow> nat \<times> int" where
  "iso_year_week t =
     (let y = dt_year t;
          today = ymd2ord y (dt_month t) (dt_day t);
          week = (today - isoweek1monday y) div 7
      in if week < 0 then (y - 1, (today - isoweek1monday (y - 1)) div 7 + 1)
         else if week \<ge> 52 \<and> today \<ge> isoweek1monday (y + 1) then (y + 1, 1)
         else (y, week + 1))"

subsection \<open>ISO strings\<close>

text \<open>A field of fixed width: the number, zero padded.\<close>

definition zfield :: "nat \<Rightarrow> nat \<Rightarrow> string" where
  "zfield w n = pad w (nat_string n)"

definition isoformat :: "date \<Rightarrow> string" where
  "isoformat d = zfield 4 (dt_year d) @ ''-'' @ zfield 2 (dt_month d) @ ''-'' @ zfield 2 (dt_day d)"

text \<open>
  \<open>date.fromisoformat\<close> on \<open>YYYY-MM-DD\<close>, the only form the modelled code ever writes, and the only
  one the pattern \<open>^[0-9]{4}-[0-9]{2}-[0-9]{2}$\<close> admits before it parses.
\<close>

definition parse_date :: "string \<Rightarrow> date option" where
  "parse_date s =
     (let y = take 4 s; m = take 2 (drop 5 s); d = take 2 (drop 8 s);
          t = Date (nat_of_digits y) (nat_of_digits m) (nat_of_digits d)
      in if length s = 10 \<and> s ! 4 = CHR ''-'' \<and> s ! 7 = CHR ''-''
            \<and> list_all is_digit y \<and> list_all is_digit m \<and> list_all is_digit d \<and> valid_date t
         then Some t else None)"

lemma num_digits_le: "n < 10 ^ w \<Longrightarrow> 0 < w \<Longrightarrow> num_digits n \<le> w"
proof (rule ccontr)
  assume a: "n < 10 ^ w" "0 < w" "\<not> num_digits n \<le> w"
  show False
  proof (cases "n = 0")
    case True
    with a show False by (subst (asm) num_digits.simps) simp
  next
    case False
    then have "10 ^ (num_digits n - 1) \<le> n" by (intro num_digits_lower) simp
    moreover have "(10 :: nat) ^ w \<le> 10 ^ (num_digits n - 1)"
      using a(3) by (intro power_increasing) simp_all
    ultimately show False using a(1) by linarith
  qed
qed

lemma length_zfield: "n < 10 ^ w \<Longrightarrow> 0 < w \<Longrightarrow> length (zfield w n) = w"
  using num_digits_le[of n w] by (simp add: zfield_def length_pad length_nat_string)

lemma zfield_digits [simp]: "list_all is_digit (zfield w n)"
  by (simp add: zfield_def)

lemma nat_of_digits_zfield [simp]: "nat_of_digits (zfield w n) = n"
  by (simp add: zfield_def)

lemma zfield_less_iff: "a < 10 ^ w \<Longrightarrow> b < 10 ^ w \<Longrightarrow> 0 < w \<Longrightarrow> zfield w a < zfield w b \<longleftrightarrow> a < b"
  by (subst digits_less_iff) (simp_all add: length_zfield)

lemma days_in_month_le: "days_in_month y m \<le> 31"
  by (simp add: days_in_month_def)

lemma valid_date_widths:
  assumes "valid_date d"
  shows "length (zfield 4 (dt_year d)) = 4" "length (zfield 2 (dt_month d)) = 2"
    "length (zfield 2 (dt_day d)) = 2"
  using assms days_in_month_le[of "dt_year d" "dt_month d"]
  by (auto intro!: length_zfield simp: valid_date_def)

lemma parse_date_isoformat [simp]: "valid_date d \<Longrightarrow> parse_date (isoformat d) = Some d"
  by (simp add: parse_date_def isoformat_def valid_date_widths nth_append Let_def)

lemma isoformat_inject: "valid_date a \<Longrightarrow> valid_date b \<Longrightarrow> isoformat a = isoformat b \<longleftrightarrow> a = b"
  by (metis option.inject parse_date_isoformat)

lemma parse_date_valid: "parse_date s = Some d \<Longrightarrow> valid_date d"
  by (auto simp: parse_date_def Let_def split: if_splits)

lemma list_less_append:
  fixes a :: "'a::linorder list"
  shows "length a = length b \<Longrightarrow> a @ s < b @ t \<longleftrightarrow> a < b \<or> a = b \<and> s < t"
  by (induction a b rule: list_induct2) auto

text \<open>ISO strings sort as the dates they write, so the code may compare either.\<close>

lemma isoformat_less_iff:
  assumes "valid_date a" and "valid_date b"
  shows "isoformat a < isoformat b \<longleftrightarrow> a < b"
proof -
  note w = valid_date_widths[OF assms(1)] valid_date_widths[OF assms(2)]
  have y: "dt_year a < 10 ^ 4" "dt_year b < 10 ^ 4" and m: "dt_month a < 10 ^ 2" "dt_month b < 10 ^ 2"
    and d: "dt_day a < 10 ^ 2" "dt_day b < 10 ^ 2"
    using assms days_in_month_le[of "dt_year a" "dt_month a"] days_in_month_le[of "dt_year b" "dt_month b"]
    by (auto simp: valid_date_def)
  have eq: "zfield w i = zfield w j \<longleftrightarrow> i = j" for w i j by (metis nat_of_digits_zfield)
  have "isoformat a < isoformat b \<longleftrightarrow>
      zfield 4 (dt_year a) < zfield 4 (dt_year b) \<or> zfield 4 (dt_year a) = zfield 4 (dt_year b) \<and>
      (zfield 2 (dt_month a) < zfield 2 (dt_month b) \<or> zfield 2 (dt_month a) = zfield 2 (dt_month b) \<and>
       zfield 2 (dt_day a) < zfield 2 (dt_day b))"
    by (simp add: isoformat_def list_less_append w)
  also have "\<dots> \<longleftrightarrow> a < b"
    using y m d by (auto simp: zfield_less_iff eq less_date_def)
  finally show ?thesis .
qed

lemma isoformat_le_iff:
  assumes "valid_date a" and "valid_date b"
  shows "isoformat a \<le> isoformat b \<longleftrightarrow> a \<le> b"
  using isoformat_less_iff[OF assms(2,1)] by (metis linorder_not_less)

section \<open>Timestamps\<close>

datatype datetime =
  Datetime (dt_date: date) (dt_hour: nat) (dt_minute: nat) (dt_second: nat) (dt_micro: nat)

instantiation datetime :: linorder
begin

definition less_eq_datetime :: "datetime \<Rightarrow> datetime \<Rightarrow> bool" where
  "less_eq_datetime a b \<longleftrightarrow>
     (dt_date a, dt_hour a, dt_minute a, dt_second a, dt_micro a)
       \<le> (dt_date b, dt_hour b, dt_minute b, dt_second b, dt_micro b)"

definition less_datetime :: "datetime \<Rightarrow> datetime \<Rightarrow> bool" where
  "less_datetime a b \<longleftrightarrow>
     (dt_date a, dt_hour a, dt_minute a, dt_second a, dt_micro a)
       < (dt_date b, dt_hour b, dt_minute b, dt_second b, dt_micro b)"

instance
  by standard (auto simp: less_eq_datetime_def less_datetime_def datetime.expand)

end

definition valid_datetime :: "datetime \<Rightarrow> bool" where
  "valid_datetime t \<longleftrightarrow> valid_date (dt_date t) \<and> dt_hour t < 24 \<and> dt_minute t < 60
     \<and> dt_second t < 60 \<and> dt_micro t < 1000000"

text \<open>\<open>str.rstrip("0")\<close>\<close>

definition rstrip0 :: "string \<Rightarrow> string" where
  "rstrip0 s = rev (dropWhile (\<lambda>c. c = CHR ''0'') (rev s))"

text \<open>\<open>timestamp\<close> (\<open>_timestamp\<close> in the backtest engine): seconds, then microseconds without
  trailing zeros if there are any, then \<open>Z\<close>.\<close>

definition clock :: "datetime \<Rightarrow> string" where
  "clock t = zfield 2 (dt_hour t) @ '':'' @ zfield 2 (dt_minute t) @ '':'' @ zfield 2 (dt_second t)"

definition timestamp :: "datetime \<Rightarrow> string" where
  "timestamp t =
     isoformat (dt_date t) @ ''T'' @ clock t
       @ (if dt_micro t = 0 then [] else rstrip0 (''.'' @ zfield 6 (dt_micro t))) @ ''Z''"

text \<open>\<open>str(datetime)\<close> of an aware UTC time.\<close>

definition str_datetime :: "datetime \<Rightarrow> string" where
  "str_datetime t =
     isoformat (dt_date t) @ '' '' @ clock t
       @ (if dt_micro t = 0 then [] else ''.'' @ zfield 6 (dt_micro t)) @ ''+00:00''"

text \<open>
  \<open>datetime.fromisoformat\<close> on the pattern \<open>YYYY-MM-DDTHH:MM:SS(\.[0-9]{1,6})?Z\<close>; a shorter fraction
  is filled up with zeros on the right.
\<close>

definition parse_fraction :: "string \<Rightarrow> nat option" where
  "parse_fraction s =
     (if s = [] then Some 0
      else if hd s = CHR ''.'' \<and> tl s \<noteq> [] \<and> length (tl s) \<le> 6 \<and> list_all is_digit (tl s)
      then Some (nat_of_digits (tl s) * 10 ^ (6 - length (tl s)))
      else None)"

definition parse_datetime :: "string \<Rightarrow> datetime option" where
  "parse_datetime s =
     (let h = take 2 (drop 11 s); m = take 2 (drop 14 s); c = take 2 (drop 17 s);
          f = butlast (drop 19 s)
      in if 20 \<le> length s \<and> s ! 10 = CHR ''T'' \<and> s ! 13 = CHR '':'' \<and> s ! 16 = CHR '':''
            \<and> last s = CHR ''Z'' \<and> list_all is_digit h \<and> list_all is_digit m \<and> list_all is_digit c
         then (case (parse_date (take 10 s), parse_fraction f) of
                 (Some d, Some u) \<Rightarrow>
                   (let t = Datetime d (nat_of_digits h) (nat_of_digits m) (nat_of_digits c) u
                    in if valid_datetime t then Some t else None)
               | _ \<Rightarrow> None)
         else None)"

lemma length_clock:
  "valid_datetime t \<Longrightarrow> length (zfield 2 (dt_hour t)) = 2 \<and> length (zfield 2 (dt_minute t)) = 2
    \<and> length (zfield 2 (dt_second t)) = 2"
  by (simp add: length_zfield valid_datetime_def)

lemma length_isoformat: "valid_date d \<Longrightarrow> length (isoformat d) = 10"
  by (simp add: isoformat_def valid_date_widths)

lemma rstrip0_split: obtains k where "s = rstrip0 s @ replicate k CHR ''0''"
proof -
  have "rev s = takeWhile (\<lambda>c. c = CHR ''0'') (rev s) @ dropWhile (\<lambda>c. c = CHR ''0'') (rev s)"
    by simp
  moreover have "takeWhile (\<lambda>c. c = CHR ''0'') (rev s)
      = replicate (length (takeWhile (\<lambda>c. c = CHR ''0'') (rev s))) CHR ''0''"
    by (rule replicate_length_same [symmetric]) (auto dest: set_takeWhileD)
  ultimately have "s = rstrip0 s @ rev (replicate (length (takeWhile (\<lambda>c. c = CHR ''0'') (rev s))) CHR ''0'')"
    unfolding rstrip0_def by (metis rev_append rev_rev_ident)
  then show ?thesis by (intro that) simp
qed

lemma rstrip0_Cons: "rstrip0 s \<noteq> [] \<Longrightarrow> rstrip0 (c # s) = c # rstrip0 s"
  by (auto simp: rstrip0_def dropWhile_append dropWhile_eq_Nil_conv)

lemma nat_of_digits_zeros_right:
  "nat_of_digits (s @ replicate k CHR ''0'') = nat_of_digits s * 10 ^ k"
proof -
  have "nat_of_digits (replicate k CHR ''0'') = 0"
    using nat_of_digits_zeros[of k "[]"] by (simp add: nat_of_digits_def)
  then show ?thesis by (simp add: nat_of_digits_append)
qed

lemma parse_fraction_field:
  assumes "0 < u" and "u < 1000000"
  shows "parse_fraction (rstrip0 (CHR ''.'' # zfield 6 u)) = Some u"
proof -
  obtain k where k: "zfield 6 u = rstrip0 (zfield 6 u) @ replicate k CHR ''0''" by (rule rstrip0_split)
  define r where "r = rstrip0 (zfield 6 u)"
  have k: "zfield 6 u = r @ replicate k CHR ''0''" using k by (simp add: r_def)
  have "length (zfield 6 u) = 6" using assms(2) by (simp add: length_zfield)
  then have len: "length r + k = 6" by (simp add: k)
  have dig: "list_all is_digit r" using zfield_digits[of 6 u] by (simp add: k)
  have val: "nat_of_digits r * 10 ^ k = u"
    using nat_of_digits_zfield[of 6 u] by (simp add: k nat_of_digits_zeros_right)
  then have ne: "r \<noteq> []" using assms(1) by (auto simp: nat_of_digits_def)
  then have "rstrip0 (CHR ''.'' # zfield 6 u) = CHR ''.'' # r" by (simp add: r_def rstrip0_Cons)
  moreover have "6 - length r = k" using len by simp
  ultimately show ?thesis using ne len dig val by (simp add: parse_fraction_def)
qed

lemma parse_datetime_timestamp [simp]:
  assumes "valid_datetime t"
  shows "parse_datetime (timestamp t) = Some t"
proof -
  define f where "f = (if dt_micro t = 0 then [] else rstrip0 (''.'' @ zfield 6 (dt_micro t)))"
  have vd: "valid_date (dt_date t)" using assms by (simp add: valid_datetime_def)
  note len = length_isoformat[OF vd] length_clock[OF assms]
  have f: "parse_fraction f = Some (dt_micro t)"
  proof (cases "dt_micro t = 0")
    case False
    with assms show ?thesis unfolding f_def by (simp add: valid_datetime_def parse_fraction_field)
  qed (simp add: f_def parse_fraction_def)
  have ts: "timestamp t = isoformat (dt_date t) @ ''T'' @ zfield 2 (dt_hour t) @ '':'' @ zfield 2 (dt_minute t)
      @ '':'' @ zfield 2 (dt_second t) @ f @ ''Z''"
    by (simp add: timestamp_def f_def clock_def)
  show ?thesis
    using assms vd f len by (simp add: parse_datetime_def ts nth_append Let_def)
qed

end
