(* ===== verification/Json.thy ===== *)
theory Json
  imports Calendar_Time "HOL-Library.Multiset"
begin

text \<open>
  Parsed JSON documents, and the validators of single values that the loaders and the account
  specification share. The modules repeat these validators with an exception class of their own,
  which is an argument here.
\<close>

section \<open>Documents\<close>

text \<open>
  What \<open>json.loads\<close> returns. The strict readers reject duplicate keys, so an object is an
  association list with distinct keys. Text is modelled by its bytes.
\<close>

datatype json =
    JNull | JBool bool | JInt int | JFloat rat | JStr string
  | JArr "json list" | JObj "(string \<times> json) list"

definition jkeys :: "(string \<times> json) list \<Rightarrow> string list" where
  "jkeys ob = map fst ob"

text \<open>\<open>row[key]\<close>\<close>

definition jget :: "(string \<times> json) list \<Rightarrow> string \<Rightarrow> json result" where
  "jget ob k = (case map_of ob k of None \<Rightarrow> raise PyKeyError k | Some v \<Rightarrow> Inr v)"

text \<open>A check that raises unless it holds.\<close>

definition ensure :: "bool \<Rightarrow> exn \<Rightarrow> unit result" where
  "ensure b e = (if b then Inr () else Inl e)"

lemma ensure_Inr [simp]: "ensure b e = Inr u \<longleftrightarrow> b"
  by (simp add: ensure_def)

lemma bindR_ensure: "bindR (ensure b e) f = (if b then f () else Inl e)"
  by (simp add: ensure_def)

lemma bindR_ensure_Inr [simp]: "bindR (ensure b e) f = Inr v \<longleftrightarrow> b \<and> f () = Inr v"
  by (simp add: ensure_def)

lemma jget_Inr_iff [simp]: "jget ob k = Inr v \<longleftrightarrow> map_of ob k = Some v"
  by (auto simp: jget_def split: option.splits)

section \<open>Patterns\<close>

definition is_lower_hex :: "char \<Rightarrow> bool" where
  "is_lower_hex c \<longleftrightarrow> is_digit c \<or> c \<in> set ''abcdef''"

definition is_upper :: "char \<Rightarrow> bool" where
  "is_upper c \<longleftrightarrow> 65 \<le> (of_char c :: nat) \<and> (of_char c :: nat) \<le> 90"

definition is_lower :: "char \<Rightarrow> bool" where
  "is_lower c \<longleftrightarrow> 97 \<le> (of_char c :: nat) \<and> (of_char c :: nat) \<le> 122"

text \<open>\<open>^[0-9a-f]{8}-[0-9a-f]{4}-[1-5][0-9a-f]{3}-[89ab][0-9a-f]{3}-[0-9a-f]{12}$\<close>; a string of this form
  is a UUID that prints as itself.\<close>

definition is_uuid :: "string \<Rightarrow> bool" where
  "is_uuid s \<longleftrightarrow> length s = 36 \<and> s ! 8 = CHR ''-'' \<and> s ! 13 = CHR ''-'' \<and> s ! 18 = CHR ''-'' \<and> s ! 23 = CHR ''-''
     \<and> list_all is_lower_hex (take 8 s) \<and> list_all is_lower_hex (take 4 (drop 9 s))
     \<and> s ! 14 \<in> set ''12345'' \<and> list_all is_lower_hex (take 3 (drop 15 s))
     \<and> s ! 19 \<in> set ''89ab'' \<and> list_all is_lower_hex (take 3 (drop 20 s))
     \<and> list_all is_lower_hex (drop 24 s)"

definition is_currency :: "string \<Rightarrow> bool" where
  "is_currency s \<longleftrightarrow> length s = 3 \<and> list_all is_upper s"

definition is_sha256 :: "string \<Rightarrow> bool" where
  "is_sha256 s \<longleftrightarrow> length s = 64 \<and> list_all is_lower_hex s"

section \<open>Validators\<close>

definition check_uuid :: "exn_class \<Rightarrow> string \<Rightarrow> json \<Rightarrow> string result" where
  "check_uuid c field v =
     (case v of JStr s \<Rightarrow> if is_uuid s then Inr s else raise c (field @ '' must be a canonical UUID'')
      | _ \<Rightarrow> raise c (field @ '' must be a canonical UUID''))"

definition check_currency :: "exn_class \<Rightarrow> string \<Rightarrow> json \<Rightarrow> string result" where
  "check_currency c field v =
     (case v of JStr s \<Rightarrow>
        if is_currency s then Inr s else raise c (field @ '' must be an uppercase ISO-4217 currency'')
      | _ \<Rightarrow> raise c (field @ '' must be an uppercase ISO-4217 currency''))"

lemma check_uuid_Inr_iff: "check_uuid c f v = Inr s \<longleftrightarrow> v = JStr s \<and> is_uuid s"
  by (auto simp: check_uuid_def split: json.splits)

lemma check_currency_Inr_iff: "check_currency c f v = Inr s \<longleftrightarrow> v = JStr s \<and> is_currency s"
  by (auto simp: check_currency_def split: json.splits)

section \<open>Canonical text\<close>

text \<open>
  \<open>canonical_json\<close> of \<open>research/experiments.py\<close>: \<open>json.dumps\<close> with sorted keys and no white space.
  How a float prints is an argument; the documents of the paper engine hold no floats.
\<close>

definition hex_char :: "nat \<Rightarrow> char" where
  "hex_char d = (if d < 10 then digit_char d else ''abcdef'' ! (d - 10))"

definition json_escape :: "char \<Rightarrow> string" where
  "json_escape c =
     (if c = CHR 0x22 then [CHR 0x5C, CHR 0x22]
      else if c = CHR 0x5C then [CHR 0x5C, CHR 0x5C]
      else if c = CHR 0x0A then [CHR 0x5C, CHR ''n'']
      else if c = CHR 0x0D then [CHR 0x5C, CHR ''r'']
      else if c = CHR 0x09 then [CHR 0x5C, CHR ''t'']
      else if c = CHR 0x0C then [CHR 0x5C, CHR ''f'']
      else if c = CHR 0x08 then [CHR 0x5C, CHR ''b'']
      else if (of_char c :: nat) < 32
        then [CHR 0x5C, CHR ''u'', CHR ''0'', CHR ''0'',
              hex_char (of_char c div 16), hex_char (of_char c mod 16)]
      else [c])"

definition json_quote :: "string \<Rightarrow> string" where
  "json_quote s = [CHR 0x22] @ concat (map json_escape s) @ [CHR 0x22]"

definition int_string :: "int \<Rightarrow> string" where
  "int_string i = (if i < 0 then CHR ''-'' # nat_string (nat (- i)) else nat_string (nat i))"

fun join :: "string \<Rightarrow> string list \<Rightarrow> string" where
  "join sep [] = []"
| "join sep [s] = s"
| "join sep (s # t # ss) = s @ sep @ join sep (t # ss)"

fun canonical_json :: "(rat \<Rightarrow> string) \<Rightarrow> json \<Rightarrow> string" where
  "canonical_json fl JNull = ''null''"
| "canonical_json fl (JBool b) = (if b then ''true'' else ''false'')"
| "canonical_json fl (JInt i) = int_string i"
| "canonical_json fl (JFloat q) = fl q"
| "canonical_json fl (JStr s) = json_quote s"
| "canonical_json fl (JArr vs) = ''['' @ join '','' (map (canonical_json fl) vs) @ '']''"
| "canonical_json fl (JObj ob) =
     ''{'' @ join '','' (map (\<lambda>(k, t). json_quote k @ '':'' @ t)
        (sort_key fst (map (\<lambda>p. (fst p, canonical_json fl (snd p))) ob))) @ ''}''"

text \<open>Equality of parsed documents does not depend on the order of keys.\<close>

fun sort_json :: "json \<Rightarrow> json" where
  "sort_json (JArr vs) = JArr (map sort_json vs)"
| "sort_json (JObj ob) = JObj (sort_key fst (map (\<lambda>p. (fst p, sort_json (snd p))) ob))"
| "sort_json v = v"

definition same_json :: "json \<Rightarrow> json \<Rightarrow> bool" where
  "same_json a b \<longleftrightarrow> sort_json a = sort_json b"

lemma same_json_refl [simp]: "same_json a a"
  by (simp add: same_json_def)

lemma distinct_map_fst_sort [simp]: "distinct (map fst (sort_key f xs)) \<longleftrightarrow> distinct (map fst xs)"
proof -
  have "mset (map fst (sort_key f xs)) = mset (map fst xs)" by simp
  then show ?thesis using mset_eq_imp_distinct_iff by blast
qed

lemma map_of_sort_key: "distinct (map fst xs) \<Longrightarrow> map_of (sort_key fst xs) = map_of xs"
  by (rule map_of_inject_set[THEN iffD2]) (simp_all)

lemma map_of_map_snd: "map_of (map (\<lambda>p. (fst p, f (snd p))) xs) k = map_option f (map_of xs k)"
  by (induction xs) auto

lemma same_json_lookup:
  assumes "same_json (JObj a) (JObj b)" and "distinct (map fst a)" and "distinct (map fst b)"
  shows "map_option sort_json (map_of a k) = map_option sort_json (map_of b k)"
proof -
  let ?s = "\<lambda>ob. sort_key fst (map (\<lambda>p. (fst p, sort_json (snd p))) ob)"
  have "map_of (?s ob) k = map_option sort_json (map_of ob k)" if "distinct (map fst ob)" for ob
    using that by (subst map_of_sort_key) (simp_all add: comp_def map_of_map_snd)
  note this[OF assms(2)] this[OF assms(3)]
  moreover have "?s a = ?s b" using assms(1) by (simp add: same_json_def)
  ultimately show ?thesis by (simp only:)
qed

text \<open>
  The hash and name functions of the standard library, the printing of floats, and the order in which
  iteration over a set of strings meets its elements (it varies with the hash seed of the process).
  The model uses nothing of them but that they are functions; a theorem that needs more says so.
\<close>

record env =
  env_sha256 :: "string \<Rightarrow> string"
  env_uuid5 :: "string \<Rightarrow> string \<Rightarrow> string"
  env_float :: "rat \<Rightarrow> string"
  env_set_order :: "string list \<Rightarrow> string list"

text \<open>\<open>hashlib.sha256(canonical_json(value)).hexdigest()\<close>\<close>

definition json_sha256 :: "env \<Rightarrow> json \<Rightarrow> string" where
  "json_sha256 env v = env_sha256 env (canonical_json (env_float env) v)"

end
