(* ===== verification/Inputs.thy ===== *)
theory Inputs
  imports Json "HOL-Library.Multiset"
begin

text \<open>
  \<open>research/backtest_inputs.py\<close>: the rows a simulation may see, and the loader that checks every
  row before it reaches an engine. Rows are records with the source's keys; \<open>_price_rows\<close> and its
  siblings are folds over the rows of a document that stop at the first offending row.
\<close>

section \<open>Rows\<close>

record price_row =
  p_security_id :: string
  p_session_date :: date
  p_observed_at :: datetime
  p_available_at :: datetime
  p_currency :: string
  p_price_basis :: string
  p_open :: dec
  p_high :: dec
  p_low :: dec
  p_close :: dec
  p_volume :: dec
  p_has_volume :: bool
  p_source_record_id :: "string option"

text \<open>A calendar row; \<open>s_decision_at\<close> is the key that the paper engine adds to the session it runs.\<close>

record session =
  s_session_date :: date
  s_open_at :: datetime
  s_close_at :: datetime
  s_available_at :: datetime
  s_status :: string
  s_decision_at :: "datetime option"

record membership_row =
  m_security_id :: string
  m_valid_from :: date
  m_valid_until :: "date option"
  m_member :: bool
  m_available_at :: datetime
  m_revision :: int

datatype action_type = Split | CashDividend | Delisting

record action_row =
  a_id :: string
  a_security_id :: string
  a_action_type :: action_type
  a_effective_date :: date
  a_payment_date :: "date option"
  a_available_at :: datetime
  a_currency :: string
  a_ratio_numerator :: dec
  a_ratio_denominator :: dec
  a_cash_amount :: dec
  a_settlement_price :: "dec option"
  a_target_security_id :: "string option"

record fx_row =
  f_fixing_at :: datetime
  f_base_currency :: string
  f_quote_currency :: string
  f_rate :: dec
  f_available_at :: datetime

record observation_row =
  o_observation_id :: string
  o_observed_at :: datetime
  o_available_at :: datetime
  o_value :: dec
  o_revision :: int

section \<open>Single values\<close>

abbreviation input_error :: "string \<Rightarrow> 'a result" where
  "input_error m \<equiv> raise BacktestInputError m"

definition parse_utc :: "string \<Rightarrow> json \<Rightarrow> datetime result" where
  "parse_utc field v =
     (case v of
        JStr s \<Rightarrow>
          (case parse_datetime s of
             None \<Rightarrow> input_error (field @ '' must be a canonical UTC timestamp'')
           | Some t \<Rightarrow>
               if s \<noteq> timestamp t then input_error (field @ '' must be a canonical UTC timestamp'')
               else Inr t)
      | _ \<Rightarrow> input_error (field @ '' must be a canonical UTC timestamp''))"

definition parse_date_field :: "string \<Rightarrow> json \<Rightarrow> date result" where
  "parse_date_field field v =
     (case v of
        JStr s \<Rightarrow>
          (case parse_date s of
             None \<Rightarrow> input_error (field @ '' must be an ISO date'')
           | Some d \<Rightarrow> Inr d)
      | _ \<Rightarrow> input_error (field @ '' must be an ISO date''))"

text \<open>The flags are \<open>non_negative\<close> and \<open>positive\<close>.\<close>

definition decimal_field :: "bool \<Rightarrow> bool \<Rightarrow> string \<Rightarrow> json \<Rightarrow> dec result" where
  "decimal_field non_negative positive field v =
     (let label = (if non_negative then ''non-negative'' else ''signed'');
          malformed = input_error (field @ '' must be a canonical '' @ label @ '' decimal string'')
      in case v of
           JStr s \<Rightarrow>
             (case (if non_negative then parse_unsigned s else parse_signed s) of
                None \<Rightarrow> malformed
              | Some q \<Rightarrow>
                  if non_negative \<and> q < 0 then input_error (field @ '' must be non-negative'')
                  else if positive \<and> q \<le> 0 then input_error (field @ '' must be positive'')
                  else Inr q)
         | _ \<Rightarrow> malformed)"

abbreviation uuid_field :: "string \<Rightarrow> json \<Rightarrow> string result" where
  "uuid_field \<equiv> check_uuid BacktestInputError"

abbreviation currency_field :: "string \<Rightarrow> json \<Rightarrow> string result" where
  "currency_field \<equiv> check_currency BacktestInputError"

text \<open>\<open>parse(row[key]) if row[key] is not None else None\<close>\<close>

definition optional_field :: "(json \<Rightarrow> 'a result) \<Rightarrow> json \<Rightarrow> 'a option result" where
  "optional_field parse v = (if v = JNull then Inr None else bindR (parse v) (\<lambda>x. Inr (Some x)))"

definition bool_field :: "exn \<Rightarrow> json \<Rightarrow> bool result" where
  "bool_field e v = (case v of JBool b \<Rightarrow> Inr b | _ \<Rightarrow> Inl e)"

text \<open>A non-negative integer that is not a boolean.\<close>

definition revision_field :: "exn \<Rightarrow> json \<Rightarrow> int result" where
  "revision_field e v = (case v of JInt i \<Rightarrow> if i < 0 then Inl e else Inr i | _ \<Rightarrow> Inl e)"

definition row_error :: "string \<Rightarrow> nat \<Rightarrow> string \<Rightarrow> exn" where
  "row_error kind i message =
     Exn BacktestInputError (kind @ '' row '' @ nat_string i @ '': '' @ message)"

definition row_label :: "string \<Rightarrow> nat \<Rightarrow> string \<Rightarrow> string" where
  "row_label kind i key = kind @ '' row '' @ nat_string i @ ''.'' @ key"

text \<open>\<open>', '.join(parts)\<close>\<close>

fun join_comma :: "string list \<Rightarrow> string" where
  "join_comma [] = ''''"
| "join_comma [s] = s"
| "join_comma (s # ss) = s @ '', '' @ join_comma ss"

definition row_fields ::
  "string list \<Rightarrow> string \<Rightarrow> nat \<Rightarrow> json \<Rightarrow> (string \<times> json) list result" where
  "row_fields expected kind i raw =
     (case raw of
        JObj ob \<Rightarrow>
          if set (jkeys ob) \<subseteq> set expected then Inr ob
          else Inl (row_error kind i (''contains unknown fields: ''
                 @ join_comma (sorted_set (filter (\<lambda>k. k \<notin> set expected) (jkeys ob)))))
      | _ \<Rightarrow> Inl (row_error kind i ''must be an object''))"

definition has_keys :: "string list \<Rightarrow> (string \<times> json) list \<Rightarrow> bool" where
  "has_keys ks ob \<longleftrightarrow> set ks \<subseteq> set (jkeys ob)"

section \<open>Price rows\<close>

definition price_fields :: "string list" where
  "price_fields = [''security_id'', ''session_date'', ''observed_at'', ''available_at'', ''currency'',
     ''price_basis'', ''open'', ''high'', ''low'', ''close'', ''volume'', ''has_volume'',
     ''source_record_id'']"

text \<open>\<open>prices\<close>, the four positive quotes of a row.\<close>

definition price_quotes :: "nat \<Rightarrow> (string \<times> json) list \<Rightarrow> (dec \<times> dec \<times> dec \<times> dec) result" where
  "price_quotes i row =
     (let quote = (\<lambda>key. bindR (jget row key) (decimal_field True True (row_label ''prices'' i key)))
      in bindR (quote ''open'') (\<lambda>op.
         bindR (quote ''high'') (\<lambda>hi.
         bindR (quote ''low'') (\<lambda>lo.
         bindR (quote ''close'') (\<lambda>cl. Inr (op, hi, lo, cl))))))"

definition price_basis_field :: "string list \<Rightarrow> nat \<Rightarrow> json \<Rightarrow> string result" where
  "price_basis_field allowed i v =
     (let refused = (if set allowed = {''raw''} then Inl (row_error ''prices'' i ''price_basis must be raw'')
                     else Inl (row_error ''prices'' i
                            (''price_basis must be one of '' @ join_comma (sorted_set allowed))))
      in case v of JStr s \<Rightarrow> if s \<in> set allowed then Inr s else refused | _ \<Rightarrow> refused)"

definition source_record_field :: "nat \<Rightarrow> (string \<times> json) list \<Rightarrow> string option result" where
  "source_record_field i row =
     (case map_of row ''source_record_id'' of
        None \<Rightarrow> Inr None
      | Some (JStr s) \<Rightarrow>
          if s = [] then Inl (row_error ''prices'' i ''source_record_id must be non-empty'')
          else Inr (Some s)
      | Some _ \<Rightarrow> Inl (row_error ''prices'' i ''source_record_id must be non-empty''))"

text \<open>The rows so far, in document order, carry the identities and price bases seen so far.\<close>

definition price_key :: "price_row \<Rightarrow> string \<times> date" where
  "price_key r = (p_security_id r, p_session_date r)"

definition price_step ::
  "string list \<Rightarrow> price_row list \<Rightarrow> nat \<times> json \<Rightarrow> price_row list result" where
  "price_step allowed acc = (\<lambda>(i, raw).
     bindR (row_fields price_fields ''prices'' i raw) (\<lambda>row.
     bindR (ensure (has_keys (removeAll ''source_record_id'' price_fields) row)
              (row_error ''prices'' i ''is missing required fields'')) (\<lambda>_.
     bindR (bindR (jget row ''security_id'') (uuid_field (row_label ''prices'' i ''security_id''))) (\<lambda>sid.
     bindR (bindR (jget row ''session_date'') (parse_date_field (row_label ''prices'' i ''session_date''))) (\<lambda>day.
     bindR (bindR (jget row ''observed_at'') (parse_utc (row_label ''prices'' i ''observed_at''))) (\<lambda>observed.
     bindR (bindR (jget row ''available_at'') (parse_utc (row_label ''prices'' i ''available_at''))) (\<lambda>available.
     bindR (ensure (\<not> available < observed)
              (row_error ''prices'' i ''available_at must not precede observed_at'')) (\<lambda>_.
     bindR (bindR (jget row ''currency'') (currency_field (row_label ''prices'' i ''currency''))) (\<lambda>currency.
     bindR (bindR (jget row ''price_basis'') (price_basis_field allowed i)) (\<lambda>basis.
     bindR (price_quotes i row) (\<lambda>(op, hi, lo, cl).
     bindR (ensure (\<not> (hi < max op cl \<or> lo > min op cl))
              (row_error ''prices'' i ''high/low do not contain open and close'')) (\<lambda>_.
     bindR (bindR (jget row ''volume'') (decimal_field True False (row_label ''prices'' i ''volume''))) (\<lambda>volume.
     bindR (bindR (jget row ''has_volume'')
              (bool_field (row_error ''prices'' i ''has_volume must be boolean''))) (\<lambda>has_volume.
     bindR (ensure ((sid, day) \<notin> set (map price_key acc))
              (row_error ''prices'' i ''duplicate security/session observation'')) (\<lambda>_.
     bindR (source_record_field i row) (\<lambda>record_id.
     Inr (acc @ [\<lparr>p_security_id = sid, p_session_date = day, p_observed_at = observed,
       p_available_at = available, p_currency = currency, p_price_basis = basis, p_open = op,
       p_high = hi, p_low = lo, p_close = cl, p_volume = volume, p_has_volume = has_volume,
       p_source_record_id = record_id\<rparr>])))))))))))))))))"

definition price_rows :: "string list \<Rightarrow> json list \<Rightarrow> price_row list result" where
  "price_rows allowed rows =
     bindR (foldR (price_step allowed) [] (enumerate 0 rows)) (\<lambda>result.
     bindR (ensure (\<not> 1 < card (set (map p_price_basis result)))
              (Exn BacktestInputError ''prices artifact must not mix price bases'')) (\<lambda>_.
     Inr (sort_key (\<lambda>r. (p_session_date r, p_security_id r)) result)))"

section \<open>Calendar rows\<close>

definition calendar_fields :: "string list" where
  "calendar_fields = [''session_date'', ''open_at'', ''close_at'', ''available_at'', ''session_status'']"

definition calendar_step :: "session list \<Rightarrow> nat \<times> json \<Rightarrow> session list result" where
  "calendar_step acc = (\<lambda>(i, raw).
     bindR (row_fields calendar_fields ''calendar'' i raw) (\<lambda>row.
     bindR (ensure (has_keys (removeAll ''session_status'' calendar_fields) row)
              (row_error ''calendar'' i ''is missing required fields'')) (\<lambda>_.
     bindR (bindR (jget row ''session_date'') (parse_date_field (row_label ''calendar'' i ''session_date''))) (\<lambda>day.
     bindR (bindR (jget row ''open_at'') (parse_utc (row_label ''calendar'' i ''open_at''))) (\<lambda>op.
     bindR (bindR (jget row ''close_at'') (parse_utc (row_label ''calendar'' i ''close_at''))) (\<lambda>cl.
     bindR (bindR (jget row ''available_at'') (parse_utc (row_label ''calendar'' i ''available_at''))) (\<lambda>available.
     bindR (ensure (op < cl) (row_error ''calendar'' i ''open_at must precede close_at'')) (\<lambda>_.
     bindR (ensure (day \<notin> set (map s_session_date acc))
              (row_error ''calendar'' i ''duplicate session date'')) (\<lambda>_.
     bindR (case map_of row ''session_status'' of
              None \<Rightarrow> Inr ''open''
            | Some (JStr s) \<Rightarrow>
                if s \<in> {''open'', ''early_close''} then Inr s
                else Inl (row_error ''calendar'' i ''session_status is unsupported'')
            | Some (JArr _) \<Rightarrow> raise PyTypeError ''unhashable type: list''
            | Some (JObj _) \<Rightarrow> raise PyTypeError ''unhashable type: dict''
            | Some _ \<Rightarrow> Inl (row_error ''calendar'' i ''session_status is unsupported'')) (\<lambda>status.
     Inr (acc @ [\<lparr>s_session_date = day, s_open_at = op, s_close_at = cl, s_available_at = available,
       s_status = status, s_decision_at = None\<rparr>])))))))))))"

definition calendar_rows :: "json list \<Rightarrow> session list result" where
  "calendar_rows rows =
     bindR (foldR calendar_step [] (enumerate 0 rows)) (\<lambda>result.
     Inr (sort_key s_session_date result))"


section \<open>Membership rows\<close>

definition membership_fields :: "string list" where
  "membership_fields = [''security_id'', ''valid_from'', ''valid_until'', ''member'', ''available_at'', ''revision'']"

definition membership_key :: "membership_row \<Rightarrow> string \<times> date \<times> date option \<times> int" where
  "membership_key r = (m_security_id r, m_valid_from r, m_valid_until r, m_revision r)"

definition membership_step :: "membership_row list \<Rightarrow> nat \<times> json \<Rightarrow> membership_row list result" where
  "membership_step acc = (\<lambda>(i, raw).
     bindR (row_fields membership_fields ''membership'' i raw) (\<lambda>row.
     bindR (ensure (has_keys (removeAll ''revision'' membership_fields) row)
              (row_error ''membership'' i ''is missing required fields'')) (\<lambda>_.
     bindR (bindR (jget row ''security_id'') (uuid_field (row_label ''membership'' i ''security_id''))) (\<lambda>sid.
     bindR (bindR (jget row ''valid_from'') (parse_date_field (row_label ''membership'' i ''valid_from''))) (\<lambda>from.
     bindR (bindR (jget row ''valid_until'')
              (optional_field (parse_date_field (row_label ''membership'' i ''valid_until'')))) (\<lambda>until.
     bindR (ensure (case until of None \<Rightarrow> True | Some u \<Rightarrow> \<not> u \<le> from)
              (row_error ''membership'' i ''valid_until must follow valid_from'')) (\<lambda>_.
     bindR (bindR (jget row ''available_at'') (parse_utc (row_label ''membership'' i ''available_at''))) (\<lambda>available.
     bindR (bindR (jget row ''member'')
              (bool_field (row_error ''membership'' i ''member must be boolean''))) (\<lambda>member.
     bindR (case map_of row ''revision'' of
              None \<Rightarrow> Inr 0
            | Some v \<Rightarrow> revision_field
                (row_error ''membership'' i ''revision must be a non-negative integer'') v) (\<lambda>revision.
     bindR (ensure ((sid, from, until, revision) \<notin> set (map membership_key acc))
              (row_error ''membership'' i ''duplicate membership assertion'')) (\<lambda>_.
     Inr (acc @ [\<lparr>m_security_id = sid, m_valid_from = from, m_valid_until = until, m_member = member,
       m_available_at = available, m_revision = revision\<rparr>]))))))))))))"

definition membership_rows :: "json list \<Rightarrow> membership_row list result" where
  "membership_rows rows =
     bindR (foldR membership_step [] (enumerate 0 rows)) (\<lambda>result.
     Inr (sort_key (\<lambda>r. (m_security_id r, m_valid_from r, m_available_at r, m_revision r)) result))"

section \<open>Corporate actions\<close>

definition action_fields :: "string list" where
  "action_fields = [''id'', ''security_id'', ''action_type'', ''effective_date'', ''payment_date'',
     ''available_at'', ''currency'', ''ratio_numerator'', ''ratio_denominator'', ''cash_amount'',
     ''settlement_price'', ''target_security_id'']"

definition action_type_field :: "nat \<Rightarrow> json \<Rightarrow> action_type result" where
  "action_type_field i v =
     (let refused = Inl (row_error ''corporate_actions'' i ''action_type is unsupported'')
      in case v of
           JStr s \<Rightarrow> if s = ''split'' then Inr Split
                      else if s = ''cash_dividend'' then Inr CashDividend
                      else if s = ''delisting'' then Inr Delisting
                      else refused
         | JArr _ \<Rightarrow> raise PyTypeError ''unhashable type: list''
         | JObj _ \<Rightarrow> raise PyTypeError ''unhashable type: dict''
         | _ \<Rightarrow> refused)"

definition action_step :: "action_row list \<Rightarrow> nat \<times> json \<Rightarrow> action_row list result" where
  "action_step acc = (\<lambda>(i, raw).
     (let kind = ''corporate_actions''; lab = (\<lambda>key. row_label kind i key) in
     bindR (row_fields action_fields kind i raw) (\<lambda>row.
     bindR (ensure (has_keys action_fields row) (row_error kind i ''is missing required fields'')) (\<lambda>_.
     bindR (bindR (jget row ''id'') (uuid_field (lab ''id''))) (\<lambda>action_id.
     bindR (ensure (action_id \<notin> set (map a_id acc)) (row_error kind i ''duplicate action id'')) (\<lambda>_.
     bindR (bindR (jget row ''security_id'') (uuid_field (lab ''security_id''))) (\<lambda>sid.
     bindR (bindR (jget row ''action_type'') (action_type_field i)) (\<lambda>ty.
     bindR (bindR (jget row ''effective_date'') (parse_date_field (lab ''effective_date''))) (\<lambda>effective.
     bindR (bindR (jget row ''payment_date'') (optional_field (parse_date_field (lab ''payment_date'')))) (\<lambda>payment.
     bindR (ensure (case payment of None \<Rightarrow> True | Some p \<Rightarrow> \<not> p < effective)
              (row_error kind i ''payment_date must not precede effective_date'')) (\<lambda>_.
     bindR (bindR (jget row ''available_at'') (parse_utc (lab ''available_at''))) (\<lambda>available.
     bindR (bindR (jget row ''currency'') (currency_field (lab ''currency''))) (\<lambda>currency.
     bindR (bindR (jget row ''ratio_numerator'') (decimal_field True False (lab ''ratio_numerator''))) (\<lambda>num.
     bindR (bindR (jget row ''ratio_denominator'') (decimal_field True False (lab ''ratio_denominator''))) (\<lambda>den.
     bindR (bindR (jget row ''cash_amount'') (decimal_field True False (lab ''cash_amount''))) (\<lambda>cash.
     bindR (bindR (jget row ''settlement_price'')
              (optional_field (decimal_field True True (lab ''settlement_price'')))) (\<lambda>settlement.
     bindR (bindR (jget row ''target_security_id'')
              (optional_field (uuid_field (lab ''target_security_id'')))) (\<lambda>target.
     bindR (ensure (\<not> (ty = Split \<and> (num \<le> 0 \<or> den \<le> 0)))
              (row_error kind i ''split ratio must be positive'')) (\<lambda>_.
     bindR (ensure (\<not> (ty = CashDividend \<and> (payment = None \<or> cash \<le> 0)))
              (row_error kind i ''cash dividend needs payment_date and positive cash_amount'')) (\<lambda>_.
     bindR (ensure (\<not> (ty = Delisting \<and> target \<noteq> None))
              (row_error kind i ''delisting cannot specify target_security_id'')) (\<lambda>_.
     Inr (acc @ [\<lparr>a_id = action_id, a_security_id = sid, a_action_type = ty, a_effective_date = effective,
       a_payment_date = payment, a_available_at = available, a_currency = currency,
       a_ratio_numerator = num, a_ratio_denominator = den, a_cash_amount = cash,
       a_settlement_price = settlement, a_target_security_id = target\<rparr>]))))))))))))))))))))))"

definition action_rows :: "json list \<Rightarrow> action_row list result" where
  "action_rows rows =
     bindR (foldR action_step [] (enumerate 0 rows)) (\<lambda>result.
     Inr (sort_key (\<lambda>r. (a_effective_date r, a_id r)) result))"

section \<open>Exchange rates\<close>

definition fx_fields :: "string list" where
  "fx_fields = [''fixing_at'', ''base_currency'', ''quote_currency'', ''rate'', ''available_at'']"

definition fx_key :: "fx_row \<Rightarrow> datetime \<times> string \<times> string" where
  "fx_key r = (f_fixing_at r, f_base_currency r, f_quote_currency r)"

definition fx_step :: "fx_row list \<Rightarrow> nat \<times> json \<Rightarrow> fx_row list result" where
  "fx_step acc = (\<lambda>(i, raw).
     bindR (row_fields fx_fields ''fx'' i raw) (\<lambda>row.
     bindR (ensure (has_keys fx_fields row) (row_error ''fx'' i ''is missing required fields'')) (\<lambda>_.
     bindR (bindR (jget row ''fixing_at'') (parse_utc (row_label ''fx'' i ''fixing_at''))) (\<lambda>fixing.
     bindR (bindR (jget row ''available_at'') (parse_utc (row_label ''fx'' i ''available_at''))) (\<lambda>available.
     bindR (bindR (jget row ''base_currency'') (currency_field (row_label ''fx'' i ''base_currency''))) (\<lambda>base.
     bindR (bindR (jget row ''quote_currency'') (currency_field (row_label ''fx'' i ''quote_currency''))) (\<lambda>quote.
     bindR (ensure (base \<noteq> quote)
              (row_error ''fx'' i ''base_currency and quote_currency must differ'')) (\<lambda>_.
     bindR (bindR (jget row ''rate'') (decimal_field True True (row_label ''fx'' i ''rate''))) (\<lambda>rate.
     bindR (ensure ((fixing, base, quote) \<notin> set (map fx_key acc))
              (row_error ''fx'' i ''duplicate fixing for currency pair'')) (\<lambda>_.
     Inr (acc @ [\<lparr>f_fixing_at = fixing, f_base_currency = base, f_quote_currency = quote,
       f_rate = rate, f_available_at = available\<rparr>])))))))))))"

definition fx_rows :: "json list \<Rightarrow> fx_row list result" where
  "fx_rows rows =
     bindR (foldR fx_step [] (enumerate 0 rows)) (\<lambda>result.
     Inr (sort_key fx_key result))"

section \<open>Observations\<close>

definition observation_fields :: "string list" where
  "observation_fields = [''observation_id'', ''observed_at'', ''available_at'', ''value'', ''revision'']"

definition observation_key :: "observation_row \<Rightarrow> string \<times> datetime \<times> int" where
  "observation_key r = (o_observation_id r, o_observed_at r, o_revision r)"

definition observation_step ::
  "string \<Rightarrow> observation_row list \<Rightarrow> nat \<times> json \<Rightarrow> observation_row list result" where
  "observation_step kind acc = (\<lambda>(i, raw).
     bindR (row_fields observation_fields kind i raw) (\<lambda>row.
     bindR (ensure (has_keys [''observation_id'', ''observed_at'', ''available_at'', ''value''] row)
              (row_error kind i ''is missing required fields'')) (\<lambda>_.
     bindR (bindR (jget row ''observation_id'') (\<lambda>v. case v of
              JStr s \<Rightarrow> if s = [] then Inl (row_error kind i ''observation_id must be non-empty'') else Inr s
            | _ \<Rightarrow> Inl (row_error kind i ''observation_id must be non-empty''))) (\<lambda>oid.
     bindR (bindR (jget row ''observed_at'') (parse_utc (row_label kind i ''observed_at''))) (\<lambda>observed.
     bindR (bindR (jget row ''available_at'') (parse_utc (row_label kind i ''available_at''))) (\<lambda>available.
     bindR (bindR (jget row ''value'') (decimal_field False False (row_label kind i ''value''))) (\<lambda>val.
     bindR (case map_of row ''revision'' of
              None \<Rightarrow> Inr 0
            | Some v \<Rightarrow> revision_field (row_error kind i ''revision must be a non-negative integer'') v) (\<lambda>revision.
     bindR (ensure ((oid, observed, revision) \<notin> set (map observation_key acc))
              (row_error kind i ''duplicate observation revision'')) (\<lambda>_.
     Inr (acc @ [\<lparr>o_observation_id = oid, o_observed_at = observed, o_available_at = available,
       o_value = val, o_revision = revision\<rparr>]))))))))))"

definition observation_rows :: "string \<Rightarrow> json list \<Rightarrow> observation_row list result" where
  "observation_rows kind rows =
     bindR (foldR (observation_step kind) [] (enumerate 0 rows)) (\<lambda>result.
     Inr (sort_key (\<lambda>r. (o_observed_at r, o_observation_id r, o_revision r)) result))"


section \<open>Artifacts\<close>

datatype artifact_rows =
    PriceRows "price_row list" | CalendarRows "session list" | MembershipRows "membership_row list"
  | ActionRows "action_row list" | FxRows "fx_row list" | ObservationRows "observation_row list"

fun row_available_at :: "artifact_rows \<Rightarrow> datetime list" where
  "row_available_at (PriceRows rs) = map p_available_at rs"
| "row_available_at (CalendarRows rs) = map s_available_at rs"
| "row_available_at (MembershipRows rs) = map m_available_at rs"
| "row_available_at (ActionRows rs) = map a_available_at rs"
| "row_available_at (FxRows rs) = map f_available_at rs"
| "row_available_at (ObservationRows rs) = map o_available_at rs"

text \<open>An input pin of a specification; every caller has validated these keys before loading.\<close>

record reference =
  r_kind :: string
  r_artifact_id :: string
  r_path :: string
  r_sha256 :: string
  r_available_at :: string
  r_fitness :: string

record loaded_artifact =
  la_kind :: string
  la_artifact_id :: string
  la_path :: string
  la_sha256 :: string
  la_available_at :: datetime
  la_rows :: artifact_rows

record inputs =
  i_artifacts :: "(string, loaded_artifact) dict"
  i_prices :: "price_row list"
  i_calendar :: "session list"
  i_membership :: "membership_row list"
  i_corporate_actions :: "action_row list"
  i_fx :: "fx_row list"
  i_risk_free :: "observation_row list"
  i_observations :: "(string, observation_row list) dict"

text \<open>
  The file system below the data root: where a relative path leads (resolution may refuse a path
  that leaves the root), and for a regular file the hash of its bytes and the outcome of the strict
  JSON reader on them.
\<close>

record data_root =
  fs_resolve :: "string \<Rightarrow> string result"
  fs_file :: "string \<Rightarrow> (string \<times> json result) option"

definition input_schema_version :: string where
  "input_schema_version = ''1.0.0''"

definition input_kinds :: "string list" where
  "input_kinds = [''prices'', ''calendar'', ''membership'', ''corporate_actions'', ''fx'', ''feature'',
     ''macro'', ''risk_free'']"

definition envelope_fields :: "string list" where
  "envelope_fields = [''schema_version'', ''artifact_kind'', ''artifact_id'', ''available_at'', ''rows'']"

definition parse_rows :: "string list \<Rightarrow> string \<Rightarrow> json list \<Rightarrow> artifact_rows result" where
  "parse_rows allowed kind rows =
     (if kind = ''prices'' then bindR (price_rows allowed rows) (\<lambda>rs. Inr (PriceRows rs))
      else if kind = ''calendar'' then bindR (calendar_rows rows) (\<lambda>rs. Inr (CalendarRows rs))
      else if kind = ''membership'' then bindR (membership_rows rows) (\<lambda>rs. Inr (MembershipRows rs))
      else if kind = ''corporate_actions'' then bindR (action_rows rows) (\<lambda>rs. Inr (ActionRows rs))
      else if kind = ''fx'' then bindR (fx_rows rows) (\<lambda>rs. Inr (FxRows rs))
      else bindR (observation_rows kind rows) (\<lambda>rs. Inr (ObservationRows rs)))"

definition check_rows_available :: "string \<Rightarrow> datetime \<Rightarrow> artifact_rows \<Rightarrow> unit result" where
  "check_rows_available kind available rows =
     foldR (\<lambda>_ (i, t). ensure (\<not> available < t)
              (Exn BacktestInputError (kind @ '' row '' @ nat_string i @ '' is available after its artifact envelope'')))
       () (enumerate 0 (row_available_at rows))"

definition load_artifact ::
  "data_root \<Rightarrow> string list \<Rightarrow> string \<Rightarrow> reference \<Rightarrow> loaded_artifact result" where
  "load_artifact fs allowed path expected =
     (case fs_file fs path of
        None \<Rightarrow> input_error (''pinned input artifact does not exist: '' @ path)
      | Some (actual_sha256, parsed) \<Rightarrow>
     bindR (ensure (actual_sha256 = r_sha256 expected)
              (Exn BacktestInputError (''pinned input artifact hash mismatch: '' @ path))) (\<lambda>_.
     bindR parsed (\<lambda>document.
     bindR (case document of JObj ob \<Rightarrow> Inr ob
            | _ \<Rightarrow> input_error (''input JSON '' @ path @ '' must be an object'')) (\<lambda>ob.
     bindR (ensure (set (jkeys ob) = set envelope_fields)
              (Exn BacktestInputError (''input artifact '' @ path @ '' has an invalid envelope''))) (\<lambda>_.
     bindR (ensure (map_of ob ''schema_version'' = Some (JStr input_schema_version))
              (Exn BacktestInputError (''input artifact '' @ path @ '' has an unsupported schema_version''))) (\<lambda>_.
     bindR (ensure (map_of ob ''artifact_kind'' = Some (JStr (r_kind expected)) \<and> r_kind expected \<in> set input_kinds)
              (Exn BacktestInputError
                (''input artifact '' @ path @ '' kind does not match its experiment reference''))) (\<lambda>_.
     bindR (bindR (jget ob ''artifact_id'') (uuid_field (path @ ''.artifact_id''))) (\<lambda>artifact_id.
     bindR (ensure (artifact_id = r_artifact_id expected)
              (Exn BacktestInputError
                (''input artifact '' @ path @ '' artifact_id does not match its experiment reference''))) (\<lambda>_.
     bindR (bindR (jget ob ''available_at'') (parse_utc (path @ ''.available_at''))) (\<lambda>available.
     bindR (parse_utc ''experiment input available_at'' (JStr (r_available_at expected))) (\<lambda>expected_available.
     bindR (ensure (available = expected_available)
              (Exn BacktestInputError
                (''input artifact '' @ path @ '' available_at does not match its experiment reference''))) (\<lambda>_.
     bindR (bindR (jget ob ''rows'') (\<lambda>v. case v of JArr xs \<Rightarrow> Inr xs
              | _ \<Rightarrow> input_error (''input artifact '' @ path @ ''.rows must be an array''))) (\<lambda>raw_rows.
     bindR (parse_rows allowed (r_kind expected) raw_rows) (\<lambda>rows.
     bindR (check_rows_available (r_kind expected) available rows) (\<lambda>_.
     Inr \<lparr>la_kind = r_kind expected, la_artifact_id = artifact_id, la_path = path,
          la_sha256 = actual_sha256, la_available_at = available, la_rows = rows\<rparr>)))))))))))))))"

definition price_bases :: "string list" where
  "price_bases = [''raw'', ''split_adjusted'', ''total_return_adjusted'']"

definition load_step ::
  "data_root \<Rightarrow> string list \<Rightarrow> string list \<Rightarrow> (string, loaded_artifact) dict \<Rightarrow> nat \<times> reference
     \<Rightarrow> (string, loaded_artifact) dict result" where
  "load_step fs fitnesses allowed artifacts = (\<lambda>(i, ref).
     bindR (ensure (r_kind ref \<in> set input_kinds)
              (Exn BacktestInputError (''input reference '' @ nat_string i @ '' has an unsupported kind''))) (\<lambda>_.
     bindR (ensure (r_kind ref \<notin> set (map fst artifacts))
              (Exn BacktestInputError (''input references contain duplicate kind '' @ r_kind ref))) (\<lambda>_.
     bindR (ensure (r_fitness ref \<in> set fitnesses)
              (Exn BacktestInputError (''input reference '' @ nat_string i @ '' fitness '' @ [CHR 0x27] @ r_fitness ref
                @ [CHR 0x27] @ '' is not admitted''))) (\<lambda>_.
     bindR (fs_resolve fs (r_path ref)) (\<lambda>path.
     bindR (load_artifact fs allowed path ref) (\<lambda>artifact.
     Inr (dset (r_kind ref) artifact artifacts)))))))"

text \<open>\<open>artifacts[kind].rows\<close> for each kind; an absent optional artifact has no rows.\<close>

definition price_rows_of :: "(string, loaded_artifact) dict \<Rightarrow> price_row list" where
  "price_rows_of arts =
     (case map_of arts ''prices'' of Some a \<Rightarrow> (case la_rows a of PriceRows rs \<Rightarrow> rs | _ \<Rightarrow> []) | None \<Rightarrow> [])"

definition calendar_rows_of :: "(string, loaded_artifact) dict \<Rightarrow> session list" where
  "calendar_rows_of arts =
     (case map_of arts ''calendar'' of Some a \<Rightarrow> (case la_rows a of CalendarRows rs \<Rightarrow> rs | _ \<Rightarrow> []) | None \<Rightarrow> [])"

definition membership_rows_of :: "(string, loaded_artifact) dict \<Rightarrow> membership_row list" where
  "membership_rows_of arts =
     (case map_of arts ''membership'' of Some a \<Rightarrow> (case la_rows a of MembershipRows rs \<Rightarrow> rs | _ \<Rightarrow> []) | None \<Rightarrow> [])"

definition action_rows_of :: "(string, loaded_artifact) dict \<Rightarrow> action_row list" where
  "action_rows_of arts =
     (case map_of arts ''corporate_actions'' of Some a \<Rightarrow> (case la_rows a of ActionRows rs \<Rightarrow> rs | _ \<Rightarrow> []) | None \<Rightarrow> [])"

definition fx_rows_of :: "(string, loaded_artifact) dict \<Rightarrow> fx_row list" where
  "fx_rows_of arts =
     (case map_of arts ''fx'' of Some a \<Rightarrow> (case la_rows a of FxRows rs \<Rightarrow> rs | _ \<Rightarrow> []) | None \<Rightarrow> [])"

definition observation_rows_of :: "string \<Rightarrow> (string, loaded_artifact) dict \<Rightarrow> observation_row list" where
  "observation_rows_of kind arts =
     (case map_of arts kind of Some a \<Rightarrow> (case la_rows a of ObservationRows rs \<Rightarrow> rs | _ \<Rightarrow> []) | None \<Rightarrow> [])"

definition load_input_artifacts ::
  "data_root \<Rightarrow> string list \<Rightarrow> string list \<Rightarrow> string list \<Rightarrow> reference list \<Rightarrow> inputs result" where
  "load_input_artifacts fs allowed_fitness required_kinds allowed_price_bases references =
     bindR (ensure (allowed_price_bases \<noteq> [] \<and> set allowed_price_bases \<subseteq> set price_bases)
              (Exn BacktestInputError ''allowed_price_bases contains an unsupported price basis'')) (\<lambda>_.
     bindR (foldR (load_step fs allowed_fitness allowed_price_bases) [] (enumerate 0 references)) (\<lambda>arts.
     (let missing = sorted_set (filter (\<lambda>k. k \<notin> set (map fst arts)) required_kinds) in
     bindR (ensure (missing = [])
              (Exn BacktestInputError
                (''input references are missing required kinds: '' @ join_comma missing))) (\<lambda>_.
     bindR (mapR (\<lambda>k. ensure (k \<in> set (map fst arts))
              (Exn BacktestInputError (''input references are missing required kind '' @ k)))
              [''prices'', ''calendar'', ''membership'']) (\<lambda>_.
     Inr \<lparr>i_artifacts = arts, i_prices = price_rows_of arts, i_calendar = calendar_rows_of arts,
       i_membership = membership_rows_of arts, i_corporate_actions = action_rows_of arts,
       i_fx = fx_rows_of arts, i_risk_free = observation_rows_of ''risk_free'' arts,
       i_observations = map (\<lambda>k. (k, observation_rows_of k arts))
         (filter (\<lambda>k. k \<in> {''feature'', ''macro''}) (map fst arts))\<rparr>)))))"


section \<open>What the loader establishes\<close>

definition price_row_ok :: "price_row \<Rightarrow> bool" where
  "price_row_ok r \<longleftrightarrow> is_uuid (p_security_id r) \<and> valid_date (p_session_date r) \<and> is_currency (p_currency r)
     \<and> p_observed_at r \<le> p_available_at r \<and> 0 < p_open r \<and> 0 < p_close r \<and> 0 < p_low r
     \<and> p_low r \<le> min (p_open r) (p_close r) \<and> max (p_open r) (p_close r) \<le> p_high r
     \<and> 0 \<le> p_volume r"

definition session_ok :: "session \<Rightarrow> bool" where
  "session_ok s \<longleftrightarrow> valid_date (s_session_date s) \<and> s_open_at s < s_close_at s \<and> s_decision_at s = None"

definition membership_ok :: "membership_row \<Rightarrow> bool" where
  "membership_ok r \<longleftrightarrow> is_uuid (m_security_id r) \<and> valid_date (m_valid_from r) \<and> 0 \<le> m_revision r
     \<and> (\<forall>u. m_valid_until r = Some u \<longrightarrow> m_valid_from r < u)"

definition action_ok :: "action_row \<Rightarrow> bool" where
  "action_ok r \<longleftrightarrow> is_uuid (a_id r) \<and> is_uuid (a_security_id r) \<and> is_currency (a_currency r)
     \<and> (a_action_type r = Split \<longrightarrow> 0 < a_ratio_numerator r \<and> 0 < a_ratio_denominator r)
     \<and> (a_action_type r = CashDividend \<longrightarrow> a_payment_date r \<noteq> None \<and> 0 < a_cash_amount r)
     \<and> (\<forall>p. a_settlement_price r = Some p \<longrightarrow> 0 < p)
     \<and> (\<forall>p. a_payment_date r = Some p \<longrightarrow> a_effective_date r \<le> p)"

definition fx_ok :: "fx_row \<Rightarrow> bool" where
  "fx_ok r \<longleftrightarrow> is_currency (f_base_currency r) \<and> is_currency (f_quote_currency r)
     \<and> f_base_currency r \<noteq> f_quote_currency r \<and> 0 < f_rate r"

definition wf_inputs :: "inputs \<Rightarrow> bool" where
  "wf_inputs i \<longleftrightarrow>
     list_all price_row_ok (i_prices i) \<and> distinct (map price_key (i_prices i))
     \<and> list_all session_ok (i_calendar i) \<and> distinct (map s_session_date (i_calendar i))
     \<and> sorted (map s_session_date (i_calendar i))
     \<and> list_all membership_ok (i_membership i) \<and> distinct (map membership_key (i_membership i))
     \<and> list_all action_ok (i_corporate_actions i) \<and> distinct (map a_id (i_corporate_actions i))
     \<and> list_all fx_ok (i_fx i) \<and> distinct (map fx_key (i_fx i))"

lemma parse_date_field_Inr: "parse_date_field f v = Inr d \<longleftrightarrow> (\<exists>s. v = JStr s \<and> parse_date s = Some d)"
  by (auto simp: parse_date_field_def split: json.splits option.splits)

lemma parse_date_field_valid: "parse_date_field f v = Inr d \<Longrightarrow> valid_date d"
  by (auto simp: parse_date_field_Inr dest: parse_date_valid)

lemma decimal_field_nonneg: "decimal_field True p f v = Inr q \<Longrightarrow> 0 \<le> q"
  by (auto simp: decimal_field_def Let_def split: json.splits option.splits if_splits)

lemma decimal_field_pos: "decimal_field True True f v = Inr q \<Longrightarrow> 0 < q"
  by (auto simp: decimal_field_def Let_def split: json.splits option.splits if_splits)

lemma optional_field_Inr:
  "optional_field parse v = Inr y \<longleftrightarrow> v = JNull \<and> y = None \<or> v \<noteq> JNull \<and> (\<exists>x. parse v = Inr x \<and> y = Some x)"
  by (auto simp: optional_field_def bindR_eq_Inr)

lemma revision_field_nonneg: "revision_field e v = Inr i \<Longrightarrow> 0 \<le> i"
  by (auto simp: revision_field_def split: json.splits if_splits)

lemma price_quotes_pos:
  "price_quotes i row = Inr (op, hi, lo, cl) \<Longrightarrow> 0 < op \<and> 0 < hi \<and> 0 < lo \<and> 0 < cl"
  by (auto simp: price_quotes_def Let_def bindR_eq_Inr dest!: decimal_field_pos)

lemma price_basis_allowed: "price_basis_field allowed i v = Inr b \<Longrightarrow> b \<in> set allowed"
  by (auto simp: price_basis_field_def Let_def split: json.splits if_splits)

text \<open>A step that appends one good row under a new key; folding it keeps goodness and distinctness.\<close>

definition appends_row :: "('r \<Rightarrow> bool) \<Rightarrow> ('r \<Rightarrow> 'k) \<Rightarrow> ('r list \<Rightarrow> 'x \<Rightarrow> 'r list result) \<Rightarrow> bool" where
  "appends_row ok key step \<longleftrightarrow>
     (\<forall>acc x acc'. step acc x = Inr acc' \<longrightarrow>
        (\<exists>r. acc' = acc @ [r] \<and> ok r \<and> key r \<notin> set (map key acc)))"

lemma appends_row_fold:
  assumes "appends_row ok key step" and "foldR step [] xs = Inr rs"
  shows "list_all ok rs" and "distinct (map key rs)" and "length rs = length xs"
proof -
  have "list_all ok rs \<and> distinct (map key rs)"
    by (rule foldR_invariant[OF assms(2)]) (use assms(1) in \<open>fastforce simp: appends_row_def\<close>)+
  then show "list_all ok rs" "distinct (map key rs)" by simp_all
  have "length t = length s + length xs" if "foldR step s xs = Inr t" for s t
    using that assms(1)
    by (induction xs arbitrary: s) (fastforce simp: appends_row_def bindR_eq_Inr)+
  from this[OF assms(2)] show "length rs = length xs" by simp
qed

lemma sort_key_rows:
  "list_all ok (sort_key f rs) \<longleftrightarrow> list_all ok rs"
  "distinct (map key (sort_key f rs)) \<longleftrightarrow> distinct (map key rs)"
  by (simp_all add: list_all_iff) (metis mset_eq_imp_distinct_iff mset_map mset_sort)

lemma price_step_appends: "appends_row price_row_ok price_key (price_step allowed)"
  unfolding appends_row_def
proof (intro allI impI)
  fix acc x acc' assume "price_step allowed acc x = Inr acc'"
  then show "\<exists>r. acc' = acc @ [r] \<and> price_row_ok r \<and> price_key r \<notin> set (map price_key acc)"
    unfolding price_step_def
    apply (cases x)
    apply (simp only: prod.case)
    apply (elim bindR_InrE)
    apply (simp only: split_paired_all prod.case)
    apply (elim bindR_InrE)
    apply (drule price_quotes_pos)
    apply (simp only: ensure_Inr jget_Inr_iff check_uuid_Inr_iff check_currency_Inr_iff sum.inject)
    apply (elim conjE)
    apply (drule parse_date_field_valid decimal_field_nonneg)+
    apply (rule exI, rule conjI, erule sym)
    apply (simp only: price_row_ok_def price_key_def price_row.simps not_less de_Morgan_disj simp_thms)
    done
qed

lemma calendar_step_appends: "appends_row session_ok s_session_date calendar_step"
  unfolding appends_row_def
proof (intro allI impI)
  fix acc x acc' assume "calendar_step acc x = Inr acc'"
  then show "\<exists>r. acc' = acc @ [r] \<and> session_ok r \<and> s_session_date r \<notin> set (map s_session_date acc)"
    unfolding calendar_step_def
    apply (cases x)
    apply (simp only: prod.case)
    apply (elim bindR_InrE)
    apply (drule parse_date_field_valid)
    apply (simp only: ensure_Inr sum.inject)
    apply (rule exI, rule conjI, erule sym)
    apply (simp only: session_ok_def session.simps simp_thms)
    done
qed

lemma membership_step_appends: "appends_row membership_ok membership_key membership_step"
  unfolding appends_row_def
proof (intro allI impI)
  fix acc x acc' assume "membership_step acc x = Inr acc'"
  then show "\<exists>r. acc' = acc @ [r] \<and> membership_ok r \<and> membership_key r \<notin> set (map membership_key acc)"
    unfolding membership_step_def
    apply (cases x)
    apply (simp only: prod.case)
    apply (elim bindR_InrE)
    apply (drule parse_date_field_valid)
    apply (simp only: ensure_Inr check_uuid_Inr_iff sum.inject)
    apply (elim conjE)
    apply (rule exI, rule conjI, erule sym)
    apply (auto simp: membership_ok_def membership_key_def dest: revision_field_nonneg
        split: option.splits)
    done
qed

lemma optional_field_pos:
  "optional_field (decimal_field True True f) v = Inr y \<Longrightarrow> \<forall>p. y = Some p \<longrightarrow> 0 < p"
  by (auto simp: optional_field_Inr dest: decimal_field_pos)

lemma case_option_all: "(case x of None \<Rightarrow> True | Some p \<Rightarrow> P p) \<longleftrightarrow> (\<forall>p. x = Some p \<longrightarrow> P p)"
  by (cases x) simp_all

lemma action_step_appends: "appends_row action_ok a_id action_step"
  unfolding appends_row_def
proof (intro allI impI)
  fix acc x acc' assume "action_step acc x = Inr acc'"
  then show "\<exists>r. acc' = acc @ [r] \<and> action_ok r \<and> a_id r \<notin> set (map a_id acc)"
    unfolding action_step_def Let_def
    apply (cases x)
    apply (simp only: prod.case)
    apply (elim bindR_InrE)
    apply (drule optional_field_pos)
    apply (simp only: ensure_Inr check_uuid_Inr_iff check_currency_Inr_iff case_option_all sum.inject)
    apply (elim conjE)
    apply (rule exI, rule conjI, erule sym)
    apply (simp only: action_ok_def action_row.simps simp_thms not_less not_le de_Morgan_conj
        de_Morgan_disj imp_conv_disj)
    done
qed

lemma fx_step_appends: "appends_row fx_ok fx_key fx_step"
  unfolding appends_row_def
proof (intro allI impI)
  fix acc x acc' assume "fx_step acc x = Inr acc'"
  then show "\<exists>r. acc' = acc @ [r] \<and> fx_ok r \<and> fx_key r \<notin> set (map fx_key acc)"
    unfolding fx_step_def
    apply (cases x)
    apply (simp only: prod.case)
    apply (elim bindR_InrE)
    apply (drule decimal_field_pos)
    apply (simp only: ensure_Inr check_currency_Inr_iff sum.inject)
    apply (elim conjE)
    apply (rule exI, rule conjI, erule sym)
    apply (simp only: fx_ok_def fx_key_def fx_row.simps simp_thms)
    done
qed

lemma price_rows_ok:
  assumes "price_rows allowed rows = Inr rs"
  shows "list_all price_row_ok rs" and "distinct (map price_key rs)"
    and "card (set (map p_price_basis rs)) \<le> 1"
proof -
  from assms obtain ps where f: "foldR (price_step allowed) [] (enumerate 0 rows) = Inr ps"
    and rs: "rs = sort_key (\<lambda>r. (p_session_date r, p_security_id r)) ps"
    and c: "\<not> 1 < card (set (map p_price_basis ps))"
    by (auto simp: price_rows_def bindR_eq_Inr)
  note ok = appends_row_fold[OF price_step_appends f]
  show "list_all price_row_ok rs" "distinct (map price_key rs)"
    unfolding rs sort_key_rows using ok by simp_all
  show "card (set (map p_price_basis rs)) \<le> 1" using c by (simp add: rs)
qed

lemma calendar_rows_ok:
  assumes "calendar_rows rows = Inr rs"
  shows "list_all session_ok rs" and "distinct (map s_session_date rs)"
    and "sorted (map s_session_date rs)"
proof -
  from assms obtain ps where f: "foldR calendar_step [] (enumerate 0 rows) = Inr ps"
    and rs: "rs = sort_key s_session_date ps"
    by (auto simp: calendar_rows_def bindR_eq_Inr)
  note ok = appends_row_fold[OF calendar_step_appends f]
  show "list_all session_ok rs" "distinct (map s_session_date rs)"
    unfolding rs sort_key_rows using ok by simp_all
  show "sorted (map s_session_date rs)" by (simp add: rs)
qed

lemma membership_rows_ok:
  assumes "membership_rows rows = Inr rs"
  shows "list_all membership_ok rs" and "distinct (map membership_key rs)"
  using assms appends_row_fold[OF membership_step_appends]
  by (auto simp: membership_rows_def bindR_eq_Inr sort_key_rows)

lemma action_rows_ok:
  assumes "action_rows rows = Inr rs"
  shows "list_all action_ok rs" and "distinct (map a_id rs)"
  using assms appends_row_fold[OF action_step_appends]
  by (auto simp: action_rows_def bindR_eq_Inr sort_key_rows)

lemma fx_rows_ok:
  assumes "fx_rows rows = Inr rs"
  shows "list_all fx_ok rs" and "distinct (map fx_key rs)"
  using assms appends_row_fold[OF fx_step_appends]
  by (auto simp: fx_rows_def bindR_eq_Inr sort_key_rows)

fun rows_ok :: "artifact_rows \<Rightarrow> bool" where
  "rows_ok (PriceRows rs) \<longleftrightarrow> list_all price_row_ok rs \<and> distinct (map price_key rs)"
| "rows_ok (CalendarRows rs) \<longleftrightarrow>
     list_all session_ok rs \<and> distinct (map s_session_date rs) \<and> sorted (map s_session_date rs)"
| "rows_ok (MembershipRows rs) \<longleftrightarrow> list_all membership_ok rs \<and> distinct (map membership_key rs)"
| "rows_ok (ActionRows rs) \<longleftrightarrow> list_all action_ok rs \<and> distinct (map a_id rs)"
| "rows_ok (FxRows rs) \<longleftrightarrow> list_all fx_ok rs \<and> distinct (map fx_key rs)"
| "rows_ok (ObservationRows rs) \<longleftrightarrow> True"

lemma parse_rows_ok: "parse_rows allowed kind rows = Inr ar \<Longrightarrow> rows_ok ar"
  by (auto simp: parse_rows_def bindR_eq_Inr price_rows_ok calendar_rows_ok membership_rows_ok
      action_rows_ok fx_rows_ok split: if_splits)

lemma check_rows_available_Inr:
  "check_rows_available kind available rows = Inr u \<longleftrightarrow> (\<forall>t \<in> set (row_available_at rows). t \<le> available)"
proof -
  have "foldR (\<lambda>_ (i, t). ensure (\<not> available < t) (e i t)) () (enumerate n ts) = Inr u
      \<longleftrightarrow> (\<forall>t \<in> set ts. t \<le> available)" for e n ts
    by (induction ts arbitrary: n) (auto simp: bindR_eq_Inr not_less)
  then show ?thesis by (simp add: check_rows_available_def)
qed

text \<open>An artifact as the loader admits it, against the reference that pins it.\<close>

definition pinned_by :: "data_root \<Rightarrow> string list \<Rightarrow> loaded_artifact \<Rightarrow> reference \<Rightarrow> bool" where
  "pinned_by fs fitnesses a ref \<longleftrightarrow>
     la_kind a = r_kind ref \<and> la_artifact_id a = r_artifact_id ref \<and> la_sha256 a = r_sha256 ref
     \<and> r_fitness ref \<in> set fitnesses \<and> fs_resolve fs (r_path ref) = Inr (la_path a)
     \<and> (\<exists>doc. fs_file fs (la_path a) = Some (r_sha256 ref, doc))
     \<and> rows_ok (la_rows a) \<and> (\<forall>t \<in> set (row_available_at (la_rows a)). t \<le> la_available_at a)"

lemma load_artifact_pinned:
  assumes "load_artifact fs allowed path ref = Inr a" and "fs_resolve fs (r_path ref) = Inr path"
    and "r_fitness ref \<in> set fitnesses"
  shows "pinned_by fs fitnesses a ref"
proof (cases "fs_file fs path")
  case None
  with assms(1) show ?thesis by (simp add: load_artifact_def)
next
  case (Some entry)
  obtain sha doc where entry: "entry = (sha, doc)" by (cases entry)
  from assms(1) show ?thesis
    unfolding load_artifact_def Some entry option.case prod.case
    apply (elim bindR_InrE)
    apply (drule parse_rows_ok)
    apply (simp only: ensure_Inr check_rows_available_Inr sum.inject)
    apply (elim conjE)
    apply hypsubst
    apply (simp add: pinned_by_def assms(2,3) Some entry)
    done
qed

lemma load_step_pinned:
  assumes "load_step fs fitnesses allowed arts x = Inr arts'"
  obtains a where "arts' = arts @ [(r_kind (snd x), a)]" and "r_kind (snd x) \<notin> fst ` set arts"
    and "pinned_by fs fitnesses a (snd x)"
proof -
  obtain i ref where x: "x = (i, ref)" by (cases x)
  have new: "dset k v d = d @ [(k, v)]" if "k \<notin> fst ` set d" for k v and d :: "(string, loaded_artifact) dict"
    using that by (induction d) auto
  from assms obtain path a where "r_kind ref \<notin> fst ` set arts" "r_fitness ref \<in> set fitnesses"
      "fs_resolve fs (r_path ref) = Inr path" "load_artifact fs allowed path ref = Inr a"
      "arts' = dset (r_kind ref) a arts"
    by (auto simp: load_step_def x bindR_eq_Inr)
  then show ?thesis using load_artifact_pinned[of fs allowed path ref a fitnesses] new
    by (intro that[of a]) (simp_all add: x)
qed

lemma load_fold_pinned:
  assumes "foldR (load_step fs fitnesses allowed) [] (enumerate 0 refs) = Inr arts"
  shows "distinct (map fst arts)"
    and "\<forall>(k, a) \<in> set arts. \<exists>ref \<in> set refs. k = r_kind ref \<and> pinned_by fs fitnesses a ref"
proof -
  let ?P = "\<lambda>arts. distinct (map fst arts) \<and>
    (\<forall>(k, a) \<in> set arts. \<exists>ref \<in> set refs. k = r_kind ref \<and> pinned_by fs fitnesses a ref)"
  have "?P arts"
  proof (rule foldR_invariant[OF assms])
    fix s x t
    assume x: "x \<in> set (enumerate 0 refs)" and s: "?P s"
      and step: "load_step fs fitnesses allowed s x = Inr t"
    from x have "snd x \<in> set refs" by (metis in_set_zipE enumerate_eq_zip prod.collapse)
    with s step show "?P t" by (elim load_step_pinned) (auto simp: image_iff)
  qed simp
  then show "distinct (map fst arts)"
    and "\<forall>(k, a) \<in> set arts. \<exists>ref \<in> set refs. k = r_kind ref \<and> pinned_by fs fitnesses a ref"
    by simp_all
qed

lemma rows_of_ok:
  assumes "\<And>k a. map_of arts k = Some a \<Longrightarrow> rows_ok (la_rows a)"
  shows "rows_ok (PriceRows (price_rows_of arts))" "rows_ok (CalendarRows (calendar_rows_of arts))"
    "rows_ok (MembershipRows (membership_rows_of arts))" "rows_ok (ActionRows (action_rows_of arts))"
    "rows_ok (FxRows (fx_rows_of arts))"
  using assms[of "''prices''"] assms[of "''calendar''"] assms[of "''membership''"]
    assms[of "''corporate_actions''"] assms[of "''fx''"]
  by (auto simp: price_rows_of_def calendar_rows_of_def membership_rows_of_def action_rows_of_def
      fx_rows_of_def split: option.splits artifact_rows.splits)

lemma load_input_artifacts_unfold:
  assumes "load_input_artifacts fs fitnesses required bases refs = Inr i"
  obtains arts where "foldR (load_step fs fitnesses bases) [] (enumerate 0 refs) = Inr arts"
    and "i_artifacts i = arts" and "i_prices i = price_rows_of arts"
    and "i_calendar i = calendar_rows_of arts" and "i_membership i = membership_rows_of arts"
    and "i_corporate_actions i = action_rows_of arts" and "i_fx i = fx_rows_of arts"
    and "set required \<subseteq> fst ` set arts"
proof -
  from assms obtain arts where fold: "foldR (load_step fs fitnesses bases) [] (enumerate 0 refs) = Inr arts"
    and missing: "sorted_set (filter (\<lambda>k. k \<notin> set (map fst arts)) required) = []"
    and fields: "i_artifacts i = arts" "i_prices i = price_rows_of arts"
      "i_calendar i = calendar_rows_of arts" "i_membership i = membership_rows_of arts"
      "i_corporate_actions i = action_rows_of arts" "i_fx i = fx_rows_of arts"
    unfolding load_input_artifacts_def Let_def bindR_ensure_Inr
    by (elim conjE bindR_InrE) (auto simp del: mapR.simps)
  from missing have "set required \<subseteq> fst ` set arts"
    by (auto simp: filter_empty_conv)
  with fold fields that show thesis by blast
qed

lemma loaded_inputs_wf:
  assumes "load_input_artifacts fs fitnesses required bases refs = Inr i"
  shows "wf_inputs i"
proof -
  from assms obtain arts where arts: "foldR (load_step fs fitnesses bases) [] (enumerate 0 refs) = Inr arts"
    and i: "i_prices i = price_rows_of arts" "i_calendar i = calendar_rows_of arts"
      "i_membership i = membership_rows_of arts" "i_corporate_actions i = action_rows_of arts"
      "i_fx i = fx_rows_of arts"
    by (rule load_input_artifacts_unfold)
  have "rows_ok (la_rows a)" if "map_of arts k = Some a" for k a
    using load_fold_pinned(2)[OF arts] map_of_SomeD[OF that] by (auto simp: pinned_by_def)
  note rows_of_ok[OF this]
  then show ?thesis by (simp add: wf_inputs_def i)
qed

text \<open>
  (C12) Whatever the loader returns is well formed: rows are unique under their identities, prices are
  positive and bracketed by high and low, splits have a positive ratio, rates are positive, and the
  calendar is strictly ordered. No engine sees anything else.
\<close>

theorem load_inputs_well_formed:
  assumes "load_input_artifacts fs fitnesses required bases refs = Inr i"
  shows "wf_inputs i"
  by (rule loaded_inputs_wf[OF assms])

text \<open>
  (C13) Every artifact behind the loaded inputs is one of the references: its file's hash is the pinned
  hash, its fitness label is one the caller admits, it lies where its path resolves to, and none of
  its rows claims to be available later than the artifact itself. Each kind is loaded once, and every
  required kind is there.
\<close>

theorem load_inputs_pinned:
  assumes "load_input_artifacts fs fitnesses required bases refs = Inr i"
  shows "distinct (map fst (i_artifacts i)) \<and> set required \<subseteq> set (map fst (i_artifacts i)) \<and>
    (\<forall>(k, a) \<in> set (i_artifacts i). \<exists>ref \<in> set refs. k = r_kind ref \<and> pinned_by fs fitnesses a ref)"
proof -
  from assms obtain arts where "foldR (load_step fs fitnesses bases) [] (enumerate 0 refs) = Inr arts"
    and "i_artifacts i = arts" and "set required \<subseteq> fst ` set arts"
    by (rule load_input_artifacts_unfold)
  with load_fold_pinned[of fs fitnesses bases refs arts] show ?thesis by simp
qed

end
