(* ===== verification/Strategies.thy ===== *)
theory Strategies
  imports Decimals "HOL-Library.Multiset"
begin

text \<open>
  \<open>research/strategies.py\<close>: the baseline signals. A price history is a dictionary from securities to
  closes per session, \<open>None\<close> where no close is usable.
\<close>

section \<open>Signals\<close>

definition equal_weight_targets :: "string list \<Rightarrow> (string, dec) dict" where
  "equal_weight_targets security_ids =
     (let selected = sorted_set security_ids
      in if selected = [] then []
         else (let weight = dquot prec 1 (of_nat (length selected))
               in map (\<lambda>s. (s, weight)) selected))"

text \<open>The body of the scoring loop: a security without two usable closes has no score.\<close>

definition momentum_score ::
  "(string, dec option list) dict \<Rightarrow> nat \<Rightarrow> nat \<Rightarrow> string \<Rightarrow> (dec \<times> string) option" where
  "momentum_score price_history start_index end_index security_id =
     (let history = dget price_history security_id []
      in if length history \<le> end_index \<or> length history \<le> start_index then None
         else (case (history ! start_index, history ! end_index) of
                 (Some start, Some end_close) \<Rightarrow>
                   if start \<le> 0 then None
                   else Some (dsub prec (dquot prec end_close start) 1, security_id)
               | _ \<Rightarrow> None))"

definition momentum_scores ::
  "string list \<Rightarrow> (string, dec option list) dict \<Rightarrow> nat \<Rightarrow> nat \<Rightarrow> (dec \<times> string) list" where
  "momentum_scores security_ids price_history start_index end_index =
     List.map_filter (momentum_score price_history start_index end_index) (sorted_set security_ids)"

text \<open>\<open>scores.sort(key=lambda item: (-item[0], item[1]))\<close>\<close>

definition rank_scores :: "(dec \<times> string) list \<Rightarrow> (dec \<times> string) list" where
  "rank_scores = sort_key (\<lambda>(score, security_id). (dneg prec score, security_id))"

definition momentum_12_1_targets ::
  "string list \<Rightarrow> (string, dec option list) dict \<Rightarrow> nat \<Rightarrow> int \<Rightarrow> int \<Rightarrow> int
    \<Rightarrow> (string, dec) dict result" where
  "momentum_12_1_targets security_ids price_history session_index lookback_sessions skip_sessions top_k =
     (if lookback_sessions < 1 \<or> skip_sessions < 1 \<or> lookback_sessions \<le> skip_sessions
      then raise StrategySignalError ''momentum lookback and skip sessions are invalid''
      else if top_k < 1 then raise StrategySignalError ''momentum top_k must be positive''
      else (let end_index = int session_index - skip_sessions;
                start_index = end_index - lookback_sessions
            in if start_index < 0 \<or> end_index < 0 then Inr []
               else Inr (equal_weight_targets
                      (map snd (take (nat top_k)
                        (rank_scores (momentum_scores security_ids price_history
                           (nat start_index) (nat end_index))))))))"

text \<open>
  The parameters of a strategy: a dictionary whose keys the account validator fixes. \<open>None\<close> is a
  missing key.
\<close>

record parameters =
  pm_rebalance_frequency :: "string option"
  pm_lookback_sessions :: "int option"
  pm_skip_sessions :: "int option"
  pm_top_k :: "int option"

definition parameter :: "string \<Rightarrow> 'a option \<Rightarrow> 'a result" where
  "parameter key v = (case v of None \<Rightarrow> raise PyKeyError key | Some x \<Rightarrow> Inr x)"

definition baseline_targets ::
  "string \<Rightarrow> string list \<Rightarrow> (string, dec option list) dict option \<Rightarrow> nat option \<Rightarrow> parameters option
    \<Rightarrow> (string, dec) dict result" where
  "baseline_targets name security_ids price_history session_index params =
     (if name = ''equal_weight'' then Inr (equal_weight_targets security_ids)
      else if name = ''momentum_12_1'' then
        (case (price_history, session_index, params) of
           (Some history, Some index, Some ps) \<Rightarrow>
             bindR (parameter ''lookback_sessions'' (pm_lookback_sessions ps)) (\<lambda>lookback.
             bindR (parameter ''skip_sessions'' (pm_skip_sessions ps)) (\<lambda>skip.
             bindR (parameter ''top_k'' (pm_top_k ps)) (\<lambda>top_k.
             momentum_12_1_targets security_ids history index lookback skip top_k)))
         | _ \<Rightarrow> raise StrategySignalError
                  ''momentum requires price history, session index, and parameters'')
      else raise StrategySignalError (''unsupported baseline strategy '' @ name))"

section \<open>Equal weights\<close>

lemma equal_weight_keys [simp]: "map fst (equal_weight_targets ids) = sorted_set ids"
  by (cases "sorted_set ids = []") (simp_all add: equal_weight_targets_def Let_def comp_def)

lemma equal_weight_set: "fst ` set (equal_weight_targets ids) = set ids"
  by (metis equal_weight_keys list.set_map set_sorted_set)

lemma length_sorted_set: "length (sorted_set xs) = card (set xs)"
  by (simp add: sorted_set_def length_remdups_card_conv)

lemma equal_weight_values:
  "(s, w) \<in> set (equal_weight_targets ids) \<Longrightarrow> w = dquot prec 1 (of_nat (card (set ids)))"
  by (auto simp: equal_weight_targets_def Let_def length_sorted_set split: if_splits)

lemma equal_weight_pos:
  assumes "(s, w) \<in> set (equal_weight_targets ids)"
  shows "0 < w" and "w \<le> 1"
proof -
  from assms have "s \<in> set ids" by (metis equal_weight_set fst_conv imageI)
  then have n: "0 < card (set ids)" by (auto simp: card_gt_0_iff)
  show "0 < w" unfolding equal_weight_values[OF assms] dquot_def
    by (rule dec_round_pos) (use n in simp_all)
  from n have "dec_round prec (1 / of_nat (card (set ids))) \<le> dec_round prec 1"
    by (intro dec_round_mono) (simp_all add: field_simps)
  then show "w \<le> 1" by (simp add: equal_weight_values[OF assms] dquot_def dec_round_1)
qed

lemma equal_weight_cong: "set ids = set ids' \<Longrightarrow> equal_weight_targets ids = equal_weight_targets ids'"
  using sorted_set_cong[of ids ids'] by (simp add: equal_weight_targets_def)

section \<open>Momentum\<close>

lemma momentum_score_name: "momentum_score h s e x = Some y \<Longrightarrow> snd y = x"
  by (auto simp: momentum_score_def Let_def split: option.splits if_splits)

lemma map_filter_names:
  assumes "\<And>x y. f x = Some y \<Longrightarrow> g y = x"
  shows "map g (List.map_filter f xs) = filter (\<lambda>x. f x \<noteq> None) xs"
  using assms by (induction xs) (auto simp: List.map_filter_def)

lemma momentum_scores_names:
  "map snd (momentum_scores ids h s e) = filter (\<lambda>x. momentum_score h s e x \<noteq> None) (sorted_set ids)"
  unfolding momentum_scores_def by (rule map_filter_names) (rule momentum_score_name)

lemma momentum_scores_distinct: "distinct (map snd (momentum_scores ids h s e))"
  by (simp add: momentum_scores_names)

lemma rank_scores_set [simp]: "set (rank_scores xs) = set xs"
  by (simp add: rank_scores_def)

lemma rank_scores_distinct: "distinct (map snd xs) \<Longrightarrow> distinct (map snd (rank_scores xs))"
  unfolding rank_scores_def distinct_map by (auto intro: inj_on_subset)

text \<open>Only the closes up to the cutoff are read.\<close>

lemma momentum_score_cong:
  assumes take: "take (Suc e) (dget h x []) = take (Suc e) (dget h' x [])" and "st \<le> e"
  shows "momentum_score h st e x = momentum_score h' st e x"
proof (cases "length (dget h x []) \<le> e")
  case True
  with take have "dget h x [] = dget h' x []"
    by (metis le_Suc_eq length_take min.absorb2 not_less_eq_eq take_all)
  then show ?thesis by (simp add: momentum_score_def)
next
  case False
  from take have len: "min (length (dget h x [])) (Suc e) = min (length (dget h' x [])) (Suc e)"
    by (metis length_take)
  with False have "\<not> length (dget h' x []) \<le> e" by linarith
  moreover have "dget h x [] ! k = dget h' x [] ! k" if "k \<le> e" for k
    by (metis take le_imp_less_Suc nth_take that)
  ultimately show ?thesis using False assms(2) by (simp add: momentum_score_def Let_def)
qed

lemma momentum_scores_cong:
  assumes "\<And>x. x \<in> set ids \<Longrightarrow> take (Suc e) (dget h x []) = take (Suc e) (dget h' x [])" and "st \<le> e"
  shows "momentum_scores ids h st e = momentum_scores ids h' st e"
proof -
  have "List.map_filter (momentum_score h st e) xs = List.map_filter (momentum_score h' st e) xs"
    if "set xs \<subseteq> set ids" for xs
    using that assms momentum_score_cong[of e h _ h' st]
    by (induction xs) (simp_all add: List.map_filter_def)
  then show ?thesis by (simp add: momentum_scores_def)
qed

text \<open>
  (C17) The momentum signal never reads a close after the skipped cutoff: two histories that agree up to
  session \<open>session_index - skip_sessions\<close> give the same targets, whatever either says afterwards.
\<close>

theorem momentum_ignores_skipped:
  assumes "\<And>x. x \<in> set ids \<Longrightarrow>
    take (Suc (n - nat skip)) (dget h x []) = take (Suc (n - nat skip)) (dget h' x [])"
  shows "momentum_12_1_targets ids h n lookback skip top_k = momentum_12_1_targets ids h' n lookback skip top_k"
proof (cases "1 \<le> lookback \<and> 1 \<le> skip \<and> skip \<le> int n \<and> 0 \<le> int n - skip - lookback")
  case True
  then have e: "nat (int n - skip) = n - nat skip" by (simp add: nat_diff_distrib)
  from True have "nat (int n - skip - lookback) \<le> n - nat skip" by linarith
  with momentum_scores_cong[OF assms] show ?thesis
    by (simp add: momentum_12_1_targets_def Let_def e)
qed (auto simp: momentum_12_1_targets_def Let_def)

lemma take_sorted_key:
  assumes "sorted (map f xs)" and "a \<in> set (take k xs)" and "b \<in> set (drop k xs)"
  shows "f a \<le> f b"
proof -
  have "sorted (map f (take k xs @ drop k xs))" using assms(1) by simp
  with assms(2,3) show ?thesis by (simp only: map_append sorted_append) auto
qed

lemma ranked_before:
  assumes "a \<in> set (take k (rank_scores xs))" and "b \<in> set xs" and "snd b \<notin> snd ` set (take k (rank_scores xs))"
  shows "dneg prec (fst a) < dneg prec (fst b) \<or> dneg prec (fst a) = dneg prec (fst b) \<and> snd a \<le> snd b"
proof -
  from assms(2,3) have "b \<in> set (drop k (rank_scores xs))"
    by (metis append_take_drop_id image_eqI rank_scores_set set_append UnE)
  moreover have "sorted (map (\<lambda>(score, i). (dneg prec score, i)) (rank_scores xs))"
    by (simp add: rank_scores_def)
  ultimately have "(case a of (score, i) \<Rightarrow> (dneg prec score, i)) \<le> (case b of (score, i) \<Rightarrow> (dneg prec score, i))"
    using assms(1) by (intro take_sorted_key)
  then show ?thesis by (cases a; cases b) (auto simp: less_eq_prod_def)
qed

lemma momentum_score_rounded: "momentum_score h s e x = Some y \<Longrightarrow> dneg prec (fst y) = - fst y"
  by (auto simp: momentum_score_def Let_def dsub_def dneg_def split: option.splits if_splits)

lemma momentum_scores_iff:
  "y \<in> set (momentum_scores ids h s e) \<longleftrightarrow> snd y \<in> set ids \<and> momentum_score h s e (snd y) = Some y"
proof -
  have "y \<in> set (List.map_filter f xs) \<longleftrightarrow> (\<exists>x \<in> set xs. f x = Some y)"
    for f :: "string \<Rightarrow> (dec \<times> string) option" and xs
    by (auto simp: List.map_filter_def image_iff simp del: not_None_eq)
      (use option.sel in fastforce)?
  then show ?thesis unfolding momentum_scores_def by (auto dest: momentum_score_name)
qed

lemma momentum_unfold:
  assumes "1 \<le> lookback" "1 \<le> skip" "skip < lookback" "1 \<le> top_k" "lookback + skip \<le> int n"
  shows "momentum_12_1_targets ids h n lookback skip top_k =
    Inr (equal_weight_targets (map snd (take (nat top_k)
      (rank_scores (momentum_scores ids h (nat (int n - skip - lookback)) (nat (int n - skip)))))))"
  using assms by (simp add: momentum_12_1_targets_def Let_def)

text \<open>The score at the cutoffs that the parameters give in session \<open>n\<close>.\<close>

definition cutoff_score ::
  "(string, dec option list) dict \<Rightarrow> nat \<Rightarrow> int \<Rightarrow> int \<Rightarrow> string \<Rightarrow> dec option" where
  "cutoff_score h n lookback skip x =
     map_option fst (momentum_score h (nat (int n - skip - lookback)) (nat (int n - skip)) x)"

text \<open>
  (C16) Momentum holds the best: with a history long enough it selects securities that have a score,
  \<open>top_k\<close> of them when there are that many, and every scored security it leaves out scores no
  higher than each one it selects. The weights are equal.
\<close>

theorem momentum_selects_best:
  assumes "1 \<le> lookback" "1 \<le> skip" "skip < lookback" "1 \<le> top_k" "lookback + skip \<le> int n"
  shows "\<exists>ws. momentum_12_1_targets ids h n lookback skip top_k = Inr ws
    \<and> card (fst ` set ws) = min (nat top_k) (card {x \<in> set ids. cutoff_score h n lookback skip x \<noteq> None})
    \<and> (\<forall>x \<in> fst ` set ws. x \<in> set ids \<and> cutoff_score h n lookback skip x \<noteq> None)
    \<and> (\<forall>x \<in> fst ` set ws. \<forall>y \<in> set ids - fst ` set ws. cutoff_score h n lookback skip y \<noteq> None \<longrightarrow>
        the (cutoff_score h n lookback skip y) \<le> the (cutoff_score h n lookback skip x))
    \<and> (\<forall>(x, w) \<in> set ws. w = dquot prec 1 (of_nat (card (fst ` set ws))))"
proof (intro exI conjI)
  let ?score = "momentum_score h (nat (int n - skip - lookback)) (nat (int n - skip))"
  let ?xs = "momentum_scores ids h (nat (int n - skip - lookback)) (nat (int n - skip))"
  let ?top = "take (nat top_k) (rank_scores ?xs)"
  show "momentum_12_1_targets ids h n lookback skip top_k = Inr (equal_weight_targets (map snd ?top))"
    by (rule momentum_unfold[OF assms(1-5)])
  have keys: "fst ` set (equal_weight_targets (map snd ?top)) = snd ` set ?top"
    by (simp add: equal_weight_set)
  have mem: "y \<in> set ?xs \<longleftrightarrow> snd y \<in> set ids \<and> ?score (snd y) = Some y" for y
    by (rule momentum_scores_iff)
  have top: "snd y \<in> set ids \<and> ?score (snd y) = Some y" if "y \<in> set ?top" for y
    using that mem by (metis in_set_takeD rank_scores_set)
  show "\<forall>x \<in> fst ` set (equal_weight_targets (map snd ?top)). x \<in> set ids \<and> cutoff_score h n lookback skip x \<noteq> None"
    unfolding keys cutoff_score_def using top by auto
  have "card (snd ` set ?top) = length ?top"
    using distinct_card[of "map snd ?top"] rank_scores_distinct[OF momentum_scores_distinct, of ids h]
    by (metis distinct_take length_map list.set_map take_map)
  also have "length (rank_scores ?xs) = card {x \<in> set ids. cutoff_score h n lookback skip x \<noteq> None}"
  proof -
    have "length (rank_scores ?xs) = length (map snd ?xs)" by (simp add: rank_scores_def)
    also have "\<dots> = card (set (map snd ?xs))" by (simp only: distinct_card[OF momentum_scores_distinct])
    finally show ?thesis by (simp add: momentum_scores_names Collect_conj_eq Int_commute cutoff_score_def)
  qed
  then have "length ?top = min (nat top_k) (card {x \<in> set ids. cutoff_score h n lookback skip x \<noteq> None})" by simp
  finally show "card (fst ` set (equal_weight_targets (map snd ?top)))
      = min (nat top_k) (card {x \<in> set ids. cutoff_score h n lookback skip x \<noteq> None})" by (simp only: keys)
  show "\<forall>x \<in> fst ` set (equal_weight_targets (map snd ?top)).
      \<forall>y \<in> set ids - fst ` set (equal_weight_targets (map snd ?top)).
        cutoff_score h n lookback skip y \<noteq> None \<longrightarrow>
        the (cutoff_score h n lookback skip y) \<le> the (cutoff_score h n lookback skip x)"
    unfolding keys cutoff_score_def
  proof (intro ballI impI)
    fix x y assume x: "x \<in> snd ` set ?top" and y: "y \<in> set ids - snd ` set ?top" and "map_option fst (?score y) \<noteq> None"
    from x obtain a where a: "a \<in> set ?top" "snd a = x" "?score x = Some a" using top by auto
    from \<open>map_option fst (?score y) \<noteq> None\<close> obtain b where b: "?score y = Some b" by auto
    then have "snd b = y" by (rule momentum_score_name)
    with b y have "b \<in> set ?xs" "snd b \<notin> snd ` set ?top" by (auto simp: mem)
    from ranked_before[OF a(1) this] have "dneg prec (fst a) \<le> dneg prec (fst b)" by auto
    moreover have "dneg prec (fst a) = - fst a" "dneg prec (fst b) = - fst b"
      using a(3) b by (auto dest: momentum_score_rounded)
    ultimately show "the (map_option fst (?score y)) \<le> the (map_option fst (?score x))" by (simp add: a(3) b)
  qed
  show "\<forall>(x, w) \<in> set (equal_weight_targets (map snd ?top)).
      w = dquot prec 1 (of_nat (card (fst ` set (equal_weight_targets (map snd ?top)))))"
    unfolding keys using equal_weight_values by fastforce
qed

end
