(* ===== verification/Account.thy ===== *)
theory Account
  imports Inputs Strategies
begin

text \<open>
  The paper account specification: the records that the paper engine works on, and the validation
  and normalisation of the document they come from (\<open>validate_paper_account\<close> of
  \<open>research/paper.py\<close>, \<open>decimal\<close> of \<open>research/portfolio.py\<close>). Amounts stay strings, as in the
  specification; the engine parses them where it uses them.
\<close>

section \<open>The normalised specification\<close>

definition paper_schema_version :: string where
  "paper_schema_version = ''1.0.0''"

record strategy =
  st_name :: string
  st_version :: string
  st_git_commit :: string
  st_parameters :: parameters

record universe =
  un_universe_id :: string
  un_version :: string
  un_security_ids :: "string list"
  un_membership_fingerprint :: string

record security_metadata =
  sm_security_id :: string
  sm_country :: string
  sm_sector :: string
  sm_themes :: "string list"

record decision_policy =
  dp_stale_after_sessions :: int
  dp_max_price_gap :: string

record accounting_policy =
  ac_base_currency :: string
  ac_initial_cash :: string
  ac_fractional_shares :: bool
  ac_rebalance_frequency :: string

record cost_policy =
  cp_version :: string
  cp_commission_bps :: string
  cp_fixed_fee :: string
  cp_minimum_fee :: string
  cp_spread_bps :: string
  cp_slippage_bps :: string
  cp_tax_bps :: string

record risk_policy =
  rp_version :: string
  rp_max_gross_exposure :: string
  rp_max_position_weight :: string
  rp_max_sector_exposure :: string
  rp_max_country_exposure :: string
  rp_max_currency_exposure :: string
  rp_max_theme_exposure :: string
  rp_minimum_cash_reserve :: string
  rp_max_turnover :: string
  rp_max_daily_notional :: string
  rp_max_price_gap :: string
  rp_max_participation :: string
  rp_max_drawdown :: string
  rp_max_stale_sessions :: int
  rp_prohibited_security_ids :: "string list"

record promoted_backtest =
  pb_experiment_id :: string
  pb_manifest_path :: string
  pb_manifest_sha256 :: string

text \<open>The key \<open>promoted_backtest\<close> may be absent, null or an object.\<close>

record account =
  acc_account_id :: string
  acc_name :: string
  acc_strategy :: strategy
  acc_start_date :: string
  acc_end_date :: string
  acc_universe :: universe
  acc_security_metadata :: "security_metadata list"
  acc_inputs :: "reference list"
  acc_benchmark_security_id :: string
  acc_benchmark_currency :: string
  acc_decision_policy :: decision_policy
  acc_accounting_policy :: accounting_policy
  acc_cost_policy :: cost_policy
  acc_risk_policy :: risk_policy
  acc_approval_mode :: string
  acc_missing_data_policy :: string
  acc_promoted_backtest :: "promoted_backtest option option"

abbreviation acc_base_currency :: "account \<Rightarrow> string" where
  "acc_base_currency a \<equiv> ac_base_currency (acc_accounting_policy a)"

section \<open>Decimals of a document\<close>

definition decimal :: "bool \<Rightarrow> bool \<Rightarrow> string \<Rightarrow> json \<Rightarrow> dec result" where
  "decimal non_negative positive field v =
     (let label = (if non_negative then ''non-negative'' else ''signed'');
          malformed = raise PortfolioError (field @ '' must be a canonical '' @ label @ '' decimal string'')
      in case v of
           JStr s \<Rightarrow>
             (case (if non_negative then parse_unsigned s else parse_signed s) of
                None \<Rightarrow> malformed
              | Some parsed \<Rightarrow>
                  if (non_negative \<and> parsed < 0) \<or> (positive \<and> parsed \<le> 0)
                  then raise PortfolioError (field @ '' has an invalid decimal value'')
                  else Inr parsed)
         | _ \<Rightarrow> malformed)"

abbreviation decimal_nn :: "string \<Rightarrow> string \<Rightarrow> dec result" where
  "decimal_nn field s \<equiv> decimal True False field (JStr s)"

lemma decimal_nonneg: "decimal True p f v = Inr q \<Longrightarrow> 0 \<le> q"
  by (auto simp: decimal_def Let_def split: json.splits option.splits if_splits)

lemma decimal_is_decimal: "decimal n p f v = Inr q \<Longrightarrow> is_decimal q"
  by (auto simp: decimal_def Let_def parse_unsigned_decimal parse_signed_decimal
      split: json.splits option.splits if_splits)

lemma decimal_nn_string [simp]: "is_decimal q \<Longrightarrow> 0 \<le> q \<Longrightarrow> decimal_nn f (decimal_string q) = Inr q"
  by (simp add: decimal_def)

lemma decimal_nn_iff: "decimal_nn f s = Inr q \<longleftrightarrow> parse_unsigned s = Some q \<and> 0 \<le> q"
  by (auto simp: decimal_def Let_def split: option.splits if_splits)

section \<open>Single values\<close>

abbreviation spec_error :: "string \<Rightarrow> 'a result" where
  "spec_error m \<equiv> raise PaperSpecError m"

text \<open>\<open>str.strip()\<close>, for ASCII white space.\<close>

definition is_space :: "char \<Rightarrow> bool" where
  "is_space c \<longleftrightarrow> (let n = (of_char c :: nat) in 9 \<le> n \<and> n \<le> 13 \<or> 28 \<le> n \<and> n \<le> 32)"

definition strip :: "string \<Rightarrow> string" where
  "strip s = rev (dropWhile is_space (rev (dropWhile is_space s)))"

definition spec_nonempty :: "string \<Rightarrow> json \<Rightarrow> string result" where
  "spec_nonempty field v =
     (case v of JStr s \<Rightarrow> if strip s = [] then spec_error (field @ '' must be a non-empty string'') else Inr (strip s)
      | _ \<Rightarrow> spec_error (field @ '' must be a non-empty string''))"

text \<open>\<open>^[0-9]+\.[0-9]+\.[0-9]+$\<close>\<close>

definition is_number :: "string \<Rightarrow> bool" where
  "is_number s \<longleftrightarrow> s \<noteq> [] \<and> list_all is_digit s"

definition is_semver :: "string \<Rightarrow> bool" where
  "is_semver s \<longleftrightarrow>
     (let a = takeWhile is_digit s; r = dropWhile is_digit s; b = takeWhile is_digit (tl r);
          q = dropWhile is_digit (tl r)
      in is_number a \<and> r \<noteq> [] \<and> hd r = CHR ''.'' \<and> is_number b \<and> q \<noteq> [] \<and> hd q = CHR ''.'' \<and> is_number (tl q))"

definition is_country :: "string \<Rightarrow> bool" where
  "is_country s \<longleftrightarrow> length s = 2 \<and> list_all is_upper s"

text \<open>\<open>^[a-z][a-z0-9_-]{1,63}$\<close>\<close>

definition is_slug :: "string \<Rightarrow> bool" where
  "is_slug s \<longleftrightarrow> 2 \<le> length s \<and> length s \<le> 64 \<and> is_lower (hd s)
     \<and> list_all (\<lambda>c. is_lower c \<or> is_digit c \<or> c = CHR ''_'' \<or> c = CHR ''-'') (tl s)"

definition is_git_sha :: "string \<Rightarrow> bool" where
  "is_git_sha s \<longleftrightarrow> length s = 40 \<and> list_all is_lower_hex s"

text \<open>A string that a test accepts, unchanged.\<close>

definition spec_text :: "(string \<Rightarrow> bool) \<Rightarrow> string \<Rightarrow> string \<Rightarrow> json \<Rightarrow> string result" where
  "spec_text ok requirement field v =
     (case v of JStr s \<Rightarrow> if ok s then Inr s else spec_error (field @ requirement)
      | _ \<Rightarrow> spec_error (field @ requirement))"

definition spec_semver :: "string \<Rightarrow> json \<Rightarrow> string result" where
  "spec_semver = spec_text is_semver '' must be semantic version x.y.z''"

definition spec_sha :: "string \<Rightarrow> json \<Rightarrow> string result" where
  "spec_sha = spec_text is_sha256 '' must be a lower-case SHA-256''"

definition spec_country :: "string \<Rightarrow> json \<Rightarrow> string result" where
  "spec_country = spec_text is_country '' must be an uppercase ISO-3166 country code''"

definition spec_slug :: "string \<Rightarrow> json \<Rightarrow> string result" where
  "spec_slug = spec_text is_slug '' must be a lower-case slug''"

definition spec_date :: "string \<Rightarrow> json \<Rightarrow> string result" where
  "spec_date = spec_text (\<lambda>s. parse_date s \<noteq> None) '' must be an ISO date''"

definition spec_utc :: "string \<Rightarrow> json \<Rightarrow> string result" where
  "spec_utc = spec_text (\<lambda>s. parse_datetime s \<noteq> None) '' must be a canonical UTC timestamp''"

abbreviation spec_uuid :: "string \<Rightarrow> json \<Rightarrow> string result" where
  "spec_uuid \<equiv> check_uuid PaperSpecError"

abbreviation spec_currency :: "string \<Rightarrow> json \<Rightarrow> string result" where
  "spec_currency \<equiv> check_currency PaperSpecError"

text \<open>\<open>s.split(c)\<close>\<close>

fun split_at :: "char \<Rightarrow> string \<Rightarrow> string \<Rightarrow> string list" where
  "split_at c acc [] = [rev acc]"
| "split_at c acc (x # xs) = (if x = c then rev acc # split_at c [] xs else split_at c (x # acc) xs)"

definition path_parts :: "string \<Rightarrow> string list" where
  "path_parts path =
     split_at (CHR ''/'') [] (map (\<lambda>c. if c = CHR 0x5C then CHR ''/'' else c) path)"

definition spec_relative_path :: "string \<Rightarrow> json \<Rightarrow> string result" where
  "spec_relative_path field v =
     bindR (spec_nonempty field v) (\<lambda>path.
     if hd path = CHR ''/'' \<or> hd path = CHR 0x5C \<or> CHR 0x00 \<in> set path
     then spec_error (field @ '' must be a safe relative path'')
     else if ''..'' \<in> set (path_parts path)
     then spec_error (field @ '' must not contain parent traversal'')
     else Inr path)"

definition spec_exact :: "string list \<Rightarrow> string \<Rightarrow> json \<Rightarrow> (string \<times> json) list result" where
  "spec_exact ks field v =
     (case v of
        JObj ob \<Rightarrow> if set (jkeys ob) = set ks then Inr ob
                   else spec_error (field @ '' has an invalid field set'')
      | _ \<Rightarrow> spec_error (field @ '' has an invalid field set''))"

text \<open>\<open>v in {...}\<close>: an array or object is not hashable.\<close>

definition member_of :: "json \<Rightarrow> string list \<Rightarrow> bool result" where
  "member_of v names =
     (case v of JStr s \<Rightarrow> Inr (s \<in> set names)
      | JArr _ \<Rightarrow> raise PyTypeError ''unhashable type'' | JObj _ \<Rightarrow> raise PyTypeError ''unhashable type''
      | _ \<Rightarrow> Inr False)"

definition spec_choice :: "string list \<Rightarrow> string \<Rightarrow> json \<Rightarrow> string result" where
  "spec_choice names m v =
     bindR (member_of v names) (\<lambda>b.
     case v of JStr s \<Rightarrow> if b then Inr s else spec_error m | _ \<Rightarrow> spec_error m)"

text \<open>The value under a key that the field set has been checked for.\<close>

definition field_of :: "(json \<Rightarrow> 'a result) \<Rightarrow> (string \<times> json) list \<Rightarrow> string \<Rightarrow> 'a result" where
  "field_of parse ob key = bindR (jget ob key) parse"

text \<open>An integer of at least \<open>low\<close>; a boolean is not one.\<close>

definition spec_int :: "int \<Rightarrow> string \<Rightarrow> json \<Rightarrow> int result" where
  "spec_int low m v = (case v of JInt i \<Rightarrow> if i < low then spec_error m else Inr i | _ \<Rightarrow> spec_error m)"

definition spec_array :: "string \<Rightarrow> nat \<Rightarrow> json \<Rightarrow> json list result" where
  "spec_array m low v = (case v of JArr xs \<Rightarrow> if length xs < low then spec_error m else Inr xs | _ \<Rightarrow> spec_error m)"

definition spec_bool :: "string \<Rightarrow> json \<Rightarrow> bool result" where
  "spec_bool m v = (case v of JBool b \<Rightarrow> Inr b | _ \<Rightarrow> spec_error m)"

text \<open>\<open>decimal_string(decimal(value, ...))\<close>\<close>

definition spec_decimal :: "bool \<Rightarrow> bool \<Rightarrow> string \<Rightarrow> json \<Rightarrow> string result" where
  "spec_decimal non_negative positive field v =
     bindR (decimal non_negative positive field v) (\<lambda>q. Inr (decimal_string q))"

section \<open>The strategy\<close>

definition frequencies :: "string list" where
  "frequencies = [''daily'', ''weekly'', ''monthly'']"

definition parameter_error :: "string \<Rightarrow> string" where
  "parameter_error key = ''strategy.parameters.'' @ key @ '' must be a positive integer''"

definition strategy_parameters :: "string \<Rightarrow> (string \<times> json) list \<Rightarrow> parameters result" where
  "strategy_parameters name ps =
     (if name = ''buy_and_hold'' then
        (if ps \<noteq> [] then spec_error ''buy_and_hold does not accept parameters''
         else Inr \<lparr>pm_rebalance_frequency = None, pm_lookback_sessions = None, pm_skip_sessions = None,
                pm_top_k = None\<rparr>)
      else if name = ''equal_weight'' then
        (let m = ''equal_weight requires a daily, weekly, or monthly rebalance_frequency'' in
        bindR (ensure (set (jkeys ps) = {''rebalance_frequency''}) (Exn PaperSpecError m)) (\<lambda>_.
        bindR (field_of (spec_choice frequencies m) ps ''rebalance_frequency'') (\<lambda>f.
        Inr \<lparr>pm_rebalance_frequency = Some f, pm_lookback_sessions = None, pm_skip_sessions = None,
           pm_top_k = None\<rparr>)))
      else
        (let m = ''momentum_12_1 has invalid parameters'' in
        bindR (ensure (set (jkeys ps) = {''lookback_sessions'', ''skip_sessions'', ''top_k'', ''rebalance_frequency''})
                 (Exn PaperSpecError m)) (\<lambda>_.
        bindR (field_of (spec_choice frequencies m) ps ''rebalance_frequency'') (\<lambda>f.
        bindR (field_of (spec_int 1 (parameter_error ''lookback_sessions'')) ps ''lookback_sessions'') (\<lambda>lookback.
        bindR (field_of (spec_int 1 (parameter_error ''skip_sessions'')) ps ''skip_sessions'') (\<lambda>skip.
        bindR (field_of (spec_int 1 (parameter_error ''top_k'')) ps ''top_k'') (\<lambda>top_k.
        bindR (ensure (skip < lookback) (Exn PaperSpecError
                 ''momentum_12_1 skip_sessions must be less than lookback_sessions'')) (\<lambda>_.
        Inr \<lparr>pm_rebalance_frequency = Some f, pm_lookback_sessions = Some lookback,
           pm_skip_sessions = Some skip, pm_top_k = Some top_k\<rparr>))))))))"

definition git_commit :: "json \<Rightarrow> string result" where
  "git_commit v =
     (let m = ''strategy.git_commit must be a lower-case Git SHA or unknown'' in
      case v of JStr s \<Rightarrow> if s = ''unknown'' \<or> is_git_sha s then Inr s else spec_error m
      | _ \<Rightarrow> spec_error m)"

definition strategy_spec :: "json \<Rightarrow> strategy result" where
  "strategy_spec v =
     bindR (spec_exact [''name'', ''version'', ''git_commit'', ''parameters''] ''strategy'' v) (\<lambda>raw.
     bindR (field_of (spec_choice [''buy_and_hold'', ''equal_weight'', ''momentum_12_1'']
              ''strategy.name is unsupported'') raw ''name'') (\<lambda>name.
     bindR (field_of git_commit raw ''git_commit'') (\<lambda>commit.
     bindR (field_of (\<lambda>v. case v of JObj ps \<Rightarrow> Inr ps | _ \<Rightarrow> spec_error ''strategy.parameters must be an object'')
              raw ''parameters'') (\<lambda>ps.
     bindR (strategy_parameters name ps) (\<lambda>parameters.
     bindR (field_of (spec_semver ''strategy.version'') raw ''version'') (\<lambda>version.
     Inr \<lparr>st_name = name, st_version = version, st_git_commit = commit, st_parameters = parameters\<rparr>))))))"

section \<open>The sections of an account\<close>

definition account_fields :: "string list" where
  "account_fields = [''schema_version'', ''account_id'', ''name'', ''strategy'', ''period'', ''universe'',
     ''security_metadata'', ''inputs'', ''benchmark'', ''decision_policy'', ''accounting_policy'',
     ''cost_policy'', ''risk_policy'', ''approval_policy'', ''missing_data_policy'']"

definition index_label :: "string \<Rightarrow> nat \<Rightarrow> string \<Rightarrow> string" where
  "index_label field i suffix = field @ ''['' @ nat_string i @ '']'' @ suffix"

definition period_spec :: "json \<Rightarrow> (string \<times> string) result" where
  "period_spec v =
     bindR (spec_exact [''start_date'', ''end_date''] ''period'' v) (\<lambda>ob.
     bindR (field_of (spec_date ''period.start_date'') ob ''start_date'') (\<lambda>start_date.
     bindR (field_of (spec_date ''period.end_date'') ob ''end_date'') (\<lambda>end_date.
     bindR (ensure (\<not> end_date < start_date)
              (Exn PaperSpecError ''period.start_date must not be after period.end_date'')) (\<lambda>_.
     Inr (start_date, end_date)))))"

definition universe_spec :: "json \<Rightarrow> universe result" where
  "universe_spec v =
     bindR (spec_exact [''universe_id'', ''version'', ''security_ids'', ''membership_fingerprint''] ''universe'' v) (\<lambda>ob.
     bindR (field_of (spec_array ''universe.security_ids must be a non-empty list'' 1) ob ''security_ids'') (\<lambda>items.
     bindR (mapR (\<lambda>(i, item). spec_uuid (index_label ''universe.security_ids'' i []) item) (enumerate 0 items)) (\<lambda>ids.
     bindR (ensure (distinct ids) (Exn PaperSpecError ''universe.security_ids must be unique'')) (\<lambda>_.
     bindR (field_of (spec_uuid ''universe.universe_id'') ob ''universe_id'') (\<lambda>universe_id.
     bindR (field_of (spec_semver ''universe.version'') ob ''version'') (\<lambda>version.
     bindR (field_of (spec_sha ''universe.membership_fingerprint'') ob ''membership_fingerprint'') (\<lambda>fingerprint.
     Inr \<lparr>un_universe_id = universe_id, un_version = version, un_security_ids = sort ids,
        un_membership_fingerprint = fingerprint\<rparr>)))))))"

definition theme_texts :: "nat \<Rightarrow> json \<Rightarrow> string list result" where
  "theme_texts i v =
     (let m = index_label ''security_metadata'' i ''.themes must be a string array'' in
      case v of JArr xs \<Rightarrow> mapR (\<lambda>x. case x of JStr s \<Rightarrow> Inr s | _ \<Rightarrow> spec_error m) xs | _ \<Rightarrow> spec_error m)"

definition metadata_row :: "nat \<times> json \<Rightarrow> security_metadata result" where
  "metadata_row = (\<lambda>(i, raw).
     bindR (spec_exact [''security_id'', ''country'', ''sector'', ''themes''] (index_label ''security_metadata'' i []) raw) (\<lambda>row.
     bindR (field_of (theme_texts i) row ''themes'') (\<lambda>themes.
     bindR (field_of (spec_uuid (index_label ''security_metadata'' i ''.security_id'')) row ''security_id'') (\<lambda>security_id.
     bindR (field_of (spec_country (index_label ''security_metadata'' i ''.country'')) row ''country'') (\<lambda>country.
     bindR (field_of (spec_slug (index_label ''security_metadata'' i ''.sector'')) row ''sector'') (\<lambda>sector.
     bindR (mapR (\<lambda>t. spec_slug (index_label ''security_metadata'' i ''.themes'') (JStr t)) themes) (\<lambda>slugs.
     Inr \<lparr>sm_security_id = security_id, sm_country = country, sm_sector = sector,
        sm_themes = sorted_set slugs\<rparr>)))))))"

definition metadata_spec :: "string list \<Rightarrow> json \<Rightarrow> security_metadata list result" where
  "metadata_spec security_ids v =
     bindR (spec_array ''security_metadata must be a non-empty list'' 1 v) (\<lambda>items.
     bindR (mapR metadata_row (enumerate 0 items)) (\<lambda>rows.
     (let ids = map sm_security_id rows in
     bindR (ensure (distinct ids \<and> set ids = set security_ids)
              (Exn PaperSpecError ''security_metadata must contain exactly the universe security IDs'')) (\<lambda>_.
     Inr (sort_key sm_security_id rows)))))"

definition account_input_kinds :: "string list" where
  "account_input_kinds = [''prices'', ''calendar'', ''membership'', ''corporate_actions'', ''fx'', ''feature'',
     ''macro'', ''risk_free'']"

definition input_row :: "nat \<times> json \<Rightarrow> reference result" where
  "input_row = (\<lambda>(i, raw).
     bindR (spec_exact [''kind'', ''artifact_id'', ''path'', ''sha256'', ''available_at'', ''fitness'']
              (index_label ''inputs'' i []) raw) (\<lambda>row.
     bindR (field_of (spec_choice account_input_kinds (index_label ''inputs'' i ''.kind is unsupported''))
              row ''kind'') (\<lambda>kind.
     bindR (field_of (spec_choice [''current_research_only'', ''backtest_safe'']
              (index_label ''inputs'' i ''.fitness is not admitted for paper'')) row ''fitness'') (\<lambda>fitness.
     bindR (field_of (spec_uuid (index_label ''inputs'' i ''.artifact_id'')) row ''artifact_id'') (\<lambda>artifact_id.
     bindR (field_of (spec_relative_path (index_label ''inputs'' i ''.path'')) row ''path'') (\<lambda>path.
     bindR (field_of (spec_sha (index_label ''inputs'' i ''.sha256'')) row ''sha256'') (\<lambda>sha.
     bindR (field_of (spec_utc (index_label ''inputs'' i ''.available_at'')) row ''available_at'') (\<lambda>available_at.
     Inr \<lparr>r_kind = kind, r_artifact_id = artifact_id, r_path = path, r_sha256 = sha,
        r_available_at = available_at, r_fitness = fitness\<rparr>))))))))"

definition inputs_spec :: "json \<Rightarrow> reference list result" where
  "inputs_spec v =
     bindR (spec_array ''inputs must contain at least prices, calendar, and membership'' 3 v) (\<lambda>items.
     bindR (mapR input_row (enumerate 0 items)) (\<lambda>rows.
     bindR (ensure (distinct (map r_kind rows))
              (Exn PaperSpecError ''inputs must contain one artifact per kind'')) (\<lambda>_.
     bindR (mapR (\<lambda>kind. ensure (kind \<in> set (map r_kind rows))
                (Exn PaperSpecError (''inputs must include '' @ kind))) [''prices'', ''calendar'', ''membership'']) (\<lambda>_.
     Inr (sort_key r_kind rows)))))"

definition benchmark_spec :: "string list \<Rightarrow> json \<Rightarrow> (string \<times> string) result" where
  "benchmark_spec security_ids v =
     bindR (spec_exact [''security_id'', ''currency''] ''benchmark'' v) (\<lambda>ob.
     bindR (field_of (spec_uuid ''benchmark.security_id'') ob ''security_id'') (\<lambda>security_id.
     bindR (field_of (spec_currency ''benchmark.currency'') ob ''currency'') (\<lambda>currency.
     bindR (ensure (security_id \<in> set security_ids)
              (Exn PaperSpecError ''benchmark.security_id must belong to the account universe'')) (\<lambda>_.
     Inr (security_id, currency)))))"

text \<open>\<open>v == 1\<close>, which holds of a true boolean and of the float, too.\<close>

definition equals_one :: "json \<Rightarrow> bool" where
  "equals_one v \<longleftrightarrow> v = JInt 1 \<or> v = JBool True \<or> v = JFloat 1"

definition decision_spec :: "json \<Rightarrow> decision_policy result" where
  "decision_spec v =
     bindR (spec_exact [''frequency'', ''decision_at'', ''signal_delay_sessions'', ''execution_price'',
       ''stale_after_sessions'', ''max_price_gap''] ''decision_policy'' v) (\<lambda>ob.
     bindR (jget ob ''signal_delay_sessions'') (\<lambda>delay.
     bindR (ensure (map_of ob ''frequency'' = Some (JStr ''daily'') \<and> map_of ob ''decision_at'' = Some (JStr ''close'')
                \<and> equals_one delay \<and> map_of ob ''execution_price'' = Some (JStr ''open''))
              (Exn PaperSpecError ''only daily close to next-session open decisions are supported'')) (\<lambda>_.
     bindR (ensure (delay = JInt 1)
              (Exn PaperSpecError ''decision_policy.signal_delay_sessions must be one'')) (\<lambda>_.
     bindR (field_of (spec_int 0 ''decision_policy.stale_after_sessions must be non-negative'')
              ob ''stale_after_sessions'') (\<lambda>stale.
     bindR (field_of (spec_decimal True False ''decision_policy.max_price_gap'') ob ''max_price_gap'') (\<lambda>gap.
     Inr \<lparr>dp_stale_after_sessions = stale, dp_max_price_gap = gap\<rparr>))))))"

definition accounting_spec :: "json \<Rightarrow> accounting_policy result" where
  "accounting_spec v =
     bindR (spec_exact [''base_currency'', ''initial_cash'', ''fractional_shares'', ''rebalance_frequency'']
              ''accounting_policy'' v) (\<lambda>ob.
     bindR (field_of (spec_choice [''once'', ''daily'', ''weekly'', ''monthly'']
              ''accounting_policy.rebalance_frequency is unsupported'') ob ''rebalance_frequency'') (\<lambda>frequency.
     bindR (field_of (spec_bool ''accounting_policy.fractional_shares must be boolean'') ob ''fractional_shares'') (\<lambda>fractional.
     bindR (field_of (spec_currency ''accounting_policy.base_currency'') ob ''base_currency'') (\<lambda>base_currency.
     bindR (field_of (spec_decimal False True ''accounting_policy.initial_cash'') ob ''initial_cash'') (\<lambda>cash.
     Inr \<lparr>ac_base_currency = base_currency, ac_initial_cash = cash, ac_fractional_shares = fractional,
        ac_rebalance_frequency = frequency\<rparr>)))))"

definition cost_fields :: "string list" where
  "cost_fields = [''commission_bps'', ''fixed_fee'', ''minimum_fee'', ''spread_bps'', ''slippage_bps'', ''tax_bps'']"

definition cost_spec :: "json \<Rightarrow> cost_policy result" where
  "cost_spec v =
     bindR (spec_exact (''version'' # cost_fields) ''cost_policy'' v) (\<lambda>ob.
     bindR (field_of (spec_semver ''cost_policy.version'') ob ''version'') (\<lambda>version.
     bindR (field_of (spec_decimal True False ''cost_policy.commission_bps'') ob ''commission_bps'') (\<lambda>commission.
     bindR (field_of (spec_decimal True False ''cost_policy.fixed_fee'') ob ''fixed_fee'') (\<lambda>fixed.
     bindR (field_of (spec_decimal True False ''cost_policy.minimum_fee'') ob ''minimum_fee'') (\<lambda>minimum.
     bindR (field_of (spec_decimal True False ''cost_policy.spread_bps'') ob ''spread_bps'') (\<lambda>spread.
     bindR (field_of (spec_decimal True False ''cost_policy.slippage_bps'') ob ''slippage_bps'') (\<lambda>slippage.
     bindR (field_of (spec_decimal True False ''cost_policy.tax_bps'') ob ''tax_bps'') (\<lambda>tax.
     Inr \<lparr>cp_version = version, cp_commission_bps = commission, cp_fixed_fee = fixed,
        cp_minimum_fee = minimum, cp_spread_bps = spread, cp_slippage_bps = slippage, cp_tax_bps = tax\<rparr>))))))))"

text \<open>A risk limit; a fraction must not exceed one.\<close>

definition risk_limit :: "bool \<Rightarrow> string \<Rightarrow> (string \<times> json) list \<Rightarrow> string result" where
  "risk_limit fraction key ob =
     bindR (field_of (decimal True False (''risk_policy.'' @ key)) ob key) (\<lambda>parsed.
     if fraction \<and> 1 < parsed then spec_error (''risk_policy.'' @ key @ '' must not exceed one'')
     else Inr (decimal_string parsed))"

definition risk_fields :: "string list" where
  "risk_fields = [''version'', ''max_gross_exposure'', ''max_position_weight'', ''max_sector_exposure'',
     ''max_country_exposure'', ''max_currency_exposure'', ''max_theme_exposure'', ''minimum_cash_reserve'',
     ''max_turnover'', ''max_daily_notional'', ''max_price_gap'', ''max_stale_sessions'', ''max_participation'',
     ''max_drawdown'', ''prohibited_security_ids'']"

definition risk_spec :: "json \<Rightarrow> risk_policy result" where
  "risk_spec v =
     bindR (spec_exact risk_fields ''risk_policy'' v) (\<lambda>ob.
     bindR (field_of (spec_semver ''risk_policy.version'') ob ''version'') (\<lambda>version.
     bindR (risk_limit True ''max_gross_exposure'' ob) (\<lambda>gross.
     bindR (risk_limit True ''max_position_weight'' ob) (\<lambda>position.
     bindR (risk_limit True ''max_sector_exposure'' ob) (\<lambda>sector.
     bindR (risk_limit True ''max_country_exposure'' ob) (\<lambda>country.
     bindR (risk_limit True ''max_currency_exposure'' ob) (\<lambda>currency.
     bindR (risk_limit True ''max_theme_exposure'' ob) (\<lambda>theme.
     bindR (risk_limit True ''minimum_cash_reserve'' ob) (\<lambda>cash.
     bindR (risk_limit False ''max_turnover'' ob) (\<lambda>turnover.
     bindR (risk_limit False ''max_daily_notional'' ob) (\<lambda>notional.
     bindR (risk_limit False ''max_price_gap'' ob) (\<lambda>gap.
     bindR (risk_limit True ''max_participation'' ob) (\<lambda>participation.
     bindR (risk_limit True ''max_drawdown'' ob) (\<lambda>drawdown.
     bindR (field_of (spec_int 0 ''risk_policy.max_stale_sessions must be non-negative'') ob ''max_stale_sessions'') (\<lambda>stale.
     bindR (field_of (spec_array ''risk_policy.prohibited_security_ids must be an array'' 0)
              ob ''prohibited_security_ids'') (\<lambda>items.
     bindR (mapR (spec_uuid ''risk_policy.prohibited_security_ids'') items) (\<lambda>prohibited.
     Inr \<lparr>rp_version = version, rp_max_gross_exposure = gross, rp_max_position_weight = position,
        rp_max_sector_exposure = sector, rp_max_country_exposure = country, rp_max_currency_exposure = currency,
        rp_max_theme_exposure = theme, rp_minimum_cash_reserve = cash, rp_max_turnover = turnover,
        rp_max_daily_notional = notional, rp_max_price_gap = gap, rp_max_participation = participation,
        rp_max_drawdown = drawdown, rp_max_stale_sessions = stale,
        rp_prohibited_security_ids = sorted_set prohibited\<rparr>)))))))))))))))))"

definition promoted_spec :: "(string \<times> json) list \<Rightarrow> promoted_backtest option option result" where
  "promoted_spec ob =
     (case map_of ob ''promoted_backtest'' of
        None \<Rightarrow> Inr None
      | Some JNull \<Rightarrow> Inr (Some None)
      | Some v \<Rightarrow>
          bindR (spec_exact [''experiment_id'', ''manifest_path'', ''manifest_sha256''] ''promoted_backtest'' v) (\<lambda>p.
          bindR (field_of (spec_uuid ''promoted_backtest.experiment_id'') p ''experiment_id'') (\<lambda>experiment_id.
          bindR (field_of (spec_relative_path ''promoted_backtest.manifest_path'') p ''manifest_path'') (\<lambda>path.
          bindR (field_of (spec_sha ''promoted_backtest.manifest_sha256'') p ''manifest_sha256'') (\<lambda>sha.
          Inr (Some (Some \<lparr>pb_experiment_id = experiment_id, pb_manifest_path = path,
             pb_manifest_sha256 = sha\<rparr>)))))))"

definition validate_paper_account :: "json \<Rightarrow> account result" where
  "validate_paper_account v =
     (case v of JObj ob \<Rightarrow>
        if set (jkeys ob) \<subseteq> insert ''promoted_backtest'' (set account_fields) then
     bindR (ensure (set account_fields \<subseteq> set (jkeys ob))
              (Exn PaperSpecError (''paper account is missing fields: ''
                @ join_comma (sorted_set (filter (\<lambda>k. k \<notin> set (jkeys ob)) account_fields))))) (\<lambda>_.
     bindR (ensure (map_of ob ''schema_version'' = Some (JStr paper_schema_version))
              (Exn PaperSpecError ''paper account schema_version is unsupported'')) (\<lambda>_.
     bindR (field_of (spec_uuid ''account_id'') ob ''account_id'') (\<lambda>account_id.
     bindR (field_of (spec_nonempty ''name'') ob ''name'') (\<lambda>name.
     bindR (field_of strategy_spec ob ''strategy'') (\<lambda>strategy.
     bindR (field_of period_spec ob ''period'') (\<lambda>(start_date, end_date).
     bindR (field_of universe_spec ob ''universe'') (\<lambda>universe.
     bindR (field_of (metadata_spec (un_security_ids universe)) ob ''security_metadata'') (\<lambda>metadata.
     bindR (field_of inputs_spec ob ''inputs'') (\<lambda>references.
     bindR (field_of (benchmark_spec (un_security_ids universe)) ob ''benchmark'') (\<lambda>(benchmark_id, benchmark_currency).
     bindR (field_of decision_spec ob ''decision_policy'') (\<lambda>decision.
     bindR (field_of accounting_spec ob ''accounting_policy'') (\<lambda>accounting.
     bindR (field_of cost_spec ob ''cost_policy'') (\<lambda>cost.
     bindR (field_of risk_spec ob ''risk_policy'') (\<lambda>risk.
     bindR (field_of (spec_exact [''mode''] ''approval_policy'') ob ''approval_policy'') (\<lambda>approval.
     bindR (field_of (spec_choice [''manual'', ''auto''] ''approval_policy.mode is unsupported'') approval ''mode'') (\<lambda>mode.
     bindR (field_of (spec_choice [''halt_account'', ''halt_decision'', ''reject_trade'']
              ''missing_data_policy is unsupported'') ob ''missing_data_policy'') (\<lambda>missing.
     bindR (promoted_spec ob) (\<lambda>promoted.
     Inr \<lparr>acc_account_id = account_id, acc_name = name, acc_strategy = strategy,
        acc_start_date = start_date, acc_end_date = end_date, acc_universe = universe,
        acc_security_metadata = metadata, acc_inputs = references,
        acc_benchmark_security_id = benchmark_id, acc_benchmark_currency = benchmark_currency,
        acc_decision_policy = decision, acc_accounting_policy = accounting, acc_cost_policy = cost,
        acc_risk_policy = risk, acc_approval_mode = mode, acc_missing_data_policy = missing,
        acc_promoted_backtest = promoted\<rparr>))))))))))))))))))
        else spec_error ''paper account contains unknown fields''
      | _ \<Rightarrow> spec_error ''paper account contains unknown fields'')"

section \<open>The normalised document\<close>

text \<open>The document that \<open>validate_paper_account\<close> returns, for the records of the model.\<close>

definition strings_json :: "string list \<Rightarrow> json" where
  "strings_json ss = JArr (map JStr ss)"

definition parameters_json :: "parameters \<Rightarrow> json" where
  "parameters_json p = JObj
     ((case pm_lookback_sessions p of None \<Rightarrow> [] | Some i \<Rightarrow> [(''lookback_sessions'', JInt i)])
      @ (case pm_skip_sessions p of None \<Rightarrow> [] | Some i \<Rightarrow> [(''skip_sessions'', JInt i)])
      @ (case pm_top_k p of None \<Rightarrow> [] | Some i \<Rightarrow> [(''top_k'', JInt i)])
      @ (case pm_rebalance_frequency p of None \<Rightarrow> [] | Some f \<Rightarrow> [(''rebalance_frequency'', JStr f)]))"

definition strategy_json :: "strategy \<Rightarrow> json" where
  "strategy_json s = JObj [(''name'', JStr (st_name s)), (''version'', JStr (st_version s)),
     (''git_commit'', JStr (st_git_commit s)), (''parameters'', parameters_json (st_parameters s))]"

definition universe_json :: "universe \<Rightarrow> json" where
  "universe_json u = JObj [(''universe_id'', JStr (un_universe_id u)), (''version'', JStr (un_version u)),
     (''security_ids'', strings_json (un_security_ids u)),
     (''membership_fingerprint'', JStr (un_membership_fingerprint u))]"

definition metadata_json :: "security_metadata \<Rightarrow> json" where
  "metadata_json m = JObj [(''security_id'', JStr (sm_security_id m)), (''country'', JStr (sm_country m)),
     (''sector'', JStr (sm_sector m)), (''themes'', strings_json (sm_themes m))]"

definition reference_json :: "reference \<Rightarrow> json" where
  "reference_json r = JObj [(''kind'', JStr (r_kind r)), (''artifact_id'', JStr (r_artifact_id r)),
     (''path'', JStr (r_path r)), (''sha256'', JStr (r_sha256 r)), (''available_at'', JStr (r_available_at r)),
     (''fitness'', JStr (r_fitness r))]"

definition decision_json :: "decision_policy \<Rightarrow> json" where
  "decision_json d = JObj [(''frequency'', JStr ''daily''), (''decision_at'', JStr ''close''),
     (''signal_delay_sessions'', JInt 1), (''execution_price'', JStr ''open''),
     (''stale_after_sessions'', JInt (dp_stale_after_sessions d)), (''max_price_gap'', JStr (dp_max_price_gap d))]"

definition accounting_json :: "accounting_policy \<Rightarrow> json" where
  "accounting_json a = JObj [(''base_currency'', JStr (ac_base_currency a)),
     (''initial_cash'', JStr (ac_initial_cash a)), (''fractional_shares'', JBool (ac_fractional_shares a)),
     (''rebalance_frequency'', JStr (ac_rebalance_frequency a))]"

definition cost_json :: "cost_policy \<Rightarrow> json" where
  "cost_json c = JObj [(''version'', JStr (cp_version c)), (''commission_bps'', JStr (cp_commission_bps c)),
     (''fixed_fee'', JStr (cp_fixed_fee c)), (''minimum_fee'', JStr (cp_minimum_fee c)),
     (''spread_bps'', JStr (cp_spread_bps c)), (''slippage_bps'', JStr (cp_slippage_bps c)),
     (''tax_bps'', JStr (cp_tax_bps c))]"

definition risk_json :: "risk_policy \<Rightarrow> json" where
  "risk_json r = JObj [(''version'', JStr (rp_version r)),
     (''max_gross_exposure'', JStr (rp_max_gross_exposure r)),
     (''max_position_weight'', JStr (rp_max_position_weight r)),
     (''max_sector_exposure'', JStr (rp_max_sector_exposure r)),
     (''max_country_exposure'', JStr (rp_max_country_exposure r)),
     (''max_currency_exposure'', JStr (rp_max_currency_exposure r)),
     (''max_theme_exposure'', JStr (rp_max_theme_exposure r)),
     (''minimum_cash_reserve'', JStr (rp_minimum_cash_reserve r)),
     (''max_turnover'', JStr (rp_max_turnover r)), (''max_daily_notional'', JStr (rp_max_daily_notional r)),
     (''max_price_gap'', JStr (rp_max_price_gap r)), (''max_stale_sessions'', JInt (rp_max_stale_sessions r)),
     (''max_participation'', JStr (rp_max_participation r)), (''max_drawdown'', JStr (rp_max_drawdown r)),
     (''prohibited_security_ids'', strings_json (rp_prohibited_security_ids r))]"

definition promoted_json :: "promoted_backtest option \<Rightarrow> json" where
  "promoted_json p = (case p of None \<Rightarrow> JNull
     | Some b \<Rightarrow> JObj [(''experiment_id'', JStr (pb_experiment_id b)),
         (''manifest_path'', JStr (pb_manifest_path b)), (''manifest_sha256'', JStr (pb_manifest_sha256 b))])"

text \<open>The keys that every account has.\<close>

definition required_fields :: "account \<Rightarrow> (string \<times> json) list" where
  "required_fields a = [(''schema_version'', JStr paper_schema_version),
     (''account_id'', JStr (acc_account_id a)), (''name'', JStr (acc_name a)),
     (''strategy'', strategy_json (acc_strategy a)),
     (''period'', JObj [(''start_date'', JStr (acc_start_date a)), (''end_date'', JStr (acc_end_date a))]),
     (''universe'', universe_json (acc_universe a)),
     (''security_metadata'', JArr (map metadata_json (acc_security_metadata a))),
     (''inputs'', JArr (map reference_json (acc_inputs a))),
     (''benchmark'', JObj [(''security_id'', JStr (acc_benchmark_security_id a)),
        (''currency'', JStr (acc_benchmark_currency a))]),
     (''decision_policy'', decision_json (acc_decision_policy a)),
     (''accounting_policy'', accounting_json (acc_accounting_policy a)),
     (''cost_policy'', cost_json (acc_cost_policy a)), (''risk_policy'', risk_json (acc_risk_policy a)),
     (''approval_policy'', JObj [(''mode'', JStr (acc_approval_mode a))]),
     (''missing_data_policy'', JStr (acc_missing_data_policy a))]"

definition account_json :: "account \<Rightarrow> json" where
  "account_json a = JObj (required_fields a
     @ (case acc_promoted_backtest a of None \<Rightarrow> [] | Some p \<Rightarrow> [(''promoted_backtest'', promoted_json p)]))"

definition paper_account_sha256 :: "env \<Rightarrow> account \<Rightarrow> string" where
  "paper_account_sha256 env a = json_sha256 env (account_json a)"

section \<open>Validation is a normal form\<close>

lemma spec_text_Inr: "spec_text ok m f v = Inr s \<longleftrightarrow> v = JStr s \<and> ok s"
  by (auto simp: spec_text_def split: json.splits)

lemma member_of_JStr [simp]: "member_of (JStr s) names = Inr (s \<in> set names)"
  by (simp add: member_of_def)

lemma spec_choice_Inr: "spec_choice names m v = Inr s \<longleftrightarrow> v = JStr s \<and> s \<in> set names"
  by (auto simp: spec_choice_def member_of_def bindR_eq_Inr split: json.splits)

lemma spec_int_Inr: "spec_int low m v = Inr i \<longleftrightarrow> v = JInt i \<and> low \<le> i"
  by (auto simp: spec_int_def split: json.splits)

lemma spec_array_Inr: "spec_array m low v = Inr xs \<longleftrightarrow> v = JArr xs \<and> low \<le> length xs"
  by (auto simp: spec_array_def split: json.splits)

lemma spec_bool_Inr: "spec_bool m v = Inr b \<longleftrightarrow> v = JBool b"
  by (auto simp: spec_bool_def split: json.splits)

lemma spec_exact_JObj [simp]: "set (jkeys ob) = set ks \<Longrightarrow> spec_exact ks m (JObj ob) = Inr ob"
  by (simp add: spec_exact_def)

lemma field_of_Some [simp]: "map_of ob k = Some v \<Longrightarrow> field_of p ob k = p v"
  by (simp add: field_of_def jget_def)

lemma field_ofD: "field_of p ob k = Inr x \<Longrightarrow> \<exists>v. p v = Inr x"
  by (auto simp: field_of_def bindR_eq_Inr)

lemma strip_idem [simp]: "strip (strip s) = strip s"
proof -
  have hd: "dropWhile P (rev (dropWhile P (rev (dropWhile P s)))) = rev (dropWhile P (rev (dropWhile P s)))" for P :: "char \<Rightarrow> bool" and s
  proof (cases "dropWhile P (rev (dropWhile P s)) = []")
    case False
    define t where "t = dropWhile P s"
    from False have "rev (dropWhile P (rev t)) \<noteq> []" by (simp add: t_def)
    moreover obtain k where "t = rev (dropWhile P (rev t)) @ k"
      by (metis rev_append rev_rev_ident takeWhile_dropWhile_id)
    ultimately have "hd (rev (dropWhile P (rev t))) = hd t" by (metis hd_append2)
    moreover have "t \<noteq> []" using False unfolding t_def [symmetric] by fastforce
    then have "\<not> P (hd t)" unfolding t_def by (rule hd_dropWhile)
    ultimately show ?thesis using \<open>rev (dropWhile P (rev t)) \<noteq> []\<close>
      by (metis dropWhile_eq_self_iff t_def)
  next
    case True
    then show ?thesis by (simp only: rev.simps dropWhile.simps)
  qed
  show ?thesis unfolding strip_def hd by (simp add: dropWhile_idem)
qed

lemma spec_nonempty_Inr: "spec_nonempty f v = Inr s \<longleftrightarrow> (\<exists>t. v = JStr t \<and> s = strip t \<and> s \<noteq> [])"
  by (auto simp: spec_nonempty_def split: json.splits)

lemma spec_nonempty_again: "spec_nonempty f v = Inr s \<Longrightarrow> spec_nonempty f' (JStr s) = Inr s"
  by (auto simp: spec_nonempty_Inr)

lemma spec_relative_path_again: "spec_relative_path f v = Inr s \<Longrightarrow> spec_relative_path f' (JStr s) = Inr s"
  by (auto simp: spec_relative_path_def bindR_eq_Inr spec_nonempty_Inr split: if_splits)

text \<open>A string that \<open>decimal_string\<close> wrote for a value the parser admits.\<close>

definition canonical_decimal :: "bool \<Rightarrow> bool \<Rightarrow> string \<Rightarrow> bool" where
  "canonical_decimal non_negative positive s \<longleftrightarrow>
     (\<exists>q. s = decimal_string q \<and> is_decimal q \<and> (non_negative \<longrightarrow> 0 \<le> q) \<and> (positive \<longrightarrow> 0 < q))"

lemma decimal_range: "decimal n p f v = Inr q \<Longrightarrow> is_decimal q \<and> (n \<longrightarrow> 0 \<le> q) \<and> (p \<longrightarrow> 0 < q)"
  by (auto simp: decimal_is_decimal) (auto simp: decimal_def Let_def split: json.splits option.splits if_splits)

lemma decimal_canonical [simp]:
  "is_decimal q \<Longrightarrow> (n \<Longrightarrow> 0 \<le> q) \<Longrightarrow> (p \<Longrightarrow> 0 < q) \<Longrightarrow> decimal n p f (JStr (decimal_string q)) = Inr q"
  by (cases n) (auto simp: decimal_def Let_def not_less)

lemma spec_decimal_canonical: "spec_decimal n p f v = Inr s \<Longrightarrow> canonical_decimal n p s"
  by (auto simp: spec_decimal_def bindR_eq_Inr canonical_decimal_def dest: decimal_range)

lemma spec_decimal_again [simp]: "canonical_decimal n p s \<Longrightarrow> spec_decimal n p f (JStr s) = Inr s"
  by (auto simp: canonical_decimal_def spec_decimal_def)

text \<open>What a parsed field satisfies, and that a field with it parses to itself.\<close>

lemma field_facts:
  "field_of (spec_choice names m) ob k = Inr s \<Longrightarrow> s \<in> set names"
  "field_of (spec_semver f) ob k = Inr s \<Longrightarrow> is_semver s"
  "field_of (spec_sha f) ob k = Inr s \<Longrightarrow> is_sha256 s"
  "field_of (spec_country f) ob k = Inr s \<Longrightarrow> is_country s"
  "field_of (spec_slug f) ob k = Inr s \<Longrightarrow> is_slug s"
  "field_of (spec_date f) ob k = Inr s \<Longrightarrow> parse_date s \<noteq> None"
  "field_of (spec_utc f) ob k = Inr s \<Longrightarrow> parse_datetime s \<noteq> None"
  "field_of (spec_uuid f) ob k = Inr s \<Longrightarrow> is_uuid s"
  "field_of (spec_currency f) ob k = Inr s \<Longrightarrow> is_currency s"
  "field_of (spec_int low m) ob k = Inr i \<Longrightarrow> low \<le> i"
  "field_of (spec_decimal n p f) ob k = Inr s \<Longrightarrow> canonical_decimal n p s"
  "field_of (spec_relative_path f) ob k = Inr s \<Longrightarrow> spec_relative_path [] (JStr s) = Inr s"
  "field_of (spec_nonempty f) ob k = Inr s \<Longrightarrow> spec_nonempty [] (JStr s) = Inr s"
  by (drule field_ofD, auto simp: spec_text_Inr spec_choice_Inr spec_int_Inr spec_semver_def spec_sha_def
      spec_country_def spec_slug_def spec_date_def spec_utc_def check_uuid_Inr_iff check_currency_Inr_iff
      intro: spec_decimal_canonical spec_relative_path_again spec_nonempty_again)+

lemma parse_again:
  "s \<in> set names \<Longrightarrow> spec_choice names m (JStr s) = Inr s"
  "is_semver s \<Longrightarrow> spec_semver f (JStr s) = Inr s"
  "is_sha256 s \<Longrightarrow> spec_sha f (JStr s) = Inr s"
  "is_country s \<Longrightarrow> spec_country f (JStr s) = Inr s"
  "is_slug s \<Longrightarrow> spec_slug f (JStr s) = Inr s"
  "parse_date s \<noteq> None \<Longrightarrow> spec_date f (JStr s) = Inr s"
  "parse_datetime s \<noteq> None \<Longrightarrow> spec_utc f (JStr s) = Inr s"
  "is_uuid s \<Longrightarrow> spec_uuid f (JStr s) = Inr s"
  "is_currency s \<Longrightarrow> spec_currency f (JStr s) = Inr s"
  "low \<le> i \<Longrightarrow> spec_int low m (JInt i) = Inr i"
  "len \<le> length xs \<Longrightarrow> spec_array m len (JArr xs) = Inr xs"
  "spec_bool m (JBool b) = Inr b"
  "spec_relative_path [] (JStr s) = Inr s \<Longrightarrow> spec_relative_path f (JStr s) = Inr s"
  "spec_nonempty [] (JStr s) = Inr s \<Longrightarrow> spec_nonempty f (JStr s) = Inr s"
  by (auto simp: spec_text_Inr spec_choice_Inr spec_int_Inr spec_array_Inr spec_bool_Inr spec_semver_def spec_sha_def
      spec_country_def spec_slug_def spec_date_def spec_utc_def check_uuid_Inr_iff check_currency_Inr_iff
      intro: spec_relative_path_again spec_nonempty_again)

lemma mapR_enumerate_again:
  assumes "\<And>i x. x \<in> set xs \<Longrightarrow> f (i, g x) = Inr x"
  shows "mapR f (enumerate n (map g xs)) = Inr xs"
  using assms by (induction xs arbitrary: n) simp_all

lemma mapR_again:
  assumes "\<And>x. x \<in> set xs \<Longrightarrow> f (g x) = Inr x"
  shows "mapR f (map g xs) = Inr xs"
  using assms by (induction xs) simp_all

lemma strings_of_json: "(\<And>x. x \<in> set xs \<Longrightarrow> f (JStr x) = Inr x) \<Longrightarrow> mapR f (map JStr xs) = Inr xs"
  by (rule mapR_again) simp

lemma ensure_True [simp]: "ensure True e = Inr ()"
  by (simp add: ensure_def)

lemma strategy_parameters_again:
  assumes "strategy_parameters name ps = Inr p"
    and "name \<in> set [''buy_and_hold'', ''equal_weight'', ''momentum_12_1'']"
  obtains ps' where "parameters_json p = JObj ps'" and "strategy_parameters name ps' = Inr p"
proof -
  define ps' where "ps' = (case parameters_json p of JObj kvs \<Rightarrow> kvs | _ \<Rightarrow> [])"
  from assms(2) consider "name = ''buy_and_hold''" | "name = ''equal_weight''" | "name = ''momentum_12_1''" by auto
  then have "parameters_json p = JObj ps' \<and> strategy_parameters name ps' = Inr p"
  proof cases
    case 1
    with assms(1) show ?thesis
      by (auto simp: strategy_parameters_def parameters_json_def ps'_def split: if_splits)
  next
    case 2
    with assms(1) obtain f where "f \<in> set frequencies"
      "p = \<lparr>pm_rebalance_frequency = Some f, pm_lookback_sessions = None, pm_skip_sessions = None, pm_top_k = None\<rparr>"
      by (auto simp: strategy_parameters_def Let_def bindR_eq_Inr dest!: field_facts)
    with 2 show ?thesis
      by (simp add: strategy_parameters_def parameters_json_def ps'_def jkeys_def parse_again Let_def)
  next
    case 3
    with assms(1) obtain f l k t where "f \<in> set frequencies" "1 \<le> l" "1 \<le> k" "1 \<le> t" "k < l"
      "p = \<lparr>pm_rebalance_frequency = Some f, pm_lookback_sessions = Some l, pm_skip_sessions = Some k, pm_top_k = Some t\<rparr>"
      by (auto simp: strategy_parameters_def Let_def bindR_eq_Inr dest!: field_facts)
    with 3 show ?thesis
      by (simp add: strategy_parameters_def parameters_json_def ps'_def jkeys_def parse_again Let_def)
  qed
  then show thesis by (rule conjE) (rule that)
qed

lemma git_commit_Inr: "git_commit v = Inr s \<longleftrightarrow> v = JStr s \<and> (s = ''unknown'' \<or> is_git_sha s)"
  by (auto simp: git_commit_def Let_def split: json.splits)

lemma strategy_again:
  assumes "strategy_spec v = Inr s"
  shows "strategy_spec (strategy_json s) = Inr s"
proof -
  from assms obtain ps where s: "st_name s \<in> set [''buy_and_hold'', ''equal_weight'', ''momentum_12_1'']"
      "git_commit (JStr (st_git_commit s)) = Inr (st_git_commit s)" "is_semver (st_version s)"
    and ps: "strategy_parameters (st_name s) ps = Inr (st_parameters s)"
    unfolding strategy_spec_def
    by (elim bindR_InrE) (auto simp: git_commit_Inr dest!: field_facts field_ofD[of git_commit])
  obtain ps' where "parameters_json (st_parameters s) = JObj ps'"
      "strategy_parameters (st_name s) ps' = Inr (st_parameters s)"
    by (rule strategy_parameters_again[OF ps s(1)])
  with s show ?thesis
    by (simp add: strategy_spec_def strategy_json_def jkeys_def parse_again del: list.set)
qed

lemma period_again:
  assumes "period_spec v = Inr (a, b)"
  shows "period_spec (JObj [(''start_date'', JStr a), (''end_date'', JStr b)]) = Inr (a, b)"
    and "parse_date a \<noteq> None \<and> parse_date b \<noteq> None \<and> \<not> b < a"
proof -
  from assms have ab: "parse_date a \<noteq> None" "parse_date b \<noteq> None" "\<not> b < a"
    unfolding period_spec_def by (elim bindR_InrE; auto dest!: field_facts)+
  then show "period_spec (JObj [(''start_date'', JStr a), (''end_date'', JStr b)]) = Inr (a, b)"
    by (simp add: period_spec_def jkeys_def parse_again)
  from ab show "parse_date a \<noteq> None \<and> parse_date b \<noteq> None \<and> \<not> b < a" by simp
qed

lemma universe_again:
  assumes "universe_spec v = Inr u"
  shows "universe_spec (universe_json u) = Inr u"
    and "distinct (un_security_ids u) \<and> sorted (un_security_ids u) \<and> un_security_ids u \<noteq> []
      \<and> list_all is_uuid (un_security_ids u)"
proof -
  let ?f = "\<lambda>(i, item). spec_uuid (index_label ''universe.security_ids'' i []) item"
  from assms obtain ob items ids where items: "field_of (spec_array ''universe.security_ids must be a non-empty list'' 1) ob ''security_ids'' = Inr items"
    and ids: "mapR ?f (enumerate 0 items) = Inr ids" and d: "distinct ids"
    and u: "un_security_ids u = sort ids" "is_uuid (un_universe_id u)" "is_semver (un_version u)"
      "is_sha256 (un_membership_fingerprint u)"
    unfolding universe_spec_def by (elim bindR_InrE) (auto dest!: field_facts)
  have uuid: "is_uuid x" if "x \<in> set ids" for x
    using mapR_memD[OF ids that] by (auto simp: check_uuid_Inr_iff)
  have len: "ids \<noteq> []" using mapR_length[OF ids] field_ofD[OF items] by (auto simp: spec_array_Inr)
  show facts: "distinct (un_security_ids u) \<and> sorted (un_security_ids u) \<and> un_security_ids u \<noteq> []
      \<and> list_all is_uuid (un_security_ids u)"
    using d len uuid by (simp add: u(1) list_all_iff)
  have again: "mapR ?f (enumerate 0 (map JStr (un_security_ids u))) = Inr (un_security_ids u)"
    by (rule mapR_enumerate_again) (simp add: check_uuid_def uuid u(1))
  have one: "spec_array m 1 (JArr (map JStr (un_security_ids u))) = Inr (map JStr (un_security_ids u))" for m
    using facts by (simp add: spec_array_def)
  show "universe_spec (universe_json u) = Inr u"
    using u(2-4) facts
    by (simp add: universe_spec_def universe_json_def jkeys_def strings_json_def one again parse_again sorted_sort_id
        insert_commute del: One_nat_def)
qed

lemma sorted_set_again [simp]: "sorted_set (sorted_set xs) = sorted_set xs"
  by (rule sorted_set_cong) simp

lemma metadata_row_again:
  assumes "metadata_row (i, v) = Inr m"
  shows "metadata_row (j, metadata_json m) = Inr m"
proof -
  from assms obtain slugs ts where m: "is_uuid (sm_security_id m)" "is_country (sm_country m)" "is_slug (sm_sector m)"
      "sm_themes m = sorted_set slugs"
    and slugs: "mapR (\<lambda>t. spec_slug (index_label ''security_metadata'' i ''.themes'') (JStr t)) ts = Inr slugs"
    unfolding metadata_row_def prod.case by (elim bindR_InrE) (auto dest!: field_facts)
  have "is_slug s" if "s \<in> set slugs" for s
    using mapR_memD[OF slugs that] by (auto simp: spec_slug_def spec_text_Inr)
  then have "mapR (\<lambda>t. spec_slug (index_label ''security_metadata'' j ''.themes'') (JStr t)) (sm_themes m) = Inr (sm_themes m)"
    using mapR_again[of "sm_themes m" "\<lambda>t. spec_slug (index_label ''security_metadata'' j ''.themes'') (JStr t)" "\<lambda>x. x"]
    by (simp add: parse_again m)
  moreover have "theme_texts j (strings_json (sm_themes m)) = Inr (sm_themes m)"
    by (simp add: theme_texts_def strings_json_def strings_of_json Let_def)
  ultimately show ?thesis using m
    by (simp add: metadata_row_def metadata_json_def jkeys_def parse_again insert_commute)
qed

lemma metadata_again:
  assumes "metadata_spec ids v = Inr ms"
  shows "metadata_spec ids (JArr (map metadata_json ms)) = Inr ms"
    and "distinct (map sm_security_id ms) \<and> set (map sm_security_id ms) = set ids"
proof -
  from assms obtain items rows where items: "spec_array ''security_metadata must be a non-empty list'' 1 v = Inr items"
    and rows: "mapR metadata_row (enumerate 0 items) = Inr rows"
    and ok: "distinct (map sm_security_id rows)" "set (map sm_security_id rows) = set ids"
    and ms: "ms = sort_key sm_security_id rows"
    unfolding metadata_spec_def Let_def by (elim bindR_InrE) auto
  have "rows \<noteq> []" using mapR_length[OF rows] items by (auto simp: spec_array_Inr)
  then have len: "1 \<le> length (map metadata_json ms)" by (simp add: ms Suc_le_eq)
  have "mapR metadata_row (enumerate 0 (map metadata_json ms)) = Inr ms"
  proof (rule mapR_enumerate_again)
    fix i m assume "m \<in> set ms"
    then have "m \<in> set rows" by (simp add: ms)
    from mapR_memD[OF rows this] obtain j w where "metadata_row (j, w) = Inr m" by auto
    then show "metadata_row (i, metadata_json m) = Inr m" by (rule metadata_row_again)
  qed
  moreover have facts: "distinct (map sm_security_id ms) \<and> set (map sm_security_id ms) = set ids"
    using ok by (simp add: ms distinct_map)
  moreover have "sort_key sm_security_id ms = ms" by (simp add: ms)
  ultimately show "metadata_spec ids (JArr (map metadata_json ms)) = Inr ms"
    using len by (simp add: metadata_spec_def parse_again Let_def del: One_nat_def length_map)
  show "distinct (map sm_security_id ms) \<and> set (map sm_security_id ms) = set ids" by (rule facts)
qed

lemma input_row_again:
  assumes "input_row (i, v) = Inr r"
  shows "input_row (j, reference_json r) = Inr r"
proof -
  from assms have "r_kind r \<in> set account_input_kinds"
    "r_fitness r \<in> set [''current_research_only'', ''backtest_safe'']" "is_uuid (r_artifact_id r)" "is_sha256 (r_sha256 r)"
    "parse_datetime (r_available_at r) \<noteq> None" "spec_relative_path [] (JStr (r_path r)) = Inr (r_path r)"
    unfolding input_row_def prod.case by (elim bindR_InrE; auto dest!: field_facts simp del: list.set)+
  then show ?thesis
    by (simp add: input_row_def reference_json_def jkeys_def parse_again del: list.set)
qed

lemma inputs_again:
  assumes "inputs_spec v = Inr rs"
  shows "inputs_spec (JArr (map reference_json rs)) = Inr rs"
    and "distinct (map r_kind rs) \<and> sorted (map r_kind rs) \<and> {''prices'', ''calendar'', ''membership''} \<subseteq> set (map r_kind rs)"
proof -
  from assms obtain items rows where items: "spec_array ''inputs must contain at least prices, calendar, and membership'' 3 v = Inr items"
    and rows: "mapR input_row (enumerate 0 items) = Inr rows"
    and ok: "distinct (map r_kind rows)"
    and req: "{''prices'', ''calendar'', ''membership''} \<subseteq> set (map r_kind rows)"
    and rs: "rs = sort_key r_kind rows"
    unfolding inputs_spec_def by (elim bindR_InrE) (auto simp: bindR_eq_Inr)
  have len: "3 \<le> length (map reference_json rs)" using mapR_length[OF rows] items by (simp add: rs spec_array_Inr)
  have again: "mapR input_row (enumerate 0 (map reference_json rs)) = Inr rs"
  proof (rule mapR_enumerate_again)
    fix i m assume "m \<in> set rs"
    then have "m \<in> set rows" by (simp add: rs)
    from mapR_memD[OF rows this] obtain j w where "input_row (j, w) = Inr m" by auto
    then show "input_row (i, reference_json m) = Inr m" by (rule input_row_again)
  qed
  show facts: "distinct (map r_kind rs) \<and> sorted (map r_kind rs)
      \<and> {''prices'', ''calendar'', ''membership''} \<subseteq> set (map r_kind rs)"
    using ok req by (simp add: rs distinct_map)
  moreover have "sort_key r_kind rs = rs" by (simp add: rs)
  ultimately show "inputs_spec (JArr (map reference_json rs)) = Inr rs"
    using len by (simp add: inputs_spec_def again parse_again)
qed

lemma benchmark_again:
  assumes "benchmark_spec ids v = Inr (s, c)"
  shows "benchmark_spec ids (JObj [(''security_id'', JStr s), (''currency'', JStr c)]) = Inr (s, c)"
proof -
  from assms have "is_uuid s" "is_currency c" "s \<in> set ids"
    unfolding benchmark_spec_def by (elim bindR_InrE; auto dest!: field_facts)+
  then show ?thesis by (simp add: benchmark_spec_def jkeys_def parse_again)
qed

lemma decision_again:
  assumes "decision_spec v = Inr d"
  shows "decision_spec (decision_json d) = Inr d" and "canonical_decimal True False (dp_max_price_gap d)"
proof -
  from assms have d: "0 \<le> dp_stale_after_sessions d" "canonical_decimal True False (dp_max_price_gap d)"
    unfolding decision_spec_def by (elim bindR_InrE; auto dest!: field_facts)+
  then show "decision_spec (decision_json d) = Inr d"
    by (simp add: decision_spec_def decision_json_def jkeys_def jget_def equals_one_def parse_again)
  show "canonical_decimal True False (dp_max_price_gap d)" by (rule d)
qed

lemma accounting_again:
  assumes "accounting_spec v = Inr a"
  shows "accounting_spec (accounting_json a) = Inr a" and "canonical_decimal False True (ac_initial_cash a)"
    and "is_currency (ac_base_currency a)"
proof -
  from assms have a: "ac_rebalance_frequency a \<in> set [''once'', ''daily'', ''weekly'', ''monthly'']"
      "is_currency (ac_base_currency a)" "canonical_decimal False True (ac_initial_cash a)"
    unfolding accounting_spec_def by (elim bindR_InrE; auto dest!: field_facts simp del: list.set)+
  then show "accounting_spec (accounting_json a) = Inr a"
    by (simp add: accounting_spec_def accounting_json_def jkeys_def parse_again del: list.set)
  show "canonical_decimal False True (ac_initial_cash a)" "is_currency (ac_base_currency a)" by (rule a)+
qed

definition cost_ok :: "cost_policy \<Rightarrow> bool" where
  "cost_ok c \<longleftrightarrow> is_semver (cp_version c) \<and> list_all (canonical_decimal True False)
     [cp_commission_bps c, cp_fixed_fee c, cp_minimum_fee c, cp_spread_bps c, cp_slippage_bps c, cp_tax_bps c]"

lemma cost_again:
  assumes "cost_spec v = Inr c"
  shows "cost_spec (cost_json c) = Inr c" and "cost_ok c"
proof -
  from assms show c: "cost_ok c"
    unfolding cost_spec_def cost_ok_def by (elim bindR_InrE) (auto dest!: field_facts)
  then show "cost_spec (cost_json c) = Inr c"
    by (simp add: cost_spec_def cost_json_def cost_fields_def cost_ok_def jkeys_def parse_again del: list.set)
qed

text \<open>A limit as the validator writes it: a canonical decimal, a fraction not above one.\<close>

definition limit_ok :: "bool \<Rightarrow> string \<Rightarrow> bool" where
  "limit_ok fraction s \<longleftrightarrow> (\<exists>q. s = decimal_string q \<and> is_decimal q \<and> 0 \<le> q \<and> (fraction \<longrightarrow> q \<le> 1))"

lemma risk_limit_ok: "risk_limit fraction key ob = Inr s \<Longrightarrow> limit_ok fraction s"
  unfolding risk_limit_def limit_ok_def
  by (elim bindR_InrE) (auto dest!: field_ofD decimal_range split: if_splits)

lemma risk_limit_again: "map_of ob key = Some (JStr s) \<Longrightarrow> limit_ok fraction s \<Longrightarrow> risk_limit fraction key ob = Inr s"
  by (auto simp: risk_limit_def limit_ok_def)

definition risk_ok :: "risk_policy \<Rightarrow> bool" where
  "risk_ok r \<longleftrightarrow> is_semver (rp_version r) \<and> 0 \<le> rp_max_stale_sessions r
     \<and> list_all (limit_ok True) [rp_max_gross_exposure r, rp_max_position_weight r, rp_max_sector_exposure r,
         rp_max_country_exposure r, rp_max_currency_exposure r, rp_max_theme_exposure r,
         rp_minimum_cash_reserve r, rp_max_participation r, rp_max_drawdown r]
     \<and> list_all (limit_ok False) [rp_max_turnover r, rp_max_daily_notional r, rp_max_price_gap r]"

lemma risk_again:
  assumes "risk_spec v = Inr r"
  shows "risk_spec (risk_json r) = Inr r" and "risk_ok r"
proof -
  from assms obtain items prohibited where
    p: "mapR (spec_uuid ''risk_policy.prohibited_security_ids'') items = Inr prohibited"
    and pr: "rp_prohibited_security_ids r = sorted_set prohibited" and ok: "risk_ok r"
    unfolding risk_spec_def risk_ok_def by (elim bindR_InrE) (auto dest!: field_facts risk_limit_ok)
  show "risk_ok r" by (rule ok)
  have uuid: "is_uuid x" if "x \<in> set prohibited" for x
    using mapR_memD[OF p that] by (auto simp: check_uuid_Inr_iff)
  have again: "mapR (spec_uuid ''risk_policy.prohibited_security_ids'') (map JStr (rp_prohibited_security_ids r))
      = Inr (rp_prohibited_security_ids r)"
    by (rule strings_of_json) (simp add: pr uuid check_uuid_def)
  have sorted: "sorted_set (rp_prohibited_security_ids r) = rp_prohibited_security_ids r" by (simp add: pr)
  note limits = ok[unfolded risk_ok_def]
  show "risk_spec (risk_json r) = Inr r"
    unfolding risk_spec_def risk_json_def strings_json_def
    using limits again sorted
    by (simp add: jkeys_def risk_fields_def parse_again risk_limit_again del: list.set)
qed

lemma promoted_again:
  assumes "promoted_spec ob = Inr p" and that: "map_of ob' ''promoted_backtest'' = None"
  shows "promoted_spec (ob' @ (case p of None \<Rightarrow> [] | Some b \<Rightarrow> [(''promoted_backtest'', promoted_json b)])) = Inr p"
proof (cases p)
  case None
  with that show ?thesis by (simp add: promoted_spec_def)
next
  case (Some b)
  show ?thesis
  proof (cases b)
    case None
    with Some that show ?thesis by (simp add: promoted_spec_def promoted_json_def map_add_def)
  next
    case [simp]: (Some pb)
    from assms(1) \<open>p = Some b\<close> have "is_uuid (pb_experiment_id pb)" "is_sha256 (pb_manifest_sha256 pb)"
        "spec_relative_path [] (JStr (pb_manifest_path pb)) = Inr (pb_manifest_path pb)"
      unfolding promoted_spec_def
      by (auto simp: bindR_eq_Inr dest!: field_facts split: option.splits json.splits)
    with \<open>p = Some b\<close> that show ?thesis
      by (simp add: promoted_spec_def promoted_json_def map_add_def jkeys_def parse_again)
  qed
qed

text \<open>What every validated account satisfies, as far as the engine relies on it.\<close>

definition account_ok :: "account \<Rightarrow> bool" where
  "account_ok a \<longleftrightarrow> is_uuid (acc_account_id a)
     \<and> parse_date (acc_start_date a) \<noteq> None \<and> parse_date (acc_end_date a) \<noteq> None
     \<and> \<not> acc_end_date a < acc_start_date a
     \<and> distinct (un_security_ids (acc_universe a)) \<and> un_security_ids (acc_universe a) \<noteq> []
     \<and> distinct (map sm_security_id (acc_security_metadata a))
     \<and> set (map sm_security_id (acc_security_metadata a)) = set (un_security_ids (acc_universe a))
     \<and> distinct (map r_kind (acc_inputs a))
     \<and> {''prices'', ''calendar'', ''membership''} \<subseteq> set (map r_kind (acc_inputs a))
     \<and> canonical_decimal True False (dp_max_price_gap (acc_decision_policy a))
     \<and> is_currency (acc_base_currency a)
     \<and> canonical_decimal False True (ac_initial_cash (acc_accounting_policy a))
     \<and> cost_ok (acc_cost_policy a) \<and> risk_ok (acc_risk_policy a)"

lemma validate_sections:
  assumes "validate_paper_account v = Inr a"
  obtains ob vs vp vu vm vi vb vd va vc vr where "is_uuid (acc_account_id a)"
    and "spec_nonempty [] (JStr (acc_name a)) = Inr (acc_name a)"
    and "strategy_spec vs = Inr (acc_strategy a)"
    and "period_spec vp = Inr (acc_start_date a, acc_end_date a)"
    and "universe_spec vu = Inr (acc_universe a)"
    and "metadata_spec (un_security_ids (acc_universe a)) vm = Inr (acc_security_metadata a)"
    and "inputs_spec vi = Inr (acc_inputs a)"
    and "benchmark_spec (un_security_ids (acc_universe a)) vb = Inr (acc_benchmark_security_id a, acc_benchmark_currency a)"
    and "decision_spec vd = Inr (acc_decision_policy a)"
    and "accounting_spec va = Inr (acc_accounting_policy a)"
    and "cost_spec vc = Inr (acc_cost_policy a)"
    and "risk_spec vr = Inr (acc_risk_policy a)"
    and "acc_approval_mode a \<in> set [''manual'', ''auto'']"
    and "acc_missing_data_policy a \<in> set [''halt_account'', ''halt_decision'', ''reject_trade'']"
    and "promoted_spec ob = Inr (acc_promoted_backtest a)"
proof -
  from assms obtain ob where v: "v = JObj ob"
    by (auto simp: validate_paper_account_def split: json.splits)
  from assms show thesis
    unfolding v validate_paper_account_def json.case
    apply (simp only: split: if_split_asm)
     apply (elim bindR_InrE)
     apply (simp only: prod.case_eq_if)
     apply (elim bindR_InrE)
     apply (simp only: prod.case_eq_if)
     apply (elim bindR_InrE)
     apply (drule field_facts(1-13) field_ofD)+
     apply (elim exE)
     apply (simp only: sum.inject)
     apply hypsubst
     apply (rule that; simp only: account.select_convs prod.collapse; assumption?)
    apply simp
    done
qed

lemma validate_ok:
  assumes "validate_paper_account v = Inr a"
  shows "account_ok a"
  using assms
proof (rule validate_sections)
  fix vp vu vm vi vd va vc vr
  assume "is_uuid (acc_account_id a)"
    and s: "period_spec vp = Inr (acc_start_date a, acc_end_date a)" "universe_spec vu = Inr (acc_universe a)"
      "metadata_spec (un_security_ids (acc_universe a)) vm = Inr (acc_security_metadata a)"
      "inputs_spec vi = Inr (acc_inputs a)" "decision_spec vd = Inr (acc_decision_policy a)"
      "accounting_spec va = Inr (acc_accounting_policy a)" "cost_spec vc = Inr (acc_cost_policy a)"
      "risk_spec vr = Inr (acc_risk_policy a)"
  then show ?thesis
    using s(1)[THEN period_again(2)] s(2)[THEN universe_again(2)] s(3)[THEN metadata_again(2)]
      s(4)[THEN inputs_again(2)] s(5)[THEN decision_again(2)] s(6)[THEN accounting_again(2)]
      s(6)[THEN accounting_again(3)] s(7)[THEN cost_again(2)] s(8)[THEN risk_again(2)]
    by (simp add: account_ok_def)
qed

text \<open>A record whose sections are each a normal form validates, written out, to itself.\<close>

lemma account_json_valid:
  assumes s: "strategy_spec (strategy_json (acc_strategy a)) = Inr (acc_strategy a)"
      "period_spec (JObj [(''start_date'', JStr (acc_start_date a)), (''end_date'', JStr (acc_end_date a))])
        = Inr (acc_start_date a, acc_end_date a)"
      "universe_spec (universe_json (acc_universe a)) = Inr (acc_universe a)"
      "metadata_spec (un_security_ids (acc_universe a)) (JArr (map metadata_json (acc_security_metadata a)))
        = Inr (acc_security_metadata a)"
      "inputs_spec (JArr (map reference_json (acc_inputs a))) = Inr (acc_inputs a)"
      "benchmark_spec (un_security_ids (acc_universe a)) (JObj [(''security_id'', JStr (acc_benchmark_security_id a)),
        (''currency'', JStr (acc_benchmark_currency a))]) = Inr (acc_benchmark_security_id a, acc_benchmark_currency a)"
      "decision_spec (decision_json (acc_decision_policy a)) = Inr (acc_decision_policy a)"
      "accounting_spec (accounting_json (acc_accounting_policy a)) = Inr (acc_accounting_policy a)"
      "cost_spec (cost_json (acc_cost_policy a)) = Inr (acc_cost_policy a)"
      "risk_spec (risk_json (acc_risk_policy a)) = Inr (acc_risk_policy a)"
    and p: "promoted_spec ob = Inr (acc_promoted_backtest a)"
    and t: "is_uuid (acc_account_id a)" "spec_nonempty [] (JStr (acc_name a)) = Inr (acc_name a)"
      "acc_approval_mode a \<in> set [''manual'', ''auto'']"
      "acc_missing_data_policy a \<in> set [''halt_account'', ''halt_decision'', ''reject_trade'']"
  shows "validate_paper_account (account_json a) = Inr a"
proof -
  define extra where "extra = (case acc_promoted_backtest a of None \<Rightarrow> [] | Some b \<Rightarrow> [(''promoted_backtest'', promoted_json b)])"
  define base where "base = required_fields a"
  have doc: "account_json a = JObj (base @ extra)" by (simp add: account_json_def base_def extra_def)
  have keys: "jkeys base = account_fields"
    and base: "map_of base ''schema_version'' = Some (JStr paper_schema_version)"
      "map_of base ''account_id'' = Some (JStr (acc_account_id a))"
      "map_of base ''name'' = Some (JStr (acc_name a))"
      "map_of base ''strategy'' = Some (strategy_json (acc_strategy a))"
      "map_of base ''period'' = Some (JObj [(''start_date'', JStr (acc_start_date a)), (''end_date'', JStr (acc_end_date a))])"
      "map_of base ''universe'' = Some (universe_json (acc_universe a))"
      "map_of base ''security_metadata'' = Some (JArr (map metadata_json (acc_security_metadata a)))"
      "map_of base ''inputs'' = Some (JArr (map reference_json (acc_inputs a)))"
      "map_of base ''benchmark'' = Some (JObj [(''security_id'', JStr (acc_benchmark_security_id a)),
        (''currency'', JStr (acc_benchmark_currency a))])"
      "map_of base ''decision_policy'' = Some (decision_json (acc_decision_policy a))"
      "map_of base ''accounting_policy'' = Some (accounting_json (acc_accounting_policy a))"
      "map_of base ''cost_policy'' = Some (cost_json (acc_cost_policy a))"
      "map_of base ''risk_policy'' = Some (risk_json (acc_risk_policy a))"
      "map_of base ''approval_policy'' = Some (JObj [(''mode'', JStr (acc_approval_mode a))])"
      "map_of base ''missing_data_policy'' = Some (JStr (acc_missing_data_policy a))"
      "map_of base ''promoted_backtest'' = None"
    by (simp_all add: base_def required_fields_def jkeys_def account_fields_def)
  define D where "D = base @ extra"
  have look: "map_of D k = map_of base k" if "k \<noteq> ''promoted_backtest''" for k
    using that unfolding D_def extra_def by (auto simp: map_add_def split: option.split)
  have ex: "set (jkeys extra) \<subseteq> {''promoted_backtest''}"
    by (cases "acc_promoted_backtest a") (simp_all add: extra_def jkeys_def)
  have ks: "set (jkeys D) \<subseteq> insert ''promoted_backtest'' (set account_fields)"
      "set account_fields \<subseteq> set (jkeys D)"
    using keys ex by (auto simp: jkeys_def D_def)
  have promoted: "promoted_spec D = Inr (acc_promoted_backtest a)"
    unfolding D_def extra_def by (rule promoted_again[OF p base(16)])
  show ?thesis
    unfolding doc D_def [symmetric] validate_paper_account_def json.case if_P[OF ks(1)] promoted
    using ks(2) t
    by (simp add: look base s parse_again jkeys_def[of "[(''mode'', x)]" for x]
        del: list.set)
qed

text \<open>
  (C15) Validation is a normal form: the account that the validator returns, written out as a document
  again, validates to itself. The ledger compares accounts this way, so re-supplying the stored
  account, or any document that normalises to it, is never a conflict.
\<close>

theorem validate_idempotent:
  assumes "validate_paper_account v = Inr a"
  shows "validate_paper_account (account_json a) = Inr a"
  using assms
proof (rule validate_sections)
  fix ob vs vp vu vm vi vb vd va vc vr
  assume s: "strategy_spec vs = Inr (acc_strategy a)" "period_spec vp = Inr (acc_start_date a, acc_end_date a)"
      "universe_spec vu = Inr (acc_universe a)"
      "metadata_spec (un_security_ids (acc_universe a)) vm = Inr (acc_security_metadata a)"
      "inputs_spec vi = Inr (acc_inputs a)"
      "benchmark_spec (un_security_ids (acc_universe a)) vb = Inr (acc_benchmark_security_id a, acc_benchmark_currency a)"
      "decision_spec vd = Inr (acc_decision_policy a)" "accounting_spec va = Inr (acc_accounting_policy a)"
      "cost_spec vc = Inr (acc_cost_policy a)" "risk_spec vr = Inr (acc_risk_policy a)"
    and p: "promoted_spec ob = Inr (acc_promoted_backtest a)"
    and t: "is_uuid (acc_account_id a)" "spec_nonempty [] (JStr (acc_name a)) = Inr (acc_name a)"
      "acc_approval_mode a \<in> set [''manual'', ''auto'']"
      "acc_missing_data_policy a \<in> set [''halt_account'', ''halt_decision'', ''reject_trade'']"
  show ?thesis
    using t by (intro account_json_valid[OF s(1)[THEN strategy_again] s(2)[THEN period_again(1)]
        s(3)[THEN universe_again(1)] s(4)[THEN metadata_again(1)] s(5)[THEN inputs_again(1)]
        s(6)[THEN benchmark_again] s(7)[THEN decision_again(1)] s(8)[THEN accounting_again(1)]
        s(9)[THEN cost_again(1)] s(10)[THEN risk_again(1)] p]) simp_all
qed

end
