(* ===== verification/Portfolio.thy ===== *)
theory Portfolio
  imports Account
begin

text \<open>
  \<open>research/portfolio.py\<close>: point-in-time lookups, valuation, and the construction of a target and its
  orders from an account, the inputs, and the projected state of the ledger. Nothing here mutates.
\<close>

section \<open>State and documents\<close>

record portfolio_state =
  ps_cash_by_currency :: "(string, dec) dict"
  ps_quantities :: "(string, dec) dict"
  ps_security_currency :: "(string, string) dict"
  ps_nav_base :: dec
  ps_cash_base :: dec
  ps_positions_value_base :: dec
  ps_peak_nav_base :: dec
  ps_last_session :: "date option"
  ps_last_decision_session :: "date option"

record target_row =
  tr_security_id :: string
  tr_target_weight :: string
  tr_target_quantity :: string
  tr_price :: string
  tr_currency :: string
  tr_market_value_base :: string
  tr_country :: string
  tr_sector :: string
  tr_themes :: "string list"

text \<open>
  The reasons of a risk verdict quote decimals the way \<open>str\<close> prints them, which depends on trailing
  zeros. A reason is modelled by its template and the values it quotes.
\<close>

datatype reason =
    Gross_Exposure dec dec
  | Position_Weight string dec dec
  | Prohibited_Security string
  | Group_Exposure string string dec dec
  | Turnover dec dec
  | Daily_Notional dec dec
  | Cash_Reserve dec dec
  | Missing_Price string
  | Participation string dec
  | Missing_Volume string
  | Price_Gap string dec dec
  | Stale_Data string int int
  | Drawdown dec dec
  | Halt_Reason string

record risk_verdict =
  rv_status :: string
  rv_policy_version :: string
  rv_codes :: "string list"
  rv_reasons :: "reason list"
  rv_checked_at :: string

record target =
  tg_target_id :: string
  tg_account_id :: string
  tg_decision_id :: string
  tg_target_revision :: int
  tg_decision_session :: string
  tg_decision_at :: string
  tg_strategy :: strategy
  tg_input_fingerprint :: string
  tg_inputs :: "(string \<times> string \<times> string) list"
  tg_nav_base :: string
  tg_cash_base :: string
  tg_positions_value_base :: string
  tg_targets :: "target_row list"
  tg_objective :: string
  tg_fallback :: string
  tg_cash_reserve :: string
  tg_risk :: risk_verdict

record order =
  or_order_id :: string
  or_client_order_id :: string
  or_account_id :: string
  or_target_id :: string
  or_decision_id :: string
  or_target_revision :: int
  or_decision_session :: string
  or_execution_session :: string
  or_security_id :: string
  or_side :: string
  or_quantity :: string
  or_reference_price :: string
  or_currency :: string
  or_expected_notional_base :: string
  or_expected_cost_base :: string
  or_reason :: string
  or_status :: string

definition target_namespace :: string where
  "target_namespace = ''8b1ca8d4-0dd2-5e7a-8ab0-1c770a859c6e''"

definition order_namespace :: string where
  "order_namespace = ''af884390-6fe2-5f94-b2da-9ee2c7e8d55e''"

definition client_order_namespace :: string where
  "client_order_namespace = ''d9c45f53-df9d-5bf5-9d54-5eb4e1abca41''"

section \<open>Inputs of an account\<close>

definition session_decision_at :: "session \<Rightarrow> datetime" where
  "session_decision_at s = (case s_decision_at s of None \<Rightarrow> s_close_at s | Some t \<Rightarrow> t)"

definition fingerprint_pin :: "reference \<Rightarrow> json" where
  "fingerprint_pin r =
     JObj [(''kind'', JStr (r_kind r)), (''artifact_id'', JStr (r_artifact_id r)),
       (''path'', JStr (r_path r)), (''sha256'', JStr (r_sha256 r)),
       (''available_at'', JStr (r_available_at r)), (''fitness'', JStr (r_fitness r))]"

definition input_fingerprint :: "env \<Rightarrow> reference list \<Rightarrow> string" where
  "input_fingerprint env references =
     json_sha256 env (JArr (map fingerprint_pin (sort_key r_kind references)))"

definition load_paper_inputs :: "data_root \<Rightarrow> reference list \<Rightarrow> inputs result" where
  "load_paper_inputs fs references =
     bindR (load_input_artifacts fs [''current_research_only'', ''backtest_safe'']
              [''prices'', ''calendar'', ''membership''] [''raw'', ''split_adjusted''] references) (\<lambda>i.
     if (\<exists>row \<in> set (i_prices i). p_price_basis row = ''split_adjusted'') \<and> i_corporate_actions i \<noteq> []
     then raise BacktestInputError
       (''split_adjusted paper prices cannot be paired with corporate_actions; ''
        @ ''use raw prices with actions or omit action inputs'')
     else Inr i)"

text \<open>\<open>date.fromisoformat\<close> on a date of a validated account.\<close>

definition account_date :: "string \<Rightarrow> date result" where
  "account_date s =
     (case parse_date s of None \<Rightarrow> raise PyValueError ''Invalid isoformat string'' | Some d \<Rightarrow> Inr d)"

definition sessions_for_account :: "account \<Rightarrow> inputs \<Rightarrow> session list result" where
  "sessions_for_account account inp =
     bindR (account_date (acc_start_date account)) (\<lambda>start.
     bindR (account_date (acc_end_date account)) (\<lambda>end_date.
     (let sessions = filter (\<lambda>row. start \<le> s_session_date row \<and> s_session_date row \<le> end_date) (i_calendar inp) in
     if sessions = []
     then raise PaperMissingDataError ''calendar has no sessions inside the paper account period''
     else bindR (mapR (\<lambda>row. ensure (\<not> s_open_at row < s_available_at row)
                   (Exn PaperMissingDataError (''calendar session '' @ isoformat (s_session_date row)
                     @ '' is not available by its open''))) sessions) (\<lambda>_.
          Inr sessions))))"

section \<open>Point-in-time lookups\<close>

definition price_row :: "inputs \<Rightarrow> string \<Rightarrow> date \<Rightarrow> datetime \<Rightarrow> price_row option" where
  "price_row inp security_id session_date as_of =
     (case find (\<lambda>row. p_security_id row = security_id \<and> p_session_date row = session_date) (i_prices inp) of
        Some row \<Rightarrow> if p_available_at row \<le> as_of then Some row else None
      | None \<Rightarrow> None)"

definition membership_candidates ::
  "inputs \<Rightarrow> string \<Rightarrow> date \<Rightarrow> datetime \<Rightarrow> membership_row list" where
  "membership_candidates inp security_id session_date decision_at =
     filter (\<lambda>row. m_security_id row = security_id \<and> m_valid_from row \<le> session_date
        \<and> (case m_valid_until row of None \<Rightarrow> True | Some u \<Rightarrow> session_date < u)
        \<and> m_available_at row \<le> decision_at) (i_membership inp)"

definition membership_rank :: "membership_row \<Rightarrow> datetime \<times> int" where
  "membership_rank row = (m_available_at row, m_revision row)"

definition membership_state :: "inputs \<Rightarrow> string \<Rightarrow> date \<Rightarrow> datetime \<Rightarrow> bool option result" where
  "membership_state inp security_id session_date decision_at =
     (let candidates = sort_key membership_rank
            (membership_candidates inp security_id session_date decision_at) in
     if candidates = [] then Inr None
     else (let leaders = filter (\<lambda>row. membership_rank row = membership_rank (last candidates)) candidates in
          if length (remdups (map m_member leaders)) \<noteq> 1
          then raise BacktestInputError (''membership has conflicting equal-ranked assertions for ''
                 @ security_id @ '' on '' @ isoformat session_date)
          else Inr (Some (m_member (last leaders)))))"

definition fx_rows_between :: "inputs \<Rightarrow> string \<Rightarrow> string \<Rightarrow> datetime \<Rightarrow> fx_row list" where
  "fx_rows_between inp base quote as_of =
     filter (\<lambda>row. f_base_currency row = base \<and> f_quote_currency row = quote
        \<and> f_fixing_at row \<le> as_of \<and> f_available_at row \<le> as_of) (i_fx inp)"

text \<open>The precision is that of the context the function runs in.\<close>

definition fx_rate :: "nat \<Rightarrow> inputs \<Rightarrow> string \<Rightarrow> string \<Rightarrow> datetime \<Rightarrow> dec result" where
  "fx_rate p inp source target as_of =
     (if source = target then Inr 1
      else bindR (mapR (\<lambda>row. bindR (ddiv p 1 (f_rate row)) (\<lambda>r. Inr (f_fixing_at row, r)))
                   (fx_rows_between inp target source as_of)) (\<lambda>inverse.
        (let direct = map (\<lambda>row. (f_fixing_at row, f_rate row)) (fx_rows_between inp source target as_of);
             candidates = sort_key fst (direct @ inverse) in
        if candidates = []
        then raise PaperMissingDataError (''no point-in-time FX rate supports '' @ source @ ''->'' @ target)
        else (let latest_at = fst (last candidates);
                  latest = map snd (filter (\<lambda>c. fst c = latest_at) candidates) in
             if length (remdups latest) \<noteq> 1
             then raise PortfolioError (''conflicting FX rates support '' @ source @ ''->'' @ target
                    @ '' at '' @ str_datetime latest_at)
             else Inr (hd latest)))))"

definition convert :: "inputs \<Rightarrow> dec \<Rightarrow> string \<Rightarrow> string \<Rightarrow> datetime \<Rightarrow> dec result" where
  "convert inp amount source target as_of =
     bindR (fx_rate wide inp source target as_of) (\<lambda>rate. Inr (dmul wide amount rate))"

section \<open>Valuation\<close>

definition cash_base :: "account \<Rightarrow> inputs \<Rightarrow> portfolio_state \<Rightarrow> datetime \<Rightarrow> dec result" where
  "cash_base account inp state as_of =
     bindR (mapR (\<lambda>(currency, amount). convert inp amount currency (acc_base_currency account) as_of)
              (ps_cash_by_currency state)) (\<lambda>amounts.
     Inr (dsum prec amounts))"

definition positions_step ::
  "account \<Rightarrow> inputs \<Rightarrow> session \<Rightarrow> bool \<Rightarrow> dec \<times> (string, string) dict \<Rightarrow> string \<times> dec
    \<Rightarrow> (dec \<times> (string, string) dict) result" where
  "positions_step account inp sess require_prices = (\<lambda>(total, currencies) (security_id, quantity).
     if quantity \<le> 0 then Inr (total, currencies)
     else (case price_row inp security_id (s_session_date sess) (session_decision_at sess) of
             None \<Rightarrow>
               if require_prices
               then raise PaperMissingDataError (''missing point-in-time close for held security ''
                      @ security_id @ '' on '' @ isoformat (s_session_date sess))
               else Inr (total, currencies)
           | Some row \<Rightarrow>
               bindR (convert inp (dmul prec quantity (p_close row)) (p_currency row)
                        (acc_base_currency account) (session_decision_at sess)) (\<lambda>v.
               Inr (dadd prec total v, dset security_id (p_currency row) currencies))))"

definition positions_value ::
  "account \<Rightarrow> inputs \<Rightarrow> portfolio_state \<Rightarrow> session \<Rightarrow> bool \<Rightarrow> (dec \<times> (string, string) dict) result" where
  "positions_value account inp state sess require_prices =
     foldR (positions_step account inp sess require_prices) (0, ps_security_currency state)
       (sorted_items (ps_quantities state))"

section \<open>The rebalance schedule\<close>

definition rebalance_frequency :: "account \<Rightarrow> string" where
  "rebalance_frequency account =
     (case pm_rebalance_frequency (st_parameters (acc_strategy account)) of
        None \<Rightarrow> ac_rebalance_frequency (acc_accounting_policy account)
      | Some f \<Rightarrow> f)"

definition rebalance_due :: "account \<Rightarrow> session \<Rightarrow> date option \<Rightarrow> bool" where
  "rebalance_due account sess previous =
     (case previous of
        None \<Rightarrow> True
      | Some prev \<Rightarrow>
          (let frequency = rebalance_frequency account; current = s_session_date sess
           in if st_name (acc_strategy account) = ''buy_and_hold'' then False
              else if frequency = ''daily'' then True
              else if frequency = ''weekly'' then iso_year_week current \<noteq> iso_year_week prev
              else if frequency = ''monthly''
                then dt_month current \<noteq> dt_month prev \<or> dt_year current \<noteq> dt_year prev
              else False))"

section \<open>Signals\<close>

definition active_security_ids :: "account \<Rightarrow> inputs \<Rightarrow> session \<Rightarrow> string list result" where
  "active_security_ids account inp sess =
     bindR (mapR (\<lambda>security_id.
        bindR (membership_state inp security_id (s_session_date sess) (session_decision_at sess)) (\<lambda>st.
        case st of
          None \<Rightarrow> raise PaperMissingDataError (''historical membership is unavailable for ''
                    @ security_id @ '' on '' @ isoformat (s_session_date sess))
        | Some member \<Rightarrow> Inr (security_id, member)))
       (un_security_ids (acc_universe account))) (\<lambda>states.
     Inr (sort (map fst (filter snd states))))"

definition session_at :: "session list \<Rightarrow> nat \<Rightarrow> session result" where
  "session_at sessions k =
     (if k < length sessions then Inr (sessions ! k) else raise PyIndexError ''tuple index out of range'')"

definition price_history ::
  "inputs \<Rightarrow> session list \<Rightarrow> nat \<Rightarrow> datetime \<Rightarrow> string list \<Rightarrow> (string, dec option list) dict" where
  "price_history inp sessions session_index decision_at active =
     map (\<lambda>security_id. (security_id,
       map (\<lambda>s. map_option p_close (price_row inp security_id (s_session_date s) decision_at))
         (take (Suc session_index) sessions))) active"

text \<open>\<open>except StrategySignalError as error: raise PaperMissingDataError(str(error))\<close>\<close>

definition signal_error :: "'a result \<Rightarrow> 'a result" where
  "signal_error r =
     (case r of Inl (Exn StrategySignalError m) \<Rightarrow> raise PaperMissingDataError m | _ \<Rightarrow> r)"

definition signal_targets ::
  "account \<Rightarrow> inputs \<Rightarrow> session list \<Rightarrow> nat \<Rightarrow> string list \<Rightarrow> (string, dec) dict result" where
  "signal_targets account inp sessions session_index active =
     (let name = st_name (acc_strategy account) in
      if name = ''equal_weight'' then baseline_targets ''equal_weight'' active None None None
      else if name = ''momentum_12_1'' then
        bindR (session_at sessions session_index) (\<lambda>sess.
        signal_error (baseline_targets ''momentum_12_1'' active
          (Some (price_history inp sessions session_index (session_decision_at sess) active))
          (Some session_index) (Some (st_parameters (acc_strategy account)))))
      else if name = ''buy_and_hold'' then baseline_targets ''equal_weight'' active None None None
      else raise PortfolioError (''unsupported paper strategy '' @ name))"

section \<open>Costs and orders\<close>

definition costs :: "account \<Rightarrow> dec \<Rightarrow> dec result" where
  "costs account gross =
     (let policy = acc_cost_policy account in
     bindR (decimal_nn ''commission_bps'' (cp_commission_bps policy)) (\<lambda>commission_bps.
     bindR (decimal_nn ''fixed_fee'' (cp_fixed_fee policy)) (\<lambda>fixed_fee.
     bindR (decimal_nn ''minimum_fee'' (cp_minimum_fee policy)) (\<lambda>minimum_fee.
     bindR (decimal_nn ''spread_bps'' (cp_spread_bps policy)) (\<lambda>spread_bps.
     bindR (decimal_nn ''slippage_bps'' (cp_slippage_bps policy)) (\<lambda>slippage_bps.
     bindR (decimal_nn ''tax_bps'' (cp_tax_bps policy)) (\<lambda>tax_bps.
     (let commission = max (dadd prec (dquot prec (dmul prec gross commission_bps) 10000) fixed_fee) minimum_fee;
          spread = dquot prec (dmul prec gross spread_bps) 20000;
          slippage = dquot prec (dmul prec gross slippage_bps) 10000;
          tax = dquot prec (dmul prec gross tax_bps) 10000
      in Inr (dadd prec (dadd prec (dadd prec commission spread) slippage) tax)))))))))"

definition order_for ::
  "env \<Rightarrow> account \<Rightarrow> inputs \<Rightarrow> session \<Rightarrow> string \<Rightarrow> target \<Rightarrow> portfolio_state \<Rightarrow> (string, dec) dict
    \<Rightarrow> string \<Rightarrow> order list result" where
  "order_for env account inp sess execution_session target state target_quantities security_id =
     (let decision_at = session_decision_at sess;
          current = dget (ps_quantities state) security_id 0;
          target_quantity = dget target_quantities security_id 0;
          delta = dsub prec target_quantity current
      in if delta = 0 then Inr []
         else (case price_row inp security_id (s_session_date sess) decision_at of
                 None \<Rightarrow> raise PaperMissingDataError (''no point-in-time close supports an order for ''
                           @ security_id @ '' on '' @ isoformat (s_session_date sess))
               | Some row \<Rightarrow>
     bindR (convert inp (dmul prec (dabs prec delta) (p_close row)) (p_currency row)
              (acc_base_currency account) decision_at) (\<lambda>gross_base.
     bindR (costs account gross_base) (\<lambda>cost.
     (let order_id = env_uuid5 env order_namespace
            (tg_target_id target @ '':'' @ security_id @ '':'' @ decimal_string (dabs prec delta));
          client_order_id = env_uuid5 env client_order_namespace order_id
      in Inr [\<lparr>or_order_id = order_id, or_client_order_id = client_order_id,
           or_account_id = acc_account_id account, or_target_id = tg_target_id target,
           or_decision_id = tg_decision_id target, or_target_revision = tg_target_revision target,
           or_decision_session = isoformat (s_session_date sess), or_execution_session = execution_session,
           or_security_id = security_id, or_side = (if 0 < delta then ''buy'' else ''sell''),
           or_quantity = decimal_string (dabs prec delta),
           or_reference_price = decimal_string (p_close row), or_currency = p_currency row,
           or_expected_notional_base = decimal_string gross_base,
           or_expected_cost_base = decimal_string cost,
           or_reason = (if dget target_quantities security_id 0 = 0 \<and> 0 < current then ''membership_exit''
             else st_name (acc_strategy account)),
           or_status = ''proposed''\<rparr>])))))"

definition parse_target_quantities :: "target_row list \<Rightarrow> (string, dec) dict result" where
  "parse_target_quantities rows =
     foldR (\<lambda>d row. bindR (decimal_nn ''target_quantity'' (tr_target_quantity row)) (\<lambda>q.
       Inr (dset (tr_security_id row) q d))) [] rows"

text \<open>\<open>set(target_quantities) | {s for s, quantity in state.quantities.items() if quantity > 0}\<close>, sorted\<close>

definition order_candidates :: "(string, dec) dict \<Rightarrow> portfolio_state \<Rightarrow> string list" where
  "order_candidates target_quantities state =
     sorted_set (map fst target_quantities @ map fst (filter (\<lambda>(_, q). 0 < q) (ps_quantities state)))"

definition target_orders ::
  "env \<Rightarrow> account \<Rightarrow> inputs \<Rightarrow> session list \<Rightarrow> nat \<Rightarrow> target \<Rightarrow> portfolio_state \<Rightarrow> order list result" where
  "target_orders env account inp sessions session_index target state =
     (if length sessions \<le> session_index + 1 then Inr []
      else (let sess = sessions ! session_index;
                execution_session = isoformat (s_session_date (sessions ! (session_index + 1))) in
       bindR (parse_target_quantities (tg_targets target)) (\<lambda>target_quantities.
       bindR (mapR (order_for env account inp sess execution_session target state target_quantities)
                (order_candidates target_quantities state)) (\<lambda>orders.
       Inr (concat orders)))))"

section \<open>Targets\<close>

text \<open>The weights and quantities of the held positions, when the account keeps what it has.\<close>

definition hold_step ::
  "account \<Rightarrow> inputs \<Rightarrow> session \<Rightarrow> portfolio_state \<Rightarrow> string list
    \<Rightarrow> (string, dec) dict \<times> (string, dec) dict \<Rightarrow> string \<times> dec
    \<Rightarrow> ((string, dec) dict \<times> (string, dec) dict) result" where
  "hold_step account inp sess state active = (\<lambda>(weights, quantities) (security_id, quantity).
     if 0 < quantity \<and> security_id \<in> set active
     then (case price_row inp security_id (s_session_date sess) (session_decision_at sess) of
             None \<Rightarrow> raise PyAssertionError ''''
           | Some row \<Rightarrow>
               bindR (convert inp (dmul prec quantity (p_close row)) (p_currency row)
                        (acc_base_currency account) (session_decision_at sess)) (\<lambda>v.
               bindR (ddiv prec v (ps_nav_base state)) (\<lambda>w.
               Inr (dset security_id w weights, dset security_id quantity quantities))))
     else Inr (weights, quantities))"

definition missing_target_price :: "string \<Rightarrow> session \<Rightarrow> 'a result" where
  "missing_target_price security_id sess =
     raise PaperMissingDataError (''missing target price for '' @ security_id @ '' on ''
       @ isoformat (s_session_date sess))"

text \<open>The quantity that a weight buys at the close.\<close>

definition size_step ::
  "account \<Rightarrow> inputs \<Rightarrow> session \<Rightarrow> portfolio_state \<Rightarrow> (string, dec) dict \<Rightarrow> string \<times> dec
    \<Rightarrow> (string, dec) dict result" where
  "size_step account inp sess state quantities = (\<lambda>(security_id, target_weight).
     (case price_row inp security_id (s_session_date sess) (session_decision_at sess) of
        None \<Rightarrow> missing_target_price security_id sess
      | Some row \<Rightarrow>
          bindR (convert inp (dmul prec (ps_nav_base state) target_weight) (acc_base_currency account)
                   (p_currency row) (session_decision_at sess)) (\<lambda>target_value_local.
          bindR (ddiv prec target_value_local (p_close row)) (\<lambda>quantity.
          Inr (dset security_id
            (if ac_fractional_shares (acc_accounting_policy account) then quantity else round_down quantity)
            quantities)))))"

definition target_row_for ::
  "account \<Rightarrow> inputs \<Rightarrow> session \<Rightarrow> portfolio_state \<Rightarrow> (string, dec) dict \<Rightarrow> string \<Rightarrow> target_row list result" where
  "target_row_for account inp sess state target_quantities security_id =
     (let quantity = dget target_quantities security_id 0 in
      if quantity < 0 then raise PortfolioError (''negative target quantity for '' @ security_id)
      else if quantity = 0 \<and> dget (ps_quantities state) security_id 0 \<le> 0 then Inr []
      else (case price_row inp security_id (s_session_date sess) (session_decision_at sess) of
              None \<Rightarrow> if 0 < quantity then missing_target_price security_id sess else Inr []
            | Some row \<Rightarrow>
     bindR (case map_of (map (\<lambda>m. (sm_security_id m, m)) (rev (acc_security_metadata account))) security_id of
              None \<Rightarrow> raise PyKeyError security_id | Some m \<Rightarrow> Inr m) (\<lambda>meta.
     bindR (convert inp (dmul prec quantity (p_close row)) (p_currency row) (acc_base_currency account)
              (session_decision_at sess)) (\<lambda>market_value_base.
     bindR (ddiv prec market_value_base (ps_nav_base state)) (\<lambda>weight.
     Inr [\<lparr>tr_security_id = security_id, tr_target_weight = decimal_string weight,
        tr_target_quantity = decimal_string quantity, tr_price = decimal_string (p_close row),
        tr_currency = p_currency row, tr_market_value_base = decimal_string market_value_base,
        tr_country = sm_country meta, tr_sector = sm_sector meta, tr_themes = sort (sm_themes meta)\<rparr>])))))"

definition check_closes :: "inputs \<Rightarrow> session \<Rightarrow> string list \<Rightarrow> unit result" where
  "check_closes inp sess active =
     foldR (\<lambda>_ security_id.
       ensure (price_row inp security_id (s_session_date sess) (session_decision_at sess) \<noteq> None)
         (Exn PaperMissingDataError (''missing current close for active security '' @ security_id
           @ '' on '' @ isoformat (s_session_date sess)))) () active"

text \<open>The held positions when the account keeps what it has, the signal otherwise.\<close>

definition raw_targets ::
  "account \<Rightarrow> inputs \<Rightarrow> session list \<Rightarrow> nat \<Rightarrow> session \<Rightarrow> portfolio_state \<Rightarrow> string list
    \<Rightarrow> ((string, dec) dict \<times> (string, dec) dict) result" where
  "raw_targets account inp sessions session_index sess state active =
     (if ps_last_decision_session state \<noteq> None
         \<and> (st_name (acc_strategy account) = ''buy_and_hold''
            \<or> \<not> rebalance_due account sess (ps_last_decision_session state))
      then foldR (hold_step account inp sess state active) ([], []) (ps_quantities state)
      else bindR (signal_targets account inp sessions session_index active) (\<lambda>ws. Inr (ws, [])))"

text \<open>A rebalance scales the weights to the investable part of the portfolio.\<close>

definition scale_targets ::
  "account \<Rightarrow> session \<Rightarrow> portfolio_state \<Rightarrow> (string, dec) dict \<Rightarrow> (string, dec) dict
    \<Rightarrow> ((string, dec) dict \<times> dec) result" where
  "scale_targets account sess state weights quantities =
     (let due = rebalance_due account sess (ps_last_decision_session state);
          name = st_name (acc_strategy account);
          initial = (ps_last_decision_session state = None);
          policy = acc_risk_policy account in
     bindR (decimal_nn ''minimum_cash_reserve'' (rp_minimum_cash_reserve policy)) (\<lambda>minimum_cash.
     bindR (decimal_nn ''max_gross_exposure'' (rp_max_gross_exposure policy)) (\<lambda>max_gross.
     (let investable_weight = min (dsub prec 1 minimum_cash) max_gross in
      if investable_weight < 0
      then raise PortfolioError ''minimum_cash_reserve leaves no investable portfolio''
      else Inr
        (if (due \<and> (name \<noteq> ''buy_and_hold'' \<or> initial)) \<or> quantities = []
         then map (\<lambda>(s, w). (s, dmul prec w investable_weight)) (filter (\<lambda>(_, w). 0 < w) weights)
         else weights, minimum_cash)))))"

definition select_targets ::
  "account \<Rightarrow> inputs \<Rightarrow> session list \<Rightarrow> nat \<Rightarrow> session \<Rightarrow> portfolio_state \<Rightarrow> string list
    \<Rightarrow> ((string, dec) dict \<times> (string, dec) dict \<times> dec) result" where
  "select_targets account inp sessions session_index sess state active =
     bindR (raw_targets account inp sessions session_index sess state active) (\<lambda>(weights, quantities).
     bindR (scale_targets account sess state weights quantities) (\<lambda>(scaled, minimum_cash).
     Inr (scaled, quantities, minimum_cash)))"

definition target_objective :: "string \<Rightarrow> string" where
  "target_objective name =
     (if name = ''buy_and_hold'' then ''buy_and_hold''
      else if name = ''momentum_12_1'' then ''rank_weighted'' else ''equal_weight'')"

text \<open>The published document, once its rows are made; it is approved until the risk check says otherwise.\<close>

definition target_document ::
  "env \<Rightarrow> account \<Rightarrow> session \<Rightarrow> portfolio_state \<Rightarrow> int \<Rightarrow> string option \<Rightarrow> dec \<Rightarrow> target_row list \<Rightarrow> target" where
  "target_document env account sess state target_revision given_decision_id minimum_cash rows =
     (let decision_at = session_decision_at sess;
          fingerprint = input_fingerprint env (acc_inputs account);
          default_id = env_uuid5 env target_namespace
            (acc_account_id account @ '':'' @ isoformat (s_session_date sess) @ '':'' @ fingerprint);
          decision_id = (case given_decision_id of
              Some d \<Rightarrow> if d = [] then default_id else d | None \<Rightarrow> default_id)
      in \<lparr>tg_target_id = env_uuid5 env target_namespace
           (''target:'' @ decision_id @ '':'' @ int_string target_revision),
        tg_account_id = acc_account_id account, tg_decision_id = decision_id,
        tg_target_revision = target_revision, tg_decision_session = isoformat (s_session_date sess),
        tg_decision_at = timestamp decision_at, tg_strategy = acc_strategy account,
        tg_input_fingerprint = fingerprint,
        tg_inputs = map (\<lambda>r. (r_kind r, r_artifact_id r, r_sha256 r)) (sort_key r_kind (acc_inputs account)),
        tg_nav_base = decimal_string (ps_nav_base state), tg_cash_base = decimal_string (ps_cash_base state),
        tg_positions_value_base = decimal_string (ps_positions_value_base state),
        tg_targets = rows, tg_objective = target_objective (st_name (acc_strategy account)),
        tg_fallback = (if rows = [] then ''cash'' else ''none''),
        tg_cash_reserve = decimal_string minimum_cash,
        tg_risk = \<lparr>rv_status = ''approved'', rv_policy_version = rp_version (acc_risk_policy account),
          rv_codes = [], rv_reasons = [], rv_checked_at = timestamp decision_at\<rparr>\<rparr>)"

definition build_target ::
  "env \<Rightarrow> account \<Rightarrow> inputs \<Rightarrow> session list \<Rightarrow> nat \<Rightarrow> portfolio_state \<Rightarrow> int \<Rightarrow> string option \<Rightarrow> target result" where
  "build_target env account inp sessions session_index state target_revision given_decision_id =
     (if ps_nav_base state \<le> 0
      then raise PortfolioStateError ''paper account NAV must be positive before target construction''
      else
     bindR (session_at sessions session_index) (\<lambda>sess.
     bindR (active_security_ids account inp sess) (\<lambda>active.
     bindR (check_closes inp sess active) (\<lambda>_.
     bindR (select_targets account inp sessions session_index sess state active)
       (\<lambda>(weights, held_quantities, minimum_cash).
     bindR (foldR (size_step account inp sess state) held_quantities (sorted_items weights)) (\<lambda>target_quantities.
     bindR (mapR (target_row_for account inp sess state target_quantities)
              (sorted_set (map fst target_quantities @ map fst (ps_quantities state)))) (\<lambda>row_lists.
     Inr (target_document env account sess state target_revision given_decision_id minimum_cash
            (concat row_lists)))))))))"

lemma target_document_simps [simp]:
  "tg_targets (target_document env account sess st revision given m rows) = rows"
  "tg_nav_base (target_document env account sess st revision given m rows) = decimal_string (ps_nav_base st)"
  "tg_cash_reserve (target_document env account sess st revision given m rows) = decimal_string m"
  by (simp_all add: target_document_def Let_def)

section \<open>Point in time\<close>

text \<open>
  What has been published by a clock of the rows that a decision may read. The copies of all rows that the inputs
  keep with their artifacts, and the tables that no decision reads, are left out: two data sets have the same view
  at a clock as soon as their published prices, assertions, actions and rates are the same, whatever else they hold.
\<close>

definition visible :: "datetime \<Rightarrow> inputs \<Rightarrow> inputs" where
  "visible t inp =
     \<lparr>i_artifacts = [], i_prices = filter (\<lambda>r. p_available_at r \<le> t) (i_prices inp), i_calendar = [],
      i_membership = filter (\<lambda>r. m_available_at r \<le> t) (i_membership inp),
      i_corporate_actions = filter (\<lambda>r. a_available_at r \<le> t) (i_corporate_actions inp),
      i_fx = filter (\<lambda>r. f_available_at r \<le> t) (i_fx inp), i_risk_free = [], i_observations = []\<rparr>"

lemma visible_simps [simp]:
  "i_prices (visible t inp) = filter (\<lambda>r. p_available_at r \<le> t) (i_prices inp)"
  "i_membership (visible t inp) = filter (\<lambda>r. m_available_at r \<le> t) (i_membership inp)"
  "i_fx (visible t inp) = filter (\<lambda>r. f_available_at r \<le> t) (i_fx inp)"
  "i_corporate_actions (visible t inp) = filter (\<lambda>r. a_available_at r \<le> t) (i_corporate_actions inp)"
  "i_artifacts (visible t inp) = []"
  by (simp_all add: visible_def)

lemma visible_visible: "s \<le> t \<Longrightarrow> visible s (visible t inp) = visible s inp"
proof -
  assume "s \<le> t"
  then have "(x \<le> s \<and> x \<le> t) \<longleftrightarrow> x \<le> s" for x :: datetime by auto
  then show ?thesis by (simp add: visible_def conj_commute)
qed

text \<open>
  The contract of a lookup: at a clock it reads nothing that became available later. The laws hold
  for inputs in which a price has one row, as the loader ensures.
\<close>

definition unique_prices :: "inputs \<Rightarrow> bool" where
  "unique_prices inp \<longleftrightarrow> distinct (map price_key (i_prices inp))"

lemma unique_prices_visible: "unique_prices inp \<Longrightarrow> unique_prices (visible t inp)"
  by (auto simp: unique_prices_def distinct_map intro: inj_on_subset)

lemma wf_unique_prices: "wf_inputs inp \<Longrightarrow> unique_prices inp"
  by (simp add: wf_inputs_def unique_prices_def)

locale point_in_time =
  fixes look :: "inputs \<Rightarrow> 'k \<Rightarrow> datetime \<Rightarrow> 'v"
  assumes look_visible: "unique_prices inp \<Longrightarrow> look (visible t inp) k t = look inp k t"
begin

lemma look_later: "unique_prices inp \<Longrightarrow> s \<le> t \<Longrightarrow> look (visible t inp) k s = look inp k s"
  using look_visible[of "visible t inp" s k] look_visible[of inp s k]
  by (simp add: visible_visible unique_prices_visible)

text \<open>Two data sets that agree on what was available at the clock give the same answer.\<close>

lemma look_agree:
  assumes "unique_prices inp" and "unique_prices inp'" and "visible t inp = visible t inp'" and "s \<le> t"
  shows "look inp k s = look inp' k s"
  using look_later[OF assms(1,4)] look_later[OF assms(2,4)] assms(3) by metis

end

lemma find_unique_key:
  assumes "distinct (map key xs)" and "\<And>x. x \<in> set xs \<Longrightarrow> P x \<Longrightarrow> key x = k"
  shows "(case find P (filter Q xs) of Some x \<Rightarrow> if Q x then Some x else None | None \<Rightarrow> None)
      = (case find P xs of Some x \<Rightarrow> if Q x then Some x else None | None \<Rightarrow> None)"
  using assms
proof (induction xs)
  case (Cons y xs)
  show ?case
  proof (cases "P y \<and> \<not> Q y")
    case True
    then have "\<not> P x" if "x \<in> set xs" for x
      using Cons.prems(1) Cons.prems(2)[of x] Cons.prems(2)[of y] that by auto (metis imageI)
    then have "find P (filter Q xs) = None" by (simp add: find_None_iff)
    with True show ?thesis by simp
  next
    case False
    with Cons show ?thesis by auto
  qed
qed simp

interpretation pit_price: point_in_time "\<lambda>inp k. price_row inp (fst k) (snd k)"
proof
  fix inp t and k :: "string \<times> date"
  assume "unique_prices inp"
  then show "price_row (visible t inp) (fst k) (snd k) t = price_row inp (fst k) (snd k) t"
    using find_unique_key[of price_key "i_prices inp" "\<lambda>row. p_security_id row = fst k \<and> p_session_date row = snd k"
        "k" "\<lambda>row. p_available_at row \<le> t"]
    by (cases k) (simp add: unique_prices_def price_row_def price_key_def)
qed

interpretation pit_membership: point_in_time "\<lambda>inp k. membership_state inp (fst k) (snd k)"
proof
  fix inp t and k :: "string \<times> date"
  have "membership_candidates (visible t inp) s d t = membership_candidates inp s d t" for s d
    by (auto simp: membership_candidates_def intro!: filter_cong)
  then show "membership_state (visible t inp) (fst k) (snd k) t
      = membership_state inp (fst k) (snd k) t"
    by (cases k) (simp add: membership_state_def)
qed

interpretation pit_fx: point_in_time "\<lambda>inp k. fx_rate (fst k) inp (fst (snd k)) (snd (snd k))"
proof
  fix inp t and k :: "nat \<times> string \<times> string"
  have "fx_rows_between (visible t inp) b q t = fx_rows_between inp b q t" for b q
    by (auto simp: fx_rows_between_def intro!: filter_cong)
  then show "fx_rate (fst k) (visible t inp) (fst (snd k)) (snd (snd k)) t
      = fx_rate (fst k) inp (fst (snd k)) (snd (snd k)) t"
    by (cases k) (simp add: fx_rate_def)
qed

lemma lookups_visible:
  assumes "unique_prices inp" and "s \<le> t"
  shows "price_row (visible t inp) security_id d s = price_row inp security_id d s"
    and "membership_state (visible t inp) security_id d s = membership_state inp security_id d s"
    and "fx_rate p (visible t inp) source tgt s = fx_rate p inp source tgt s"
    and "convert (visible t inp) amount source tgt s = convert inp amount source tgt s"
  using pit_price.look_later[OF assms, of "(security_id, d)"]
    pit_membership.look_later[OF assms, of "(security_id, d)"]
    pit_fx.look_later[OF assms, of "(p, source, tgt)"] pit_fx.look_later[OF assms, of "(wide, source, tgt)"]
  by (simp_all add: convert_def)

lemma positions_step_visible [point_in_time_simps]:
  "unique_prices inp \<Longrightarrow> session_decision_at sess \<le> t \<Longrightarrow>
    positions_step account (visible t inp) sess req = positions_step account inp sess req"
  unfolding positions_step_def by (simp add: lookups_visible cong: if_cong option.case_cong)

lemma positions_value_visible [point_in_time_simps]:
  "unique_prices inp \<Longrightarrow> session_decision_at sess \<le> t \<Longrightarrow>
    positions_value account (visible t inp) st sess req = positions_value account inp st sess req"
  by (simp add: positions_value_def positions_step_visible)

lemma cash_base_visible [point_in_time_simps]:
  "unique_prices inp \<Longrightarrow> s \<le> t \<Longrightarrow> cash_base account (visible t inp) st s = cash_base account inp st s"
  by (simp add: cash_base_def lookups_visible)

lemma active_visible [point_in_time_simps]:
  "unique_prices inp \<Longrightarrow> session_decision_at sess \<le> t \<Longrightarrow>
    active_security_ids account (visible t inp) sess = active_security_ids account inp sess"
  by (simp add: active_security_ids_def lookups_visible)

lemma signal_visible [point_in_time_simps]:
  assumes "unique_prices inp" and "n < length sessions" and "session_decision_at (sessions ! n) \<le> t"
  shows "signal_targets account (visible t inp) sessions n active = signal_targets account inp sessions n active"
  using assms by (simp add: signal_targets_def price_history_def session_at_def lookups_visible Let_def
      cong: if_cong)

lemma construction_steps_visible [point_in_time_simps]:
  assumes "unique_prices inp" and "session_decision_at sess \<le> t"
  shows "hold_step account (visible t inp) sess st active = hold_step account inp sess st active"
    and "size_step account (visible t inp) sess st = size_step account inp sess st"
    and "target_row_for account (visible t inp) sess st tq = target_row_for account inp sess st tq"
    and "check_closes (visible t inp) sess active = check_closes inp sess active"
    and "order_for env account (visible t inp) sess execution tgt st tq = order_for env account inp sess execution tgt st tq"
  unfolding hold_step_def size_step_def target_row_for_def check_closes_def order_for_def Let_def
  using assms by (simp_all add: lookups_visible cong: if_cong option.case_cong)

lemma select_visible [point_in_time_simps]:
  assumes "unique_prices inp" and "n < length sessions" and "session_decision_at (sessions ! n) \<le> t"
  shows "select_targets account (visible t inp) sessions n (sessions ! n) st active
    = select_targets account inp sessions n (sessions ! n) st active"
  using assms by (simp add: select_targets_def raw_targets_def point_in_time_simps cong: if_cong)

lemma build_target_visible [point_in_time_simps]:
  assumes "unique_prices inp" and "n < length sessions" and "session_decision_at (sessions ! n) \<le> t"
  shows "build_target env account (visible t inp) sessions n st revision given = build_target env account inp sessions n st revision given"
  using assms by (simp add: build_target_def session_at_def point_in_time_simps Let_def cong: if_cong prod.case_cong)

lemma target_orders_visible [point_in_time_simps]:
  assumes "unique_prices inp" and "session_decision_at (sessions ! n) \<le> t"
  shows "target_orders env account (visible t inp) sessions n tgt st = target_orders env account inp sessions n tgt st"
  using assms by (simp add: target_orders_def point_in_time_simps Let_def cong: if_cong)

text \<open>
  (C3) Construction never looks ahead: two data sets that agree on the rows available by the decision
  clock of a session give the same target and the same orders (or the same error), whatever either
  of them publishes later.
\<close>

theorem construction_no_lookahead:
  assumes "wf_inputs inp" and "wf_inputs inp'" and "n < length sessions"
    and "visible (session_decision_at (sessions ! n)) inp = visible (session_decision_at (sessions ! n)) inp'"
  shows "build_target env account inp sessions n st revision given = build_target env account inp' sessions n st revision given
    \<and> target_orders env account inp sessions n tgt st = target_orders env account inp' sessions n tgt st"
proof -
  let ?d = "session_decision_at (sessions ! n)"
  have "build_target env account (visible ?d i) sessions n st revision given = build_target env account i sessions n st revision given"
    and "target_orders env account (visible ?d i) sessions n tgt st = target_orders env account i sessions n tgt st"
    if "wf_inputs i" for i
    using wf_unique_prices[OF that] assms(3) by (simp_all add: point_in_time_simps)
  from this[OF assms(1)] this[OF assms(2)] assms(4) show ?thesis by simp
qed

section \<open>Rates, costs and orders\<close>

lemma convert_same [simp]: "convert inp amount c c t = Inr (dmul wide amount 1)"
  by (simp add: convert_def fx_rate_def)

lemma convert_is_decimal: "convert inp amount s d t = Inr v \<Longrightarrow> is_decimal v"
  by (auto simp: convert_def bindR_eq_Inr)

definition positive_rates :: "inputs \<Rightarrow> bool" where
  "positive_rates inp \<longleftrightarrow> (\<forall>r \<in> set (i_fx inp). 0 < f_rate r)"

lemma wf_positive_rates: "wf_inputs inp \<Longrightarrow> positive_rates inp"
  by (auto simp: wf_inputs_def positive_rates_def list_all_iff fx_ok_def)

text \<open>The rate of the last fixing, if all candidates of that fixing agree.\<close>

definition latest_rate :: "(datetime \<times> dec) list \<Rightarrow> dec option" where
  "latest_rate candidates =
     (let latest = map snd (filter (\<lambda>c. fst c = fst (last candidates)) candidates)
      in if length (remdups latest) = 1 then Some (hd latest) else None)"

lemma latest_rate_mem: "latest_rate cs = Some r \<Longrightarrow> r \<in> snd ` set cs"
proof -
  assume r: "latest_rate cs = Some r"
  define latest where "latest = map snd (filter (\<lambda>c. fst c = fst (last cs)) cs)"
  from r have "length (remdups latest) = 1" and hd: "r = hd latest"
    by (auto simp: latest_rate_def latest_def Let_def split: if_splits)
  then have "latest \<noteq> []" by auto
  then have "r \<in> set latest" by (simp add: hd)
  then show ?thesis by (auto simp: latest_def)
qed

lemma fx_rate_pos:
  assumes "positive_rates inp" and "1 \<le> p" and "fx_rate p inp s d t = Inr r"
  shows "0 < r"
proof (cases "s = d")
  case False
  let ?direct = "map (\<lambda>row. (f_fixing_at row, f_rate row)) (fx_rows_between inp s d t)"
  from assms(3) False obtain inverse where
    inv: "mapR (\<lambda>row. bindR (ddiv p 1 (f_rate row)) (\<lambda>q. Inr (f_fixing_at row, q))) (fx_rows_between inp d s t) = Inr inverse"
    and latest: "latest_rate (sort_key fst (?direct @ inverse)) = Some r"
    by (auto simp: fx_rate_def bindR_eq_Inr Let_def latest_rate_def split: if_splits)
  from latest_rate_mem[OF latest] have r: "r \<in> snd ` set (?direct @ inverse)" by simp
  have rows: "0 < f_rate row" if "row \<in> set (fx_rows_between inp a b t)" for row a b
    using that assms(1) by (auto simp: fx_rows_between_def positive_rates_def)
  have "0 < snd c" if c: "c \<in> set inverse" for c
    using inv c
  proof (rule mapR_mem)
    fix row
    assume "row \<in> set (fx_rows_between inp d s t)"
      and "bindR (ddiv p 1 (f_rate row)) (\<lambda>q. Inr (f_fixing_at row, q)) = Inr c"
    with rows show "0 < snd c" using assms(2)
      by (auto simp: bindR_eq_Inr ddiv_Inr_iff dquot_def intro!: dec_round_pos)
  qed
  with r rows show ?thesis by auto
qed (use assms(3) in \<open>simp add: fx_rate_def\<close>)

lemma convert_nonneg:
  assumes "positive_rates inp" and "convert inp amount s d t = Inr v" and "0 \<le> amount"
  shows "0 \<le> v"
  using assms fx_rate_pos[of inp wide s d t] by (fastforce simp: convert_def bindR_eq_Inr intro: dmul_wide_nonneg)

lemma costs_Inr_iff:
  "costs account gross = Inr c \<longleftrightarrow>
    (\<exists>cb ff mf sb lb tb. decimal_nn ''commission_bps'' (cp_commission_bps (acc_cost_policy account)) = Inr cb
      \<and> decimal_nn ''fixed_fee'' (cp_fixed_fee (acc_cost_policy account)) = Inr ff
      \<and> decimal_nn ''minimum_fee'' (cp_minimum_fee (acc_cost_policy account)) = Inr mf
      \<and> decimal_nn ''spread_bps'' (cp_spread_bps (acc_cost_policy account)) = Inr sb
      \<and> decimal_nn ''slippage_bps'' (cp_slippage_bps (acc_cost_policy account)) = Inr lb
      \<and> decimal_nn ''tax_bps'' (cp_tax_bps (acc_cost_policy account)) = Inr tb
      \<and> c = dadd prec (dadd prec (dadd prec
          (max (dadd prec (dquot prec (dmul prec gross cb) 10000) ff) mf)
          (dquot prec (dmul prec gross sb) 20000)) (dquot prec (dmul prec gross lb) 10000))
          (dquot prec (dmul prec gross tb) 10000))"
  by (auto simp: costs_def bindR_eq_Inr Let_def)

lemma costs_is_decimal: "costs account gross = Inr c \<Longrightarrow> is_decimal c"
  by (auto simp: costs_Inr_iff)

lemma dadd_mono [decimal_simps]: "a \<le> a' \<Longrightarrow> b \<le> b' \<Longrightarrow> dadd prec a b \<le> dadd prec a' b'"
  unfolding dadd_def by (intro ctx28.rnd_mono add_mono)

lemma dmul_mono [decimal_simps]: "a \<le> a' \<Longrightarrow> 0 \<le> b \<Longrightarrow> dmul prec a b \<le> dmul prec a' b"
  unfolding dmul_def by (intro ctx28.rnd_mono mult_right_mono)

lemma dquot_mono [decimal_simps]: "a \<le> a' \<Longrightarrow> 0 \<le> b \<Longrightarrow> dquot prec a b \<le> dquot prec a' b"
  unfolding dquot_def by (intro ctx28.rnd_mono divide_right_mono)

lemma costs_nonneg: "costs account gross = Inr c \<Longrightarrow> 0 \<le> gross \<Longrightarrow> 0 \<le> c"
  by (auto simp: costs_Inr_iff le_max_iff_disj intro!: decimal_simps intro: decimal_nonneg)

text \<open>
  (C18) The expected cost of an order never falls when its notional grows, it is never negative, and it is
  at least the minimum fee, for every cost policy the parser accepts and at the engine's rounding.
\<close>

theorem costs_monotone:
  assumes "costs account gross = Inr c" and "costs account gross' = Inr c'" and "0 \<le> gross" and "gross \<le> gross'"
  shows "0 \<le> c \<and> c \<le> c' \<and> (\<forall>m. decimal_nn ''minimum_fee'' (cp_minimum_fee (acc_cost_policy account)) = Inr m
    \<longrightarrow> dec_round prec m \<le> c)"
proof -
  from assms(1) obtain cb ff mf sb lb tb where p:
      "decimal_nn ''commission_bps'' (cp_commission_bps (acc_cost_policy account)) = Inr cb"
      "decimal_nn ''fixed_fee'' (cp_fixed_fee (acc_cost_policy account)) = Inr ff"
      "decimal_nn ''minimum_fee'' (cp_minimum_fee (acc_cost_policy account)) = Inr mf"
      "decimal_nn ''spread_bps'' (cp_spread_bps (acc_cost_policy account)) = Inr sb"
      "decimal_nn ''slippage_bps'' (cp_slippage_bps (acc_cost_policy account)) = Inr lb"
      "decimal_nn ''tax_bps'' (cp_tax_bps (acc_cost_policy account)) = Inr tb"
    and c: "c = dadd prec (dadd prec (dadd prec
          (max (dadd prec (dquot prec (dmul prec gross cb) 10000) ff) mf)
          (dquot prec (dmul prec gross sb) 20000)) (dquot prec (dmul prec gross lb) 10000))
          (dquot prec (dmul prec gross tb) 10000)"
    unfolding costs_Inr_iff by blast
  from assms(2) p have c': "c' = dadd prec (dadd prec (dadd prec
          (max (dadd prec (dquot prec (dmul prec gross' cb) 10000) ff) mf)
          (dquot prec (dmul prec gross' sb) 20000)) (dquot prec (dmul prec gross' lb) 10000))
          (dquot prec (dmul prec gross' tb) 10000)"
    unfolding costs_Inr_iff by auto
  note nn = p[THEN decimal_nonneg]
  have "c \<le> c'" unfolding c c'
    by (intro dadd_mono dquot_mono dmul_mono max.mono assms(4) nn) simp_all
  moreover have "dec_round prec mf \<le> c"
  proof -
    have "dec_round prec mf \<le> dec_round prec (dadd prec (dadd prec mf 0) 0)"
      by (simp add: dadd_def)
    also have "\<dots> \<le> c" unfolding c dadd_def[of _ _ "dquot prec (dmul prec gross tb) 10000"]
    proof (intro ctx28.rnd_mono)
      have "dadd prec (dadd prec mf 0) 0 \<le> dadd prec (dadd prec
          (max (dadd prec (dquot prec (dmul prec gross cb) 10000) ff) mf)
          (dquot prec (dmul prec gross sb) 20000)) (dquot prec (dmul prec gross lb) 10000)"
        using assms(3) nn by (intro dadd_mono) (simp_all add: dquot_nonneg dmul_nonneg)
      moreover have "0 \<le> dquot prec (dmul prec gross tb) 10000"
        using assms(3) nn by (simp add: dquot_nonneg dmul_nonneg)
      ultimately show "dadd prec (dadd prec mf 0) 0 \<le> dadd prec (dadd prec
          (max (dadd prec (dquot prec (dmul prec gross cb) 10000) ff) mf)
          (dquot prec (dmul prec gross sb) 20000)) (dquot prec (dmul prec gross lb) 10000)
          + dquot prec (dmul prec gross tb) 10000" by linarith
    qed
    finally show ?thesis .
  qed
  ultimately show ?thesis using costs_nonneg[OF assms(1,3)] p(3) by auto
qed

lemma parse_target_quantities_map:
  assumes "parse_target_quantities rows = Inr d"
  shows "\<forall>(s, q) \<in> set d. 0 \<le> q" and "fst ` set d = tr_security_id ` set rows"
proof -
  have "(\<forall>(s, q) \<in> set d. 0 \<le> q) \<and> fst ` set d = fst ` set d0 \<union> tr_security_id ` set rows"
    if "foldR (\<lambda>d row. bindR (decimal_nn ''target_quantity'' (tr_target_quantity row)) (\<lambda>q.
       Inr (dset (tr_security_id row) q d))) d0 rows = Inr d" and "\<forall>(s, q) \<in> set d0. 0 \<le> q" for d0
    using that
  proof (induction rows arbitrary: d0)
    case (Cons row rows)
    from Cons.prems(1) obtain q where q: "decimal_nn ''target_quantity'' (tr_target_quantity row) = Inr q"
      and rest: "foldR (\<lambda>d row. bindR (decimal_nn ''target_quantity'' (tr_target_quantity row)) (\<lambda>q.
         Inr (dset (tr_security_id row) q d))) (dset (tr_security_id row) q d0) rows = Inr d"
      by (auto simp: bindR_eq_Inr)
    have "set (dset k v d) \<subseteq> insert (k, v) (set d)" for k v and d :: "(string, dec) dict"
      by (induction d) auto
    with Cons.prems(2) decimal_nonneg[OF q] have "\<forall>(s, q) \<in> set (dset (tr_security_id row) q d0). 0 \<le> q"
      by fastforce
    from Cons.IH[OF rest this] show ?case by (simp add: dom_update)
  qed simp
  from this[OF assms[unfolded parse_target_quantities_def]] show "\<forall>(s, q) \<in> set d. 0 \<le> q"
    and "fst ` set d = tr_security_id ` set rows" by simp_all
qed

text \<open>A loop that makes at most one row per key.\<close>

lemma mapR_rows_keys:
  assumes "mapR f ks = Inr yss" and "\<And>k ys. f k = Inr ys \<Longrightarrow> ys = [] \<or> (\<exists>y. ys = [y] \<and> key y = k)"
  shows "map key (concat yss) = filter (\<lambda>k. f k \<noteq> Inr []) ks"
  using assms(1)
proof (induction ks arbitrary: yss)
  case (Cons k ks)
  then obtain ys yss' where "f k = Inr ys" "mapR f ks = Inr yss'" "yss = ys # yss'"
    by (auto simp: bindR_eq_Inr)
  with Cons.IH[of yss'] assms(2)[of k ys] show ?case by auto
qed simp

lemma mapR_rows_mem:
  assumes "mapR f ks = Inr yss" and "y \<in> set (concat yss)"
  obtains k ys where "k \<in> set ks" and "f k = Inr ys" and "y \<in> set ys"
  using assms(2) by (auto elim: mapR_mem[OF assms(1)])

lemma dabs_dsub: "dabs prec (dsub prec a b) = \<bar>dsub prec a b\<bar>"
  by (simp add: dabs_def dsub_def abs_if)

lemma order_for_Inr:
  assumes "order_for env account inp sess execution tgt st tq s = Inr os"
  defines "d \<equiv> dsub prec (dget tq s 0) (dget (ps_quantities st) s 0)"
  shows "os = [] \<longleftrightarrow> d = 0"
    and "os = [] \<or> (\<exists>y. os = [y] \<and> or_security_id y = s)"
    and "y \<in> set os \<Longrightarrow> or_side y = (if 0 < d then ''buy'' else ''sell'') \<and> or_quantity y = decimal_string \<bar>d\<bar>
      \<and> or_execution_session y = execution \<and> or_target_id y = tg_target_id tgt
      \<and> or_decision_id y = tg_decision_id tgt \<and> or_status y = ''proposed''"
  using assms unfolding d_def
  by (auto simp: order_for_def Let_def bindR_eq_Inr dabs_dsub split: if_splits option.splits)

text \<open>The change that a target asks for, rounded as the engine rounds it.\<close>

definition target_delta :: "(string, dec) dict \<Rightarrow> portfolio_state \<Rightarrow> string \<Rightarrow> dec" where
  "target_delta tq st s = dsub prec (dget tq s 0) (dget (ps_quantities st) s 0)"

lemma not_candidate:
  assumes "s \<notin> set (order_candidates tq st)" and "\<forall>(x, q) \<in> set (ps_quantities st). 0 \<le> q"
  shows "target_delta tq st s = 0"
proof -
  from assms(1) have "map_of tq s = None"
    by (simp add: order_candidates_def map_of_eq_None_iff)
  moreover have "dget (ps_quantities st) s 0 = 0"
  proof (cases "map_of (ps_quantities st) s")
    case (Some q)
    then have "(s, q) \<in> set (ps_quantities st)" by (rule map_of_SomeD)
    with assms have "q = 0" by (force simp: order_candidates_def)
    with Some show ?thesis by (simp add: dget_def)
  qed (simp add: dget_def)
  ultimately show ?thesis by (simp add: target_delta_def dget_def dsub_def)
qed

text \<open>
  (C9) Orders are exactly the difference between the target and the holdings: one order for each security
  whose quantity must change and none for another, in the order of the identifiers, bought or sold
  by the sign of the change, for its whole size, and to be executed in the next session only.
\<close>

theorem target_orders_exact:
  assumes "target_orders env account inp sessions n tgt st = Inr os" and "n + 1 < length sessions"
    and "\<forall>(x, q) \<in> set (ps_quantities st). 0 \<le> q"
  shows "\<exists>tq. parse_target_quantities (tg_targets tgt) = Inr tq
    \<and> sorted (map or_security_id os) \<and> distinct (map or_security_id os)
    \<and> (\<forall>s. s \<in> or_security_id ` set os \<longleftrightarrow> target_delta tq st s \<noteq> 0)
    \<and> (\<forall>y \<in> set os. or_side y = (if 0 < target_delta tq st (or_security_id y) then ''buy'' else ''sell'')
        \<and> or_quantity y = decimal_string \<bar>target_delta tq st (or_security_id y)\<bar>
        \<and> or_execution_session y = isoformat (s_session_date (sessions ! (n + 1)))
        \<and> or_decision_id y = tg_decision_id tgt \<and> or_status y = ''proposed'')"
proof -
  define execution where "execution = isoformat (s_session_date (sessions ! (n + 1)))"
  from assms(1,2) obtain tq oss where tq: "parse_target_quantities (tg_targets tgt) = Inr tq"
    and oss: "mapR (order_for env account inp (sessions ! n) execution tgt st tq) (order_candidates tq st) = Inr oss"
    and os: "os = concat oss"
    by (auto simp: target_orders_def Let_def bindR_eq_Inr execution_def split: if_splits)
  let ?f = "order_for env account inp (sessions ! n) execution tgt st tq"
  have keys: "map or_security_id os = filter (\<lambda>k. ?f k \<noteq> Inr []) (order_candidates tq st)"
    unfolding os by (rule mapR_rows_keys[OF oss]) (rule order_for_Inr(2))
  have made: "?f k \<noteq> Inr [] \<longleftrightarrow> target_delta tq st k \<noteq> 0" if k: "k \<in> set (order_candidates tq st)" for k
  proof -
    from mapR_imageD[OF oss k] obtain ys where ys: "?f k = Inr ys" by blast
    with order_for_Inr(1)[OF ys] show ?thesis by (simp add: target_delta_def)
  qed
  have ids: "s \<in> or_security_id ` set os \<longleftrightarrow> target_delta tq st s \<noteq> 0" for s
  proof -
    have "s \<in> or_security_id ` set os \<longleftrightarrow> s \<in> set (order_candidates tq st) \<and> ?f s \<noteq> Inr []"
      using arg_cong[OF keys, of set] by auto
    then show ?thesis using made[of s] not_candidate[OF _ assms(3), of s tq] by blast
  qed
  have each: "or_side y = (if 0 < target_delta tq st (or_security_id y) then ''buy'' else ''sell'')
        \<and> or_quantity y = decimal_string \<bar>target_delta tq st (or_security_id y)\<bar>
        \<and> or_execution_session y = execution
        \<and> or_decision_id y = tg_decision_id tgt \<and> or_status y = ''proposed''" if "y \<in> set os" for y
  proof -
    from that obtain k ys where k: "?f k = Inr ys" "y \<in> set ys"
      unfolding os by (rule mapR_rows_mem[OF oss])
    then have "or_security_id y = k" using order_for_Inr(2)[OF k(1)] by auto
    with order_for_Inr(3)[OF k] show ?thesis by (simp add: target_delta_def)
  qed
  have "sorted (map or_security_id os)" "distinct (map or_security_id os)"
    unfolding keys by (simp_all add: order_candidates_def sorted_wrt_filter)
  with tq ids each show ?thesis unfolding execution_def by blast
qed

section \<open>Targets are well formed\<close>

definition amounts :: "(string, dec) dict \<Rightarrow> bool" where
  "amounts d \<longleftrightarrow> (\<forall>(s, q) \<in> set d. 0 \<le> q \<and> is_decimal q)"

lemma amounts_Nil [simp]: "amounts []"
  by (simp add: amounts_def)

lemma set_dset_subset: "set (dset k v d) \<subseteq> insert (k, v) (set d)"
  by (induction d) auto

lemma amounts_dset: "amounts d \<Longrightarrow> 0 \<le> q \<Longrightarrow> is_decimal q \<Longrightarrow> amounts (dset k q d)"
  using set_dset_subset[of k q d] by (fastforce simp: amounts_def)

lemma amounts_dget: "amounts d \<Longrightarrow> 0 \<le> dget d k 0 \<and> is_decimal (dget d k 0)"
  by (auto simp: amounts_def dget_def dest: map_of_SomeD split: option.split)

lemma price_row_mem: "price_row inp s d t = Some row \<Longrightarrow> row \<in> set (i_prices inp)
    \<and> p_security_id row = s \<and> p_session_date row = d \<and> p_available_at row \<le> t"
  by (auto simp: price_row_def find_Some_iff split: option.splits if_splits)

definition positive_closes :: "inputs \<Rightarrow> bool" where
  "positive_closes inp \<longleftrightarrow> (\<forall>r \<in> set (i_prices inp). 0 < p_close r)"

lemma wf_positive_closes: "wf_inputs inp \<Longrightarrow> positive_closes inp"
  by (auto simp: wf_inputs_def positive_closes_def list_all_iff price_row_ok_def)

lemma price_row_close: "positive_closes inp \<Longrightarrow> price_row inp s d t = Some row \<Longrightarrow> 0 < p_close row"
  using price_row_mem by (auto simp: positive_closes_def)

lemma hold_step_ok:
  assumes "positive_rates inp" "positive_closes inp" "0 < ps_nav_base st"
    and "hold_step account inp sess st active (w, q) x = Inr (w', q')"
    and "amounts w" "amounts q" "fst ` set q \<subseteq> fst ` set w" "is_decimal (snd x)"
  shows "amounts w' \<and> amounts q' \<and> fst ` set q' \<subseteq> fst ` set w'"
proof (cases x)
  case (Pair s y)
  show ?thesis
  proof (cases "0 < y \<and> s \<in> set active")
    case True
    with assms(4) Pair obtain row v c where row: "price_row inp s (s_session_date sess) (session_decision_at sess) = Some row"
      and v: "convert inp (dmul prec y (p_close row)) (p_currency row) (acc_base_currency account)
        (session_decision_at sess) = Inr v"
      and c: "ddiv prec v (ps_nav_base st) = Inr c"
      and eq: "w' = dset s c w" "q' = dset s y q"
      by (auto simp: hold_step_def bindR_eq_Inr split: option.splits)
    have "0 \<le> v" using convert_nonneg[OF assms(1) v] True price_row_close[OF assms(2) row]
      by (simp add: dmul_nonneg)
    with c assms(3) have "0 \<le> c" "is_decimal c" by (auto simp: ddiv_Inr_iff dquot_nonneg)
    with assms(5-8) True Pair show ?thesis unfolding eq by (auto simp: amounts_dset dom_update)
  next
    case False
    with assms(4) have "w' = w" "q' = q" by (auto simp: hold_step_def Pair)
    with assms(5-7) show ?thesis by simp
  qed
qed

lemma equal_weight_Nil [simp]: "equal_weight_targets [] = []"
  by (simp add: equal_weight_targets_def)

lemma momentum_equal_weight:
  "momentum_12_1_targets ids h n lookback skip k = Inr w \<Longrightarrow> \<exists>ids'. w = equal_weight_targets ids'"
  by (auto simp: momentum_12_1_targets_def Let_def intro: exI[of _ "[]"] split: if_splits)

lemma baseline_equal_weight:
  "baseline_targets name ids h n ps = Inr w \<Longrightarrow> \<exists>ids'. w = equal_weight_targets ids'"
  by (auto simp: baseline_targets_def bindR_eq_Inr momentum_equal_weight split: if_splits option.splits)

lemma signal_error_Inr [simp]: "signal_error r = Inr v \<longleftrightarrow> r = Inr v"
  by (auto simp: signal_error_def split: sum.splits exn.splits exn_class.splits)

lemma signal_targets_ok:
  assumes "signal_targets account inp sessions n active = Inr w"
  shows "amounts w"
proof -
  from assms obtain ids' where w: "w = equal_weight_targets ids'"
    by (auto simp: signal_targets_def Let_def bindR_eq_Inr dest: baseline_equal_weight split: if_splits)
  have "0 \<le> x \<and> is_decimal x" if "(s, x) \<in> set w" for s x
    using equal_weight_pos(1)[of s x ids'] equal_weight_values[of s x ids'] that unfolding w by simp
  then show ?thesis by (auto simp: amounts_def)
qed

lemma raw_targets_ok:
  assumes "positive_rates inp" "positive_closes inp" "0 < ps_nav_base st" "amounts (ps_quantities st)"
    and "raw_targets account inp sessions n sess st active = Inr (w, q)"
  shows "amounts w \<and> amounts q \<and> fst ` set q \<subseteq> fst ` set w"
proof (cases "ps_last_decision_session st \<noteq> None \<and> (st_name (acc_strategy account) = ''buy_and_hold''
      \<or> \<not> rebalance_due account sess (ps_last_decision_session st))")
  case True
  let ?P = "\<lambda>x. amounts (fst x) \<and> amounts (snd x) \<and> fst ` set (snd x) \<subseteq> fst ` set (fst x)"
  have "?P (w, q)"
  proof (rule foldR_invariant[where f = "hold_step account inp sess st active" and xs = "ps_quantities st" and P = ?P])
    from assms(5) True show "foldR (hold_step account inp sess st active) ([], []) (ps_quantities st) = Inr (w, q)"
      by (simp add: raw_targets_def)
    fix s x t
    assume x: "x \<in> set (ps_quantities st)" and s: "?P s"
      and step: "hold_step account inp sess st active s x = Inr t"
    from x assms(4) have "is_decimal (snd x)" by (cases x) (auto simp: amounts_def)
    moreover from step have "hold_step account inp sess st active (fst s, snd s) x = Inr (fst t, snd t)" by simp
    note hold_step_ok[OF assms(1-3) this]
    ultimately show "?P t" using s by simp
  qed simp
  then show ?thesis by simp
next
  case False
  with assms(5) have "signal_targets account inp sessions n active = Inr w" "q = []"
    unfolding raw_targets_def if_not_P[OF False] by (auto simp: bindR_eq_Inr)
  with signal_targets_ok[OF this(1)] show ?thesis by simp
qed

lemma scale_targets_ok:
  assumes "scale_targets account sess st w q = Inr (w', m)" and "amounts w" and "fst ` set q \<subseteq> fst ` set w"
    and "q = [] \<or> ps_last_decision_session st \<noteq> None \<and> (st_name (acc_strategy account) = ''buy_and_hold''
      \<or> \<not> rebalance_due account sess (ps_last_decision_session st))"
  shows "amounts w' \<and> fst ` set q \<subseteq> fst ` set w' \<and> 0 \<le> m \<and> is_decimal m"
proof -
  have "amounts (map (\<lambda>(s, w). (s, dmul prec w i)) (filter (\<lambda>(_, w). 0 < w) w))" if "0 \<le> i" for i
    using that by (auto simp: amounts_def dmul_nonneg)
  then show ?thesis
    using assms unfolding scale_targets_def Let_def
    by (elim bindR_InrE) (auto simp: not_less decimal_nonneg decimal_is_decimal split: if_split_asm)
qed

lemma raw_targets_kept:
  "raw_targets account inp sessions n sess st active = Inr (w, q) \<Longrightarrow> q \<noteq> [] \<Longrightarrow>
    ps_last_decision_session st \<noteq> None \<and> (st_name (acc_strategy account) = ''buy_and_hold''
      \<or> \<not> rebalance_due account sess (ps_last_decision_session st))"
  unfolding raw_targets_def by (auto simp: bindR_eq_Inr split: if_split_asm)

lemma select_targets_ok:
  assumes "positive_rates inp" "positive_closes inp" "0 < ps_nav_base st" "amounts (ps_quantities st)"
    and "select_targets account inp sessions n sess st active = Inr (w, q, m)"
  shows "amounts w \<and> amounts q \<and> fst ` set q \<subseteq> fst ` set w \<and> 0 \<le> m \<and> is_decimal m"
proof -
  from assms(5) obtain w0 where "raw_targets account inp sessions n sess st active = Inr (w0, q)"
    and "scale_targets account sess st w0 q = Inr (w, m)"
    by (auto simp: select_targets_def bindR_eq_Inr)
  with raw_targets_ok[OF assms(1-4) this(1)] scale_targets_ok[OF this(2)] raw_targets_kept[OF this(1)]
  show ?thesis by blast
qed

lemma round_down_Ints [simp]: "round_down q \<in> \<int>"
  by (simp add: round_down_def)

lemma size_step_ok:
  assumes "positive_rates inp" "positive_closes inp" "0 < ps_nav_base st" "0 \<le> snd x" "amounts q"
    and "size_step account inp sess st q x = Inr q'"
  obtains y where "q' = dset (fst x) y q" and "0 \<le> y" and "is_decimal y"
    and "\<not> ac_fractional_shares (acc_accounting_policy account) \<Longrightarrow> y \<in> \<int>"
proof -
  from assms(6) obtain row v z where
    row: "price_row inp (fst x) (s_session_date sess) (session_decision_at sess) = Some row"
    and v: "convert inp (dmul prec (ps_nav_base st) (snd x)) (acc_base_currency account) (p_currency row)
      (session_decision_at sess) = Inr v"
    and z: "ddiv prec v (p_close row) = Inr z"
    and q': "q' = dset (fst x) (if ac_fractional_shares (acc_accounting_policy account) then z else round_down z) q"
    by (cases x) (auto simp: size_step_def missing_target_price_def bindR_eq_Inr split: option.splits)
  have "0 \<le> v" using convert_nonneg[OF assms(1) v] assms(3,4) by (simp add: dmul_nonneg)
  with z price_row_close[OF assms(2) row] have "0 \<le> z" "is_decimal z"
    by (auto simp: ddiv_Inr_iff dquot_nonneg)
  with round_down_bounds[of z] q' show ?thesis
    by (intro that[of "if ac_fractional_shares (acc_accounting_policy account) then z else round_down z"]) auto
qed

lemma size_fold_ok:
  assumes "positive_rates inp" "positive_closes inp" "0 < ps_nav_base st"
    and "foldR (size_step account inp sess st) q ws = Inr q'" "amounts q" "\<forall>x \<in> set ws. 0 \<le> snd x"
  shows "amounts q' \<and> fst ` set q' = fst ` set q \<union> fst ` set ws
    \<and> (\<not> ac_fractional_shares (acc_accounting_policy account) \<longrightarrow>
        (\<forall>s. s \<in> fst ` set ws \<or> dget q s 0 \<in> \<int> \<longrightarrow> dget q' s 0 \<in> \<int>))"
  using assms(4-6)
proof (induction ws arbitrary: q)
  case (Cons x ws)
  from Cons.prems(1) obtain p where p: "size_step account inp sess st q x = Inr p"
    "foldR (size_step account inp sess st) p ws = Inr q'" by (auto simp: bindR_eq_Inr)
  obtain y where y: "p = dset (fst x) y q" "0 \<le> y" "is_decimal y"
    "\<not> ac_fractional_shares (acc_accounting_policy account) \<Longrightarrow> y \<in> \<int>"
    using size_step_ok[OF assms(1-3) _ Cons.prems(2) p(1)] Cons.prems(3) by auto
  from Cons.IH[OF p(2)] y Cons.prems(2,3) show ?case by (auto simp: amounts_dset dom_update)
qed simp

lemma target_row_for_Inr:
  assumes "target_row_for account inp sess st tq s = Inr rs"
  shows "rs = [] \<or> (\<exists>r. rs = [r] \<and> tr_security_id r = s)"
    and "r \<in> set rs \<Longrightarrow> \<exists>row v w. price_row inp s (s_session_date sess) (session_decision_at sess) = Some row
      \<and> convert inp (dmul prec (dget tq s 0) (p_close row)) (p_currency row) (acc_base_currency account)
          (session_decision_at sess) = Inr v
      \<and> ddiv prec v (ps_nav_base st) = Inr w
      \<and> tr_security_id r = s \<and> tr_price r = decimal_string (p_close row) \<and> tr_currency r = p_currency row
      \<and> tr_target_quantity r = decimal_string (dget tq s 0) \<and> tr_market_value_base r = decimal_string v
      \<and> tr_target_weight r = decimal_string w"
  using assms
  by (auto simp: target_row_for_def Let_def missing_target_price_def bindR_eq_Inr
      split: if_splits option.splits)

lemma sorted_items_mem: "x \<in> set (sorted_items d) \<longleftrightarrow> x \<in> set d"
  by simp

lemma build_target_parts:
  assumes "build_target env account inp sessions n st revision given = Inr tgt"
  obtains active w hq m tq rss where "0 < ps_nav_base st" and "n < length sessions"
    and "active_security_ids account inp (sessions ! n) = Inr active"
    and "check_closes inp (sessions ! n) active = Inr ()"
    and "select_targets account inp sessions n (sessions ! n) st active = Inr (w, hq, m)"
    and "foldR (size_step account inp (sessions ! n) st) hq (sorted_items w) = Inr tq"
    and "mapR (target_row_for account inp (sessions ! n) st tq)
      (sorted_set (map fst tq @ map fst (ps_quantities st))) = Inr rss"
    and "tg_targets tgt = concat rss" and "tg_nav_base tgt = decimal_string (ps_nav_base st)"
    and "tg_cash_reserve tgt = decimal_string m"
  using assms by (auto simp: build_target_def session_at_def bindR_eq_Inr not_le intro: that split: if_splits)

lemma build_target_facts:
  assumes "wf_inputs inp" and "amounts (ps_quantities st)"
    and "build_target env account inp sessions n st revision given = Inr tgt"
  shows "sorted (map tr_security_id (tg_targets tgt)) \<and> distinct (map tr_security_id (tg_targets tgt))
    \<and> (\<forall>r \<in> set (tg_targets tgt). \<exists>row q v.
        price_row inp (tr_security_id r) (s_session_date (sessions ! n)) (session_decision_at (sessions ! n)) = Some row
        \<and> tr_price r = decimal_string (p_close row) \<and> tr_currency r = p_currency row
        \<and> 0 \<le> q \<and> is_decimal q \<and> tr_target_quantity r = decimal_string q
        \<and> (\<not> ac_fractional_shares (acc_accounting_policy account) \<longrightarrow> q \<in> \<int>)
        \<and> convert inp (dmul prec q (p_close row)) (p_currency row) (acc_base_currency account)
            (session_decision_at (sessions ! n)) = Inr v
        \<and> 0 \<le> v \<and> is_decimal v \<and> tr_market_value_base r = decimal_string v
        \<and> tr_target_weight r = decimal_string (dquot prec v (ps_nav_base st)))"
proof -
  note pos = wf_positive_rates[OF assms(1)] wf_positive_closes[OF assms(1)]
  from assms(3) obtain active w hq m tq rss where nav: "0 < ps_nav_base st"
    and sel: "select_targets account inp sessions n (sessions ! n) st active = Inr (w, hq, m)"
    and size: "foldR (size_step account inp (sessions ! n) st) hq (sorted_items w) = Inr tq"
    and rss: "mapR (target_row_for account inp (sessions ! n) st tq)
      (sorted_set (map fst tq @ map fst (ps_quantities st))) = Inr rss"
    and rows: "tg_targets tgt = concat rss"
    by (rule build_target_parts)
  from select_targets_ok[OF pos nav assms(2) sel]
  have w: "\<forall>x \<in> set (sorted_items w). 0 \<le> snd x" and hq: "amounts hq" "fst ` set hq \<subseteq> fst ` set w"
    by (auto simp: amounts_def)
  from size_fold_ok[OF pos nav size hq(1) w] have tq: "amounts tq" "fst ` set tq = fst ` set w"
    and whole: "\<not> ac_fractional_shares (acc_accounting_policy account) \<Longrightarrow> s \<in> fst ` set w \<Longrightarrow> dget tq s 0 \<in> \<int>" for s
    using hq(2) by auto
  have int: "dget tq s 0 \<in> \<int>" if "\<not> ac_fractional_shares (acc_accounting_policy account)" for s
  proof (cases "s \<in> fst ` set w")
    case False
    with tq(2) have "map_of tq s = None" by (simp add: map_of_eq_None_iff)
    then show ?thesis by (simp add: dget_def)
  qed (use whole[OF that] in simp)
  have keys: "map tr_security_id (tg_targets tgt)
      = filter (\<lambda>k. target_row_for account inp (sessions ! n) st tq k \<noteq> Inr [])
          (sorted_set (map fst tq @ map fst (ps_quantities st)))"
    unfolding rows by (rule mapR_rows_keys[OF rss]) (rule target_row_for_Inr(1))
  have "\<exists>row q v.
        price_row inp (tr_security_id r) (s_session_date (sessions ! n)) (session_decision_at (sessions ! n)) = Some row
        \<and> tr_price r = decimal_string (p_close row) \<and> tr_currency r = p_currency row
        \<and> 0 \<le> q \<and> is_decimal q \<and> tr_target_quantity r = decimal_string q
        \<and> (\<not> ac_fractional_shares (acc_accounting_policy account) \<longrightarrow> q \<in> \<int>)
        \<and> convert inp (dmul prec q (p_close row)) (p_currency row) (acc_base_currency account)
            (session_decision_at (sessions ! n)) = Inr v
        \<and> 0 \<le> v \<and> is_decimal v \<and> tr_market_value_base r = decimal_string v
        \<and> tr_target_weight r = decimal_string (dquot prec v (ps_nav_base st))"
    if "r \<in> set (tg_targets tgt)" for r
  proof -
    from that obtain k rs where k: "target_row_for account inp (sessions ! n) st tq k = Inr rs" "r \<in> set rs"
      unfolding rows by (rule mapR_rows_mem[OF rss])
    from target_row_for_Inr(2)[OF k] obtain row v w where
      row: "price_row inp k (s_session_date (sessions ! n)) (session_decision_at (sessions ! n)) = Some row"
      and v: "convert inp (dmul prec (dget tq k 0) (p_close row)) (p_currency row) (acc_base_currency account)
          (session_decision_at (sessions ! n)) = Inr v"
      and rest: "ddiv prec v (ps_nav_base st) = Inr w" "tr_security_id r = k" "tr_price r = decimal_string (p_close row)"
        "tr_currency r = p_currency row" "tr_target_quantity r = decimal_string (dget tq k 0)"
        "tr_market_value_base r = decimal_string v" "tr_target_weight r = decimal_string w"
      by blast
    have q: "0 \<le> dget tq k 0" "is_decimal (dget tq k 0)" using amounts_dget[OF tq(1)] by auto
    have "0 \<le> v" using convert_nonneg[OF pos(1) v] q price_row_close[OF pos(2) row] by (simp add: dmul_nonneg)
    with row v rest q int convert_is_decimal[OF v] show ?thesis by (auto simp: ddiv_Inr_iff)
  qed
  then show ?thesis unfolding keys by (simp add: sorted_wrt_filter)
qed

lemmas build_target_priced = build_target_facts[THEN conjunct2, THEN conjunct2]

text \<open>
  (C10) A target is well formed: one row per security in the order of the identifiers; each quantity is a
  canonical non-negative decimal, a whole number unless the account holds fractional shares; each row
  is priced at the close that is visible at the decision clock, and its value and weight are that
  quantity at that price and rate.
\<close>

theorem build_target_rows:
  assumes "wf_inputs inp" and "amounts (ps_quantities st)"
    and "build_target env account inp sessions n st revision given = Inr tgt"
  shows "sorted (map tr_security_id (tg_targets tgt)) \<and> distinct (map tr_security_id (tg_targets tgt))
    \<and> (\<forall>r \<in> set (tg_targets tgt). \<exists>row q v.
        price_row inp (tr_security_id r) (s_session_date (sessions ! n)) (session_decision_at (sessions ! n)) = Some row
        \<and> tr_price r = decimal_string (p_close row) \<and> tr_currency r = p_currency row
        \<and> 0 \<le> q \<and> is_decimal q \<and> tr_target_quantity r = decimal_string q
        \<and> (\<not> ac_fractional_shares (acc_accounting_policy account) \<longrightarrow> q \<in> \<int>)
        \<and> convert inp (dmul prec q (p_close row)) (p_currency row) (acc_base_currency account)
            (session_decision_at (sessions ! n)) = Inr v
        \<and> 0 \<le> v \<and> is_decimal v \<and> tr_market_value_base r = decimal_string v
        \<and> tr_target_weight r = decimal_string (dquot prec v (ps_nav_base st)))"
  by (rule build_target_facts[OF assms])

end
