(* ===== verification/Risk.thy ===== *)
theory Risk
  imports Portfolio
begin

text \<open>
  \<open>research/risk.py\<close>: the check of a target and its orders against the limits of the account. The
  verdict collects the code of each violated limit with the reason of its first violation.
\<close>

section \<open>The checks\<close>

type_synonym violations = "string list \<times> reason list"

definition rounding_tolerance :: dec where
  "rounding_tolerance = 1 / 10 ^ 24"

definition append_reason :: "string \<Rightarrow> reason \<Rightarrow> violations \<Rightarrow> violations" where
  "append_reason code reason v =
     (if code \<in> set (fst v) then v else (fst v @ [code], snd v @ [reason]))"

definition session_age :: "session list \<Rightarrow> datetime \<Rightarrow> date \<Rightarrow> int" where
  "session_age sessions observed_at current =
     int (length (filter (\<lambda>s. dt_date observed_at < s_session_date s \<and> s_session_date s \<le> current) sessions))"

text \<open>\<open>gross if nav else Decimal(0)\<close>\<close>

definition per_nav :: "dec \<Rightarrow> dec \<Rightarrow> dec" where
  "per_nav amount nav = (if nav = 0 then 0 else dquot prec amount nav)"

text \<open>The exposure per sector, country, currency and theme: dictionaries with a zero default.\<close>

type_synonym exposures = "(string, dec) dict"

definition add_exposure :: "dec \<Rightarrow> exposures \<Rightarrow> string \<Rightarrow> exposures" where
  "add_exposure weight d grp = dset grp (dadd prec (dget d grp 0) weight) d"

record groups =
  g_sector :: exposures
  g_country :: exposures
  g_currency :: exposures
  g_theme :: exposures

definition no_groups :: groups where
  "no_groups = \<lparr>g_sector = [], g_country = [], g_currency = [], g_theme = []\<rparr>"

definition position_step ::
  "dec \<Rightarrow> string list \<Rightarrow> violations \<times> groups \<Rightarrow> target_row \<Rightarrow> (violations \<times> groups) result" where
  "position_step max_position prohibited = (\<lambda>(v, g) row.
     bindR (decimal_nn ''target.target_weight'' (tr_target_weight row)) (\<lambda>weight.
     (let security_id = tr_security_id row;
          v1 = (if max_position < weight
                then append_reason ''max_position_weight'' (Position_Weight security_id weight max_position) v else v);
          v2 = (if 0 < weight \<and> security_id \<in> set prohibited
                then append_reason ''prohibited_security'' (Prohibited_Security security_id) v1 else v1)
      in Inr (v2, \<lparr>g_sector = add_exposure weight (g_sector g) (tr_sector row),
           g_country = add_exposure weight (g_country g) (tr_country row),
           g_currency = add_exposure weight (g_currency g) (tr_currency row),
           g_theme = foldl (add_exposure weight) (g_theme g) (tr_themes row)\<rparr>))))"

definition check_group :: "string \<Rightarrow> dec \<Rightarrow> exposures \<Rightarrow> violations \<Rightarrow> violations" where
  "check_group group_name limit values v =
     foldl (\<lambda>v (grp, exposure).
        if limit < exposure
        then append_reason (''max_'' @ group_name @ ''_exposure'') (Group_Exposure group_name grp exposure limit) v
        else v) v (sorted_items values)"

definition check_groups :: "risk_policy \<Rightarrow> groups \<Rightarrow> violations \<Rightarrow> violations result" where
  "check_groups policy g v =
     bindR (decimal_nn ''risk.max_sector_exposure'' (rp_max_sector_exposure policy)) (\<lambda>sector.
     bindR (decimal_nn ''risk.max_country_exposure'' (rp_max_country_exposure policy)) (\<lambda>country.
     bindR (decimal_nn ''risk.max_currency_exposure'' (rp_max_currency_exposure policy)) (\<lambda>currency.
     bindR (decimal_nn ''risk.max_theme_exposure'' (rp_max_theme_exposure policy)) (\<lambda>theme.
     Inr (check_group ''theme'' theme (g_theme g)
           (check_group ''currency'' currency (g_currency g)
             (check_group ''country'' country (g_country g)
               (check_group ''sector'' sector (g_sector g) v))))))))"

text \<open>Turnover and the daily notional.\<close>

definition check_notional :: "risk_policy \<Rightarrow> dec \<Rightarrow> order list \<Rightarrow> violations \<Rightarrow> violations result" where
  "check_notional policy nav orders v =
     bindR (mapR (\<lambda>y. decimal_nn ''order.expected_notional_base'' (or_expected_notional_base y)) orders) (\<lambda>notionals.
     (let total_notional = dsum prec notionals; turnover = per_nav total_notional nav in
     bindR (decimal_nn ''risk.max_turnover'' (rp_max_turnover policy)) (\<lambda>max_turnover.
     (let v1 = (if max_turnover < turnover then append_reason ''max_turnover'' (Turnover turnover max_turnover) v
                else v) in
     bindR (decimal_nn ''risk.max_daily_notional'' (rp_max_daily_notional policy)) (\<lambda>max_daily_notional.
     Inr (if max_daily_notional < total_notional
          then append_reason ''max_daily_notional'' (Daily_Notional total_notional max_daily_notional) v1
          else v1))))))"

definition check_cash :: "risk_policy \<Rightarrow> dec \<Rightarrow> dec list \<Rightarrow> order list \<Rightarrow> violations \<Rightarrow> violations result" where
  "check_cash policy nav target_values orders v =
     bindR (decimal_nn ''risk.minimum_cash_reserve'' (rp_minimum_cash_reserve policy)) (\<lambda>minimum_cash.
     bindR (mapR (\<lambda>y. decimal_nn ''order.expected_cost_base'' (or_expected_cost_base y)) orders) (\<lambda>costs.
     (let cash_after_cost = dsub prec (dsub prec nav (dsum prec target_values)) (dsum prec costs);
          reserve_tolerance = max rounding_tolerance (dmul prec nav rounding_tolerance)
      in Inr (if dadd prec cash_after_cost reserve_tolerance < dmul prec nav minimum_cash
              then append_reason ''minimum_cash_reserve''
                (Cash_Reserve (per_nav cash_after_cost nav) minimum_cash) v
              else v))))"

definition participation_step ::
  "inputs \<Rightarrow> session \<Rightarrow> dec \<Rightarrow> violations \<Rightarrow> order \<Rightarrow> violations result" where
  "participation_step inp sess max_participation v y =
     (case price_row inp (or_security_id y) (s_session_date sess) (session_decision_at sess) of
        None \<Rightarrow> Inr (append_reason ''missing_price'' (Missing_Price (or_security_id y)) v)
      | Some row \<Rightarrow>
          bindR (decimal_nn ''order.quantity'' (or_quantity y)) (\<lambda>quantity.
          Inr (if p_has_volume row
               then (if dmul prec (p_volume row) max_participation < quantity
                     then append_reason ''max_participation'' (Participation (or_security_id y) max_participation) v
                     else v)
               else (if max_participation < 1
                     then append_reason ''missing_volume'' (Missing_Volume (or_security_id y)) v
                     else v))))"

definition gap_step ::
  "inputs \<Rightarrow> session \<Rightarrow> session \<Rightarrow> dec \<Rightarrow> violations \<Rightarrow> target_row \<Rightarrow> violations result" where
  "gap_step inp sess previous limit v row =
     (case (price_row inp (tr_security_id row) (s_session_date sess) (session_decision_at sess),
            price_row inp (tr_security_id row) (s_session_date previous) (session_decision_at sess)) of
        (Some current_price, Some previous_price) \<Rightarrow>
          bindR (ddiv prec (p_close current_price) (p_close previous_price)) (\<lambda>ratio.
          (let gap = dabs prec (dsub prec ratio 1)
           in Inr (if limit < gap then append_reason ''max_price_gap'' (Price_Gap (tr_security_id row) gap limit) v
                   else v)))
      | _ \<Rightarrow> Inr v)"

text \<open>The securities with a positive target quantity: a set, visited in the order of the runtime.\<close>

definition held_targets :: "target_row list \<Rightarrow> string list result" where
  "held_targets rows =
     bindR (mapR (\<lambda>row. bindR (decimal_nn ''target.target_quantity'' (tr_target_quantity row)) (\<lambda>q.
       Inr (tr_security_id row, q))) rows) (\<lambda>qs.
     Inr (remdups (map fst (filter (\<lambda>(_, q). 0 < q) qs))))"

definition stale_step ::
  "inputs \<Rightarrow> session list \<Rightarrow> session \<Rightarrow> int \<Rightarrow> violations \<Rightarrow> string \<Rightarrow> violations" where
  "stale_step inp sessions sess stale_limit v security_id =
     (case price_row inp security_id (s_session_date sess) (session_decision_at sess) of
        None \<Rightarrow> v
      | Some row \<Rightarrow>
          (let age = session_age sessions (p_observed_at row) (s_session_date sess)
           in if stale_limit < age then append_reason ''stale_data'' (Stale_Data security_id age stale_limit) v
              else v))"

definition check_drawdown :: "risk_policy \<Rightarrow> dec \<Rightarrow> dec \<Rightarrow> violations \<Rightarrow> violations result" where
  "check_drawdown policy peak nav v =
     (if 0 < peak
      then (let drawdown = max 0 (dquot prec (dsub prec peak nav) peak) in
           bindR (decimal_nn ''risk.max_drawdown'' (rp_max_drawdown policy)) (\<lambda>max_drawdown.
           Inr (if max_drawdown < drawdown then append_reason ''max_drawdown'' (Drawdown drawdown max_drawdown) v
                else v)))
      else Inr v)"

text \<open>\<open>sessions[session_index - 1]\<close> is read only after the first session.\<close>

definition check_gaps ::
  "account \<Rightarrow> inputs \<Rightarrow> session list \<Rightarrow> nat \<Rightarrow> session \<Rightarrow> target_row list \<Rightarrow> violations \<Rightarrow> violations result" where
  "check_gaps account inp sessions session_index sess rows v =
     bindR (decimal_nn ''risk.max_price_gap'' (rp_max_price_gap (acc_risk_policy account))) (\<lambda>risk_gap.
     bindR (decimal_nn ''decision_policy.max_price_gap'' (dp_max_price_gap (acc_decision_policy account))) (\<lambda>decision_gap.
     if 0 < session_index
     then foldR (gap_step inp sess (sessions ! (session_index - 1)) (min risk_gap decision_gap)) v rows
     else Inr v))"

definition assess_target ::
  "env \<Rightarrow> account \<Rightarrow> inputs \<Rightarrow> session list \<Rightarrow> nat \<Rightarrow> portfolio_state \<Rightarrow> target \<Rightarrow> order list
    \<Rightarrow> risk_verdict result" where
  "assess_target env account inp sessions session_index state target orders =
     bindR (session_at sessions session_index) (\<lambda>sess.
     (let policy = acc_risk_policy account; rows = tg_targets target in
     bindR (decimal_nn ''target.nav_base'' (tg_nav_base target)) (\<lambda>nav.
     bindR (mapR (\<lambda>row. decimal_nn ''target.market_value_base'' (tr_market_value_base row)) rows) (\<lambda>target_values.
     (let gross = per_nav (dsum prec target_values) nav in
     bindR (decimal_nn ''risk.max_gross_exposure'' (rp_max_gross_exposure policy)) (\<lambda>max_gross.
     (let v0 = (if max_gross < gross
                then append_reason ''max_gross_exposure'' (Gross_Exposure gross max_gross) ([], []) else ([], [])) in
     bindR (decimal_nn ''risk.max_position_weight'' (rp_max_position_weight policy)) (\<lambda>max_position.
     bindR (foldR (position_step max_position (rp_prohibited_security_ids policy)) (v0, no_groups) rows) (\<lambda>(v1, g).
     bindR (check_groups policy g v1) (\<lambda>v2.
     bindR (check_notional policy nav orders v2) (\<lambda>v3.
     bindR (check_cash policy nav target_values orders v3) (\<lambda>v4.
     bindR (decimal_nn ''risk.max_participation'' (rp_max_participation policy)) (\<lambda>max_participation.
     bindR (foldR (participation_step inp sess max_participation) v4 orders) (\<lambda>v5.
     bindR (check_gaps account inp sessions session_index sess rows v5) (\<lambda>v6.
     (let stale_limit = min (rp_max_stale_sessions policy) (dp_stale_after_sessions (acc_decision_policy account)) in
     bindR (held_targets rows) (\<lambda>held.
     (let v7 = foldl (stale_step inp sessions sess stale_limit) v6 (env_set_order env held) in
     bindR (check_drawdown policy (ps_peak_nav_base state) nav v7) (\<lambda>v8.
     Inr \<lparr>rv_status = (if fst v8 = [] then ''approved'' else ''rejected''),
          rv_policy_version = rp_version policy, rv_codes = fst v8, rv_reasons = snd v8,
          rv_checked_at = timestamp (session_decision_at sess)\<rparr>)))))))))))))))))))"

section \<open>What approval means\<close>

text \<open>The value of a decimal string that the parser accepts.\<close>

definition amount :: "string \<Rightarrow> dec" where
  "amount s = (case parse_unsigned s of Some q \<Rightarrow> q | None \<Rightarrow> 0)"

lemma decimal_amount: "decimal_nn f s = Inr q \<Longrightarrow> q = amount s"
  by (simp add: decimal_nn_iff amount_def)

lemma amount_nonneg [simp]: "0 \<le> amount s"
  using parse_unsigned_decimal(2) by (auto simp: amount_def split: option.split)

lemma amount_decimal_string [simp]: "is_decimal q \<Longrightarrow> 0 \<le> q \<Longrightarrow> amount (decimal_string q) = q"
  by (simp add: amount_def)

lemma mapR_amount: "mapR (\<lambda>x. decimal_nn (f x) (g x)) xs = Inr qs \<Longrightarrow> qs = map (\<lambda>x. amount (g x)) xs"
  by (induction xs arbitrary: qs) (auto simp: bindR_eq_Inr dest: decimal_amount)

definition exposure :: "(target_row \<Rightarrow> string list) \<Rightarrow> target_row list \<Rightarrow> string \<Rightarrow> dec" where
  "exposure labels rows s =
     dsum prec (concat (map (\<lambda>r. map (\<lambda>_. amount (tr_target_weight r)) (filter ((=) s) (labels r))) rows))"

definition exposures_within :: "(target_row \<Rightarrow> string list) \<Rightarrow> target_row list \<Rightarrow> string \<Rightarrow> bool" where
  "exposures_within labels rows limit \<longleftrightarrow> (\<forall>s. exposure labels rows s \<le> amount limit)"

definition order_within :: "account \<Rightarrow> inputs \<Rightarrow> session \<Rightarrow> order \<Rightarrow> bool" where
  "order_within account inp sess y \<longleftrightarrow>
     (\<exists>row. price_row inp (or_security_id y) (s_session_date sess) (session_decision_at sess) = Some row
       \<and> (if p_has_volume row
          then amount (or_quantity y)
             \<le> dmul prec (p_volume row) (amount (rp_max_participation (acc_risk_policy account)))
          else 1 \<le> amount (rp_max_participation (acc_risk_policy account))))"

definition gap_within :: "account \<Rightarrow> inputs \<Rightarrow> session \<Rightarrow> session \<Rightarrow> string \<Rightarrow> bool" where
  "gap_within account inp sess previous s \<longleftrightarrow>
     (\<forall>cur prev. price_row inp s (s_session_date sess) (session_decision_at sess) = Some cur
        \<and> price_row inp s (s_session_date previous) (session_decision_at sess) = Some prev
      \<longrightarrow> dabs prec (dsub prec (dquot prec (p_close cur) (p_close prev)) 1)
          \<le> min (amount (rp_max_price_gap (acc_risk_policy account)))
                (amount (dp_max_price_gap (acc_decision_policy account))))"

definition fresh_price :: "account \<Rightarrow> inputs \<Rightarrow> session list \<Rightarrow> session \<Rightarrow> string \<Rightarrow> bool" where
  "fresh_price account inp sessions sess s \<longleftrightarrow>
     (\<forall>row. price_row inp s (s_session_date sess) (session_decision_at sess) = Some row
      \<longrightarrow> session_age sessions (p_observed_at row) (s_session_date sess)
          \<le> min (rp_max_stale_sessions (acc_risk_policy account))
                (dp_stale_after_sessions (acc_decision_policy account)))"

text \<open>The limits of an account, all of them, without the order in which the code looks at them.\<close>

definition within_limits ::
  "account \<Rightarrow> inputs \<Rightarrow> session list \<Rightarrow> nat \<Rightarrow> portfolio_state \<Rightarrow> target \<Rightarrow> order list \<Rightarrow> bool" where
  "within_limits account inp sessions n st tgt orders \<longleftrightarrow>
     (let policy = acc_risk_policy account; rows = tg_targets tgt; nav = amount (tg_nav_base tgt);
          sess = sessions ! n; values = map (\<lambda>r. amount (tr_market_value_base r)) rows;
          notional = dsum prec (map (\<lambda>y. amount (or_expected_notional_base y)) orders);
          cost = dsum prec (map (\<lambda>y. amount (or_expected_cost_base y)) orders)
      in per_nav (dsum prec values) nav \<le> amount (rp_max_gross_exposure policy)
       \<and> (\<forall>r \<in> set rows. amount (tr_target_weight r) \<le> amount (rp_max_position_weight policy)
            \<and> (0 < amount (tr_target_weight r) \<longrightarrow> tr_security_id r \<notin> set (rp_prohibited_security_ids policy)))
       \<and> exposures_within (\<lambda>r. [tr_sector r]) rows (rp_max_sector_exposure policy)
       \<and> exposures_within (\<lambda>r. [tr_country r]) rows (rp_max_country_exposure policy)
       \<and> exposures_within (\<lambda>r. [tr_currency r]) rows (rp_max_currency_exposure policy)
       \<and> exposures_within tr_themes rows (rp_max_theme_exposure policy)
       \<and> per_nav notional nav \<le> amount (rp_max_turnover policy)
       \<and> notional \<le> amount (rp_max_daily_notional policy)
       \<and> dmul prec nav (amount (rp_minimum_cash_reserve policy))
          \<le> dadd prec (dsub prec (dsub prec nav (dsum prec values)) cost)
               (max rounding_tolerance (dmul prec nav rounding_tolerance))
       \<and> (\<forall>y \<in> set orders. order_within account inp sess y)
       \<and> (0 < n \<longrightarrow> (\<forall>r \<in> set rows. gap_within account inp sess (sessions ! (n - 1)) (tr_security_id r)))
       \<and> (\<forall>r \<in> set rows. 0 < amount (tr_target_quantity r) \<longrightarrow> fresh_price account inp sessions sess (tr_security_id r))
       \<and> (0 < ps_peak_nav_base st \<longrightarrow>
            dquot prec (dsub prec (ps_peak_nav_base st) nav) (ps_peak_nav_base st) \<le> amount (rp_max_drawdown policy)))"

lemma append_reason_ne [simp]: "fst (append_reason c r v) \<noteq> []"
  by (auto simp: append_reason_def)

lemma clean_if [simp]: "fst (if b then append_reason c r v else v) = [] \<longleftrightarrow> \<not> b \<and> fst v = []"
  by simp

lemma foldl_clean:
  assumes "\<And>v x. fst (f v x) = [] \<longleftrightarrow> fst v = [] \<and> Q x"
  shows "fst (foldl f v xs) = [] \<longleftrightarrow> fst v = [] \<and> (\<forall>x \<in> set xs. Q x)"
  by (induction xs arbitrary: v) (auto simp: assms)

lemma foldR_clean:
  assumes "foldR f v xs = Inr v'" and "\<And>v x v'. x \<in> set xs \<Longrightarrow> f v x = Inr v' \<Longrightarrow> fst v' = [] \<longleftrightarrow> fst v = [] \<and> Q x"
  shows "fst v' = [] \<longleftrightarrow> fst v = [] \<and> (\<forall>x \<in> set xs. Q x)"
  using assms
proof (induction xs arbitrary: v)
  case (Cons x xs)
  from Cons.prems(1) obtain u where u: "f v x = Inr u" "foldR f u xs = Inr v'" by (auto simp: bindR_eq_Inr)
  with Cons.IH[OF u(2)] Cons.prems(2)[of x v u] Cons.prems(2) show ?case by auto
qed simp

definition sum_exposures ::
  "(target_row \<Rightarrow> string list) \<Rightarrow> exposures \<Rightarrow> target_row list \<Rightarrow> exposures" where
  "sum_exposures labels d rows =
     foldl (\<lambda>d r. foldl (add_exposure (amount (tr_target_weight r))) d (labels r)) d rows"

lemma add_exposures_dget:
  "dget (foldl (add_exposure w) d ls) s 0 = foldl (dadd prec) (dget d s 0) (map (\<lambda>_. w) (filter ((=) s) ls))"
  by (induction ls arbitrary: d) (simp_all add: add_exposure_def)

lemma sum_exposures_dget:
  "dget (sum_exposures labels d rows) s 0 = foldl (dadd prec) (dget d s 0)
     (concat (map (\<lambda>r. map (\<lambda>_. amount (tr_target_weight r)) (filter ((=) s) (labels r))) rows))"
  by (induction rows arbitrary: d) (simp_all add: sum_exposures_def add_exposures_dget)

lemma add_exposures_distinct:
  "distinct (map fst d) \<Longrightarrow> distinct (map fst (foldl (add_exposure w) d ls))"
  by (induction ls arbitrary: d) (simp_all add: add_exposure_def distinct_dset)

lemma sum_exposures_distinct:
  "distinct (map fst d) \<Longrightarrow> distinct (map fst (sum_exposures labels d rows))"
  by (induction rows arbitrary: d) (simp_all add: sum_exposures_def add_exposures_distinct)

lemma dget_all:
  assumes "distinct (map fst d)" and "0 \<le> (limit :: dec)"
  shows "(\<forall>(s, e) \<in> set d. e \<le> limit) \<longleftrightarrow> (\<forall>s. dget d s 0 \<le> limit)"
proof
  assume l: "\<forall>(s, e) \<in> set d. e \<le> limit"
  show "\<forall>s. dget d s 0 \<le> limit"
  proof
    fix s
    show "dget d s 0 \<le> limit"
      using l assms(2) map_of_SomeD[of d s] by (cases "map_of d s") (auto simp: dget_def)
  qed
next
  assume r: "\<forall>s. dget d s 0 \<le> limit"
  have "e \<le> limit" if "(s, e) \<in> set d" for s e
    using r[rule_format, of s] map_of_is_SomeI[OF assms(1) that] by (simp add: dget_def)
  then show "\<forall>(s, e) \<in> set d. e \<le> limit" by auto
qed

lemma sum_exposures_all:
  assumes "0 \<le> limit"
  shows "(\<forall>(s, e) \<in> set (sum_exposures labels [] rows). e \<le> limit) \<longleftrightarrow> (\<forall>s. exposure labels rows s \<le> limit)"
  using dget_all[OF sum_exposures_distinct[of "[]" labels rows] assms]
  by (simp add: sum_exposures_dget exposure_def dsum_def)

lemma check_group_clean:
  "fst (check_group name limit values v) = [] \<longleftrightarrow> fst v = [] \<and> (\<forall>(s, e) \<in> set values. e \<le> limit)"
proof -
  have "fst ((\<lambda>v (grp, e). if limit < e then append_reason (''max_'' @ name @ ''_exposure'')
      (Group_Exposure name grp e limit) v else v) v x) = [] \<longleftrightarrow> fst v = [] \<and> (case x of (s, e) \<Rightarrow> e \<le> limit)" for v x
    by (cases x) auto
  from foldl_clean[of _ "\<lambda>x. case x of (s, e) \<Rightarrow> e \<le> limit", OF this] show ?thesis
    unfolding check_group_def by simp
qed

lemma position_fold:
  assumes "foldR (position_step max_position prohibited) (v, g) rows = Inr (v', g')"
  shows "fst v' = [] \<longleftrightarrow> fst v = [] \<and> (\<forall>r \<in> set rows. amount (tr_target_weight r) \<le> max_position
      \<and> (0 < amount (tr_target_weight r) \<longrightarrow> tr_security_id r \<notin> set prohibited))"
    and "g' = \<lparr>g_sector = sum_exposures (\<lambda>r. [tr_sector r]) (g_sector g) rows,
      g_country = sum_exposures (\<lambda>r. [tr_country r]) (g_country g) rows,
      g_currency = sum_exposures (\<lambda>r. [tr_currency r]) (g_currency g) rows,
      g_theme = sum_exposures tr_themes (g_theme g) rows\<rparr>"
proof -
  have "(fst v' = [] \<longleftrightarrow> fst v = [] \<and> (\<forall>r \<in> set rows. amount (tr_target_weight r) \<le> max_position
      \<and> (0 < amount (tr_target_weight r) \<longrightarrow> tr_security_id r \<notin> set prohibited)))
    \<and> g' = \<lparr>g_sector = sum_exposures (\<lambda>r. [tr_sector r]) (g_sector g) rows,
      g_country = sum_exposures (\<lambda>r. [tr_country r]) (g_country g) rows,
      g_currency = sum_exposures (\<lambda>r. [tr_currency r]) (g_currency g) rows,
      g_theme = sum_exposures tr_themes (g_theme g) rows\<rparr>"
    using assms
  proof (induction rows arbitrary: v g)
    case Nil
    then show ?case by (simp add: sum_exposures_def)
  next
    case (Cons r rows)
    from Cons.prems obtain v1 g1 where step: "position_step max_position prohibited (v, g) r = Inr (v1, g1)"
      and rest: "foldR (position_step max_position prohibited) (v1, g1) rows = Inr (v', g')"
      by (auto simp: bindR_eq_Inr)
    from step have "fst v1 = [] \<longleftrightarrow> fst v = [] \<and> amount (tr_target_weight r) \<le> max_position
        \<and> (0 < amount (tr_target_weight r) \<longrightarrow> tr_security_id r \<notin> set prohibited)"
      and "g1 = \<lparr>g_sector = add_exposure (amount (tr_target_weight r)) (g_sector g) (tr_sector r),
        g_country = add_exposure (amount (tr_target_weight r)) (g_country g) (tr_country r),
        g_currency = add_exposure (amount (tr_target_weight r)) (g_currency g) (tr_currency r),
        g_theme = foldl (add_exposure (amount (tr_target_weight r))) (g_theme g) (tr_themes r)\<rparr>"
      by (auto simp: position_step_def bindR_eq_Inr Let_def not_less dest!: decimal_amount)
    with Cons.IH[OF rest] show ?case by (auto simp: sum_exposures_def)
  qed
  then show "fst v' = [] \<longleftrightarrow> fst v = [] \<and> (\<forall>r \<in> set rows. amount (tr_target_weight r) \<le> max_position
      \<and> (0 < amount (tr_target_weight r) \<longrightarrow> tr_security_id r \<notin> set prohibited))"
    and "g' = \<lparr>g_sector = sum_exposures (\<lambda>r. [tr_sector r]) (g_sector g) rows,
      g_country = sum_exposures (\<lambda>r. [tr_country r]) (g_country g) rows,
      g_currency = sum_exposures (\<lambda>r. [tr_currency r]) (g_currency g) rows,
      g_theme = sum_exposures tr_themes (g_theme g) rows\<rparr>" by blast+
qed

lemma check_groups_clean:
  assumes "check_groups policy g v = Inr v'"
    and "g = \<lparr>g_sector = sum_exposures (\<lambda>r. [tr_sector r]) [] rows,
      g_country = sum_exposures (\<lambda>r. [tr_country r]) [] rows,
      g_currency = sum_exposures (\<lambda>r. [tr_currency r]) [] rows,
      g_theme = sum_exposures tr_themes [] rows\<rparr>"
  shows "fst v' = [] \<longleftrightarrow> fst v = [] \<and> exposures_within (\<lambda>r. [tr_sector r]) rows (rp_max_sector_exposure policy)
       \<and> exposures_within (\<lambda>r. [tr_country r]) rows (rp_max_country_exposure policy)
       \<and> exposures_within (\<lambda>r. [tr_currency r]) rows (rp_max_currency_exposure policy)
       \<and> exposures_within tr_themes rows (rp_max_theme_exposure policy)"
proof -
  from assms have "v' = check_group ''theme'' (amount (rp_max_theme_exposure policy)) (sum_exposures tr_themes [] rows)
       (check_group ''currency'' (amount (rp_max_currency_exposure policy)) (sum_exposures (\<lambda>r. [tr_currency r]) [] rows)
       (check_group ''country'' (amount (rp_max_country_exposure policy)) (sum_exposures (\<lambda>r. [tr_country r]) [] rows)
       (check_group ''sector'' (amount (rp_max_sector_exposure policy)) (sum_exposures (\<lambda>r. [tr_sector r]) [] rows) v)))"
    by (auto simp: check_groups_def bindR_eq_Inr dest!: decimal_amount)
  then show ?thesis
    by (simp only: check_group_clean sum_exposures_all[OF amount_nonneg] exposures_within_def) blast
qed

lemma check_notional_clean:
  assumes "check_notional policy nav orders v = Inr v'"
  shows "fst v' = [] \<longleftrightarrow> fst v = []
    \<and> per_nav (dsum prec (map (\<lambda>y. amount (or_expected_notional_base y)) orders)) nav \<le> amount (rp_max_turnover policy)
    \<and> dsum prec (map (\<lambda>y. amount (or_expected_notional_base y)) orders) \<le> amount (rp_max_daily_notional policy)"
  using assms
  by (auto simp: check_notional_def bindR_eq_Inr Let_def not_less dest!: decimal_amount mapR_amount)

lemma check_cash_clean:
  assumes "check_cash policy nav values orders v = Inr v'"
  shows "fst v' = [] \<longleftrightarrow> fst v = [] \<and> dmul prec nav (amount (rp_minimum_cash_reserve policy))
    \<le> dadd prec (dsub prec (dsub prec nav (dsum prec values)) (dsum prec (map (\<lambda>y. amount (or_expected_cost_base y)) orders)))
         (max rounding_tolerance (dmul prec nav rounding_tolerance))"
  using assms
  by (auto simp: check_cash_def bindR_eq_Inr Let_def not_less dest!: decimal_amount mapR_amount)

lemma participation_step_clean:
  assumes "participation_step inp sess (amount (rp_max_participation (acc_risk_policy account))) v y = Inr v'"
  shows "fst v' = [] \<longleftrightarrow> fst v = [] \<and> order_within account inp sess y"
  using assms
  by (cases "price_row inp (or_security_id y) (s_session_date sess) (session_decision_at sess)")
    (auto simp: participation_step_def order_within_def bindR_eq_Inr not_less dest!: decimal_amount)

lemma gap_step_clean:
  assumes "gap_step inp sess previous (min (amount (rp_max_price_gap (acc_risk_policy account)))
      (amount (dp_max_price_gap (acc_decision_policy account)))) v r = Inr v'"
  shows "fst v' = [] \<longleftrightarrow> fst v = [] \<and> gap_within account inp sess previous (tr_security_id r)"
  using assms
  by (auto simp: gap_step_def gap_within_def bindR_eq_Inr Let_def ddiv_Inr_iff not_less
      split: option.splits)

lemma stale_step_clean:
  "fst (stale_step inp sessions sess (min (rp_max_stale_sessions (acc_risk_policy account))
      (dp_stale_after_sessions (acc_decision_policy account))) v s) = []
    \<longleftrightarrow> fst v = [] \<and> fresh_price account inp sessions sess s"
  by (auto simp: stale_step_def fresh_price_def Let_def not_less split: option.splits)

lemma check_drawdown_clean:
  assumes "check_drawdown policy peak nav v = Inr v'"
  shows "fst v' = [] \<longleftrightarrow> fst v = []
    \<and> (0 < peak \<longrightarrow> dquot prec (dsub prec peak nav) peak \<le> amount (rp_max_drawdown policy))"
  using assms
  by (cases "0 < peak") (auto simp: check_drawdown_def bindR_eq_Inr Let_def not_less dest!: decimal_amount)

lemma held_targets_set:
  assumes "held_targets rows = Inr held"
  shows "set held = tr_security_id ` {r \<in> set rows. 0 < amount (tr_target_quantity r)}"
proof -
  have "mapR (\<lambda>row. bindR (decimal_nn ''target.target_quantity'' (tr_target_quantity row)) (\<lambda>q.
       Inr (tr_security_id row, q))) rows = Inr qs
     \<Longrightarrow> qs = map (\<lambda>r. (tr_security_id r, amount (tr_target_quantity r))) rows" for qs
    by (induction rows arbitrary: qs) (auto simp: bindR_eq_Inr dest: decimal_amount)
  with assms show ?thesis by (fastforce simp: held_targets_def bindR_eq_Inr image_iff)
qed

definition verdict_ok :: "violations \<Rightarrow> bool" where
  "verdict_ok v \<longleftrightarrow> distinct (fst v) \<and> length (snd v) = length (fst v)"

lemma verdict_ok_append [simp, intro]: "verdict_ok v \<Longrightarrow> verdict_ok (append_reason c r v)"
  by (auto simp: verdict_ok_def append_reason_def)

lemma verdict_ok_foldl: "verdict_ok v \<Longrightarrow> (\<And>v x. verdict_ok v \<Longrightarrow> verdict_ok (f v x)) \<Longrightarrow> verdict_ok (foldl f v xs)"
  by (induction xs arbitrary: v) auto

lemma verdict_ok_steps:
  "position_step mp proh (v, g) r = Inr (v', g') \<Longrightarrow> verdict_ok v \<Longrightarrow> verdict_ok v'"
  "check_groups policy g v = Inr v' \<Longrightarrow> verdict_ok v \<Longrightarrow> verdict_ok v'"
  "check_notional policy nav orders v = Inr v' \<Longrightarrow> verdict_ok v \<Longrightarrow> verdict_ok v'"
  "check_cash policy nav values orders v = Inr v' \<Longrightarrow> verdict_ok v \<Longrightarrow> verdict_ok v'"
  "participation_step inp sess p v y = Inr v' \<Longrightarrow> verdict_ok v \<Longrightarrow> verdict_ok v'"
  "gap_step inp sess previous limit v r = Inr v' \<Longrightarrow> verdict_ok v \<Longrightarrow> verdict_ok v'"
  "check_drawdown policy peak nav v = Inr v' \<Longrightarrow> verdict_ok v \<Longrightarrow> verdict_ok v'"
  "verdict_ok v \<Longrightarrow> verdict_ok (stale_step inp sessions sess k v s)"
  "verdict_ok v \<Longrightarrow> verdict_ok (check_group name limit expos v)"
proof -
  show group: "verdict_ok v \<Longrightarrow> verdict_ok (check_group name limit expos v)" for v name limit expos
    unfolding check_group_def by (rule verdict_ok_foldl) auto
  show "check_groups policy g v = Inr v' \<Longrightarrow> verdict_ok v \<Longrightarrow> verdict_ok v'"
    by (auto simp: check_groups_def bindR_eq_Inr group)
qed (auto simp: position_step_def check_notional_def check_cash_def participation_step_def gap_step_def
    check_drawdown_def stale_step_def bindR_eq_Inr Let_def split: option.splits if_splits)

text \<open>The stages of the assessment, each with what it needs of the one before.\<close>

lemma assess_target_stages:
  assumes "assess_target env account inp sessions n st tgt orders = Inr v"
  obtains v0 v1 v2 v3 v4 v5 v6 v8 g held where "n < length sessions"
    and "v0 = (if amount (rp_max_gross_exposure (acc_risk_policy account))
        < per_nav (dsum prec (map (\<lambda>r. amount (tr_market_value_base r)) (tg_targets tgt))) (amount (tg_nav_base tgt))
      then append_reason ''max_gross_exposure'' (Gross_Exposure
        (per_nav (dsum prec (map (\<lambda>r. amount (tr_market_value_base r)) (tg_targets tgt))) (amount (tg_nav_base tgt)))
        (amount (rp_max_gross_exposure (acc_risk_policy account)))) ([], []) else ([], []))"
    and "foldR (position_step (amount (rp_max_position_weight (acc_risk_policy account)))
      (rp_prohibited_security_ids (acc_risk_policy account))) (v0, no_groups) (tg_targets tgt) = Inr (v1, g)"
    and "check_groups (acc_risk_policy account) g v1 = Inr v2"
    and "check_notional (acc_risk_policy account) (amount (tg_nav_base tgt)) orders v2 = Inr v3"
    and "check_cash (acc_risk_policy account) (amount (tg_nav_base tgt))
      (map (\<lambda>r. amount (tr_market_value_base r)) (tg_targets tgt)) orders v3 = Inr v4"
    and "foldR (participation_step inp (sessions ! n) (amount (rp_max_participation (acc_risk_policy account)))) v4 orders = Inr v5"
    and "check_gaps account inp sessions n (sessions ! n) (tg_targets tgt) v5 = Inr v6"
    and "held_targets (tg_targets tgt) = Inr held"
    and "check_drawdown (acc_risk_policy account) (ps_peak_nav_base st) (amount (tg_nav_base tgt))
      (foldl (stale_step inp sessions (sessions ! n) (min (rp_max_stale_sessions (acc_risk_policy account))
        (dp_stale_after_sessions (acc_decision_policy account)))) v6 (env_set_order env held)) = Inr v8"
    and "v = \<lparr>rv_status = (if fst v8 = [] then ''approved'' else ''rejected''),
          rv_policy_version = rp_version (acc_risk_policy account), rv_codes = fst v8, rv_reasons = snd v8,
          rv_checked_at = timestamp (session_decision_at (sessions ! n))\<rparr>"
proof -
  from assms have n: "n < length sessions"
    by (auto simp: assess_target_def session_at_def split: if_splits)
  then have "session_at sessions n = Inr (sessions ! n)" by (simp add: session_at_def)
  with assms show thesis
    unfolding assess_target_def Let_def
    apply (simp only: bindR_Inr)
    apply (elim bindR_InrE)
    apply (simp only: prod.case_eq_if)
    apply (elim bindR_InrE)
    apply (drule decimal_amount | drule mapR_amount)+
    apply (simp only: sum.inject)
    apply (rule that[OF n refl])
    apply (auto simp: prod.case_eq_if)
    done
qed

lemma check_gaps_clean:
  assumes "check_gaps account inp sessions n sess rows v = Inr v'"
  shows "fst v' = [] \<longleftrightarrow> fst v = []
    \<and> (0 < n \<longrightarrow> (\<forall>r \<in> set rows. gap_within account inp sess (sessions ! (n - 1)) (tr_security_id r)))"
    and "verdict_ok v \<Longrightarrow> verdict_ok v'"
proof -
  let ?limit = "min (amount (rp_max_price_gap (acc_risk_policy account))) (amount (dp_max_price_gap (acc_decision_policy account)))"
  from assms have cases: "0 < n \<and> foldR (gap_step inp sess (sessions ! (n - 1)) ?limit) v rows = Inr v' \<or> n = 0 \<and> v' = v"
    by (auto simp: check_gaps_def bindR_eq_Inr dest!: decimal_amount split: if_splits)
  show "fst v' = [] \<longleftrightarrow> fst v = []
    \<and> (0 < n \<longrightarrow> (\<forall>r \<in> set rows. gap_within account inp sess (sessions ! (n - 1)) (tr_security_id r)))"
    using cases
  proof
    assume f: "0 < n \<and> foldR (gap_step inp sess (sessions ! (n - 1)) ?limit) v rows = Inr v'"
    then have "fst v' = [] \<longleftrightarrow> fst v = []
        \<and> (\<forall>r \<in> set rows. gap_within account inp sess (sessions ! (n - 1)) (tr_security_id r))"
      by (intro foldR_clean[OF conjunct2[OF f]]) (rule gap_step_clean)
    with f show ?thesis by simp
  qed simp
  show "verdict_ok v' " if "verdict_ok v"
    using cases that foldR_invariant[of "gap_step inp sess (sessions ! (n - 1)) ?limit" v rows v' verdict_ok]
      verdict_ok_steps(6) by blast
qed

text \<open>
  (C2) The risk check is exact: a target is approved if and only if every limit of the account holds, the
  exposure limits for every sector, country, currency and theme, and otherwise it is rejected with
  a list of distinct codes, one reason each. No combination of limits lets a violation through, and
  no target within its limits is refused.
\<close>

theorem risk_approval_exact:
  assumes "assess_target env account inp sessions n st tgt orders = Inr v"
    and "\<And>xs. set (env_set_order env xs) = set xs"
  shows "(rv_status v = ''approved'' \<longleftrightarrow> within_limits account inp sessions n st tgt orders)
    \<and> (rv_status v = (if rv_codes v = [] then ''approved'' else ''rejected''))
    \<and> distinct (rv_codes v) \<and> length (rv_reasons v) = length (rv_codes v)"
proof -
  let ?policy = "acc_risk_policy account" and ?sess = "sessions ! n"
  from assms(1) obtain v0 v1 v2 v3 v4 v5 v6 v8 g held where v0: "v0 = (if amount (rp_max_gross_exposure ?policy)
        < per_nav (dsum prec (map (\<lambda>r. amount (tr_market_value_base r)) (tg_targets tgt))) (amount (tg_nav_base tgt))
      then append_reason ''max_gross_exposure'' (Gross_Exposure
        (per_nav (dsum prec (map (\<lambda>r. amount (tr_market_value_base r)) (tg_targets tgt))) (amount (tg_nav_base tgt)))
        (amount (rp_max_gross_exposure ?policy))) ([], []) else ([], []))"
    and v1: "foldR (position_step (amount (rp_max_position_weight ?policy))
      (rp_prohibited_security_ids ?policy)) (v0, no_groups) (tg_targets tgt) = Inr (v1, g)"
    and v2: "check_groups ?policy g v1 = Inr v2"
    and v3: "check_notional ?policy (amount (tg_nav_base tgt)) orders v2 = Inr v3"
    and v4: "check_cash ?policy (amount (tg_nav_base tgt))
      (map (\<lambda>r. amount (tr_market_value_base r)) (tg_targets tgt)) orders v3 = Inr v4"
    and v5: "foldR (participation_step inp ?sess (amount (rp_max_participation ?policy))) v4 orders = Inr v5"
    and v6: "check_gaps account inp sessions n ?sess (tg_targets tgt) v5 = Inr v6"
    and held: "held_targets (tg_targets tgt) = Inr held"
    and v8: "check_drawdown ?policy (ps_peak_nav_base st) (amount (tg_nav_base tgt))
      (foldl (stale_step inp sessions ?sess (min (rp_max_stale_sessions ?policy)
        (dp_stale_after_sessions (acc_decision_policy account)))) v6 (env_set_order env held)) = Inr v8"
    and v: "v = \<lparr>rv_status = (if fst v8 = [] then ''approved'' else ''rejected''),
          rv_policy_version = rp_version ?policy, rv_codes = fst v8, rv_reasons = snd v8,
          rv_checked_at = timestamp (session_decision_at ?sess)\<rparr>"
    by (rule assess_target_stages)
  have c5: "fst v5 = [] \<longleftrightarrow> fst v4 = [] \<and> (\<forall>y \<in> set orders. order_within account inp ?sess y)"
    by (rule foldR_clean[OF v5]) (rule participation_step_clean)
  have stale: "fst (foldl (stale_step inp sessions ?sess (min (rp_max_stale_sessions ?policy)
        (dp_stale_after_sessions (acc_decision_policy account)))) v6 (env_set_order env held)) = []
      \<longleftrightarrow> fst v6 = [] \<and> (\<forall>s \<in> set held. fresh_price account inp sessions ?sess s)"
    unfolding assms(2)[of held, symmetric] by (rule foldl_clean) (rule stale_step_clean)
  have fresh: "(\<forall>s \<in> set held. fresh_price account inp sessions ?sess s) \<longleftrightarrow>
      (\<forall>r \<in> set (tg_targets tgt). 0 < amount (tr_target_quantity r) \<longrightarrow>
        fresh_price account inp sessions ?sess (tr_security_id r))"
    unfolding held_targets_set[OF held] by auto
  have g: "g = \<lparr>g_sector = sum_exposures (\<lambda>r. [tr_sector r]) [] (tg_targets tgt),
      g_country = sum_exposures (\<lambda>r. [tr_country r]) [] (tg_targets tgt),
      g_currency = sum_exposures (\<lambda>r. [tr_currency r]) [] (tg_targets tgt),
      g_theme = sum_exposures tr_themes [] (tg_targets tgt)\<rparr>"
    using position_fold(2)[OF v1] by (simp add: no_groups_def)
  have c0: "fst v0 = [] \<longleftrightarrow> per_nav (dsum prec (map (\<lambda>r. amount (tr_market_value_base r)) (tg_targets tgt)))
      (amount (tg_nav_base tgt)) \<le> amount (rp_max_gross_exposure ?policy)"
    unfolding v0 by (simp add: not_less)
  have approved: "rv_status v = ''approved'' \<longleftrightarrow> fst v8 = []" by (simp add: v)
  have exact: "rv_status v = ''approved'' \<longleftrightarrow> within_limits account inp sessions n st tgt orders"
    unfolding approved check_drawdown_clean[OF v8] stale fresh check_gaps_clean(1)[OF v6] c5
      check_cash_clean[OF v4] check_notional_clean[OF v3] check_groups_clean[OF v2 g] position_fold(1)[OF v1] c0
      within_limits_def Let_def
    by (simp only: conj_assoc)
  have ok0: "verdict_ok v0" unfolding v0 by (simp add: verdict_ok_def append_reason_def)
  have ok1: "verdict_ok (fst (v1, g))"
  proof (rule foldR_invariant[OF v1, of "\<lambda>x. verdict_ok (fst x)"])
    fix s x t
    assume "verdict_ok (fst s)" and "position_step (amount (rp_max_position_weight ?policy))
      (rp_prohibited_security_ids ?policy) s x = Inr t"
    then show "verdict_ok (fst t)"
      using verdict_ok_steps(1)[of _ _ "fst s" "snd s" x "fst t" "snd t"] by (simp only: prod.collapse)
  qed (use ok0 in simp)
  have ok4: "verdict_ok v4" using ok1 verdict_ok_steps(2)[OF v2] verdict_ok_steps(3)[OF v3] verdict_ok_steps(4)[OF v4] by simp
  have ok5: "verdict_ok v5" by (rule foldR_invariant[OF v5, of verdict_ok, OF ok4]) (rule verdict_ok_steps(5))
  have "verdict_ok v8"
    by (rule verdict_ok_steps(7)[OF v8], rule verdict_ok_foldl) (use check_gaps_clean(2)[OF v6 ok5] verdict_ok_steps(8) in auto)
  then have "distinct (rv_codes v)" "length (rv_reasons v) = length (rv_codes v)"
    by (simp_all add: v verdict_ok_def)
  with exact show ?thesis by (simp add: v)
qed

text \<open>The stale check reports one reason, and which one depends on the order of a set.\<close>

lemma stale_fold_codes:
  "fst (foldl (stale_step inp sessions sess k) v xs) =
     fst v @ (if ''stale_data'' \<notin> set (fst v) \<and> (\<exists>s \<in> set xs. fst (stale_step inp sessions sess k ([], []) s) \<noteq> [])
              then [''stale_data''] else [])"
proof (induction xs arbitrary: v)
  case (Cons s xs)
  have "fst (stale_step inp sessions sess k v s) =
      fst v @ (if ''stale_data'' \<notin> set (fst v) \<and> fst (stale_step inp sessions sess k ([], []) s) \<noteq> []
               then [''stale_data''] else [])"
    by (auto simp: stale_step_def append_reason_def Let_def split: option.split)
  with Cons show ?case by auto
qed simp

lemma check_drawdown_codes:
  assumes "check_drawdown policy peak nav v = Inr r" and "fst v = fst w"
  shows "\<exists>r'. check_drawdown policy peak nav w = Inr r' \<and> fst r' = fst r"
proof -
  obtain c a b where v: "v = (c, a)" and w: "w = (c, b)" using assms(2) by (cases v; cases w) auto
  show ?thesis
  proof (cases "decimal_nn ''risk.max_drawdown'' (rp_max_drawdown policy)")
    case (Inr q)
    with assms(1) show ?thesis
      by (cases "0 < peak") (auto simp: check_drawdown_def append_reason_def Let_def v w)
  qed (use assms(1) in \<open>auto simp: check_drawdown_def v w split: if_splits\<close>)
qed

lemma assess_set_order:
  assumes "check_drawdown policy peak nav (foldl (stale_step inp sessions sess k) v xs) = Inr r"
    and "set ys = set xs"
  shows "\<exists>r'. check_drawdown policy peak nav (foldl (stale_step inp sessions sess k) v ys) = Inr r' \<and> fst r' = fst r"
  using assms by (intro check_drawdown_codes[OF assms(1)]) (simp add: stale_fold_codes)

text \<open>
  (C19) Two runs of the check under different hash seeds agree on the status and on the codes, although the
  code walks over a set of strings and may quote another security as the reason for stale data.
\<close>

theorem risk_codes_order_independent:
  assumes "assess_target env account inp sessions n st tgt orders = Inr v"
    and "\<And>xs. set (env_set_order env xs) = set xs" and "\<And>xs. set (order' xs) = set xs"
  shows "\<exists>v'. assess_target (env\<lparr>env_set_order := order'\<rparr>) account inp sessions n st tgt orders = Inr v'
    \<and> rv_status v' = rv_status v \<and> rv_codes v' = rv_codes v"
proof -
  have env: "env_set_order (env\<lparr>env_set_order := order'\<rparr>) = order'" by simp
  from assms(1) show ?thesis
    unfolding assess_target_def Let_def env
    apply (elim bindR_InrE)
    apply (simp only: prod.case_eq_if)
    apply (elim bindR_InrE)
    apply (drule assess_set_order)
     apply (rule trans[OF assms(3) assms(2)[symmetric]])
    apply (elim exE conjE)
    apply (simp only: bindR_Inr prod.case_eq_if sum.inject)
    apply (rule exI, rule conjI, rule refl)
    apply auto
    done
qed

end
