(* ===== verification/Construction.thy ===== *)
theory Construction
  imports Risk
begin

text \<open>
  How construction and the risk check fit together: the documents that \<open>build_target\<close> and
  \<open>target_orders\<close> publish are documents that \<open>assess_target\<close> can read, so for a validated account and
  loaded inputs the risk check always reaches a verdict.
\<close>

section \<open>Readable documents\<close>

definition readable :: "string \<Rightarrow> bool" where
  "readable s \<longleftrightarrow> (\<exists>q. parse_unsigned s = Some q \<and> 0 \<le> q)"

lemma readable_amount [simp]: "readable s \<Longrightarrow> decimal_nn f s = Inr (amount s)"
  by (auto simp: readable_def decimal_nn_iff amount_def)

lemma readable_string [simp]: "is_decimal q \<Longrightarrow> 0 \<le> q \<Longrightarrow> readable (decimal_string q)"
  by (simp add: readable_def)

lemma limit_ok_readable: "limit_ok fraction s \<Longrightarrow> readable s"
  by (auto simp: limit_ok_def)

lemma risk_ok_readable:
  assumes "risk_ok r"
  shows "readable (rp_max_gross_exposure r)" "readable (rp_max_position_weight r)" "readable (rp_max_sector_exposure r)"
    "readable (rp_max_country_exposure r)" "readable (rp_max_currency_exposure r)" "readable (rp_max_theme_exposure r)"
    "readable (rp_minimum_cash_reserve r)" "readable (rp_max_participation r)" "readable (rp_max_drawdown r)"
    "readable (rp_max_turnover r)" "readable (rp_max_daily_notional r)" "readable (rp_max_price_gap r)"
  using assms by (auto simp: risk_ok_def intro: limit_ok_readable)

lemma canonical_readable: "canonical_decimal True p s \<Longrightarrow> readable s"
  by (auto simp: canonical_decimal_def)

definition readable_row :: "target_row \<Rightarrow> bool" where
  "readable_row r \<longleftrightarrow> readable (tr_market_value_base r) \<and> readable (tr_target_weight r) \<and> readable (tr_target_quantity r)"

definition readable_order :: "order \<Rightarrow> bool" where
  "readable_order y \<longleftrightarrow> readable (or_quantity y) \<and> readable (or_expected_notional_base y)
     \<and> readable (or_expected_cost_base y)"

lemma mapR_readable: "(\<And>x. x \<in> set xs \<Longrightarrow> readable (g x)) \<Longrightarrow>
    mapR (\<lambda>x. decimal_nn (f x) (g x)) xs = Inr (map (\<lambda>x. amount (g x)) xs)"
  by (induction xs) simp_all

section \<open>The check reaches a verdict\<close>

lemma position_step_total: "readable_row r \<Longrightarrow> \<exists>t. position_step m p s r = Inr t"
  by (cases s) (simp add: position_step_def readable_row_def Let_def)

lemma participation_step_total: "readable_order y \<Longrightarrow> \<exists>t. participation_step inp sess m v y = Inr t"
  by (simp add: participation_step_def readable_order_def split: option.split)

lemma gap_step_total: "positive_closes inp \<Longrightarrow> \<exists>t. gap_step inp sess prev limit v r = Inr t"
  by (auto simp: gap_step_def ddiv_def Let_def dest!: price_row_close split: option.split)

lemma check_groups_total: "risk_ok policy \<Longrightarrow> \<exists>t. check_groups policy g v = Inr t"
  by (simp add: check_groups_def risk_ok_readable)

lemma check_notional_total: "risk_ok policy \<Longrightarrow> list_all readable_order os \<Longrightarrow> \<exists>t. check_notional policy nav os v = Inr t"
  by (simp add: check_notional_def risk_ok_readable list_all_iff readable_order_def mapR_readable Let_def)

lemma check_cash_total: "risk_ok policy \<Longrightarrow> list_all readable_order os \<Longrightarrow> \<exists>t. check_cash policy nav vs os v = Inr t"
  by (simp add: check_cash_def risk_ok_readable list_all_iff readable_order_def mapR_readable Let_def)

lemma check_gaps_total:
  assumes "risk_ok (acc_risk_policy account)" "readable (dp_max_price_gap (acc_decision_policy account))" "positive_closes inp"
  shows "\<exists>t. check_gaps account inp sessions n sess rows v = Inr t"
proof -
  have "\<exists>t. foldR (gap_step inp sess p limit) v rows = Inr t" for p limit
    using foldR_total[of "\<lambda>_. True" v rows "gap_step inp sess p limit"] gap_step_total[OF assms(3)] by auto
  then show ?thesis using assms(1,2) by (simp add: check_gaps_def risk_ok_readable)
qed

lemma held_targets_total:
  assumes "list_all readable_row rows"
  shows "\<exists>held. held_targets rows = Inr held"
proof -
  have "\<exists>qs. mapR (\<lambda>row. bindR (decimal_nn ''target.target_quantity'' (tr_target_quantity row))
      (\<lambda>q. Inr (tr_security_id row, q))) rows = Inr qs"
    using assms by (intro mapR_total) (auto simp: list_all_iff readable_row_def)
  then show ?thesis by (auto simp: held_targets_def)
qed

lemma check_drawdown_total: "risk_ok policy \<Longrightarrow> \<exists>t. check_drawdown policy peak nav v = Inr t"
  by (simp add: check_drawdown_def risk_ok_readable Let_def)

lemma assess_total:
  assumes n: "n < length sessions" and risk: "risk_ok (acc_risk_policy account)"
    and gap: "readable (dp_max_price_gap (acc_decision_policy account))" and pos: "positive_closes inp"
    and nav: "readable (tg_nav_base tgt)" and rows: "list_all readable_row (tg_targets tgt)"
    and orders: "list_all readable_order os"
  shows "\<exists>v. assess_target env account inp sessions n st tgt os = Inr v"
proof -
  let ?p = "acc_risk_policy account" and ?s = "sessions ! n"
  have vals: "mapR (\<lambda>row. decimal_nn ''target.market_value_base'' (tr_market_value_base row)) (tg_targets tgt)
      = Inr (map (\<lambda>r. amount (tr_market_value_base r)) (tg_targets tgt))"
    using rows by (intro mapR_readable) (simp add: list_all_iff readable_row_def)
  have limits: "readable (rp_max_gross_exposure ?p)" "readable (rp_max_position_weight ?p)" "readable (rp_max_participation ?p)"
    using risk by (simp_all add: risk_ok_readable)
  have pos_step: "\<exists>t. foldR (position_step m p) s (tg_targets tgt) = Inr t" for m p s
    using foldR_total[of "\<lambda>_. True" s "tg_targets tgt" "position_step m p"] rows position_step_total
    by (auto simp: list_all_iff)
  have part: "\<exists>t. foldR (participation_step inp sess m) v os = Inr t" for sess m v
    using foldR_total[of "\<lambda>_. True" v os "participation_step inp sess m"] orders participation_step_total
    by (auto simp: list_all_iff)
  let ?v0 = "if amount (rp_max_gross_exposure ?p)
        < per_nav (dsum prec (map (\<lambda>r. amount (tr_market_value_base r)) (tg_targets tgt))) (amount (tg_nav_base tgt))
      then append_reason ''max_gross_exposure'' (Gross_Exposure
        (per_nav (dsum prec (map (\<lambda>r. amount (tr_market_value_base r)) (tg_targets tgt))) (amount (tg_nav_base tgt)))
        (amount (rp_max_gross_exposure ?p))) ([], []) else ([], [])"
  obtain v1 g where v1: "foldR (position_step (amount (rp_max_position_weight ?p)) (rp_prohibited_security_ids ?p))
      (?v0, no_groups) (tg_targets tgt) = Inr (v1, g)" using pos_step by fastforce
  obtain v2 where v2: "check_groups ?p g v1 = Inr v2" using check_groups_total[OF risk] by blast
  obtain v3 where v3: "check_notional ?p (amount (tg_nav_base tgt)) os v2 = Inr v3"
    using check_notional_total[OF risk orders] by blast
  obtain v4 where v4: "check_cash ?p (amount (tg_nav_base tgt))
      (map (\<lambda>r. amount (tr_market_value_base r)) (tg_targets tgt)) os v3 = Inr v4"
    using check_cash_total[OF risk orders] by blast
  obtain v5 where v5: "foldR (participation_step inp ?s (amount (rp_max_participation ?p))) v4 os = Inr v5"
    using part by blast
  obtain v6 where v6: "check_gaps account inp sessions n ?s (tg_targets tgt) v5 = Inr v6"
    using check_gaps_total[OF risk gap pos] by blast
  obtain held where held: "held_targets (tg_targets tgt) = Inr held" using held_targets_total[OF rows] by blast
  obtain v8 where v8: "check_drawdown ?p (ps_peak_nav_base st) (amount (tg_nav_base tgt))
      (foldl (stale_step inp sessions ?s (min (rp_max_stale_sessions ?p)
        (dp_stale_after_sessions (acc_decision_policy account)))) v6 (env_set_order env held)) = Inr v8"
    using check_drawdown_total[OF risk] by blast
  show ?thesis
    using n nav limits
    by (simp add: assess_target_def session_at_def vals v1 v2 v3 v4 v5 v6 held v8 Let_def del: split_paired_Ex)
qed

section \<open>Construction writes readable documents\<close>

lemma build_target_readable:
  assumes "wf_inputs inp" "amounts (ps_quantities st)" "is_decimal (ps_nav_base st)"
    and "build_target env account inp sessions n st revision given = Inr tgt"
  shows "n < length sessions \<and> readable (tg_nav_base tgt) \<and> list_all readable_row (tg_targets tgt)"
proof -
  from assms(4) have n: "n < length sessions" and nav: "0 < ps_nav_base st" "tg_nav_base tgt = decimal_string (ps_nav_base st)"
    by (auto elim: build_target_parts)
  have "readable_row r" if "r \<in> set (tg_targets tgt)" for r
    using bspec[OF build_target_priced[OF assms(1,2,4)] that] nav(1)
    by (auto simp: readable_row_def dquot_nonneg)
  with n nav assms(3) show ?thesis by (simp add: list_all_iff)
qed

lemma is_decimal_abs: "is_decimal d \<Longrightarrow> is_decimal \<bar>d\<bar>"
  by (simp add: abs_if)

lemma order_for_priced:
  assumes "order_for env account inp sess execution tgt st tq k = Inr ys" and "y \<in> set ys"
  shows "\<exists>d row v c. or_quantity y = decimal_string \<bar>d\<bar> \<and> is_decimal d
    \<and> or_expected_notional_base y = decimal_string v \<and> or_expected_cost_base y = decimal_string c
    \<and> price_row inp k (s_session_date sess) (session_decision_at sess) = Some row
    \<and> convert inp (dmul prec \<bar>d\<bar> (p_close row)) (p_currency row) (acc_base_currency account) (session_decision_at sess) = Inr v
    \<and> costs account v = Inr c"
proof -
  let ?d = "dsub prec (dget tq k 0) (dget (ps_quantities st) k 0)"
  from assms obtain row v c where
    row: "price_row inp k (s_session_date sess) (session_decision_at sess) = Some row"
    and v: "convert inp (dmul prec (dabs prec ?d) (p_close row)) (p_currency row) (acc_base_currency account)
      (session_decision_at sess) = Inr v"
    and c: "costs account v = Inr c" and y: "or_quantity y = decimal_string (dabs prec ?d)"
      "or_expected_notional_base y = decimal_string v" "or_expected_cost_base y = decimal_string c"
    by (auto simp: order_for_def Let_def bindR_eq_Inr split: if_splits option.splits)
  then show ?thesis by (intro exI[of _ ?d] exI[of _ row] exI[of _ v] exI[of _ c]) (simp add: dabs_dsub)
qed

lemma target_orders_readable:
  assumes "wf_inputs inp" and "target_orders env account inp sessions n tgt st = Inr os"
  shows "list_all readable_order os"
proof (cases "length sessions \<le> n + 1")
  case False
  with assms(2) obtain execution tq oss where
    oss: "mapR (order_for env account inp (sessions ! n) execution tgt st tq) (order_candidates tq st) = Inr oss"
    and os: "os = concat oss"
    by (auto simp: target_orders_def Let_def bindR_eq_Inr)
  have "readable_order y" if "y \<in> set os" for y
  proof -
    from that oss obtain k ys where k: "order_for env account inp (sessions ! n) execution tgt st tq k = Inr ys" "y \<in> set ys"
      unfolding os by (metis in_set_conv_nth mapR_rows_mem)
    from order_for_priced[OF k] obtain d row v c where d: "is_decimal d" and y: "or_quantity y = decimal_string \<bar>d\<bar>"
        "or_expected_notional_base y = decimal_string v" "or_expected_cost_base y = decimal_string c"
      and row: "price_row inp k (s_session_date (sessions ! n)) (session_decision_at (sessions ! n)) = Some row"
      and v: "convert inp (dmul prec \<bar>d\<bar> (p_close row)) (p_currency row) (acc_base_currency account)
        (session_decision_at (sessions ! n)) = Inr v" and c: "costs account v = Inr c"
      by blast
    have "0 \<le> v"
      using convert_nonneg[OF wf_positive_rates[OF assms(1)] v] price_row_close[OF wf_positive_closes[OF assms(1)] row]
      by (simp add: dmul_nonneg)
    with costs_nonneg[OF c] costs_is_decimal[OF c] convert_is_decimal[OF v] show ?thesis
      by (simp add: readable_order_def y d is_decimal_abs)
  qed
  then show ?thesis by (simp add: list_all_iff)
qed (use assms(2) in \<open>simp add: target_orders_def\<close>)

text \<open>
  (C11) The risk check is total on what construction publishes: for a validated account, loaded inputs
  and a ledger state with non-negative holdings, every target and its orders get a verdict; the
  check cannot raise, so a session never dies between construction and approval.
\<close>

theorem risk_check_total:
  assumes "wf_inputs inp" and "account_ok account" and "amounts (ps_quantities st)" and "is_decimal (ps_nav_base st)"
    and "build_target env account inp sessions n st revision given = Inr tgt"
    and "target_orders env account inp sessions n tgt st = Inr os"
  shows "\<exists>v. assess_target env account inp sessions n st tgt os = Inr v"
proof -
  from build_target_readable[OF assms(1,3,4,5)] target_orders_readable[OF assms(1,6)] assms(2) show ?thesis
    by (intro assess_total) (auto simp: account_ok_def wf_positive_closes[OF assms(1)] intro: canonical_readable)
qed

end
