(* ===== verification/Input_Documents.thy ===== *)
theory Input_Documents
  imports Inputs
begin

text \<open>
  The documents that hold well-formed rows, written the way a producer of input artifacts writes them,
  and the proof that the loader reads each of them back unchanged: what the loader refuses is not
  well formed. The specification of a row here is what \<open>wf_inputs\<close> promises to the engines.
\<close>

section \<open>Documents of rows\<close>

definition price_doc :: "price_row \<Rightarrow> json" where
  "price_doc r = JObj ([(''security_id'', JStr (p_security_id r)), (''session_date'', JStr (isoformat (p_session_date r))),
     (''observed_at'', JStr (timestamp (p_observed_at r))), (''available_at'', JStr (timestamp (p_available_at r))),
     (''currency'', JStr (p_currency r)), (''price_basis'', JStr (p_price_basis r)),
     (''open'', JStr (decimal_string (p_open r))), (''high'', JStr (decimal_string (p_high r))),
     (''low'', JStr (decimal_string (p_low r))), (''close'', JStr (decimal_string (p_close r))),
     (''volume'', JStr (decimal_string (p_volume r))), (''has_volume'', JBool (p_has_volume r))]
     @ (case p_source_record_id r of None \<Rightarrow> [] | Some s \<Rightarrow> [(''source_record_id'', JStr s)]))"

definition session_doc :: "session \<Rightarrow> json" where
  "session_doc s = JObj [(''session_date'', JStr (isoformat (s_session_date s))),
     (''open_at'', JStr (timestamp (s_open_at s))), (''close_at'', JStr (timestamp (s_close_at s))),
     (''available_at'', JStr (timestamp (s_available_at s))), (''session_status'', JStr (s_status s))]"

definition membership_doc :: "membership_row \<Rightarrow> json" where
  "membership_doc r = JObj [(''security_id'', JStr (m_security_id r)),
     (''valid_from'', JStr (isoformat (m_valid_from r))),
     (''valid_until'', case m_valid_until r of None \<Rightarrow> JNull | Some d \<Rightarrow> JStr (isoformat d)),
     (''member'', JBool (m_member r)), (''available_at'', JStr (timestamp (m_available_at r))),
     (''revision'', JInt (m_revision r))]"

text \<open>What a document can express: valid clocks and finite decimals.\<close>

definition price_writable :: "price_row \<Rightarrow> bool" where
  "price_writable r \<longleftrightarrow> price_row_ok r \<and> valid_datetime (p_observed_at r) \<and> valid_datetime (p_available_at r)
     \<and> is_decimal (p_open r) \<and> is_decimal (p_high r) \<and> is_decimal (p_low r) \<and> is_decimal (p_close r)
     \<and> is_decimal (p_volume r) \<and> p_source_record_id r \<noteq> Some []"

definition session_writable :: "session \<Rightarrow> bool" where
  "session_writable s \<longleftrightarrow> session_ok s \<and> valid_datetime (s_open_at s) \<and> valid_datetime (s_close_at s)
     \<and> valid_datetime (s_available_at s) \<and> s_status s \<in> {''open'', ''early_close''}"

definition membership_writable :: "membership_row \<Rightarrow> bool" where
  "membership_writable r \<longleftrightarrow> membership_ok r \<and> valid_datetime (m_available_at r)
     \<and> (\<forall>u. m_valid_until r = Some u \<longrightarrow> valid_date u)"

section \<open>The loader reads them back\<close>

lemma parse_utc_timestamp [simp]: "valid_datetime t \<Longrightarrow> parse_utc f (JStr (timestamp t)) = Inr t"
  by (simp add: parse_utc_def)

lemma parse_date_field_isoformat [simp]: "valid_date d \<Longrightarrow> parse_date_field f (JStr (isoformat d)) = Inr d"
  by (simp add: parse_date_field_def)

lemma decimal_field_string [simp]:
  "is_decimal q \<Longrightarrow> 0 \<le> q \<Longrightarrow> (p \<Longrightarrow> 0 < q) \<Longrightarrow> decimal_field True p f (JStr (decimal_string q)) = Inr q"
  by (auto simp: decimal_field_def)

lemma check_field_strings [simp]:
  "is_uuid s \<Longrightarrow> check_uuid c f (JStr s) = Inr s" "is_currency s \<Longrightarrow> check_currency c f (JStr s) = Inr s"
  by (simp_all add: check_uuid_Inr_iff check_currency_Inr_iff)

lemmas row_lookup = row_fields_def has_keys_def jkeys_def jget_def

lemma price_step_doc:
  assumes "price_writable r" and "p_price_basis r \<in> set allowed" and "price_key r \<notin> set (map price_key acc)"
  shows "price_step allowed acc (i, price_doc r) = Inr (acc @ [r])"
proof -
  note w = assms(1)[unfolded price_writable_def price_row_ok_def]
  have pos: "0 < p_high r" "0 \<le> p_open r" "0 \<le> p_low r" "0 \<le> p_close r" "0 \<le> p_high r"
    using w by auto
  have key: "(p_security_id r, p_session_date r) \<notin> price_key ` set acc"
    using assms(3) by (simp add: price_key_def)
  have basis: "price_basis_field allowed i (JStr (p_price_basis r)) = Inr (p_price_basis r)"
    using assms(2) by (simp add: price_basis_field_def)
  show ?thesis
    using w pos key basis
    by (cases "p_source_record_id r")
      (simp_all add: price_step_def price_doc_def price_fields_def row_lookup price_quotes_def Let_def
        source_record_field_def bool_field_def not_less bindR_ensure)
qed

lemma calendar_step_doc:
  assumes "session_writable s" and "s_session_date s \<notin> set (map s_session_date acc)"
  shows "calendar_step acc (i, session_doc s) = Inr (acc @ [s])"
  using assms
  by (auto simp: calendar_step_def session_doc_def calendar_fields_def row_lookup session_writable_def session_ok_def
      bindR_ensure)

lemma membership_step_doc:
  assumes "membership_writable r" and "membership_key r \<notin> set (map membership_key acc)"
  shows "membership_step acc (i, membership_doc r) = Inr (acc @ [r])"
  using assms
  by (cases "m_valid_until r")
    (auto simp: membership_step_def membership_doc_def membership_fields_def row_lookup membership_writable_def
      membership_ok_def membership_key_def optional_field_def bool_field_def revision_field_def bindR_ensure)

text \<open>A loop over documents whose step appends the row of each.\<close>

lemma fold_docs:
  assumes "\<And>acc i r. r \<in> set rs \<Longrightarrow> key r \<notin> set (map key acc) \<Longrightarrow> step acc (i, doc r) = Inr (acc @ [r])"
    and "distinct (map key (acc @ rs))"
  shows "foldR step acc (enumerate n (map doc rs)) = Inr (acc @ rs)"
  using assms
proof (induction rs arbitrary: acc n)
  case (Cons r rs)
  have "step acc (n, doc r) = Inr (acc @ [r])" using Cons.prems by auto
  with Cons.IH[of "acc @ [r]" "Suc n"] Cons.prems show ?case by simp
qed simp

lemma price_rows_doc:
  assumes "\<forall>r \<in> set rs. price_writable r \<and> p_price_basis r = b" and "b \<in> set allowed"
    and "distinct (map price_key rs)"
  shows "price_rows allowed (map price_doc rs) = Inr (sort_key (\<lambda>r. (p_session_date r, p_security_id r)) rs)"
proof -
  have "foldR (price_step allowed) [] (enumerate 0 (map price_doc rs)) = Inr ([] @ rs)"
    by (rule fold_docs[where key = price_key]) (use assms price_step_doc in auto)
  moreover have "card (set (map p_price_basis rs)) \<le> 1"
    using card_mono[of "{b}" "set (map p_price_basis rs)"] assms(1) by auto
  ultimately show ?thesis by (simp add: price_rows_def bindR_ensure)
qed

lemma calendar_rows_doc:
  assumes "\<forall>s \<in> set ss. session_writable s" and "distinct (map s_session_date ss)"
  shows "calendar_rows (map session_doc ss) = Inr (sort_key s_session_date ss)"
proof -
  have "foldR calendar_step [] (enumerate 0 (map session_doc ss)) = Inr ([] @ ss)"
    by (rule fold_docs[where key = s_session_date]) (use assms calendar_step_doc in auto)
  then show ?thesis by (simp add: calendar_rows_def)
qed

lemma membership_rows_doc:
  assumes "\<forall>r \<in> set ms. membership_writable r" and "distinct (map membership_key ms)"
  shows "membership_rows (map membership_doc ms)
    = Inr (sort_key (\<lambda>r. (m_security_id r, m_valid_from r, m_available_at r, m_revision r)) ms)"
proof -
  have "foldR membership_step [] (enumerate 0 (map membership_doc ms)) = Inr ([] @ ms)"
    by (rule fold_docs[where key = membership_key]) (use assms membership_step_doc in auto)
  then show ?thesis by (simp add: membership_rows_def)
qed

text \<open>
  (C14) The loader refuses no well-formed table: prices that are well formed, unique, and of one admitted
  price basis, sessions, and membership assertions come back from their documents unchanged, in the
  order the engines expect them.
\<close>

theorem input_rows_roundtrip:
  assumes "\<forall>r \<in> set rs. price_writable r \<and> p_price_basis r = b" and "b \<in> set allowed"
    and "distinct (map price_key rs)"
    and "\<forall>s \<in> set ss. session_writable s" and "distinct (map s_session_date ss)"
    and "\<forall>r \<in> set ms. membership_writable r" and "distinct (map membership_key ms)"
  shows "price_rows allowed (map price_doc rs) = Inr (sort_key (\<lambda>r. (p_session_date r, p_security_id r)) rs)
    \<and> calendar_rows (map session_doc ss) = Inr (sort_key s_session_date ss)
    \<and> membership_rows (map membership_doc ms)
      = Inr (sort_key (\<lambda>r. (m_security_id r, m_valid_from r, m_available_at r, m_revision r)) ms)"
  using price_rows_doc[OF assms(1-3)] calendar_rows_doc[OF assms(4,5)] membership_rows_doc[OF assms(6,7)] by simp

end
