(* ===== verification/Ledger.thy ===== *)
theory Ledger
  imports Construction
begin

text \<open>
  The append-only ledger of a paper account (\<open>LedgerStore\<close> of \<open>research/paper.py\<close>): the files of an
  account directory, the strict reader of the event stream, the idempotent append, and the projection
  of the events to the portfolio state. A file is represented by the JSON document in it; what is
  written is the canonical text of a document, so two files have the same bytes when the canonical
  texts are the same.
\<close>

section \<open>The account directory\<close>

record ledger =
  l_account_id :: string
  l_used :: bool
  l_account :: "json option"
  l_manifest :: "json option"
  l_events :: "(string, json) dict"
  l_targets :: "(string, json) dict"
  l_orders :: "(string, json) dict"
  l_reports :: "(string, json) dict"

abbreviation ledger_error :: "string \<Rightarrow> 'a result" where
  "ledger_error m \<equiv> raise PaperLedgerError m"

definition same_text :: "env \<Rightarrow> json \<Rightarrow> json \<Rightarrow> bool" where
  "same_text env a b \<longleftrightarrow> canonical_json (env_float env) a = canonical_json (env_float env) b"

lemma same_text_refl [simp]: "same_text env a a"
  by (simp add: same_text_def)

text \<open>\<open>_write_immutable\<close> in a directory.\<close>

definition put_immutable ::
  "env \<Rightarrow> string \<Rightarrow> json \<Rightarrow> (string, json) dict \<Rightarrow> (string, json) dict result" where
  "put_immutable env name doc files =
     (case map_of files name of
        Some existing \<Rightarrow>
          if same_text env existing doc then Inr files
          else raise PaperConflictError (''immutable file already contains different bytes: '' @ name)
      | None \<Rightarrow> Inr (dset name doc files))"

section \<open>Events\<close>

definition event_namespace :: string where
  "event_namespace = ''45c1dfd4-9a04-5fd9-b4e9-8c2250bfc2a4''"

definition event_types :: "string list" where
  "event_types = [''cash_deposit'', ''decision'', ''target_published'', ''risk_approved'', ''risk_rejected'',
     ''halt'', ''no_op'', ''approval'', ''manual_rejection'', ''order'', ''fill'', ''fee'', ''tax'', ''dividend'',
     ''split'', ''delisting'', ''valuation'', ''reconciliation'', ''fx_conversion'']"

record event =
  ev_event_id :: string
  ev_idempotency_key :: string
  ev_account_id :: string
  ev_sequence :: int
  ev_event_at :: string
  ev_session_date :: string
  ev_event_type :: string
  ev_decision_id :: "string option"
  ev_target_id :: "string option"
  ev_order_id :: "string option"
  ev_security_id :: "string option"
  ev_currency :: string
  ev_quantity_delta :: string
  ev_amount_local_delta :: string
  ev_amount_base_delta :: string
  ev_nav_base :: "string option"
  ev_cash_base :: "string option"
  ev_positions_value_base :: "string option"
  ev_details :: "(string \<times> json) list"
  ev_record_hash :: string

definition text_json :: "string option \<Rightarrow> json" where
  "text_json v = (case v of None \<Rightarrow> JNull | Some s \<Rightarrow> JStr s)"

definition event_fields :: "string list" where
  "event_fields = [''schema_version'', ''event_id'', ''idempotency_key'', ''account_id'', ''sequence'', ''event_at'',
     ''session_date'', ''event_type'', ''decision_id'', ''target_id'', ''order_id'', ''security_id'', ''currency'',
     ''quantity_delta'', ''amount_local_delta'', ''amount_base_delta'', ''nav_base'', ''cash_base'',
     ''positions_value_base'', ''details'']"

definition payload_items :: "event \<Rightarrow> (string \<times> json) list" where
  "payload_items e = [(''schema_version'', JStr paper_schema_version), (''event_id'', JStr (ev_event_id e)),
     (''idempotency_key'', JStr (ev_idempotency_key e)), (''account_id'', JStr (ev_account_id e)),
     (''sequence'', JInt (ev_sequence e)), (''event_at'', JStr (ev_event_at e)),
     (''session_date'', JStr (ev_session_date e)), (''event_type'', JStr (ev_event_type e)),
     (''decision_id'', text_json (ev_decision_id e)), (''target_id'', text_json (ev_target_id e)),
     (''order_id'', text_json (ev_order_id e)), (''security_id'', text_json (ev_security_id e)),
     (''currency'', JStr (ev_currency e)), (''quantity_delta'', JStr (ev_quantity_delta e)),
     (''amount_local_delta'', JStr (ev_amount_local_delta e)), (''amount_base_delta'', JStr (ev_amount_base_delta e)),
     (''nav_base'', text_json (ev_nav_base e)), (''cash_base'', text_json (ev_cash_base e)),
     (''positions_value_base'', text_json (ev_positions_value_base e)), (''details'', JObj (ev_details e))]"

definition event_payload :: "event \<Rightarrow> json" where
  "event_payload e = JObj (payload_items e)"

definition event_json :: "event \<Rightarrow> json" where
  "event_json e = JObj (payload_items e @ [(''record_hash'', JStr (ev_record_hash e))])"

text \<open>\<open>_event_payload\<close> and \<open>_event_hash\<close> of a document.\<close>

definition payload_of :: "(string \<times> json) list \<Rightarrow> json" where
  "payload_of ob = JObj (filter (\<lambda>(k, _). k \<noteq> ''record_hash'') ob)"

definition event_hash :: "env \<Rightarrow> json \<Rightarrow> string" where
  "event_hash env payload = json_sha256 env payload"

definition event_id :: "env \<Rightarrow> string \<Rightarrow> string \<Rightarrow> string" where
  "event_id env account_id idempotency_key =
     env_uuid5 env event_namespace (account_id @ '':'' @ idempotency_key)"

text \<open>\<open>v == n\<close> for an integer \<open>n\<close>: a boolean and a float can equal it.\<close>

definition equals_int :: "json \<Rightarrow> int \<Rightarrow> bool" where
  "equals_int v n \<longleftrightarrow> v = JInt n \<or> v = JFloat (of_int n) \<or> v = JBool True \<and> n = 1 \<or> v = JBool False \<and> n = 0"

text \<open>
  The fields of an event that the reader does not check hold what the writer puts there, a string or
  null; a document with another value in such a field is outside the model and refused.
\<close>

definition text_field :: "(string \<times> json) list \<Rightarrow> string \<Rightarrow> string option result" where
  "text_field ob key =
     bindR (jget ob key) (\<lambda>v. case v of JNull \<Rightarrow> Inr None | JStr s \<Rightarrow> Inr (Some s)
       | _ \<Rightarrow> raise PyTypeError (key @ '' is neither a string nor null''))"

definition ledger_text :: "(string \<Rightarrow> bool) \<Rightarrow> string \<Rightarrow> (string \<times> json) list \<Rightarrow> string \<Rightarrow> string result" where
  "ledger_text ok message ob key =
     bindR (jget ob key) (\<lambda>v. case v of JStr s \<Rightarrow> if ok s then Inr s else ledger_error message
       | _ \<Rightarrow> ledger_error message)"

text \<open>\<open>None\<close> or a canonical non-negative decimal.\<close>

definition valuation_field :: "(string \<times> json) list \<Rightarrow> string \<Rightarrow> string option result" where
  "valuation_field ob key =
     (let message = ''paper event '' @ key @ '' is not a canonical non-negative decimal'' in
      bindR (jget ob key) (\<lambda>v. case v of
        JNull \<Rightarrow> Inr None
      | JStr s \<Rightarrow> if parse_unsigned s \<noteq> None then Inr (Some s) else ledger_error message
      | _ \<Rightarrow> ledger_error message))"

definition delta_field :: "(string \<times> json) list \<Rightarrow> string \<Rightarrow> string result" where
  "delta_field ob key =
     ledger_text (\<lambda>s. parse_signed s \<noteq> None) (''paper event '' @ key @ '' is not a canonical decimal'') ob key"

definition validate_event :: "env \<Rightarrow> string \<Rightarrow> int \<Rightarrow> json \<Rightarrow> event result" where
  "validate_event env account_id expected_sequence doc =
     (case doc of JObj ob \<Rightarrow>
     bindR (ensure (set (jkeys ob) = insert ''record_hash'' (set event_fields))
              (Exn PaperLedgerError ''paper event has an invalid field set'')) (\<lambda>_.
     bindR (ensure (map_of ob ''schema_version'' = Some (JStr paper_schema_version)
                \<and> map_of ob ''account_id'' = Some (JStr account_id))
              (Exn PaperLedgerError ''paper event identity is invalid'')) (\<lambda>_.
     bindR (jget ob ''sequence'') (\<lambda>sequence.
     bindR (ensure (equals_int sequence expected_sequence)
              (Exn PaperLedgerError ''paper event sequence is not contiguous'')) (\<lambda>_.
     bindR (bindR (jget ob ''event_id'') (check_uuid PaperSpecError ''event_id'')) (\<lambda>eid.
     bindR (ledger_text (\<lambda>s. s \<noteq> []) ''paper event idempotency_key is invalid'' ob ''idempotency_key'') (\<lambda>key.
     bindR (ensure (event_id env account_id key = eid)
              (Exn PaperLedgerError ''paper event id does not match its idempotency key'')) (\<lambda>_.
     bindR (ledger_text (\<lambda>s. s \<in> set event_types) ''paper event type is unsupported'' ob ''event_type'') (\<lambda>ty.
     bindR (ledger_text is_currency ''paper event currency is invalid'' ob ''currency'') (\<lambda>currency.
     bindR (ledger_text (\<lambda>s. parse_datetime s \<noteq> None) ''paper event date or timestamp is invalid'' ob ''event_at'') (\<lambda>at_text.
     bindR (ledger_text (\<lambda>s. parse_date s \<noteq> None) ''paper event date or timestamp is invalid'' ob ''session_date'') (\<lambda>day.
     bindR (bindR (jget ob ''details'') (\<lambda>v. case v of JObj d \<Rightarrow> Inr d
              | _ \<Rightarrow> ledger_error ''paper event details must be an object'')) (\<lambda>details.
     bindR (ledger_text (\<lambda>s. event_hash env (payload_of ob) = s \<and> is_sha256 s)
              ''paper event record_hash does not match its payload'' ob ''record_hash'') (\<lambda>record_hash.
     bindR (delta_field ob ''quantity_delta'') (\<lambda>quantity.
     bindR (delta_field ob ''amount_local_delta'') (\<lambda>local_delta.
     bindR (delta_field ob ''amount_base_delta'') (\<lambda>base_delta.
     bindR (valuation_field ob ''nav_base'') (\<lambda>nav.
     bindR (valuation_field ob ''cash_base'') (\<lambda>cash.
     bindR (valuation_field ob ''positions_value_base'') (\<lambda>positions.
     bindR (text_field ob ''decision_id'') (\<lambda>decision_id.
     bindR (text_field ob ''target_id'') (\<lambda>target_id.
     bindR (text_field ob ''order_id'') (\<lambda>order_id.
     bindR (text_field ob ''security_id'') (\<lambda>security_id.
     Inr \<lparr>ev_event_id = eid, ev_idempotency_key = key, ev_account_id = account_id,
        ev_sequence = expected_sequence, ev_event_at = at_text, ev_session_date = day, ev_event_type = ty,
        ev_decision_id = decision_id, ev_target_id = target_id, ev_order_id = order_id,
        ev_security_id = security_id, ev_currency = currency, ev_quantity_delta = quantity,
        ev_amount_local_delta = local_delta, ev_amount_base_delta = base_delta, ev_nav_base = nav,
        ev_cash_base = cash, ev_positions_value_base = positions, ev_details = details,
        ev_record_hash = record_hash\<rparr>)))))))))))))))))))))))
      | _ \<Rightarrow> ledger_error ''paper event has an invalid field set'')"

section \<open>The reader\<close>

definition event_name :: "int \<Rightarrow> string" where
  "event_name n = ''event-'' @ zfield 6 (nat n) @ ''.json''"

definition manifest_json :: "string \<Rightarrow> json list \<Rightarrow> json" where
  "manifest_json account_id entries =
     JObj [(''schema_version'', JStr paper_schema_version), (''account_id'', JStr account_id),
       (''event_count'', JInt (int (length entries))), (''last_sequence'', JInt (int (length entries))),
       (''events'', JArr entries)]"

definition manifest_entry :: "event \<Rightarrow> json" where
  "manifest_entry e = JObj [(''sequence'', JInt (ev_sequence e)), (''event_id'', JStr (ev_event_id e)),
     (''record_hash'', JStr (ev_record_hash e))]"

definition read_manifest :: "ledger \<Rightarrow> json list result" where
  "read_manifest L =
     (case l_manifest L of
        None \<Rightarrow> ledger_error ''ledger manifest does not exist''
      | Some (JObj ob) \<Rightarrow>
     bindR (ensure (set (jkeys ob) = set [''schema_version'', ''account_id'', ''event_count'', ''last_sequence'', ''events''])
              (Exn PaperLedgerError ''ledger manifest has an invalid field set'')) (\<lambda>_.
     bindR (ensure (map_of ob ''schema_version'' = Some (JStr paper_schema_version)
                \<and> map_of ob ''account_id'' = Some (JStr (l_account_id L)))
              (Exn PaperLedgerError ''ledger manifest identity is invalid'')) (\<lambda>_.
     bindR (bindR (jget ob ''events'') (\<lambda>v. case v of JArr xs \<Rightarrow> Inr xs
              | _ \<Rightarrow> ledger_error ''ledger manifest events must be an array'')) (\<lambda>entries.
     bindR (jget ob ''event_count'') (\<lambda>count.
     bindR (jget ob ''last_sequence'') (\<lambda>last.
     bindR (ensure (equals_int count (int (length entries)) \<and> equals_int last (int (length entries)))
              (Exn PaperLedgerError ''ledger manifest counts are inconsistent'')) (\<lambda>_.
     Inr entries))))))
      | Some _ \<Rightarrow> ledger_error ''ledger manifest has an invalid field set'')"

definition entry_matches :: "json \<Rightarrow> event \<Rightarrow> bool" where
  "entry_matches expected e =
     (case expected of
        JObj ob \<Rightarrow> set (jkeys ob) = set [''sequence'', ''event_id'', ''record_hash'']
          \<and> (case map_of ob ''sequence'' of Some v \<Rightarrow> equals_int v (ev_sequence e) | None \<Rightarrow> False)
          \<and> map_of ob ''event_id'' = Some (JStr (ev_event_id e))
          \<and> map_of ob ''record_hash'' = Some (JStr (ev_record_hash e))
      | _ \<Rightarrow> False)"

definition read_event :: "env \<Rightarrow> string \<Rightarrow> nat \<times> string \<times> json \<Rightarrow> event result" where
  "read_event env account_id = (\<lambda>(sequence, name, doc).
     if name \<noteq> event_name (int sequence) then ledger_error (''ledger event filename is invalid: '' @ name)
     else validate_event env account_id (int sequence) doc)"

definition ledger_events :: "env \<Rightarrow> ledger \<Rightarrow> event list result" where
  "ledger_events env L =
     bindR (read_manifest L) (\<lambda>entries.
     (let files = sorted_items (l_events L) in
      if length files \<noteq> length entries
      then ledger_error ''ledger event files do not match manifest count''
      else bindR (mapR (read_event env (l_account_id L)) (enumerate 1 files)) (\<lambda>result.
           if list_all (\<lambda>(expected, e). entry_matches expected e) (zip entries result) then Inr result
           else ledger_error ''ledger manifest does not match event files'')))"

definition event_for_idempotency :: "env \<Rightarrow> string \<Rightarrow> ledger \<Rightarrow> event option result" where
  "event_for_idempotency env key L =
     bindR (ledger_events env L) (\<lambda>es. Inr (find (\<lambda>e. ev_idempotency_key e = key) es))"

section \<open>Appending\<close>

text \<open>The arguments of \<open>append_event\<close>, with its defaults.\<close>

record draft =
  dr_idempotency_key :: string
  dr_session_date :: date
  dr_event_at :: datetime
  dr_event_type :: string
  dr_currency :: string
  dr_quantity_delta :: dec
  dr_amount_local_delta :: dec
  dr_amount_base_delta :: dec
  dr_details :: "(string \<times> json) list"
  dr_decision_id :: "string option"
  dr_target_id :: "string option"
  dr_order_id :: "string option"
  dr_security_id :: "string option"
  dr_nav_base :: "dec option"
  dr_cash_base :: "dec option"
  dr_positions_value_base :: "dec option"

definition draft_event :: "string \<Rightarrow> date \<Rightarrow> datetime \<Rightarrow> string \<Rightarrow> string \<Rightarrow> (string \<times> json) list \<Rightarrow> draft" where
  "draft_event key session_date event_at event_type currency details =
     \<lparr>dr_idempotency_key = key, dr_session_date = session_date, dr_event_at = event_at,
      dr_event_type = event_type, dr_currency = currency, dr_quantity_delta = 0, dr_amount_local_delta = 0,
      dr_amount_base_delta = 0, dr_details = details, dr_decision_id = None, dr_target_id = None,
      dr_order_id = None, dr_security_id = None, dr_nav_base = None, dr_cash_base = None,
      dr_positions_value_base = None\<rparr>"

text \<open>The event of a draft without its hash, and with it.\<close>

definition bare_event :: "env \<Rightarrow> string \<Rightarrow> int \<Rightarrow> draft \<Rightarrow> event" where
  "bare_event env account_id sequence d =
     \<lparr>ev_event_id = event_id env account_id (dr_idempotency_key d), ev_idempotency_key = dr_idempotency_key d,
      ev_account_id = account_id, ev_sequence = sequence, ev_event_at = timestamp (dr_event_at d),
      ev_session_date = isoformat (dr_session_date d), ev_event_type = dr_event_type d,
      ev_decision_id = dr_decision_id d, ev_target_id = dr_target_id d, ev_order_id = dr_order_id d,
      ev_security_id = dr_security_id d, ev_currency = dr_currency d,
      ev_quantity_delta = decimal_string (dr_quantity_delta d),
      ev_amount_local_delta = decimal_string (dr_amount_local_delta d),
      ev_amount_base_delta = decimal_string (dr_amount_base_delta d),
      ev_nav_base = map_option decimal_string (dr_nav_base d),
      ev_cash_base = map_option decimal_string (dr_cash_base d),
      ev_positions_value_base = map_option decimal_string (dr_positions_value_base d),
      ev_details = dr_details d, ev_record_hash = []\<rparr>"

definition make_event :: "env \<Rightarrow> string \<Rightarrow> int \<Rightarrow> draft \<Rightarrow> event" where
  "make_event env account_id sequence d =
     (let e = bare_event env account_id sequence d
      in e\<lparr>ev_record_hash := event_hash env (event_payload e)\<rparr>)"

definition write_event :: "env \<Rightarrow> event \<Rightarrow> (ledger, unit) prog" where
  "write_event env e L =
     (case put_immutable env (event_name (ev_sequence e)) (event_json e) (l_events L) of
        Inl x \<Rightarrow> (Inl x, L)
      | Inr files \<Rightarrow> (Inr (), L\<lparr>l_events := files\<rparr>))"

definition write_manifest :: "json \<Rightarrow> (ledger, unit) prog" where
  "write_manifest doc L = (Inr (), L\<lparr>l_manifest := Some doc\<rparr>)"

definition append_event :: "env \<Rightarrow> draft \<Rightarrow> (ledger, event) prog" where
  "append_event env d =
     (if dr_idempotency_key d = [] then raiseS PaperLedgerError ''idempotency_key must be non-empty''
      else if dr_event_type d \<notin> set event_types
      then raiseS PaperLedgerError (''unsupported paper event type '' @ dr_event_type d)
      else
     bindS (readS (event_for_idempotency env (dr_idempotency_key d))) (\<lambda>existing.
     bindS (case existing of
              Some e \<Rightarrow> returnS (ev_sequence e)
            | None \<Rightarrow> bindS (readS (ledger_events env)) (\<lambda>es. returnS (int (length es) + 1))) (\<lambda>sequence.
     bindS (readS (\<lambda>L. Inr (make_event env (l_account_id L) sequence d))) (\<lambda>e.
     case existing of
       Some old \<Rightarrow>
         if \<not> same_json (event_payload old) (event_payload e) \<or> ev_record_hash old \<noteq> ev_record_hash e
         then raiseS PaperConflictError
           (''idempotency key already contains different event: '' @ dr_idempotency_key d)
         else returnS old
     | None \<Rightarrow>
         bindS (write_event env e) (\<lambda>_.
         bindS (readS read_manifest) (\<lambda>entries.
         bindS (readS (\<lambda>L. Inr (l_account_id L))) (\<lambda>account_id.
         bindS (write_manifest (JObj [(''schema_version'', JStr paper_schema_version), (''account_id'', JStr account_id),
             (''event_count'', JInt sequence), (''last_sequence'', JInt sequence),
             (''events'', JArr (entries @ [manifest_entry e]))])) (\<lambda>_.
         returnS e))))))))"

section \<open>The projection\<close>

text \<open>\<open>Decimal(s)\<close> for a string that the reader has matched.\<close>

definition dec_of :: "string \<Rightarrow> dec" where
  "dec_of s = (case parse_signed s of Some q \<Rightarrow> q | None \<Rightarrow> 0)"

text \<open>\<open>Decimal(v or "0")\<close>\<close>

definition dec_or_zero :: "string option \<Rightarrow> dec" where
  "dec_or_zero v = (case v of None \<Rightarrow> 0 | Some s \<Rightarrow> dec_of s)"

text \<open>\<open>date.fromisoformat(s)\<close> on a date that the reader has accepted.\<close>

definition date_of :: "string \<Rightarrow> date" where
  "date_of s = (case parse_date s of Some d \<Rightarrow> d | None \<Rightarrow> Date 1 1 1)"

definition empty_state :: portfolio_state where
  "empty_state = \<lparr>ps_cash_by_currency = [], ps_quantities = [], ps_security_currency = [], ps_nav_base = 0,
     ps_cash_base = 0, ps_positions_value_base = 0, ps_peak_nav_base = 0, ps_last_session = None,
     ps_last_decision_session = None\<rparr>"

definition project_security :: "event \<Rightarrow> portfolio_state \<Rightarrow> portfolio_state result" where
  "project_security e st =
     (case ev_security_id e of
        None \<Rightarrow> Inr st
      | Some s \<Rightarrow>
          (let quantity = dadd prec (dget (ps_quantities st) s 0) (dec_of (ev_quantity_delta e)) in
           if quantity < 0
           then raise PaperReconciliationError (''negative holding after event '' @ ev_event_id e)
           else Inr (st\<lparr>ps_quantities := dset s quantity (ps_quantities st),
                       ps_security_currency := dset s (ev_currency e) (ps_security_currency st)\<rparr>)))"

definition project_valuation :: "event \<Rightarrow> portfolio_state \<Rightarrow> portfolio_state result" where
  "project_valuation e st =
     (case ev_nav_base e of
        None \<Rightarrow> Inr st
      | Some s \<Rightarrow>
          (let nav = dec_of s; cash_value = dec_or_zero (ev_cash_base e);
               positions_value = dec_or_zero (ev_positions_value_base e) in
           if nav < 0 \<or> cash_value < 0 \<or> positions_value < 0
           then raise PaperReconciliationError (''negative valuation in event '' @ ev_event_id e)
           else Inr (st\<lparr>ps_nav_base := nav, ps_cash_base := cash_value, ps_positions_value_base := positions_value,
                       ps_peak_nav_base := max (ps_peak_nav_base st) nav\<rparr>)))"

definition project_event :: "portfolio_state \<Rightarrow> event \<Rightarrow> portfolio_state result" where
  "project_event st e =
     (let cash = dset (ev_currency e)
            (dadd prec (dget (ps_cash_by_currency st) (ev_currency e) 0) (dec_of (ev_amount_local_delta e)))
            (ps_cash_by_currency st) in
      bindR (project_security e (st\<lparr>ps_cash_by_currency := cash\<rparr>)) (\<lambda>st.
      (let st = (if ev_event_type e = ''decision''
                 then st\<lparr>ps_last_decision_session := Some (date_of (ev_session_date e))\<rparr> else st) in
      bindR (project_valuation e st) (\<lambda>st.
      (let current_session = date_of (ev_session_date e) in
       Inr (st\<lparr>ps_last_session := Some (case ps_last_session st of
                 None \<Rightarrow> current_session | Some d \<Rightarrow> max d current_session)\<rparr>))))))"

definition project_events :: "event list \<Rightarrow> portfolio_state result" where
  "project_events es =
     bindR (foldR project_event empty_state es) (\<lambda>st.
     if es = [] then ledger_error ''paper ledger has no events''
     else Inr (st\<lparr>ps_quantities := filter (\<lambda>(_, q). q \<noteq> 0) (ps_quantities st)\<rparr>))"

definition rebuild_state :: "env \<Rightarrow> ledger \<Rightarrow> portfolio_state result" where
  "rebuild_state env L = bindR (ledger_events env L) project_events"

section \<open>Other files\<close>

definition load_account :: "ledger \<Rightarrow> account result" where
  "load_account L =
     (case l_account L of
        None \<Rightarrow> ledger_error ''paper account does not exist''
      | Some doc \<Rightarrow>
          bindR (validate_paper_account doc) (\<lambda>account.
          if acc_account_id account \<noteq> l_account_id L
          then ledger_error ''paper account file identity does not match its path''
          else Inr account))"

text \<open>The hash that the writers return is the hash of the bytes of the file: the text and a line feed.\<close>

definition file_sha256 :: "env \<Rightarrow> json \<Rightarrow> string" where
  "file_sha256 env doc = env_sha256 env (canonical_json (env_float env) doc @ [CHR 0x0A])"

definition write_target :: "env \<Rightarrow> string \<Rightarrow> json \<Rightarrow> (ledger, string) prog" where
  "write_target env target_id doc L =
     (case put_immutable env (''target-'' @ target_id @ ''.json'') doc (l_targets L) of
        Inl x \<Rightarrow> (Inl x, L)
      | Inr files \<Rightarrow> (Inr (file_sha256 env doc), L\<lparr>l_targets := files\<rparr>))"

definition write_order :: "env \<Rightarrow> string \<Rightarrow> json \<Rightarrow> (ledger, string) prog" where
  "write_order env order_id doc L =
     (case put_immutable env (''order-'' @ order_id @ ''.json'') doc (l_orders L) of
        Inl x \<Rightarrow> (Inl x, L)
      | Inr files \<Rightarrow> (Inr (file_sha256 env doc), L\<lparr>l_orders := files\<rparr>))"

definition report_name :: "string \<Rightarrow> string" where
  "report_name session_date = ''report-'' @ session_date @ ''.json''"

definition write_report :: "env \<Rightarrow> string \<Rightarrow> json \<Rightarrow> (ledger, unit) prog" where
  "write_report env session_date doc L =
     (case put_immutable env (report_name session_date) doc (l_reports L) of
        Inl x \<Rightarrow> (Inl x, L)
      | Inr files \<Rightarrow> (Inr (), L\<lparr>l_reports := files\<rparr>))"

definition read_report :: "string \<Rightarrow> ledger \<Rightarrow> json option" where
  "read_report session_date L = map_of (l_reports L) (report_name session_date)"

text \<open>\<open>initialize\<close> on a validated account. The directory counts as used once the sub-directories exist.\<close>

definition deposit_draft :: "env \<Rightarrow> account \<Rightarrow> date \<Rightarrow> dec \<Rightarrow> draft" where
  "deposit_draft env account start cash =
     (draft_event (''cash-deposit:'' @ acc_account_id account) start (Datetime start 0 0 0 0) ''cash_deposit''
        (acc_base_currency account)
        [(''reason'', JStr ''initial_cash''), (''account_sha256'', JStr (paper_account_sha256 env account))])
     \<lparr>dr_amount_local_delta := cash, dr_amount_base_delta := cash, dr_nav_base := Some cash,
      dr_cash_base := Some cash, dr_positions_value_base := Some 0\<rparr>"

definition create_directories :: "account \<Rightarrow> (ledger, unit) prog" where
  "create_directories account L = (Inr (), L\<lparr>l_used := True, l_account := Some (account_json account)\<rparr>)"

definition initialize :: "env \<Rightarrow> json \<Rightarrow> (ledger, account) prog" where
  "initialize env doc =
     bindS (liftS (validate_paper_account doc)) (\<lambda>normalized.
     bindS (readS (\<lambda>L. if acc_account_id normalized \<noteq> l_account_id L
              then raise PaperSpecError ''account_id does not match ledger path'' else Inr ())) (\<lambda>_.
     bindS (readS (\<lambda>L. Inr (l_account L, l_used L))) (\<lambda>(stored, used).
     case stored of
       Some existing_doc \<Rightarrow>
         bindS (liftS (validate_paper_account existing_doc)) (\<lambda>existing.
         if existing \<noteq> normalized
         then raiseS PaperConflictError ''paper account already exists with different specification''
         else returnS existing)
     | None \<Rightarrow>
         if used then raiseS PaperLedgerError ''ledger directory is not an unused account directory''
         else
     bindS (create_directories normalized) (\<lambda>_.
     bindS (write_manifest (manifest_json (acc_account_id normalized) [])) (\<lambda>_.
     bindS (liftS (account_date (acc_start_date normalized))) (\<lambda>start.
     bindS (liftS (decimal False False ''initial_cash''
              (JStr (ac_initial_cash (acc_accounting_policy normalized))))) (\<lambda>cash.
     bindS (append_event env (deposit_draft env normalized start cash)) (\<lambda>_.
     returnS normalized))))))))"

end
