(* ===== verification/Settlement.thy ===== *)
theory Settlement
  imports Ledger
begin

text \<open>
  The first half of a paper session (\<open>research/paper.py\<close>): corporate actions, the settlement of the
  orders approved for the session, and the valuation at its decision clock. Every function works on the
  ledger and appends events to it.
\<close>

section \<open>Corporate actions\<close>

definition action_events :: "inputs \<Rightarrow> date \<Rightarrow> action_row list" where
  "action_events inp session_date =
     sort_key a_id (filter (\<lambda>a. (a_action_type a = CashDividend \<and> a_payment_date a = Some session_date)
       \<or> (a_action_type a \<noteq> CashDividend \<and> a_effective_date a = session_date)) (i_corporate_actions inp))"

definition action_event_type :: "action_type \<Rightarrow> string" where
  "action_event_type t = (case t of Split \<Rightarrow> ''split'' | CashDividend \<Rightarrow> ''dividend'' | Delisting \<Rightarrow> ''delisting'')"

definition action_type_name :: "action_type \<Rightarrow> string" where
  "action_type_name t = (case t of Split \<Rightarrow> ''split'' | CashDividend \<Rightarrow> ''cash_dividend'' | Delisting \<Rightarrow> ''delisting'')"

text \<open>The amount, the change of the holding, and the price of an action on a holding.\<close>

definition action_effect :: "action_row \<Rightarrow> dec \<Rightarrow> (dec \<times> dec \<times> dec option) result" where
  "action_effect a quantity =
     (if \<not> 0 < quantity then Inr (0, 0, None)
      else case a_action_type a of
        Split \<Rightarrow>
          bindR (ddiv prec (a_ratio_numerator a) (a_ratio_denominator a)) (\<lambda>factor.
          Inr (0, dmul prec quantity (dsub prec factor 1), Some factor))
      | CashDividend \<Rightarrow> Inr (dmul prec quantity (a_cash_amount a), 0, Some (a_cash_amount a))
      | Delisting \<Rightarrow>
          (case a_settlement_price a of
             None \<Rightarrow> raise PaperMissingDataError (''delisting '' @ a_id a @ '' has no settlement price'')
           | Some price \<Rightarrow> Inr (dmul prec quantity price, dneg prec quantity, Some price)))"

definition action_draft ::
  "session \<Rightarrow> action_row \<Rightarrow> dec \<Rightarrow> dec \<Rightarrow> dec \<Rightarrow> dec \<Rightarrow> dec option \<Rightarrow> draft" where
  "action_draft sess a quantity value_local quantity_delta amount_base price =
     (draft_event (''action:'' @ a_id a) (s_session_date sess) (s_open_at sess)
        (action_event_type (a_action_type a)) (a_currency a)
        [(''action_id'', JStr (a_id a)), (''action_type'', JStr (action_type_name (a_action_type a))),
         (''ignored_no_position'', JBool (quantity \<le> 0)),
         (''price'', text_json (map_option decimal_string price))])
     \<lparr>dr_quantity_delta := quantity_delta, dr_amount_local_delta := value_local,
      dr_amount_base_delta := amount_base, dr_security_id := Some (a_security_id a)\<rparr>"

definition apply_action ::
  "env \<Rightarrow> account \<Rightarrow> inputs \<Rightarrow> session \<Rightarrow> portfolio_state \<Rightarrow> action_row \<Rightarrow> (ledger, portfolio_state) prog" where
  "apply_action env account inp sess state a =
     bindS (readS (event_for_idempotency env (''action:'' @ a_id a))) (\<lambda>existing.
     if existing \<noteq> None then returnS state
     else (let quantity = dget (ps_quantities state) (a_security_id a) 0 in
       if s_open_at sess < a_available_at a \<and> 0 < quantity
       then raiseS PaperMissingDataError (''corporate action '' @ a_id a
              @ '' is not available by its economic event'')
       else
     bindS (liftS (action_effect a quantity)) (\<lambda>(value_local, quantity_delta, price).
     bindS (liftS (convert inp value_local (a_currency a) (acc_base_currency account) (s_open_at sess))) (\<lambda>amount_base.
     bindS (append_event env (action_draft sess a quantity value_local quantity_delta amount_base price)) (\<lambda>_.
     readS (rebuild_state env))))))"

definition apply_actions :: "env \<Rightarrow> account \<Rightarrow> inputs \<Rightarrow> session \<Rightarrow> (ledger, unit) prog" where
  "apply_actions env account inp sess =
     bindS (readS (rebuild_state env)) (\<lambda>state.
     bindS (foldS (apply_action env account inp sess) state (action_events inp (s_session_date sess))) (\<lambda>_.
     returnS ()))"

section \<open>The terms of a fill\<close>

definition fill_terms :: "account \<Rightarrow> price_row \<Rightarrow> string \<Rightarrow> dec \<Rightarrow> dec \<times> dec \<times> dec \<times> dec \<times> dec" where
  "fill_terms account row side quantity =
     (let policy = acc_cost_policy account;
          gross = dmul prec (p_open row) quantity;
          commission = max (dadd prec (dquot prec (dmul prec gross (dec_of (cp_commission_bps policy))) 10000)
                              (dec_of (cp_fixed_fee policy)))
                         (dec_of (cp_minimum_fee policy));
          spread = dquot prec (dmul prec gross (dec_of (cp_spread_bps policy))) 20000;
          tax = dquot prec (dmul prec gross (dec_of (cp_tax_bps policy))) 10000;
          direction = (if side = ''buy'' then 1 else - 1);
          fill_price = dmul prec (p_open row) (dadd prec 1 (dmul prec direction
            (dadd prec (dquot prec (dec_of (cp_spread_bps policy)) 20000)
               (dquot prec (dec_of (cp_slippage_bps policy)) 10000))))
      in (fill_price, dmul prec fill_price quantity, commission, spread, tax))"

section \<open>Approvals\<close>

text \<open>\<open>bool(value)\<close> of a JSON value, and of \<open>d.get(key)\<close>\<close>

definition json_true :: "json \<Rightarrow> bool" where
  "json_true v = (case v of JNull \<Rightarrow> False | JBool b \<Rightarrow> b | JInt i \<Rightarrow> i \<noteq> 0 | JFloat q \<Rightarrow> q \<noteq> 0
     | JStr s \<Rightarrow> s \<noteq> [] | JArr vs \<Rightarrow> vs \<noteq> [] | JObj ob \<Rightarrow> ob \<noteq> [])"

definition nonempty_text :: "string option \<Rightarrow> string option" where
  "nonempty_text v = (case v of None \<Rightarrow> None | Some s \<Rightarrow> if s = [] then None else Some s)"

definition approval_step :: "(string, bool) dict \<Rightarrow> event \<Rightarrow> (string, bool) dict" where
  "approval_step result e =
     (case nonempty_text (ev_decision_id e) of
        None \<Rightarrow> result
      | Some decision_id \<Rightarrow>
          if ev_event_type e = ''approval''
          then dset decision_id (json_true (dget (ev_details e) ''approved'' JNull)) result
          else if ev_event_type e = ''manual_rejection'' then dset decision_id False result
          else result)"

definition approved_by_decision :: "event list \<Rightarrow> (string, bool) dict" where
  "approved_by_decision es = foldl approval_step [] es"

section \<open>Settlement\<close>

text \<open>
  An order is read back from the details of its event. The text fields hold strings, as the engine
  wrote them; a document with another value there is outside the model and refused.
\<close>

definition event_order :: "event \<Rightarrow> (string \<times> json) list option" where
  "event_order e = (case map_of (ev_details e) ''order'' of Some (JObj ob) \<Rightarrow> Some ob | _ \<Rightarrow> None)"

definition order_text :: "(string \<times> json) list \<Rightarrow> string \<Rightarrow> string result" where
  "order_text ob key =
     bindR (jget ob key) (\<lambda>v. case v of JStr s \<Rightarrow> Inr s
       | _ \<Rightarrow> raise PyTypeError (key @ '' of the order is not a string''))"

text \<open>\<open>Decimal(order["quantity"])\<close>\<close>

definition order_quantity :: "(string \<times> json) list \<Rightarrow> dec result" where
  "order_quantity ob =
     bindR (order_text ob ''quantity'') (\<lambda>s. case parse_signed s of
       None \<Rightarrow> raise PyValueError ''order quantity is not a decimal'' | Some q \<Rightarrow> Inr q)"

definition fx_draft :: "account \<Rightarrow> session \<Rightarrow> string \<Rightarrow> string \<Rightarrow> string \<Rightarrow> dec \<Rightarrow> dec \<Rightarrow> string \<Rightarrow> draft" where
  "fx_draft account sess prefix order_id currency local_delta base_delta order_currency =
     (draft_event (prefix @ order_id) (s_session_date sess) (s_open_at sess) ''fx_conversion'' currency
        [(''order_id'', JStr order_id), (''from'', JStr (acc_base_currency account)), (''to'', JStr order_currency)])
     \<lparr>dr_amount_local_delta := local_delta, dr_amount_base_delta := base_delta\<rparr>"

text \<open>What a buy order needs in its currency, converted from the base currency when it falls short.\<close>

definition fund_buy ::
  "env \<Rightarrow> account \<Rightarrow> inputs \<Rightarrow> session \<Rightarrow> portfolio_state \<Rightarrow> string \<Rightarrow> string \<Rightarrow> dec \<Rightarrow> (ledger, unit) prog" where
  "fund_buy env account inp sess state order_id currency required_local =
     (let base = acc_base_currency account; own = dget (ps_cash_by_currency state) currency 0 in
     bindS (liftS (if currency \<noteq> base
                then bindR (convert inp (dget (ps_cash_by_currency state) base 0) base currency (s_open_at sess))
                       (\<lambda>v. Inr (dadd prec own v))
                else Inr own)) (\<lambda>local_cash.
     if local_cash < required_local
     then raiseS PaperReconciliationError (''insufficient cash for approved order '' @ order_id)
     else if currency \<noteq> base \<and> own < required_local
     then (let shortfall = dsub prec required_local own in
       bindS (liftS (convert inp shortfall currency base (s_open_at sess))) (\<lambda>base_amount.
       bindS (append_event env (fx_draft account sess ''fx:'' order_id base (dneg prec base_amount)
                (dneg prec base_amount) currency)) (\<lambda>_.
       bindS (append_event env (fx_draft account sess ''fx-credit:'' order_id currency shortfall base_amount currency)) (\<lambda>_.
       returnS ()))))
     else returnS ()))"

definition settlement_draft ::
  "session \<Rightarrow> string \<Rightarrow> string \<Rightarrow> string \<Rightarrow> string \<Rightarrow> string \<Rightarrow> (string \<times> json) list \<Rightarrow> draft" where
  "settlement_draft sess prefix ty order_id security_id currency details =
     (draft_event (prefix @ order_id) (s_session_date sess) (s_open_at sess) ty currency details)
     \<lparr>dr_order_id := Some order_id, dr_security_id := Some security_id\<rparr>"

text \<open>The events of a fill: the trade, its fee and its tax.\<close>

definition append_fill ::
  "env \<Rightarrow> account \<Rightarrow> inputs \<Rightarrow> session \<Rightarrow> (string \<times> json) list \<Rightarrow> price_row \<Rightarrow> string \<Rightarrow> string \<Rightarrow> string \<Rightarrow> string
    \<Rightarrow> dec \<Rightarrow> (ledger, unit) prog" where
  "append_fill env account inp sess ob row order_id security_id currency side quantity =
     (let (fill_price, trade_notional, commission, spread, tax) = fill_terms account row side quantity;
          sign = (if side = ''sell'' then 1 else - 1);
          to_base = (\<lambda>value_local. convert inp value_local currency (acc_base_currency account) (s_open_at sess)) in
     bindS (liftS (to_base trade_notional)) (\<lambda>base_trade.
     bindS (liftS (jget ob ''client_order_id'')) (\<lambda>client_order_id.
     bindS (liftS (jget ob ''reference_price'')) (\<lambda>reference_price.
     bindS (append_event env ((settlement_draft sess ''fill:'' ''fill'' order_id security_id currency
         [(''order_id'', JStr order_id), (''client_order_id'', client_order_id), (''side'', JStr side),
          (''quantity'', JStr (decimal_string quantity)), (''reference_price'', reference_price),
          (''fill_price'', JStr (decimal_string fill_price)),
          (''gross_notional'', JStr (decimal_string (dmul prec (p_open row) quantity))),
          (''spread_cost'', JStr (decimal_string spread)),
          (''slippage_cost'', JStr (decimal_string (dsub prec
             (dmul prec (dabs prec (dsub prec fill_price (p_open row))) quantity) spread)))])
         \<lparr>dr_quantity_delta := (if side = ''buy'' then quantity else dneg prec quantity),
          dr_amount_local_delta := dmul prec sign trade_notional,
          dr_amount_base_delta := dmul prec sign base_trade\<rparr>)) (\<lambda>_.
     bindS (liftS (to_base commission)) (\<lambda>base_commission.
     bindS (append_event env ((settlement_draft sess ''fee:'' ''fee'' order_id security_id currency
         [(''order_id'', JStr order_id), (''commission'', JStr (decimal_string commission))])
         \<lparr>dr_amount_local_delta := dneg prec commission, dr_amount_base_delta := dneg prec base_commission\<rparr>)) (\<lambda>_.
     bindS (liftS (to_base tax)) (\<lambda>base_tax.
     bindS (append_event env ((settlement_draft sess ''tax:'' ''tax'' order_id security_id currency
         [(''order_id'', JStr order_id), (''tax'', JStr (decimal_string tax))])
         \<lparr>dr_amount_local_delta := dneg prec tax, dr_amount_base_delta := dneg prec base_tax\<rparr>)) (\<lambda>_.
     returnS ())))))))))"

definition settle_order ::
  "env \<Rightarrow> account \<Rightarrow> inputs \<Rightarrow> session \<Rightarrow> (string \<times> json) list \<Rightarrow> string \<Rightarrow> (ledger, unit) prog" where
  "settle_order env account inp sess ob order_id =
     bindS (liftS (order_text ob ''security_id'')) (\<lambda>security_id.
     bindS (liftS (order_text ob ''currency'')) (\<lambda>currency.
     case price_row inp security_id (s_session_date sess) (s_open_at sess) of
       None \<Rightarrow> raiseS PaperMissingDataError (''missing executable open for '' @ security_id)
     | Some row \<Rightarrow>
         if p_currency row \<noteq> currency
         then raiseS PaperMissingDataError (''missing executable open for '' @ security_id)
         else
     bindS (liftS (order_quantity ob)) (\<lambda>quantity.
     bindS (readS (rebuild_state env)) (\<lambda>state.
     bindS (liftS (order_text ob ''side'')) (\<lambda>side.
     if side = ''sell'' \<and> dget (ps_quantities state) security_id 0 < quantity
     then raiseS PaperReconciliationError (''order '' @ order_id @ '' exceeds the available holding'')
     else (let (_, trade_notional, commission, _, tax) = fill_terms account row side quantity;
               required_local = dadd prec (dadd prec trade_notional commission) tax in
     bindS (if side = ''buy'' then fund_buy env account inp sess state order_id currency required_local
            else returnS ()) (\<lambda>_.
     append_fill env account inp sess ob row order_id security_id currency side quantity)))))))"

definition settle_event ::
  "env \<Rightarrow> account \<Rightarrow> inputs \<Rightarrow> session \<Rightarrow> (string, bool) dict \<Rightarrow> event \<Rightarrow> (ledger, unit) prog" where
  "settle_event env account inp sess approvals e =
     (if ev_event_type e \<noteq> ''order'' then returnS ()
      else case event_order e of
        None \<Rightarrow> returnS ()
      | Some ob \<Rightarrow>
     bindS (liftS (jget ob ''execution_session'')) (\<lambda>execution_session.
     if execution_session \<noteq> JStr (isoformat (s_session_date sess)) then returnS ()
     else
     bindS (liftS (order_text ob ''decision_id'')) (\<lambda>decision_id.
     if map_of approvals decision_id \<noteq> Some True then returnS ()
     else
     bindS (liftS (order_text ob ''order_id'')) (\<lambda>order_id.
     bindS (readS (event_for_idempotency env (''fill:'' @ order_id))) (\<lambda>existing.
     if existing \<noteq> None then returnS ()
     else settle_order env account inp sess ob order_id)))))"

definition settle_orders :: "env \<Rightarrow> account \<Rightarrow> inputs \<Rightarrow> session \<Rightarrow> (ledger, unit) prog" where
  "settle_orders env account inp sess =
     bindS (readS (ledger_events env)) (\<lambda>events.
     forS events (settle_event env account inp sess (approved_by_decision events)))"

section \<open>Valuation\<close>

definition state_after_mark :: "account \<Rightarrow> inputs \<Rightarrow> portfolio_state \<Rightarrow> session \<Rightarrow> portfolio_state result" where
  "state_after_mark account inp state sess =
     bindR (positions_value account inp state sess True) (\<lambda>(position_value, currencies).
     bindR (cash_base account inp state (session_decision_at sess)) (\<lambda>available_cash.
     (let nav = dadd prec available_cash position_value in
      if nav \<le> 0
      then raise PaperReconciliationError (''paper NAV is not positive on '' @ isoformat (s_session_date sess))
      else Inr (state\<lparr>ps_security_currency := currencies, ps_nav_base := nav, ps_cash_base := available_cash,
             ps_positions_value_base := position_value, ps_peak_nav_base := max (ps_peak_nav_base state) nav,
             ps_last_session := Some (s_session_date sess)\<rparr>))))"

definition holding_row :: "account \<Rightarrow> inputs \<Rightarrow> session \<Rightarrow> string \<times> dec \<Rightarrow> json list result" where
  "holding_row account inp sess = (\<lambda>(security_id, quantity).
     if quantity \<le> 0 then Inr []
     else (case price_row inp security_id (s_session_date sess) (session_decision_at sess) of
             None \<Rightarrow> raise PaperMissingDataError (''missing close for held security '' @ security_id)
           | Some row \<Rightarrow>
               bindR (convert inp (dmul prec quantity (p_close row)) (p_currency row)
                        (acc_base_currency account) (session_decision_at sess)) (\<lambda>v.
               Inr [JObj [(''security_id'', JStr security_id), (''quantity'', JStr (decimal_string quantity)),
                 (''price'', JStr (decimal_string (p_close row))), (''currency'', JStr (p_currency row)),
                 (''market_value_base'', JStr (decimal_string v))]])))"

definition valuation_key :: "session \<Rightarrow> string" where
  "valuation_key sess = ''valuation:'' @ isoformat (s_session_date sess)"

definition valuation_draft :: "account \<Rightarrow> session \<Rightarrow> string \<Rightarrow> portfolio_state \<Rightarrow> json list \<Rightarrow> draft" where
  "valuation_draft account sess decision_id marked holdings =
     (draft_event (valuation_key sess) (s_session_date sess) (s_close_at sess) ''valuation''
        (acc_base_currency account)
        [(''decision_id'', JStr decision_id),
         (''cash_by_currency'', JObj (map (\<lambda>(k, v). (k, JStr (decimal_string v)))
            (sorted_items (ps_cash_by_currency marked)))),
         (''holdings'', JArr holdings)])
     \<lparr>dr_decision_id := Some decision_id, dr_nav_base := Some (ps_nav_base marked),
      dr_cash_base := Some (ps_cash_base marked), dr_positions_value_base := Some (ps_positions_value_base marked)\<rparr>"

definition append_valuation ::
  "env \<Rightarrow> account \<Rightarrow> inputs \<Rightarrow> portfolio_state \<Rightarrow> session \<Rightarrow> string \<Rightarrow> (ledger, portfolio_state) prog" where
  "append_valuation env account inp state sess decision_id =
     bindS (liftS (state_after_mark account inp state sess)) (\<lambda>marked.
     bindS (liftS (mapR (holding_row account inp sess) (sorted_items (ps_quantities marked)))) (\<lambda>holdings.
     bindS (readS (event_for_idempotency env (valuation_key sess))) (\<lambda>existing.
     if existing \<noteq> None then readS (rebuild_state env)
     else
     bindS (append_event env (valuation_draft account sess decision_id marked (concat holdings))) (\<lambda>_.
     readS (rebuild_state env)))))"

end
