(* ===== verification/Paper_Session.thy ===== *)
theory Paper_Session
  imports Settlement
begin

text \<open>
  A paper session (\<open>research/paper.py\<close>): the read-only preflight, the recorded decision with its
  target, risk verdict and orders, the approval of a decision, the report, and the reconciliation.
  How the reasons of a verdict print is an argument \<open>say\<close>, and so are the two readings of the system
  clock. The state is the account directory that the call works on.
\<close>

section \<open>Documents\<close>

definition verdict_items :: "(reason \<Rightarrow> string) \<Rightarrow> risk_verdict \<Rightarrow> (string \<times> json) list" where
  "verdict_items say v = [(''status'', JStr (rv_status v)), (''policy_version'', JStr (rv_policy_version v)),
     (''codes'', strings_json (rv_codes v)), (''reasons'', strings_json (map say (rv_reasons v))),
     (''checked_at'', JStr (rv_checked_at v))]"

definition target_row_json :: "target_row \<Rightarrow> json" where
  "target_row_json r = JObj [(''security_id'', JStr (tr_security_id r)),
     (''target_weight'', JStr (tr_target_weight r)), (''target_quantity'', JStr (tr_target_quantity r)),
     (''price'', JStr (tr_price r)), (''currency'', JStr (tr_currency r)),
     (''market_value_base'', JStr (tr_market_value_base r)), (''country'', JStr (tr_country r)),
     (''sector'', JStr (tr_sector r)), (''themes'', strings_json (tr_themes r))]"

definition target_json :: "(reason \<Rightarrow> string) \<Rightarrow> target \<Rightarrow> json" where
  "target_json say t = JObj [(''schema_version'', JStr paper_schema_version),
     (''target_id'', JStr (tg_target_id t)), (''account_id'', JStr (tg_account_id t)),
     (''decision_id'', JStr (tg_decision_id t)), (''target_revision'', JInt (tg_target_revision t)),
     (''decision_session'', JStr (tg_decision_session t)), (''decision_at'', JStr (tg_decision_at t)),
     (''strategy'', strategy_json (tg_strategy t)), (''input_fingerprint'', JStr (tg_input_fingerprint t)),
     (''inputs'', JArr (map (\<lambda>(kind, artifact_id, sha). JObj [(''kind'', JStr kind),
        (''artifact_id'', JStr artifact_id), (''sha256'', JStr sha)]) (tg_inputs t))),
     (''nav_base'', JStr (tg_nav_base t)), (''cash_base'', JStr (tg_cash_base t)),
     (''positions_value_base'', JStr (tg_positions_value_base t)),
     (''targets'', JArr (map target_row_json (tg_targets t))),
     (''construction'', JObj [(''objective'', JStr (tg_objective t)), (''fallback'', JStr (tg_fallback t)),
        (''turnover_penalty'', JStr ''0''), (''cash_reserve'', JStr (tg_cash_reserve t))]),
     (''risk'', JObj (verdict_items say (tg_risk t)))]"

definition order_items :: "order \<Rightarrow> (string \<times> json) list" where
  "order_items y = [(''schema_version'', JStr paper_schema_version), (''order_id'', JStr (or_order_id y)),
     (''client_order_id'', JStr (or_client_order_id y)), (''account_id'', JStr (or_account_id y)),
     (''target_id'', JStr (or_target_id y)), (''decision_id'', JStr (or_decision_id y)),
     (''target_revision'', JInt (or_target_revision y)), (''decision_session'', JStr (or_decision_session y)),
     (''execution_session'', JStr (or_execution_session y)), (''security_id'', JStr (or_security_id y)),
     (''side'', JStr (or_side y)), (''quantity'', JStr (or_quantity y)),
     (''reference_price'', JStr (or_reference_price y)), (''currency'', JStr (or_currency y)),
     (''expected_notional_base'', JStr (or_expected_notional_base y)),
     (''expected_cost_base'', JStr (or_expected_cost_base y)), (''reason'', JStr (or_reason y)),
     (''status'', JStr (or_status y))]"

section \<open>The inputs of a session\<close>

text \<open>The later of the two accounts has the references of this session, if there are any.\<close>

definition account_items :: "account \<Rightarrow> (string \<times> json) list" where
  "account_items a = (case account_json a of JObj ob \<Rightarrow> ob | _ \<Rightarrow> [])"

definition reference_object :: "json \<Rightarrow> json result" where
  "reference_object v = (case v of JObj ob \<Rightarrow> Inr (JObj ob)
     | _ \<Rightarrow> raise PyTypeError ''session input reference is not an object'')"

definition account_with_session_inputs :: "env \<Rightarrow> json \<Rightarrow> json option \<Rightarrow> (account \<times> account) result" where
  "account_with_session_inputs env doc input_references =
     bindR (validate_paper_account doc) (\<lambda>persisted.
     case input_references of
       None \<Rightarrow> Inr (persisted, persisted)
     | Some (JArr items) \<Rightarrow>
         bindR (mapR reference_object items) (\<lambda>references.
         bindR (validate_paper_account (JObj (dset ''inputs'' (JArr references) (account_items persisted)))) (\<lambda>working.
         case find (\<lambda>field. map_of (account_items working) field \<noteq> map_of (account_items persisted) field)
                (env_set_order env (filter (\<lambda>f. f \<noteq> ''inputs'') (jkeys (account_items persisted)))) of
           Some field \<Rightarrow> raise PaperConflictError (''session inputs changed immutable account field '' @ field)
         | None \<Rightarrow> Inr (persisted, working)))
     | Some _ \<Rightarrow> raise PaperSpecError ''session inputs must be an array of artifact references'')"

text \<open>\<open>session_date: str | date\<close>; a text in another ISO spelling than \<open>YYYY-MM-DD\<close> is refused.\<close>

datatype session_argument = Day_Text string | Day_Value date

definition session_argument_date :: "session_argument \<Rightarrow> date result" where
  "session_argument_date v = (case v of Day_Text s \<Rightarrow> account_date s | Day_Value d \<Rightarrow> Inr d)"

text \<open>\<open>decision_at\<close>: nothing, a text, an aware time, a naive time, or anything else.\<close>

datatype clock_argument = Clock_Default | Clock_Text string | Clock_Value datetime | Clock_Naive | Clock_Other

definition resolve_decision_at :: "datetime \<Rightarrow> clock_argument \<Rightarrow> session \<Rightarrow> datetime result" where
  "resolve_decision_at now clock_value sess =
     (let check = (\<lambda>resolved.
            if resolved < s_close_at sess
            then raise PaperSpecError ''decision_at must not precede the session close''
            else if now < resolved then raise PaperSpecError ''decision_at must not be in the future''
            else Inr resolved) in
      case clock_value of
        Clock_Default \<Rightarrow> Inr (s_close_at sess)
      | Clock_Text s \<Rightarrow>
          (case parse_utc ''decision_at'' (JStr s) of
             Inl e \<Rightarrow> (if exn_kind e = BacktestInputError then raise PaperSpecError (exn_message e) else Inl e)
           | Inr t \<Rightarrow> check t)
      | Clock_Value t \<Rightarrow> check t
      | Clock_Naive \<Rightarrow> raise PaperSpecError ''decision_at must be an aware UTC timestamp''
      | Clock_Other \<Rightarrow> raise PaperSpecError ''decision_at must be a canonical UTC timestamp'')"

text \<open>The first calendar row of a date.\<close>

definition session_index_of :: "session list \<Rightarrow> date \<Rightarrow> nat result" where
  "session_index_of sessions current_date =
     (case find (\<lambda>i. s_session_date (sessions ! i) = current_date) [0..<length sessions] of
        None \<Rightarrow> raise PaperSpecError (''session '' @ isoformat current_date @ '' is outside the paper account calendar'')
      | Some i \<Rightarrow> Inr i)"

definition row_count :: "artifact_rows \<Rightarrow> nat" where
  "row_count rows = length (row_available_at rows)"

definition artifact_json :: "loaded_artifact \<Rightarrow> json" where
  "artifact_json a = JObj [(''kind'', JStr (la_kind a)), (''artifact_id'', JStr (la_artifact_id a)),
     (''sha256'', JStr (la_sha256 a)), (''available_at'', JStr (timestamp (la_available_at a))),
     (''rows'', JInt (int (row_count (la_rows a))))]"

definition preflight_paper_session ::
  "env \<Rightarrow> data_root \<Rightarrow> datetime \<Rightarrow> json \<Rightarrow> session_argument \<Rightarrow> clock_argument \<Rightarrow> json option \<Rightarrow> json result" where
  "preflight_paper_session env fs now doc day clock_value input_references =
     bindR (account_with_session_inputs env doc input_references) (\<lambda>(_, normalized).
     bindR (load_paper_inputs fs (acc_inputs normalized)) (\<lambda>inp.
     bindR (sessions_for_account normalized inp) (\<lambda>sessions.
     bindR (session_argument_date day) (\<lambda>current_date.
     bindR (session_index_of sessions current_date) (\<lambda>k.
     bindR (resolve_decision_at now clock_value (sessions ! k)) (\<lambda>resolved.
     bindR (active_security_ids normalized inp ((sessions ! k)\<lparr>s_decision_at := Some resolved\<rparr>)) (\<lambda>active.
     bindR (mapR (\<lambda>security_id. ensure (price_row inp security_id current_date resolved \<noteq> None)
              (Exn PaperMissingDataError (''missing current close for active security '' @ security_id @ '' on ''
                 @ isoformat current_date))) active) (\<lambda>_.
     Inr (JObj [(''action'', JStr ''validated''), (''account_id'', JStr (acc_account_id normalized)),
       (''session_date'', JStr (isoformat current_date)), (''decision_at'', JStr (timestamp resolved)),
       (''input_fingerprint'', JStr (input_fingerprint env (acc_inputs normalized))),
       (''fitness'', JStr (if \<exists>r \<in> set (acc_inputs normalized). r_fitness r = ''current_research_only''
          then ''current_research_only'' else ''backtest_safe'')),
       (''active_security_ids'', strings_json active), (''calendar_sessions'', JInt (int (length sessions))),
       (''artifacts'', JArr (map artifact_json (sort_key la_kind (map snd (i_artifacts inp)))))])))))))))"

section \<open>Decisions\<close>

definition decision_namespace :: string where
  "decision_namespace = ''2ec02277-a80f-5dd2-8b54-9639e9f2fe7b''"

definition report_namespace :: string where
  "report_namespace = ''73c7f89f-a2f8-5a06-a68b-5b6fd75f6d5b''"

definition decision_id_of :: "env \<Rightarrow> string \<Rightarrow> date \<Rightarrow> string \<Rightarrow> datetime option \<Rightarrow> string" where
  "decision_id_of env account_id session_date fingerprint decision_at =
     env_uuid5 env decision_namespace (account_id @ '':'' @ isoformat session_date @ '':'' @ fingerprint
       @ (case decision_at of None \<Rightarrow> [] | Some t \<Rightarrow> '':'' @ timestamp t))"

definition decision_events :: "event list \<Rightarrow> string \<Rightarrow> event list" where
  "decision_events es decision_id = filter (\<lambda>e. ev_decision_id e = Some decision_id) es"

text \<open>An event of a decision at the decision clock of its session.\<close>

definition decision_draft ::
  "account \<Rightarrow> session \<Rightarrow> string \<Rightarrow> string \<Rightarrow> string \<Rightarrow> (string \<times> json) list \<Rightarrow> draft" where
  "decision_draft account sess decision_id key ty details =
     (draft_event key (s_session_date sess) (session_decision_at sess) ty (acc_base_currency account) details)
     \<lparr>dr_decision_id := Some decision_id\<rparr>"

definition append_halt ::
  "env \<Rightarrow> account \<Rightarrow> session \<Rightarrow> string \<Rightarrow> string \<Rightarrow> string \<Rightarrow> (ledger, unit) prog" where
  "append_halt env account sess decision_id fingerprint cause =
     bindS (readS (event_for_idempotency env (''decision:'' @ decision_id))) (\<lambda>existing.
     bindS (if existing \<noteq> None then returnS ()
            else bindS (append_event env (decision_draft account sess decision_id (''decision:'' @ decision_id) ''decision''
                   [(''status'', JStr ''halted''), (''input_fingerprint'', JStr fingerprint), (''reason'', JStr cause)]))
                 (\<lambda>_. returnS ())) (\<lambda>_.
     bindS (append_event env (decision_draft account sess decision_id (''halt:'' @ decision_id) ''halt''
              [(''status'', JStr ''halted''), (''reason'', JStr cause)])) (\<lambda>_.
     returnS ())))"

definition approve_paper_decision ::
  "env \<Rightarrow> string \<Rightarrow> bool \<Rightarrow> datetime option \<Rightarrow> (ledger, event) prog" where
  "approve_paper_decision env decision_id approved event_at =
     bindS (readS load_account) (\<lambda>account.
     bindS (readS (ledger_events env)) (\<lambda>events.
     case find (\<lambda>e. ev_decision_id e = Some decision_id \<and> ev_event_type e = ''decision'') events of
       None \<Rightarrow> raiseS PaperLedgerError (''decision does not exist: '' @ decision_id)
     | Some decision \<Rightarrow>
         bindS (liftS (account_date (ev_session_date decision))) (\<lambda>session_date.
         bindS (liftS (case event_at of
                  Some t \<Rightarrow> Inr t
                | None \<Rightarrow> (case parse_datetime (ev_event_at decision) of
                    None \<Rightarrow> raise PyValueError ''Invalid isoformat string'' | Some t \<Rightarrow> Inr t))) (\<lambda>t.
         append_event env ((draft_event (''approval:'' @ decision_id) session_date t
            (if approved then ''approval'' else ''manual_rejection'') (acc_base_currency account)
            [(''approved'', JBool approved), (''operator'', JStr ''manual'')])
            \<lparr>dr_decision_id := Some decision_id\<rparr>)))))"

section \<open>Reconciliation and rebuild\<close>

definition balances :: "event \<Rightarrow> bool" where
  "balances e \<longleftrightarrow> ev_nav_base e = Some (decimal_string (dadd prec (dec_or_zero (ev_cash_base e))
     (dec_or_zero (ev_positions_value_base e))))"

record reconciliation =
  rc_status :: string
  rc_account_id :: string
  rc_event_count :: nat
  rc_valuation_count :: nat
  rc_issues :: "string list"

definition reconcile_paper_account :: "env \<Rightarrow> ledger \<Rightarrow> reconciliation result" where
  "reconcile_paper_account env L =
     bindR (ledger_events env L) (\<lambda>events.
     bindR (rebuild_state env L) (\<lambda>state.
     (let valuations = filter (\<lambda>e. ev_event_type e = ''valuation'') events;
          issues = (if ps_nav_base state \<noteq> dadd prec (ps_cash_base state) (ps_positions_value_base state)
                    then [''latest valuation does not balance cash and positions''] else [])
            @ map (\<lambda>e. ''valuation event '' @ ev_event_id e @ '' does not balance'')
                (filter (\<lambda>e. \<not> balances e) valuations) in
      Inr \<lparr>rc_status = (if issues = [] then ''passed'' else ''failed''), rc_account_id = l_account_id L,
           rc_event_count = length events, rc_valuation_count = length valuations, rc_issues = issues\<rparr>)))"

definition amounts_json :: "(string, dec) dict \<Rightarrow> json" where
  "amounts_json d = JObj (map (\<lambda>(k, v). (k, JStr (decimal_string v)))
     (filter (\<lambda>(_, v). v \<noteq> 0) (sorted_items d)))"

definition rebuild_paper_account :: "env \<Rightarrow> ledger \<Rightarrow> json result" where
  "rebuild_paper_account env L =
     bindR (load_account L) (\<lambda>_.
     bindR (rebuild_state env L) (\<lambda>state.
     bindR (ledger_events env L) (\<lambda>events.
     Inr (JObj [(''account_id'', JStr (l_account_id L)), (''event_count'', JInt (int (length events))),
       (''last_sequence'', JInt (int (length events))),
       (''cash_by_currency'', amounts_json (ps_cash_by_currency state)),
       (''quantities'', amounts_json (ps_quantities state)),
       (''nav_base'', JStr (decimal_string (ps_nav_base state))),
       (''cash_base'', JStr (decimal_string (ps_cash_base state))),
       (''positions_value_base'', JStr (decimal_string (ps_positions_value_base state))),
       (''peak_nav_base'', JStr (decimal_string (ps_peak_nav_base state)))]))))"

definition create_paper_account :: "env \<Rightarrow> json \<Rightarrow> (ledger, string \<times> string \<times> nat) prog" where
  "create_paper_account env doc =
     bindS (liftS (validate_paper_account doc)) (\<lambda>normalized.
     bindS (initialize env (account_json normalized)) (\<lambda>_.
     bindS (readS (ledger_events env)) (\<lambda>events.
     returnS (acc_account_id normalized, paper_account_sha256 env normalized, length events))))"

section \<open>The report\<close>

definition render_order ::
  "(string, bool) dict \<Rightarrow> string list \<Rightarrow> (string \<times> json) list \<Rightarrow> (string \<times> json) list result" where
  "render_order approvals fills raw =
     bindR (bindR (jget raw ''order_id'') (\<lambda>v. member_of v fills)) (\<lambda>filled.
     if filled then Inr (dset ''status'' (JStr ''filled'') raw)
     else
     bindR (jget raw ''decision_id'') (\<lambda>v.
     bindR (member_of v (map fst approvals)) (\<lambda>decided.
     Inr (if decided
          then dset ''status'' (JStr (case v of JStr d \<Rightarrow> if map_of approvals d = Some True then ''approved'' else ''rejected''
                 | _ \<Rightarrow> ''rejected'')) raw
          else raw))))"

definition report_risk ::
  "account \<Rightarrow> session \<Rightarrow> json \<Rightarrow> event list \<Rightarrow> json option \<Rightarrow> string list \<Rightarrow> json" where
  "report_risk account sess status events risk warnings =
     (let policy = JStr (rp_version (acc_risk_policy account));
          checked = JStr (timestamp (session_decision_at sess));
          published = map (\<lambda>e. map_of (ev_details e) ''risk'') (filter (\<lambda>e. ev_event_type e = ''target_published'') events);
          derived = find (\<lambda>v. case v of Some (JObj _) \<Rightarrow> True | _ \<Rightarrow> False) published in
      case risk of Some given \<Rightarrow> given
      | None \<Rightarrow>
      (case derived of Some (Some verdict) \<Rightarrow> verdict
       | _ \<Rightarrow>
         if status = JStr ''no_op''
         then JObj [(''status'', JStr ''approved''), (''policy_version'', policy), (''codes'', JArr []),
                (''reasons'', JArr []), (''checked_at'', checked)]
         else JObj [(''status'', JStr ''halted''), (''policy_version'', policy), (''codes'', strings_json [''halted'']),
                (''reasons'', strings_json (if warnings = [] then [''decision halted''] else warnings)),
                (''checked_at'', checked)]))"

text \<open>The decision status and the approval that a report shows.\<close>

definition decision_status :: "event list \<Rightarrow> json" where
  "decision_status es =
     (case find (\<lambda>e. ev_event_type e = ''decision'') es of
        None \<Rightarrow> JStr ''halted'' | Some e \<Rightarrow> dget (ev_details e) ''status'' (JStr ''halted''))"

definition shown_status :: "json \<Rightarrow> json list \<Rightarrow> json" where
  "shown_status status order_statuses =
     (if status = JStr ''approved'' \<and> JStr ''proposed'' \<in> set order_statuses then JStr ''proposed''
      else if status = JStr ''approved'' \<and> order_statuses = [] then JStr ''no_op'' else status)"

definition shown_approval :: "account \<Rightarrow> (string, bool) dict \<Rightarrow> string \<Rightarrow> json list \<Rightarrow> string" where
  "shown_approval account approvals decision_id order_statuses =
     (if order_statuses = [] then ''not_required''
      else case map_of approvals decision_id of
        None \<Rightarrow> ''pending''
      | Some True \<Rightarrow> if acc_approval_mode account = ''auto'' then ''auto_approved'' else ''approved''
      | Some False \<Rightarrow> ''rejected'')"

definition gross_exposure :: "portfolio_state \<Rightarrow> dec" where
  "gross_exposure state =
     (if ps_nav_base state = 0 then 0 else dquot prec (ps_positions_value_base state) (ps_nav_base state))"

definition drawdown :: "portfolio_state \<Rightarrow> dec" where
  "drawdown state =
     (if ps_peak_nav_base state = 0 then 0
      else max 0 (dquot prec (dsub prec (ps_peak_nav_base state) (ps_nav_base state)) (ps_peak_nav_base state)))"

definition report_sequences :: "event list \<Rightarrow> date \<Rightarrow> int list" where
  "report_sequences events session_date =
     (let own = map ev_sequence (filter (\<lambda>e. ev_session_date e = isoformat session_date) events)
      in if own = [] then [ev_sequence (last events)] else own)"

definition report_id_of :: "env \<Rightarrow> account \<Rightarrow> session \<Rightarrow> string \<Rightarrow> string" where
  "report_id_of env account sess fingerprint =
     env_uuid5 env report_namespace (acc_account_id account @ '':'' @ isoformat (s_session_date sess) @ '':'' @ fingerprint
       @ (if session_decision_at sess \<noteq> s_close_at sess then '':'' @ timestamp (session_decision_at sess) else []))"

definition report_from_events ::
  "env \<Rightarrow> account \<Rightarrow> session \<Rightarrow> string \<Rightarrow> string \<Rightarrow> string \<Rightarrow> json option \<Rightarrow> string list \<Rightarrow> ledger \<Rightarrow> json result" where
  "report_from_events env account sess decision_id fingerprint recorded_at risk warnings L =
     bindR (ledger_events env L) (\<lambda>events.
     (let own = decision_events events decision_id;
          status = decision_status own;
          raw_orders = List.map_filter event_order (filter (\<lambda>e. ev_event_type e = ''order'') own);
          approvals = approved_by_decision events;
          fills = List.map_filter (\<lambda>e. nonempty_text (ev_order_id e)) (filter (\<lambda>e. ev_event_type e = ''fill'') events) in
     bindR (mapR (render_order approvals fills) raw_orders) (\<lambda>orders.
     bindR (rebuild_state env L) (\<lambda>state.
     bindR (if status = JStr ''approved'' then mapR (\<lambda>ob. jget ob ''status'') orders
            else Inr (map (\<lambda>ob. dget ob ''status'' JNull) orders)) (\<lambda>statuses.
     bindR (reconcile_paper_account env L) (\<lambda>reconciled.
     (let sequences = report_sequences events (s_session_date sess) in
     Inr (JObj ([(''schema_version'', JStr paper_schema_version),
       (''report_id'', JStr (report_id_of env account sess fingerprint)),
       (''account_id'', JStr (acc_account_id account)), (''session_date'', JStr (isoformat (s_session_date sess))),
       (''recorded_at'', JStr recorded_at), (''decision_id'', JStr decision_id),
       (''input_fingerprint'', JStr fingerprint), (''decision_status'', shown_status status statuses),
       (''risk'', report_risk account sess status own risk warnings),
       (''approval'', JStr (shown_approval account approvals decision_id statuses)),
       (''orders'', JArr (map JObj orders)),
       (''nav_base'', JStr (decimal_string (ps_nav_base state))),
       (''cash_base'', JStr (decimal_string (ps_cash_base state))),
       (''positions_value_base'', JStr (decimal_string (ps_positions_value_base state))),
       (''gross_exposure'', JStr (decimal_string (gross_exposure state))),
       (''drawdown'', JStr (decimal_string (drawdown state))),
       (''ledger_sequence_start'', JInt (Min (set sequences))),
       (''ledger_sequence_end'', JInt (Max (set sequences))),
       (''reconciled'', JBool (rc_status reconciled = ''passed''))]
       @ (if warnings = [] then [] else [(''warnings'', strings_json warnings)]))))))))))"

definition publish_report ::
  "env \<Rightarrow> datetime \<Rightarrow> account \<Rightarrow> session \<Rightarrow> string \<Rightarrow> string \<Rightarrow> string list \<Rightarrow> (ledger, json) prog" where
  "publish_report env recorded account sess decision_id fingerprint warnings =
     bindS (readS (report_from_events env account sess decision_id fingerprint (timestamp recorded) None warnings)) (\<lambda>report.
     bindS (write_report env (isoformat (s_session_date sess)) report) (\<lambda>_.
     returnS report))"

section \<open>A session\<close>

definition decision_due :: "account \<Rightarrow> date \<Rightarrow> date option \<Rightarrow> bool" where
  "decision_due account current_date last_decision \<longleftrightarrow>
     (let parameter = pm_rebalance_frequency (st_parameters (acc_strategy account)) in
      last_decision = None
      \<or> st_name (acc_strategy account) = ''buy_and_hold''
      \<or> rebalance_frequency account = ''daily''
      \<or> (parameter = Some ''weekly'' \<and> (case last_decision of None \<Rightarrow> True
           | Some d \<Rightarrow> iso_year_week current_date \<noteq> iso_year_week d))
      \<or> (parameter = Some ''monthly'' \<and> (case last_decision of None \<Rightarrow> True
           | Some d \<Rightarrow> dt_month current_date \<noteq> dt_month d \<or> dt_year current_date \<noteq> dt_year d)))"

definition append_no_op ::
  "env \<Rightarrow> account \<Rightarrow> session \<Rightarrow> string \<Rightarrow> string \<Rightarrow> string option \<Rightarrow> (ledger, unit) prog" where
  "append_no_op env account sess decision_id cause target_id =
     bindS (append_event env ((decision_draft account sess decision_id (''no-op:'' @ decision_id) ''no_op''
        [(''reason'', JStr cause)])\<lparr>dr_target_id := target_id\<rparr>)) (\<lambda>_. returnS ())"

definition record_order ::
  "env \<Rightarrow> account \<Rightarrow> session \<Rightarrow> string \<Rightarrow> string \<Rightarrow> order \<Rightarrow> (ledger, unit) prog" where
  "record_order env account sess decision_id target_id y =
     bindS (readS (\<lambda>L. Inr (l_account_id L))) (\<lambda>account_id.
     bindS (write_order env (or_order_id y) (JObj (order_items y))) (\<lambda>order_hash.
     bindS (append_event env ((decision_draft account sess decision_id (''order:'' @ or_order_id y) ''order''
         [(''order'', JObj (order_items y)),
          (''path'', JStr (''accounts/'' @ account_id @ ''/orders/order-'' @ or_order_id y @ ''.json'')),
          (''sha256'', JStr order_hash)])
         \<lparr>dr_currency := or_currency y, dr_target_id := Some target_id, dr_order_id := Some (or_order_id y),
          dr_security_id := Some (or_security_id y)\<rparr>)) (\<lambda>_.
     returnS ())))"

text \<open>What is recorded of a target and its verdict, up to the verdict.\<close>

definition record_target ::
  "env \<Rightarrow> (reason \<Rightarrow> string) \<Rightarrow> account \<Rightarrow> session \<Rightarrow> string \<Rightarrow> string \<Rightarrow> target \<Rightarrow> risk_verdict \<Rightarrow> (ledger, unit) prog" where
  "record_target env say account sess decision_id fingerprint target risk =
     (let target_id = tg_target_id target; approved = (rv_status risk = ''approved'') in
     bindS (readS (\<lambda>L. Inr (l_account_id L))) (\<lambda>account_id.
     bindS (write_target env target_id (target_json say (target\<lparr>tg_risk := risk\<rparr>))) (\<lambda>target_hash.
     bindS (append_event env ((decision_draft account sess decision_id (''decision:'' @ decision_id) ''decision''
         [(''status'', JStr (if approved then ''approved'' else ''rejected'')),
          (''input_fingerprint'', JStr fingerprint), (''target_id'', JStr target_id), (''target_sha256'', JStr target_hash)])
         \<lparr>dr_target_id := Some target_id\<rparr>)) (\<lambda>_.
     bindS (append_event env ((decision_draft account sess decision_id (''target:'' @ target_id) ''target_published''
         [(''path'', JStr (''accounts/'' @ account_id @ ''/targets/target-'' @ target_id @ ''.json'')),
          (''sha256'', JStr target_hash), (''risk'', JObj (verdict_items say risk))])
         \<lparr>dr_target_id := Some target_id\<rparr>)) (\<lambda>_.
     bindS (append_event env ((decision_draft account sess decision_id (''risk:'' @ decision_id)
         (if approved then ''risk_approved'' else ''risk_rejected'') (verdict_items say risk))
         \<lparr>dr_target_id := Some target_id\<rparr>)) (\<lambda>_.
     returnS ()))))))"

definition rebalance ::
  "env \<Rightarrow> (reason \<Rightarrow> string) \<Rightarrow> account \<Rightarrow> inputs \<Rightarrow> session list \<Rightarrow> nat \<Rightarrow> session \<Rightarrow> portfolio_state \<Rightarrow> string
    \<Rightarrow> string \<Rightarrow> (ledger, unit) prog" where
  "rebalance env say account inp sessions session_index sess state decision_id fingerprint =
     bindS (liftS (build_target env account inp sessions session_index state 1 (Some decision_id))) (\<lambda>target.
     bindS (liftS (target_orders env account inp sessions session_index target state)) (\<lambda>orders.
     bindS (liftS (assess_target env account inp sessions session_index state target orders)) (\<lambda>risk.
     bindS (record_target env say account sess decision_id fingerprint target risk) (\<lambda>_.
     if rv_status risk \<noteq> ''approved'' then returnS ()
     else
     bindS (forS orders (record_order env account sess decision_id (tg_target_id target))) (\<lambda>_.
     if orders = [] then append_no_op env account sess decision_id ''target_matches_projection'' (Some (tg_target_id target))
     else if acc_approval_mode account = ''auto''
     then bindS (approve_paper_decision env decision_id True (Some (session_decision_at sess))) (\<lambda>_. returnS ())
     else returnS ())))))"

definition decide_session ::
  "env \<Rightarrow> (reason \<Rightarrow> string) \<Rightarrow> account \<Rightarrow> inputs \<Rightarrow> session list \<Rightarrow> nat \<Rightarrow> session \<Rightarrow> portfolio_state \<Rightarrow> string
    \<Rightarrow> string \<Rightarrow> (ledger, unit) prog" where
  "decide_session env say account inp sessions session_index sess state decision_id fingerprint =
     bindS (readS (event_for_idempotency env (''decision:'' @ decision_id))) (\<lambda>existing.
     if existing \<noteq> None then returnS ()
     else if \<not> decision_due account (s_session_date sess) (ps_last_decision_session state)
     then bindS (append_event env (decision_draft account sess decision_id (''decision:'' @ decision_id) ''decision''
            [(''status'', JStr ''no_op''), (''input_fingerprint'', JStr fingerprint), (''rebalance_due'', JBool False)])) (\<lambda>_.
          append_no_op env account sess decision_id ''rebalance_not_due'' None)
     else rebalance env say account inp sessions session_index sess state decision_id fingerprint)"

definition session_cycle ::
  "env \<Rightarrow> (reason \<Rightarrow> string) \<Rightarrow> account \<Rightarrow> inputs \<Rightarrow> session list \<Rightarrow> nat \<Rightarrow> session \<Rightarrow> string \<Rightarrow> string
    \<Rightarrow> (ledger, unit) prog" where
  "session_cycle env say account inp sessions session_index sess decision_id fingerprint =
     bindS (apply_actions env account inp sess) (\<lambda>_.
     bindS (settle_orders env account inp sess) (\<lambda>_.
     bindS (readS (rebuild_state env)) (\<lambda>settled.
     bindS (append_valuation env account inp settled sess decision_id) (\<lambda>state.
     decide_session env say account inp sessions session_index sess state decision_id fingerprint))))"

definition halting_errors :: "exn_class set" where
  "halting_errors = {PaperMissingDataError, BacktestInputError, PortfolioError, PortfolioStateError}"

definition session_body ::
  "env \<Rightarrow> (reason \<Rightarrow> string) \<Rightarrow> datetime \<Rightarrow> account \<Rightarrow> inputs \<Rightarrow> session list \<Rightarrow> nat \<Rightarrow> session \<Rightarrow> string \<Rightarrow> string
    \<Rightarrow> (ledger, json) prog" where
  "session_body env say recorded account inp sessions session_index sess decision_id fingerprint =
     tryS (bindS (session_cycle env say account inp sessions session_index sess decision_id fingerprint) (\<lambda>_.
             publish_report env recorded account sess decision_id fingerprint []))
       halting_errors
       (\<lambda>e. bindS (append_halt env account sess decision_id fingerprint (exn_message e)) (\<lambda>_.
             publish_report env recorded account sess decision_id fingerprint [exn_message e]))"

text \<open>A report that is there is the answer, provided that it was made at the same clock.\<close>

definition recorded_report :: "date \<Rightarrow> string \<Rightarrow> json \<Rightarrow> json result" where
  "recorded_report current_date expected_checked_at report =
     (case report of
        JObj ob \<Rightarrow>
          (case map_of ob ''risk'' of
             Some (JObj risk) \<Rightarrow>
               if map_of risk ''checked_at'' = Some (JStr expected_checked_at) then Inr report
               else raise PaperConflictError
                 (''paper report already exists with a different decision clock: '' @ isoformat current_date)
           | _ \<Rightarrow> raise PaperConflictError
                 (''paper report already exists with a different decision clock: '' @ isoformat current_date))
      | _ \<Rightarrow> raise PyTypeError ''report is not an object'')"

definition run_paper_session ::
  "env \<Rightarrow> (reason \<Rightarrow> string) \<Rightarrow> data_root \<Rightarrow> datetime \<Rightarrow> datetime \<Rightarrow> json \<Rightarrow> session_argument \<Rightarrow> clock_argument
    \<Rightarrow> json option \<Rightarrow> (ledger, json) prog" where
  "run_paper_session env say fs now recorded doc day clock_value input_references =
     bindS (liftS (account_with_session_inputs env doc input_references)) (\<lambda>(persisted_spec, normalized).
     bindS (readS load_account) (\<lambda>persisted.
     if persisted \<noteq> persisted_spec
     then raiseS PaperConflictError ''supplied paper account differs from immutable ledger account''
     else
     bindS (liftS (session_argument_date day)) (\<lambda>current_date.
     bindS (liftS (load_paper_inputs fs (acc_inputs normalized))) (\<lambda>inp.
     bindS (liftS (sessions_for_account normalized inp)) (\<lambda>base_sessions.
     bindS (liftS (session_index_of base_sessions current_date)) (\<lambda>k.
     bindS (liftS (resolve_decision_at now clock_value (base_sessions ! k))) (\<lambda>resolved.
     (let sess = (base_sessions ! k)\<lparr>s_decision_at := Some resolved\<rparr>;
          sessions = base_sessions[k := sess];
          fingerprint = input_fingerprint env (acc_inputs normalized);
          decision_id = decision_id_of env (acc_account_id normalized) current_date fingerprint
            (if resolved = s_close_at sess then None else Some resolved) in
     bindS (readS (\<lambda>L. Inr (read_report (isoformat current_date) L))) (\<lambda>existing_report.
     case existing_report of
       Some report \<Rightarrow> liftS (recorded_report current_date (timestamp resolved) report)
     | None \<Rightarrow> session_body env say recorded normalized inp sessions k sess decision_id fingerprint)))))))))"

definition read_paper_report :: "string \<Rightarrow> ledger \<Rightarrow> json result" where
  "read_paper_report session_date L =
     (case read_report session_date L of
        None \<Rightarrow> ledger_error (''paper report does not exist for '' @ session_date)
      | Some report \<Rightarrow> Inr report)"

end
