(* ===== verification/Paper_Acceptance.thy ===== *)
theory Paper_Acceptance
  imports Paper_Session
begin

text \<open>
  The acceptance report of a paper account (\<open>research/paper.py\<close>): the strict reading of its session
  reports, the replay of the last session, and the comparison with a restored copy. A copy of an account
  directory is the same ledger value; symbolic links and file-system errors are not modelled.
\<close>

section \<open>The files of an account\<close>

definition tree_entry :: "env \<Rightarrow> string \<Rightarrow> string \<times> json \<Rightarrow> string \<times> string" where
  "tree_entry env directory = (\<lambda>(name, doc). (directory @ name, file_sha256 env doc))"

definition ledger_tree_fingerprint :: "env \<Rightarrow> ledger \<Rightarrow> (string \<times> string) list" where
  "ledger_tree_fingerprint env L =
     sort ((case l_account L of None \<Rightarrow> [] | Some doc \<Rightarrow> [tree_entry env [] (''account.json'', doc)])
       @ (case l_manifest L of None \<Rightarrow> [] | Some doc \<Rightarrow> [tree_entry env [] (''ledger-manifest.json'', doc)])
       @ map (tree_entry env ''events/'') (l_events L) @ map (tree_entry env ''targets/'') (l_targets L)
       @ map (tree_entry env ''orders/'') (l_orders L) @ map (tree_entry env ''reports/'') (l_reports L))"

section \<open>Session reports\<close>

definition report_required_fields :: "string list" where
  "report_required_fields = [''schema_version'', ''report_id'', ''account_id'', ''session_date'', ''decision_id'',
     ''input_fingerprint'', ''decision_status'', ''risk'', ''approval'', ''orders'', ''nav_base'', ''cash_base'',
     ''positions_value_base'', ''gross_exposure'', ''drawdown'', ''ledger_sequence_start'', ''ledger_sequence_end'',
     ''reconciled'']"

definition report_statuses :: "string list" where
  "report_statuses = [''proposed'', ''approved'', ''rejected'', ''halted'', ''no_op'', ''settled'']"

definition forward_statuses :: "string list" where
  "forward_statuses = [''proposed'', ''approved'', ''rejected'', ''no_op'', ''settled'']"

text \<open>\<open>report-YYYY-MM-DD.json\<close>\<close>

definition report_file_date :: "string \<Rightarrow> date result" where
  "report_file_date name =
     (let day = take 10 (drop 7 name);
          digits = take 4 day @ take 2 (drop 5 day) @ drop 8 day in
      if \<not> (length name = 22 \<and> take 7 name = ''report-'' \<and> drop 17 name = ''.json'' \<and> day ! 4 = CHR ''-''
            \<and> day ! 7 = CHR ''-'' \<and> list_all is_digit digits)
      then ledger_error (''paper report filename is invalid: '' @ name)
      else case parse_date day of
        None \<Rightarrow> ledger_error (''paper report filename contains an invalid date: '' @ name)
      | Some d \<Rightarrow> Inr d)"

definition report_sequence :: "(string \<times> json) list \<Rightarrow> string \<Rightarrow> string \<Rightarrow> int result" where
  "report_sequence ob name field =
     bindR (jget ob field) (\<lambda>v. case v of
       JInt i \<Rightarrow> if i < 1 then ledger_error (''paper report '' @ field @ '' is invalid: '' @ name) else Inr i
     | _ \<Rightarrow> ledger_error (''paper report '' @ field @ '' is invalid: '' @ name))"

definition valid_warnings :: "json \<Rightarrow> bool" where
  "valid_warnings v =
     (case v of JArr vs \<Rightarrow> list_all (\<lambda>w. case w of JStr s \<Rightarrow> s \<noteq> [] | _ \<Rightarrow> False) vs | _ \<Rightarrow> False)"

text \<open>The checks of one report against the events of its session.\<close>

definition check_report_events ::
  "string \<Rightarrow> (string \<times> json) list \<Rightarrow> int \<Rightarrow> int \<Rightarrow> event list \<Rightarrow> unit result" where
  "check_report_events name ob sequence_start sequence_end events =
     (let own = filter (\<lambda>e. map_of ob ''session_date'' = Some (JStr (ev_session_date e))) events;
          sequences = map ev_sequence own in
     bindR (ensure (own \<noteq> []) (Exn PaperLedgerError (''paper report has no ledger events for its session: '' @ name))) (\<lambda>_.
     bindR (ensure (sequence_start = Min (set sequences) \<and> sequence_end \<le> Max (set sequences)
                \<and> sequence_end \<in> set sequences)
              (Exn PaperLedgerError (''paper report ledger sequence does not match its events: '' @ name))) (\<lambda>_.
     ensure (\<exists>e \<in> set own. ev_event_type e = ''decision'' \<and> map_of ob ''decision_id'' = Some (text_json (ev_decision_id e)))
       (Exn PaperLedgerError (''paper report decision is not present in its ledger session: '' @ name)))))"

definition acceptance_report_of ::
  "account \<Rightarrow> event list \<Rightarrow> date \<Rightarrow> date \<Rightarrow> string \<times> json \<Rightarrow> (string \<times> json) list result" where
  "acceptance_report_of account events period_start period_end = (\<lambda>(name, doc).
     (let refuse = (\<lambda>ok message. ensure ok (Exn PaperLedgerError (message @ name))) in
     bindR (report_file_date name) (\<lambda>session_date.
     bindR (refuse (period_start \<le> session_date \<and> session_date \<le> period_end)
              ''paper report is outside the account period: '') (\<lambda>_.
     case doc of JObj ob \<Rightarrow>
     bindR (refuse (set report_required_fields \<subseteq> set (jkeys ob)
                \<and> set (jkeys ob) \<subseteq> set report_required_fields \<union> {''recorded_at'', ''warnings''})
              ''paper report has an invalid field set: '') (\<lambda>_.
     bindR (refuse (map_of ob ''schema_version'' = Some (JStr paper_schema_version)
                \<and> map_of ob ''account_id'' = Some (JStr (acc_account_id account)))
              ''paper report identity is invalid: '') (\<lambda>_.
     bindR (refuse (map_of ob ''session_date'' = Some (JStr (isoformat session_date)))
              ''paper report session does not match its filename: '') (\<lambda>_.
     bindR (bindR (jget ob ''report_id'') (check_uuid PaperSpecError ''paper report.report_id'')) (\<lambda>_.
     bindR (bindR (jget ob ''decision_id'') (check_uuid PaperSpecError ''paper report.decision_id'')) (\<lambda>_.
     bindR (bindR (jget ob ''input_fingerprint'') (spec_sha ''paper report.input_fingerprint'')) (\<lambda>_.
     bindR (bindR (jget ob ''decision_status'') (\<lambda>v. member_of v report_statuses)) (\<lambda>supported.
     bindR (refuse supported ''paper report decision status is unsupported: '') (\<lambda>_.
     bindR (refuse (map_of ob ''reconciled'' = Some (JBool True)) ''paper report is not reconciled: '') (\<lambda>_.
     bindR (case map_of ob ''recorded_at'' of None \<Rightarrow> Inr ()
            | Some v \<Rightarrow> (case spec_utc ''paper report.recorded_at'' v of
                Inr _ \<Rightarrow> Inr ()
              | Inl e \<Rightarrow> if exn_kind e = PaperSpecError
                  then ledger_error (''paper report recorded_at is invalid: '' @ name) else Inl e)) (\<lambda>_.
     bindR (report_sequence ob name ''ledger_sequence_start'') (\<lambda>sequence_start.
     bindR (report_sequence ob name ''ledger_sequence_end'') (\<lambda>sequence_end.
     bindR (check_report_events name ob sequence_start sequence_end events) (\<lambda>_.
     bindR (refuse (case map_of ob ''warnings'' of None \<Rightarrow> True | Some v \<Rightarrow> valid_warnings v)
              ''paper report warnings are invalid: '') (\<lambda>_.
     Inr ob))))))))))))))
     | _ \<Rightarrow> ledger_error (''paper report is not an object: '' @ name)))))"

definition acceptance_reports :: "account \<Rightarrow> event list \<Rightarrow> ledger \<Rightarrow> (string \<times> json) list list result" where
  "acceptance_reports account events L =
     (if \<not> l_used L then ledger_error ''paper reports directory does not exist''
      else if l_reports L = [] then ledger_error (''paper account has no session reports: '' @ l_account_id L)
      else
     bindR (account_date (acc_start_date account)) (\<lambda>period_start.
     bindR (account_date (acc_end_date account)) (\<lambda>period_end.
     mapR (acceptance_report_of account events period_start period_end) (sorted_items (l_reports L)))))"

section \<open>The acceptance report\<close>

record acceptance =
  ap_forward_sessions :: bool
  ap_duplicate_auto_cycle :: bool
  ap_rebuild_exact :: bool
  ap_backup_restore :: bool
  ap_reconciliation :: bool

definition acceptance_passed :: "acceptance \<Rightarrow> bool" where
  "acceptance_passed a \<longleftrightarrow> ap_forward_sessions a \<and> ap_duplicate_auto_cycle a \<and> ap_rebuild_exact a
     \<and> ap_backup_restore a \<and> ap_reconciliation a"

definition report_status_in :: "string list \<Rightarrow> (string \<times> json) list \<Rightarrow> bool" where
  "report_status_in statuses ob \<longleftrightarrow> (\<exists>s \<in> set statuses. map_of ob ''decision_status'' = Some (JStr s))"

text \<open>The clock of the replay: whatever the last report says.\<close>

definition replay_clock :: "json \<Rightarrow> clock_argument" where
  "replay_clock v = (case v of JNull \<Rightarrow> Clock_Default | JStr s \<Rightarrow> Clock_Text s | _ \<Rightarrow> Clock_Other)"

definition replay_checked_at :: "(string \<times> json) list \<Rightarrow> json result" where
  "replay_checked_at ob =
     bindR (jget ob ''risk'') (\<lambda>v. case v of JObj risk \<Rightarrow> jget risk ''checked_at''
       | _ \<Rightarrow> raise PyTypeError ''report risk is not an object'')"

definition same_field :: "string \<Rightarrow> json \<Rightarrow> (string \<times> json) list \<Rightarrow> bool result" where
  "same_field field rebuilt ob =
     (case rebuilt of
        JObj items \<Rightarrow> bindR (jget items field) (\<lambda>a. bindR (jget ob field) (\<lambda>b. Inr (same_json a b)))
      | _ \<Rightarrow> raise PyTypeError ''rebuild is not an object'')"

text \<open>\<open>dict(sorted(Counter(...).items()))\<close> of the event types.\<close>

definition event_type_counts :: "event list \<Rightarrow> (string \<times> json) list" where
  "event_type_counts events =
     map (\<lambda>ty. (ty, JInt (int (length (filter (\<lambda>e. ev_event_type e = ty) events)))))
       (sorted_set (map ev_event_type events))"

definition reconciliation_json :: "reconciliation \<Rightarrow> json" where
  "reconciliation_json r = JObj [(''status'', JStr (rc_status r)), (''account_id'', JStr (rc_account_id r)),
     (''event_count'', JInt (int (rc_event_count r))), (''valuation_count'', JInt (int (rc_valuation_count r))),
     (''issues'', strings_json (rc_issues r))]"

definition acceptance_json :: "acceptance \<Rightarrow> json" where
  "acceptance_json a = JObj [(''forward_sessions'', JBool (ap_forward_sessions a)),
     (''duplicate_auto_cycle'', JBool (ap_duplicate_auto_cycle a)), (''rebuild_exact'', JBool (ap_rebuild_exact a)),
     (''backup_restore'', JBool (ap_backup_restore a)), (''reconciliation'', JBool (ap_reconciliation a))]"

definition acceptance_document ::
  "account \<Rightarrow> event list \<Rightarrow> (string \<times> json) list list \<Rightarrow> (string \<times> json) list \<Rightarrow> acceptance \<Rightarrow> json
    \<Rightarrow> reconciliation \<Rightarrow> json" where
  "acceptance_document account events reports latest_report flags rebuilt reconciled =
     (let counted = (\<lambda>statuses. JInt (int (length (filter (report_status_in statuses) reports)))) in
      JObj [(''schema_version'', JStr paper_schema_version),
       (''status'', JStr (if acceptance_passed flags then ''passed'' else ''attention'')),
       (''period'', JObj [(''start_date'', JStr (acc_start_date account)), (''end_date'', JStr (acc_end_date account))]),
       (''session_count'', JInt (int (length reports))),
       (''accounts'', JArr [JObj [(''account_id'', JStr (acc_account_id account)),
          (''strategy'', JStr (st_name (acc_strategy account))),
          (''strategy_version'', JStr (st_version (acc_strategy account))),
          (''sessions'', JInt (int (length reports))),
          (''rebalanced_sessions'', counted [''proposed'', ''approved'', ''rejected'']),
          (''no_op_sessions'', counted [''no_op'']),
          (''filled_orders'', JInt (int (length (filter (\<lambda>e. ev_event_type e = ''fill'') events)))),
          (''event_count'', JInt (int (length events))), (''event_types'', JObj (event_type_counts events)),
          (''final_report'', JObj latest_report)]]),
       (''acceptance'', acceptance_json flags), (''rebuild'', rebuilt),
       (''reconciliation'', reconciliation_json reconciled)])"

definition build_paper_acceptance_report ::
  "env \<Rightarrow> (reason \<Rightarrow> string) \<Rightarrow> data_root \<Rightarrow> datetime \<Rightarrow> datetime \<Rightarrow> json \<Rightarrow> (ledger, json) prog" where
  "build_paper_acceptance_report env say fs now recorded doc =
     bindS (liftS (validate_paper_account doc)) (\<lambda>normalized.
     bindS (readS load_account) (\<lambda>persisted.
     if persisted \<noteq> normalized
     then raiseS PaperConflictError ''supplied paper account differs from immutable ledger account''
     else
     bindS (readS (ledger_events env)) (\<lambda>events.
     bindS (readS (acceptance_reports normalized events)) (\<lambda>reports.
     (let latest_report = last reports in
     bindS (readS (\<lambda>L. Inr (ledger_tree_fingerprint env L))) (\<lambda>source_fingerprint.
     bindS (liftS (replay_checked_at latest_report)) (\<lambda>replay_decision_at.
     bindS (liftS (order_text latest_report ''session_date'')) (\<lambda>session_date.
     (let replay = run_paper_session env say fs now recorded (account_json normalized) (Day_Text session_date)
            (replay_clock replay_decision_at) None in
     bindS replay (\<lambda>first_replay.
     bindS replay (\<lambda>second_replay.
     bindS (readS (\<lambda>L. Inr (ledger_tree_fingerprint env L))) (\<lambda>replayed_fingerprint.
     bindS (readS (rebuild_paper_account env)) (\<lambda>rebuilt.
     bindS (readS (reconcile_paper_account env)) (\<lambda>reconciled.
     bindS (liftS (mapR (\<lambda>field. same_field field rebuilt latest_report)
              [''nav_base'', ''cash_base'', ''positions_value_base''])) (\<lambda>exact.
     (let flags = \<lparr>ap_forward_sessions = (reports \<noteq> [] \<and> list_all (\<lambda>ob. map_of ob ''reconciled'' = Some (JBool True)
              \<and> report_status_in forward_statuses ob) reports),
            ap_duplicate_auto_cycle = (source_fingerprint = replayed_fingerprint
              \<and> same_json first_replay (JObj latest_report) \<and> same_json second_replay (JObj latest_report)),
            ap_rebuild_exact = list_all id exact,
            ap_backup_restore = (source_fingerprint = replayed_fingerprint \<and> rc_status reconciled = ''passed''),
            ap_reconciliation = (rc_status reconciled = ''passed'')\<rparr> in
      returnS (acceptance_document normalized events reports latest_report flags rebuilt reconciled)))))))))))))))))"

end
