(* ===== verification/Example_Inputs.thy ===== *)
theory Example_Inputs
  imports Risk Input_Documents
begin

text \<open>
  One small account with two securities over two sessions, its documents and its files. The theorems
  of the development that have hypotheses are applied to it here, so that each hypothesis is seen to hold.
\<close>

section \<open>Documents\<close>

definition sec_a :: string where "sec_a = ''11111111-1111-4111-8111-111111111111''"
definition sec_b :: string where "sec_b = ''22222222-2222-4222-8222-222222222222''"
definition art_id :: "char \<Rightarrow> string" where
  "art_id c = replicate 8 c @ ''-'' @ replicate 4 c @ ''-4'' @ replicate 3 c @ ''-8'' @ replicate 3 c @ ''-'' @ replicate 12 c"

definition day1 :: date where "day1 = Date 2024 1 2"
definition day2 :: date where "day2 = Date 2024 1 3"
definition at_open :: "date \<Rightarrow> datetime" where "at_open d = Datetime d 14 30 0 0"
definition at_close :: "date \<Rightarrow> datetime" where "at_close d = Datetime d 21 0 0 0"
definition ex_published :: datetime where "ex_published = Datetime (Date 2024 1 4) 0 0 0 0"

text \<open>The row of the second day is there at its open, so that an order can be filled with it.\<close>

definition ex_seen :: "date \<Rightarrow> datetime" where "ex_seen d = (if d = day1 then at_close d else at_open d)"

definition ex_price :: "string \<Rightarrow> date \<Rightarrow> dec \<Rightarrow> dec \<Rightarrow> dec \<Rightarrow> dec \<Rightarrow> price_row" where
  "ex_price s d op hi lo cl = \<lparr>p_security_id = s, p_session_date = d, p_observed_at = ex_seen d,
     p_available_at = ex_seen d, p_currency = ''USD'', p_price_basis = ''raw'', p_open = op, p_high = hi,
     p_low = lo, p_close = cl, p_volume = 1000, p_has_volume = True, p_source_record_id = None\<rparr>"

definition ex_session :: "date \<Rightarrow> session" where
  "ex_session d = \<lparr>s_session_date = d, s_open_at = at_open d, s_close_at = at_close d,
     s_available_at = at_open day1, s_status = ''open'', s_decision_at = None\<rparr>"

definition ex_member :: "string \<Rightarrow> membership_row" where
  "ex_member s = \<lparr>m_security_id = s, m_valid_from = day1, m_valid_until = None, m_member = True,
     m_available_at = at_open day1, m_revision = 0\<rparr>"

definition envelope :: "string \<Rightarrow> string \<Rightarrow> json list \<Rightarrow> json" where
  "envelope kind uid rows = JObj [(''schema_version'', JStr ''1.0.0''), (''artifact_kind'', JStr kind),
     (''artifact_id'', JStr uid), (''available_at'', JStr (timestamp ex_published)), (''rows'', JArr rows)]"

definition ex_prices :: "price_row list" where
  "ex_prices = [ex_price sec_a day1 99 101 98 100, ex_price sec_b day1 50 52 49 50,
     ex_price sec_a day2 100 112 100 110, ex_price sec_b day2 50 50 44 45]"

definition ex_sessions :: "session list" where
  "ex_sessions = [ex_session day1, ex_session day2]"

definition ex_membership :: "membership_row list" where
  "ex_membership = [ex_member sec_a, ex_member sec_b]"

definition ex_ref :: "string \<Rightarrow> char \<Rightarrow> reference" where
  "ex_ref kind c = \<lparr>r_kind = kind, r_artifact_id = art_id c, r_path = kind, r_sha256 = replicate 64 CHR ''a'',
     r_available_at = timestamp ex_published, r_fitness = ''backtest_safe''\<rparr>"

lemma ex_ref_simps: "r_kind (ex_ref k c) = k" "r_path (ex_ref k c) = k" "r_fitness (ex_ref k c) = ''backtest_safe''"
  by (simp_all add: ex_ref_def)

definition ex_refs :: "reference list" where
  "ex_refs = [ex_ref ''calendar'' CHR ''b'', ex_ref ''membership'' CHR ''c'', ex_ref ''prices'' CHR ''a'']"

definition ex_root :: data_root where
  "ex_root = \<lparr>fs_resolve = (\<lambda>p. Inr p), fs_file = map_of
     [(''prices'', replicate 64 CHR ''a'', Inr (envelope ''prices'' (art_id CHR ''a'') (map price_doc ex_prices))),
      (''calendar'', replicate 64 CHR ''a'', Inr (envelope ''calendar'' (art_id CHR ''b'') (map session_doc ex_sessions))),
      (''membership'', replicate 64 CHR ''a'', Inr (envelope ''membership'' (art_id CHR ''c'') (map membership_doc ex_membership)))]\<rparr>"

definition ex_inputs :: "inputs" where
  "ex_inputs = \<lparr>i_artifacts =
     [(''calendar'', \<lparr>la_kind = ''calendar'', la_artifact_id = art_id CHR ''b'', la_path = ''calendar'',
         la_sha256 = replicate 64 CHR ''a'', la_available_at = ex_published, la_rows = CalendarRows ex_sessions\<rparr>),
      (''membership'', \<lparr>la_kind = ''membership'', la_artifact_id = art_id CHR ''c'', la_path = ''membership'',
         la_sha256 = replicate 64 CHR ''a'', la_available_at = ex_published, la_rows = MembershipRows ex_membership\<rparr>),
      (''prices'', \<lparr>la_kind = ''prices'', la_artifact_id = art_id CHR ''a'', la_path = ''prices'',
         la_sha256 = replicate 64 CHR ''a'', la_available_at = ex_published, la_rows = PriceRows ex_prices\<rparr>)],
     i_prices = ex_prices, i_calendar = ex_sessions, i_membership = ex_membership, i_corporate_actions = [],
     i_fx = [], i_risk_free = [], i_observations = []\<rparr>"

section \<open>Loading\<close>

lemmas ex_clocks = at_open_def at_close_def ex_published_def day1_def day2_def
lemmas ex_rows = ex_prices_def ex_price_def ex_seen_def ex_sessions_def ex_session_def ex_membership_def ex_member_def

lemma ex_uuids [simp]: "is_uuid sec_a" "is_uuid sec_b" "is_uuid (art_id CHR ''a'')" "is_uuid (art_id CHR ''b'')"
    "is_uuid (art_id CHR ''c'')" "is_uuid (art_id CHR ''d'')" "is_uuid (art_id CHR ''e'')"
  by (simp_all add: is_uuid_def sec_a_def sec_b_def art_id_def is_lower_hex_def is_digit_def numeral_eq_Suc)

lemma ex_secs [simp]: "sec_a \<noteq> sec_b" "sec_b \<noteq> sec_a" "sec_a < sec_b" "sec_a \<le> sec_b"
  by (simp_all add: sec_a_def sec_b_def)

lemma ex_valid [simp]: "valid_date day1" "valid_date day2" "valid_datetime (at_open day1)" "valid_datetime (at_open day2)"
    "valid_datetime (at_close day1)" "valid_datetime (at_close day2)" "valid_datetime ex_published"
  by (simp_all add: valid_datetime_def ex_clocks valid_date_def days_in_month_def)

lemma ex_dates [simp]: "day1 < day2" "day1 \<le> day2" "\<not> day2 \<le> day1" "\<not> day2 < day1" "day1 \<noteq> day2" "day2 \<noteq> day1"
  by (simp_all add: day1_def day2_def less_date_def less_eq_date_def)

lemma ex_times [simp]: "at_open day1 < at_close day1" "at_open day2 < at_close day2"
    "at_open day1 \<le> at_open day2" "at_open day1 \<le> at_close day1" "at_close day1 \<le> at_close day2"
    "at_open day1 \<le> at_close day2" "at_close day1 < at_open day2" "\<not> at_open day2 \<le> at_close day1" "\<not> ex_published < at_open day2"
    "\<not> at_close day2 \<le> at_close day1"
    "\<not> ex_published < at_close day1" "\<not> ex_published < at_close day2" "\<not> ex_published < at_open day1"
  by (simp_all add: less_datetime_def less_eq_datetime_def at_open_def at_close_def ex_published_def day1_def day2_def
      less_date_def less_eq_date_def)

lemma ex_usd [simp]: "is_currency ''USD''" "is_currency ''EUR''"
  by (simp_all add: is_currency_def is_upper_def)

lemma ex_writable: "\<forall>r \<in> set ex_prices. price_writable r \<and> p_price_basis r = ''raw''" "distinct (map price_key ex_prices)"
    "\<forall>s \<in> set ex_sessions. session_writable s" "distinct (map s_session_date ex_sessions)"
    "\<forall>r \<in> set ex_membership. membership_writable r" "distinct (map membership_key ex_membership)"
  by (simp_all add: ex_rows price_writable_def price_row_ok_def price_key_def session_writable_def session_ok_def
      membership_writable_def membership_ok_def membership_key_def)

lemma ex_parsed: "price_rows [''raw'', ''split_adjusted''] (map price_doc ex_prices) = Inr ex_prices"
    "calendar_rows (map session_doc ex_sessions) = Inr ex_sessions"
    "membership_rows (map membership_doc ex_membership) = Inr ex_membership"
  using price_rows_doc[OF ex_writable(1) _ ex_writable(2), of "[''raw'', ''split_adjusted'']"]
    calendar_rows_doc[OF ex_writable(3,4)] membership_rows_doc[OF ex_writable(5,6)]
  by (simp_all add: ex_rows)

lemma ex_available: "check_rows_available k ex_published (PriceRows ex_prices) = Inr ()"
    "check_rows_available k ex_published (CalendarRows ex_sessions) = Inr ()"
    "check_rows_available k ex_published (MembershipRows ex_membership) = Inr ()"
  by (simp_all add: check_rows_available_def ex_rows bindR_ensure)

abbreviation ex_bases :: "string list" where
  "ex_bases \<equiv> [''raw'', ''split_adjusted'']"

definition ex_artifact :: "string \<Rightarrow> char \<Rightarrow> artifact_rows \<Rightarrow> loaded_artifact" where
  "ex_artifact kind c rows = \<lparr>la_kind = kind, la_artifact_id = art_id c, la_path = kind,
         la_sha256 = replicate 64 CHR ''a'', la_available_at = ex_published, la_rows = rows\<rparr>"

text \<open>An artifact of any data root that holds the pinned envelope under its kind.\<close>

lemma load_pinned:
  assumes "parse_rows bases kind docs = Inr rows" and "check_rows_available kind ex_published rows = Inr ()"
    and "fs_file fs kind = Some (replicate 64 CHR ''a'', Inr (envelope kind (art_id c) docs))"
    and "kind \<in> set input_kinds" and "is_uuid (art_id c)"
  shows "load_artifact fs bases kind (ex_ref kind c) = Inr (ex_artifact kind c rows)"
  using assms by (simp add: load_artifact_def envelope_def jkeys_def envelope_fields_def input_schema_version_def
      jget_def ex_ref_def ex_artifact_def insert_commute)

lemma ex_load: "load_input_artifacts ex_root [''current_research_only'', ''backtest_safe'']
     [''prices'', ''calendar'', ''membership''] ex_bases ex_refs = Inr ex_inputs"
proof -
  have "load_artifact ex_root ex_bases ''prices'' (ex_ref ''prices'' CHR ''a'') = Inr (ex_artifact ''prices'' CHR ''a'' (PriceRows ex_prices))"
    "load_artifact ex_root ex_bases ''calendar'' (ex_ref ''calendar'' CHR ''b'') = Inr (ex_artifact ''calendar'' CHR ''b'' (CalendarRows ex_sessions))"
    "load_artifact ex_root ex_bases ''membership'' (ex_ref ''membership'' CHR ''c'') = Inr (ex_artifact ''membership'' CHR ''c'' (MembershipRows ex_membership))"
    by (rule load_pinned; simp add: parse_rows_def ex_parsed ex_available ex_root_def input_kinds_def)+
  moreover have "fs_resolve ex_root p = Inr p" for p by (simp add: ex_root_def)
  ultimately show ?thesis
    by (simp add: load_input_artifacts_def price_bases_def ex_refs_def load_step_def input_kinds_def ex_ref_simps
      ex_inputs_def ex_artifact_def price_rows_of_def calendar_rows_of_def membership_rows_of_def action_rows_of_def
      fx_rows_of_def observation_rows_of_def)
qed

section \<open>Evaluation\<close>

lemma dec_scale_eval: "dec_scale (Suc 0) = 0" "dec_scale 1 = 0" "dec_scale 10 = 1" "dec_scale 2 = 1" "dec_scale 5 = 1"
    "dec_scale 20 = 2"
  by (simp_all add: dec_scale.simps)

lemma quotient_of_eval: "quotient_of (1 / 10) = (1, 10)" "quotient_of (2 / 5) = (2, 5)" "quotient_of (9 / 20) = (9, 20)"
    "quotient_of (17 / 2) = (17, 2)"
  by code_simp+

lemma nat_string_eval: "n < 10 \<Longrightarrow> nat_string n = [digit_char n]"
    "10 \<le> n \<Longrightarrow> nat_string n = nat_string (n div 10) @ [digit_char (n mod 10)]"
  by (simp_all add: nat_string.simps[of n])

lemma digit_char_eval: "digit_char 0 = CHR ''0''" "digit_char 1 = CHR ''1''" "digit_char (Suc 0) = CHR ''1''"
    "digit_char 2 = CHR ''2''" "digit_char 3 = CHR ''3''" "digit_char 4 = CHR ''4''" "digit_char 5 = CHR ''5''"
    "digit_char 6 = CHR ''6''" "digit_char 7 = CHR ''7''" "digit_char 8 = CHR ''8''" "digit_char 9 = CHR ''9''"
  by (simp_all add: digit_char_def char_of_eq_iff)

lemma decimal_string_whole: "decimal_string (numeral n) = nat_string (numeral n)" "decimal_string 1 = nat_string 1"
proof -
  have "pad (Suc 0) (nat_string m) = nat_string m" for m
    using nat_string_nonempty[of m] by (cases "nat_string m") (simp_all add: pad_def)
  then show "decimal_string (numeral n) = nat_string (numeral n)" "decimal_string 1 = nat_string 1"
    by (simp_all add: decimal_string_def dec_scale_eval quotient_of_number)
qed

lemma decimal_string_fraction:
  assumes "quotient_of q = (n, d)" and "dec_scale (nat d) = Suc k" and "0 \<le> n"
    and "pad (Suc (Suc k)) (nat_string (nat (n * 10 ^ Suc k div d))) = i @ r" and "length r = Suc k"
  shows "decimal_string q = i @ ''.'' @ r"
  using assms(1-3,5) by (simp add: decimal_string_def Let_def assms(4) flip: power_Suc)

lemmas print_eval = decimal_string_whole dec_scale_eval pad_def nat_string_eval digit_char_eval

lemma dec_round_eval: "(numeral k :: int) \<le> 10 ^ 28 \<Longrightarrow> dec_round 28 (numeral k) = (numeral k :: rat)"
    "(numeral k :: int) \<le> 10 ^ 80 \<Longrightarrow> dec_round 80 (numeral k) = (numeral k :: rat)"
    "dec_round 28 1 = 1" "dec_round 80 1 = 1"
  using dec_round_exact[OF fits_of_int[of "numeral k" 28]] dec_round_exact[OF fits_of_int[of "numeral k" 80]]
  by (simp_all add: dec_round_1)

lemma ex_parse [simp]: "parse_unsigned ''0'' = Some 0" "parse_unsigned ''1'' = Some 1" "parse_unsigned ''100'' = Some 100"
    "parse_unsigned ''1000'' = Some 1000" "parse_unsigned ''5000'' = Some 5000" "parse_unsigned ''0.1'' = Some (1 / 10)"
  by (simp_all add: parse_unsigned_def Let_def is_digit_def nat_of_digits_def digit_val_def)

lemma ex_print [simp]: "decimal_string 1 = ''1''" "decimal_string 100 = ''100''" "decimal_string 1000 = ''1000''"
    "decimal_string 5000 = ''5000''" "decimal_string (1 / 10) = ''0.1''"
  using decimal_string_fraction[OF quotient_of_eval(1), of 0 "''0''" "''1''"] by (simp_all add: print_eval)

lemma ex_decimal [simp]: "decimal_nn f ''0'' = Inr 0" "decimal_nn f ''1'' = Inr 1" "decimal_nn f ''100'' = Inr 100"
    "decimal_nn f ''1000'' = Inr 1000" "decimal_nn f ''5000'' = Inr 5000" "decimal_nn f ''0.1'' = Inr (1 / 10)"
  by (simp_all add: decimal_nn_iff)

end
