(* ===== verification/Example_Account.thy ===== *)
theory Example_Account
  imports Example_Inputs
begin

text \<open>
  A paper account over the two example securities, and the target, orders and verdict of its first session.
\<close>

section \<open>The account\<close>

definition ex_account :: account where
  "ex_account = \<lparr>acc_account_id = art_id CHR ''d'', acc_name = ''example'',
     acc_strategy = \<lparr>st_name = ''equal_weight'', st_version = ''1.0.0'', st_git_commit = ''unknown'',
       st_parameters = \<lparr>pm_rebalance_frequency = Some ''monthly'', pm_lookback_sessions = None,
         pm_skip_sessions = None, pm_top_k = None\<rparr>\<rparr>,
     acc_start_date = ''2024-01-01'', acc_end_date = ''2024-12-31'',
     acc_universe = \<lparr>un_universe_id = art_id CHR ''e'', un_version = ''1.0.0'', un_security_ids = [sec_a, sec_b],
       un_membership_fingerprint = replicate 64 CHR ''a''\<rparr>,
     acc_security_metadata =
       [\<lparr>sm_security_id = sec_a, sm_country = ''US'', sm_sector = ''tech'', sm_themes = [''ai'']\<rparr>,
        \<lparr>sm_security_id = sec_b, sm_country = ''US'', sm_sector = ''energy'', sm_themes = []\<rparr>],
     acc_inputs = ex_refs, acc_benchmark_security_id = sec_a, acc_benchmark_currency = ''USD'',
     acc_decision_policy = \<lparr>dp_stale_after_sessions = 1, dp_max_price_gap = ''1''\<rparr>,
     acc_accounting_policy = \<lparr>ac_base_currency = ''USD'', ac_initial_cash = ''1000'', ac_fractional_shares = False,
       ac_rebalance_frequency = ''daily''\<rparr>,
     acc_cost_policy = \<lparr>cp_version = ''1.0.0'', cp_commission_bps = ''100'', cp_fixed_fee = ''0'', cp_minimum_fee = ''1'',
       cp_spread_bps = ''0'', cp_slippage_bps = ''0'', cp_tax_bps = ''0''\<rparr>,
     acc_risk_policy = \<lparr>rp_version = ''1.0.0'', rp_max_gross_exposure = ''1'', rp_max_position_weight = ''1'',
       rp_max_sector_exposure = ''1'', rp_max_country_exposure = ''1'', rp_max_currency_exposure = ''1'',
       rp_max_theme_exposure = ''1'', rp_minimum_cash_reserve = ''0.1'', rp_max_turnover = ''1'',
       rp_max_daily_notional = ''5000'', rp_max_price_gap = ''1'', rp_max_participation = ''1'',
       rp_max_drawdown = ''1'', rp_max_stale_sessions = 1, rp_prohibited_security_ids = []\<rparr>,
     acc_approval_mode = ''auto'', acc_missing_data_policy = ''halt_decision'', acc_promoted_backtest = None\<rparr>"

section \<open>The account is valid\<close>

lemma ex_strings: "is_semver ''1.0.0''" "is_country ''US''" "is_slug ''tech''" "is_slug ''energy''" "is_slug ''ai''"
    "is_sha256 (replicate 64 CHR ''a'')" "parse_date ''2024-01-01'' \<noteq> None" "parse_date ''2024-12-31'' \<noteq> None"
  by (simp_all add: is_semver_def Let_def is_number_def is_digit_def is_country_def is_upper_def is_slug_def is_lower_def
      is_sha256_def is_lower_hex_def list_all_iff parse_date_def nat_of_digits_def digit_val_def valid_date_def days_in_month_def)

lemma ex_strategy: "strategy_spec (strategy_json (acc_strategy ex_account)) = Inr (acc_strategy ex_account)"
  by (simp add: strategy_spec_def strategy_json_def ex_account_def spec_exact_def jkeys_def field_of_def jget_def
      spec_choice_def member_of_def git_commit_def strategy_parameters_def parameters_json_def frequencies_def
      spec_semver_def spec_text_def ex_strings insert_commute)

lemma ex_period: "period_spec (JObj [(''start_date'', JStr (acc_start_date ex_account)), (''end_date'', JStr (acc_end_date ex_account))])
    = Inr (acc_start_date ex_account, acc_end_date ex_account)"
  using ex_strings(7,8) by (simp add: period_spec_def ex_account_def spec_exact_def jkeys_def field_of_def jget_def
      spec_date_def spec_text_def bindR_ensure insert_commute)

lemma ex_universe: "universe_spec (universe_json (acc_universe ex_account)) = Inr (acc_universe ex_account)"
  by (simp add: universe_spec_def universe_json_def strings_json_def ex_account_def spec_exact_def jkeys_def field_of_def
      jget_def spec_array_def spec_semver_def spec_sha_def spec_text_def ex_strings bindR_ensure insert_commute)

lemma ex_metadata: "metadata_spec (un_security_ids (acc_universe ex_account))
    (JArr (map metadata_json (acc_security_metadata ex_account))) = Inr (acc_security_metadata ex_account)"
  by (simp add: metadata_spec_def metadata_json_def strings_json_def ex_account_def metadata_row_def spec_exact_def
      jkeys_def field_of_def jget_def spec_array_def theme_texts_def spec_country_def spec_slug_def spec_text_def
      ex_strings bindR_ensure sorted_set_def insert_commute)

lemma ex_path: "spec_relative_path f (JStr ''prices'') = Inr ''prices''"
    "spec_relative_path f (JStr ''calendar'') = Inr ''calendar''"
    "spec_relative_path f (JStr ''membership'') = Inr ''membership''"
  by (simp_all add: spec_relative_path_def spec_nonempty_def strip_def is_space_def Let_def path_parts_def)

lemma ex_reference: "kind \<in> {''prices'', ''calendar'', ''membership''} \<Longrightarrow> is_uuid (art_id c) \<Longrightarrow>
    input_row (i, reference_json (ex_ref kind c)) = Inr (ex_ref kind c)"
  by (auto simp add: input_row_def reference_json_def ex_ref_def spec_exact_def jkeys_def field_of_def jget_def
      spec_choice_def member_of_def account_input_kinds_def ex_path spec_sha_def spec_utc_def spec_text_def ex_strings
      insert_commute)

lemma ex_inputs_spec: "inputs_spec (JArr (map reference_json (acc_inputs ex_account))) = Inr (acc_inputs ex_account)"
  by (simp add: inputs_spec_def ex_account_def ex_refs_def spec_array_def ex_reference ex_ref_simps bindR_ensure)

lemma ex_benchmark: "benchmark_spec (un_security_ids (acc_universe ex_account))
    (JObj [(''security_id'', JStr (acc_benchmark_security_id ex_account)),
      (''currency'', JStr (acc_benchmark_currency ex_account))])
    = Inr (acc_benchmark_security_id ex_account, acc_benchmark_currency ex_account)"
  by (simp add: benchmark_spec_def ex_account_def spec_exact_def jkeys_def field_of_def jget_def bindR_ensure
      insert_commute)

lemma ex_policies: "decision_spec (decision_json (acc_decision_policy ex_account)) = Inr (acc_decision_policy ex_account)"
    "accounting_spec (accounting_json (acc_accounting_policy ex_account)) = Inr (acc_accounting_policy ex_account)"
  by (simp_all add: decision_spec_def decision_json_def accounting_spec_def accounting_json_def ex_account_def
      spec_exact_def jkeys_def field_of_def jget_def equals_one_def spec_int_def spec_decimal_def spec_choice_def
      member_of_def spec_bool_def bindR_ensure insert_commute decimal_def[of False] parse_signed_def)

lemma ex_costs_spec: "cost_spec (cost_json (acc_cost_policy ex_account)) = Inr (acc_cost_policy ex_account)"
  by (simp add: cost_spec_def cost_json_def ex_account_def spec_exact_def jkeys_def field_of_def jget_def cost_fields_def
      spec_decimal_def spec_semver_def spec_text_def ex_strings insert_commute)

lemma ex_risk_spec: "risk_spec (risk_json (acc_risk_policy ex_account)) = Inr (acc_risk_policy ex_account)"
  by (simp add: risk_spec_def risk_json_def ex_account_def spec_exact_def jkeys_def field_of_def jget_def risk_fields_def
      risk_limit_def spec_semver_def spec_text_def spec_int_def spec_array_def strings_json_def ex_strings insert_commute)

lemma ex_account_valid: "validate_paper_account (account_json ex_account) = Inr ex_account"
proof (rule account_json_valid[where ob = "[]"])
  show "is_uuid (acc_account_id ex_account)" by (simp add: ex_account_def)
  show "spec_nonempty [] (JStr (acc_name ex_account)) = Inr (acc_name ex_account)"
    by (simp add: ex_account_def spec_nonempty_def strip_def is_space_def Let_def)
qed (simp_all add: ex_strategy ex_period ex_universe ex_metadata ex_inputs_spec ex_benchmark ex_policies ex_costs_spec
    ex_risk_spec promoted_spec_def, simp_all add: ex_account_def)

section \<open>The first decision\<close>

text \<open>A name gives the identifier made of its last character, if that is a hexadecimal digit.\<close>

definition ex_uuid :: "string \<Rightarrow> string \<Rightarrow> string" where
  "ex_uuid ns name = art_id (if name \<noteq> [] \<and> is_lower_hex (last name) then last name else CHR ''0'')"

definition ex_env :: env where
  "ex_env = \<lparr>env_sha256 = (\<lambda>_. replicate 64 CHR ''a''), env_uuid5 = ex_uuid,
     env_float = (\<lambda>_. []), env_set_order = (\<lambda>xs. xs)\<rparr>"

definition ex_state :: portfolio_state where
  "ex_state = \<lparr>ps_cash_by_currency = [(''USD'', 1000)], ps_quantities = [], ps_security_currency = [],
     ps_nav_base = 1000, ps_cash_base = 1000, ps_positions_value_base = 0, ps_peak_nav_base = 1000,
     ps_last_session = None, ps_last_decision_session = None\<rparr>"

definition ex_row :: "string \<Rightarrow> string \<Rightarrow> string \<Rightarrow> string \<Rightarrow> string \<Rightarrow> string \<Rightarrow> string list \<Rightarrow> target_row" where
  "ex_row s w q p v sector themes = \<lparr>tr_security_id = s, tr_target_weight = w, tr_target_quantity = q, tr_price = p,
     tr_currency = ''USD'', tr_market_value_base = v, tr_country = ''US'', tr_sector = sector, tr_themes = themes\<rparr>"

definition ex_target_rows :: "target_row list" where
  "ex_target_rows = [ex_row sec_a ''0.4'' ''4'' ''100'' ''400'' ''tech'' [''ai''],
     ex_row sec_b ''0.45'' ''9'' ''50'' ''450'' ''energy'' []]"

lemma ex_arith: "dquot 28 1 2 = 1 / 2" "dsub 28 1 (1 / 10) = 9 / 10" "dmul 28 (1 / 2) (9 / 10) = 9 / 20"
    "dmul 28 1000 (9 / 20) = 450" "dmul 80 450 1 = 450" "dquot 28 450 100 = 9 / 2" "dquot 28 450 50 = 9"
    "round_down (9 / 2) = 4" "round_down 9 = 9" "dmul 28 4 100 = 400" "dmul 28 9 50 = 450" "dmul 80 400 1 = 400"
    "dquot 28 400 1000 = 2 / 5" "dquot 28 450 1000 = 9 / 20"
  by code_simp+

lemma ex_print2: "decimal_string (2 / 5) = ''0.4''" "decimal_string (9 / 20) = ''0.45''" "decimal_string 4 = ''4''"
    "decimal_string 9 = ''9''" "decimal_string 400 = ''400''" "decimal_string 450 = ''450''" "decimal_string 50 = ''50''"
  using decimal_string_fraction[OF quotient_of_eval(2), of 0 "''0''" "''4''"]
    decimal_string_fraction[OF quotient_of_eval(3), of 1 "''0''" "''45''"] by (simp_all add: print_eval)

lemma ex_price_at: "price_row ex_inputs sec_a day1 (at_close day1) = Some (ex_price sec_a day1 99 101 98 100)"
    "price_row ex_inputs sec_b day1 (at_close day1) = Some (ex_price sec_b day1 50 52 49 50)"
  by (simp_all add: price_row_def ex_inputs_def ex_rows)

lemma ex_active: "active_security_ids ex_account ex_inputs (ex_session day1) = Inr [sec_a, sec_b]"
  by (simp add: active_security_ids_def ex_account_def membership_state_def membership_candidates_def membership_rank_def
      ex_inputs_def ex_membership_def ex_member_def ex_session_def session_decision_at_def)

end
