(* ===== verification/Example_Later.thy ===== *)
theory Example_Later
  imports Example_Account
begin

text \<open>
  A second set of files for the example account. It agrees with the first on everything published by the close of
  the first day and differs after it: other prices on the second day, and a delisting that is dated to the first day
  and published on the second. The theorems on look-ahead are applied to the two data sets that the loader returns.
\<close>

section \<open>Files\<close>

definition later_prices :: "price_row list" where
  "later_prices = [ex_price sec_a day1 99 101 98 100, ex_price sec_b day1 50 52 49 50,
     ex_price sec_a day2 120 130 118 125, ex_price sec_b day2 40 41 30 31]"

definition later_action :: action_row where
  "later_action = \<lparr>a_id = art_id CHR ''d'', a_security_id = sec_b, a_action_type = Delisting, a_effective_date = day1,
     a_payment_date = None, a_available_at = at_open day2, a_currency = ''USD'', a_ratio_numerator = 0,
     a_ratio_denominator = 0, a_cash_amount = 0, a_settlement_price = Some 1, a_target_security_id = None\<rparr>"

definition later_action_doc :: json where
  "later_action_doc = JObj [(''id'', JStr (art_id CHR ''d'')), (''security_id'', JStr sec_b),
     (''action_type'', JStr ''delisting''), (''effective_date'', JStr (isoformat day1)), (''payment_date'', JNull),
     (''available_at'', JStr (timestamp (at_open day2))), (''currency'', JStr ''USD''), (''ratio_numerator'', JStr ''0''),
     (''ratio_denominator'', JStr ''0''), (''cash_amount'', JStr ''0''), (''settlement_price'', JStr ''1''),
     (''target_security_id'', JNull)]"

definition later_root :: data_root where
  "later_root = \<lparr>fs_resolve = (\<lambda>p. Inr p), fs_file = map_of
     [(''prices'', replicate 64 CHR ''a'', Inr (envelope ''prices'' (art_id CHR ''a'') (map price_doc later_prices))),
      (''calendar'', replicate 64 CHR ''a'', Inr (envelope ''calendar'' (art_id CHR ''b'') (map session_doc ex_sessions))),
      (''membership'', replicate 64 CHR ''a'', Inr (envelope ''membership'' (art_id CHR ''c'') (map membership_doc ex_membership))),
      (''corporate_actions'', replicate 64 CHR ''a'',
        Inr (envelope ''corporate_actions'' (art_id CHR ''e'') [later_action_doc]))]\<rparr>"

definition later_refs :: "reference list" where
  "later_refs = ex_refs @ [ex_ref ''corporate_actions'' CHR ''e'']"

definition later_inputs :: "inputs" where
  "later_inputs = \<lparr>i_artifacts =
     [(''calendar'', ex_artifact ''calendar'' CHR ''b'' (CalendarRows ex_sessions)),
      (''membership'', ex_artifact ''membership'' CHR ''c'' (MembershipRows ex_membership)),
      (''prices'', ex_artifact ''prices'' CHR ''a'' (PriceRows later_prices)),
      (''corporate_actions'', ex_artifact ''corporate_actions'' CHR ''e'' (ActionRows [later_action]))],
     i_prices = later_prices, i_calendar = ex_sessions, i_membership = ex_membership, i_corporate_actions = [later_action],
     i_fx = [], i_risk_free = [], i_observations = []\<rparr>"

section \<open>Loading\<close>

lemma later_prices_parsed: "price_rows ex_bases (map price_doc later_prices) = Inr later_prices"
proof -
  have "\<forall>r \<in> set later_prices. price_writable r \<and> p_price_basis r = ''raw''" "distinct (map price_key later_prices)"
    by (simp_all add: later_prices_def ex_rows price_writable_def price_row_ok_def price_key_def)
  from price_rows_doc[OF this(1) _ this(2), of ex_bases] show ?thesis by (simp add: later_prices_def ex_rows)
qed

lemma later_action_parsed: "action_rows [later_action_doc] = Inr [later_action]"
  by (simp add: action_rows_def action_step_def later_action_doc_def action_fields_def row_lookup Let_def
      action_type_field_def optional_field_def later_action_def decimal_field_def bindR_ensure)

lemma later_available: "check_rows_available k ex_published (PriceRows later_prices) = Inr ()"
    "check_rows_available k ex_published (ActionRows [later_action]) = Inr ()"
  by (simp_all add: check_rows_available_def later_prices_def later_action_def ex_rows bindR_ensure)

lemma later_load: "load_input_artifacts later_root [''current_research_only'', ''backtest_safe'']
     [''prices'', ''calendar'', ''membership''] ex_bases later_refs = Inr later_inputs"
proof -
  have "load_artifact later_root ex_bases ''prices'' (ex_ref ''prices'' CHR ''a'') = Inr (ex_artifact ''prices'' CHR ''a'' (PriceRows later_prices))"
    "load_artifact later_root ex_bases ''calendar'' (ex_ref ''calendar'' CHR ''b'') = Inr (ex_artifact ''calendar'' CHR ''b'' (CalendarRows ex_sessions))"
    "load_artifact later_root ex_bases ''membership'' (ex_ref ''membership'' CHR ''c'') = Inr (ex_artifact ''membership'' CHR ''c'' (MembershipRows ex_membership))"
    "load_artifact later_root ex_bases ''corporate_actions'' (ex_ref ''corporate_actions'' CHR ''e'')
      = Inr (ex_artifact ''corporate_actions'' CHR ''e'' (ActionRows [later_action]))"
    by (rule load_pinned; simp add: parse_rows_def ex_parsed later_prices_parsed later_action_parsed ex_available
        later_available later_root_def input_kinds_def)+
  moreover have "fs_resolve later_root p = Inr p" for p by (simp add: later_root_def)
  ultimately show ?thesis
    by (simp add: load_input_artifacts_def price_bases_def later_refs_def ex_refs_def load_step_def input_kinds_def ex_ref_simps
      later_inputs_def ex_artifact_def price_rows_of_def calendar_rows_of_def membership_rows_of_def action_rows_of_def
      fx_rows_of_def observation_rows_of_def)
qed

lemma later_wf: "wf_inputs later_inputs"
  by (simp add: wf_inputs_def later_inputs_def later_prices_def later_action_def ex_rows price_row_ok_def price_key_def
      session_ok_def membership_ok_def membership_key_def action_ok_def)

section \<open>What differs\<close>

lemma later_differs: "i_prices later_inputs \<noteq> i_prices ex_inputs" "i_artifacts later_inputs \<noteq> i_artifacts ex_inputs"
  by (simp_all add: later_inputs_def ex_inputs_def later_prices_def ex_rows)

lemma later_visible: "visible (at_close day1) ex_inputs = visible (at_close day1) later_inputs"
  by (simp add: visible_def later_inputs_def ex_inputs_def later_prices_def later_action_def ex_rows)

text \<open>A lookup that reads the rows kept with the artifacts, whenever they were published, breaks the contract.\<close>

lemma artifact_rows_look_ahead:
  "\<not> point_in_time (\<lambda>inp k t. find (\<lambda>row. price_key row = k) (price_rows_of (i_artifacts inp)))"
proof
  assume "point_in_time (\<lambda>inp k t. find (\<lambda>row. price_key row = k) (price_rows_of (i_artifacts inp)))"
  from point_in_time.look_visible[OF this wf_unique_prices[OF later_wf], where t = "at_close day1" and k = "(sec_a, day2)"]
  show False by (simp add: price_rows_of_def later_inputs_def ex_artifact_def later_prices_def price_key_def ex_price_def)
qed

end
