(* ===== verification/Example_Decision.thy ===== *)
theory Example_Decision
  imports Example_Later Construction
begin

text \<open>
  The target, orders and risk verdict of the first session of the example account, and the theorems of
  the loader, the signals, the construction and the risk check applied to them.
\<close>

section \<open>The first decision\<close>

lemma ex_active_at:
  assumes "s_session_date s = day1" and "session_decision_at s = at_close day1"
  shows "active_security_ids ex_account ex_inputs s = Inr [sec_a, sec_b]"
  by (simp add: active_security_ids_def ex_account_def membership_state_def membership_candidates_def membership_rank_def
      ex_inputs_def ex_membership_def ex_member_def assms)

lemma ex_build_at:
  assumes s: "s_session_date s = day1" "session_decision_at s = at_close day1"
    and st: "ps_quantities st = []" "ps_nav_base st = 1000" "ps_last_decision_session st = None"
  shows "build_target ex_env ex_account ex_inputs [s, ex_session day2] 0 st n given
    = Inr (target_document ex_env ex_account s st n given (1 / 10) ex_target_rows)"
proof -
  have closes: "check_closes ex_inputs s [sec_a, sec_b] = Inr ()"
    using ex_price_at by (simp add: check_closes_def s)
  have select: "select_targets ex_account ex_inputs [s, ex_session day2] 0 s st [sec_a, sec_b]
      = Inr ([(sec_a, 9 / 20), (sec_b, 9 / 20)], [], 1 / 10)"
    by (simp add: select_targets_def raw_targets_def scale_targets_def st ex_account_def signal_targets_def
        baseline_targets_def equal_weight_targets_def sorted_set_def Let_def rebalance_due_def ex_arith)
  have size: "size_step ex_account ex_inputs s st [] (sec_a, 9 / 20) = Inr [(sec_a, 4)]"
      "size_step ex_account ex_inputs s st [(sec_a, 4)] (sec_b, 9 / 20) = Inr [(sec_a, 4), (sec_b, 9)]"
    using ex_price_at by (simp_all add: size_step_def st ex_account_def s ex_arith ex_price_def ddiv_def)
  have rows: "target_row_for ex_account ex_inputs s st [(sec_a, 4), (sec_b, 9)] sec_a
        = Inr [ex_row sec_a ''0.4'' ''4'' ''100'' ''400'' ''tech'' [''ai'']]"
      "target_row_for ex_account ex_inputs s st [(sec_a, 4), (sec_b, 9)] sec_b
        = Inr [ex_row sec_b ''0.45'' ''9'' ''50'' ''450'' ''energy'' []]"
    using ex_price_at by (simp_all add: target_row_for_def Let_def dget_def ex_account_def s ex_price_def ex_arith
        ex_print2 ddiv_def st ex_row_def)
  have sess: "session_at [s, ex_session day2] 0 = Inr s" by (simp add: session_at_def)
  show ?thesis
    by (simp add: build_target_def sess ex_active_at[OF s] closes select sorted_items_def size sorted_set_def rows
        ex_target_rows_def st)
qed

lemma ex_day1: "ex_sessions = [ex_session day1, ex_session day2]" "s_session_date (ex_session day1) = day1"
    "session_decision_at (ex_session day1) = at_close day1"
  by (simp_all add: ex_sessions_def ex_session_def session_decision_at_def)

lemma ex_state_simps: "ps_quantities ex_state = []" "ps_nav_base ex_state = 1000" "ps_last_decision_session ex_state = None"
    "ps_peak_nav_base ex_state = 1000"
  by (simp_all add: ex_state_def)

lemma ex_build: "\<exists>tgt. build_target ex_env ex_account ex_inputs ex_sessions 0 ex_state 0 None = Inr tgt
    \<and> tg_targets tgt = ex_target_rows \<and> tg_nav_base tgt = ''1000''"
  unfolding ex_day1(1) by (simp add: ex_build_at[OF ex_day1(2,3)] ex_state_simps)

lemma half: "dec_round 28 (9 / 2) = 9 / 2" by code_simp

lemma ex_arith2: "dsub 28 4 0 = 4" "dsub 28 9 0 = 9" "dabs 28 4 = 4" "dabs 28 9 = 9" "dmul 28 400 100 = 40000"
    "dmul 28 450 100 = 45000" "dquot 28 40000 10000 = 4" "dquot 28 45000 10000 = 9 / 2" "dadd 28 4 0 = 4"
    "dadd 28 (9 / 2) 0 = 9 / 2" "dmul 28 x 0 = 0" "dquot 28 0 20000 = 0" "dquot 28 0 10000 = 0"
  by (simp_all add: dec_ops dec_round_eval half)

lemma ex_costs: "costs ex_account 400 = Inr 4" "costs ex_account 450 = Inr (9 / 2)"
  by (simp_all add: costs_def ex_account_def Let_def ex_arith2)

lemma ex_parse2 [simp]: "parse_unsigned ''4'' = Some 4" "parse_unsigned ''9'' = Some 9" "parse_unsigned ''400'' = Some 400"
    "parse_unsigned ''450'' = Some 450" "parse_unsigned ''0.4'' = Some (2 / 5)" "parse_unsigned ''0.45'' = Some (9 / 20)"
  by (simp_all add: parse_unsigned_def Let_def is_digit_def nat_of_digits_def digit_val_def)

lemma quotient_of_half: "quotient_of (9 / 2) = (9, 2)" by code_simp

lemma ex_base: "acc_base_currency ex_account = ''USD''" by (simp add: ex_account_def)

text \<open>The orders that buy the target.\<close>

definition ex_order :: "target \<Rightarrow> string \<Rightarrow> string \<Rightarrow> string \<Rightarrow> string \<Rightarrow> string \<Rightarrow> order" where
  "ex_order tgt s q p v c = \<lparr>or_order_id = art_id (last q), or_client_order_id = art_id (last q),
     or_account_id = art_id CHR ''d'', or_target_id = tg_target_id tgt, or_decision_id = tg_decision_id tgt,
     or_target_revision = tg_target_revision tgt, or_decision_session = isoformat day1,
     or_execution_session = isoformat day2, or_security_id = s, or_side = ''buy'', or_quantity = q,
     or_reference_price = p, or_currency = ''USD'', or_expected_notional_base = v, or_expected_cost_base = c,
     or_reason = ''equal_weight'', or_status = ''proposed''\<rparr>"

definition ex_orders :: "target \<Rightarrow> order list" where
  "ex_orders tgt = [ex_order tgt sec_a ''4'' ''100'' ''400'' ''4'', ex_order tgt sec_b ''9'' ''50'' ''450'' ''4.5'']"

lemma ex_print3: "decimal_string (9 / 2) = ''4.5''"
  using decimal_string_fraction[OF quotient_of_half, of 0 "''4''" "''5''"] by (simp add: print_eval)

lemma ex_uuid_digits: "ex_uuid ns (x @ '':'' @ y @ '':'' @ ''4'') = art_id CHR ''4''"
    "ex_uuid ns (x @ '':'' @ y @ '':'' @ ''9'') = art_id CHR ''9''"
    "ex_uuid ns (art_id CHR ''4'') = art_id CHR ''4''" "ex_uuid ns (art_id CHR ''9'') = art_id CHR ''9''"
  by (simp_all add: ex_uuid_def is_lower_hex_def is_digit_def art_id_def numeral_eq_Suc)

lemma ex_orders_at:
  assumes s: "s_session_date s = day1" "session_decision_at s = at_close day1"
    and st: "ps_quantities st = []" and tgt: "tg_targets tgt = ex_target_rows"
  shows "target_orders ex_env ex_account ex_inputs [s, ex_session day2] 0 tgt st = Inr (ex_orders tgt)"
proof -
  have q: "parse_target_quantities ex_target_rows = Inr [(sec_a, 4), (sec_b, 9)]"
    by (simp add: parse_target_quantities_def ex_target_rows_def ex_row_def decimal_nn_iff decimal_def)
  have c: "order_candidates [(sec_a, 4), (sec_b, 9)] st = [sec_a, sec_b]"
    by (simp add: order_candidates_def st sorted_set_def)
  have uid: "env_uuid5 ex_env = ex_uuid" by (simp add: ex_env_def)
  have name: "st_name (acc_strategy ex_account) = ''equal_weight''" "acc_account_id ex_account = art_id CHR ''d''"
    by (simp_all add: ex_account_def)
  have y: "order_for ex_env ex_account ex_inputs s (isoformat day2) tgt st [(sec_a, 4), (sec_b, 9)] sec_a
      = Inr [ex_order tgt sec_a ''4'' ''100'' ''400'' ''4'']"
    using ex_price_at ex_costs by (simp add: order_for_def Let_def dget_def s st ex_arith ex_arith2 ex_price_def
        ex_print2 ex_base uid name ex_uuid_digits[simplified] ex_order_def)
  have z: "order_for ex_env ex_account ex_inputs s (isoformat day2) tgt st [(sec_a, 4), (sec_b, 9)] sec_b
      = Inr [ex_order tgt sec_b ''9'' ''50'' ''450'' ''4.5'']"
    using ex_price_at ex_costs by (simp add: order_for_def Let_def dget_def s st ex_arith ex_arith2 ex_price_def
        ex_print2 ex_print3 ex_base uid name ex_uuid_digits[simplified] ex_order_def)
  have d2: "s_session_date (ex_session day2) = day2" by (simp add: ex_session_def)
  show ?thesis by (simp add: target_orders_def tgt q c d2 y z ex_orders_def)
qed

lemma ex_orders:
  assumes "tg_targets tgt = ex_target_rows"
  shows "target_orders ex_env ex_account ex_inputs ex_sessions 0 tgt ex_state = Inr (ex_orders tgt)"
  unfolding ex_day1(1) by (rule ex_orders_at[OF ex_day1(2,3) ex_state_simps(1) assms])

section \<open>The theorems at the example\<close>

lemma load_inputs_well_formed_witness: "wf_inputs ex_inputs"
  by (rule load_inputs_well_formed[OF ex_load])

lemma ex_wf: "wf_inputs ex_inputs"
  by (simp add: wf_inputs_def ex_inputs_def ex_rows price_row_ok_def price_key_def session_ok_def membership_ok_def
      membership_key_def)

lemma load_inputs_pinned_witness:
  "distinct (map fst (i_artifacts ex_inputs)) \<and> set [''prices'', ''calendar'', ''membership''] \<subseteq> set (map fst (i_artifacts ex_inputs))"
  using load_inputs_pinned[OF ex_load] by blast

lemma input_rows_roundtrip_witness:
  "price_rows ex_bases (map price_doc ex_prices) = Inr (sort_key (\<lambda>r. (p_session_date r, p_security_id r)) ex_prices)
    \<and> calendar_rows (map session_doc ex_sessions) = Inr (sort_key s_session_date ex_sessions)
    \<and> membership_rows (map membership_doc ex_membership)
      = Inr (sort_key (\<lambda>r. (m_security_id r, m_valid_from r, m_available_at r, m_revision r)) ex_membership)"
  by (rule input_rows_roundtrip[OF ex_writable(1) _ ex_writable(2-6)]) simp

lemma validate_idempotent_witness: "validate_paper_account (account_json ex_account) = Inr ex_account"
  by (rule validate_idempotent[OF ex_account_valid])

lemma ex_account_ok: "account_ok ex_account"
  by (rule validate_ok[OF ex_account_valid])

text \<open>
  Two data sets that the loader returns, with different prices on the second day: the decision of the first day
  is the same, and it is a target with positions and its orders.
\<close>

lemma construction_no_lookahead_witness:
  "load_input_artifacts later_root [''current_research_only'', ''backtest_safe'']
       [''prices'', ''calendar'', ''membership''] ex_bases later_refs = Inr later_inputs
   \<and> i_prices later_inputs \<noteq> i_prices ex_inputs
   \<and> build_target ex_env ex_account ex_inputs ex_sessions 0 ex_state 0 None
     = build_target ex_env ex_account later_inputs ex_sessions 0 ex_state 0 None
   \<and> (\<exists>tgt. build_target ex_env ex_account later_inputs ex_sessions 0 ex_state 0 None = Inr tgt
       \<and> tg_targets tgt = ex_target_rows
       \<and> target_orders ex_env ex_account later_inputs ex_sessions 0 tgt ex_state = Inr (ex_orders tgt))"
proof -
  have clock: "session_decision_at (ex_sessions ! 0) = at_close day1"
    by (simp add: ex_sessions_def ex_session_def session_decision_at_def)
  have n: "0 < length ex_sessions" by (simp add: ex_sessions_def)
  note same = construction_no_lookahead[OF ex_wf later_wf n, unfolded clock, OF later_visible]
  obtain tgt where t: "build_target ex_env ex_account ex_inputs ex_sessions 0 ex_state 0 None = Inr tgt"
    "tg_targets tgt = ex_target_rows" using ex_build by blast
  have "build_target ex_env ex_account later_inputs ex_sessions 0 ex_state 0 None = Inr tgt"
    "target_orders ex_env ex_account later_inputs ex_sessions 0 tgt ex_state = Inr (ex_orders tgt)"
    using same[of ex_env ex_account ex_state 0 None tgt] t(1) ex_orders[OF t(2)] by simp_all
  with later_load later_differs(1) t show ?thesis by simp
qed

lemma costs_monotone_witness: "costs ex_account 400 = Inr 4 \<and> costs ex_account 450 = Inr (9 / 2) \<and> (0 :: dec) \<le> 4
    \<and> (4 :: dec) \<le> 9 / 2"
  using costs_monotone[OF ex_costs] ex_costs by simp

lemma ex_amounts: "amounts (ps_quantities ex_state)" "\<forall>(x, q) \<in> set (ps_quantities ex_state). 0 \<le> q"
    "is_decimal (ps_nav_base ex_state)"
  by (simp_all add: ex_state_def)

lemma build_target_rows_witness:
  "\<exists>tgt. build_target ex_env ex_account ex_inputs ex_sessions 0 ex_state 0 None = Inr tgt
    \<and> distinct (map tr_security_id (tg_targets tgt)) \<and> length (tg_targets tgt) = 2"
proof -
  obtain tgt where "build_target ex_env ex_account ex_inputs ex_sessions 0 ex_state 0 None = Inr tgt"
    "tg_targets tgt = ex_target_rows" using ex_build by blast
  with build_target_rows[OF ex_wf ex_amounts(1) this(1)] show ?thesis
    by (intro exI[of _ tgt]) (simp add: ex_target_rows_def)
qed

lemma target_orders_exact_witness:
  "\<exists>tgt os. target_orders ex_env ex_account ex_inputs ex_sessions 0 tgt ex_state = Inr os
    \<and> distinct (map or_security_id os) \<and> length os = 2"
proof -
  obtain tgt :: target where "tg_targets tgt = ex_target_rows" using ex_build by blast
  note os = ex_orders[OF this]
  have "0 + 1 < length ex_sessions" by (simp add: ex_sessions_def)
  from target_orders_exact[OF os this ex_amounts(2)] os show ?thesis
    by (intro exI[of _ tgt] exI[of _ "ex_orders tgt"]) (auto simp: ex_orders_def)
qed

lemma risk_check_total_witness:
  "\<exists>tgt os v. build_target ex_env ex_account ex_inputs ex_sessions 0 ex_state 0 None = Inr tgt
    \<and> target_orders ex_env ex_account ex_inputs ex_sessions 0 tgt ex_state = Inr os
    \<and> assess_target ex_env ex_account ex_inputs ex_sessions 0 ex_state tgt os = Inr v"
proof -
  obtain tgt where tgt: "build_target ex_env ex_account ex_inputs ex_sessions 0 ex_state 0 None = Inr tgt"
    "tg_targets tgt = ex_target_rows" using ex_build by blast
  note os = ex_orders[OF tgt(2)]
  from risk_check_total[OF ex_wf ex_account_ok ex_amounts(1,3) tgt(1) os] tgt(1) os show ?thesis by blast
qed

lemma ex_readable: "readable ''4''" "readable ''9''" "readable ''400''" "readable ''450''" "readable ''1000''"
    "readable ''4.5''" "readable ''0.4''" "readable ''0.45''"
  unfolding readable_def
  by (rule exI[of _ 4], simp, rule exI[of _ 9], simp, rule exI[of _ 400], simp, rule exI[of _ 450], simp,
      rule exI[of _ 1000], simp, rule exI[of _ "9 / 2"],
      simp add: parse_unsigned_def Let_def is_digit_def nat_of_digits_def digit_val_def,
      rule exI[of _ "2 / 5"], simp, rule exI[of _ "9 / 20"], simp)

lemma ex_assessed: "\<exists>tgt os v. assess_target ex_env ex_account ex_inputs ex_sessions 0 ex_state tgt os = Inr v"
proof -
  obtain tgt :: target where tgt: "tg_targets tgt = ex_target_rows" "tg_nav_base tgt = ''1000''"
    using ex_build by blast
  have "\<exists>v. assess_target ex_env ex_account ex_inputs ex_sessions 0 ex_state tgt (ex_orders tgt) = Inr v"
  proof (rule assess_total)
    show "risk_ok (acc_risk_policy ex_account)" using ex_account_ok by (simp add: account_ok_def)
    show "positive_closes ex_inputs" by (rule wf_positive_closes[OF ex_wf])
    show "readable (dp_max_price_gap (acc_decision_policy ex_account))" by (simp add: ex_account_def readable_def)
    show "list_all readable_order (ex_orders tgt)" by (simp add: ex_orders_def ex_order_def readable_order_def ex_readable)
  qed (simp_all add: ex_sessions_def tgt ex_target_rows_def ex_row_def readable_row_def ex_readable)
  then show ?thesis by blast
qed

lemma risk_approval_exact_witness:
  "\<exists>tgt os v. assess_target ex_env ex_account ex_inputs ex_sessions 0 ex_state tgt os = Inr v
    \<and> (rv_status v = ''approved'' \<longleftrightarrow> within_limits ex_account ex_inputs ex_sessions 0 ex_state tgt os)"
proof -
  from ex_assessed obtain tgt os v where v: "assess_target ex_env ex_account ex_inputs ex_sessions 0 ex_state tgt os = Inr v"
    by blast
  from risk_approval_exact[OF v] v show ?thesis by (auto simp: ex_env_def)
qed

lemma risk_codes_order_independent_witness:
  "\<exists>tgt os v v'. assess_target ex_env ex_account ex_inputs ex_sessions 0 ex_state tgt os = Inr v
    \<and> assess_target (ex_env\<lparr>env_set_order := rev\<rparr>) ex_account ex_inputs ex_sessions 0 ex_state tgt os = Inr v'
    \<and> rv_codes v' = rv_codes v"
proof -
  from ex_assessed obtain tgt os v where v: "assess_target ex_env ex_account ex_inputs ex_sessions 0 ex_state tgt os = Inr v"
    by blast
  have "set (env_set_order ex_env xs) = set xs" for xs by (simp add: ex_env_def)
  from risk_codes_order_independent[OF v this, of rev] v show ?thesis by auto
qed

text \<open>Three securities over four sessions: the momentum signal with a lookback of two and one session skipped.\<close>

definition ex_history :: "(string, dec option list) dict" where
  "ex_history = [(''a'', [Some 100, Some 110, Some 150, Some 1]), (''b'', [Some 50, Some 40, Some 40, Some 90]),
     (''c'', [None, Some 5, Some 6, Some 7])]"

lemma momentum_ignores_skipped_witness:
  "momentum_12_1_targets [''a'', ''b'', ''c''] ex_history 3 2 1 1
    = momentum_12_1_targets [''a'', ''b'', ''c''] (map (\<lambda>(s, h). (s, take 3 h)) ex_history) 3 2 1 1"
  by (rule momentum_ignores_skipped) (auto simp: ex_history_def dget_def)

lemma momentum_selects_best_witness:
  "\<exists>ws. momentum_12_1_targets [''a'', ''b'', ''c''] ex_history 3 2 1 1 = Inr ws
    \<and> card (fst ` set ws) = min 1 (card {x \<in> set [''a'', ''b'', ''c'']. cutoff_score ex_history 3 2 1 x \<noteq> None})"
proof -
  have "(1::int) \<le> 2" "(1::int) \<le> 1" "(1::int) < 2" "(1::int) \<le> 1" "(2::int) + 1 \<le> int 3" by simp_all
  from momentum_selects_best[OF this, of "[''a'', ''b'', ''c'']" ex_history] show ?thesis
    by (elim exE conjE) (intro exI conjI, assumption, simp only: nat_one_as_int nat_1)
qed

end
