(* ===== verification/Ledger_Log.thy ===== *)
theory Ledger_Log
  imports Ledger
begin

text \<open>
  The ledger as a log: what the reader accepts, how an append changes it, and the step relation that
  every operation on a ledger stays in. The projection of the log is in \<open>Ledger_State\<close>.
\<close>

section \<open>Reading\<close>

lemma ledger_events_Inr:
  "ledger_events env L = Inr es \<longleftrightarrow> (\<exists>entries. read_manifest L = Inr entries
     \<and> length (l_events L) = length entries
     \<and> mapR (read_event env (l_account_id L)) (enumerate 1 (sorted_items (l_events L))) = Inr es
     \<and> list_all (\<lambda>(expected, e). entry_matches expected e) (zip entries es))"
  by (auto simp: ledger_events_def bindR_eq_Inr Let_def sorted_items_def)

lemma ledger_textD: "ledger_text ok m ob key = Inr s \<Longrightarrow> map_of ob key = Some (JStr s) \<and> ok s"
  unfolding ledger_text_def by (erule bindR_InrE, case_tac v) (auto split: if_splits)

lemma delta_fieldD: "delta_field ob key = Inr s \<Longrightarrow> map_of ob key = Some (JStr s) \<and> parse_signed s \<noteq> None"
  unfolding delta_field_def by (drule ledger_textD)

lemma valuation_fieldD:
  "valuation_field ob key = Inr v \<Longrightarrow> map_of ob key = Some (text_json v) \<and> (\<forall>s. v = Some s \<longrightarrow> parse_unsigned s \<noteq> None)"
  unfolding valuation_field_def Let_def
  by (erule bindR_InrE, case_tac va) (auto simp: text_json_def split: if_splits)

lemma text_fieldD: "text_field ob key = Inr v \<Longrightarrow> map_of ob key = Some (text_json v)"
  unfolding text_field_def by (erule bindR_InrE, case_tac va) (auto simp: text_json_def)

lemma details_fieldD:
  "(case v of JObj d \<Rightarrow> Inr d | _ \<Rightarrow> ledger_error m) = Inr d \<Longrightarrow> v = JObj d"
  by (cases v) auto

lemma text_caseD: "(case v of JObj d \<Rightarrow> f d | _ \<Rightarrow> ledger_error m) = Inr e \<Longrightarrow> \<exists>d. v = JObj d \<and> f d = Inr e"
  by (cases v) auto

lemmas event_fieldD = ledger_textD delta_fieldD valuation_fieldD text_fieldD details_fieldD

text \<open>What the reader asks of an event.\<close>

definition event_ok :: "env \<Rightarrow> string \<Rightarrow> event \<Rightarrow> bool" where
  "event_ok env aid e \<longleftrightarrow> ev_account_id e = aid \<and> is_uuid (ev_event_id e) \<and> ev_idempotency_key e \<noteq> []
     \<and> event_id env aid (ev_idempotency_key e) = ev_event_id e \<and> ev_event_type e \<in> set event_types
     \<and> is_currency (ev_currency e) \<and> parse_datetime (ev_event_at e) \<noteq> None \<and> parse_date (ev_session_date e) \<noteq> None
     \<and> is_sha256 (ev_record_hash e)
     \<and> parse_signed (ev_quantity_delta e) \<noteq> None \<and> parse_signed (ev_amount_local_delta e) \<noteq> None
     \<and> parse_signed (ev_amount_base_delta e) \<noteq> None
     \<and> (\<forall>s. ev_nav_base e = Some s \<longrightarrow> parse_unsigned s \<noteq> None)
     \<and> (\<forall>s. ev_cash_base e = Some s \<longrightarrow> parse_unsigned s \<noteq> None)
     \<and> (\<forall>s. ev_positions_value_base e = Some s \<longrightarrow> parse_unsigned s \<noteq> None)"

definition fields_of :: "(string \<times> json) list \<Rightarrow> event \<Rightarrow> bool" where
  "fields_of ob e \<longleftrightarrow> map_of ob ''event_id'' = Some (JStr (ev_event_id e))
     \<and> map_of ob ''idempotency_key'' = Some (JStr (ev_idempotency_key e))
     \<and> map_of ob ''event_at'' = Some (JStr (ev_event_at e)) \<and> map_of ob ''session_date'' = Some (JStr (ev_session_date e))
     \<and> map_of ob ''event_type'' = Some (JStr (ev_event_type e))
     \<and> map_of ob ''decision_id'' = Some (text_json (ev_decision_id e))
     \<and> map_of ob ''target_id'' = Some (text_json (ev_target_id e))
     \<and> map_of ob ''order_id'' = Some (text_json (ev_order_id e))
     \<and> map_of ob ''security_id'' = Some (text_json (ev_security_id e))
     \<and> map_of ob ''currency'' = Some (JStr (ev_currency e))
     \<and> map_of ob ''quantity_delta'' = Some (JStr (ev_quantity_delta e))
     \<and> map_of ob ''amount_local_delta'' = Some (JStr (ev_amount_local_delta e))
     \<and> map_of ob ''amount_base_delta'' = Some (JStr (ev_amount_base_delta e))
     \<and> map_of ob ''nav_base'' = Some (text_json (ev_nav_base e))
     \<and> map_of ob ''cash_base'' = Some (text_json (ev_cash_base e))
     \<and> map_of ob ''positions_value_base'' = Some (text_json (ev_positions_value_base e))
     \<and> map_of ob ''details'' = Some (JObj (ev_details e))
     \<and> map_of ob ''record_hash'' = Some (JStr (ev_record_hash e))"

lemma validate_eventD:
  assumes "validate_event env aid n doc = Inr e"
  shows "\<exists>ob. doc = JObj ob \<and> ev_sequence e = n \<and> fields_of ob e \<and> event_ok env aid e
    \<and> event_hash env (payload_of ob) = ev_record_hash e"
proof -
  from assms obtain ob where doc: "doc = JObj ob"
    unfolding validate_event_def by (auto dest!: text_caseD)
  from assms show ?thesis
    unfolding doc validate_event_def json.case
    apply (elim bindR_InrE)
    apply (drule event_fieldD)+
    apply (elim conjE)
    apply (simp only: check_uuid_Inr_iff jget_Inr_iff ensure_Inr sum.inject)
    apply (elim conjE)
    apply hypsubst
    apply (rule exI, rule conjI, rule refl)
    apply (simp only: fields_of_def event_ok_def event.select_convs simp_thms)
    done
qed

lemma validate_event_facts:
  assumes "validate_event env aid n doc = Inr e"
  shows "ev_sequence e = n" and "event_ok env aid e"
  using validate_eventD[OF assms] by blast+

lemma read_event_Inr:
  "read_event env aid (n, name, doc) = Inr e \<longleftrightarrow> name = event_name (int n) \<and> validate_event env aid (int n) doc = Inr e"
  by (simp add: read_event_def)

lemma mapR_enumerate_nth:
  assumes "mapR f (enumerate n xs) = Inr ys"
  shows "length ys = length xs" and "i < length xs \<Longrightarrow> f (n + i, xs ! i) = Inr (ys ! i)"
  using assms mapR_length[OF assms] by (auto simp: mapR_Inr_iff list_all2_conv_all_nth nth_enumerate_eq)

lemma events_read:
  assumes "ledger_events env L = Inr es"
  shows "length (l_events L) = length es"
    and "i < length es \<Longrightarrow> fst (sorted_items (l_events L) ! i) = event_name (int (Suc i))"
    and "i < length es \<Longrightarrow> validate_event env (l_account_id L) (int (Suc i)) (snd (sorted_items (l_events L) ! i)) = Inr (es ! i)"
proof -
  from assms have m: "mapR (read_event env (l_account_id L)) (enumerate 1 (sorted_items (l_events L))) = Inr es"
    by (auto simp: ledger_events_Inr)
  show len: "length (l_events L) = length es"
    using mapR_enumerate_nth(1)[OF m] by (simp add: sorted_items_def)
  assume i: "i < length es"
  then have "read_event env (l_account_id L) (1 + i, sorted_items (l_events L) ! i) = Inr (es ! i)"
    using mapR_enumerate_nth(2)[OF m, of i] by (simp add: sorted_items_def len)
  then show "fst (sorted_items (l_events L) ! i) = event_name (int (Suc i))"
    and "validate_event env (l_account_id L) (int (Suc i)) (snd (sorted_items (l_events L) ! i)) = Inr (es ! i)"
    by (cases "sorted_items (l_events L) ! i"; simp add: read_event_Inr)+
qed

lemma events_sequence: "ledger_events env L = Inr es \<Longrightarrow> i < length es \<Longrightarrow> ev_sequence (es ! i) = int (Suc i)"
  using events_read(3) validate_event_facts(1) by blast

lemma events_names:
  assumes "ledger_events env L = Inr es"
  shows "map fst (sorted_items (l_events L)) = map (\<lambda>i. event_name (int i)) [1..<Suc (length es)]"
  using events_read(1,2)[OF assms]
  by (intro nth_equalityI) (auto simp: sorted_items_def simp del: upt_Suc)

lemma event_name_inject: "event_name (int a) = event_name (int b) \<longleftrightarrow> a = b"
  by (simp add: event_name_def) (metis nat_of_digits_zfield)

lemma event_name_fresh:
  assumes "ledger_events env L = Inr es"
  shows "map_of (l_events L) (event_name (int (length es) + 1)) = None"
proof -
  have "fst ` set (l_events L) = set (map fst (sorted_items (l_events L)))" by simp
  also have "\<dots> = (\<lambda>i. event_name (int i)) ` {1..<Suc (length es)}"
    by (simp only: events_names[OF assms] set_map set_upt)
  finally have "event_name (int (Suc (length es))) \<notin> fst ` set (l_events L)"
    by (auto simp: event_name_inject simp del: of_nat_Suc)
  then show ?thesis by (simp add: map_of_eq_None_iff add.commute)
qed

section \<open>Events as documents\<close>

lemma event_lookup:
  "map_of (payload_items e @ xs) ''schema_version'' = Some (JStr paper_schema_version)"
  "map_of (payload_items e @ xs) ''event_id'' = Some (JStr (ev_event_id e))"
  "map_of (payload_items e @ xs) ''idempotency_key'' = Some (JStr (ev_idempotency_key e))"
  "map_of (payload_items e @ xs) ''account_id'' = Some (JStr (ev_account_id e))"
  "map_of (payload_items e @ xs) ''sequence'' = Some (JInt (ev_sequence e))"
  "map_of (payload_items e @ xs) ''event_at'' = Some (JStr (ev_event_at e))"
  "map_of (payload_items e @ xs) ''session_date'' = Some (JStr (ev_session_date e))"
  "map_of (payload_items e @ xs) ''event_type'' = Some (JStr (ev_event_type e))"
  "map_of (payload_items e @ xs) ''decision_id'' = Some (text_json (ev_decision_id e))"
  "map_of (payload_items e @ xs) ''target_id'' = Some (text_json (ev_target_id e))"
  "map_of (payload_items e @ xs) ''order_id'' = Some (text_json (ev_order_id e))"
  "map_of (payload_items e @ xs) ''security_id'' = Some (text_json (ev_security_id e))"
  "map_of (payload_items e @ xs) ''currency'' = Some (JStr (ev_currency e))"
  "map_of (payload_items e @ xs) ''quantity_delta'' = Some (JStr (ev_quantity_delta e))"
  "map_of (payload_items e @ xs) ''amount_local_delta'' = Some (JStr (ev_amount_local_delta e))"
  "map_of (payload_items e @ xs) ''amount_base_delta'' = Some (JStr (ev_amount_base_delta e))"
  "map_of (payload_items e @ xs) ''nav_base'' = Some (text_json (ev_nav_base e))"
  "map_of (payload_items e @ xs) ''cash_base'' = Some (text_json (ev_cash_base e))"
  "map_of (payload_items e @ xs) ''positions_value_base'' = Some (text_json (ev_positions_value_base e))"
  "map_of (payload_items e @ xs) ''details'' = Some (JObj (ev_details e))"
  by (simp_all add: payload_items_def)

lemma hash_lookup: "map_of (payload_items e @ [(''record_hash'', JStr h)]) ''record_hash'' = Some (JStr h)"
  by (simp add: payload_items_def)

lemma payload_of_event: "payload_of (payload_items e @ [(''record_hash'', JStr h)]) = event_payload e"
  by (simp add: payload_of_def payload_items_def event_payload_def)

lemma payload_keys: "jkeys (payload_items e @ [(''record_hash'', h)]) = event_fields @ [''record_hash'']"
  by (simp add: payload_items_def jkeys_def event_fields_def)

lemma text_json_Inr: "(case text_json v of JNull \<Rightarrow> Inr None | JStr s \<Rightarrow> Inr (Some s) | _ \<Rightarrow> raise c m) = Inr v"
  by (simp add: text_json_def split: option.split)

lemma text_field_Inr: "map_of ob key = Some (text_json v) \<Longrightarrow> text_field ob key = Inr v"
  by (simp add: text_field_def jget_def text_json_Inr)

lemma ledger_text_Inr:
  "map_of ob key = Some (JStr s) \<Longrightarrow> ledger_text ok m ob key = (if ok s then Inr s else ledger_error m)"
  by (simp add: ledger_text_def jget_def)

lemma valuation_field_Inr:
  "map_of ob key = Some (text_json v) \<Longrightarrow>
    valuation_field ob key = (case v of None \<Rightarrow> Inr None | Some s \<Rightarrow> if parse_unsigned s \<noteq> None then Inr (Some s)
      else ledger_error (''paper event '' @ key @ '' is not a canonical non-negative decimal''))"
  by (simp add: valuation_field_def jget_def text_json_def Let_def split: option.split)

lemmas event_read = event_lookup hash_lookup payload_of_event text_field_Inr ledger_text_Inr valuation_field_Inr

lemma text_json_inject [simp]: "text_json a = text_json b \<longleftrightarrow> a = b"
  by (auto simp: text_json_def split: option.splits)

lemma fields_of_payload:
  assumes "fields_of (payload_items e @ [(''record_hash'', JStr (ev_record_hash e))]) e'"
    and "ev_sequence e' = ev_sequence e" and "ev_account_id e' = ev_account_id e"
  shows "e' = e"
  using assms unfolding fields_of_def event_lookup hash_lookup
  by (intro event.equality) (simp_all only: option.inject json.inject text_json_inject, simp)

lemma validate_event_json:
  "validate_event env aid (ev_sequence e) (event_json e) = Inr e' \<longleftrightarrow>
    event_ok env aid e \<and> event_hash env (event_payload e) = ev_record_hash e \<and> e' = e"
proof
  assume "validate_event env aid (ev_sequence e) (event_json e) = Inr e'"
  from validate_eventD[OF this] have n: "ev_sequence e' = ev_sequence e" and ok: "event_ok env aid e'"
    and h: "event_hash env (event_payload e) = ev_record_hash e'"
    and f: "fields_of (payload_items e @ [(''record_hash'', JStr (ev_record_hash e))]) e'"
    by (auto simp: event_json_def payload_of_event)
  have a: "ev_account_id e = aid"
    using \<open>validate_event env aid (ev_sequence e) (event_json e) = Inr e'\<close>
    unfolding validate_event_def event_json_def json.case by (elim bindR_InrE) (simp only: ensure_Inr event_lookup option.inject json.inject)
  from ok a have "ev_account_id e' = ev_account_id e" by (simp add: event_ok_def)
  from fields_of_payload[OF f n this] have "e' = e" .
  with ok h show "event_ok env aid e \<and> event_hash env (event_payload e) = ev_record_hash e \<and> e' = e" by simp
next
  assume "event_ok env aid e \<and> event_hash env (event_payload e) = ev_record_hash e \<and> e' = e"
  then have ok: "event_ok env aid e" and h: "event_hash env (event_payload e) = ev_record_hash e" and e: "e' = e"
    by simp_all
  note facts = ok[unfolded event_ok_def]
  have keys: "set (jkeys (payload_items e @ [(''record_hash'', JStr (ev_record_hash e))]))
      = insert ''record_hash'' (set event_fields)" by (simp only: payload_keys) simp
  have nav: "(case v of None \<Rightarrow> Inr None | Some s \<Rightarrow> if parse_unsigned s \<noteq> None then Inr (Some s) else raise c m) = Inr v"
    if "\<forall>s. v = Some s \<longrightarrow> parse_unsigned s \<noteq> None" for v :: "string option" and c m
    using that by (auto split: option.split)
  show "validate_event env aid (ev_sequence e) (event_json e) = Inr e'"
    unfolding validate_event_def event_json_def json.case keys e delta_field_def
    using facts h by (simp only: event_read nav jget_def bindR_ensure bindR_Inr option.case json.case if_True simp_thms
        equals_int_def check_uuid_def bindR_def sum.case ensure_def)
      (auto split: option.split)
qed

section \<open>Appending\<close>

text \<open>The ledger with one more event file and manifest entry.\<close>

definition appended :: "json list \<Rightarrow> event \<Rightarrow> ledger \<Rightarrow> ledger" where
  "appended entries e L = L
     \<lparr>l_events := dset (event_name (ev_sequence e)) (event_json e) (l_events L),
      l_manifest := Some (manifest_json (l_account_id L) (entries @ [manifest_entry e]))\<rparr>"

lemma appended_simps [simp]:
  "l_account_id (appended entries e L) = l_account_id L" "l_account (appended entries e L) = l_account L"
  "l_targets (appended entries e L) = l_targets L" "l_orders (appended entries e L) = l_orders L"
  "l_reports (appended entries e L) = l_reports L" "l_used (appended entries e L) = l_used L"
  by (simp_all add: appended_def)

lemma make_event_simps [simp]:
  "ev_event_id (make_event env aid n d) = event_id env aid (dr_idempotency_key d)"
  "ev_idempotency_key (make_event env aid n d) = dr_idempotency_key d"
  "ev_account_id (make_event env aid n d) = aid" "ev_sequence (make_event env aid n d) = n"
  "ev_event_at (make_event env aid n d) = timestamp (dr_event_at d)"
  "ev_session_date (make_event env aid n d) = isoformat (dr_session_date d)"
  "ev_event_type (make_event env aid n d) = dr_event_type d" "ev_decision_id (make_event env aid n d) = dr_decision_id d"
  "ev_target_id (make_event env aid n d) = dr_target_id d" "ev_order_id (make_event env aid n d) = dr_order_id d"
  "ev_security_id (make_event env aid n d) = dr_security_id d" "ev_currency (make_event env aid n d) = dr_currency d"
  "ev_quantity_delta (make_event env aid n d) = decimal_string (dr_quantity_delta d)"
  "ev_amount_local_delta (make_event env aid n d) = decimal_string (dr_amount_local_delta d)"
  "ev_amount_base_delta (make_event env aid n d) = decimal_string (dr_amount_base_delta d)"
  "ev_nav_base (make_event env aid n d) = map_option decimal_string (dr_nav_base d)"
  "ev_cash_base (make_event env aid n d) = map_option decimal_string (dr_cash_base d)"
  "ev_positions_value_base (make_event env aid n d) = map_option decimal_string (dr_positions_value_base d)"
  "ev_details (make_event env aid n d) = dr_details d"
  by (simp_all add: make_event_def bare_event_def Let_def)

lemma event_payload_hash [simp]: "event_payload (e\<lparr>ev_record_hash := h\<rparr>) = event_payload e"
  by (simp add: event_payload_def payload_items_def)

lemma make_event_hash: "ev_record_hash (make_event env aid n d) = event_hash env (event_payload (make_event env aid n d))"
  by (simp add: make_event_def Let_def)

lemma keys_find: "find (\<lambda>e. ev_idempotency_key e = key) es = None \<longleftrightarrow> key \<notin> ev_idempotency_key ` set es"
  by (auto simp: find_None_iff)

lemma read_manifest_cong:
  "l_manifest L = l_manifest K \<Longrightarrow> l_account_id L = l_account_id K \<Longrightarrow> read_manifest L = read_manifest K"
  by (simp only: read_manifest_def)

lemma append_event_new:
  assumes "ledger_events env L = Inr es" and "dr_idempotency_key d \<noteq> []" and "dr_event_type d \<in> set event_types"
    and "dr_idempotency_key d \<notin> ev_idempotency_key ` set es"
  shows "\<exists>entries e. read_manifest L = Inr entries \<and> e = make_event env (l_account_id L) (int (length es) + 1) d
    \<and> append_event env d L = (Inr e, appended entries e L)"
proof -
  from assms(1) obtain entries where m: "read_manifest L = Inr entries" and len: "length entries = length es"
    using events_read(1)[OF assms(1)] by (auto simp: ledger_events_Inr)
  define e where "e = make_event env (l_account_id L) (int (length es) + 1) d"
  have seq: "ev_sequence e = int (length es) + 1" by (simp add: e_def)
  have w: "write_event env e L = (Inr (), L\<lparr>l_events := dset (event_name (int (length es) + 1)) (event_json e) (l_events L)\<rparr>)"
    by (simp add: write_event_def put_immutable_def seq event_name_fresh[OF assms(1)])
  have rm: "read_manifest (L\<lparr>l_events := f\<rparr>) = Inr entries" for f
    unfolding m[symmetric] by (rule read_manifest_cong) simp_all
  have mj: "manifest_json aid (entries @ [x]) = JObj [(''schema_version'', JStr paper_schema_version),
      (''account_id'', JStr aid), (''event_count'', JInt (int (length es) + 1)),
      (''last_sequence'', JInt (int (length es) + 1)), (''events'', JArr (entries @ [x]))]" for aid x
    by (simp add: manifest_json_def len)
  have "append_event env d L = (Inr e, appended entries e L)"
    using assms
    by (simp add: append_event_def prog_defs event_for_idempotency_def keys_find[THEN iffD2] rm
        write_manifest_def appended_def mj seq e_def[symmetric] w)
  with m e_def show ?thesis by blast
qed

text \<open>An append either leaves the ledger alone or adds one event under a key that the ledger does not have.\<close>

definition append_adds :: "env \<Rightarrow> draft \<Rightarrow> ledger \<Rightarrow> event list \<Rightarrow> json list \<Rightarrow> event \<Rightarrow> bool" where
  "append_adds env d L es entries e \<longleftrightarrow> ledger_events env L = Inr es \<and> read_manifest L = Inr entries
     \<and> dr_idempotency_key d \<noteq> [] \<and> dr_event_type d \<in> set event_types
     \<and> dr_idempotency_key d \<notin> ev_idempotency_key ` set es
     \<and> e = make_event env (l_account_id L) (int (length es) + 1) d"

definition append_finds :: "env \<Rightarrow> draft \<Rightarrow> ledger \<Rightarrow> event list \<Rightarrow> event \<Rightarrow> bool" where
  "append_finds env d L es e \<longleftrightarrow> ledger_events env L = Inr es
     \<and> find (\<lambda>e. ev_idempotency_key e = dr_idempotency_key d) es = Some e
     \<and> same_json (event_payload e) (event_payload (make_event env (l_account_id L) (ev_sequence e) d))
     \<and> ev_record_hash e = ev_record_hash (make_event env (l_account_id L) (ev_sequence e) d)"

lemma append_event_cases:
  assumes "append_event env d L = (r, L')"
  obtains (adds) es entries e where "append_adds env d L es entries e" and "r = Inr e" and "L' = appended entries e L"
  | (finds) es e where "append_finds env d L es e" and "r = Inr e" and "L' = L"
  | (fails) x where "r = Inl x" and "L' = L"
proof (cases "dr_idempotency_key d = [] \<or> dr_event_type d \<notin> set event_types")
  case True
  with assms that(3) show ?thesis by (auto simp: append_event_def prog_defs raise_def split: if_splits)
next
  case ok: False
  show ?thesis
  proof (cases "ledger_events env L")
    case (Inl x)
    with ok assms that(3) show ?thesis by (auto simp: append_event_def prog_defs event_for_idempotency_def)
  next
    case es: (Inr es)
    show ?thesis
    proof (cases "find (\<lambda>e. ev_idempotency_key e = dr_idempotency_key d) es")
      case None
      then have fresh: "dr_idempotency_key d \<notin> ev_idempotency_key ` set es" by (simp only: keys_find simp_thms)
      from append_event_new[OF es _ _ fresh] ok obtain entries e where a: "read_manifest L = Inr entries"
        "e = make_event env (l_account_id L) (int (length es) + 1) d" "append_event env d L = (Inr e, appended entries e L)"
        by blast
      show ?thesis
      proof (rule that(1))
        show "append_adds env d L es entries e" unfolding append_adds_def using a ok es fresh by blast
      qed (use a assms in simp_all)
    next
      case (Some e)
      let ?n = "make_event env (l_account_id L) (ev_sequence e) d"
      have "append_event env d L = (if \<not> same_json (event_payload e) (event_payload ?n) \<or> ev_record_hash e \<noteq> ev_record_hash ?n
          then raise PaperConflictError (''idempotency key already contains different event: '' @ dr_idempotency_key d)
          else Inr e, L)"
        using ok es Some by (simp add: append_event_def prog_defs event_for_idempotency_def)
      with assms consider (raised) x where "r = Inl x" "L' = L"
        | (same) "r = Inr e" "L' = L" "same_json (event_payload e) (event_payload ?n)" "ev_record_hash e = ev_record_hash ?n"
        by (fastforce simp: raise_def split: if_splits)
      then show ?thesis
      proof cases
        case same
        with Some es have "append_finds env d L es e" by (simp only: append_finds_def simp_thms)
        from that(2)[OF this same(1,2)] show ?thesis .
      qed (rule that(3))
    qed
  qed
qed

lemma append_adds_run: "append_adds env d L es entries e \<Longrightarrow> append_event env d L = (Inr e, appended entries e L)"
  using append_event_new[of env L es d] by (auto simp: append_adds_def)

section \<open>Reading after an append\<close>

lemma events_distinct_names:
  assumes "ledger_events env L = Inr es"
  shows "distinct (map fst (l_events L))"
proof -
  have "distinct (map fst (sorted_items (l_events L)))"
    by (simp only: events_names[OF assms]) (simp add: distinct_map inj_on_def event_name_inject del: upt_Suc)
  then show ?thesis by (simp add: sorted_items_def)
qed

lemma events_lookup:
  assumes "ledger_events env L = Inr es" and "i < length es"
  obtains doc where "map_of (l_events L) (event_name (int (Suc i))) = Some doc"
    and "validate_event env (l_account_id L) (int (Suc i)) doc = Inr (es ! i)"
proof -
  let ?item = "sorted_items (l_events L) ! i"
  have "?item \<in> set (l_events L)"
    using assms events_read(1)[OF assms(1)]
    by (metis length_sort nth_mem set_sorted_items sorted_items_def)
  moreover have "?item = (event_name (int (Suc i)), snd ?item)"
    using events_read(2)[OF assms] by (metis prod.collapse)
  ultimately have "map_of (l_events L) (event_name (int (Suc i))) = Some (snd ?item)"
    by (metis events_distinct_names[OF assms(1)] map_of_is_SomeI)
  with that events_read(3)[OF assms] show ?thesis by blast
qed

text \<open>
  Whatever was appended, a ledger that can still be read holds the old events and then the new one.
\<close>

lemma events_after_append:
  assumes "append_adds env d L es entries e" and "ledger_events env (appended entries e L) = Inr es'"
  shows "es' = es @ [e]"
proof -
  let ?K = "appended entries e L" and ?n = "length es"
  from assms(1) have es: "ledger_events env L = Inr es" and seq: "ev_sequence e = int (Suc ?n)"
    by (simp_all add: append_adds_def)
  have look: "map_of (l_events ?K) name = (if name = event_name (int (Suc ?n)) then Some (event_json e)
      else map_of (l_events L) name)" for name
    by (simp add: appended_def seq del: of_nat_Suc)
  have "event_name (int (Suc ?n)) \<notin> fst ` set (l_events L)"
    using event_name_fresh[OF es] by (simp add: map_of_eq_None_iff add.commute)
  then have "length (l_events ?K) = Suc ?n"
    by (simp add: appended_def seq dset_fresh events_read(1)[OF es] del: of_nat_Suc)
  then have len: "length es' = Suc ?n" using events_read(1)[OF assms(2)] by simp
  have "es' ! i = (es @ [e]) ! i" if i: "i < Suc ?n" for i
  proof -
    from i len have "i < length es'" by simp
    from events_lookup[OF assms(2) this] obtain doc where
      doc: "map_of (l_events ?K) (event_name (int (Suc i))) = Some doc"
        "validate_event env (l_account_id L) (int (Suc i)) doc = Inr (es' ! i)" by auto
    show ?thesis
    proof (cases "i = ?n")
      case True
      with doc look have "validate_event env (l_account_id L) (ev_sequence e) (event_json e) = Inr (es' ! i)"
        by (simp add: seq)
      with True show ?thesis by (simp add: validate_event_json)
    next
      case False
      with i have lt: "i < ?n" by simp
      from events_lookup[OF es this] doc look False show ?thesis
        by (auto simp: event_name_inject nth_append lt simp del: of_nat_Suc)
    qed
  qed
  then show ?thesis using len by (intro nth_equalityI) auto
qed

text \<open>
  The names sort as the sequence numbers as long as these have at most six digits, and then an
  acceptable event keeps the ledger readable.
\<close>

lemma event_name_less: "a < b \<Longrightarrow> b < 1000000 \<Longrightarrow> event_name (int a) < event_name (int b)"
  using zfield_less_iff[of a 6 b] by (simp add: event_name_def list_less_append length_zfield)

lemma sorted_same_key: "sorted (map fst (filter (\<lambda>y. c = fst y) d))"
  by (induction d) auto

lemma sorted_items_snoc:
  assumes "\<And>k. k \<in> fst ` set d \<Longrightarrow> k < n"
  shows "sorted_items (dset n v d) = sorted_items d @ [(n, v)]"
proof -
  have "n \<notin> fst ` set d" using assms by blast
  then have d: "dset n v d = d @ [(n, v)]" by (rule dset_fresh)
  have "sort_key fst (d @ [(n, v)]) = sort_key fst d @ [(n, v)]"
  proof (rule properties_for_sort_key)
    fix x assume "x \<in> set (sort_key fst d @ [(n, v)])"
    have "filter (\<lambda>y. fst x = fst y) (sort_key fst d) = filter (\<lambda>y. fst x = fst y) d"
      unfolding filter_sort by (rule sort_key_id_if_sorted) (rule sorted_same_key)
    then show "filter (\<lambda>y. fst x = fst y) (sort_key fst d @ [(n, v)]) = filter (\<lambda>y. fst x = fst y) (d @ [(n, v)])"
      by simp
  next
    show "sorted (map fst (sort_key fst d @ [(n, v)]))"
      using assms by (auto simp: sorted_append intro: less_imp_le)
  qed simp
  then show ?thesis by (simp add: sorted_items_def d)
qed

lemma read_manifest_appended: "read_manifest (appended entries e L) = Inr (entries @ [manifest_entry e])"
  by (auto simp: read_manifest_def appended_def manifest_json_def jkeys_def jget_def equals_int_def bindR_ensure)

lemma entry_matches_entry [simp]: "entry_matches (manifest_entry e) e"
  by (auto simp: entry_matches_def manifest_entry_def jkeys_def equals_int_def)

lemma append_readable:
  assumes "append_adds env d L es entries e" and "event_ok env (l_account_id L) e" and "length es + 1 < 1000000"
  shows "ledger_events env (appended entries e L) = Inr (es @ [e])"
proof -
  let ?n = "Suc (length es)"
  from assms(1) have es: "ledger_events env L = Inr es" and m: "read_manifest L = Inr entries"
    and e: "e = make_event env (l_account_id L) (int ?n) d" by (simp_all add: append_adds_def add.commute)
  have seq: "ev_sequence e = int ?n" by (simp add: e)
  have files: "mapR (read_event env (l_account_id L)) (enumerate 1 (sorted_items (l_events L))) = Inr es"
    and ent: "list_all (\<lambda>(x, e). entry_matches x e) (zip entries es)" and len: "length entries = length es"
    using es m events_read(1)[OF es] by (auto simp: ledger_events_Inr)
  have "k < event_name (int ?n)" if "k \<in> fst ` set (l_events L)" for k
  proof -
    have "fst ` set (l_events L) = set (map fst (sorted_items (l_events L)))" by simp
    with that obtain i where "k = event_name (int i)" "i < ?n"
      by (auto simp: events_names[OF es] simp del: upt_Suc)
    with assms(3) show ?thesis by (simp add: event_name_less del: of_nat_Suc)
  qed
  from sorted_items_snoc[OF this] have sorted: "sorted_items (l_events (appended entries e L))
      = sorted_items (l_events L) @ [(event_name (int ?n), event_json e)]"
    by (simp add: appended_def seq del: of_nat_Suc)
  have "event_hash env (event_payload e) = ev_record_hash e" using make_event_hash[of env "l_account_id L" "int ?n" d] e by simp
  with assms(2) have "validate_event env (l_account_id L) (ev_sequence e) (event_json e) = Inr e"
    by (simp add: validate_event_json)
  then have "read_event env (l_account_id L) (?n, event_name (int ?n), event_json e) = Inr e"
    by (simp add: read_event_Inr seq del: of_nat_Suc)
  moreover have "length (sorted_items (l_events L)) = length es"
    by (simp add: sorted_items_def events_read(1)[OF es])
  ultimately have "mapR (read_event env (l_account_id L)) (enumerate 1 (sorted_items (l_events (appended entries e L)))) = Inr (es @ [e])"
    using files by (simp add: sorted enumerate_append_eq mapR_append del: of_nat_Suc)
  moreover have "length (l_events (appended entries e L)) = ?n"
    using arg_cong[OF sorted, of length] by (simp add: sorted_items_def events_read(1)[OF es])
  ultimately show ?thesis
    using ent len by (simp add: ledger_events_Inr read_manifest_appended)
qed

text \<open>What the engine puts into an event, so that the reader accepts it.\<close>

definition env_ok :: "env \<Rightarrow> bool" where
  "env_ok env \<longleftrightarrow> (\<forall>s. is_sha256 (env_sha256 env s)) \<and> (\<forall>a b. is_uuid (env_uuid5 env a b))"

definition draft_ok :: "draft \<Rightarrow> bool" where
  "draft_ok d \<longleftrightarrow> dr_idempotency_key d \<noteq> [] \<and> dr_event_type d \<in> set event_types \<and> is_currency (dr_currency d)
     \<and> valid_datetime (dr_event_at d) \<and> valid_date (dr_session_date d)
     \<and> is_decimal (dr_quantity_delta d) \<and> is_decimal (dr_amount_local_delta d) \<and> is_decimal (dr_amount_base_delta d)
     \<and> list_all (\<lambda>v. case v of None \<Rightarrow> True | Some q \<Rightarrow> is_decimal q \<and> 0 \<le> q)
         [dr_nav_base d, dr_cash_base d, dr_positions_value_base d]"

lemma make_event_ok: "env_ok env \<Longrightarrow> draft_ok d \<Longrightarrow> event_ok env aid (make_event env aid n d)"
  by (auto simp: event_ok_def draft_ok_def env_ok_def event_id_def make_event_hash event_hash_def json_sha256_def
      split: option.splits)

lemma append_draft_readable:
  "append_adds env d L es entries e \<Longrightarrow> env_ok env \<Longrightarrow> draft_ok d \<Longrightarrow> length es + 1 < 1000000 \<Longrightarrow>
    ledger_events env (appended entries e L) = Inr (es @ [e])"
  by (rule append_readable) (auto simp: append_adds_def intro: make_event_ok)

text \<open>A second append of the same draft finds the first event and changes nothing.\<close>

lemma append_again:
  assumes "append_event env d L = (Inr e, L')" and "ledger_events env L' = Inr es'"
  shows "append_event env d L' = (Inr e, L')"
  using assms(1)
proof (cases rule: append_event_cases)
  case (adds es entries e')
  then have a: "append_adds env d L es entries e" and L': "L' = appended entries e L" by simp_all
  have es': "es' = es @ [e]" using events_after_append[OF a] assms(2) L' by simp
  have key: "ev_idempotency_key e = dr_idempotency_key d" and seq: "ev_sequence e = int (length es) + 1"
    and e: "e = make_event env (l_account_id L) (ev_sequence e) d"
    using a by (simp_all add: append_adds_def)
  have "find (\<lambda>x. ev_idempotency_key x = dr_idempotency_key d) es = None"
    using a by (simp add: append_adds_def keys_find)
  then have "find (\<lambda>x. ev_idempotency_key x = dr_idempotency_key d) es' = Some e"
    by (simp add: es' find_append key)
  with assms(2) a e show ?thesis
    by (simp add: append_event_def prog_defs event_for_idempotency_def append_adds_def L')
qed (use assms in simp_all)

end
