(* ===== verification/Ledger_Steps.thy ===== *)
theory Ledger_Steps
  imports Ledger_Log
begin

text \<open>
  The abstract log behind a ledger, and the steps that a program may make on a ledger: it may add files
  and it may append an event under a new key. What must hold of the log before an event is appended is
  a parameter of the steps; the engine's own condition is in \<open>Paper_Safety\<close>.
\<close>

section \<open>The abstract log\<close>

text \<open>A log whose events carry consecutive numbers and fresh keys, each admitted by the events before it.\<close>

inductive log_of :: "env \<Rightarrow> string \<Rightarrow> (event list \<Rightarrow> draft \<Rightarrow> bool) \<Rightarrow> event list \<Rightarrow> bool" for env aid P where
  empty: "log_of env aid P []"
| snoc: "log_of env aid P es \<Longrightarrow> P es d \<Longrightarrow> dr_idempotency_key d \<notin> ev_idempotency_key ` set es \<Longrightarrow>
    log_of env aid P (es @ [make_event env aid (int (length es) + 1) d])"

lemma log_distinct_keys: "log_of env aid P es \<Longrightarrow> distinct (map ev_idempotency_key es)"
  by (induction rule: log_of.induct) auto

lemma log_entry:
  "log_of env aid P es \<Longrightarrow> i < length es \<Longrightarrow>
    \<exists>d. es ! i = make_event env aid (int i + 1) d \<and> P (take i es) d"
proof (induction arbitrary: i rule: log_of.induct)
  case (snoc es d)
  show ?case
  proof (cases "i < length es")
    case True
    with snoc.IH[OF True] show ?thesis by (auto simp: nth_append)
  next
    case False
    with snoc.prems have i: "i = length es" by simp
    show ?thesis by (rule exI[of _ d]) (simp add: i snoc.hyps)
  qed
qed simp

lemma log_take: "log_of env aid P es \<Longrightarrow> log_of env aid P (take n es)"
proof (induction arbitrary: n rule: log_of.induct)
  case (snoc es d)
  then show ?case by (cases "n \<le> length es") (auto intro: log_of.snoc)
qed (simp add: log_of.empty)

lemma log_member:
  assumes "log_of env aid P es" and "e \<in> set es"
  obtains i d where "i < length es" and "es ! i = e" and "e = make_event env aid (int i + 1) d" and "P (take i es) d"
  using assms log_entry[OF assms(1)] by (metis in_set_conv_nth)

section \<open>Steps\<close>

inductive ledger_step :: "env \<Rightarrow> (event list \<Rightarrow> draft \<Rightarrow> bool) \<Rightarrow> ledger \<Rightarrow> ledger \<Rightarrow> bool" for env P where
  files: "l_events M = l_events L \<Longrightarrow> l_manifest M = l_manifest L \<Longrightarrow> l_account_id M = l_account_id L \<Longrightarrow>
    l_account M = l_account L \<Longrightarrow> map_of (l_targets L) \<subseteq>\<^sub>m map_of (l_targets M) \<Longrightarrow>
    map_of (l_orders L) \<subseteq>\<^sub>m map_of (l_orders M) \<Longrightarrow> map_of (l_reports L) \<subseteq>\<^sub>m map_of (l_reports M) \<Longrightarrow>
    ledger_step env P L M"
| append: "append_adds env d L es entries e \<Longrightarrow> P es d \<Longrightarrow> ledger_step env P L (appended entries e L)"

abbreviation ledger_steps :: "env \<Rightarrow> (event list \<Rightarrow> draft \<Rightarrow> bool) \<Rightarrow> ledger \<Rightarrow> ledger \<Rightarrow> bool" where
  "ledger_steps env P \<equiv> (ledger_step env P)\<^sup>*\<^sup>*"

interpretation ledger_run: state_order "ledger_steps env P" for env P
  by unfold_locales (simp_all add: rtranclp_trans)

lemma ledger_events_cong:
  "l_events M = l_events L \<Longrightarrow> l_manifest M = l_manifest L \<Longrightarrow> l_account_id M = l_account_id L \<Longrightarrow>
    ledger_events env M = ledger_events env L"
  using read_manifest_cong[of M L] by (simp only: ledger_events_def)

lemma steps_identity:
  "ledger_steps env P L M \<Longrightarrow> l_account_id M = l_account_id L \<and> l_account M = l_account L"
proof (induction rule: rtranclp_induct)
  case (step M N)
  from step.hyps(2) have "l_account_id N = l_account_id M \<and> l_account N = l_account M" by cases simp_all
  with step.IH show ?case by simp
qed simp

lemma steps_files:
  "ledger_steps env P L M \<Longrightarrow> map_of (l_targets L) \<subseteq>\<^sub>m map_of (l_targets M)
    \<and> map_of (l_orders L) \<subseteq>\<^sub>m map_of (l_orders M) \<and> map_of (l_reports L) \<subseteq>\<^sub>m map_of (l_reports M)"
proof (induction rule: rtranclp_induct)
  case (step M N)
  from step.hyps(2) have "map_of (l_targets M) \<subseteq>\<^sub>m map_of (l_targets N)
    \<and> map_of (l_orders M) \<subseteq>\<^sub>m map_of (l_orders N) \<and> map_of (l_reports M) \<subseteq>\<^sub>m map_of (l_reports N)"
    by cases simp_all
  with step.IH show ?case by (blast intro: map_le_trans)
qed simp

text \<open>Events are only ever added, and a ledger that can be read could be read before.\<close>

lemma steps_prefix:
  "ledger_steps env P L M \<Longrightarrow> ledger_events env M = Inr es' \<Longrightarrow> \<exists>es new. ledger_events env L = Inr es \<and> es' = es @ new"
proof (induction arbitrary: es' rule: rtranclp_induct)
  case (step M N)
  from step.hyps(2) show ?case
  proof cases
    case files
    with step.prems have "ledger_events env M = Inr es'" using ledger_events_cong[of N M] by simp
    then show ?thesis by (rule step.IH)
  next
    case (append d es entries e)
    with step.prems have "es' = es @ [e]" and "ledger_events env M = Inr es"
      using events_after_append by (auto simp: append_adds_def)
    with step.IH[of es] show ?thesis by auto
  qed
qed simp

lemma steps_subset:
  "ledger_steps env P L M \<Longrightarrow> ledger_events env L = Inr es \<Longrightarrow> ledger_events env M = Inr es' \<Longrightarrow> set es \<subseteq> set es'"
  using steps_prefix by fastforce

text \<open>The events that can be read are an abstract log.\<close>

definition refines_log :: "env \<Rightarrow> (event list \<Rightarrow> draft \<Rightarrow> bool) \<Rightarrow> ledger \<Rightarrow> bool" where
  "refines_log env P L \<longleftrightarrow> (\<forall>es. ledger_events env L = Inr es \<longrightarrow> log_of env (l_account_id L) P es)"

lemma steps_refine: "ledger_steps env P L M \<Longrightarrow> refines_log env P L \<Longrightarrow> refines_log env P M"
proof (induction rule: rtranclp_induct)
  case (step M N)
  then have M: "refines_log env P M" by simp
  from step.hyps(2) show ?case
  proof cases
    case files
    with M show ?thesis using ledger_events_cong[of N M] by (simp add: refines_log_def)
  next
    case (append d es entries e)
    then have es: "log_of env (l_account_id M) P es" and e: "e = make_event env (l_account_id M) (int (length es) + 1) d"
      and fresh: "dr_idempotency_key d \<notin> ev_idempotency_key ` set es"
      using M by (auto simp: refines_log_def append_adds_def)
    from log_of.snoc[OF es append(3) fresh] append(1,2) show ?thesis
      unfolding refines_log_def using events_after_append by (auto simp: e)
  qed
qed simp

section \<open>The operations of the store make steps\<close>

lemma append_step:
  assumes "\<And>es. ledger_events env t = Inr es \<Longrightarrow> P es d"
  shows "ledger_steps env P t (snd (append_event env d t))"
proof -
  obtain r u where run: "append_event env d t = (r, u)" by fastforce
  then have "ledger_steps env P t u"
  proof (cases rule: append_event_cases)
    case (adds es entries e)
    then have "P es d" using assms by (simp add: append_adds_def)
    with adds show ?thesis by (auto intro: ledger_step.append)
  qed simp_all
  then show ?thesis by (simp add: run)
qed

lemma append_steps:
  assumes "\<And>t es. ledger_steps env P s t \<Longrightarrow> ledger_events env t = Inr es \<Longrightarrow> P es d"
  shows "steps_after (ledger_steps env P) s (append_event env d)"
  unfolding steps_after_def using assms by (blast intro: append_step)

lemma append_steps_after:
  assumes "ledger_events env s = Inr es0" and "\<And>es. set es0 \<subseteq> set es \<Longrightarrow> P es d"
  shows "steps_after (ledger_steps env P) s (append_event env d)"
  by (rule append_steps) (use assms steps_subset in blast)

lemma put_immutable_extends: "put_immutable env name doc fs = Inr fs' \<Longrightarrow> map_of fs \<subseteq>\<^sub>m map_of fs'"
  by (auto simp: put_immutable_def map_le_def split: option.splits if_splits)

lemma write_steps:
  "steps_after (ledger_steps env P) s (write_target env i doc)"
  "steps_after (ledger_steps env P) s (write_order env i doc)"
  "steps_after (ledger_steps env P) s (write_report env i doc)"
  by (auto simp: steps_after_def write_target_def write_order_def write_report_def
      intro!: ledger_step.files r_into_rtranclp dest: put_immutable_extends split: sum.split)

end
