(* ===== verification/Paper_Safety.thy ===== *)
theory Paper_Safety
  imports Ledger_Steps Paper_Session
begin

text \<open>
  What the log of a paper account says about its fills and orders, whatever was called on the account
  and however the calls ended: the condition that every appended event meets, the proof that every
  operation of the engine makes only such steps, and the accounts that can be reached.
\<close>

section \<open>What justifies an event\<close>

definition approval_in :: "event list \<Rightarrow> string \<Rightarrow> bool" where
  "approval_in es decision_id \<longleftrightarrow> (\<exists>a \<in> set es. ev_event_type a = ''approval'' \<and> ev_decision_id a = Some decision_id)"

definition order_in :: "event list \<Rightarrow> string \<Rightarrow> string \<Rightarrow> string \<Rightarrow> bool" where
  "order_in es order_id execution_session decision_id \<longleftrightarrow>
     (\<exists>e \<in> set es. ev_event_type e = ''order'' \<and> (\<exists>ob. event_order e = Some ob
        \<and> map_of ob ''order_id'' = Some (JStr order_id) \<and> map_of ob ''decision_id'' = Some (JStr decision_id)
        \<and> map_of ob ''execution_session'' = Some (JStr execution_session)))"

text \<open>The order of the draft is one that construction proposed for a target the risk check has approved.\<close>

definition passed_order :: "env \<Rightarrow> draft \<Rightarrow> bool" where
  "passed_order env d \<longleftrightarrow> (\<exists>account inp sessions k state target orders risk y.
     build_target env account inp sessions k state 1 (dr_decision_id d) = Inr target
     \<and> target_orders env account inp sessions k target state = Inr orders
     \<and> assess_target env account inp sessions k state target orders = Inr risk \<and> rv_status risk = ''approved''
     \<and> y \<in> set orders \<and> map_of (dr_details d) ''order'' = Some (JObj (order_items y))
     \<and> dr_order_id d = Some (or_order_id y) \<and> dr_decision_id d = Some (or_decision_id y)
     \<and> dr_target_id d = Some (tg_target_id target))"

text \<open>The net asset value of the draft is the sum of its cash and its positions.\<close>

definition balanced :: "draft \<Rightarrow> bool" where
  "balanced d \<longleftrightarrow> (\<exists>c p. is_decimal c \<and> is_decimal p \<and> dr_cash_base d = Some c \<and> dr_positions_value_base d = Some p
     \<and> dr_nav_base d = Some (dadd prec c p))"

definition justified :: "env \<Rightarrow> event list \<Rightarrow> draft \<Rightarrow> bool" where
  "justified env es d \<longleftrightarrow>
     (dr_event_type d = ''fill'' \<longrightarrow> (\<exists>order_id decision_id. dr_idempotency_key d = ''fill:'' @ order_id
        \<and> dr_order_id d = Some order_id \<and> order_in es order_id (isoformat (dr_session_date d)) decision_id
        \<and> approval_in es decision_id))
   \<and> (dr_event_type d = ''order'' \<longrightarrow> passed_order env d \<and> (\<exists>r \<in> set es. ev_event_type r = ''risk_approved''
        \<and> ev_decision_id r = dr_decision_id d \<and> ev_target_id r = dr_target_id d))
   \<and> (dr_event_type d \<in> {''approval'', ''manual_rejection''} \<longrightarrow> (\<exists>decision_id. dr_decision_id d = Some decision_id
        \<and> dr_idempotency_key d = ''approval:'' @ decision_id
        \<and> (\<exists>r \<in> set es. ev_event_type r = ''decision'' \<and> ev_decision_id r = Some decision_id)))
   \<and> (dr_event_type d = ''valuation'' \<longrightarrow> balanced d)
   \<and> (dr_nav_base d \<noteq> None \<longrightarrow> dr_event_type d = ''valuation'' \<or> dr_event_type d = ''cash_deposit'')
   \<and> (dr_event_type d = ''cash_deposit'' \<longrightarrow> es = [])"

abbreviation paper_steps :: "env \<Rightarrow> ledger \<Rightarrow> ledger \<Rightarrow> bool" where
  "paper_steps env \<equiv> ledger_steps env (justified env)"

lemma approval_in_mono: "approval_in es x \<Longrightarrow> set es \<subseteq> set es' \<Longrightarrow> approval_in es' x"
  by (auto simp: approval_in_def)

lemma order_in_mono: "order_in es x y z \<Longrightarrow> set es \<subseteq> set es' \<Longrightarrow> order_in es' x y z"
  by (auto simp: order_in_def)

lemma draft_event_simps [simp]:
  "dr_idempotency_key (draft_event k day t ty c details) = k" "dr_session_date (draft_event k day t ty c details) = day"
  "dr_event_at (draft_event k day t ty c details) = t" "dr_event_type (draft_event k day t ty c details) = ty"
  "dr_currency (draft_event k day t ty c details) = c" "dr_details (draft_event k day t ty c details) = details"
  "dr_decision_id (draft_event k day t ty c details) = None" "dr_target_id (draft_event k day t ty c details) = None"
  "dr_order_id (draft_event k day t ty c details) = None" "dr_security_id (draft_event k day t ty c details) = None"
  "dr_nav_base (draft_event k day t ty c details) = None"
  by (simp_all add: draft_event_def)

text \<open>Events of the other types need no justification.\<close>

lemma plain_append:
  "dr_event_type d \<notin> {''fill'', ''order'', ''approval'', ''manual_rejection'', ''valuation'', ''cash_deposit''} \<Longrightarrow>
    dr_nav_base d = None \<Longrightarrow> steps_after (paper_steps env) s (append_event env d)"
  by (rule append_steps) (simp add: justified_def)

lemmas step_rules = ledger_run.steps_rules write_steps plain_append

section \<open>Settlement and valuation\<close>

lemma action_type_plain [simp]: "action_event_type t \<notin> {''fill'', ''order'', ''approval'', ''manual_rejection'', ''valuation'',
    ''cash_deposit''}"
  by (cases t) (simp_all add: action_event_type_def)

lemma apply_actions_steps: "steps_after (paper_steps env) s (apply_actions env account inp sess)"
  unfolding apply_actions_def apply_action_def Let_def
  by (intro step_rules) (simp_all add: action_draft_def action_type_plain[simplified])

lemma fund_buy_steps: "steps_after (paper_steps env) s (fund_buy env account inp sess state order_id currency required)"
  unfolding fund_buy_def Let_def by (intro step_rules) (simp_all add: fx_draft_def)

lemma append_fill_steps:
  assumes "ledger_events env s = Inr es" and "order_in es order_id (isoformat (s_session_date sess)) decision_id"
    and "approval_in es decision_id"
  shows "steps_after (paper_steps env) s (append_fill env account inp sess ob row order_id security_id currency side quantity)"
proof -
  have fill: "steps_after (paper_steps env) s (append_event env (settlement_draft sess ''fill:'' ''fill'' order_id security_id currency details
      \<lparr>dr_quantity_delta := q, dr_amount_local_delta := a, dr_amount_base_delta := b\<rparr>))" for details q a b
    using assms by (intro append_steps_after)
      (auto simp: justified_def settlement_draft_def intro: order_in_mono approval_in_mono)
  show ?thesis
    unfolding append_fill_def Let_def
    by (intro step_rules ledger_run.steps_bind_value fill) (simp_all add: settlement_draft_def)
qed

lemma settle_order_steps:
  assumes "ledger_events env s = Inr es" and "order_in es order_id (isoformat (s_session_date sess)) decision_id"
    and "approval_in es decision_id"
  shows "steps_after (paper_steps env) s (settle_order env account inp sess ob order_id)"
  unfolding settle_order_def Let_def
  by (intro step_rules fund_buy_steps ledger_run.steps_bind)
    (auto intro!: step_rules fund_buy_steps append_fill_steps[OF assms])

text \<open>A decision counts as approved only if the log has an approval of it.\<close>

lemma nonempty_text_Some: "nonempty_text v = Some s \<longleftrightarrow> v = Some s \<and> s \<noteq> []"
  by (auto simp: nonempty_text_def split: option.splits if_splits)

lemma approval_step_cases:
  "map_of (approval_step d e) k = Some True \<Longrightarrow>
    map_of d k = Some True \<or> ev_event_type e = ''approval'' \<and> ev_decision_id e = Some k"
  by (auto simp: approval_step_def nonempty_text_Some split: option.splits if_splits)

lemma approved_in: "map_of (approved_by_decision es) k = Some True \<Longrightarrow> approval_in es k"
proof (induction es rule: rev_induct)
  case (snoc e es)
  from snoc.prems have "map_of (approval_step (approved_by_decision es) e) k = Some True"
    by (simp add: approved_by_decision_def)
  with approval_step_cases[OF this] snoc.IH show ?case by (auto simp: approval_in_def)
qed (simp add: approved_by_decision_def)

lemma order_textD: "order_text ob key = Inr s \<Longrightarrow> map_of ob key = Some (JStr s)"
  unfolding order_text_def by (erule bindR_InrE, case_tac v) auto

lemma settle_event_steps:
  assumes "ledger_events env s = Inr es" and "e \<in> set es"
  shows "steps_after (paper_steps env) s (settle_event env account inp sess (approved_by_decision es) e)"
proof (cases "ev_event_type e = ''order'' \<and> event_order e \<noteq> None")
  case True
  then obtain ob where ob: "event_order e = Some ob" and ty: "ev_event_type e = ''order''" by auto
  have settle: "steps_after (paper_steps env) t (settle_order env account inp sess ob order_id)"
    if t: "paper_steps env s t" "ledger_events env t = Inr es'"
      and "map_of ob ''execution_session'' = Some (JStr (isoformat (s_session_date sess)))"
      and "order_text ob ''decision_id'' = Inr decision_id" and "map_of (approved_by_decision es) decision_id = Some True"
      and "order_text ob ''order_id'' = Inr order_id" for t es' decision_id order_id
  proof (rule settle_order_steps[OF t(2)])
    have sub: "set es \<subseteq> set es'" by (rule steps_subset[OF t(1) assms(1) t(2)])
    have "order_in es order_id (isoformat (s_session_date sess)) decision_id"
      using that ob ty assms(2) order_textD by (auto simp: order_in_def)
    with sub show "order_in es' order_id (isoformat (s_session_date sess)) decision_id" by (rule order_in_mono[rotated])
    show "approval_in es' decision_id" using approved_in[OF that(5)] sub by (rule approval_in_mono)
  qed
  show ?thesis
    unfolding settle_event_def ob
    apply (simp add: ty)
    apply (intro ledger_run.steps_lift ledger_run.steps_if ledger_run.steps_pure)
    apply (rule ledger_run.steps_read)
    apply (rule ledger_run.steps_if)
     apply (rule ledger_run.steps_pure)
    apply (auto simp: event_for_idempotency_def bindR_eq_Inr intro!: settle)
    done
qed (auto simp: settle_event_def split: option.splits intro: ledger_run.steps_pure)

lemma settle_orders_steps: "steps_after (paper_steps env) s (settle_orders env account inp sess)"
  unfolding settle_orders_def
  by (intro ledger_run.steps_read ledger_run.steps_for settle_event_steps)

lemma positions_value_decimal:
  assumes "positions_value account inp state sess req = Inr (v, currencies)"
  shows "is_decimal v"
proof -
  have "is_decimal (fst (v, currencies))"
  proof (rule foldR_invariant[where P = "\<lambda>x. is_decimal (fst x)"])
    show "foldR (positions_step account inp sess req) (0, ps_security_currency state) (sorted_items (ps_quantities state))
        = Inr (v, currencies)" using assms by (simp add: positions_value_def)
  qed (auto simp: positions_step_def bindR_eq_Inr split: if_splits option.splits)
  then show ?thesis by simp
qed

lemma marked_balanced:
  assumes "state_after_mark account inp state sess = Inr marked"
  shows "balanced (valuation_draft account sess decision_id marked holdings)"
  using assms positions_value_decimal
  by (auto simp: state_after_mark_def Let_def bindR_eq_Inr cash_base_def balanced_def valuation_draft_def split: if_splits)

lemma append_valuation_steps: "steps_after (paper_steps env) s (append_valuation env account inp state sess decision_id)"
proof -
  have "steps_after (paper_steps env) t (append_event env (valuation_draft account sess decision_id marked holdings))"
    if "state_after_mark account inp state sess = Inr marked" for t marked holdings
    using marked_balanced[OF that]
    by (intro append_steps) (simp add: justified_def, simp add: valuation_draft_def)
  then show ?thesis
    unfolding append_valuation_def by (intro ledger_run.steps_rules)
qed

section \<open>Decisions\<close>

lemma append_halt_steps: "steps_after (paper_steps env) s (append_halt env account sess decision_id fingerprint cause)"
  unfolding append_halt_def by (intro step_rules) (simp_all add: decision_draft_def)

lemma append_no_op_steps: "steps_after (paper_steps env) s (append_no_op env account sess decision_id cause target_id)"
  unfolding append_no_op_def by (intro step_rules) (simp_all add: decision_draft_def)

lemma publish_report_steps:
  "steps_after (paper_steps env) s (publish_report env recorded account sess decision_id fingerprint warnings)"
  unfolding publish_report_def by (intro step_rules)

lemma approve_steps: "steps_after (paper_steps env) s (approve_paper_decision env decision_id approved event_at)"
  unfolding approve_paper_decision_def
proof (rule ledger_run.steps_read, rule ledger_run.steps_read)
  fix account t u es
  assume t: "paper_steps env s t" "paper_steps env t u" and es: "ledger_events env u = Inr es"
  let ?find = "find (\<lambda>e. ev_decision_id e = Some decision_id \<and> ev_event_type e = ''decision'') es"
  show "steps_after (paper_steps env) u
     (case ?find of
        None \<Rightarrow> raiseS PaperLedgerError (''decision does not exist: '' @ decision_id)
      | Some decision \<Rightarrow>
          bindS (liftS (account_date (ev_session_date decision))) (\<lambda>session_date.
          bindS (liftS (case event_at of Some t \<Rightarrow> Inr t
             | None \<Rightarrow> (case parse_datetime (ev_event_at decision) of
                 None \<Rightarrow> raise PyValueError ''Invalid isoformat string'' | Some t \<Rightarrow> Inr t))) (\<lambda>t.
          append_event env ((draft_event (''approval:'' @ decision_id) session_date t
            (if approved then ''approval'' else ''manual_rejection'') (acc_base_currency account)
            [(''approved'', JBool approved), (''operator'', JStr ''manual'')])
            \<lparr>dr_decision_id := Some decision_id\<rparr>))))"
  proof (cases ?find)
    case (Some r)
    then have "r \<in> set es" "ev_event_type r = ''decision''" "ev_decision_id r = Some decision_id"
      by (auto simp: find_Some_iff)
    then show ?thesis
      by (simp only: Some option.case) (intro ledger_run.steps_lift append_steps_after[OF es], auto simp: justified_def)
  qed (simp add: ledger_run.steps_pure)
qed

lemma record_target_steps:
  "steps_after (paper_steps env) s (record_target env say account sess decision_id fingerprint target risk)"
  unfolding record_target_def Let_def by (intro step_rules) (simp_all add: decision_draft_def)

text \<open>After an approved verdict is recorded, the log has it.\<close>

lemma append_event_recorded:
  assumes "append_event env d L = (Inr e, M)" and "ledger_events env M = Inr es"
  shows "\<exists>r \<in> set es. ev_idempotency_key r = dr_idempotency_key d
    \<and> same_json (event_payload r) (event_payload (make_event env (l_account_id M) (ev_sequence r) d))"
  using assms(1)
proof (cases rule: append_event_cases)
  case (adds es0 entries e')
  with events_after_append[OF adds(1)] assms(2) have "e' \<in> set es" by simp
  moreover have "e' = make_event env (l_account_id M) (ev_sequence e') d"
    using adds by (simp add: append_adds_def)
  ultimately show ?thesis using adds(1) by (intro bexI[of _ e']) (auto simp: append_adds_def)
next
  case (finds es0 e')
  with assms(2) show ?thesis by (auto simp: append_finds_def find_Some_iff)
qed simp

lemma same_payload:
  assumes "same_json (event_payload a) (event_payload b)"
  shows "ev_event_type a = ev_event_type b" and "ev_decision_id a = ev_decision_id b" and "ev_target_id a = ev_target_id b"
    and "ev_order_id a = ev_order_id b" and "ev_session_date a = ev_session_date b"
proof -
  have d: "distinct (map fst (payload_items e))" for e by (simp add: payload_items_def)
  note look = same_json_lookup[OF assms[unfolded event_payload_def] d d]
  have t: "sort_json (text_json v) = text_json v" for v by (cases v) (simp_all add: text_json_def)
  show "ev_event_type a = ev_event_type b" "ev_decision_id a = ev_decision_id b" "ev_target_id a = ev_target_id b"
    "ev_order_id a = ev_order_id b" "ev_session_date a = ev_session_date b"
    using look[of "''event_type''"] look[of "''decision_id''"] look[of "''target_id''"] look[of "''order_id''"]
      look[of "''session_date''"] event_lookup[where xs = "[]"]
    by (simp_all add: t)
qed

lemma risk_recorded:
  assumes "record_target env say account sess decision_id fingerprint target risk s = (Inr (), u)"
    and "rv_status risk = ''approved''" and "paper_steps env u w" and "ledger_events env w = Inr es"
  shows "\<exists>r \<in> set es. ev_event_type r = ''risk_approved'' \<and> ev_decision_id r = Some decision_id
    \<and> ev_target_id r = Some (tg_target_id target)"
proof -
  obtain es0 where es0: "ledger_events env u = Inr es0" "set es0 \<subseteq> set es"
    using steps_prefix[OF assms(3,4)] by auto
  define d where "d = (decision_draft account sess decision_id (''risk:'' @ decision_id) ''risk_approved''
    (verdict_items say risk))\<lparr>dr_target_id := Some (tg_target_id target)\<rparr>"
  obtain t e where "append_event env d t = (Inr e, u)"
    using assms(1,2) unfolding record_target_def Let_def by (auto simp: bindS_Inr returnS_def d_def)
  from append_event_recorded[OF this es0(1)] obtain r where r: "r \<in> set es0"
    "same_json (event_payload r) (event_payload (make_event env (l_account_id u) (ev_sequence r) d))" by auto
  with same_payload[OF r(2)] es0(2) show ?thesis by (auto simp: d_def decision_draft_def)
qed

lemma record_order_steps:
  assumes "\<And>w es. paper_steps env s w \<Longrightarrow> ledger_events env w = Inr es \<Longrightarrow>
      \<exists>r \<in> set es. ev_event_type r = ''risk_approved'' \<and> ev_decision_id r = Some decision_id \<and> ev_target_id r = Some target_id"
    and "\<And>details. map_of details ''order'' = Some (JObj (order_items y)) \<Longrightarrow>
      passed_order env ((decision_draft account sess decision_id (''order:'' @ or_order_id y) ''order'' details)
        \<lparr>dr_currency := or_currency y, dr_target_id := Some target_id, dr_order_id := Some (or_order_id y),
         dr_security_id := Some (or_security_id y)\<rparr>)"
  shows "steps_after (paper_steps env) s (record_order env account sess decision_id target_id y)"
proof -
  have "steps_after (paper_steps env) s (append_event env
      ((decision_draft account sess decision_id (''order:'' @ or_order_id y) ''order''
         [(''order'', JObj (order_items y)), (''path'', p), (''sha256'', h)])
         \<lparr>dr_currency := or_currency y, dr_target_id := Some target_id, dr_order_id := Some (or_order_id y),
          dr_security_id := Some (or_security_id y)\<rparr>))" for p h
    by (rule append_steps) (use assms in \<open>auto simp: justified_def decision_draft_def\<close>)
  then show ?thesis
    unfolding record_order_def
    by (intro ledger_run.steps_bind write_steps ledger_run.steps_pure)
qed

lemma target_decision: "build_target env account inp sessions k state n (Some decision_id) = Inr target \<Longrightarrow> decision_id \<noteq> [] \<Longrightarrow>
    tg_decision_id target = decision_id"
  by (auto simp: build_target_def target_document_def Let_def bindR_eq_Inr split: if_splits prod.splits)

lemma orders_decision:
  assumes "target_orders env account inp sessions k target state = Inr orders" and "y \<in> set orders"
  shows "or_decision_id y = tg_decision_id target"
proof (cases "length sessions \<le> k + 1")
  case False
  with assms obtain tq lists where m: "mapR (order_for env account inp (sessions ! k)
      (isoformat (s_session_date (sessions ! (k + 1)))) target state tq) (order_candidates tq state) = Inr lists"
    and y: "y \<in> set (concat lists)"
    by (auto simp: target_orders_def Let_def bindR_eq_Inr)
  from y obtain os where os: "os \<in> set lists" "y \<in> set os" by auto
  from mapR_memD[OF m os(1)] order_for_Inr(3)[OF _ os(2)] show ?thesis by blast
qed (use assms in \<open>simp add: target_orders_def\<close>)

lemma rebalance_steps:
  assumes "decision_id \<noteq> []"
  shows "steps_after (paper_steps env) s
    (rebalance env say account inp sessions k sess state decision_id fingerprint)"
  unfolding rebalance_def
proof (intro ledger_run.steps_lift)
  fix target orders risk
  assume built: "build_target env account inp sessions k state 1 (Some decision_id) = Inr target"
    and ord: "target_orders env account inp sessions k target state = Inr orders"
    and risk: "assess_target env account inp sessions k state target orders = Inr risk"
  let ?publish = "record_target env say account sess decision_id fingerprint target risk"
  let ?rest = "\<lambda>_. if rv_status risk \<noteq> ''approved'' then returnS ()
     else bindS (forS orders (record_order env account sess decision_id (tg_target_id target))) (\<lambda>_.
       if orders = [] then append_no_op env account sess decision_id ''target_matches_projection'' (Some (tg_target_id target))
       else if acc_approval_mode account = ''auto''
       then bindS (approve_paper_decision env decision_id True (Some (session_decision_at sess))) (\<lambda>_. returnS ())
       else returnS ())"
  show "steps_after (paper_steps env) s (bindS ?publish ?rest)"
  proof (rule ledger_run.steps_bind_value[OF record_target_steps])
    fix v t u
    assume run: "?publish t = (Inr v, u)"
    have order: "steps_after (paper_steps env) u (record_order env account sess decision_id (tg_target_id target) y)"
      if "rv_status risk = ''approved''" and y: "y \<in> set orders" for y
    proof (rule record_order_steps)
      fix w es
      assume "paper_steps env u w" and "ledger_events env w = Inr es"
      with run that(1) show "\<exists>r \<in> set es. ev_event_type r = ''risk_approved'' \<and> ev_decision_id r = Some decision_id
          \<and> ev_target_id r = Some (tg_target_id target)" by (auto intro!: risk_recorded)
    next
      fix details
      assume "map_of details ''order'' = Some (JObj (order_items y))"
      moreover have "or_decision_id y = decision_id"
        using orders_decision[OF ord y] target_decision[OF built assms] by simp
      ultimately show "passed_order env ((decision_draft account sess decision_id (''order:'' @ or_order_id y) ''order'' details)
          \<lparr>dr_currency := or_currency y, dr_target_id := Some (tg_target_id target),
           dr_order_id := Some (or_order_id y), dr_security_id := Some (or_security_id y)\<rparr>)"
        using built ord risk that unfolding passed_order_def decision_draft_def
        by (intro exI[of _ account] exI[of _ inp] exI[of _ sessions] exI[of _ k] exI[of _ state] exI[of _ target]
            exI[of _ orders] exI[of _ risk] exI[of _ y]) simp
    qed
    show "steps_after (paper_steps env) u (?rest v)"
      by (cases "rv_status risk = ''approved''")
        (auto intro!: ledger_run.steps_bind ledger_run.steps_for ledger_run.steps_pure order append_no_op_steps approve_steps)
  qed
qed

lemma decide_session_steps:
  assumes "decision_id \<noteq> []"
  shows "steps_after (paper_steps env) s
    (decide_session env say account inp sessions k sess state decision_id fingerprint)"
  unfolding decide_session_def
  by (intro step_rules append_no_op_steps rebalance_steps assms) (simp_all add: decision_draft_def)

lemma session_body_steps:
  assumes "decision_id \<noteq> []"
  shows "steps_after (paper_steps env) s
    (session_body env say recorded account inp sessions k sess decision_id fingerprint)"
  unfolding session_body_def session_cycle_def
  by (intro ledger_run.steps_rules apply_actions_steps settle_orders_steps append_valuation_steps
      decide_session_steps assms publish_report_steps append_halt_steps)

lemma uuid_nonempty: "env_ok env \<Longrightarrow> env_uuid5 env a b \<noteq> []"
  by (metis env_ok_def is_uuid_def list.size(3) numeral_eq_iff zero_neq_numeral)

lemma run_session_steps:
  assumes "env_ok env"
  shows "steps_after (paper_steps env) s (run_paper_session env say fs now recorded doc day clock_value refs)"
  unfolding run_paper_session_def Let_def
  by (intro ledger_run.steps_rules session_body_steps) (simp_all add: decision_id_of_def uuid_nonempty[OF assms])

section \<open>The accounts that can be reached\<close>

text \<open>A ledger whose readable events are justified; an unused directory is one.\<close>

abbreviation justified_log :: "env \<Rightarrow> ledger \<Rightarrow> bool" where
  "justified_log env \<equiv> refines_log env (justified env)"

definition unused :: "ledger \<Rightarrow> bool" where
  "unused L \<longleftrightarrow> \<not> l_used L \<and> l_account L = None \<and> l_manifest L = None \<and> l_events L = [] \<and> l_targets L = []
     \<and> l_orders L = [] \<and> l_reports L = []"

inductive paper_reachable :: "env \<Rightarrow> ledger \<Rightarrow> bool" for env where
  fresh: "unused L \<Longrightarrow> paper_reachable env L"
| created: "paper_reachable env L \<Longrightarrow> paper_reachable env (snd (create_paper_account env doc L))"
| session: "paper_reachable env L \<Longrightarrow>
    paper_reachable env (snd (run_paper_session env say fs now recorded doc day clock_value refs L))"
| decided: "paper_reachable env L \<Longrightarrow> paper_reachable env (snd (approve_paper_decision env decision_id approved event_at L))"

lemma justified_steps: "steps_after (paper_steps env) L m \<Longrightarrow> justified_log env L \<Longrightarrow> justified_log env (snd (m L))"
  unfolding steps_after_def using steps_refine by blast

lemma empty_manifest_events:
  assumes "l_manifest L = Some (manifest_json aid [])" and "ledger_events env L = Inr es"
  shows "es = []"
proof -
  from assms(2) obtain entries where m: "read_manifest L = Inr entries" and len: "length (l_events L) = length entries"
    by (auto simp: ledger_events_Inr)
  from m assms(1) have "entries = []"
    by (auto simp: read_manifest_def manifest_json_def bindR_eq_Inr jget_def)
  with len events_read(1)[OF assms(2)] show ?thesis by simp
qed

lemma empty_manifest_log: "l_manifest L = Some (manifest_json aid []) \<Longrightarrow> justified_log env L"
  by (auto simp: refines_log_def intro: log_of.empty dest: empty_manifest_events)

lemma initialize_log:
  assumes "justified_log env L"
  shows "justified_log env (snd (initialize env doc L))"
proof -
  define rest where "rest = (\<lambda>normalized. bindS (liftS (account_date (acc_start_date normalized))) (\<lambda>start.
     bindS (liftS (decimal False False ''initial_cash'' (JStr (ac_initial_cash (acc_accounting_policy normalized))))) (\<lambda>cash.
     bindS (append_event env (deposit_draft env normalized start cash)) (\<lambda>_. returnS normalized))))"
  have run: "initialize env doc L = (case validate_paper_account doc of Inl x \<Rightarrow> (Inl x, L)
      | Inr normalized \<Rightarrow>
        (if acc_account_id normalized \<noteq> l_account_id L
        then (raise PaperSpecError ''account_id does not match ledger path'', L)
        else (case l_account L of
          Some existing_doc \<Rightarrow> (case validate_paper_account existing_doc of Inl x \<Rightarrow> (Inl x, L)
            | Inr existing \<Rightarrow> ((if existing \<noteq> normalized
                then raise PaperConflictError ''paper account already exists with different specification''
                else Inr existing), L))
        | None \<Rightarrow> (if l_used L
            then (raise PaperLedgerError ''ledger directory is not an unused account directory'', L)
            else rest normalized (L\<lparr>l_used := True, l_account := Some (account_json normalized),
                l_manifest := Some (manifest_json (acc_account_id normalized) [])\<rparr>)))))"
    by (simp add: initialize_def rest_def prog_defs create_directories_def write_manifest_def raise_def
        split: sum.split option.split)
  have new: "justified_log env (snd (rest normalized K))" if K: "l_manifest K = Some (manifest_json aid [])" for normalized K aid
  proof -
    have "paper_steps env K (snd (append_event env (deposit_draft env normalized start cash) K))" for start cash
      by (rule append_step) (use empty_manifest_events[OF K] in \<open>simp add: justified_def deposit_draft_def\<close>)
    then have "paper_steps env K (snd (rest normalized K))"
      by (auto simp: rest_def prog_defs split: sum.split prod.split) (metis snd_conv)+
    then show ?thesis by (rule steps_refine) (rule empty_manifest_log[OF K])
  qed
  show ?thesis
    unfolding run using assms by (auto split: sum.split option.split intro: new)
qed

lemma reachable_log: "paper_reachable env L \<Longrightarrow> env_ok env \<Longrightarrow> justified_log env L"
proof (induction rule: paper_reachable.induct)
  case (fresh L)
  then have "ledger_events env L \<noteq> Inr es" for es by (simp add: ledger_events_Inr read_manifest_def unused_def)
  then show ?case by (simp add: refines_log_def)
next
  case (created L doc)
  show ?case
    using created.IH[OF created.prems] initialize_log
    by (auto simp: create_paper_account_def prog_defs split: sum.split prod.split) (metis snd_conv)+
qed (auto intro!: justified_steps run_session_steps approve_steps)

text \<open>How a member of a justified log is justified.\<close>

lemma justified_member:
  assumes "log_of env aid (justified env) es" and "e \<in> set es"
  obtains i d where "i < length es" and "es ! i = e" and "e = make_event env aid (int i + 1) d"
    and "justified env (take i es) d"
  using log_member[OF assms] by blast

lemma decided_once:
  assumes "log_of env aid (justified env) es" and "a \<in> set es" "b \<in> set es"
    and "ev_event_type a \<in> {''approval'', ''manual_rejection''}" "ev_event_type b \<in> {''approval'', ''manual_rejection''}"
    and "ev_decision_id a = ev_decision_id b"
  shows "a = b"
proof -
  have "ev_idempotency_key e = ''approval:'' @ the (ev_decision_id e)"
    if "e \<in> set es" "ev_event_type e \<in> {''approval'', ''manual_rejection''}" for e
  proof -
    note member = that(1)
    obtain i d where "i < length es" and "es ! i = e" and e: "e = make_event env aid (int i + 1) d"
      and "justified env (take i es) d"
      by (rule justified_member[OF assms(1) member])
    with that(2) show ?thesis by (auto simp: justified_def e)
  qed
  from this[OF assms(2,4)] this[OF assms(3,5)] assms(6) have "ev_idempotency_key a = ev_idempotency_key b" by simp
  with log_distinct_keys[OF assms(1)] assms(2,3) show ?thesis by (auto simp: distinct_map inj_on_def)
qed

definition authorised_fill :: "event list \<Rightarrow> event \<Rightarrow> bool" where
  "authorised_fill es e \<longleftrightarrow> (\<exists>order_id decision_id i j k.
     ev_order_id e = Some order_id \<and> i < j \<and> j < length es \<and> k < length es
     \<and> ev_event_type (es ! i) = ''risk_approved'' \<and> ev_decision_id (es ! i) = Some decision_id
     \<and> ev_event_type (es ! j) = ''order'' \<and> ev_order_id (es ! j) = Some order_id
     \<and> ev_decision_id (es ! j) = Some decision_id \<and> ev_target_id (es ! j) = ev_target_id (es ! i)
     \<and> (\<exists>ob. event_order (es ! j) = Some ob \<and> map_of ob ''execution_session'' = Some (JStr (ev_session_date e)))
     \<and> ev_event_type (es ! k) = ''approval'' \<and> ev_decision_id (es ! k) = Some decision_id
     \<and> (\<forall>r \<in> set es. ev_event_type r = ''manual_rejection'' \<longrightarrow> ev_decision_id r \<noteq> Some decision_id))"

lemma order_event_facts:
  assumes "log_of env aid (justified env) es" and "e \<in> set es" and "ev_event_type e = ''order''"
    and "event_order e = Some ob"
  obtains i j where "i < j" and "j < length es" and "es ! j = e" and "ev_event_type (es ! i) = ''risk_approved''"
    and "ev_decision_id (es ! i) = ev_decision_id e" and "ev_target_id (es ! i) = ev_target_id e"
    and "map_of ob ''order_id'' = Some (JStr (the (ev_order_id e)))" and "ev_order_id e \<noteq> None"
    and "map_of ob ''decision_id'' = Some (JStr (the (ev_decision_id e)))" and "ev_decision_id e \<noteq> None"
proof -
  obtain j d where j: "j < length es" "es ! j = e" and e: "e = make_event env aid (int j + 1) d"
    and ok: "justified env (take j es) d"
    by (rule justified_member[OF assms(1,2)])
  from e assms(3) have ty: "dr_event_type d = ''order''" by simp
  from ok ty obtain r where r: "r \<in> set (take j es)" "ev_event_type r = ''risk_approved''"
    "ev_decision_id r = dr_decision_id d" "ev_target_id r = dr_target_id d" and "passed_order env d"
    by (auto simp: justified_def)
  then obtain y where y: "map_of (dr_details d) ''order'' = Some (JObj (order_items y))"
    "dr_order_id d = Some (or_order_id y)" "dr_decision_id d = Some (or_decision_id y)"
    by (auto simp: passed_order_def)
  from r(1) j(1) obtain i where i: "i < j" "es ! i = r" by (auto simp: in_set_conv_nth)
  have ob: "ob = order_items y" using assms(4) y(1) by (simp add: event_order_def e)
  show ?thesis
  proof (rule that[of i j])
    show "map_of ob ''order_id'' = Some (JStr (the (ev_order_id e)))"
      and "map_of ob ''decision_id'' = Some (JStr (the (ev_decision_id e)))"
      using y by (simp_all add: ob e order_items_def)
  qed (use i j r y e in simp_all)
qed

lemma fills_authorised:
  assumes "log_of env aid (justified env) es" and "n < length es" and "ev_event_type (es ! n) = ''fill''"
  shows "authorised_fill (take n es) (es ! n)"
proof -
  let ?pre = "take n es"
  obtain d where e: "es ! n = make_event env aid (int n + 1) d" and ok: "justified env ?pre d"
    using log_entry[OF assms(1,2)] by auto
  have pre: "log_of env aid (justified env) ?pre"
    using assms(1) by (rule log_take)
  from e assms(3) have ty: "dr_event_type d = ''fill''" by simp
  with ok obtain order_id decision_id where
    oid: "dr_order_id d = Some order_id" and o_in: "order_in ?pre order_id (isoformat (dr_session_date d)) decision_id"
    and appr: "approval_in ?pre decision_id" by (auto simp: justified_def)
  from o_in obtain y ob where y: "y \<in> set ?pre" "ev_event_type y = ''order''" "event_order y = Some ob"
    and ob: "map_of ob ''order_id'' = Some (JStr order_id)" "map_of ob ''decision_id'' = Some (JStr decision_id)"
      "map_of ob ''execution_session'' = Some (JStr (isoformat (dr_session_date d)))"
    by (auto simp: order_in_def)
  obtain i j where ij: "i < j" "j < length ?pre" "?pre ! j = y" "ev_event_type (?pre ! i) = ''risk_approved''"
    "ev_decision_id (?pre ! i) = ev_decision_id y" "ev_target_id (?pre ! i) = ev_target_id y"
    "map_of ob ''order_id'' = Some (JStr (the (ev_order_id y)))" "ev_order_id y \<noteq> None"
    "map_of ob ''decision_id'' = Some (JStr (the (ev_decision_id y)))" "ev_decision_id y \<noteq> None"
    by (rule order_event_facts[OF pre y])
  from appr obtain a where a: "a \<in> set ?pre" "ev_event_type a = ''approval''" "ev_decision_id a = Some decision_id"
    by (auto simp: approval_in_def)
  then obtain k where k: "k < length ?pre" "?pre ! k = a" by (auto simp: in_set_conv_nth)
  have once: "ev_decision_id r \<noteq> Some decision_id" if "r \<in> set ?pre" "ev_event_type r = ''manual_rejection''" for r
    using decided_once[OF pre a(1) that(1)] a that(2) by auto
  show ?thesis
    unfolding authorised_fill_def
    using ij k a y ob once oid
    by (intro exI[of _ order_id] exI[of _ decision_id] exI[of _ i] exI[of _ j] exI[of _ k]) (auto simp: e)
qed

end
