(* ===== verification/Paper_Progress.thy ===== *)
theory Paper_Progress
  imports Paper_Safety
begin

text \<open>
  What a part of a session that ended normally has done: every approved order of the session is filled,
  a halted cycle is in the log, the report is there. And how it can fail: errors of the data never leave
  the body of a session.
\<close>

section \<open>Settlement is complete\<close>

lemma bindS_E: "bindS m f s = (Inr v, u) \<Longrightarrow> (\<And>w t. m s = (Inr w, t) \<Longrightarrow> f w t = (Inr v, u) \<Longrightarrow> Q) \<Longrightarrow> Q"
  by (auto simp: bindS_Inr)

lemma bindS_readS: "f s = Inr v \<Longrightarrow> bindS (readS f) g s = g v s"
  by (simp add: bindS_def readS_def)

lemma load_account_cong:
  "l_account_id M = l_account_id L \<Longrightarrow> l_account M = l_account L \<Longrightarrow> load_account M = load_account L"
  by (simp only: load_account_def)

lemma steps_run: "steps_after R s m \<Longrightarrow> R s t \<Longrightarrow> m t = (r, u) \<Longrightarrow> R t u"
  by (metis steps_after_def snd_conv)

lemma plain_run:
  "append_event env d t = (r, u) \<Longrightarrow>
    dr_event_type d \<notin> {''fill'', ''order'', ''approval'', ''manual_rejection'', ''valuation'', ''cash_deposit''} \<Longrightarrow>
    dr_nav_base d = None \<Longrightarrow> paper_steps env t u"
  using ledger_run.steps_result[OF plain_append] by blast

lemma append_fill_recorded:
  assumes "append_fill env account inp sess ob row order_id security_id currency side quantity t = (Inr (), u)"
    and "ledger_events env u = Inr es"
  shows "\<exists>f \<in> set es. ev_idempotency_key f = ''fill:'' @ order_id"
proof -
  obtain d d2 d3 e e2 e3 t2 t3 where a: "append_event env d t = (Inr e, t2)" "append_event env d2 t2 = (Inr e2, t3)"
    "append_event env d3 t3 = (Inr e3, u)" and key: "dr_idempotency_key d = ''fill:'' @ order_id"
    and plain: "dr_event_type d2 = ''fee''" "dr_event_type d3 = ''tax''" "dr_nav_base d2 = None" "dr_nav_base d3 = None"
    using assms(1) unfolding append_fill_def Let_def
    by (auto simp: bindS_Inr liftS_def returnS_def settlement_draft_def split: prod.splits)
  have "paper_steps env t2 t3" "paper_steps env t3 u"
    using plain_run[OF a(2)] plain_run[OF a(3)] plain by simp_all
  then have "paper_steps env t2 u" by (rule ledger_run.trans)
  from steps_prefix[OF this assms(2)] obtain es0 new where es0: "ledger_events env t2 = Inr es0" "es = es0 @ new" by auto
  from append_event_recorded[OF a(1) es0(1)] key es0(2) show ?thesis by auto
qed

lemma settle_order_recorded:
  assumes "settle_order env account inp sess ob order_id t = (Inr (), u)" and "ledger_events env u = Inr es"
  shows "\<exists>f \<in> set es. ev_idempotency_key f = ''fill:'' @ order_id"
proof -
  obtain row security_id currency side quantity v where
    "append_fill env account inp sess ob row order_id security_id currency side quantity v = (Inr (), u)"
    using assms(1) unfolding settle_order_def Let_def
    by (auto simp: liftS_def readS_def raiseS_def elim!: bindS_E split: option.splits if_splits prod.splits)
  from append_fill_recorded[OF this assms(2)] show ?thesis .
qed

lemma find_key: "find (\<lambda>e. ev_idempotency_key e = key) es \<noteq> None \<Longrightarrow> \<exists>e \<in> set es. ev_idempotency_key e = key"
  by (auto simp: find_None_iff)

text \<open>The order event asks for a fill in this session.\<close>

definition fill_due :: "session \<Rightarrow> event list \<Rightarrow> event \<Rightarrow> string \<Rightarrow> bool" where
  "fill_due sess es e order_id \<longleftrightarrow> ev_event_type e = ''order'' \<and> (\<exists>ob decision_id. event_order e = Some ob
     \<and> map_of ob ''order_id'' = Some (JStr order_id) \<and> map_of ob ''decision_id'' = Some (JStr decision_id)
     \<and> map_of ob ''execution_session'' = Some (JStr (isoformat (s_session_date sess)))
     \<and> map_of (approved_by_decision es) decision_id = Some True)"

lemma settle_event_recorded:
  assumes "settle_event env account inp sess (approved_by_decision es) e t = (Inr (), u)" and "fill_due sess es e order_id"
    and "ledger_events env u = Inr es'"
  shows "\<exists>f \<in> set es'. ev_idempotency_key f = ''fill:'' @ order_id"
proof -
  from assms(2) obtain ob decision_id where ob: "event_order e = Some ob" "ev_event_type e = ''order''"
    "map_of ob ''order_id'' = Some (JStr order_id)" "map_of ob ''decision_id'' = Some (JStr decision_id)"
    "map_of ob ''execution_session'' = Some (JStr (isoformat (s_session_date sess)))"
    "map_of (approved_by_decision es) decision_id = Some True"
    by (auto simp: fill_due_def)
  have run: "settle_event env account inp sess (approved_by_decision es) e
      = bindS (readS (event_for_idempotency env (''fill:'' @ order_id))) (\<lambda>existing.
          if existing \<noteq> None then returnS () else settle_order env account inp sess ob order_id)"
    by (simp add: settle_event_def ob order_text_def jget_def bindS_def liftS_def fun_eq_iff)
  from assms(1) obtain existing where look: "event_for_idempotency env (''fill:'' @ order_id) t = Inr existing"
    and rest: "(if existing \<noteq> None then returnS () else settle_order env account inp sess ob order_id) t = (Inr (), u)"
    unfolding run bindS_Inr readS_def by auto
  show ?thesis
  proof (cases "existing = None")
    case True
    with rest show ?thesis using settle_order_recorded[OF _ assms(3)] by simp
  next
    case False
    with rest have "u = t" by (simp add: returnS_def)
    with look assms(3) False show ?thesis
      by (auto simp: event_for_idempotency_def bindR_eq_Inr intro!: find_key)
  qed
qed

lemma settle_orders_recorded:
  assumes "settle_orders env account inp sess L = (Inr (), M)" and "ledger_events env L = Inr es"
    and "ledger_events env M = Inr es'" and "e \<in> set es" and "fill_due sess es e order_id"
  shows "\<exists>f \<in> set es'. ev_idempotency_key f = ''fill:'' @ order_id"
proof -
  have loop: "forS es (settle_event env account inp sess (approved_by_decision es)) L = (Inr (), M)"
    using assms(1,2) by (simp add: settle_orders_def bindS_def readS_def)
  have each: "steps_after (paper_steps env) L (settle_event env account inp sess (approved_by_decision es) y)"
    if "y \<in> set es" for y
    by (rule settle_event_steps[OF assms(2) that])
  obtain v w where run: "settle_event env account inp sess (approved_by_decision es) e v = (Inr (), w)"
    and later: "paper_steps env w M"
    by (rule ledger_run.steps_for_member[OF each ledger_run.refl loop assms(4)])
  from steps_prefix[OF later assms(3)] obtain es0 new where w: "ledger_events env w = Inr es0" "es' = es0 @ new" by auto
  from settle_event_recorded[OF run assms(5) w(1)] w(2) show ?thesis by auto
qed

section \<open>The report of a session\<close>

lemma put_immutable_stored:
  "put_immutable env name doc fs = Inr fs' \<Longrightarrow> \<exists>x. map_of fs' name = Some x \<and> same_text env x doc"
  by (auto simp: put_immutable_def split: option.splits if_splits)

lemma publish_report_stored:
  assumes "publish_report env recorded account sess decision_id fingerprint warnings L = (Inr report, M)"
  shows "\<exists>x. read_report (isoformat (s_session_date sess)) M = Some x \<and> same_text env x report"
  using assms put_immutable_stored
  by (fastforce simp: publish_report_def bindS_Inr readS_def returnS_def write_report_def read_report_def split: sum.splits)

lemma session_body_stored:
  assumes "session_body env say recorded account inp sessions k sess decision_id fingerprint L = (Inr report, M)"
  shows "\<exists>x. read_report (isoformat (s_session_date sess)) M = Some x \<and> same_text env x report"
  using assms unfolding session_body_def tryS_def
  by (auto simp: bindS_Inr split: prod.splits sum.splits if_splits intro: publish_report_stored)

lemma session_index_date: "session_index_of sessions d = Inr k \<Longrightarrow> s_session_date (sessions ! k) = d \<and> k < length sessions"
  by (auto simp: session_index_of_def find_Some_iff split: option.splits)

lemma run_session_stored:
  assumes "run_paper_session env say fs now recorded doc day clock_value refs L = (Inr report, M)"
  shows "\<exists>d x. session_argument_date day = Inr d \<and> read_report (isoformat d) M = Some x \<and> same_text env x report"
proof -
  obtain d inp sessions k resolved normalized fingerprint decision_id sess where
    d: "session_argument_date day = Inr d" and k: "session_index_of sessions d = Inr k"
    and sess: "sess = (sessions ! k)\<lparr>s_decision_at := Some resolved\<rparr>"
    and run: "(case read_report (isoformat d) L of Some report \<Rightarrow> liftS (recorded_report d (timestamp resolved) report)
     | None \<Rightarrow> session_body env say recorded normalized inp (sessions[k := sess]) k sess decision_id fingerprint) L = (Inr report, M)"
    using assms unfolding run_paper_session_def Let_def
    by (elim bindS_E) (auto simp: liftS_def readS_def raiseS_def elim!: bindS_E split: if_splits prod.splits)
  show ?thesis
  proof (cases "read_report (isoformat d) L")
    case None
    with run have body: "session_body env say recorded normalized inp (sessions[k := sess]) k sess decision_id fingerprint L
        = (Inr report, M)" by simp
    have "s_session_date sess = d" using session_index_date[OF k] by (simp add: sess)
    with d session_body_stored[OF body] show ?thesis by auto
  next
    case (Some x)
    with run have "x = report" "L = M"
      by (auto simp: liftS_def recorded_report_def split: json.splits option.splits if_splits)
    with d Some show ?thesis by auto
  qed
qed

lemma run_session_again:
  assumes "session_argument_date day = Inr d" and "read_report (isoformat d) L = Some x"
  shows "snd (run_paper_session env say fs now recorded doc day clock_value refs L) = L
    \<and> (fst (run_paper_session env say fs now recorded doc day clock_value refs L) = Inr x
       \<or> (\<exists>e. fst (run_paper_session env say fs now recorded doc day clock_value refs L) = Inl e))"
  using assms unfolding run_paper_session_def Let_def
  by (auto simp: bindS_def liftS_def readS_def raiseS_def raise_def recorded_report_def split: prod.splits sum.splits option.splits json.splits)

section \<open>An approval is final\<close>

text \<open>The decision an approval is about, and the draft of the approval.\<close>

definition approval_draft :: "account \<Rightarrow> string \<Rightarrow> bool \<Rightarrow> date \<Rightarrow> datetime \<Rightarrow> draft" where
  "approval_draft account decision_id approved session_date t =
     (draft_event (''approval:'' @ decision_id) session_date t (if approved then ''approval'' else ''manual_rejection'')
        (acc_base_currency account) [(''approved'', JBool approved), (''operator'', JStr ''manual'')])
     \<lparr>dr_decision_id := Some decision_id\<rparr>"

abbreviation decision_of :: "string \<Rightarrow> event list \<Rightarrow> event option" where
  "decision_of decision_id es \<equiv> find (\<lambda>e. ev_decision_id e = Some decision_id \<and> ev_event_type e = ''decision'') es"

lemma approve_parts:
  assumes "approve_paper_decision env decision_id approved event_at L = (Inr e, M)"
  obtains account es r day t where "load_account L = Inr account" and "ledger_events env L = Inr es"
    and "decision_of decision_id es = Some r" and "account_date (ev_session_date r) = Inr day"
    and "append_event env (approval_draft account decision_id approved day t) L = (Inr e, M)"
proof -
  from assms obtain account es where parts: "load_account L = Inr account" "ledger_events env L = Inr es"
    unfolding approve_paper_decision_def by (auto simp: readS_def elim!: bindS_E)
  with assms obtain r where r: "decision_of decision_id es = Some r"
    by (auto simp: approve_paper_decision_def bindS_def readS_def raiseS_def split: option.splits)
  note run = assms[unfolded approve_paper_decision_def bindS_readS[where f = load_account, OF parts(1)]
      bindS_readS[where f = "ledger_events env", OF parts(2)] r option.case]
  then obtain day t where "account_date (ev_session_date r) = Inr day"
    "append_event env (approval_draft account decision_id approved day t) L = (Inr e, M)"
    unfolding approval_draft_def by (elim bindS_E) (auto simp: liftS_def)
  with parts r that show ?thesis by blast
qed

lemma approve_run:
  assumes "load_account L = Inr account" and "ledger_events env L = Inr es" and "decision_of decision_id es = Some r"
    and "account_date (ev_session_date r) = Inr day"
  shows "\<exists>t. approve_paper_decision env decision_id approved event_at L
    = append_event env (approval_draft account decision_id approved day t) L"
proof -
  have "r \<in> set es" using assms(3) by (auto simp: find_Some_iff)
  then obtain i where "i < length es" "es ! i = r" by (auto simp: in_set_conv_nth)
  then have "event_ok env (l_account_id L) r"
    using events_read(3)[OF assms(2)] validate_event_facts(2) by blast
  then obtain u where u: "parse_datetime (ev_event_at r) = Some u" by (auto simp: event_ok_def)
  show ?thesis
    using assms u unfolding approve_paper_decision_def approval_draft_def
    by (cases event_at) (auto simp: bindS_def readS_def liftS_def)
qed

lemma append_conflict:
  assumes "append_event env d L = (Inr e, M)" and "ledger_events env M = Inr es"
    and "dr_idempotency_key d' = dr_idempotency_key d" and "dr_event_type d' \<noteq> dr_event_type d"
    and "dr_event_type d' \<in> set event_types"
  shows "append_event env d' M
    = (Inl (Exn PaperConflictError (''idempotency key already contains different event: '' @ dr_idempotency_key d)), M)"
proof -
  from append_again[OF assms(1,2)] have again: "append_event env d M = (Inr e, M)" .
  then obtain es' where "append_finds env d M es' e"
  proof (cases rule: append_event_cases)
    case (adds es0 entries e')
    then have "map_of (l_events M) (event_name (ev_sequence e')) = None"
      using event_name_fresh[of env M es0] by (simp add: append_adds_def)
    moreover have "map_of (l_events (appended entries e' M)) (event_name (ev_sequence e')) = Some (event_json e')"
      by (simp add: appended_def)
    ultimately show ?thesis by (simp only: adds(3)[symmetric]) simp
  qed auto
  with assms(2) have f: "find (\<lambda>x. ev_idempotency_key x = dr_idempotency_key d) es = Some e"
    and same: "same_json (event_payload e) (event_payload (make_event env (l_account_id M) (ev_sequence e) d))"
    by (auto simp: append_finds_def)
  from same_payload(1)[OF same] have "ev_event_type e = dr_event_type d" by simp
  then have "\<not> same_json (event_payload e) (event_payload (make_event env (l_account_id M) (ev_sequence e) d'))"
    using same_payload(1)[of e "make_event env (l_account_id M) (ev_sequence e) d'"] assms(4) by auto
  moreover have "dr_idempotency_key d \<noteq> []"
    using again by (auto simp: append_event_def raiseS_def)
  ultimately show ?thesis
    using assms(2,3,5) f by (simp add: append_event_def prog_defs event_for_idempotency_def raise_def)
qed

lemma approval_conflict:
  assumes "approve_paper_decision env decision_id approved event_at L = (Inr e, M)" and "ledger_events env M = Inr es'"
  shows "approve_paper_decision env decision_id (\<not> approved) event_at' M
    = (Inl (Exn PaperConflictError (''idempotency key already contains different event: '' @ ''approval:'' @ decision_id)), M)"
proof -
  obtain account es r day t where parts: "load_account L = Inr account" "ledger_events env L = Inr es"
    "decision_of decision_id es = Some r" "account_date (ev_session_date r) = Inr day"
    and run: "append_event env (approval_draft account decision_id approved day t) L = (Inr e, M)"
    by (rule approve_parts[OF assms(1)])
  have steps: "ledger_steps env (\<lambda>_ _. True) L M"
    using append_step[of env L "\<lambda>_ _. True" "approval_draft account decision_id approved day t"] run by simp
  from steps_prefix[OF this assms(2)] parts(2) obtain new where es': "es' = es @ new" by auto
  have "load_account M = Inr account" using steps_identity[OF steps] parts(1) load_account_cong[of M L] by simp
  moreover have "decision_of decision_id es' = Some r" using parts(3) by (simp add: es' find_append)
  ultimately obtain u where "approve_paper_decision env decision_id (\<not> approved) event_at' M
      = append_event env (approval_draft account decision_id (\<not> approved) day u) M"
    using approve_run[OF _ assms(2) _ parts(4)] by blast
  moreover have "append_event env (approval_draft account decision_id (\<not> approved) day u) M
      = (Inl (Exn PaperConflictError (''idempotency key already contains different event: ''
          @ dr_idempotency_key (approval_draft account decision_id approved day t))), M)"
    by (rule append_conflict[OF run assms(2)]) (auto simp: approval_draft_def event_types_def)
  ultimately show ?thesis by (simp add: approval_draft_def)
qed

section \<open>Errors of the data stay inside\<close>

text \<open>The exceptions that a result or a program does not raise.\<close>

definition avoids :: "exn_class set \<Rightarrow> 'a result \<Rightarrow> bool" where
  "avoids cs r \<longleftrightarrow> (\<forall>e. r = Inl e \<longrightarrow> exn_kind e \<notin> cs)"

lemma avoids_Inr: "avoids cs (Inr v)"
  by (simp add: avoids_def)

lemma avoids_raise: "c \<notin> cs \<Longrightarrow> avoids cs (raise c m)"
  by (simp add: avoids_def raise_def)

lemma avoids_bind: "avoids cs r \<Longrightarrow> (\<And>v. r = Inr v \<Longrightarrow> avoids cs (f v)) \<Longrightarrow> avoids cs (bindR r f)"
  by (cases r) (auto simp: avoids_def)

lemma avoids_ensure: "exn_kind e \<notin> cs \<Longrightarrow> avoids cs (ensure b e)"
  by (simp add: avoids_def ensure_def)

lemma avoids_map: "(\<And>x. avoids cs (f x)) \<Longrightarrow> avoids cs (mapR f xs)"
  by (induction xs) (auto intro: avoids_Inr avoids_bind)

lemma avoids_fold: "(\<And>s x. avoids cs (f s x)) \<Longrightarrow> avoids cs (foldR f s xs)"
  by (induction xs arbitrary: s) (auto intro: avoids_Inr avoids_bind)

lemma avoids_if: "(b \<Longrightarrow> avoids cs r) \<Longrightarrow> (\<not> b \<Longrightarrow> avoids cs r') \<Longrightarrow> avoids cs (if b then r else r')"
  by simp

lemma avoids_get: "PyKeyError \<notin> cs \<Longrightarrow> avoids cs (jget ob k)"
  by (auto simp: jget_def avoids_def raise_def split: option.splits)

abbreviation quiet :: "'a result \<Rightarrow> bool" where
  "quiet \<equiv> avoids halting_errors"

lemma halting: "c \<in> halting_errors \<longleftrightarrow> c \<in> {PaperMissingDataError, BacktestInputError, PortfolioError, PortfolioStateError}"
  by (simp add: halting_errors_def)

lemmas quiet_rules = avoids_Inr avoids_raise avoids_bind avoids_ensure avoids_map avoids_fold avoids_if avoids_get

lemma quiet_fields: "quiet (ledger_text ok m ob k)" "quiet (delta_field ob k)" "quiet (valuation_field ob k)"
    "quiet (text_field ob k)" "quiet (check_uuid PaperSpecError f v)"
proof -
  show t: "quiet (ledger_text ok m ob k)" for ok m k
    unfolding ledger_text_def by (intro quiet_rules) (auto simp: halting split: json.split intro: quiet_rules)
  show "quiet (delta_field ob k)" unfolding delta_field_def by (rule t)
  show "quiet (valuation_field ob k)" unfolding valuation_field_def Let_def
    by (intro quiet_rules) (auto simp: halting split: json.split intro: quiet_rules)
  show "quiet (text_field ob k)" unfolding text_field_def
    by (intro quiet_rules) (auto simp: halting split: json.split intro: quiet_rules)
  show "quiet (check_uuid PaperSpecError f v)" unfolding check_uuid_def
    by (auto simp: halting split: json.split intro: quiet_rules)
qed

lemma quiet_event: "quiet (validate_event env aid n doc)"
proof (cases doc)
  case (JObj ob)
  have d: "quiet (case v of JObj d \<Rightarrow> Inr d | _ \<Rightarrow> ledger_error m)" for v m
    by (cases v) (auto simp: halting intro: quiet_rules)
  show ?thesis
    unfolding validate_event_def JObj json.case
    by (intro quiet_rules quiet_fields d) (simp_all add: halting)
qed (simp_all add: validate_event_def avoids_raise halting)

lemma quiet_manifest: "quiet (read_manifest L)"
proof -
  have v: "quiet (case v of JArr xs \<Rightarrow> Inr xs | _ \<Rightarrow> ledger_error m)" for v m
    by (cases v) (auto simp: halting intro: quiet_rules)
  have "quiet (read_manifest L)" if "l_manifest L = Some (JObj ob)" for ob
    unfolding read_manifest_def that option.case json.case by (intro quiet_rules v) (simp_all add: halting)
  moreover have "quiet (read_manifest L)" if "\<And>ob. l_manifest L \<noteq> Some (JObj ob)"
    using that unfolding read_manifest_def
    by (auto simp: halting split: option.split json.split intro!: avoids_raise)
  ultimately show ?thesis by blast
qed

lemma quiet_events: "quiet (ledger_events env L)"
proof -
  have "quiet (read_event env aid x)" for aid x
    by (cases x) (auto simp: read_event_def halting intro: quiet_rules quiet_event)
  then show ?thesis
    unfolding ledger_events_def Let_def by (intro quiet_rules quiet_manifest) (simp_all add: halting)
qed

lemma quiet_rebuild: "quiet (rebuild_state env L)"
proof -
  have "quiet (project_security e st)" "quiet (project_valuation e st)" for e st
    by (auto simp: project_security_def project_valuation_def Let_def halting split: option.split intro: quiet_rules)
  then have "quiet (project_event st e)" for st e
    unfolding project_event_def Let_def by (intro quiet_rules)
  then have "quiet (project_events es)" for es
    unfolding project_events_def by (intro quiet_rules) (simp_all add: halting)
  then show ?thesis unfolding rebuild_state_def by (intro quiet_rules quiet_events)
qed

lemma quiet_report: "quiet (report_from_events env account sess decision_id fingerprint recorded_at risk warnings L)"
proof -
  have m: "quiet (member_of v xs)" for v xs
    by (cases v) (auto simp: member_of_def halting intro: quiet_rules)
  have "quiet (render_order approvals fills raw)" for approvals fills raw
    unfolding render_order_def by (intro quiet_rules m) (simp_all add: halting)
  moreover have "quiet (reconcile_paper_account env L)"
    unfolding reconcile_paper_account_def Let_def by (intro quiet_rules quiet_events quiet_rebuild)
  ultimately show ?thesis
    unfolding report_from_events_def Let_def
    by (intro quiet_rules quiet_events quiet_rebuild) (simp_all add: halting)
qed

text \<open>The same for programs.\<close>

definition quietS :: "('s, 'a) prog \<Rightarrow> bool" where
  "quietS m \<longleftrightarrow> (\<forall>s. quiet (fst (m s)))"

lemma quietS_bind: "quietS m \<Longrightarrow> (\<And>v. quietS (f v)) \<Longrightarrow> quietS (bindS m f)"
  unfolding quietS_def by (auto simp: bindS_def avoids_def split: prod.splits sum.splits) (metis fst_conv)+

lemma quietS_pure: "quietS (returnS v)" "quiet r \<Longrightarrow> quietS (liftS r)" "(\<And>s. quiet (f s)) \<Longrightarrow> quietS (readS f)"
    "c \<notin> halting_errors \<Longrightarrow> quietS (raiseS c m)"
  by (simp_all add: quietS_def prog_defs avoids_Inr avoids_raise)

lemma quietS_if: "(b \<Longrightarrow> quietS m) \<Longrightarrow> (\<not> b \<Longrightarrow> quietS n) \<Longrightarrow> quietS (if b then m else n)"
  by simp

lemma quietS_option: "quietS m \<Longrightarrow> (\<And>v. quietS (f v)) \<Longrightarrow> quietS (case x of None \<Rightarrow> m | Some v \<Rightarrow> f v)"
  by (cases x) simp_all

lemma quietS_try: "(\<And>e. quietS (h e)) \<Longrightarrow> quietS (tryS m halting_errors h)"
  unfolding quietS_def by (auto simp: tryS_def avoids_def split: prod.splits sum.splits)

lemmas quietS_rules = quietS_bind quietS_pure quietS_if quietS_option

lemma quiet_put: "quiet (put_immutable env name doc fs)"
  by (auto simp: put_immutable_def halting split: option.split intro: quiet_rules)

lemma quietS_writes: "quietS (write_event env e)" "quietS (write_manifest doc)" "quietS (write_report env day doc)"
  using quiet_put
  by (auto simp: quietS_def write_event_def write_manifest_def write_report_def avoids_def split: sum.splits)

lemma quiet_key: "quiet (event_for_idempotency env key L)"
  unfolding event_for_idempotency_def by (intro quiet_rules quiet_events)

lemma quietS_append: "quietS (append_event env d)"
  unfolding append_event_def
  by (intro quietS_rules quiet_rules quietS_writes quiet_key quiet_events quiet_manifest) (simp_all add: halting)

lemma quietS_publish: "quietS (publish_report env recorded account sess decision_id fingerprint warnings)"
  unfolding publish_report_def by (intro quietS_rules quietS_writes quiet_report)

lemma quietS_halt: "quietS (append_halt env account sess decision_id fingerprint cause)"
  unfolding append_halt_def by (intro quietS_rules quietS_append quiet_key)

lemma quiet_session: "quietS (session_body env say recorded account inp sessions k sess decision_id fingerprint)"
  unfolding session_body_def by (intro quietS_try quietS_bind quietS_halt quietS_publish)

end
