(* ===== verification/Ledger_State.thy ===== *)
theory Ledger_State
  imports Ledger_Steps
begin

text \<open>
  The projection of a ledger to a portfolio state: what each draft does to the state it is booked on,
  the state as sums over the log, and the invariant that every rebuilt state satisfies.
\<close>

section \<open>The state as sums over the log\<close>

text \<open>The amounts booked in a currency, the changes of a holding, and the events that carry a valuation.\<close>

definition booked_cash :: "event list \<Rightarrow> string \<Rightarrow> dec list" where
  "booked_cash es c = map (\<lambda>e. dec_of (ev_amount_local_delta e)) (filter (\<lambda>e. ev_currency e = c) es)"

definition booked_quantity :: "event list \<Rightarrow> string \<Rightarrow> dec list" where
  "booked_quantity es s = map (\<lambda>e. dec_of (ev_quantity_delta e)) (filter (\<lambda>e. ev_security_id e = Some s) es)"

definition valuations :: "event list \<Rightarrow> event list" where
  "valuations es = filter (\<lambda>e. ev_nav_base e \<noteq> None) es"

definition last_of :: "('a \<Rightarrow> 'b) \<Rightarrow> 'b \<Rightarrow> 'a list \<Rightarrow> 'b" where
  "last_of f v xs = (if xs = [] then v else f (last xs))"

definition state_sums :: "event list \<Rightarrow> portfolio_state \<Rightarrow> bool" where
  "state_sums es st \<longleftrightarrow>
     (\<forall>c. dget (ps_cash_by_currency st) c 0 = dsum prec (booked_cash es c))
   \<and> (\<forall>s. dget (ps_quantities st) s 0 = dsum prec (booked_quantity es s))
   \<and> ps_nav_base st = last_of (\<lambda>e. dec_or_zero (ev_nav_base e)) 0 (valuations es)
   \<and> ps_cash_base st = last_of (\<lambda>e. dec_or_zero (ev_cash_base e)) 0 (valuations es)
   \<and> ps_positions_value_base st = last_of (\<lambda>e. dec_or_zero (ev_positions_value_base e)) 0 (valuations es)
   \<and> ps_peak_nav_base st = Max (insert 0 ((\<lambda>e. dec_or_zero (ev_nav_base e)) ` set (valuations es)))
   \<and> ps_last_decision_session st = last_of (\<lambda>e. Some (date_of (ev_session_date e))) None
       (filter (\<lambda>e. ev_event_type e = ''decision'') es)
   \<and> ps_last_session st = (if es = [] then None else Some (Max ((\<lambda>e. date_of (ev_session_date e)) ` set es)))"

text \<open>The invariant of the projection.\<close>

definition state_ok :: "portfolio_state \<Rightarrow> bool" where
  "state_ok st \<longleftrightarrow> distinct (map fst (ps_cash_by_currency st)) \<and> (\<forall>(c, q) \<in> set (ps_cash_by_currency st). is_decimal q)
     \<and> distinct (map fst (ps_quantities st)) \<and> amounts (ps_quantities st)
     \<and> fst ` set (ps_quantities st) \<subseteq> fst ` set (ps_security_currency st)
     \<and> 0 \<le> ps_nav_base st \<and> ps_nav_base st \<le> ps_peak_nav_base st \<and> 0 \<le> ps_cash_base st \<and> 0 \<le> ps_positions_value_base st
     \<and> is_decimal (ps_nav_base st) \<and> is_decimal (ps_cash_base st) \<and> is_decimal (ps_positions_value_base st)
     \<and> is_decimal (ps_peak_nav_base st)"

lemma dec_of_decimal [simp]: "is_decimal (dec_of s)" "is_decimal (dec_or_zero v)"
  by (auto simp: dec_of_def dec_or_zero_def dest: parse_signed_decimal split: option.split)

lemma last_of_snoc [simp]: "last_of f v (xs @ [x]) = f x"
  by (simp add: last_of_def)

lemma state_sums_empty: "state_sums [] empty_state"
  by (simp add: state_sums_def booked_cash_def booked_quantity_def valuations_def last_of_def empty_state_def)

lemma state_ok_empty: "state_ok empty_state"
  by (simp add: state_ok_def empty_state_def)

text \<open>The stages of one event.\<close>

lemma project_event_stages:
  assumes "project_event st e = Inr st'"
  obtains a b where "project_security e (st\<lparr>ps_cash_by_currency := dset (ev_currency e)
      (dadd prec (dget (ps_cash_by_currency st) (ev_currency e) 0) (dec_of (ev_amount_local_delta e)))
      (ps_cash_by_currency st)\<rparr>) = Inr a"
    and "project_valuation e (if ev_event_type e = ''decision''
      then a\<lparr>ps_last_decision_session := Some (date_of (ev_session_date e))\<rparr> else a) = Inr b"
    and "st' = b\<lparr>ps_last_session := Some (case ps_last_session b of None \<Rightarrow> date_of (ev_session_date e)
      | Some d \<Rightarrow> max d (date_of (ev_session_date e)))\<rparr>"
  using assms unfolding project_event_def Let_def by (elim bindR_InrE) auto

lemma project_security_Inr:
  assumes "project_security e st = Inr a"
  obtains "ev_security_id e = None" and "a = st"
  | s q where "ev_security_id e = Some s" and "q = dadd prec (dget (ps_quantities st) s 0) (dec_of (ev_quantity_delta e))"
    and "0 \<le> q" and "a = st\<lparr>ps_quantities := dset s q (ps_quantities st),
      ps_security_currency := dset s (ev_currency e) (ps_security_currency st)\<rparr>"
  using assms by (auto simp: project_security_def Let_def not_less split: option.splits if_splits)

lemma project_valuation_Inr:
  assumes "project_valuation e st = Inr a"
  obtains "ev_nav_base e = None" and "a = st"
  | "ev_nav_base e \<noteq> None" and "0 \<le> dec_or_zero (ev_nav_base e)" and "0 \<le> dec_or_zero (ev_cash_base e)"
    and "0 \<le> dec_or_zero (ev_positions_value_base e)"
    and "a = st\<lparr>ps_nav_base := dec_or_zero (ev_nav_base e), ps_cash_base := dec_or_zero (ev_cash_base e),
       ps_positions_value_base := dec_or_zero (ev_positions_value_base e),
       ps_peak_nav_base := max (ps_peak_nav_base st) (dec_or_zero (ev_nav_base e))\<rparr>"
  using assms by (auto simp: project_valuation_def Let_def dec_or_zero_def[of "Some x" for x] not_less
      split: option.splits if_splits)

lemma project_valuation_fields:
  assumes "project_valuation e st = Inr b"
  shows "ps_nav_base b = (if ev_nav_base e = None then ps_nav_base st else dec_or_zero (ev_nav_base e))"
    and "ps_cash_base b = (if ev_nav_base e = None then ps_cash_base st else dec_or_zero (ev_cash_base e))"
    and "ps_positions_value_base b = (if ev_nav_base e = None then ps_positions_value_base st
       else dec_or_zero (ev_positions_value_base e))"
    and "ps_peak_nav_base b = (if ev_nav_base e = None then ps_peak_nav_base st
       else max (ps_peak_nav_base st) (dec_or_zero (ev_nav_base e)))"
    and "ps_cash_by_currency b = ps_cash_by_currency st" "ps_quantities b = ps_quantities st"
    and "ps_last_session b = ps_last_session st" "ps_last_decision_session b = ps_last_decision_session st"
  using assms by - (erule project_valuation_Inr; auto)+

lemma project_security_ok: "project_security e st = Inr a \<Longrightarrow> state_ok st \<Longrightarrow> state_ok a"
  by (erule project_security_Inr) (auto simp: state_ok_def amounts_dset dom_update intro: distinct_dset)

lemma project_valuation_ok: "project_valuation e st = Inr b \<Longrightarrow> state_ok st \<Longrightarrow> state_ok b"
  by (erule project_valuation_Inr) (auto simp: state_ok_def max_def)

lemma project_event_ok:
  assumes "project_event st e = Inr st'" and "state_ok st"
  shows "state_ok st'"
proof -
  from assms(1) obtain a b where
    a: "project_security e (st\<lparr>ps_cash_by_currency := dset (ev_currency e)
      (dadd prec (dget (ps_cash_by_currency st) (ev_currency e) 0) (dec_of (ev_amount_local_delta e)))
      (ps_cash_by_currency st)\<rparr>) = Inr a" (is "project_security e ?c = _")
    and b: "project_valuation e (if ev_event_type e = ''decision''
      then a\<lparr>ps_last_decision_session := Some (date_of (ev_session_date e))\<rparr> else a) = Inr b" (is "project_valuation e ?d = _")
    and st': "st' = b\<lparr>ps_last_session := Some (case ps_last_session b of None \<Rightarrow> date_of (ev_session_date e)
      | Some d \<Rightarrow> max d (date_of (ev_session_date e)))\<rparr>"
    by (rule project_event_stages)
  have "state_ok ?c"
    using assms(2) set_dset_subset[of "ev_currency e" _ "ps_cash_by_currency st"]
    by (fastforce simp: state_ok_def intro: distinct_dset)
  with a have "state_ok a" by (rule project_security_ok)
  then have "state_ok ?d" by (simp add: state_ok_def)
  with b have "state_ok b" by (rule project_valuation_ok)
  then show ?thesis by (simp add: st' state_ok_def)
qed

lemma projection_ok: "foldR project_event empty_state es = Inr st \<Longrightarrow> state_ok st"
  by (rule foldR_invariant[where P = state_ok]) (auto intro: state_ok_empty project_event_ok)

lemma booked_snoc [simp]:
  "dsum prec (booked_cash (es @ [e]) c) = (if ev_currency e = c
     then dadd prec (dsum prec (booked_cash es c)) (dec_of (ev_amount_local_delta e)) else dsum prec (booked_cash es c))"
  "dsum prec (booked_quantity (es @ [e]) s) = (if ev_security_id e = Some s
     then dadd prec (dsum prec (booked_quantity es s)) (dec_of (ev_quantity_delta e)) else dsum prec (booked_quantity es s))"
  "valuations (es @ [e]) = (if ev_nav_base e = None then valuations es else valuations es @ [e])"
  by (simp_all add: booked_cash_def booked_quantity_def valuations_def dsum_snoc)

lemma project_event_sums:
  assumes "project_event st e = Inr st'" and "state_sums es st"
  shows "state_sums (es @ [e]) st'"
proof -
  let ?day = "date_of (ev_session_date e)"
  from assms(1) obtain a b where
    a: "project_security e (st\<lparr>ps_cash_by_currency := dset (ev_currency e)
      (dadd prec (dget (ps_cash_by_currency st) (ev_currency e) 0) (dec_of (ev_amount_local_delta e)))
      (ps_cash_by_currency st)\<rparr>) = Inr a"
    and b: "project_valuation e (if ev_event_type e = ''decision''
      then a\<lparr>ps_last_decision_session := Some ?day\<rparr> else a) = Inr b"
    and st': "st' = b\<lparr>ps_last_session := Some (case ps_last_session b of None \<Rightarrow> ?day | Some d \<Rightarrow> max d ?day)\<rparr>"
    by (rule project_event_stages)
  have last: "(case ps_last_session st of None \<Rightarrow> ?day | Some d \<Rightarrow> max d ?day)
      = Max ((\<lambda>e. date_of (ev_session_date e)) ` set (es @ [e]))"
    using assms(2) by (auto simp: state_sums_def max.commute)
  have cash: "dget (ps_cash_by_currency a) c 0 = dsum prec (booked_cash (es @ [e]) c)"
    and quantity: "dget (ps_quantities a) s 0 = dsum prec (booked_quantity (es @ [e]) s)"
    and kept: "ps_nav_base a = ps_nav_base st" "ps_cash_base a = ps_cash_base st"
      "ps_positions_value_base a = ps_positions_value_base st" "ps_peak_nav_base a = ps_peak_nav_base st"
      "ps_last_session a = ps_last_session st" "ps_last_decision_session a = ps_last_decision_session st" for c s
    using a assms(2) by - (erule project_security_Inr; auto simp: state_sums_def)+
  note fields = project_valuation_fields[OF b]
  have val: "ps_cash_by_currency b = ps_cash_by_currency a" "ps_quantities b = ps_quantities a"
      "ps_last_session b = ps_last_session a" "ps_last_decision_session b = (if ev_event_type e = ''decision''
        then Some ?day else ps_last_decision_session a)"
    using fields(5-8) by simp_all
  have nav: "ps_nav_base b = last_of (\<lambda>e. dec_or_zero (ev_nav_base e)) 0 (valuations (es @ [e]))"
     "ps_cash_base b = last_of (\<lambda>e. dec_or_zero (ev_cash_base e)) 0 (valuations (es @ [e]))"
     "ps_positions_value_base b = last_of (\<lambda>e. dec_or_zero (ev_positions_value_base e)) 0 (valuations (es @ [e]))"
     "ps_peak_nav_base b = Max (insert 0 ((\<lambda>e. dec_or_zero (ev_nav_base e)) ` set (valuations (es @ [e]))))"
  proof -
    have st: "ps_nav_base st = last_of (\<lambda>e. dec_or_zero (ev_nav_base e)) 0 (valuations es)"
      "ps_cash_base st = last_of (\<lambda>e. dec_or_zero (ev_cash_base e)) 0 (valuations es)"
      "ps_positions_value_base st = last_of (\<lambda>e. dec_or_zero (ev_positions_value_base e)) 0 (valuations es)"
      "ps_peak_nav_base st = Max (insert 0 ((\<lambda>e. dec_or_zero (ev_nav_base e)) ` set (valuations es)))"
      using assms(2) by (simp_all only: state_sums_def)
    have m: "Max (insert (0 :: dec) (f ` set (vs @ [e]))) = max (Max (insert 0 (f ` set vs))) (f e)" for f vs
    proof -
      have "insert 0 (f ` set (vs @ [e])) = insert (f e) (insert 0 (f ` set vs))" by auto
      moreover have "Max (insert (f e) (insert 0 (f ` set vs))) = max (f e) (Max (insert 0 (f ` set vs)))"
        by (rule Max_insert) auto
      ultimately show ?thesis by (simp only: max.commute)
    qed
    have v: "ps_nav_base b = (if ev_nav_base e = None then ps_nav_base st else dec_or_zero (ev_nav_base e))"
      "ps_cash_base b = (if ev_nav_base e = None then ps_cash_base st else dec_or_zero (ev_cash_base e))"
      "ps_positions_value_base b = (if ev_nav_base e = None then ps_positions_value_base st
         else dec_or_zero (ev_positions_value_base e))"
      "ps_peak_nav_base b = (if ev_nav_base e = None then ps_peak_nav_base st
         else max (ps_peak_nav_base st) (dec_or_zero (ev_nav_base e)))"
      using fields(1-4) kept(1-4) by simp_all
    show "ps_nav_base b = last_of (\<lambda>e. dec_or_zero (ev_nav_base e)) 0 (valuations (es @ [e]))"
     "ps_cash_base b = last_of (\<lambda>e. dec_or_zero (ev_cash_base e)) 0 (valuations (es @ [e]))"
     "ps_positions_value_base b = last_of (\<lambda>e. dec_or_zero (ev_positions_value_base e)) 0 (valuations (es @ [e]))"
     "ps_peak_nav_base b = Max (insert 0 ((\<lambda>e. dec_or_zero (ev_nav_base e)) ` set (valuations (es @ [e]))))"
      by (cases "ev_nav_base e = None"; simp only: v st booked_snoc(3) last_of_snoc m if_True if_False simp_thms)+
  qed
  have decision: "ps_last_decision_session b = last_of (\<lambda>e. Some (date_of (ev_session_date e))) None
      (filter (\<lambda>e. ev_event_type e = ''decision'') (es @ [e]))"
    using assms(2) by (simp add: state_sums_def val(4) kept(6))
  have upd: "ps_cash_by_currency (b\<lparr>ps_last_session := v\<rparr>) = ps_cash_by_currency b"
    "ps_quantities (b\<lparr>ps_last_session := v\<rparr>) = ps_quantities b" "ps_nav_base (b\<lparr>ps_last_session := v\<rparr>) = ps_nav_base b"
    "ps_cash_base (b\<lparr>ps_last_session := v\<rparr>) = ps_cash_base b" "ps_last_session (b\<lparr>ps_last_session := v\<rparr>) = v"
    "ps_positions_value_base (b\<lparr>ps_last_session := v\<rparr>) = ps_positions_value_base b"
    "ps_peak_nav_base (b\<lparr>ps_last_session := v\<rparr>) = ps_peak_nav_base b"
    "ps_last_decision_session (b\<lparr>ps_last_session := v\<rparr>) = ps_last_decision_session b" for v
    by simp_all
  show ?thesis
    unfolding state_sums_def st' upd nav decision
    by (intro conjI allI refl) (simp_all only: cash quantity val kept last append_is_Nil_conv not_Cons_self2 if_False simp_thms)
qed

lemma projection_sums: "foldR project_event empty_state es = Inr st \<Longrightarrow> state_sums es st"
proof (induction es arbitrary: st rule: rev_induct)
  case (snoc e es)
  from snoc.prems obtain st0 where st0: "foldR project_event empty_state es = Inr st0" "project_event st0 e = Inr st"
    by (auto simp: foldR_append bindR_eq_Inr)
  show ?case by (rule project_event_sums[OF st0(2) snoc.IH[OF st0(1)]])
qed (simp add: state_sums_empty)

section \<open>A rebuilt state\<close>

lemma rebuild_state_Inr:
  "rebuild_state env L = Inr st \<longleftrightarrow> (\<exists>es raw. ledger_events env L = Inr es \<and> es \<noteq> []
     \<and> foldR project_event empty_state es = Inr raw
     \<and> st = raw\<lparr>ps_quantities := filter (\<lambda>(_, q). q \<noteq> 0) (ps_quantities raw)\<rparr>)"
  by (auto simp: rebuild_state_def project_events_def bindR_eq_Inr)

lemma dget_nonzero: "distinct (map fst d) \<Longrightarrow> dget (filter (\<lambda>(_, q). q \<noteq> 0) d) s 0 = (dget d s 0 :: dec)"
proof (induction d)
  case (Cons x d)
  have "dget (filter (\<lambda>(_, q). q \<noteq> 0) d) s 0 = (0 :: dec)" if "s = fst x"
    using Cons that by (simp add: dget_def map_of_eq_None_iff[THEN iffD2])
  with Cons show ?case by (cases x) (auto simp: dget_def)
qed simp

lemma rebuilt_facts:
  assumes "rebuild_state env L = Inr st"
  obtains es where "ledger_events env L = Inr es" and "es \<noteq> []" and "state_sums es st" and "state_ok st"
    and "\<forall>(s, q) \<in> set (ps_quantities st). 0 < q"
proof -
  from assms obtain es raw where es: "ledger_events env L = Inr es" "es \<noteq> []"
    and raw: "foldR project_event empty_state es = Inr raw"
    and st: "st = raw\<lparr>ps_quantities := filter (\<lambda>(_, q). q \<noteq> 0) (ps_quantities raw)\<rparr>"
    by (auto simp: rebuild_state_Inr)
  note ok = projection_ok[OF raw] and sums = projection_sums[OF raw]
  have d: "distinct (map fst (filter (\<lambda>(_, q). q \<noteq> 0) (ps_quantities raw)))"
    using ok by (auto simp: state_ok_def distinct_map inj_on_def)
  have "state_ok st" using ok d by (auto simp: st state_ok_def amounts_def)
  moreover have "state_sums es st"
    using sums ok dget_nonzero[of "ps_quantities raw"] by (simp add: st state_sums_def state_ok_def)
  moreover have "\<forall>(s, q) \<in> set (ps_quantities st). 0 < q"
    using ok by (auto simp: st state_ok_def amounts_def less_le)
  ultimately show ?thesis using that es by blast
qed

section \<open>What a draft does to the state\<close>

definition book_holding :: "draft \<Rightarrow> portfolio_state \<Rightarrow> portfolio_state" where
  "book_holding d st = (case dr_security_id d of
       None \<Rightarrow> st
     | Some s \<Rightarrow> st\<lparr>ps_quantities := dset s (dadd prec (dget (ps_quantities st) s 0) (dr_quantity_delta d)) (ps_quantities st),
         ps_security_currency := dset s (dr_currency d) (ps_security_currency st)\<rparr>)"

definition book_valuation :: "draft \<Rightarrow> portfolio_state \<Rightarrow> portfolio_state" where
  "book_valuation d st = (case dr_nav_base d of
       None \<Rightarrow> st
     | Some nav \<Rightarrow> st\<lparr>ps_nav_base := nav, ps_cash_base := (case dr_cash_base d of None \<Rightarrow> 0 | Some c \<Rightarrow> c),
         ps_positions_value_base := (case dr_positions_value_base d of None \<Rightarrow> 0 | Some p \<Rightarrow> p),
         ps_peak_nav_base := max (ps_peak_nav_base st) nav\<rparr>)"

definition book :: "draft \<Rightarrow> portfolio_state \<Rightarrow> portfolio_state" where
  "book d st =
     (let cash = dset (dr_currency d) (dadd prec (dget (ps_cash_by_currency st) (dr_currency d) 0) (dr_amount_local_delta d))
            (ps_cash_by_currency st);
          held = book_holding d (st\<lparr>ps_cash_by_currency := cash\<rparr>);
          decided = (if dr_event_type d = ''decision''
            then held\<lparr>ps_last_decision_session := Some (dr_session_date d)\<rparr> else held);
          valued = book_valuation d decided
      in valued\<lparr>ps_last_session := Some (case ps_last_session valued of None \<Rightarrow> dr_session_date d
            | Some day \<Rightarrow> max day (dr_session_date d))\<rparr>)"

text \<open>A draft can be booked when it does not sell more than there is.\<close>

definition bookable :: "draft \<Rightarrow> portfolio_state \<Rightarrow> bool" where
  "bookable d st \<longleftrightarrow> (case dr_security_id d of None \<Rightarrow> True
     | Some s \<Rightarrow> 0 \<le> dadd prec (dget (ps_quantities st) s 0) (dr_quantity_delta d))"

lemma dec_of_string [simp]: "is_decimal q \<Longrightarrow> dec_of (decimal_string q) = q"
  by (simp add: dec_of_def)

lemma date_of_isoformat [simp]: "valid_date d \<Longrightarrow> date_of (isoformat d) = d"
  by (simp add: date_of_def)

lemma project_make_event:
  assumes "draft_ok d" and "bookable d st"
  shows "project_event st (make_event env aid n d) = Inr (book d st)"
proof -
  let ?e = "make_event env aid n d"
  have sec: "project_security ?e st' = Inr (book_holding d st')" if "ps_quantities st' = ps_quantities st" for st'
    using assms that
    by (auto simp: project_security_def book_holding_def bookable_def draft_ok_def not_less Let_def split: option.splits)
  have val: "project_valuation ?e st' = Inr (book_valuation d st')" for st'
    using assms(1)
    by (auto simp: project_valuation_def book_valuation_def draft_ok_def dec_or_zero_def not_less Let_def split: option.splits)
  have "is_decimal (dr_amount_local_delta d)" "valid_date (dr_session_date d)" using assms(1) by (simp_all add: draft_ok_def)
  then show ?thesis
    by (simp add: project_event_def book_def Let_def sec val)
qed

end
