(* ===== verification/Paper_Properties.thy ===== *)
theory Paper_Properties
  imports Paper_Progress Ledger_State
begin

text \<open>
  What the lemmas on the ledger and on sessions give for the accounts that the engine can reach: the
  statements that span the components, in terms of the engine's entry points.
\<close>

section \<open>Lemmas\<close>

text \<open>No order is filled twice.\<close>

lemma fill_key:
  assumes "log_of env aid (justified env) es" and "e \<in> set es" and "ev_event_type e = ''fill''"
  shows "ev_idempotency_key e = ''fill:'' @ the (ev_order_id e) \<and> ev_order_id e \<noteq> None"
proof -
  note log = assms(1) and e = assms(2)
  obtain i d where "e = make_event env aid (int i + 1) d" "justified env (take i es) d"
    by (rule justified_member[OF log e])
  with assms(3) show ?thesis by (auto simp: justified_def)
qed

lemma filled_once:
  assumes "log_of env aid (justified env) es" and "i < length es" and "j < length es"
    and "ev_event_type (es ! i) = ''fill''" and "ev_event_type (es ! j) = ''fill''"
    and "ev_order_id (es ! i) = ev_order_id (es ! j)"
  shows "i = j"
proof -
  have "ev_idempotency_key (es ! i) = ev_idempotency_key (es ! j)"
    using fill_key[OF assms(1)] assms(2-6) nth_mem by metis
  with log_distinct_keys[OF assms(1)] assms(2,3) show ?thesis by (simp add: distinct_conv_nth) metis
qed

lemma order_passed:
  assumes "log_of env aid (justified env) es" and "n < length es" and "ev_event_type (es ! n) = ''order''"
  shows "\<exists>account inp sessions k state target orders risk y i.
     build_target env account inp sessions k state 1 (ev_decision_id (es ! n)) = Inr target
     \<and> target_orders env account inp sessions k target state = Inr orders
     \<and> assess_target env account inp sessions k state target orders = Inr risk \<and> rv_status risk = ''approved''
     \<and> y \<in> set orders \<and> event_order (es ! n) = Some (order_items y) \<and> ev_order_id (es ! n) = Some (or_order_id y)
     \<and> i < n \<and> ev_event_type (es ! i) = ''risk_approved'' \<and> ev_decision_id (es ! i) = ev_decision_id (es ! n)
     \<and> ev_target_id (es ! i) = ev_target_id (es ! n) \<and> ev_target_id (es ! n) = Some (tg_target_id target)"
proof -
  obtain d where e: "es ! n = make_event env aid (int n + 1) d" and ok: "justified env (take n es) d"
    using log_entry[OF assms(1,2)] by auto
  from e assms(3) ok obtain r where p: "passed_order env d" and r: "r \<in> set (take n es)" "ev_event_type r = ''risk_approved''"
    "ev_decision_id r = dr_decision_id d" "ev_target_id r = dr_target_id d"
    by (auto simp: justified_def)
  from r(1) assms(2) obtain i where i: "i < n" "es ! i = r" by (auto simp: in_set_conv_nth)
  from p obtain account inp sessions k state target orders risk y where
    "build_target env account inp sessions k state 1 (dr_decision_id d) = Inr target"
    "target_orders env account inp sessions k target state = Inr orders"
    "assess_target env account inp sessions k state target orders = Inr risk" "rv_status risk = ''approved''"
    "y \<in> set orders" "map_of (dr_details d) ''order'' = Some (JObj (order_items y))"
    "dr_order_id d = Some (or_order_id y)" "dr_target_id d = Some (tg_target_id target)"
    unfolding passed_order_def by blast
  with i r show ?thesis
    by (intro exI[of _ account] exI[of _ inp] exI[of _ sessions] exI[of _ k] exI[of _ state] exI[of _ target]
        exI[of _ orders] exI[of _ risk] exI[of _ y] exI[of _ i]) (simp add: e event_order_def)
qed

text \<open>The valuations of a justified log balance, and so does the state.\<close>

lemma valuation_balances:
  assumes "log_of env aid (justified env) es" and "e \<in> set es" and "ev_event_type e = ''valuation''"
  shows "balances e" and "ev_nav_base e \<noteq> None"
proof -
  note log = assms(1) and e = assms(2)
  obtain i d where ev: "e = make_event env aid (int i + 1) d" and j: "justified env (take i es) d"
    by (rule justified_member[OF log e])
  with assms(3) have "balanced d" by (simp add: justified_def)
  then show "balances e" "ev_nav_base e \<noteq> None"
    by (auto simp: balanced_def balances_def ev dec_or_zero_def dec_of_def)
qed

lemma valued_later:
  assumes "log_of env aid (justified env) (e # es)" and "x \<in> set es" and "ev_nav_base x \<noteq> None"
  shows "ev_event_type x = ''valuation''"
proof -
  from assms(2) obtain i where i: "i < length es" "(e # es) ! Suc i = x" by (auto simp: in_set_conv_nth)
  with log_entry[OF assms(1), of "Suc i"] obtain d where x: "x = make_event env aid (int (Suc i) + 1) d"
    and j: "justified env (take (Suc i) (e # es)) d" by auto
  from assms(3) have "dr_nav_base d \<noteq> None" by (auto simp: x)
  with j have "dr_event_type d = ''valuation''" by (auto simp: justified_def)
  with x show ?thesis by simp
qed

lemma last_valuation:
  assumes log: "log_of env aid (justified env) es" and "v \<in> set es" and "ev_event_type v = ''valuation''"
  shows "last (valuations es) \<in> set es \<and> ev_event_type (last (valuations es)) = ''valuation'' \<and> valuations es \<noteq> []"
proof (cases es)
  case (Cons e rest)
  have nav: "ev_nav_base v \<noteq> None" by (rule valuation_balances(2)[OF assms])
  show ?thesis
  proof (cases "filter (\<lambda>e. ev_nav_base e \<noteq> None) rest = []")
    case True
    with nav assms(2) Cons have "v = e" by (auto simp: filter_empty_conv)
    with True nav assms(3) show ?thesis by (simp add: valuations_def Cons)
  next
    case False
    then have "last (filter (\<lambda>e. ev_nav_base e \<noteq> None) rest) \<in> set (filter (\<lambda>e. ev_nav_base e \<noteq> None) rest)"
      by (rule last_in_set)
    with valued_later[OF log[unfolded Cons]] False show ?thesis by (auto simp: valuations_def Cons)
  qed
qed (use assms(2) in simp)

lemma balanced_state:
  assumes "log_of env aid (justified env) es" and "state_sums es st" and "v \<in> set es" and "ev_event_type v = ''valuation''"
  shows "ps_nav_base st = dadd prec (ps_cash_base st) (ps_positions_value_base st)"
proof -
  let ?e = "last (valuations es)"
  note last = last_valuation[OF assms(1,3,4)]
  then have "balances ?e" using valuation_balances(1)[OF assms(1)] by blast
  then have "ev_nav_base ?e = Some (decimal_string (dadd prec (dec_or_zero (ev_cash_base ?e))
      (dec_or_zero (ev_positions_value_base ?e))))" by (simp add: balances_def)
  then have "dec_or_zero (ev_nav_base ?e) = dadd prec (dec_or_zero (ev_cash_base ?e)) (dec_or_zero (ev_positions_value_base ?e))"
    by (simp add: dec_or_zero_def[of "Some x" for x] dec_of_def)
  with assms(2) last show ?thesis by (simp add: state_sums_def last_of_def)
qed

text \<open>The report of a log whose orders are the engine's own can always be made.\<close>

lemma render_order_items: "\<exists>s. render_order approvals fills (order_items y) = Inr (dset ''status'' (JStr s) (order_items y))"
proof -
  have id: "jget (order_items y) ''order_id'' = Inr (JStr (or_order_id y))"
    "jget (order_items y) ''decision_id'' = Inr (JStr (or_decision_id y))"
    by (simp_all add: jget_def order_items_def)
  have "order_items y = dset ''status'' (JStr (or_status y)) (order_items y)" by (simp add: order_items_def)
  then have "\<exists>s. order_items y = dset ''status'' (JStr s) (order_items y)" by blast
  then show ?thesis by (auto simp: render_order_def id)
qed

lemma report_made:
  assumes "ledger_events env L = Inr es" and "rebuild_state env L = Inr st"
    and "\<And>e. e \<in> set es \<Longrightarrow> ev_event_type e = ''order'' \<Longrightarrow> \<exists>y. event_order e = Some (order_items y)"
  shows "\<exists>r. report_from_events env account sess decision_id fingerprint recorded_at risk warnings L = Inr r"
proof -
  let ?raw = "List.map_filter event_order (filter (\<lambda>e. ev_event_type e = ''order'') (decision_events es decision_id))"
  let ?fills = "List.map_filter (\<lambda>e. nonempty_text (ev_order_id e)) (filter (\<lambda>e. ev_event_type e = ''fill'') es)"
  have items: "\<exists>y. x = order_items y" if "x \<in> set ?raw" for x
    using that assms(3) by (fastforce simp: map_filter_def decision_events_def)
  have "\<exists>os. mapR (render_order (approved_by_decision es) ?fills) ?raw = Inr os"
    using items render_order_items by (intro mapR_total) metis
  then obtain os where os: "mapR (render_order (approved_by_decision es) ?fills) ?raw = Inr os" by blast
  have "\<exists>v. jget ob ''status'' = Inr v" if "ob \<in> set os" for ob
  proof -
    from mapR_memD[OF os that] obtain x where "x \<in> set ?raw" "render_order (approved_by_decision es) ?fills x = Inr ob"
      by blast
    with items render_order_items[of "approved_by_decision es" ?fills] obtain y s where
      "ob = dset ''status'' (JStr s) (order_items y)" by (metis sum.inject(2))
    then show ?thesis by (simp add: jget_def)
  qed
  then obtain vs where "mapR (\<lambda>ob. jget ob ''status'') os = Inr vs" using mapR_total by metis
  then show ?thesis
    by (simp add: report_from_events_def reconcile_paper_account_def assms(1,2) os Let_def)
qed

section \<open>The store\<close>

text \<open>(C29) Writing an event and reading it back gives the event: the reader accepts, with all its checks,
  every document that the engine writes.\<close>

theorem event_roundtrip:
  assumes "env_ok env" and "draft_ok d"
  shows "validate_event env aid n (event_json (make_event env aid n d)) = Inr (make_event env aid n d)"
  using validate_event_json[of env aid "make_event env aid n d"] make_event_ok[OF assms, of aid n] make_event_hash[of env aid n d]
  by simp

text \<open>(C21) Appending a well-formed draft under a new key to a readable ledger succeeds, numbers the event
  with the next sequence, leaves a readable ledger with exactly this event added at the end, and a second
  call with the same draft returns the same event and changes nothing.\<close>

theorem append_event_exact:
  assumes "env_ok env" and "draft_ok d" and "ledger_events env L = Inr es"
    and "dr_idempotency_key d \<notin> ev_idempotency_key ` set es" and "length es + 1 < 1000000"
  shows "\<exists>M. append_event env d L = (Inr (make_event env (l_account_id L) (int (length es) + 1) d), M)
    \<and> ledger_events env M = Inr (es @ [make_event env (l_account_id L) (int (length es) + 1) d])
    \<and> append_event env d M = (Inr (make_event env (l_account_id L) (int (length es) + 1) d), M)"
proof -
  from append_event_new[OF assms(3) _ _ assms(4)] assms(2) obtain entries e where
    e: "e = make_event env (l_account_id L) (int (length es) + 1) d" and adds: "append_adds env d L es entries e"
    by (auto simp: draft_ok_def append_adds_def assms(3,4))
  have run: "append_event env d L = (Inr e, appended entries e L)" by (rule append_adds_run[OF adds])
  have read: "ledger_events env (appended entries e L) = Inr (es @ [e])"
    by (rule append_draft_readable[OF adds assms(1,2,5)])
  from run read append_again[OF run read] show ?thesis by (auto simp: e)
qed

text \<open>(C27) A ledger that still can be read after an append held the old events before it: whatever was
  appended, in whatever state of the files, events are never lost, reordered or rewritten.\<close>

theorem append_event_prefix:
  assumes "append_event env d L = (r, M)" and "ledger_events env M = Inr es'"
  shows "\<exists>es. ledger_events env L = Inr es \<and> (es' = es \<or> (\<exists>e. r = Inr e \<and> es' = es @ [e] \<and> ev_sequence e = int (length es) + 1))"
  using assms(1)
proof (cases rule: append_event_cases)
  case (adds es entries e)
  with events_after_append[OF adds(1)] assms(2) show ?thesis by (auto simp: append_adds_def)
qed (use assms(2) in auto)

text \<open>(C20) The rebuilt state is the sum of the log: the cash in each currency and each holding are the
  rounded sums of the booked amounts, the valuation is the latest one, the peak the largest, and the last
  decision and session dates are those of the log.\<close>

theorem rebuild_state_sums:
  assumes "rebuild_state env L = Inr st"
  shows "\<exists>es. ledger_events env L = Inr es \<and> es \<noteq> [] \<and> state_sums es st"
proof -
  obtain es where "ledger_events env L = Inr es" "es \<noteq> []" "state_sums es st" by (rule rebuilt_facts[OF assms])
  then show ?thesis by blast
qed

text \<open>(C28) Every state that can be rebuilt is well formed: distinct currencies and securities, positive
  holdings, decimals throughout, a non-negative valuation not above its peak.\<close>

theorem rebuild_state_ok:
  assumes "rebuild_state env L = Inr st"
  shows "state_ok st \<and> (\<forall>(s, q) \<in> set (ps_quantities st). 0 < q)"
proof -
  obtain es where "state_ok st" "\<forall>(s, q) \<in> set (ps_quantities st). 0 < q" by (rule rebuilt_facts[OF assms])
  then show ?thesis by blast
qed

section \<open>Sessions\<close>

text \<open>(C6) The readable log of every account that the entry points can reach refines the abstract log in
  which each event is justified by the events before it, under distinct keys and consecutive numbers.\<close>

theorem reachable_refines_log:
  assumes "env_ok env" and "paper_reachable env L" and "ledger_events env L = Inr es"
  shows "log_of env (l_account_id L) (justified env) es"
  using reachable_log[OF assms(2,1)] assms(3) by (simp add: refines_log_def)

text \<open>(C1) No fill without a proposed order for this very session, an earlier approved risk verdict on its
  target and an approval of its decision that nobody has rejected; and no order is filled twice.\<close>

theorem fill_safety:
  assumes "env_ok env" and "paper_reachable env L" and "ledger_events env L = Inr es"
    and "n < length es" and "ev_event_type (es ! n) = ''fill''"
  shows "authorised_fill (take n es) (es ! n)
    \<and> (\<forall>m < length es. ev_event_type (es ! m) = ''fill'' \<and> ev_order_id (es ! m) = ev_order_id (es ! n) \<longrightarrow> m = n)"
proof -
  have log: "log_of env (l_account_id L) (justified env) es"
    using reachable_log[OF assms(2,1)] assms(3) by (simp add: refines_log_def)
  from fills_authorised[OF this assms(4,5)] filled_once[OF log] assms(4,5) show ?thesis by blast
qed

text \<open>(C4) Every order in the log is one that construction proposed for a target which the risk check
  approved, recorded after the event of that approval.\<close>

theorem orders_passed_risk:
  assumes "env_ok env" and "paper_reachable env L" and "ledger_events env L = Inr es"
    and "n < length es" and "ev_event_type (es ! n) = ''order''"
  shows "\<exists>account inp sessions k state target orders risk y i.
     build_target env account inp sessions k state 1 (ev_decision_id (es ! n)) = Inr target
     \<and> target_orders env account inp sessions k target state = Inr orders
     \<and> assess_target env account inp sessions k state target orders = Inr risk \<and> rv_status risk = ''approved''
     \<and> y \<in> set orders \<and> event_order (es ! n) = Some (order_items y) \<and> ev_order_id (es ! n) = Some (or_order_id y)
     \<and> i < n \<and> ev_event_type (es ! i) = ''risk_approved'' \<and> ev_decision_id (es ! i) = ev_decision_id (es ! n)
     \<and> ev_target_id (es ! i) = ev_target_id (es ! n) \<and> ev_target_id (es ! n) = Some (tg_target_id target)"
  using order_passed[OF _ assms(4,5)] reachable_log[OF assms(2,1)] assms(3) by (simp add: refines_log_def)

text \<open>(C7) Whatever a session does and however it ends, it only adds: the events before it are a prefix of
  the events after it, the account is the same, and no target, order or report file has changed.\<close>

theorem session_append_only:
  assumes "env_ok env" and "run_paper_session env say fs now recorded doc day clock_value refs L = (r, M)"
  shows "l_account_id M = l_account_id L \<and> l_account M = l_account L
    \<and> map_of (l_targets L) \<subseteq>\<^sub>m map_of (l_targets M) \<and> map_of (l_orders L) \<subseteq>\<^sub>m map_of (l_orders M)
    \<and> map_of (l_reports L) \<subseteq>\<^sub>m map_of (l_reports M)
    \<and> (\<forall>es'. ledger_events env M = Inr es' \<longrightarrow> (\<exists>es new. ledger_events env L = Inr es \<and> es' = es @ new))"
proof -
  have "paper_steps env L M"
    using ledger_run.steps_result[OF run_session_steps[OF assms(1)] assms(2)] .
  from steps_identity[OF this] steps_files[OF this] steps_prefix[OF this] show ?thesis by blast
qed

text \<open>(C5) When the settlement of a session returns, every order that was due in it, proposed for the session
  and approved, has its fill in the log.\<close>

theorem settlement_complete:
  assumes "settle_orders env account inp sess L = (Inr (), M)" and "ledger_events env L = Inr es"
    and "ledger_events env M = Inr es'" and "e \<in> set es" and "fill_due sess es e order_id"
  shows "\<exists>f \<in> set es'. ev_idempotency_key f = ''fill:'' @ order_id"
  by (rule settle_orders_recorded[OF assms])

text \<open>(C25) A decision is approved or rejected at most once.\<close>

theorem decided_at_most_once:
  assumes "env_ok env" and "paper_reachable env L" and "ledger_events env L = Inr es" and "a \<in> set es" and "b \<in> set es"
    and "ev_event_type a \<in> {''approval'', ''manual_rejection''}" and "ev_event_type b \<in> {''approval'', ''manual_rejection''}"
    and "ev_decision_id a = ev_decision_id b"
  shows "a = b"
  using decided_once[OF _ assms(4-8)] reachable_log[OF assms(2,1)] assms(3) by (auto simp: refines_log_def)

text \<open>(C24) An approval is final: the opposite answer to the same decision raises a conflict, at whatever
  time it is given, and leaves the ledger as it is.\<close>

theorem approval_is_final:
  assumes "approve_paper_decision env decision_id approved event_at L = (Inr e, M)" and "ledger_events env M = Inr es"
  shows "approve_paper_decision env decision_id (\<not> approved) event_at' M
    = (Inl (Exn PaperConflictError (''idempotency key already contains different event: '' @ ''approval:'' @ decision_id)), M)"
  by (rule approval_conflict[OF assms])

text \<open>(C23) A session that has returned a report has stored it, and every later call for the date, with
  whatever inputs and clock, leaves the ledger as it is and returns the stored report or raises.\<close>

theorem session_reported_once:
  assumes "run_paper_session env say fs now recorded doc day clock_value refs L = (Inr report, M)"
  shows "\<exists>d x. session_argument_date day = Inr d \<and> read_report (isoformat d) M = Some x \<and> same_text env x report
    \<and> snd (run_paper_session env say' fs' now' recorded' doc' day clock_value' refs' M) = M
    \<and> (fst (run_paper_session env say' fs' now' recorded' doc' day clock_value' refs' M) = Inr x
       \<or> (\<exists>e. fst (run_paper_session env say' fs' now' recorded' doc' day clock_value' refs' M) = Inl e))"
  using run_session_stored[OF assms] run_session_again by blast

text \<open>(C22) Errors of the market data and of construction never leave the body of a session: it ends in a
  report, or in an error of the ledger, the accounting or the documents.\<close>

theorem data_errors_contained:
  assumes "session_body env say recorded account inp sessions k sess decision_id fingerprint L = (Inl e, M)"
  shows "exn_kind e \<notin> {PaperMissingDataError, BacktestInputError, PortfolioError, PortfolioStateError}"
  using quiet_session[of env say recorded account inp sessions k sess decision_id fingerprint] assms
  by (auto simp: quietS_def avoids_def halting_errors_def dest!: spec[of _ L])

text \<open>(C8) The reconciliation of an account that has been valued passes: all its valuations balance, and so
  does the state rebuilt from them.\<close>

theorem reconcile_passes:
  assumes "env_ok env" and "paper_reachable env L" and "ledger_events env L = Inr es" and "rebuild_state env L = Inr st"
    and "v \<in> set es" and "ev_event_type v = ''valuation''"
  shows "\<exists>r. reconcile_paper_account env L = Inr r \<and> rc_status r = ''passed'' \<and> rc_issues r = []
    \<and> rc_event_count r = length es \<and> rc_account_id r = l_account_id L"
proof -
  have log: "log_of env (l_account_id L) (justified env) es"
    using reachable_log[OF assms(2,1)] assms(3) by (simp add: refines_log_def)
  obtain es0 where "ledger_events env L = Inr es0" "state_sums es0 st" by (rule rebuilt_facts[OF assms(4)])
  with assms(3) have "state_sums es st" by simp
  with log assms(5,6) have nav: "ps_nav_base st = dadd prec (ps_cash_base st) (ps_positions_value_base st)"
    by (intro balanced_state)
  have "filter (\<lambda>e. \<not> balances e) (filter (\<lambda>e. ev_event_type e = ''valuation'') es) = []"
    using valuation_balances(1)[OF log] by (auto simp: filter_empty_conv)
  with nav show ?thesis
    by (simp add: reconcile_paper_account_def assms(3,4) Let_def)
qed

text \<open>(C26) The report of a session can always be made: on every reachable account whose state can be
  rebuilt, for every session, decision and verdict.\<close>

theorem report_total:
  assumes "env_ok env" and "paper_reachable env L" and "rebuild_state env L = Inr st"
  shows "\<exists>r. report_from_events env account sess decision_id fingerprint recorded_at risk warnings L = Inr r"
proof -
  obtain es where es: "ledger_events env L = Inr es" by (rule rebuilt_facts[OF assms(3)])
  have log: "log_of env (l_account_id L) (justified env) es"
    using reachable_log[OF assms(2,1)] es by (simp add: refines_log_def)
  have "\<exists>y. event_order e = Some (order_items y)" if "e \<in> set es" "ev_event_type e = ''order''" for e
    using order_passed[OF log] that by (metis in_set_conv_nth)
  from report_made[OF es assms(3) this] show ?thesis .
qed

end
