(* ===== verification/Example_Session.thy ===== *)
theory Example_Session
  imports Example_Decision Paper_Properties
begin

text \<open>
  The example account from its creation over two sessions: the first buys the target, the second fills
  the two orders at its open and does not rebalance. The theorems on the ledger and on sessions are
  applied to the ledgers on the way.
\<close>

section \<open>Runs\<close>

text \<open>From every state with a property the program returns a given value in a state with another.\<close>

definition runs :: "('s \<Rightarrow> bool) \<Rightarrow> ('s, 'a) prog \<Rightarrow> 'a \<Rightarrow> ('s \<Rightarrow> bool) \<Rightarrow> bool" where
  "runs P m v Q \<longleftrightarrow> (\<forall>s. P s \<longrightarrow> (\<exists>t. m s = (Inr v, t) \<and> Q t))"

lemma runs_return: "runs P (returnS v) v P"
  by (simp add: runs_def returnS_def)

lemma runs_lift: "r = Inr v \<Longrightarrow> runs P (liftS r) v P"
  by (simp add: runs_def liftS_def)

lemma runs_read: "(\<And>s. P s \<Longrightarrow> f s = Inr v) \<Longrightarrow> runs P (readS f) v P"
  by (simp add: runs_def readS_def)

lemma runs_bind: "runs P m v Q \<Longrightarrow> runs Q (f v) w R \<Longrightarrow> runs P (bindS m f) w R"
  by (fastforce simp: runs_def bindS_def)

lemma runs_try: "runs P m v Q \<Longrightarrow> runs P (tryS m cs h) v Q"
  by (fastforce simp: runs_def tryS_def)

lemma runs_at: "runs P m v Q \<Longrightarrow> P s \<Longrightarrow> \<exists>t. m s = (Inr v, t) \<and> Q t"
  by (simp add: runs_def)

section \<open>What is known of the ledger\<close>

abbreviation ex_id :: string where "ex_id \<equiv> art_id CHR ''d''"
abbreviation ev :: "int \<Rightarrow> draft \<Rightarrow> event" where "ev \<equiv> make_event ex_env ex_id"

definition known :: "event list \<Rightarrow> portfolio_state \<Rightarrow> string list \<Rightarrow> string list \<Rightarrow> string list \<Rightarrow> ledger \<Rightarrow> bool" where
  "known es st T Y R L \<longleftrightarrow> ledger_events ex_env L = Inr es \<and> foldR project_event empty_state es = Inr st
     \<and> l_account_id L = ex_id \<and> l_account L = Some (account_json ex_account)
     \<and> map fst (l_targets L) = T \<and> map fst (l_orders L) = Y \<and> map fst (l_reports L) = R"

lemma is_uuid_art: "is_lower_hex c \<Longrightarrow> is_uuid (art_id c)"
  by (simp add: is_uuid_def art_id_def list_all_iff numeral_eq_Suc)

lemma ex_env_ok: "env_ok ex_env"
proof -
  have "is_lower_hex CHR ''0''" by (simp add: is_lower_hex_def is_digit_def)
  then have "is_uuid (ex_uuid ns name)" for ns name by (auto simp: ex_uuid_def intro: is_uuid_art)
  with ex_strings(6) show ?thesis by (simp add: env_ok_def ex_env_def)
qed

lemma runs_append:
  assumes "draft_ok d" and "bookable d st" and "dr_idempotency_key d \<notin> ev_idempotency_key ` set es"
    and "length es < 100" and "n = int (length es) + 1" and "st' = book d st" and "es' = es @ [ev n d]"
  shows "runs (known es st T Y R) (append_event ex_env d) (ev n d) (known es' st' T Y R)"
  unfolding runs_def
proof (intro allI impI)
  fix L
  assume L: "known es st T Y R L"
  then have es: "ledger_events ex_env L = Inr es" by (simp add: known_def)
  from append_event_new[OF es _ _ assms(3)] assms(1) obtain entries where
    adds: "append_adds ex_env d L es entries (make_event ex_env (l_account_id L) (int (length es) + 1) d)" (is "append_adds _ _ _ _ _ ?e")
    by (auto simp: draft_ok_def append_adds_def es assms(3))
  have e: "?e = ev n d" using L assms(5) by (simp add: known_def)
  have "length es + 1 < 1000000" using assms(4) by simp
  from append_draft_readable[OF adds ex_env_ok assms(1) this] append_adds_run[OF adds] L assms
  show "\<exists>t. append_event ex_env d L = (Inr (ev n d), t) \<and> known es' st' T Y R t"
    by (auto simp: known_def foldR_append project_make_event)
qed

lemma ex_acc: "acc_account_id ex_account = ex_id"
  by (simp add: ex_account_def)

lemma map_of_None_fst: "x \<notin> fst ` set d \<Longrightarrow> map_of d x = None"
  by (simp add: map_of_eq_None_iff)

lemma runs_known:
  "runs (known es st T Y R) (readS (event_for_idempotency ex_env key)) (find (\<lambda>e. ev_idempotency_key e = key) es) (known es st T Y R)"
  "runs (known es st T Y R) (readS (ledger_events ex_env)) es (known es st T Y R)"
  "runs (known es st T Y R) (readS (\<lambda>L. Inr (l_account_id L))) ex_id (known es st T Y R)"
  "runs (known es st T Y R) (readS load_account) ex_account (known es st T Y R)"
  "es \<noteq> [] \<Longrightarrow> runs (known es st T Y R) (readS (rebuild_state ex_env))
     (st\<lparr>ps_quantities := filter (\<lambda>(_, q). q \<noteq> 0) (ps_quantities st)\<rparr>) (known es st T Y R)"
  "report_name day \<notin> set R \<Longrightarrow> runs (known es st T Y R) (readS (\<lambda>L. Inr (read_report day L))) None (known es st T Y R)"
  by (rule runs_read; auto simp: known_def event_for_idempotency_def load_account_def ex_account_valid rebuild_state_def
      project_events_def read_report_def ex_acc map_of_None_fst)+

lemma runs_write:
  "''target-'' @ i @ ''.json'' \<notin> set T \<Longrightarrow> runs (known es st T Y R) (write_target ex_env i doc) (file_sha256 ex_env doc)
     (known es st (T @ [''target-'' @ i @ ''.json'']) Y R)"
  "''order-'' @ i @ ''.json'' \<notin> set Y \<Longrightarrow> runs (known es st T Y R) (write_order ex_env i doc) (file_sha256 ex_env doc)
     (known es st T (Y @ [''order-'' @ i @ ''.json'']) R)"
  "report_name day \<notin> set R \<Longrightarrow> runs (known es st T Y R) (write_report ex_env day doc) ()
     (known es st T Y (R @ [report_name day]))"
proof -
  have e: "ledger_events ex_env (L\<lparr>l_targets := fs\<rparr>) = ledger_events ex_env L"
    "ledger_events ex_env (L\<lparr>l_orders := fs\<rparr>) = ledger_events ex_env L"
    "ledger_events ex_env (L\<lparr>l_reports := fs\<rparr>) = ledger_events ex_env L" for L fs
    by (rule ledger_events_cong; simp)+
  have n: "map_of fs name = None \<Longrightarrow> put_immutable ex_env name doc fs = Inr (fs @ [(name, doc)])" for name fs
    using dset_fresh[of name fs doc] by (simp add: put_immutable_def map_of_eq_None_iff split: option.split)
  have f: "map fst fs = X \<Longrightarrow> name \<notin> set X \<Longrightarrow> map_of fs name = None" for name X and fs :: "(string \<times> json) list"
    using map_of_None_fst[of name fs] by auto
  show "''target-'' @ i @ ''.json'' \<notin> set T \<Longrightarrow> runs (known es st T Y R) (write_target ex_env i doc) (file_sha256 ex_env doc)
     (known es st (T @ [''target-'' @ i @ ''.json'']) Y R)"
    "''order-'' @ i @ ''.json'' \<notin> set Y \<Longrightarrow> runs (known es st T Y R) (write_order ex_env i doc) (file_sha256 ex_env doc)
     (known es st T (Y @ [''order-'' @ i @ ''.json'']) R)"
    "report_name day \<notin> set R \<Longrightarrow> runs (known es st T Y R) (write_report ex_env day doc) ()
     (known es st T Y (R @ [report_name day]))"
    by (auto simp: runs_def known_def write_target_def write_order_def write_report_def n[OF f] e)
qed

section \<open>The account is created\<close>

definition ex_unused :: ledger where
  "ex_unused = \<lparr>l_account_id = ex_id, l_used = False, l_account = None, l_manifest = None, l_events = [],
     l_targets = [], l_orders = [], l_reports = []\<rparr>"

definition ex_start :: date where "ex_start = Date 2024 1 1"

definition dep :: draft where "dep = deposit_draft ex_env ex_account ex_start 1000"

text \<open>A state of the example: everything is in one currency.\<close>

definition ex_st ::
  "dec \<Rightarrow> (string \<times> dec) list \<Rightarrow> (string \<times> string) list \<Rightarrow> dec \<Rightarrow> dec \<Rightarrow> dec \<Rightarrow> date \<Rightarrow> date option \<Rightarrow> portfolio_state" where
  "ex_st cash quantities currencies nav c p day decided = \<lparr>ps_cash_by_currency = [(''USD'', cash)],
     ps_quantities = quantities, ps_security_currency = currencies, ps_nav_base = nav, ps_cash_base = c,
     ps_positions_value_base = p, ps_peak_nav_base = 1000, ps_last_session = Some day, ps_last_decision_session = decided\<rparr>"

lemma ex_start_valid [simp]: "valid_date ex_start" "valid_datetime (Datetime ex_start 0 0 0 0)" "ex_start < day1" "ex_start \<le> day1"
  "ex_start \<le> day2" "\<not> day1 \<le> ex_start" "\<not> day2 \<le> ex_start"
  by (simp_all add: ex_start_def day1_def day2_def valid_date_def valid_datetime_def days_in_month_def less_date_def less_eq_date_def)

lemma ex_types [simp]: "''cash_deposit'' \<in> set event_types" "''valuation'' \<in> set event_types" "''decision'' \<in> set event_types"
    "''target_published'' \<in> set event_types" "''risk_approved'' \<in> set event_types" "''order'' \<in> set event_types"
    "''approval'' \<in> set event_types" "''fill'' \<in> set event_types" "''fee'' \<in> set event_types" "''tax'' \<in> set event_types"
    "''no_op'' \<in> set event_types"
  by (simp_all add: event_types_def)

lemma dep_ok: "draft_ok dep" "bookable dep empty_state"
  by (simp_all add: dep_def deposit_draft_def draft_event_def draft_ok_def bookable_def ex_base)

lemma dep_booked: "book dep empty_state = ex_st 1000 [] [] 1000 1000 0 ex_start None"
  by (simp add: book_def book_holding_def book_valuation_def dep_def deposit_draft_def draft_event_def empty_state_def ex_st_def
      ex_base dadd_def dec_round_eval)

lemma ex_dates_of: "account_date ''2024-01-01'' = Inr ex_start" "account_date ''2024-12-31'' = Inr (Date 2024 12 31)"
  by (simp_all add: account_date_def parse_date_def ex_start_def nat_of_digits_def digit_val_def valid_date_def
      days_in_month_def is_digit_def)

lemma ex_manifest: "ledger_events ex_env (ex_unused\<lparr>l_used := True, l_account := a, l_manifest := Some (manifest_json ex_id [])\<rparr>) = Inr []"
  by (simp add: ledger_events_def read_manifest_def ex_unused_def manifest_json_def jkeys_def jget_def equals_int_def
      bindR_ensure sorted_items_def insert_commute)

lemma ex_created: "\<exists>L. create_paper_account ex_env (account_json ex_account) ex_unused
    = (Inr (ex_id, paper_account_sha256 ex_env ex_account, 1), L)
  \<and> known [ev 1 dep] (ex_st 1000 [] [] 1000 1000 0 ex_start None) [] [] [] L"
proof -
  let ?L = "ex_unused\<lparr>l_used := True, l_account := Some (account_json ex_account), l_manifest := Some (manifest_json ex_id [])\<rparr>"
  have "known [] empty_state [] [] [] ?L"
    by (simp add: known_def ex_manifest) (simp add: ex_unused_def)
  from runs_at[OF runs_append[OF dep_ok, where es = "[]" and n = 1] this] obtain L where
    L: "append_event ex_env dep ?L = (Inr (ev 1 dep), L)" "known [ev 1 dep] (book dep empty_state) [] [] [] L" by auto
  have cash: "decimal False False ''initial_cash'' (JStr (ac_initial_cash (acc_accounting_policy ex_account))) = Inr 1000"
    by (simp add: ex_account_def decimal_def parse_signed_def)
  have start: "account_date (acc_start_date ex_account) = Inr ex_start" using ex_dates_of by (simp add: ex_account_def)
  have unused: "l_account_id ex_unused = ex_id" "l_account ex_unused = None" "\<not> l_used ex_unused"
    by (simp_all add: ex_unused_def)
  have init: "initialize ex_env (account_json ex_account) ex_unused = (Inr ex_account, L)"
    using L(1) by (simp add: initialize_def prog_defs ex_account_valid ex_acc create_directories_def write_manifest_def
        start cash dep_def unused)
  have "ledger_events ex_env L = Inr [ev 1 dep]" using L(2) by (simp add: known_def)
  then have "create_paper_account ex_env (account_json ex_account) ex_unused
      = (Inr (ex_id, paper_account_sha256 ex_env ex_account, 1), L)"
    by (simp add: create_paper_account_def prog_defs ex_account_valid init ex_acc)
  with L(2) show ?thesis by (simp add: dep_booked)
qed

section \<open>The first session\<close>

definition sess1 :: session where "sess1 = (ex_session day1)\<lparr>s_decision_at := Some (at_close day1)\<rparr>"

abbreviation did1 :: string where "did1 \<equiv> art_id CHR ''a''"
abbreviation ex_print_a :: string where "ex_print_a \<equiv> replicate 64 CHR ''a''"

definition st0 :: portfolio_state where "st0 = ex_st 1000 [] [] 1000 1000 0 ex_start None"
definition st1 :: portfolio_state where "st1 = ex_st 1000 [] [] 1000 1000 0 day1 None"
definition st2 :: portfolio_state where "st2 = ex_st 1000 [] [] 1000 1000 0 day1 (Some day1)"

definition tgt1 :: target where
  "tgt1 = target_document ex_env ex_account sess1 st1 1 (Some did1) (1 / 10) ex_target_rows"

definition verdict1 :: risk_verdict where
  "verdict1 = \<lparr>rv_status = ''approved'', rv_policy_version = ''1.0.0'', rv_codes = [], rv_reasons = [],
     rv_checked_at = timestamp (at_close day1)\<rparr>"

lemma sess1_simps [simp]: "s_session_date sess1 = day1" "session_decision_at sess1 = at_close day1"
    "s_open_at sess1 = at_open day1" "s_close_at sess1 = at_close day1"
  by (simp_all add: sess1_def session_decision_at_def) (simp_all add: ex_session_def)

lemma st_simps [simp]: "ps_quantities (ex_st c q w n a p d t) = q" "ps_nav_base (ex_st c q w n a p d t) = n"
    "ps_last_decision_session (ex_st c q w n a p d t) = t" "ps_cash_by_currency (ex_st c q w n a p d t) = [(''USD'', c)]"
    "ps_security_currency (ex_st c q w n a p d t) = w" "ps_peak_nav_base (ex_st c q w n a p d t) = 1000"
    "ps_cash_base (ex_st c q w n a p d t) = a" "ps_positions_value_base (ex_st c q w n a p d t) = p"
    "ps_last_session (ex_st c q w n a p d t) = Some d"
  by (simp_all add: ex_st_def)

lemma tgt1_simps [simp]: "tg_targets tgt1 = ex_target_rows" "tg_nav_base tgt1 = ''1000''" "tg_decision_id tgt1 = did1"
  by (simp_all add: tgt1_def target_document_def Let_def st1_def) (simp add: art_id_def numeral_eq_Suc)

lemma ex_arith3: "dadd 28 0 400 = 400" "dadd 28 400 450 = 850" "dquot 28 850 1000 = 17 / 20" "dadd 28 0 (2 / 5) = 2 / 5"
    "dadd 28 (2 / 5) (9 / 20) = 17 / 20" "dadd 28 0 (9 / 20) = 9 / 20" "dsub 28 1000 850 = 150" "dadd 28 0 4 = 4"
    "dadd 28 4 (9 / 2) = 17 / 2" "dsub 28 150 (17 / 2) = 283 / 2" "dmul 28 1000 (1 / 10) = 100" "dmul 28 1000 1 = 1000"
    "dsub 28 1000 1000 = 0" "dquot 28 0 1000 = 0"
  by code_simp+

lemma ex_reserve: "0 \<le> t \<Longrightarrow> \<not> dadd 28 (283 / 2) t < 100"
proof -
  have "dec_round 28 (283 / 2) = 283 / 2" by code_simp
  then show "0 \<le> t \<Longrightarrow> \<not> dadd 28 (283 / 2) t < 100"
    using dec_round_mono[of "283 / 2" "283 / 2 + t" 28] by (simp add: dadd_def)
qed

lemma ex_parse3 [simp]: "parse_unsigned ''4.5'' = Some (9 / 2)"
  by (simp add: parse_unsigned_def Let_def is_digit_def nat_of_digits_def digit_val_def)

lemma ex_decimal3 [simp]: "decimal_nn f ''4'' = Inr 4" "decimal_nn f ''9'' = Inr 9" "decimal_nn f ''400'' = Inr 400"
    "decimal_nn f ''450'' = Inr 450" "decimal_nn f ''0.4'' = Inr (2 / 5)" "decimal_nn f ''0.45'' = Inr (9 / 20)"
    "decimal_nn f ''4.5'' = Inr (9 / 2)"
  by (simp_all add: decimal_nn_iff)

lemma ex_limits: "rp_max_gross_exposure (acc_risk_policy ex_account) = ''1''" "rp_max_position_weight (acc_risk_policy ex_account) = ''1''"
    "rp_prohibited_security_ids (acc_risk_policy ex_account) = []" "rp_max_sector_exposure (acc_risk_policy ex_account) = ''1''"
    "rp_max_country_exposure (acc_risk_policy ex_account) = ''1''" "rp_max_currency_exposure (acc_risk_policy ex_account) = ''1''"
    "rp_max_theme_exposure (acc_risk_policy ex_account) = ''1''" "rp_minimum_cash_reserve (acc_risk_policy ex_account) = ''0.1''"
    "rp_max_turnover (acc_risk_policy ex_account) = ''1''" "rp_max_daily_notional (acc_risk_policy ex_account) = ''5000''"
    "rp_max_price_gap (acc_risk_policy ex_account) = ''1''" "rp_max_participation (acc_risk_policy ex_account) = ''1''"
    "rp_max_drawdown (acc_risk_policy ex_account) = ''1''" "rp_max_stale_sessions (acc_risk_policy ex_account) = 1"
    "dp_max_price_gap (acc_decision_policy ex_account) = ''1''" "dp_stale_after_sessions (acc_decision_policy ex_account) = 1"
    "rp_version (acc_risk_policy ex_account) = ''1.0.0''" "acc_approval_mode ex_account = ''auto''"
  by (simp_all add: ex_account_def)

lemma ex_assess: "assess_target ex_env ex_account ex_inputs [sess1, ex_session day2] 0 st1 tgt1 (ex_orders tgt1) = Inr verdict1"
proof -
  have pos: "foldR (position_step 1 []) (([], []), no_groups) ex_target_rows = Inr (([], []),
      \<lparr>g_sector = [(''tech'', 2 / 5), (''energy'', 9 / 20)], g_country = [(''US'', 17 / 20)], g_currency = [(''USD'', 17 / 20)],
       g_theme = [(''ai'', 2 / 5)]\<rparr>)"
    by (simp add: ex_target_rows_def ex_row_def position_step_def no_groups_def add_exposure_def dget_def ex_arith3)
  have grp: "check_groups (acc_risk_policy ex_account)
      \<lparr>g_sector = [(''tech'', 2 / 5), (''energy'', 9 / 20)], g_country = [(''US'', 17 / 20)], g_currency = [(''USD'', 17 / 20)],
       g_theme = [(''ai'', 2 / 5)]\<rparr> ([], []) = Inr ([], [])"
    by (simp add: check_groups_def check_group_def ex_limits sorted_items_def)
  have nv: "check_notional (acc_risk_policy ex_account) 1000 (ex_orders tgt1) ([], []) = Inr ([], [])"
    by (simp add: check_notional_def ex_orders_def ex_order_def ex_limits dsum_def ex_arith3 per_nav_def)
  have cash: "check_cash (acc_risk_policy ex_account) 1000 [400, 450] (ex_orders tgt1) ([], []) = Inr ([], [])"
    by (simp add: check_cash_def ex_orders_def ex_order_def ex_limits dsum_def ex_arith3 Let_def ex_reserve le_max_iff_disj
        rounding_tolerance_def)
  have part: "foldR (participation_step ex_inputs sess1 1) ([], []) (ex_orders tgt1) = Inr ([], [])"
    using ex_price_at by (simp add: participation_step_def ex_orders_def ex_order_def ex_price_def ex_arith3)
  have gaps: "check_gaps ex_account ex_inputs ss 0 sess1 rows v = Inr v" for ss rows v
    by (simp add: check_gaps_def ex_limits)
  have held: "held_targets ex_target_rows = Inr [sec_a, sec_b]"
    by (simp add: held_targets_def ex_target_rows_def ex_row_def)
  have stale: "stale_step ex_inputs [sess1, ex_session day2] sess1 1 ([], []) sec_a = ([], [])"
      "stale_step ex_inputs [sess1, ex_session day2] sess1 1 ([], []) sec_b = ([], [])"
    using ex_price_at by (simp_all add: stale_step_def session_age_def ex_price_def ex_seen_def at_close_def ex_session_def)
  have dd: "check_drawdown (acc_risk_policy ex_account) 1000 1000 ([], []) = Inr ([], [])"
    by (simp add: check_drawdown_def ex_limits ex_arith3)
  have vals: "mapR (\<lambda>row. decimal_nn ''target.market_value_base'' (tr_market_value_base row)) ex_target_rows = Inr [400, 450]"
    by (simp add: ex_target_rows_def ex_row_def)
  have so: "env_set_order ex_env xs = xs" for xs by (simp add: ex_env_def)
  show ?thesis
    by (simp add: assess_target_def session_at_def vals dsum_def ex_arith3 per_nav_def ex_limits pos grp nv cash part gaps held
        so stale dd verdict1_def st1_def)
qed

text \<open>The drafts of the first session, in their order.\<close>

abbreviation ya :: order where "ya \<equiv> ex_order tgt1 sec_a ''4'' ''100'' ''400'' ''4''"
abbreviation yb :: order where "yb \<equiv> ex_order tgt1 sec_b ''9'' ''50'' ''450'' ''4.5''"
abbreviation tid1 :: string where "tid1 \<equiv> tg_target_id tgt1"

definition val1 :: draft where "val1 = valuation_draft ex_account sess1 did1 st1 []"

definition target_hash1 :: "(reason \<Rightarrow> string) \<Rightarrow> string" where
  "target_hash1 say = file_sha256 ex_env (target_json say (tgt1\<lparr>tg_risk := verdict1\<rparr>))"

definition dec1 :: "(reason \<Rightarrow> string) \<Rightarrow> draft" where
  "dec1 say = (decision_draft ex_account sess1 did1 (''decision:'' @ did1) ''decision''
     [(''status'', JStr ''approved''), (''input_fingerprint'', JStr ex_print_a), (''target_id'', JStr tid1),
      (''target_sha256'', JStr (target_hash1 say))])\<lparr>dr_target_id := Some tid1\<rparr>"

definition pub1 :: "(reason \<Rightarrow> string) \<Rightarrow> draft" where
  "pub1 say = (decision_draft ex_account sess1 did1 (''target:'' @ tid1) ''target_published''
     [(''path'', JStr (''accounts/'' @ ex_id @ ''/targets/target-'' @ tid1 @ ''.json'')),
      (''sha256'', JStr (target_hash1 say)), (''risk'', JObj (verdict_items say verdict1))])\<lparr>dr_target_id := Some tid1\<rparr>"

definition risk1 :: "(reason \<Rightarrow> string) \<Rightarrow> draft" where
  "risk1 say = (decision_draft ex_account sess1 did1 (''risk:'' @ did1) ''risk_approved'' (verdict_items say verdict1))
     \<lparr>dr_target_id := Some tid1\<rparr>"

definition ord1 :: "order \<Rightarrow> draft" where
  "ord1 y = (decision_draft ex_account sess1 did1 (''order:'' @ or_order_id y) ''order''
     [(''order'', JObj (order_items y)), (''path'', JStr (''accounts/'' @ ex_id @ ''/orders/order-'' @ or_order_id y @ ''.json'')),
      (''sha256'', JStr (file_sha256 ex_env (JObj (order_items y))))])
     \<lparr>dr_currency := or_currency y, dr_target_id := Some tid1, dr_order_id := Some (or_order_id y),
      dr_security_id := Some (or_security_id y)\<rparr>"

definition appr1 :: draft where
  "appr1 = (draft_event (''approval:'' @ did1) day1 (at_close day1) ''approval'' ''USD''
     [(''approved'', JBool True), (''operator'', JStr ''manual'')])\<lparr>dr_decision_id := Some did1\<rparr>"

lemmas ex_drafts1 = val1_def valuation_draft_def valuation_key_def dec1_def pub1_def risk1_def ord1_def appr1_def
  decision_draft_def draft_event_def dep_def deposit_draft_def

lemma art_id_inject [simp]: "art_id c = art_id d \<longleftrightarrow> c = d"
  by (auto simp: art_id_def numeral_eq_Suc)

lemma ex_order_simps [simp]: "or_order_id (ex_order t s q p v c) = art_id (last q)" "or_currency (ex_order t s q p v c) = ''USD''"
    "or_security_id (ex_order t s q p v c) = s" "or_decision_id (ex_order t s q p v c) = tg_decision_id t"
  by (simp_all add: ex_order_def)

lemma ok1: "draft_ok val1" "draft_ok (dec1 say)" "draft_ok (pub1 say)" "draft_ok (risk1 say)" "draft_ok (ord1 ya)"
    "draft_ok (ord1 yb)" "draft_ok appr1"
  by (simp_all add: draft_ok_def ex_drafts1 ex_base st1_def)

lemma keys1 [simp]: "dr_idempotency_key dep = ''cash-deposit:'' @ ex_id" "dr_idempotency_key val1 = ''valuation:'' @ isoformat day1"
    "dr_idempotency_key (dec1 say) = ''decision:'' @ did1" "dr_idempotency_key (pub1 say) = ''target:'' @ tid1"
    "dr_idempotency_key (risk1 say) = ''risk:'' @ did1" "dr_idempotency_key (ord1 y) = ''order:'' @ or_order_id y"
    "dr_idempotency_key appr1 = ''approval:'' @ did1"
  by (simp_all add: ex_drafts1 ex_acc)

definition st3 :: portfolio_state where
  "st3 = ex_st 1000 [(sec_a, 0)] [(sec_a, ''USD'')] 1000 1000 0 day1 (Some day1)"
definition st4 :: portfolio_state where
  "st4 = ex_st 1000 [(sec_a, 0), (sec_b, 0)] [(sec_a, ''USD''), (sec_b, ''USD'')] 1000 1000 0 day1 (Some day1)"

lemmas ex_states = st0_def st1_def st2_def st3_def st4_def

lemma plus_zero: "dadd 28 1000 0 = 1000" "dadd 28 0 0 = 0"
  by code_simp+

lemma booked1: "book val1 st0 = st1" "book (dec1 say) st1 = st2" "book (pub1 say) st2 = st2" "book (risk1 say) st2 = st2"
    "book (ord1 ya) st2 = st3" "book (ord1 yb) st3 = st4" "book appr1 st4 = st4"
  by (simp_all add: book_def book_holding_def book_valuation_def ex_drafts1 ex_base ex_states plus_zero Let_def max_def dget_def ex_st_def)

lemma bookable1: "bookable val1 s" "bookable (dec1 say) s" "bookable (pub1 say) s" "bookable (risk1 say) s" "bookable appr1 s"
    "bookable (ord1 ya) st2" "bookable (ord1 yb) st3"
  by (simp_all add: bookable_def ex_drafts1 ex_states plus_zero dget_def)

definition log1 :: "event list" where "log1 = [ev 1 dep]"
definition log2 :: "event list" where "log2 = log1 @ [ev 2 val1]"
definition log5 :: "(reason \<Rightarrow> string) \<Rightarrow> event list" where
  "log5 say = log2 @ [ev 3 (dec1 say), ev 4 (pub1 say), ev 5 (risk1 say)]"
definition log8 :: "(reason \<Rightarrow> string) \<Rightarrow> event list" where
  "log8 say = log5 say @ [ev 6 (ord1 ya), ev 7 (ord1 yb), ev 8 appr1]"

lemmas ex_logs = log1_def log2_def log5_def log8_def

text \<open>The calls of the first session, one after the other.\<close>

lemma no_actions: "es \<noteq> [] \<Longrightarrow> runs (known es st T Y R) (apply_actions ex_env ex_account ex_inputs sess) () (known es st T Y R)"
  unfolding apply_actions_def
  by (rule runs_bind[OF runs_known(5)]) (simp_all add: action_events_def ex_inputs_def bindS_def returnS_def runs_def)

lemma settle_none: "runs (known log1 st T Y R) (settle_orders ex_env ex_account ex_inputs sess) () (known log1 st T Y R)"
  unfolding settle_orders_def
  by (rule runs_bind[OF runs_known(2)]) (simp add: log1_def settle_event_def ex_drafts1 bindS_def returnS_def runs_def)

lemma mark1: "state_after_mark ex_account ex_inputs st0 sess1 = Inr st1"
  by (simp add: state_after_mark_def positions_value_def sorted_items_def cash_base_def ex_states ex_base dmul_def dec_round_eval
      dsum_def dadd_def Let_def ex_st_def)

lemma value1: "runs (known log1 st0 T Y R) (append_valuation ex_env ex_account ex_inputs st0 sess1 did1) st1 (known log2 st1 T Y R)"
proof -
  have fresh: "find (\<lambda>e. ev_idempotency_key e = valuation_key sess1) log1 = None"
    by (simp add: log1_def valuation_key_def)
  have val: "runs (known log1 st0 T Y R) (append_event ex_env val1) (ev 2 val1) (known log2 st1 T Y R)"
    by (rule runs_append) (simp_all add: ok1 bookable1 booked1 ex_logs)
  have again: "runs (known log2 st1 T Y R) (readS (rebuild_state ex_env)) st1 (known log2 st1 T Y R)"
    using runs_known(5)[of log2 st1] by (simp add: ex_logs st1_def) (simp add: ex_st_def)
  have hold: "mapR (holding_row ex_account ex_inputs sess1) (sorted_items (ps_quantities st1)) = Inr []"
    by (simp add: st1_def sorted_items_def)
  note key = runs_known(1)[of log1 st0 T Y R "valuation_key sess1", unfolded fresh]
  show ?thesis
    unfolding append_valuation_def
    by (rule runs_bind[OF runs_lift[OF mark1]], rule runs_bind[OF runs_lift[OF hold]], rule runs_bind[OF key])
      (simp add: val1_def[symmetric] runs_bind[OF val again])
qed

lemma target1: "runs (known log2 st1 [] [] R) (record_target ex_env say ex_account sess1 did1 ex_print_a tgt1 verdict1) ()
    (known (log5 say) st2 [''target-'' @ tid1 @ ''.json''] [] R)"
proof -
  let ?T = "[''target-'' @ tid1 @ ''.json'']"
  have w: "runs (known log2 st1 [] [] R) (write_target ex_env tid1 (target_json say (tgt1\<lparr>tg_risk := verdict1\<rparr>)))
      (target_hash1 say) (known log2 st1 ?T [] R)"
    using runs_write(1)[of tid1 "[]"] by (simp add: target_hash1_def)
  have d: "runs (known log2 st1 ?T [] R) (append_event ex_env (dec1 say)) (ev 3 (dec1 say)) (known (log2 @ [ev 3 (dec1 say)]) st2 ?T [] R)"
    by (rule runs_append) (simp_all add: ok1 bookable1 booked1 ex_logs)
  have p: "runs (known (log2 @ [ev 3 (dec1 say)]) st2 ?T [] R) (append_event ex_env (pub1 say)) (ev 4 (pub1 say))
      (known (log2 @ [ev 3 (dec1 say), ev 4 (pub1 say)]) st2 ?T [] R)"
    by (rule runs_append) (simp_all add: ok1 bookable1 booked1 ex_logs)
  have r: "runs (known (log2 @ [ev 3 (dec1 say), ev 4 (pub1 say)]) st2 ?T [] R) (append_event ex_env (risk1 say)) (ev 5 (risk1 say))
      (known (log5 say) st2 ?T [] R)"
    by (rule runs_append) (simp_all add: ok1 bookable1 booked1 ex_logs)
  have a: "rv_status verdict1 = ''approved''" by (simp add: verdict1_def)
  show ?thesis
    unfolding record_target_def Let_def
    by (rule runs_bind[OF runs_known(3)], rule runs_bind[OF w])
      (simp only: a simp_thms if_True dec1_def[symmetric] pub1_def[symmetric] risk1_def[symmetric],
       rule runs_bind[OF d], rule runs_bind[OF p], rule runs_bind[OF r], rule runs_return)
qed

lemma orders1: "runs (known (log5 say) st2 T [] R)
    (forS (ex_orders tgt1) (record_order ex_env ex_account sess1 did1 tid1)) ()
    (known (log5 say @ [ev 6 (ord1 ya), ev 7 (ord1 yb)]) st4 T [''order-'' @ art_id CHR ''4'' @ ''.json'', ''order-'' @ art_id CHR ''9'' @ ''.json''] R)"
proof -
  have wa: "runs (known (log5 say) st2 T [] R) (write_order ex_env (or_order_id ya) (JObj (order_items ya)))
      (file_sha256 ex_env (JObj (order_items ya))) (known (log5 say) st2 T [''order-'' @ art_id CHR ''4'' @ ''.json''] R)"
    using runs_write(2)[of "art_id CHR ''4''" "[]"] by simp
  have a: "runs (known (log5 say) st2 T Y R) (append_event ex_env (ord1 ya)) (ev 6 (ord1 ya))
      (known (log5 say @ [ev 6 (ord1 ya)]) st3 T Y R)" for Y
    by (rule runs_append) (simp_all add: ok1 bookable1 booked1 ex_logs)
  have wb: "runs (known (log5 say @ [ev 6 (ord1 ya)]) st3 T [''order-'' @ art_id CHR ''4'' @ ''.json''] R)
      (write_order ex_env (or_order_id yb) (JObj (order_items yb))) (file_sha256 ex_env (JObj (order_items yb)))
      (known (log5 say @ [ev 6 (ord1 ya)]) st3 T [''order-'' @ art_id CHR ''4'' @ ''.json'', ''order-'' @ art_id CHR ''9'' @ ''.json''] R)"
    using runs_write(2)[of "art_id CHR ''9''" "[''order-'' @ art_id CHR ''4'' @ ''.json'']"] by simp
  have b: "runs (known (log5 say @ [ev 6 (ord1 ya)]) st3 T Y R) (append_event ex_env (ord1 yb)) (ev 7 (ord1 yb))
      (known (log5 say @ [ev 6 (ord1 ya), ev 7 (ord1 yb)]) st4 T Y R)" for Y
    by (rule runs_append) (simp_all add: ok1 bookable1 booked1 ex_logs)
  have ra: "runs (known (log5 say) st2 T [] R) (record_order ex_env ex_account sess1 did1 tid1 ya) ()
      (known (log5 say @ [ev 6 (ord1 ya)]) st3 T [''order-'' @ art_id CHR ''4'' @ ''.json''] R)"
    unfolding record_order_def
    by (rule runs_bind[OF runs_known(3)], rule runs_bind[OF wa], fold ord1_def, rule runs_bind[OF a], rule runs_return)
  have rb: "runs (known (log5 say @ [ev 6 (ord1 ya)]) st3 T [''order-'' @ art_id CHR ''4'' @ ''.json''] R)
      (record_order ex_env ex_account sess1 did1 tid1 yb) ()
      (known (log5 say @ [ev 6 (ord1 ya), ev 7 (ord1 yb)]) st4 T [''order-'' @ art_id CHR ''4'' @ ''.json'', ''order-'' @ art_id CHR ''9'' @ ''.json''] R)"
    unfolding record_order_def
    by (rule runs_bind[OF runs_known(3)], rule runs_bind[OF wb], fold ord1_def, rule runs_bind[OF b], rule runs_return)
  show ?thesis
    unfolding ex_orders_def forS.simps by (rule runs_bind[OF ra], rule runs_bind[OF rb], rule runs_return)
qed

lemma log8_orders: "e \<in> set (log8 say) \<Longrightarrow> ev_event_type e = ''order'' \<Longrightarrow> \<exists>y. event_order e = Some (order_items y)"
  by (auto simp: ex_logs event_order_def ex_drafts1)

lemma approve1: "runs (known (log5 say @ [ev 6 (ord1 ya), ev 7 (ord1 yb)]) st4 T Y R)
    (approve_paper_decision ex_env did1 True (Some (at_close day1))) (ev 8 appr1) (known (log8 say) st4 T Y R)"
proof -
  let ?log = "log5 say @ [ev 6 (ord1 ya), ev 7 (ord1 yb)]"
  have found: "decision_of did1 ?log = Some (ev 3 (dec1 say))"
    by (simp add: ex_logs ex_drafts1)
  have day: "account_date (ev_session_date (ev 3 (dec1 say))) = Inr day1"
    by (simp add: account_date_def ex_drafts1)
  have a: "runs (known ?log st4 T Y R) (append_event ex_env appr1) (ev 8 appr1) (known (log8 say) st4 T Y R)"
    by (rule runs_append) (simp_all add: ok1 bookable1 booked1 ex_logs)
  show ?thesis
    unfolding approve_paper_decision_def
    by (rule runs_bind[OF runs_known(4)], rule runs_bind[OF runs_known(2)], simp only: found option.case,
        rule runs_bind[OF runs_lift[OF day]], rule runs_bind[OF runs_lift[OF refl]])
      (use a in \<open>simp add: appr1_def ex_base\<close>)
qed

abbreviation files1 :: "string list" where "files1 \<equiv> [''target-'' @ tid1 @ ''.json'']"
abbreviation files2 :: "string list" where
  "files2 \<equiv> [''order-'' @ art_id CHR ''4'' @ ''.json'', ''order-'' @ art_id CHR ''9'' @ ''.json'']"

lemma decide1: "runs (known log2 st1 [] [] R)
    (decide_session ex_env say ex_account ex_inputs [sess1, ex_session day2] 0 sess1 st1 did1 ex_print_a) ()
    (known (log8 say) st4 files1 files2 R)"
proof -
  have fresh: "find (\<lambda>e. ev_idempotency_key e = ''decision:'' @ did1) log2 = None" by (simp add: ex_logs)
  have due: "decision_due ex_account day1 (ps_last_decision_session st1)" by (simp add: decision_due_def st1_def)
  have build: "build_target ex_env ex_account ex_inputs [sess1, ex_session day2] 0 st1 1 (Some did1) = Inr tgt1"
    unfolding tgt1_def by (rule ex_build_at) (simp_all add: st1_def)
  have orders: "target_orders ex_env ex_account ex_inputs [sess1, ex_session day2] 0 tgt1 st1 = Inr (ex_orders tgt1)"
    by (rule ex_orders_at) (simp_all add: st1_def)
  have some: "ex_orders tgt1 \<noteq> []" "rv_status verdict1 = ''approved''" by (simp_all add: ex_orders_def verdict1_def)
  note key = runs_known(1)[of log2 st1 "[]" "[]" R "''decision:'' @ did1", unfolded fresh]
  show ?thesis
    unfolding decide_session_def rebalance_def
    by (rule runs_bind[OF key]) (simp only: due some ex_limits sess1_simps simp_thms if_True if_False,
        rule runs_bind[OF runs_lift[OF build]], rule runs_bind[OF runs_lift[OF orders]],
        rule runs_bind[OF runs_lift[OF ex_assess]], rule runs_bind[OF target1],
        simp only: some ex_limits simp_thms if_True if_False,
        rule runs_bind[OF orders1], rule runs_bind[OF approve1], rule runs_return)
qed

text \<open>A run whose value does not matter.\<close>

definition runs_some :: "('s \<Rightarrow> bool) \<Rightarrow> ('s, 'a) prog \<Rightarrow> ('s \<Rightarrow> bool) \<Rightarrow> bool" where
  "runs_some P m Q \<longleftrightarrow> (\<forall>s. P s \<longrightarrow> (\<exists>v t. m s = (Inr v, t) \<and> Q t))"

lemma runs_some_bind: "runs P m v Q \<Longrightarrow> runs_some Q (f v) R \<Longrightarrow> runs_some P (bindS m f) R"
  by (fastforce simp: runs_def runs_some_def bindS_def)

lemma runs_some_try: "runs_some P m Q \<Longrightarrow> runs_some P (tryS m cs h) Q"
  by (fastforce simp: runs_some_def tryS_def)

lemma publish_known:
  assumes "es \<noteq> []" and "\<And>e. e \<in> set es \<Longrightarrow> ev_event_type e = ''order'' \<Longrightarrow> \<exists>y. event_order e = Some (order_items y)"
    and "report_name (isoformat (s_session_date sess)) \<notin> set R"
  shows "runs_some (known es st T Y R) (publish_report ex_env recorded ex_account sess decision_id fingerprint warnings)
    (known es st T Y (R @ [report_name (isoformat (s_session_date sess))]))"
  unfolding runs_some_def
proof (intro allI impI)
  fix L
  assume L: "known es st T Y R L"
  then have es: "ledger_events ex_env L = Inr es" by (simp add: known_def)
  obtain st' where st': "rebuild_state ex_env L = Inr st'"
    using runs_at[OF runs_known(5)[OF assms(1)], OF L] by (auto simp: readS_def)
  from report_made[OF es st' assms(2)] obtain r where
    r: "report_from_events ex_env ex_account sess decision_id fingerprint (timestamp recorded) None warnings L = Inr r" by blast
  from runs_at[OF runs_write(3)[OF assms(3)], OF L] obtain M where
    "write_report ex_env (isoformat (s_session_date sess)) r L = (Inr (), M)"
    "known es st T Y (R @ [report_name (isoformat (s_session_date sess))]) M" by blast
  with r show "\<exists>v t. publish_report ex_env recorded ex_account sess decision_id fingerprint warnings L = (Inr v, t)
      \<and> known es st T Y (R @ [report_name (isoformat (s_session_date sess))]) t"
    by (simp add: publish_report_def bindS_def readS_def returnS_def)
qed

lemma cycle1: "runs (known log1 st0 [] [] R)
    (session_cycle ex_env say ex_account ex_inputs [sess1, ex_session day2] 0 sess1 did1 ex_print_a) ()
    (known (log8 say) st4 files1 files2 R)"
proof -
  have settled: "runs (known log1 st0 [] [] R) (readS (rebuild_state ex_env)) st0 (known log1 st0 [] [] R)"
    using runs_known(5)[of log1 st0] by (simp add: ex_logs ex_states ex_st_def)
  have "log1 \<noteq> []" by (simp add: log1_def)
  then show ?thesis
    unfolding session_cycle_def
    by (intro runs_bind[OF no_actions] runs_bind[OF settle_none] runs_bind[OF settled] runs_bind[OF value1] decide1)
qed

lemma ex_account_inputs: "account_with_session_inputs ex_env (account_json ex_account) None = Inr (ex_account, ex_account)"
  by (simp add: account_with_session_inputs_def ex_account_valid)

lemma ex_paper_inputs: "load_paper_inputs ex_root (acc_inputs ex_account) = Inr ex_inputs"
proof -
  have "acc_inputs ex_account = ex_refs" by (simp add: ex_account_def)
  then show ?thesis using ex_load by (simp add: load_paper_inputs_def) (simp add: ex_inputs_def)
qed

lemma ex_calendar: "sessions_for_account ex_account ex_inputs = Inr [ex_session day1, ex_session day2]"
proof -
  have d: "acc_start_date ex_account = ''2024-01-01''" "acc_end_date ex_account = ''2024-12-31''" by (simp_all add: ex_account_def)
  have e: "day1 \<le> Date 2024 12 31" "day2 \<le> Date 2024 12 31" by (simp_all add: day1_def day2_def less_eq_date_def)
  show ?thesis
    by (simp add: sessions_for_account_def d ex_dates_of ex_inputs_def ex_sessions_def ex_session_def e bindR_ensure less_datetime_def)
      (simp add: ex_clocks less_date_def)
qed

lemma ex_fingerprint: "input_fingerprint ex_env refs = ex_print_a"
  by (simp add: input_fingerprint_def json_sha256_def ex_env_def)

lemma ex_decision_id: "decision_id_of ex_env ex_id day ex_print_a None = did1"
  by (simp add: decision_id_of_def ex_env_def ex_uuid_def is_lower_hex_def is_digit_def numeral_eq_Suc)

lemma session1: "runs_some (known log1 st0 [] [] [])
    (run_paper_session ex_env say ex_root now recorded (account_json ex_account) (Day_Value day1) Clock_Default None)
    (known (log8 say) st4 files1 files2 [report_name (isoformat day1)])"
proof -
  have k: "session_index_of [ex_session day1, ex_session day2] day1 = Inr 0"
    by (simp add: session_index_of_def ex_session_def upt_rec)
  have clock: "resolve_decision_at now Clock_Default ([ex_session day1, ex_session day2] ! 0) = Inr (at_close day1)"
    by (simp add: resolve_decision_at_def ex_session_def)
  have "log8 say \<noteq> []" by (simp add: log8_def)
  note published = publish_known[where es = "log8 say" and sess = sess1 and R = "[]" and st = st4 and T = files1 and Y = files2
    and decision_id = did1 and fingerprint = ex_print_a and warnings = "[]" and recorded = recorded, OF this log8_orders]
  have body: "runs_some (known log1 st0 [] [] []) (session_body ex_env say recorded ex_account ex_inputs [sess1, ex_session day2] 0
      sess1 did1 ex_print_a) (known (log8 say) st4 files1 files2 [report_name (isoformat day1)])"
    unfolding session_body_def
    by (rule runs_some_try, rule runs_some_bind[OF cycle1]) (use published in simp)
  have sess: "s_close_at ([ex_session day1, ex_session day2] ! 0) = at_close day1"
    "([ex_session day1, ex_session day2] ! 0)\<lparr>s_decision_at := Some (at_close day1)\<rparr> = sess1"
    "[ex_session day1, ex_session day2][0 := sess1] = [sess1, ex_session day2]"
    by (simp_all add: sess1_def) (simp add: ex_session_def)
  have day: "session_argument_date (Day_Value day1) = Inr day1" by (simp add: session_argument_date_def)
  have none: "report_name (isoformat day1) \<notin> set []" by simp
  show ?thesis
    unfolding run_paper_session_def Let_def
    by (rule runs_some_bind[OF runs_lift[OF ex_account_inputs]], simp only: prod.case,
        rule runs_some_bind[OF runs_known(4)], simp only: simp_thms if_False,
        rule runs_some_bind[OF runs_lift[OF day]], rule runs_some_bind[OF runs_lift[OF ex_paper_inputs]],
        rule runs_some_bind[OF runs_lift[OF ex_calendar]], rule runs_some_bind[OF runs_lift[OF k]],
        rule runs_some_bind[OF runs_lift[OF clock]], rule runs_some_bind[OF runs_known(6)[OF none]])
      (simp only: sess sess1_simps option.case ex_fingerprint ex_acc ex_decision_id simp_thms if_True body)
qed

section \<open>The second session\<close>

definition ex_late :: datetime where "ex_late = Datetime day2 22 0 0 0"
definition sess2 :: session where "sess2 = (ex_session day2)\<lparr>s_decision_at := Some ex_late\<rparr>"

abbreviation did2 :: string where "did2 \<equiv> art_id CHR ''0''"

lemma sess2_simps [simp]: "s_session_date sess2 = day2" "session_decision_at sess2 = ex_late" "s_open_at sess2 = at_open day2"
    "s_close_at sess2 = at_close day2"
  by (simp_all add: sess2_def session_decision_at_def) (simp_all add: ex_session_def)

lemma ex_late_simps [simp]: "valid_datetime ex_late" "\<not> ex_late < at_close day2" "\<not> ex_published < ex_late" "at_open day2 \<le> ex_late"
    "ex_late \<noteq> at_close day2"
  by (simp_all add: ex_late_def valid_datetime_def ex_clocks valid_date_def days_in_month_def less_datetime_def less_eq_datetime_def
      less_date_def less_eq_date_def)

definition fill2 :: "order \<Rightarrow> dec \<Rightarrow> dec \<Rightarrow> draft" where
  "fill2 y q p = (settlement_draft sess2 ''fill:'' ''fill'' (or_order_id y) (or_security_id y) ''USD''
     [(''order_id'', JStr (or_order_id y)), (''client_order_id'', JStr (or_client_order_id y)), (''side'', JStr ''buy''),
      (''quantity'', JStr (decimal_string q)), (''reference_price'', JStr (or_reference_price y)),
      (''fill_price'', JStr (decimal_string p)), (''gross_notional'', JStr (decimal_string (dmul prec p q))),
      (''spread_cost'', JStr (decimal_string 0)),
      (''slippage_cost'', JStr (decimal_string (dsub prec (dmul prec (dabs prec (dsub prec p p)) q) 0)))])
     \<lparr>dr_quantity_delta := q, dr_amount_local_delta := dmul prec (- 1) (dmul prec p q),
      dr_amount_base_delta := dmul prec (- 1) (dmul wide (dmul prec p q) 1)\<rparr>"

definition fee2 :: "order \<Rightarrow> dec \<Rightarrow> draft" where
  "fee2 y c = (settlement_draft sess2 ''fee:'' ''fee'' (or_order_id y) (or_security_id y) ''USD''
     [(''order_id'', JStr (or_order_id y)), (''commission'', JStr (decimal_string c))])
     \<lparr>dr_amount_local_delta := dneg prec c, dr_amount_base_delta := dneg prec (dmul wide c 1)\<rparr>"

definition tax2 :: "order \<Rightarrow> dec \<Rightarrow> draft" where
  "tax2 y c = (settlement_draft sess2 ''tax:'' ''tax'' (or_order_id y) (or_security_id y) ''USD''
     [(''order_id'', JStr (or_order_id y)), (''tax'', JStr (decimal_string c))])
     \<lparr>dr_amount_local_delta := dneg prec c, dr_amount_base_delta := dneg prec (dmul wide c 1)\<rparr>"

abbreviation held2 :: "(string \<times> string) list" where "held2 \<equiv> [(sec_a, ''USD''), (sec_b, ''USD'')]"

definition st5 :: portfolio_state where "st5 = ex_st 600 [(sec_a, 4), (sec_b, 0)] held2 1000 1000 0 day2 (Some day1)"
definition st6 :: portfolio_state where "st6 = ex_st 596 [(sec_a, 4), (sec_b, 0)] held2 1000 1000 0 day2 (Some day1)"
definition st7 :: portfolio_state where "st7 = ex_st 146 [(sec_a, 4), (sec_b, 9)] held2 1000 1000 0 day2 (Some day1)"
definition st8 :: portfolio_state where "st8 = ex_st (283 / 2) [(sec_a, 4), (sec_b, 9)] held2 1000 1000 0 day2 (Some day1)"
definition st9 :: portfolio_state where
  "st9 = ex_st (283 / 2) [(sec_a, 4), (sec_b, 9)] held2 (1973 / 2) (283 / 2) 845 day2 (Some day1)"
definition st10 :: portfolio_state where
  "st10 = ex_st (283 / 2) [(sec_a, 4), (sec_b, 9)] held2 (1973 / 2) (283 / 2) 845 day2 (Some day2)"

lemmas ex_states2 = st4_def st5_def st6_def st7_def st8_def st9_def st10_def

definition log14 :: "(reason \<Rightarrow> string) \<Rightarrow> event list" where
  "log14 say = log8 say @ [ev 9 (fill2 ya 4 100), ev 10 (fee2 ya 4), ev 11 (tax2 ya 0),
     ev 12 (fill2 yb 9 50), ev 13 (fee2 yb (9 / 2)), ev 14 (tax2 yb 0)]"

lemmas ex_drafts2 = fill2_def fee2_def tax2_def settlement_draft_def draft_event_def

lemma keys2 [simp]: "dr_idempotency_key (fill2 y q p) = ''fill:'' @ or_order_id y" "dr_idempotency_key (fee2 y c) = ''fee:'' @ or_order_id y"
    "dr_idempotency_key (tax2 y c) = ''tax:'' @ or_order_id y"
  by (simp_all add: ex_drafts2)

lemma is_decimal_half: "is_decimal (9 / 2)"
  using is_decimal_digits[of 45 1] by simp

lemma ok2: "is_decimal q \<Longrightarrow> draft_ok (fill2 y q p)" "draft_ok (fee2 y c)" "draft_ok (tax2 y c)"
  by (simp_all add: draft_ok_def ex_drafts2)

lemma ex_arith4: "dmul 28 100 4 = 400" "dmul 28 50 9 = 450" "dmul 28 (- 1) 400 = - 400" "dmul 28 (- 1) 450 = - 450" "dneg 28 4 = - 4"
    "dneg 28 (9 / 2) = - (9 / 2)" "dneg 28 0 = 0" "dadd 28 1000 (- 400) = 600" "dadd 28 600 (- 4) = 596" "dadd 28 596 0 = 596"
    "dadd 28 596 (- 450) = 146" "dadd 28 146 (- (9 / 2)) = 283 / 2" "dadd 28 (283 / 2) 0 = 283 / 2" "dadd 28 9 0 = 9"
    "dadd 28 0 9 = 9" "dadd 28 400 4 = 404" "dadd 28 404 0 = 404" "dadd 28 450 (9 / 2) = 909 / 2" "dadd 28 (909 / 2) 0 = 909 / 2"
    "dadd 28 1 0 = 1" "dmul 28 1 0 = 0" "dmul 28 100 1 = 100" "dmul 28 50 1 = 50" "dmul 28 4 110 = 440" "dmul 28 9 45 = 405"
    "dadd 28 0 440 = 440" "dadd 28 440 405 = 845" "dadd 28 (283 / 2) 845 = 1973 / 2" "dmul 80 440 1 = 440" "dmul 80 405 1 = 405"
    "dmul 80 (283 / 2) 1 = 283 / 2" "dadd 28 0 (283 / 2) = 283 / 2"
  by code_simp+

lemma booked2: "book (fill2 ya 4 100) st4 = st5" "book (fee2 ya 4) st5 = st6" "book (tax2 ya 0) st6 = st6"
    "book (fill2 yb 9 50) st6 = st7" "book (fee2 yb (9 / 2)) st7 = st8" "book (tax2 yb 0) st8 = st8"
  by (simp_all add: book_def book_holding_def book_valuation_def ex_drafts2 ex_states2 plus_zero Let_def max_def dget_def ex_arith3
      ex_arith4 ex_st_def ex_arith2)

lemma bookable2: "bookable (fill2 ya 4 100) st4" "bookable (fee2 ya c) st5" "bookable (tax2 ya c) st6"
    "bookable (fill2 yb 9 50) st6" "bookable (fee2 yb c) st7" "bookable (tax2 yb c) st8"
  by (simp_all add: bookable_def ex_drafts2 ex_states2 plus_zero dget_def ex_arith3 ex_arith4 ex_arith2)

lemma fill_runs:
  assumes "fill_terms ex_account row ''buy'' q = (p, dmul prec p q, c, 0, t)" and "p_open row = p"
    and "runs P (append_event ex_env (fill2 y q p)) v1 Q1" and "runs Q1 (append_event ex_env (fee2 y c)) v2 Q2"
    and "runs Q2 (append_event ex_env (tax2 y t)) v3 Q3"
  shows "runs P (append_fill ex_env ex_account ex_inputs sess2 (order_items y) row (or_order_id y) (or_security_id y) ''USD''
      ''buy'' q) () Q3"
proof -
  have items: "jget (order_items y) ''client_order_id'' = Inr (JStr (or_client_order_id y))"
    "jget (order_items y) ''reference_price'' = Inr (JStr (or_reference_price y))"
    by (simp_all add: jget_def order_items_def)
  have to: "convert ex_inputs v ''USD'' (acc_base_currency ex_account) (s_open_at sess2) = Inr (dmul wide v 1)" for v
    by (simp add: ex_base)
  have side: "(''buy'' :: string) = ''sell'' \<longleftrightarrow> False" "(''buy'' :: string) = ''buy'' \<longleftrightarrow> True" by simp_all
  show ?thesis
    unfolding append_fill_def Let_def assms(1) prod.case side if_True if_False assms(2)
    by (rule runs_bind[OF runs_lift[OF to]], rule runs_bind[OF runs_lift[OF items(1)]], rule runs_bind[OF runs_lift[OF items(2)]],
        rule runs_bind[OF assms(3)[unfolded fill2_def]], rule runs_bind[OF runs_lift[OF to]],
        rule runs_bind[OF assms(4)[unfolded fee2_def]], rule runs_bind[OF runs_lift[OF to]],
        rule runs_bind[OF assms(5)[unfolded tax2_def]], rule runs_return)
qed

text \<open>The settlement of the two orders.\<close>

lemma ex_price_open: "price_row ex_inputs sec_a day2 (at_open day2) = Some (ex_price sec_a day2 100 112 100 110)"
    "price_row ex_inputs sec_b day2 (at_open day2) = Some (ex_price sec_b day2 50 50 44 45)"
    "price_row ex_inputs sec_a day2 ex_late = Some (ex_price sec_a day2 100 112 100 110)"
    "price_row ex_inputs sec_b day2 ex_late = Some (ex_price sec_b day2 50 50 44 45)"
  by (simp_all add: price_row_def ex_inputs_def ex_rows)

lemma ex_terms: "fill_terms ex_account (ex_price sec_a day2 100 112 100 110) ''buy'' 4 = (100, dmul prec 100 4, 4, 0, 0)"
    "fill_terms ex_account (ex_price sec_b day2 50 50 44 45) ''buy'' 9 = (50, dmul prec 50 9, 9 / 2, 0, 0)"
  by (simp_all add: fill_terms_def ex_account_def dec_of_def ex_price_def ex_arith2 ex_arith4 plus_zero parse_signed_def Let_def)

lemma settle_runs:
  assumes "price_row ex_inputs (or_security_id y) day2 (at_open day2) = Some row" and "p_currency row = ''USD''"
    and "or_side y = ''buy''" "or_currency y = ''USD''" "parse_signed (or_quantity y) = Some q"
    and "fill_terms ex_account row ''buy'' q = (p, n, c, s, t)" and "es \<noteq> []"
    and "ps_cash_by_currency st = [(''USD'', cash)]" and "dadd prec (dadd prec n c) t \<le> cash"
    and "runs (known es st T Y R) (append_fill ex_env ex_account ex_inputs sess2 (order_items y) row (or_order_id y)
      (or_security_id y) ''USD'' ''buy'' q) () Q"
  shows "runs (known es st T Y R) (settle_order ex_env ex_account ex_inputs sess2 (order_items y) (or_order_id y)) () Q"
proof -
  let ?settled = "st\<lparr>ps_quantities := filter (\<lambda>(_, q). q \<noteq> 0) (ps_quantities st)\<rparr>"
  have items: "order_text (order_items y) ''security_id'' = Inr (or_security_id y)"
    "order_text (order_items y) ''currency'' = Inr ''USD''" "order_text (order_items y) ''side'' = Inr ''buy''"
    "order_quantity (order_items y) = Inr q"
    using assms(3-5) by (simp_all add: order_text_def order_quantity_def jget_def order_items_def)
  have enough: "\<not> cash < dadd prec (dadd prec n c) t" using assms(9) by simp
  have fund: "runs (known es st T Y R) (fund_buy ex_env ex_account ex_inputs sess2 ?settled (or_order_id y) ''USD''
      (dadd prec (dadd prec n c) t)) () (known es st T Y R)"
    unfolding fund_buy_def Let_def ex_base
    by (rule runs_bind[OF runs_lift, where v = cash])
      (use assms(8) enough in \<open>simp_all add: dget_def runs_return\<close>)
  have row: "price_row ex_inputs (or_security_id y) (s_session_date sess2) (s_open_at sess2) = Some row"
    using assms(1) by simp
  have side: "(''buy'' :: string) = ''sell'' \<longleftrightarrow> False" "(''buy'' :: string) = ''buy'' \<longleftrightarrow> True" by simp_all
  show ?thesis
    unfolding settle_order_def
    by (rule runs_bind[OF runs_lift[OF items(1)]], rule runs_bind[OF runs_lift[OF items(2)]], unfold row option.case assms(2),
        simp only: simp_thms if_False, rule runs_bind[OF runs_lift[OF items(4)]], rule runs_bind[OF runs_known(5)[OF assms(7)]],
        rule runs_bind[OF runs_lift[OF items(3)]], unfold assms(6) prod.case Let_def, simp only: side simp_thms if_False if_True,
        rule runs_bind[OF fund], rule assms(10))
qed

text \<open>An order event that is due and not filled is settled; any other event is passed over.\<close>

lemma settle_due:
  assumes "ev_event_type e = ''order''" and "event_order e = Some (order_items y)" and "or_execution_session y = isoformat day2"
    and "map_of approvals (or_decision_id y) = Some True"
    and "''fill:'' @ or_order_id y \<notin> ev_idempotency_key ` set es"
    and "runs (known es st T Y R) (settle_order ex_env ex_account ex_inputs sess2 (order_items y) (or_order_id y)) () Q"
  shows "runs (known es st T Y R) (settle_event ex_env ex_account ex_inputs sess2 approvals e) () Q"
proof -
  have items: "jget (order_items y) ''execution_session'' = Inr (JStr (isoformat (s_session_date sess2)))"
    "order_text (order_items y) ''decision_id'' = Inr (or_decision_id y)"
    "order_text (order_items y) ''order_id'' = Inr (or_order_id y)"
    using assms(3) by (simp_all add: order_text_def jget_def order_items_def)
  have none: "find (\<lambda>e. ev_idempotency_key e = ''fill:'' @ or_order_id y) es = None"
    using assms(5) by (simp only: keys_find simp_thms)
  note key = runs_known(1)[of es st T Y R "''fill:'' @ or_order_id y", unfolded none]
  show ?thesis
    unfolding settle_event_def assms(1,2) option.case
    by (simp only: simp_thms if_False, rule runs_bind[OF runs_lift[OF items(1)]], simp only: simp_thms if_False,
        rule runs_bind[OF runs_lift[OF items(2)]], simp only: assms(4) simp_thms if_False,
        rule runs_bind[OF runs_lift[OF items(3)]], rule runs_bind[OF key], simp only: simp_thms if_False assms(6))
qed

lemma settle_skip: "ev_event_type e \<noteq> ''order'' \<Longrightarrow> runs P (settle_event ex_env ex_account ex_inputs sess2 approvals e) () P"
  by (simp add: settle_event_def runs_return)

lemma ex_order_items: "or_execution_session ya = isoformat day2" "or_execution_session yb = isoformat day2" "or_side ya = ''buy''"
    "or_side yb = ''buy''" "parse_signed (or_quantity ya) = Some 4" "parse_signed (or_quantity yb) = Some 9"
  by (simp_all add: ex_order_def parse_signed_def)

lemma ex_approvals: "approved_by_decision (log8 say) = [(did1, True)]"
proof -
  have "did1 \<noteq> []" by (simp add: art_id_def numeral_eq_Suc)
  then have last: "approval_step [] (ev n appr1) = [(did1, True)]" for n
    by (simp add: approval_step_def appr1_def draft_event_def nonempty_text_def dget_def json_true_def)
  have skip: "approval_step d (ev n x) = d" if "dr_event_type x \<notin> {''approval'', ''manual_rejection''}" for d n x
    using that by (auto simp: approval_step_def split: option.split)
  have types: "dr_event_type dep = ''cash_deposit''" "dr_event_type val1 = ''valuation''" "dr_event_type (dec1 say) = ''decision''"
    "dr_event_type (pub1 say) = ''target_published''" "dr_event_type (risk1 say) = ''risk_approved''" "dr_event_type (ord1 y) = ''order''" for y
    by (simp_all add: ex_drafts1)
  show ?thesis
    unfolding approved_by_decision_def ex_logs by (simp add: skip types last)
qed

abbreviation log11 :: "(reason \<Rightarrow> string) \<Rightarrow> event list" where
  "log11 say \<equiv> log8 say @ [ev 9 (fill2 ya 4 100), ev 10 (fee2 ya 4), ev 11 (tax2 ya 0)]"

lemma settle_a: "runs (known (log8 say) st4 T Y R) (settle_order ex_env ex_account ex_inputs sess2 (order_items ya) (or_order_id ya)) ()
    (known (log11 say) st6 T Y R)"
proof (rule settle_runs[where cash = 1000, OF _ _ ex_order_items(3) _ ex_order_items(5) ex_terms(1)])
  show "runs (known (log8 say) st4 T Y R) (append_fill ex_env ex_account ex_inputs sess2 (order_items ya)
      (ex_price sec_a day2 100 112 100 110) (or_order_id ya) (or_security_id ya) ''USD'' ''buy'' 4) () (known (log11 say) st6 T Y R)"
  proof (rule fill_runs[OF ex_terms(1)])
    show "runs (known (log8 say) st4 T Y R) (append_event ex_env (fill2 ya 4 100)) (ev 9 (fill2 ya 4 100))
        (known (log8 say @ [ev 9 (fill2 ya 4 100)]) st5 T Y R)"
      by (rule runs_append) (simp_all add: ok2 bookable2 booked2 ex_logs)
    show "runs (known (log8 say @ [ev 9 (fill2 ya 4 100)]) st5 T Y R) (append_event ex_env (fee2 ya 4)) (ev 10 (fee2 ya 4))
        (known (log8 say @ [ev 9 (fill2 ya 4 100), ev 10 (fee2 ya 4)]) st6 T Y R)"
      by (rule runs_append) (simp_all add: ok2 bookable2 booked2 ex_logs)
    show "runs (known (log8 say @ [ev 9 (fill2 ya 4 100), ev 10 (fee2 ya 4)]) st6 T Y R) (append_event ex_env (tax2 ya 0))
        (ev 11 (tax2 ya 0)) (known (log11 say) st6 T Y R)"
      by (rule runs_append) (simp_all add: ok2 bookable2 booked2 ex_logs)
  qed (simp add: ex_price_def)
qed (simp_all add: ex_price_open ex_arith4, simp_all add: ex_price_def ex_order_def ex_logs st4_def)

lemma settle_b: "runs (known (log11 say) st6 T Y R) (settle_order ex_env ex_account ex_inputs sess2 (order_items yb) (or_order_id yb)) ()
    (known (log14 say) st8 T Y R)"
proof (rule settle_runs[where cash = 596, OF _ _ ex_order_items(4) _ ex_order_items(6) ex_terms(2)])
  show "runs (known (log11 say) st6 T Y R) (append_fill ex_env ex_account ex_inputs sess2 (order_items yb)
      (ex_price sec_b day2 50 50 44 45) (or_order_id yb) (or_security_id yb) ''USD'' ''buy'' 9) () (known (log14 say) st8 T Y R)"
  proof (rule fill_runs[OF ex_terms(2)])
    show "runs (known (log11 say) st6 T Y R) (append_event ex_env (fill2 yb 9 50)) (ev 12 (fill2 yb 9 50))
        (known (log11 say @ [ev 12 (fill2 yb 9 50)]) st7 T Y R)"
      by (rule runs_append) (simp_all add: ok2 bookable2 booked2 ex_logs)
    show "runs (known (log11 say @ [ev 12 (fill2 yb 9 50)]) st7 T Y R) (append_event ex_env (fee2 yb (9 / 2))) (ev 13 (fee2 yb (9 / 2)))
        (known (log11 say @ [ev 12 (fill2 yb 9 50), ev 13 (fee2 yb (9 / 2))]) st8 T Y R)"
      by (rule runs_append) (simp_all add: ok2 bookable2 booked2 ex_logs)
    show "runs (known (log11 say @ [ev 12 (fill2 yb 9 50), ev 13 (fee2 yb (9 / 2))]) st8 T Y R) (append_event ex_env (tax2 yb 0))
        (ev 14 (tax2 yb 0)) (known (log14 say) st8 T Y R)"
      by (rule runs_append) (simp_all add: ok2 bookable2 booked2 ex_logs log14_def)
  qed (simp add: ex_price_def)
qed (simp_all add: ex_price_open ex_arith4, simp_all add: ex_price_def ex_order_def ex_logs st6_def)

lemma settle2: "runs (known (log8 say) st4 T Y R) (settle_orders ex_env ex_account ex_inputs sess2) () (known (log14 say) st8 T Y R)"
proof -
  have a: "runs (known (log8 say) st4 T Y R) (settle_event ex_env ex_account ex_inputs sess2 [(did1, True)] (ev 6 (ord1 ya))) ()
      (known (log11 say) st6 T Y R)"
    by (rule settle_due[OF _ _ ex_order_items(1) _ _ settle_a])
      (simp_all add: event_order_def, simp_all add: ex_logs, simp_all add: ex_drafts1)
  have b: "runs (known (log11 say) st6 T Y R) (settle_event ex_env ex_account ex_inputs sess2 [(did1, True)] (ev 7 (ord1 yb))) ()
      (known (log14 say) st8 T Y R)"
    by (rule settle_due[OF _ _ ex_order_items(2) _ _ settle_b])
      (simp_all add: event_order_def, simp_all add: ex_logs, simp_all add: ex_drafts1)
  have skip: "runs P (settle_event ex_env ex_account ex_inputs sess2 approvals (ev n d)) () P" if "dr_event_type d \<noteq> ''order''"
    for P approvals n d by (rule settle_skip) (use that in simp)
  have types: "dr_event_type dep \<noteq> ''order''" "dr_event_type val1 \<noteq> ''order''" "dr_event_type (dec1 say) \<noteq> ''order''"
    "dr_event_type (pub1 say) \<noteq> ''order''" "dr_event_type (risk1 say) \<noteq> ''order''" "dr_event_type appr1 \<noteq> ''order''"
    by (simp_all add: ex_drafts1)
  have list: "log8 say = [ev 1 dep, ev 2 val1, ev 3 (dec1 say), ev 4 (pub1 say), ev 5 (risk1 say), ev 6 (ord1 ya), ev 7 (ord1 yb),
      ev 8 appr1]" by (simp add: ex_logs)
  show ?thesis
    unfolding settle_orders_def
    by (rule runs_bind[OF runs_known(2)], unfold ex_approvals, subst (2) list, unfold forS.simps,
        (rule runs_bind[OF skip[OF types(1)]], rule runs_bind[OF skip[OF types(2)]], rule runs_bind[OF skip[OF types(3)]],
         rule runs_bind[OF skip[OF types(4)]], rule runs_bind[OF skip[OF types(5)]], rule runs_bind[OF a], rule runs_bind[OF b],
         rule runs_bind[OF skip[OF types(6)]], rule runs_return))
qed

text \<open>The valuation, and a decision that is not due.\<close>

definition hold2 :: "json list list" where
  "hold2 = map (\<lambda>(s, q, p, v). [JObj [(''security_id'', JStr s), (''quantity'', JStr (decimal_string q)),
     (''price'', JStr (decimal_string p)), (''currency'', JStr ''USD''), (''market_value_base'', JStr (decimal_string v))]])
     [(sec_a, 4, 110, 440), (sec_b, 9, 45, 405)]"

definition val2 :: draft where "val2 = valuation_draft ex_account sess2 did2 st9 (concat hold2)"

definition dec2 :: draft where
  "dec2 = decision_draft ex_account sess2 did2 (''decision:'' @ did2) ''decision''
     [(''status'', JStr ''no_op''), (''input_fingerprint'', JStr ex_print_a), (''rebalance_due'', JBool False)]"

definition noop2 :: draft where
  "noop2 = (decision_draft ex_account sess2 did2 (''no-op:'' @ did2) ''no_op'' [(''reason'', JStr ''rebalance_not_due'')])
     \<lparr>dr_target_id := None\<rparr>"

lemmas ex_drafts3 = val2_def valuation_draft_def valuation_key_def dec2_def noop2_def decision_draft_def draft_event_def

lemma keys3 [simp]: "dr_idempotency_key val2 = ''valuation:'' @ isoformat day2" "dr_idempotency_key dec2 = ''decision:'' @ did2"
    "dr_idempotency_key noop2 = ''no-op:'' @ did2"
  by (simp_all add: ex_drafts3)

lemma ex_days [simp]: "isoformat day1 \<noteq> isoformat day2" "isoformat day2 \<noteq> isoformat day1"
  by (simp_all add: isoformat_inject)

lemma ok3: "draft_ok val2" "draft_ok dec2" "draft_ok noop2"
  using is_decimal_digits[of 9865 1] is_decimal_digits[of 1415 1]
  by (simp_all add: draft_ok_def ex_drafts3 ex_base st9_def)

lemma booked3: "book val2 st8 = st9" "book dec2 st9 = st10" "book noop2 st10 = st10"
  by (simp_all add: book_def book_holding_def book_valuation_def ex_drafts3 ex_base ex_states2 Let_def max_def dget_def ex_arith4
      ex_st_def)

lemma bookable3: "bookable val2 s" "bookable dec2 s" "bookable noop2 s"
  by (simp_all add: bookable_def ex_drafts3)

definition log15 :: "(reason \<Rightarrow> string) \<Rightarrow> event list" where "log15 say = log14 say @ [ev 15 val2]"
definition log17 :: "(reason \<Rightarrow> string) \<Rightarrow> event list" where "log17 say = log15 say @ [ev 16 dec2, ev 17 noop2]"

lemmas ex_logs2 = ex_logs log14_def log15_def log17_def

lemma st_eta: "(ex_st c q w n a p d t)\<lparr>ps_quantities := q'\<rparr> = ex_st c q' w n a p d t"
  by (simp add: ex_st_def)

lemma mark2: "state_after_mark ex_account ex_inputs st8 sess2 = Inr st9"
proof -
  have pos: "positions_value ex_account ex_inputs st8 sess2 True = Inr (845, held2)"
    by (simp add: positions_value_def positions_step_def sorted_items_def st8_def ex_base ex_price_open ex_price_def ex_arith4)
  have cash: "cash_base ex_account ex_inputs st8 ex_late = Inr (283 / 2)"
    by (simp add: cash_base_def st8_def ex_base ex_arith4 dsum_def)
  show ?thesis
    by (simp add: state_after_mark_def pos cash ex_arith4 Let_def) (simp add: st8_def st9_def ex_st_def)
qed

lemma hold2_run: "mapR (holding_row ex_account ex_inputs sess2) (sorted_items (ps_quantities st9)) = Inr hold2"
  by (simp add: st9_def sorted_items_def holding_row_def ex_price_open ex_base ex_price_def ex_arith4 hold2_def)

lemma value2: "runs (known (log14 say) st8 T Y R) (append_valuation ex_env ex_account ex_inputs st8 sess2 did2) st9
    (known (log15 say) st9 T Y R)"
proof -
  have fresh: "find (\<lambda>e. ev_idempotency_key e = valuation_key sess2) (log14 say) = None"
    by (simp add: ex_logs2 valuation_key_def)
  have val: "runs (known (log14 say) st8 T Y R) (append_event ex_env val2) (ev 15 val2) (known (log15 say) st9 T Y R)"
    by (rule runs_append) (simp_all add: ok3 bookable3 booked3 ex_logs2)
  have again: "runs (known (log15 say) st9 T Y R) (readS (rebuild_state ex_env)) st9 (known (log15 say) st9 T Y R)"
    using runs_known(5)[of "log15 say" st9] by (simp add: log15_def st9_def st_eta)
  note key = runs_known(1)[of "log14 say" st8 T Y R "valuation_key sess2", unfolded fresh]
  show ?thesis
    unfolding append_valuation_def
    by (rule runs_bind[OF runs_lift[OF mark2]], rule runs_bind[OF runs_lift[OF hold2_run]], rule runs_bind[OF key])
      (simp only: simp_thms if_False val2_def[symmetric] runs_bind[OF val again])
qed

lemma decide2: "runs (known (log15 say) st9 T Y R)
    (decide_session ex_env say ex_account ex_inputs ss 1 sess2 st9 did2 ex_print_a) () (known (log17 say) st10 T Y R)"
proof -
  have fresh: "find (\<lambda>e. ev_idempotency_key e = ''decision:'' @ did2) (log15 say) = None" by (simp add: ex_logs2)
  have due: "\<not> decision_due ex_account (s_session_date sess2) (ps_last_decision_session st9)"
    by (simp add: decision_due_def rebalance_frequency_def st9_def ex_account_def day1_def day2_def Let_def)
  have d: "runs (known (log15 say) st9 T Y R) (append_event ex_env dec2) (ev 16 dec2) (known (log15 say @ [ev 16 dec2]) st10 T Y R)"
    by (rule runs_append) (simp_all add: ok3 bookable3 booked3 ex_logs2)
  have n: "runs (known (log15 say @ [ev 16 dec2]) st10 T Y R) (append_event ex_env noop2) (ev 17 noop2) (known (log17 say) st10 T Y R)"
    by (rule runs_append) (simp_all add: ok3 bookable3 booked3 ex_logs2)
  have no: "runs (known (log15 say @ [ev 16 dec2]) st10 T Y R) (append_no_op ex_env ex_account sess2 did2 ''rebalance_not_due'' None)
      () (known (log17 say) st10 T Y R)"
    unfolding append_no_op_def noop2_def[symmetric] by (rule runs_bind[OF n], rule runs_return)
  note key = runs_known(1)[of "log15 say" st9 T Y R "''decision:'' @ did2", unfolded fresh]
  show ?thesis
    unfolding decide_session_def
    by (rule runs_bind[OF key]) (simp only: due simp_thms if_True if_False dec2_def[symmetric], rule runs_bind[OF d], rule no)
qed

lemma cycle2: "runs (known (log8 say) st4 T Y R) (session_cycle ex_env say ex_account ex_inputs ss 1 sess2 did2 ex_print_a) ()
    (known (log17 say) st10 T Y R)"
proof -
  have ne: "log8 say \<noteq> []" "log14 say \<noteq> []" by (simp_all add: ex_logs2)
  have settled: "runs (known (log14 say) st8 T Y R) (readS (rebuild_state ex_env)) st8 (known (log14 say) st8 T Y R)"
    using runs_known(5)[OF ne(2), of st8] by (simp add: st8_def st_eta)
  show ?thesis
    unfolding session_cycle_def
    by (rule runs_bind[OF no_actions[OF ne(1)]], rule runs_bind[OF settle2], rule runs_bind[OF settled], rule runs_bind[OF value2],
        rule decide2)
qed

lemma log17_orders: "e \<in> set (log17 say) \<Longrightarrow> ev_event_type e = ''order'' \<Longrightarrow> \<exists>y. event_order e = Some (order_items y)"
proof -
  have types: "dr_event_type (fill2 y q p) \<noteq> ''order''" "dr_event_type (fee2 y c) \<noteq> ''order''" "dr_event_type (tax2 y c) \<noteq> ''order''"
    "dr_event_type val2 \<noteq> ''order''" "dr_event_type dec2 \<noteq> ''order''" "dr_event_type noop2 \<noteq> ''order''" for y q p c
    by (simp_all add: ex_drafts2 ex_drafts3)
  show "e \<in> set (log17 say) \<Longrightarrow> ev_event_type e = ''order'' \<Longrightarrow> \<exists>y. event_order e = Some (order_items y)"
    using log8_orders[of e say] types unfolding log17_def log15_def log14_def by auto
qed

lemma ex_decision_id2: "decision_id_of ex_env ex_id day ex_print_a (Some t) = did2"
proof -
  have "timestamp t \<noteq> []" "last (timestamp t) = CHR ''Z''" by (simp_all add: timestamp_def)
  then show ?thesis by (simp add: decision_id_of_def ex_env_def ex_uuid_def is_lower_hex_def is_digit_def)
qed

lemma report_names: "report_name (isoformat day2) \<noteq> report_name (isoformat day1)"
  by (simp add: report_name_def)

lemma session2: "runs_some (known (log8 say) st4 files1 files2 [report_name (isoformat day1)])
    (run_paper_session ex_env say ex_root ex_published recorded (account_json ex_account) (Day_Value day2) (Clock_Value ex_late) None)
    (known (log17 say) st10 files1 files2 [report_name (isoformat day1), report_name (isoformat day2)])"
proof -
  let ?R = "[report_name (isoformat day1)]"
  have k: "session_index_of [ex_session day1, ex_session day2] day2 = Inr 1"
    by (simp add: session_index_of_def ex_session_def upt_rec)
  have clock: "resolve_decision_at ex_published (Clock_Value ex_late) ([ex_session day1, ex_session day2] ! 1) = Inr ex_late"
    by (simp add: resolve_decision_at_def ex_session_def)
  have "log17 say \<noteq> []" by (simp add: log17_def)
  note published = publish_known[where es = "log17 say" and sess = sess2 and R = ?R and st = st10 and T = files1 and Y = files2
    and decision_id = did2 and fingerprint = ex_print_a and warnings = "[]" and recorded = recorded, OF this log17_orders]
  have body: "runs_some (known (log8 say) st4 files1 files2 ?R) (session_body ex_env say recorded ex_account ex_inputs
      [ex_session day1, sess2] 1 sess2 did2 ex_print_a)
      (known (log17 say) st10 files1 files2 [report_name (isoformat day1), report_name (isoformat day2)])"
    unfolding session_body_def
    by (rule runs_some_try, rule runs_some_bind[OF cycle2]) (use published report_names in simp)
  have sess: "s_close_at ([ex_session day1, ex_session day2] ! 1) = at_close day2"
    "([ex_session day1, ex_session day2] ! 1)\<lparr>s_decision_at := Some ex_late\<rparr> = sess2"
    "[ex_session day1, ex_session day2][1 := sess2] = [ex_session day1, sess2]"
    by (simp_all add: sess2_def) (simp add: ex_session_def)
  have day: "session_argument_date (Day_Value day2) = Inr day2" by (simp add: session_argument_date_def)
  have none: "report_name (isoformat day2) \<notin> set ?R" using report_names by simp
  show ?thesis
    unfolding run_paper_session_def Let_def
    by (rule runs_some_bind[OF runs_lift[OF ex_account_inputs]], simp only: prod.case,
        rule runs_some_bind[OF runs_known(4)], simp only: simp_thms if_False,
        rule runs_some_bind[OF runs_lift[OF day]], rule runs_some_bind[OF runs_lift[OF ex_paper_inputs]],
        rule runs_some_bind[OF runs_lift[OF ex_calendar]], rule runs_some_bind[OF runs_lift[OF k]],
        rule runs_some_bind[OF runs_lift[OF clock]], rule runs_some_bind[OF runs_known(6)[OF none]])
      (simp only: sess sess2_simps ex_late_simps option.case ex_fingerprint ex_acc ex_decision_id2 simp_thms if_False body)
qed

end
