(* ===== verification/Example_Paper.thy ===== *)
theory Example_Paper
  imports Example_Session
begin

text \<open>The theorems on the ledger and on paper sessions at the ledgers of the example account.\<close>

section \<open>The ledgers of the example\<close>

abbreviation ex_say :: "reason \<Rightarrow> string" where "ex_say \<equiv> \<lambda>_. []"
abbreviation run1 :: "(ledger, json) prog" where
  "run1 \<equiv> run_paper_session ex_env ex_say ex_root ex_published ex_published (account_json ex_account) (Day_Value day1) Clock_Default None"
abbreviation run2 :: "(ledger, json) prog" where
  "run2 \<equiv> run_paper_session ex_env ex_say ex_root ex_published ex_published (account_json ex_account) (Day_Value day2)
     (Clock_Value ex_late) None"

lemma ex_story:
  obtains L1 L2 L3 v1 v2 where "known log1 st0 [] [] [] L1" and "paper_reachable ex_env L1"
    and "run1 L1 = (Inr v1, L2)" and "known (log8 ex_say) st4 files1 files2 [report_name (isoformat day1)] L2"
    and "paper_reachable ex_env L2" and "run2 L2 = (Inr v2, L3)"
    and "known (log17 ex_say) st10 files1 files2 [report_name (isoformat day1), report_name (isoformat day2)] L3"
    and "paper_reachable ex_env L3"
proof -
  obtain L1 where c: "create_paper_account ex_env (account_json ex_account) ex_unused
      = (Inr (ex_id, paper_account_sha256 ex_env ex_account, 1), L1)" and L1: "known log1 st0 [] [] [] L1"
    using ex_created by (auto simp: log1_def st0_def)
  have "paper_reachable ex_env ex_unused" by (rule paper_reachable.fresh) (simp add: unused_def ex_unused_def)
  from paper_reachable.created[OF this, of "account_json ex_account"] c have r1: "paper_reachable ex_env L1" by simp
  obtain v1 L2 where s1: "run1 L1 = (Inr v1, L2)" and L2: "known (log8 ex_say) st4 files1 files2 [report_name (isoformat day1)] L2"
    using session1[where say = ex_say and now = ex_published and recorded = ex_published] L1 unfolding runs_some_def by blast
  have r2: "paper_reachable ex_env L2"
    using paper_reachable.session[OF r1, of ex_say ex_root ex_published ex_published "account_json ex_account" "Day_Value day1"
        Clock_Default None] s1 by simp
  obtain v2 L3 where s2: "run2 L2 = (Inr v2, L3)"
    and L3: "known (log17 ex_say) st10 files1 files2 [report_name (isoformat day1), report_name (isoformat day2)] L3"
    using session2[where say = ex_say and recorded = ex_published] L2 unfolding runs_some_def by blast
  have r3: "paper_reachable ex_env L3"
    using paper_reachable.session[OF r2, of ex_say ex_root ex_published ex_published "account_json ex_account" "Day_Value day2"
        "Clock_Value ex_late" None] s2 by simp
  show ?thesis by (rule that[OF L1 r1 s1 L2 r2 s2 L3 r3])
qed

lemma known_events: "known es st T Y R L \<Longrightarrow> ledger_events ex_env L = Inr es \<and> l_account_id L = ex_id"
  by (simp add: known_def)

lemma known_rebuilt: "known es st T Y R L \<Longrightarrow> es \<noteq> [] \<Longrightarrow> \<exists>st'. rebuild_state ex_env L = Inr st'"
  using runs_at[OF runs_known(5)] by (fastforce simp: readS_def)

text \<open>The eighth and the later events of the example, by their number.\<close>

lemma log8_list: "log8 say = [ev 1 dep, ev 2 val1, ev 3 (dec1 say), ev 4 (pub1 say), ev 5 (risk1 say), ev 6 (ord1 ya), ev 7 (ord1 yb),
    ev 8 appr1]"
  by (simp add: ex_logs)

lemma log17_nth: "log17 say ! 5 = ev 6 (ord1 ya)" "log17 say ! 8 = ev 9 (fill2 ya 4 100)" "ev 15 val2 \<in> set (log17 say)"
    "ev 8 appr1 \<in> set (log17 say)" "length (log17 say) = 17" "log17 say \<noteq> []"
  by (simp_all add: ex_logs2)

lemma ex_event_types: "dr_event_type (fill2 y q p) = ''fill''" "dr_event_type (ord1 y) = ''order''"
    "dr_event_type appr1 = ''approval''" "dr_event_type val2 = ''valuation''" "ev_event_type (ev 15 val2) = ''valuation''"
  by (simp_all add: ex_drafts2 ex_drafts3 ex_drafts1)

section \<open>The store\<close>

abbreviation ex_empty :: ledger where
  "ex_empty \<equiv> ex_unused\<lparr>l_used := True, l_account := Some (account_json ex_account), l_manifest := Some (manifest_json ex_id [])\<rparr>"

lemma ex_empty_id: "l_account_id ex_empty = ex_id"
  by (simp add: ex_unused_def)

lemma ex_empty_known: "known [] empty_state [] [] [] ex_empty"
  by (simp add: known_def ex_manifest) (simp add: ex_unused_def)

lemma event_roundtrip_witness: "validate_event ex_env ex_id 1 (event_json (ev 1 dep)) = Inr (ev 1 dep)"
  by (rule event_roundtrip[OF ex_env_ok dep_ok(1)])

lemma append_event_exact_witness:
  "\<exists>M. append_event ex_env dep ex_empty = (Inr (ev 1 dep), M) \<and> ledger_events ex_env M = Inr [ev 1 dep]
    \<and> append_event ex_env dep M = (Inr (ev 1 dep), M)"
  using append_event_exact[OF ex_env_ok dep_ok(1) ex_manifest] ex_empty_id by simp

lemma append_event_prefix_witness:
  "\<exists>M es. append_event ex_env dep ex_empty = (Inr (ev 1 dep), M) \<and> ledger_events ex_env ex_empty = Inr es
    \<and> ledger_events ex_env M = Inr (es @ [ev 1 dep])"
proof -
  have run: "runs (known [] empty_state [] [] []) (append_event ex_env dep) (ev 1 dep) (known log1 (book dep empty_state) [] [] [])"
    by (rule runs_append) (simp_all add: dep_ok log1_def)
  obtain M where M: "append_event ex_env dep ex_empty = (Inr (ev 1 dep), M)" "ledger_events ex_env M = Inr [ev 1 dep]"
    using runs_at[OF run ex_empty_known] by (auto simp: known_def log1_def)
  from append_event_prefix[OF M] obtain es where es: "ledger_events ex_env ex_empty = Inr es"
    "[ev 1 dep] = es \<or> (\<exists>e. Inr (ev 1 dep) = (Inr e :: event result) \<and> [ev 1 dep] = es @ [e] \<and> ev_sequence e = int (length es) + 1)"
    by blast
  with ex_manifest have "es = []" by simp
  with M es(1) show ?thesis by (intro exI[of _ M] exI[of _ "[]"]) simp
qed

lemma rebuild_state_sums_witness: "\<exists>L es st. rebuild_state ex_env L = Inr st \<and> ledger_events ex_env L = Inr es
    \<and> length es = 17 \<and> state_sums es st"
proof -
  obtain L where L: "known (log17 ex_say) st10 files1 files2 [report_name (isoformat day1), report_name (isoformat day2)] L"
    by (rule ex_story)
  obtain st where st: "rebuild_state ex_env L = Inr st" using known_rebuilt[OF L log17_nth(6)] by blast
  from rebuild_state_sums[OF st] known_events[OF L] st log17_nth(5) show ?thesis by auto
qed

lemma rebuild_state_ok_witness: "\<exists>L st. rebuild_state ex_env L = Inr st \<and> state_ok st \<and> ps_quantities st = [(sec_a, 4), (sec_b, 9)]"
proof -
  obtain L where L: "known (log17 ex_say) st10 files1 files2 [report_name (isoformat day1), report_name (isoformat day2)] L"
    by (rule ex_story)
  have st: "rebuild_state ex_env L = Inr (st10\<lparr>ps_quantities := filter (\<lambda>(_, q). q \<noteq> 0) (ps_quantities st10)\<rparr>)"
    using runs_at[OF runs_known(5)[OF log17_nth(6)], OF L] by (simp add: readS_def)
  have q: "ps_quantities (st10\<lparr>ps_quantities := filter (\<lambda>(_, q). q \<noteq> 0) (ps_quantities st10)\<rparr>) = [(sec_a, 4), (sec_b, 9)]"
    by (simp add: st10_def)
  from rebuild_state_ok[OF st] st q show ?thesis by blast
qed

section \<open>Sessions\<close>

lemma reachable_refines_log_witness: "\<exists>L es. ledger_events ex_env L = Inr es \<and> length es = 17 \<and> log_of ex_env ex_id (justified ex_env) es"
proof -
  obtain L where L: "known (log17 ex_say) st10 files1 files2 [report_name (isoformat day1), report_name (isoformat day2)] L"
    and r: "paper_reachable ex_env L" by (rule ex_story)
  note es = known_events[OF L]
  from reachable_refines_log[OF ex_env_ok r] es log17_nth(5) show ?thesis by fastforce
qed

lemma fill_safety_witness: "\<exists>L es. ledger_events ex_env L = Inr es \<and> ev_event_type (es ! 8) = ''fill'' \<and> authorised_fill (take 8 es) (es ! 8)"
proof -
  obtain L where L: "known (log17 ex_say) st10 files1 files2 [report_name (isoformat day1), report_name (isoformat day2)] L"
    and r: "paper_reachable ex_env L" by (rule ex_story)
  have es: "ledger_events ex_env L = Inr (log17 ex_say)" using known_events[OF L] by blast
  have "8 < length (log17 ex_say)" "ev_event_type (log17 ex_say ! 8) = ''fill''" by (simp_all add: log17_nth ex_event_types)
  from fill_safety[OF ex_env_ok r es this] es this show ?thesis by blast
qed

lemma orders_passed_risk_witness: "\<exists>L es i. ledger_events ex_env L = Inr es \<and> ev_event_type (es ! 5) = ''order'' \<and> i < 5
    \<and> ev_event_type (es ! i) = ''risk_approved''"
proof -
  obtain L where L: "known (log17 ex_say) st10 files1 files2 [report_name (isoformat day1), report_name (isoformat day2)] L"
    and r: "paper_reachable ex_env L" by (rule ex_story)
  have es: "ledger_events ex_env L = Inr (log17 ex_say)" using known_events[OF L] by blast
  have "5 < length (log17 ex_say)" "ev_event_type (log17 ex_say ! 5) = ''order''" by (simp_all add: log17_nth ex_event_types)
  from orders_passed_risk[OF ex_env_ok r es this] es this show ?thesis by blast
qed

lemma session_append_only_witness: "\<exists>L M v es new. run2 L = (Inr v, M) \<and> ledger_events ex_env L = Inr es
    \<and> ledger_events ex_env M = Inr (es @ new) \<and> length new = 9"
proof -
  obtain L M v where run: "run2 L = (Inr v, M)" and L: "known (log8 ex_say) st4 files1 files2 [report_name (isoformat day1)] L"
    and M: "known (log17 ex_say) st10 files1 files2 [report_name (isoformat day1), report_name (isoformat day2)] M"
    by (rule ex_story)
  have es: "ledger_events ex_env L = Inr (log8 ex_say)" "ledger_events ex_env M = Inr (log17 ex_say)"
    using known_events[OF L] known_events[OF M] by simp_all
  from session_append_only[OF ex_env_ok run] es obtain new where "log17 ex_say = log8 ex_say @ new" by auto
  moreover have "length (log8 ex_say) = 8" by (simp add: log8_list)
  ultimately have "length new = 9" using log17_nth(5)[of ex_say] by simp
  with run es \<open>log17 ex_say = log8 ex_say @ new\<close> show ?thesis by auto
qed

lemma settlement_complete_witness: "\<exists>L M es. settle_orders ex_env ex_account ex_inputs sess2 L = (Inr (), M)
    \<and> ledger_events ex_env M = Inr es \<and> ''fill:'' @ or_order_id ya \<in> ev_idempotency_key ` set es"
proof -
  obtain L where L: "known (log8 ex_say) st4 files1 files2 [report_name (isoformat day1)] L" by (rule ex_story)
  obtain M where run: "settle_orders ex_env ex_account ex_inputs sess2 L = (Inr (), M)"
    and M: "known (log14 ex_say) st8 files1 files2 [report_name (isoformat day1)] M"
    using runs_at[OF settle2, OF L] by blast
  have es: "ledger_events ex_env L = Inr (log8 ex_say)" "ledger_events ex_env M = Inr (log14 ex_say)"
    using known_events[OF L] known_events[OF M] by simp_all
  have "fill_due sess2 (log8 ex_say) (ev 6 (ord1 ya)) (or_order_id ya)"
    unfolding fill_due_def ex_approvals
    by (simp add: ex_event_types) (simp add: event_order_def ord1_def decision_draft_def order_items_def ex_order_def)
  moreover have "ev 6 (ord1 ya) \<in> set (log8 ex_say)" by (simp add: log8_list)
  ultimately have "\<exists>f \<in> set (log14 ex_say). ev_idempotency_key f = ''fill:'' @ or_order_id ya"
    using settlement_complete[OF run es] by blast
  with run es show ?thesis by (intro exI[of _ L] exI[of _ M] exI[of _ "log14 ex_say"]) force
qed

lemma decided_at_most_once_witness: "\<exists>L es a. ledger_events ex_env L = Inr es \<and> a \<in> set es \<and> ev_event_type a = ''approval''
    \<and> a = ev 8 appr1"
proof -
  obtain L where L: "known (log17 ex_say) st10 files1 files2 [report_name (isoformat day1), report_name (isoformat day2)] L"
    and r: "paper_reachable ex_env L" by (rule ex_story)
  have es: "ledger_events ex_env L = Inr (log17 ex_say)" using known_events[OF L] by blast
  have "ev 8 appr1 = ev 8 appr1"
    by (rule decided_at_most_once[OF ex_env_ok r es log17_nth(4) log17_nth(4)]) (simp_all add: ex_event_types)
  with es log17_nth(4)[of ex_say] show ?thesis by (auto simp: ex_event_types)
qed

lemma approval_is_final_witness: "\<exists>L M e x. approve_paper_decision ex_env did1 True None L = (Inr e, M)
    \<and> approve_paper_decision ex_env did1 False None M = (Inl x, M) \<and> exn_kind x = PaperConflictError"
proof -
  obtain L where L: "known (log8 ex_say) st4 files1 files2 [report_name (isoformat day1)] L" by (rule ex_story)
  have es: "ledger_events ex_env L = Inr (log8 ex_say)" and acc: "load_account L = Inr ex_account"
    using L runs_at[OF runs_known(4), OF L] by (simp_all add: known_def readS_def)
  have found: "find (\<lambda>e. ev_idempotency_key e = dr_idempotency_key appr1) (log8 ex_say) = Some (ev 8 appr1)"
    by (simp add: log8_list)
  have "parse_datetime (timestamp (at_close day1)) = Some (at_close day1)" by simp
  then have "approve_paper_decision ex_env did1 True None L = append_event ex_env appr1 L"
    using es acc by (simp add: approve_paper_decision_def bindS_def readS_def liftS_def log8_list ex_drafts1 account_date_def
        ex_base)
  moreover have "append_event ex_env appr1 L = (Inr (ev 8 appr1), L)"
    using es L found ok1(7) by (simp add: append_event_def prog_defs event_for_idempotency_def draft_ok_def known_def)
  ultimately have run: "approve_paper_decision ex_env did1 True None L = (Inr (ev 8 appr1), L)" by simp
  from approval_is_final[OF run es, of None] run show ?thesis by (auto intro!: exI[of _ L])
qed

lemma session_reported_once_witness: "\<exists>L M v x. run1 L = (Inr v, M) \<and> read_report (isoformat day1) M = Some x \<and> snd (run1 M) = M"
proof -
  obtain L M v where run: "run1 L = (Inr v, M)" by (rule ex_story)
  from session_reported_once[OF run, of ex_say ex_root ex_published ex_published "account_json ex_account" Clock_Default None] run
  show ?thesis by (auto simp: session_argument_date_def)
qed

lemma data_errors_contained_witness: "\<exists>e M. session_body ex_env ex_say ex_published ex_account ex_inputs ex_sessions 0 sess1 did1
    ex_print_a ex_unused = (Inl e, M) \<and> exn_kind e \<noteq> PaperMissingDataError"
proof -
  have "rebuild_state ex_env ex_unused = raise PaperLedgerError ''ledger manifest does not exist''"
    by (simp add: rebuild_state_def ledger_events_def read_manifest_def ex_unused_def)
  then have run: "session_body ex_env ex_say ex_published ex_account ex_inputs ex_sessions 0 sess1 did1 ex_print_a ex_unused
      = (Inl (Exn PaperLedgerError ''ledger manifest does not exist''), ex_unused)"
    by (simp add: session_body_def tryS_def session_cycle_def apply_actions_def bindS_def readS_def raise_def halting_errors_def)
  from data_errors_contained[OF run] run show ?thesis by blast
qed

lemma reconcile_passes_witness: "\<exists>L r. reconcile_paper_account ex_env L = Inr r \<and> rc_status r = ''passed'' \<and> rc_event_count r = 17"
proof -
  obtain L where L: "known (log17 ex_say) st10 files1 files2 [report_name (isoformat day1), report_name (isoformat day2)] L"
    and r: "paper_reachable ex_env L" by (rule ex_story)
  have es: "ledger_events ex_env L = Inr (log17 ex_say)" using known_events[OF L] by blast
  obtain st where st: "rebuild_state ex_env L = Inr st" using known_rebuilt[OF L log17_nth(6)] by blast
  from reconcile_passes[OF ex_env_ok r es st log17_nth(3) ex_event_types(5)] log17_nth(5) show ?thesis by auto
qed

lemma report_total_witness: "\<exists>L r. report_from_events ex_env ex_account sess2 did2 ex_print_a [] None [] L = Inr r
    \<and> l_account_id L = ex_id"
proof -
  obtain L where L: "known (log17 ex_say) st10 files1 files2 [report_name (isoformat day1), report_name (isoformat day2)] L"
    and r: "paper_reachable ex_env L" by (rule ex_story)
  obtain st where st: "rebuild_state ex_env L = Inr st" using known_rebuilt[OF L log17_nth(6)] by blast
  from report_total[OF ex_env_ok r st] known_events[OF L] show ?thesis by blast
qed

end
