(* ===== verification/Experiment.thy ===== *)
theory Experiment
  imports Account
begin

text \<open>
  \<open>research/experiments.py\<close>: the backtest experiment specification. The validators of single values, the
  normalisation of each section, the deterministic identity of the whole, and the store of published
  specifications. As in the paper account, amounts stay the strings of the document; other than there,
  they are not rewritten.
\<close>

section \<open>The normalised specification\<close>

definition experiment_schema_version :: string where
  "experiment_schema_version = ''1.0.0''"

definition experiment_namespace :: string where
  "experiment_namespace = ''9e3cf3f7-9f54-5d0e-8e31-3db5e1d3f7f1''"

record backtest_accounting =
  ba_base_currency :: string
  ba_reporting_currency :: "string option"
  ba_initial_cash :: string
  ba_fractional_shares :: bool
  ba_rebalance_frequency :: string

record backtest_risk =
  br_max_gross_exposure :: string
  br_max_position_weight :: string
  br_max_participation :: string

record metrics_policy =
  mp_version :: string
  mp_annualization_factor :: int
  mp_risk_free_source :: string
  mp_risk_free_annual :: "string option"

record partition =
  pa_name :: string
  pa_kind :: string
  pa_start_date :: string
  pa_end_date :: string

record forward_window =
  fw_name :: string
  fw_train :: "string \<times> string"
  fw_calibration :: "string \<times> string"
  fw_test :: "string \<times> string"

text \<open>The decision policy is fixed up to the spelling of the delay of one session (\<open>1\<close>, \<open>1.0\<close> or \<open>true\<close>).\<close>

record experiment_spec =
  ex_experiment_id :: string
  ex_strategy :: strategy
  ex_period :: "string \<times> string"
  ex_universe :: universe
  ex_inputs :: "reference list"
  ex_benchmark_security_id :: string
  ex_benchmark_currency :: string
  ex_signal_delay :: json
  ex_accounting_policy :: backtest_accounting
  ex_cost_policy :: cost_policy
  ex_risk_policy :: backtest_risk
  ex_metrics_policy :: metrics_policy
  ex_partitions :: "partition list"
  ex_walk_forward_windows :: "forward_window list"
  ex_missing_data_policy :: string
  ex_random_seed :: "int option"

section \<open>Single values\<close>

abbreviation exp_error :: "string \<Rightarrow> 'a result" where
  "exp_error m \<equiv> raise BacktestSpecError m"

definition exp_text :: "(string \<Rightarrow> bool) \<Rightarrow> string \<Rightarrow> string \<Rightarrow> json \<Rightarrow> string result" where
  "exp_text ok requirement field v =
     (case v of JStr s \<Rightarrow> if ok s then Inr s else exp_error (field @ requirement)
      | _ \<Rightarrow> exp_error (field @ requirement))"

definition exp_nonempty :: "string \<Rightarrow> json \<Rightarrow> string result" where
  "exp_nonempty field v =
     (case v of JStr s \<Rightarrow> if strip s = [] then exp_error (field @ '' must be a non-empty string'') else Inr (strip s)
      | _ \<Rightarrow> exp_error (field @ '' must be a non-empty string''))"

text \<open>A string that is the canonical form of the UUID it writes, of any version.\<close>

definition is_canonical_uuid :: "string \<Rightarrow> bool" where
  "is_canonical_uuid s \<longleftrightarrow> length s = 36
     \<and> s ! 8 = CHR ''-'' \<and> s ! 13 = CHR ''-'' \<and> s ! 18 = CHR ''-'' \<and> s ! 23 = CHR ''-''
     \<and> list_all is_lower_hex (take 8 s) \<and> list_all is_lower_hex (take 4 (drop 9 s))
     \<and> list_all is_lower_hex (take 4 (drop 14 s)) \<and> list_all is_lower_hex (take 4 (drop 19 s))
     \<and> list_all is_lower_hex (drop 24 s)"

definition exp_uuid :: "string \<Rightarrow> json \<Rightarrow> string result" where
  "exp_uuid = exp_text is_canonical_uuid '' must be a canonical UUID''"

definition exp_sha256 :: "string \<Rightarrow> json \<Rightarrow> string result" where
  "exp_sha256 = exp_text is_sha256 '' must be a lower-case SHA-256''"

definition exp_semver :: "string \<Rightarrow> json \<Rightarrow> string result" where
  "exp_semver = exp_text is_semver '' must be semantic version x.y.z''"

definition exp_git_commit :: "string \<Rightarrow> json \<Rightarrow> string result" where
  "exp_git_commit = exp_text (\<lambda>s. s = ''unknown'' \<or> is_git_sha s) '' must be a lower-case Git SHA or unknown''"

definition exp_currency :: "string \<Rightarrow> json \<Rightarrow> string result" where
  "exp_currency = exp_text is_currency '' must be an ISO-4217 uppercase currency''"

definition exp_timestamp :: "string \<Rightarrow> json \<Rightarrow> string result" where
  "exp_timestamp = exp_text (\<lambda>s. parse_datetime s \<noteq> None) '' must be a canonical UTC timestamp''"

definition exp_date :: "string \<Rightarrow> json \<Rightarrow> string result" where
  "exp_date = exp_text (\<lambda>s. parse_date s \<noteq> None) '' must be an ISO date''"

text \<open>The string is checked and kept as it is.\<close>

definition exp_decimal :: "bool \<Rightarrow> bool \<Rightarrow> string \<Rightarrow> json \<Rightarrow> string result" where
  "exp_decimal non_negative positive field v =
     (let label = (if non_negative then ''non-negative decimal'' else ''decimal'');
          malformed = exp_error (field @ '' must be a canonical '' @ label @ '' string'')
      in case v of
           JStr s \<Rightarrow>
             (case (if non_negative then parse_unsigned s else parse_signed s) of
                None \<Rightarrow> malformed
              | Some parsed \<Rightarrow>
                  if positive \<and> parsed \<le> 0 then exp_error (field @ '' must be positive'')
                  else if non_negative \<and> parsed < 0 then exp_error (field @ '' must be non-negative'')
                  else Inr s)
         | _ \<Rightarrow> malformed)"

definition exp_policy :: "string list \<Rightarrow> string \<Rightarrow> json \<Rightarrow> (string \<times> json) list result" where
  "exp_policy required m v =
     (case v of JObj ob \<Rightarrow> if set (jkeys ob) = set required then Inr ob else exp_error m | _ \<Rightarrow> exp_error m)"

definition exp_choice :: "string list \<Rightarrow> string \<Rightarrow> json \<Rightarrow> string result" where
  "exp_choice names m v =
     bindR (member_of v names) (\<lambda>b. case v of JStr s \<Rightarrow> if b then Inr s else exp_error m | _ \<Rightarrow> exp_error m)"

text \<open>\<open>value != constant\<close> for a string\<close>

definition exp_constant :: "string \<Rightarrow> string \<Rightarrow> json \<Rightarrow> unit result" where
  "exp_constant c m v = ensure (v = JStr c) (Exn BacktestSpecError m)"

definition exp_int :: "int \<Rightarrow> string \<Rightarrow> json \<Rightarrow> int result" where
  "exp_int low m v = (case v of JInt i \<Rightarrow> if i < low then exp_error m else Inr i | _ \<Rightarrow> exp_error m)"

definition date_range :: "string \<Rightarrow> json \<Rightarrow> (string \<times> string) result" where
  "date_range field v =
     bindR (exp_policy [''start_date'', ''end_date''] (field @ '' must contain only start_date and end_date'') v) (\<lambda>ob.
     bindR (field_of (exp_date (field @ ''.start_date'')) ob ''start_date'') (\<lambda>start_date.
     bindR (field_of (exp_date (field @ ''.end_date'')) ob ''end_date'') (\<lambda>end_date.
     bindR (ensure (\<not> end_date < start_date)
              (Exn BacktestSpecError (field @ '' start_date must not be after end_date''))) (\<lambda>_.
     Inr (start_date, end_date)))))"

definition safe_relative_path :: "string \<Rightarrow> json \<Rightarrow> string result" where
  "safe_relative_path field v =
     bindR (exp_nonempty field v) (\<lambda>path.
     if hd path = CHR ''/'' \<or> hd path = CHR 0x5C \<or> CHR 0x00 \<in> set path
     then exp_error (field @ '' must be a safe relative path'')
     else if ''..'' \<in> set (path_parts path)
     then exp_error (field @ '' must not contain parent traversal'')
     else Inr path)"

section \<open>Sections\<close>

definition artifact_ref_fields :: "string list" where
  "artifact_ref_fields = [''kind'', ''artifact_id'', ''path'', ''sha256'', ''available_at'', ''historical_fitness'']"

definition supported_input_kinds :: "string list" where
  "supported_input_kinds = [''prices'', ''calendar'', ''membership'', ''corporate_actions'', ''fx'', ''feature'',
     ''macro'', ''risk_free'']"

definition artifact_ref :: "string \<Rightarrow> json \<Rightarrow> reference result" where
  "artifact_ref field v =
     (case v of
        JObj ob \<Rightarrow>
          if set (jkeys ob) \<subseteq> set artifact_ref_fields then
            (let missing = sorted_set (filter (\<lambda>k. k \<notin> set (jkeys ob)) (removeAll ''historical_fitness'' artifact_ref_fields)) in
     bindR (ensure (missing = []) (Exn BacktestSpecError (field @ '' is missing fields: '' @ join_comma missing))) (\<lambda>_.
     bindR (field_of (exp_nonempty (field @ ''.kind'')) ob ''kind'') (\<lambda>kind.
     bindR (ensure (kind \<in> set supported_input_kinds) (Exn BacktestSpecError (field @ ''.kind is unsupported''))) (\<lambda>_.
     bindR (field_of (exp_uuid (field @ ''.artifact_id'')) ob ''artifact_id'') (\<lambda>artifact_id.
     bindR (field_of (safe_relative_path (field @ ''.path'')) ob ''path'') (\<lambda>path.
     bindR (field_of (exp_sha256 (field @ ''.sha256'')) ob ''sha256'') (\<lambda>sha.
     bindR (field_of (exp_timestamp (field @ ''.available_at'')) ob ''available_at'') (\<lambda>available_at.
     bindR (exp_choice [''backtest_safe'', ''installation_replay_only'', ''unsupported'']
              (field @ ''.historical_fitness is unsupported'') (dget ob ''historical_fitness'' (JStr ''backtest_safe''))) (\<lambda>fitness.
     bindR (ensure (fitness = ''backtest_safe'')
              (Exn BacktestSpecError (field @ '' is not admitted as backtest_safe''))) (\<lambda>_.
     Inr \<lparr>r_kind = kind, r_artifact_id = artifact_id, r_path = path, r_sha256 = sha,
        r_available_at = available_at, r_fitness = fitness\<rparr>))))))))))
          else exp_error (field @ '' contains unknown fields'')
      | _ \<Rightarrow> exp_error (field @ '' contains unknown fields''))"

definition exp_frequencies :: "string list" where
  "exp_frequencies = [''daily'', ''monthly'']"

definition exp_parameters :: "string \<Rightarrow> (string \<times> json) list \<Rightarrow> parameters result" where
  "exp_parameters name ps =
     (if name = ''buy_and_hold'' then
        (if ps \<noteq> [] then exp_error ''buy_and_hold does not accept parameters''
         else Inr \<lparr>pm_rebalance_frequency = None, pm_lookback_sessions = None, pm_skip_sessions = None,
                pm_top_k = None\<rparr>)
      else if name = ''equal_weight'' then
        (let m = ''equal_weight requires daily or monthly rebalance_frequency'' in
        bindR (ensure (set (jkeys ps) = {''rebalance_frequency''}) (Exn BacktestSpecError m)) (\<lambda>_.
        bindR (field_of (exp_choice exp_frequencies m) ps ''rebalance_frequency'') (\<lambda>f.
        Inr \<lparr>pm_rebalance_frequency = Some f, pm_lookback_sessions = None, pm_skip_sessions = None,
           pm_top_k = None\<rparr>)))
      else
        (let m = ''momentum_12_1 has invalid parameters'' in
        bindR (ensure (set (jkeys ps) = {''lookback_sessions'', ''skip_sessions'', ''top_k'', ''rebalance_frequency''})
                 (Exn BacktestSpecError m)) (\<lambda>_.
        bindR (field_of (exp_choice exp_frequencies m) ps ''rebalance_frequency'') (\<lambda>f.
        bindR (field_of (exp_int 1 (parameter_error ''lookback_sessions'')) ps ''lookback_sessions'') (\<lambda>lookback.
        bindR (field_of (exp_int 1 (parameter_error ''skip_sessions'')) ps ''skip_sessions'') (\<lambda>skip.
        bindR (field_of (exp_int 1 (parameter_error ''top_k'')) ps ''top_k'') (\<lambda>top_k.
        bindR (ensure (skip < lookback) (Exn BacktestSpecError
                 ''momentum_12_1 skip_sessions must be less than lookback_sessions'')) (\<lambda>_.
        Inr \<lparr>pm_rebalance_frequency = Some f, pm_lookback_sessions = Some lookback,
           pm_skip_sessions = Some skip, pm_top_k = Some top_k\<rparr>))))))))"

definition exp_strategy :: "json \<Rightarrow> strategy result" where
  "exp_strategy v =
     bindR (exp_policy [''name'', ''version'', ''git_commit'', ''parameters'']
              ''strategy must contain name, version, git_commit, and parameters'' v) (\<lambda>raw.
     bindR (field_of (exp_choice [''buy_and_hold'', ''equal_weight'', ''momentum_12_1'']
              ''strategy.name is unsupported'') raw ''name'') (\<lambda>name.
     bindR (field_of (\<lambda>v. case v of JObj ps \<Rightarrow> Inr ps | _ \<Rightarrow> exp_error ''strategy.parameters must be an object'')
              raw ''parameters'') (\<lambda>ps.
     bindR (exp_parameters name ps) (\<lambda>parameters.
     bindR (field_of (exp_semver ''strategy.version'') raw ''version'') (\<lambda>version.
     bindR (field_of (exp_git_commit ''strategy.git_commit'') raw ''git_commit'') (\<lambda>commit.
     Inr \<lparr>st_name = name, st_version = version, st_git_commit = commit, st_parameters = parameters\<rparr>))))))"

definition exp_universe :: "json \<Rightarrow> universe result" where
  "exp_universe v =
     bindR (exp_policy [''universe_id'', ''version'', ''security_ids'', ''membership_fingerprint'']
              ''universe has an invalid field set'' v) (\<lambda>ob.
     bindR (field_of (\<lambda>v. case v of
                JArr xs \<Rightarrow> if xs = [] then exp_error ''universe.security_ids must be a non-empty list'' else Inr xs
              | _ \<Rightarrow> exp_error ''universe.security_ids must be a non-empty list'') ob ''security_ids'') (\<lambda>items.
     bindR (mapR (\<lambda>(i, item). exp_uuid (index_label ''universe.security_ids'' i []) item) (enumerate 0 items)) (\<lambda>ids.
     bindR (ensure (distinct ids) (Exn BacktestSpecError ''universe.security_ids must be unique'')) (\<lambda>_.
     bindR (field_of (exp_uuid ''universe.universe_id'') ob ''universe_id'') (\<lambda>universe_id.
     bindR (field_of (exp_semver ''universe.version'') ob ''version'') (\<lambda>version.
     bindR (field_of (exp_sha256 ''universe.membership_fingerprint'') ob ''membership_fingerprint'') (\<lambda>fingerprint.
     Inr \<lparr>un_universe_id = universe_id, un_version = version, un_security_ids = sort ids,
        un_membership_fingerprint = fingerprint\<rparr>)))))))"

definition exp_decision :: "json \<Rightarrow> json result" where
  "exp_decision v =
     bindR (exp_policy [''name'', ''frequency'', ''signal_delay_sessions'', ''execution_price'']
              ''decision_policy has an invalid field set'' v) (\<lambda>ob.
     bindR (jget ob ''signal_delay_sessions'') (\<lambda>delay.
     bindR (ensure (map_of ob ''name'' = Some (JStr ''after_close_next_session_open'')
                \<and> map_of ob ''frequency'' = Some (JStr ''daily'') \<and> equals_one delay
                \<and> map_of ob ''execution_price'' = Some (JStr ''open''))
              (Exn BacktestSpecError ''only after_close_next_session_open is supported'')) (\<lambda>_.
     Inr delay)))"

text \<open>\<open>value if value is None else parse(value)\<close>\<close>

definition exp_optional :: "(json \<Rightarrow> 'a result) \<Rightarrow> json \<Rightarrow> 'a option result" where
  "exp_optional parse v = (if v = JNull then Inr None else bindR (parse v) (\<lambda>x. Inr (Some x)))"

definition exp_accounting :: "json \<Rightarrow> backtest_accounting result" where
  "exp_accounting v =
     bindR (exp_policy [''base_currency'', ''reporting_currency'', ''initial_cash'', ''fractional_shares'',
              ''rebalance_frequency''] ''accounting_policy has an invalid field set'' v) (\<lambda>ob.
     bindR (field_of (exp_currency ''accounting_policy.base_currency'') ob ''base_currency'') (\<lambda>base.
     bindR (field_of (exp_optional (exp_currency ''accounting_policy.reporting_currency'')) ob ''reporting_currency'') (\<lambda>reporting.
     bindR (field_of (exp_decimal False True ''accounting_policy.initial_cash'') ob ''initial_cash'') (\<lambda>cash.
     bindR (field_of (\<lambda>v. case v of JBool b \<Rightarrow> Inr b
              | _ \<Rightarrow> exp_error ''accounting_policy.fractional_shares must be boolean'') ob ''fractional_shares'') (\<lambda>fractional.
     bindR (field_of (exp_choice [''once'', ''daily'', ''monthly'']
              ''accounting_policy.rebalance_frequency is unsupported'') ob ''rebalance_frequency'') (\<lambda>frequency.
     Inr \<lparr>ba_base_currency = base, ba_reporting_currency = reporting, ba_initial_cash = cash,
        ba_fractional_shares = fractional, ba_rebalance_frequency = frequency\<rparr>))))))"

definition exp_cost :: "json \<Rightarrow> cost_policy result" where
  "exp_cost v =
     bindR (exp_policy (''version'' # cost_fields) ''cost_policy has an invalid field set'' v) (\<lambda>ob.
     bindR (field_of (exp_semver ''cost_policy.version'') ob ''version'') (\<lambda>version.
     bindR (field_of (exp_decimal True False ''cost_policy.commission_bps'') ob ''commission_bps'') (\<lambda>commission.
     bindR (field_of (exp_decimal True False ''cost_policy.fixed_fee'') ob ''fixed_fee'') (\<lambda>fixed.
     bindR (field_of (exp_decimal True False ''cost_policy.minimum_fee'') ob ''minimum_fee'') (\<lambda>minimum.
     bindR (field_of (exp_decimal True False ''cost_policy.spread_bps'') ob ''spread_bps'') (\<lambda>spread.
     bindR (field_of (exp_decimal True False ''cost_policy.slippage_bps'') ob ''slippage_bps'') (\<lambda>slippage.
     bindR (field_of (exp_decimal True False ''cost_policy.tax_bps'') ob ''tax_bps'') (\<lambda>tax.
     Inr \<lparr>cp_version = version, cp_commission_bps = commission, cp_fixed_fee = fixed, cp_minimum_fee = minimum,
        cp_spread_bps = spread, cp_slippage_bps = slippage, cp_tax_bps = tax\<rparr>))))))))"

text \<open>\<open>Decimal(s)\<close> of a string that the validator has let pass, and \<open>_d(s)\<close> of the engine.\<close>

definition dec_text :: "string \<Rightarrow> dec" where
  "dec_text s = (case parse_signed s of None \<Rightarrow> 0 | Some q \<Rightarrow> q)"

text \<open>The loop runs over the keys in the order of the document, which decides the error reported first.\<close>

definition exp_risk :: "json \<Rightarrow> backtest_risk result" where
  "exp_risk v =
     bindR (exp_policy [''max_gross_exposure'', ''max_position_weight'', ''max_participation'']
              ''risk_policy has an invalid field set'' v) (\<lambda>ob.
     bindR (mapR (\<lambda>key. field_of (exp_decimal True False (''risk_policy.'' @ key)) ob key) (jkeys ob)) (\<lambda>_.
     bindR (field_of (exp_decimal True False ''risk_policy.max_gross_exposure'') ob ''max_gross_exposure'') (\<lambda>gross.
     bindR (field_of (exp_decimal True False ''risk_policy.max_position_weight'') ob ''max_position_weight'') (\<lambda>position.
     bindR (field_of (exp_decimal True False ''risk_policy.max_participation'') ob ''max_participation'') (\<lambda>participation.
     bindR (ensure (\<not> (dec_text gross \<le> 0 \<or> dec_text position \<le> 0))
              (Exn BacktestSpecError ''risk exposure limits must be positive'')) (\<lambda>_.
     bindR (ensure (\<not> dec_text gross < dec_text position)
              (Exn BacktestSpecError ''risk_policy.max_position_weight exceeds max_gross_exposure'')) (\<lambda>_.
     bindR (ensure (\<not> 1 < dec_text participation)
              (Exn BacktestSpecError ''risk_policy.max_participation must not exceed 1'')) (\<lambda>_.
     Inr \<lparr>br_max_gross_exposure = gross, br_max_position_weight = position,
        br_max_participation = participation\<rparr>))))))))"

definition exp_metrics :: "string list \<Rightarrow> json \<Rightarrow> metrics_policy result" where
  "exp_metrics kinds v =
     bindR (exp_policy [''version'', ''return_basis'', ''annualization_factor'', ''risk_free_source'',
              ''risk_free_annual'', ''missing_period_policy''] ''metrics_policy has an invalid field set'' v) (\<lambda>ob.
     bindR (field_of (exp_semver ''metrics_policy.version'') ob ''version'') (\<lambda>version.
     bindR (field_of (exp_constant ''close_to_close'' ''metrics_policy.return_basis is unsupported'') ob ''return_basis'') (\<lambda>_.
     bindR (field_of (exp_int 1 ''metrics_policy.annualization_factor must be a positive integer'')
              ob ''annualization_factor'') (\<lambda>factor.
     bindR (field_of (exp_choice [''constant_annual'', ''artifact''] ''metrics_policy.risk_free_source is unsupported'')
              ob ''risk_free_source'') (\<lambda>source.
     bindR (field_of (exp_constant ''reject'' ''metrics_policy.missing_period_policy is unsupported'')
              ob ''missing_period_policy'') (\<lambda>_.
     bindR (jget ob ''risk_free_annual'') (\<lambda>annual.
     bindR (if source = ''constant_annual'' then
              (if ''risk_free'' \<in> set kinds then exp_error ''constant_annual metrics cannot include a risk_free input''
               else if annual = JNull then exp_error ''constant_annual metrics require risk_free_annual''
               else bindR (exp_decimal False False ''metrics_policy.risk_free_annual'' annual) (\<lambda>s. Inr (Some s)))
            else
              (if ''risk_free'' \<notin> set kinds then exp_error ''artifact metrics require a risk_free input''
               else if annual \<noteq> JNull then exp_error ''artifact metrics must set risk_free_annual to null''
               else Inr None)) (\<lambda>rate.
     Inr \<lparr>mp_version = version, mp_annualization_factor = factor, mp_risk_free_source = source,
        mp_risk_free_annual = rate\<rparr>))))))))"

section \<open>Partitions and windows\<close>

definition partition_kinds :: "string list" where
  "partition_kinds = [''development'', ''validation'', ''holdout'']"

definition range_json :: "string \<times> string \<Rightarrow> json" where
  "range_json r = JObj [(''start_date'', JStr (fst r)), (''end_date'', JStr (snd r))]"

definition outside_period :: "string \<times> string \<Rightarrow> string \<Rightarrow> string \<Rightarrow> bool" where
  "outside_period period first last_date \<longleftrightarrow> first < fst period \<or> snd period < last_date"

definition partition_step :: "string \<times> string \<Rightarrow> partition list \<Rightarrow> nat \<times> json \<Rightarrow> partition list result" where
  "partition_step period acc = (\<lambda>(i, item).
     (let lab = index_label ''partitions'' i in
     bindR (exp_policy [''name'', ''kind'', ''start_date'', ''end_date''] (lab '' has an invalid field set'') item) (\<lambda>ob.
     bindR (field_of (exp_nonempty (lab ''.name'')) ob ''name'') (\<lambda>name.
     bindR (ensure (is_slug name \<and> name \<notin> set (map pa_name acc))
              (Exn BacktestSpecError (lab ''.name is invalid or duplicated''))) (\<lambda>_.
     bindR (field_of (\<lambda>v. case v of
                JStr k \<Rightarrow> if k \<in> set partition_kinds \<and> k \<notin> set (map pa_kind acc) then Inr k
                          else exp_error (lab ''.kind must be unique and supported'')
              | _ \<Rightarrow> exp_error (lab ''.kind must be unique and supported'')) ob ''kind'') (\<lambda>kind.
     bindR (jget ob ''start_date'') (\<lambda>first.
     bindR (jget ob ''end_date'') (\<lambda>final.
     bindR (date_range (lab []) (JObj [(''start_date'', first), (''end_date'', final)])) (\<lambda>(start_date, end_date).
     bindR (ensure (\<not> outside_period period start_date end_date)
              (Exn BacktestSpecError (lab '' must lie inside period''))) (\<lambda>_.
     Inr (acc @ [\<lparr>pa_name = name, pa_kind = kind, pa_start_date = start_date, pa_end_date = end_date\<rparr>])))))))))))"

definition kind_order :: "string \<Rightarrow> nat" where
  "kind_order kind = (if kind = ''development'' then 0 else if kind = ''validation'' then 1 else 2)"

text \<open>\<open>pairwise(xs)\<close>\<close>

definition pairwise :: "'a list \<Rightarrow> ('a \<times> 'a) list" where
  "pairwise xs = zip xs (tl xs)"

definition exp_partitions :: "string \<times> string \<Rightarrow> json \<Rightarrow> partition list result" where
  "exp_partitions period v =
     (let m = ''partitions must contain development, validation, and holdout'' in
     bindR (case v of JArr xs \<Rightarrow> if length xs < 3 then exp_error m else Inr xs | _ \<Rightarrow> exp_error m) (\<lambda>items.
     bindR (foldR (partition_step period) [] (enumerate 0 items)) (\<lambda>rows.
     bindR (ensure (set (map pa_kind rows) = set partition_kinds) (Exn BacktestSpecError
              ''partitions must include each development, validation, and holdout kind'')) (\<lambda>_.
     (let ordered = sort_key pa_start_date rows in
     bindR (ensure (list_all (\<lambda>(previous, current). \<not> pa_start_date current \<le> pa_end_date previous) (pairwise ordered))
              (Exn BacktestSpecError ''partitions must not overlap'')) (\<lambda>_.
     bindR (ensure (sorted (map (kind_order \<circ> pa_kind) ordered))
              (Exn BacktestSpecError ''partitions must progress development, validation, then holdout'')) (\<lambda>_.
     Inr ordered)))))))"

definition window_step :: "string \<times> string \<Rightarrow> forward_window list \<Rightarrow> nat \<times> json \<Rightarrow> forward_window list result" where
  "window_step period acc = (\<lambda>(i, item).
     (let lab = index_label ''walk_forward_windows'' i in
     bindR (exp_policy [''name'', ''train'', ''calibration'', ''test''] (lab '' has an invalid field set'') item) (\<lambda>ob.
     bindR (field_of (exp_nonempty (lab ''.name'')) ob ''name'') (\<lambda>name.
     bindR (ensure (is_slug name \<and> name \<notin> set (map fw_name acc))
              (Exn BacktestSpecError (lab ''.name is invalid or duplicated''))) (\<lambda>_.
     bindR (field_of (date_range (lab ''.train'')) ob ''train'') (\<lambda>train.
     bindR (field_of (date_range (lab ''.calibration'')) ob ''calibration'') (\<lambda>calibration.
     bindR (field_of (date_range (lab ''.test'')) ob ''test'') (\<lambda>test.
     bindR (ensure (snd train < fst calibration \<and> fst calibration \<le> snd calibration \<and> snd calibration < fst test)
              (Exn BacktestSpecError (lab '' intervals must be chronological and disjoint''))) (\<lambda>_.
     bindR (ensure (\<not> outside_period period (fst train) (snd test))
              (Exn BacktestSpecError (lab '' must lie inside period''))) (\<lambda>_.
     Inr (acc @ [\<lparr>fw_name = name, fw_train = train, fw_calibration = calibration, fw_test = test\<rparr>])))))))))))"

definition exp_windows :: "string \<times> string \<Rightarrow> json \<Rightarrow> forward_window list result" where
  "exp_windows period v =
     (case v of JNull \<Rightarrow> Inr []
      | JArr xs \<Rightarrow> foldR (window_step period) [] (enumerate 0 xs)
      | _ \<Rightarrow> exp_error ''walk_forward_windows must be a list'')"

section \<open>The specification and its identity\<close>

definition experiment_fields :: "string list" where
  "experiment_fields = [''schema_version'', ''experiment_id'', ''strategy'', ''period'', ''universe'', ''inputs'',
     ''benchmark'', ''decision_policy'', ''accounting_policy'', ''cost_policy'', ''risk_policy'', ''metrics_policy'',
     ''partitions'', ''walk_forward_windows'', ''missing_data_policy'', ''random_seed'']"

definition optional_fields :: "string list" where
  "optional_fields = [''experiment_id'', ''walk_forward_windows'', ''random_seed'']"

definition exp_inputs :: "json \<Rightarrow> reference list result" where
  "exp_inputs v =
     (let m = ''inputs must contain at least prices, calendar, and membership'' in
     bindR (case v of JArr xs \<Rightarrow> if length xs < 3 then exp_error m else Inr xs | _ \<Rightarrow> exp_error m) (\<lambda>items.
     bindR (mapR (\<lambda>(i, item). artifact_ref (index_label ''inputs'' i []) item) (enumerate 0 items)) (\<lambda>refs.
     bindR (ensure (distinct (map r_kind refs)) (Exn BacktestSpecError ''inputs must contain one artifact per kind'')) (\<lambda>_.
     bindR (ensure ({''prices'', ''calendar'', ''membership''} \<subseteq> set (map r_kind refs))
              (Exn BacktestSpecError ''inputs must include prices, calendar, and membership artifacts'')) (\<lambda>_.
     Inr (sort_key (\<lambda>r. (r_kind r, r_artifact_id r)) refs))))))"

definition exp_benchmark :: "json \<Rightarrow> (string \<times> string) result" where
  "exp_benchmark v =
     bindR (exp_policy [''security_id'', ''currency''] ''benchmark has an invalid field set'' v) (\<lambda>ob.
     bindR (field_of (exp_uuid ''benchmark.security_id'') ob ''security_id'') (\<lambda>security_id.
     bindR (field_of (exp_currency ''benchmark.currency'') ob ''currency'') (\<lambda>currency.
     Inr (security_id, currency))))"

definition exp_seed :: "json \<Rightarrow> int option result" where
  "exp_seed v = exp_optional (exp_int 0 ''random_seed must be a non-negative integer or null'') v"

text \<open>The document of a normalised specification, without and with its identity.\<close>

definition exp_reference_json :: "reference \<Rightarrow> json" where
  "exp_reference_json r = JObj [(''kind'', JStr (r_kind r)), (''artifact_id'', JStr (r_artifact_id r)),
     (''path'', JStr (r_path r)), (''sha256'', JStr (r_sha256 r)), (''available_at'', JStr (r_available_at r)),
     (''historical_fitness'', JStr (r_fitness r))]"

definition null_or :: "('a \<Rightarrow> json) \<Rightarrow> 'a option \<Rightarrow> json" where
  "null_or f v = (case v of None \<Rightarrow> JNull | Some x \<Rightarrow> f x)"

definition exp_accounting_json :: "backtest_accounting \<Rightarrow> json" where
  "exp_accounting_json a = JObj [(''base_currency'', JStr (ba_base_currency a)),
     (''reporting_currency'', null_or JStr (ba_reporting_currency a)), (''initial_cash'', JStr (ba_initial_cash a)),
     (''fractional_shares'', JBool (ba_fractional_shares a)), (''rebalance_frequency'', JStr (ba_rebalance_frequency a))]"

definition exp_risk_json :: "backtest_risk \<Rightarrow> json" where
  "exp_risk_json r = JObj [(''max_gross_exposure'', JStr (br_max_gross_exposure r)),
     (''max_position_weight'', JStr (br_max_position_weight r)),
     (''max_participation'', JStr (br_max_participation r))]"

definition exp_metrics_json :: "metrics_policy \<Rightarrow> json" where
  "exp_metrics_json m = JObj [(''version'', JStr (mp_version m)), (''return_basis'', JStr ''close_to_close''),
     (''annualization_factor'', JInt (mp_annualization_factor m)), (''risk_free_source'', JStr (mp_risk_free_source m)),
     (''risk_free_annual'', null_or JStr (mp_risk_free_annual m)), (''missing_period_policy'', JStr ''reject'')]"

definition partition_json :: "partition \<Rightarrow> json" where
  "partition_json p = JObj [(''name'', JStr (pa_name p)), (''kind'', JStr (pa_kind p)),
     (''start_date'', JStr (pa_start_date p)), (''end_date'', JStr (pa_end_date p))]"

definition window_json :: "forward_window \<Rightarrow> json" where
  "window_json w = JObj [(''name'', JStr (fw_name w)), (''train'', range_json (fw_train w)),
     (''calibration'', range_json (fw_calibration w)), (''test'', range_json (fw_test w))]"

definition identity_fields :: "experiment_spec \<Rightarrow> (string \<times> json) list" where
  "identity_fields e = [(''schema_version'', JStr experiment_schema_version),
     (''strategy'', strategy_json (ex_strategy e)), (''period'', range_json (ex_period e)),
     (''universe'', universe_json (ex_universe e)), (''inputs'', JArr (map exp_reference_json (ex_inputs e))),
     (''benchmark'', JObj [(''security_id'', JStr (ex_benchmark_security_id e)),
        (''currency'', JStr (ex_benchmark_currency e))]),
     (''decision_policy'', JObj [(''name'', JStr ''after_close_next_session_open''), (''frequency'', JStr ''daily''),
        (''signal_delay_sessions'', ex_signal_delay e), (''execution_price'', JStr ''open'')]),
     (''accounting_policy'', exp_accounting_json (ex_accounting_policy e)),
     (''cost_policy'', cost_json (ex_cost_policy e)), (''risk_policy'', exp_risk_json (ex_risk_policy e)),
     (''metrics_policy'', exp_metrics_json (ex_metrics_policy e)),
     (''partitions'', JArr (map partition_json (ex_partitions e))),
     (''walk_forward_windows'', JArr (map window_json (ex_walk_forward_windows e))),
     (''missing_data_policy'', JStr (ex_missing_data_policy e)),
     (''random_seed'', null_or JInt (ex_random_seed e))]"

definition experiment_json :: "experiment_spec \<Rightarrow> json" where
  "experiment_json e = JObj (identity_fields e @ [(''experiment_id'', JStr (ex_experiment_id e))])"

definition experiment_identity :: "env \<Rightarrow> experiment_spec \<Rightarrow> string" where
  "experiment_identity env e =
     env_uuid5 env experiment_namespace (canonical_json (env_float env) (JObj (identity_fields e)))"

text \<open>The sections of a document, in the order in which they are read; the identity is still empty.\<close>

definition normalize_sections :: "(string \<times> json) list \<Rightarrow> experiment_spec result" where
  "normalize_sections ob =
     bindR (field_of (date_range ''period'') ob ''period'') (\<lambda>period.
     bindR (field_of exp_inputs ob ''inputs'') (\<lambda>refs.
     bindR (field_of exp_benchmark ob ''benchmark'') (\<lambda>(benchmark_id, benchmark_currency).
     bindR (field_of exp_strategy ob ''strategy'') (\<lambda>strategy.
     bindR (field_of exp_universe ob ''universe'') (\<lambda>universe.
     bindR (field_of exp_decision ob ''decision_policy'') (\<lambda>delay.
     bindR (field_of exp_accounting ob ''accounting_policy'') (\<lambda>accounting.
     bindR (field_of exp_cost ob ''cost_policy'') (\<lambda>cost.
     bindR (field_of exp_risk ob ''risk_policy'') (\<lambda>risk.
     bindR (field_of (exp_metrics (map r_kind refs)) ob ''metrics_policy'') (\<lambda>metrics.
     bindR (field_of (exp_partitions period) ob ''partitions'') (\<lambda>partitions.
     bindR (exp_windows period (dget ob ''walk_forward_windows'' JNull)) (\<lambda>windows.
     bindR (ensure (map_of ob ''schema_version'' = Some (JStr experiment_schema_version))
              (Exn BacktestSpecError ''unsupported experiment schema_version'')) (\<lambda>_.
     bindR (field_of (exp_choice [''reject_trade'', ''halt_experiment''] ''missing_data_policy is unsupported'')
              ob ''missing_data_policy'') (\<lambda>missing.
     bindR (exp_seed (dget ob ''random_seed'' JNull)) (\<lambda>seed.
     Inr \<lparr>ex_experiment_id = [], ex_strategy = strategy, ex_period = period, ex_universe = universe,
        ex_inputs = refs, ex_benchmark_security_id = benchmark_id, ex_benchmark_currency = benchmark_currency,
        ex_signal_delay = delay, ex_accounting_policy = accounting, ex_cost_policy = cost, ex_risk_policy = risk,
        ex_metrics_policy = metrics, ex_partitions = partitions, ex_walk_forward_windows = windows,
        ex_missing_data_policy = missing, ex_random_seed = seed\<rparr>)))))))))))))))"

definition normalize_experiment_spec :: "env \<Rightarrow> bool \<Rightarrow> json \<Rightarrow> experiment_spec result" where
  "normalize_experiment_spec env require_id v =
     (case v of JObj ob \<Rightarrow>
        (let unknown = sorted_set (filter (\<lambda>k. k \<notin> set experiment_fields) (jkeys ob));
             missing = sorted_set (filter (\<lambda>k. k \<notin> set optional_fields \<and> k \<notin> set (jkeys ob)) experiment_fields) in
     bindR (ensure (unknown = [])
              (Exn BacktestSpecError (''experiment specification has unknown fields: '' @ join_comma unknown))) (\<lambda>_.
     bindR (ensure (missing = [])
              (Exn BacktestSpecError (''experiment specification is missing fields: '' @ join_comma missing))) (\<lambda>_.
     bindR (normalize_sections ob) (\<lambda>e.
     bindR (case map_of ob ''experiment_id'' of
              Some w \<Rightarrow> bindR (exp_uuid ''experiment_id'' w) (\<lambda>s. Inr (Some s))
            | None \<Rightarrow> if require_id then exp_error ''experiment_id is required'' else Inr None) (\<lambda>given.
     (let expected_id = experiment_identity env e in
     bindR (ensure (given = None \<or> given = Some expected_id)
              (Exn BacktestSpecError ''experiment_id does not match the canonical specification'')) (\<lambda>_.
     Inr (e\<lparr>ex_experiment_id := expected_id\<rparr>))))))))
      | _ \<Rightarrow> exp_error ''experiment specification must be an object'')"

definition build_experiment_spec :: "env \<Rightarrow> json \<Rightarrow> experiment_spec result" where
  "build_experiment_spec env v = normalize_experiment_spec env False v"

text \<open>\<open>except BacktestSpecError as error: raise BacktestSpecValidationError(str(error))\<close>\<close>

definition validate_experiment_spec :: "env \<Rightarrow> json \<Rightarrow> experiment_spec result" where
  "validate_experiment_spec env v =
     (case normalize_experiment_spec env True v of
        Inl (Exn BacktestSpecError m) \<Rightarrow> raise BacktestSpecValidationError m | r \<Rightarrow> r)"

definition experiment_sha256 :: "env \<Rightarrow> json \<Rightarrow> string result" where
  "experiment_sha256 env v =
     bindR (validate_experiment_spec env v) (\<lambda>e.
     Inr (env_sha256 env (canonical_json (env_float env) (experiment_json e) @ [CHR 0x0A])))"

definition experiment_input_fingerprint :: "env \<Rightarrow> json \<Rightarrow> string result" where
  "experiment_input_fingerprint env v =
     bindR (validate_experiment_spec env v) (\<lambda>e.
     Inr (json_sha256 env (JArr (map exp_reference_json (ex_inputs e)))))"

section \<open>The store of specifications\<close>

text \<open>
  The experiments root: the documents by path. A file counts as the same if it has the same canonical text.
\<close>

definition spec_path :: "string \<Rightarrow> string" where
  "spec_path experiment_id = ''experiment-'' @ experiment_id @ ''/spec.json''"

definition write_experiment_spec :: "env \<Rightarrow> json \<Rightarrow> ((string, json) dict, string) prog" where
  "write_experiment_spec env v files =
     (case validate_experiment_spec env v of
        Inl x \<Rightarrow> (Inl x, files)
      | Inr e \<Rightarrow>
          (let path = spec_path (ex_experiment_id e); doc = experiment_json e in
           case map_of files path of
             Some existing \<Rightarrow>
               if canonical_json (env_float env) existing \<noteq> canonical_json (env_float env) doc
               then (raise BacktestSpecConflictError (''experiment identity already contains different bytes: '' @ path), files)
               else (Inr path, files)
           | None \<Rightarrow> (Inr path, dset path doc files)))"

text \<open>The specification and the hash of the bytes of its file.\<close>

definition read_experiment_spec :: "env \<Rightarrow> string \<Rightarrow> (string, json) dict \<Rightarrow> (experiment_spec \<times> string) result" where
  "read_experiment_spec env path files =
     (case map_of files path of
        None \<Rightarrow> raise BacktestSpecValidationError (''invalid experiment JSON '' @ path)
      | Some doc \<Rightarrow>
     bindR (case doc of JObj _ \<Rightarrow> Inr () | _ \<Rightarrow>
              raise BacktestSpecValidationError (''experiment JSON '' @ path @ '' must be an object'')) (\<lambda>_.
     bindR (validate_experiment_spec env doc) (\<lambda>e.
     Inr (e, env_sha256 env (canonical_json (env_float env) doc @ [CHR 0x0A])))))"

end
