(* ===== verification/Backtest.thy ===== *)
theory Backtest
  imports Experiment Portfolio
begin

text \<open>
  The simulation of \<open>research/backtest.py\<close>: its point-in-time lookups, corporate actions, orders, fills,
  cash and valuation, session by session. The engine's state is private to one run and an exception ends
  the run, so every operation is a function from a state to a new state or an exception. Order, fill,
  ledger, holding and NAV rows are the JSON objects that the code appends.
\<close>

section \<open>State\<close>

type_synonym row = "(string \<times> json) list"

record pending_order =
  po_index :: nat
  po_security_id :: string
  po_side :: string
  po_quantity :: dec
  po_execution_date :: date
  po_currency :: string

record bt_state =
  bs_cash :: "(string, dec) dict"
  bs_quantities :: "(string, dec) dict"
  bs_security_currency :: "(string, string) dict"
  bs_orders :: "row list"
  bs_fills :: "row list"
  bs_ledger :: "row list"
  bs_pending :: "pending_order list"
  bs_processed_actions :: "string list"
  bs_hold_weights :: "(string, dec) dict"
  bs_hold_initialized :: bool
  bs_last_decision_date :: "date option"
  bs_last_nav :: dec
  bs_benchmark_units :: "dec option"
  bs_benchmark_value_start :: "dec option"
  bs_next_ledger_sequence :: int
  bs_total_fee_base :: dec
  bs_total_spread_base :: dec
  bs_total_slippage_base :: dec
  bs_total_tax_base :: dec
  bs_total_gross_base :: dec
  bs_cost_by_session :: "(date, dec) dict"
  bs_rejected_trade_count :: int
  bs_out_of_market_sessions :: int

abbreviation ex_base_currency :: "experiment_spec \<Rightarrow> string" where
  "ex_base_currency spec \<equiv> ba_base_currency (ex_accounting_policy spec)"

definition initial_state :: "(string, dec) dict \<Rightarrow> bt_state" where
  "initial_state cash = \<lparr>bs_cash = cash, bs_quantities = [], bs_security_currency = [], bs_orders = [], bs_fills = [],
     bs_ledger = [], bs_pending = [], bs_processed_actions = [], bs_hold_weights = [], bs_hold_initialized = False,
     bs_last_decision_date = None, bs_last_nav = 0, bs_benchmark_units = None, bs_benchmark_value_start = None,
     bs_next_ledger_sequence = 1, bs_total_fee_base = 0, bs_total_spread_base = 0, bs_total_slippage_base = 0,
     bs_total_tax_base = 0, bs_total_gross_base = 0, bs_cost_by_session = [], bs_rejected_trade_count = 0,
     bs_out_of_market_sessions = 0\<rparr>"

definition bt_order_namespace :: string where
  "bt_order_namespace = ''f8e338fb-fb10-59c6-a9b9-87ad4ddbf99d''"

definition bt_fill_namespace :: string where
  "bt_fill_namespace = ''c5128a3c-e7ae-5227-ae1d-9feaa14f6d4e''"

section \<open>Lookups\<close>

definition bt_date_partition :: "experiment_spec \<Rightarrow> date \<Rightarrow> partition result" where
  "bt_date_partition spec session_date =
     (case find (\<lambda>p. pa_start_date p \<le> isoformat session_date \<and> isoformat session_date \<le> pa_end_date p) (ex_partitions spec) of
        Some p \<Rightarrow> Inr p
      | None \<Rightarrow> raise BacktestError (''session '' @ isoformat session_date @ '' is outside all experiment partitions''))"

definition bt_price_row :: "inputs \<Rightarrow> string \<Rightarrow> date \<Rightarrow> datetime \<Rightarrow> price_row option" where
  "bt_price_row inp security_id session_date as_of =
     (case find (\<lambda>row. p_security_id row = security_id \<and> p_session_date row = session_date) (i_prices inp) of
        Some row \<Rightarrow> if p_available_at row \<le> as_of then Some row else None
      | None \<Rightarrow> None)"

definition bt_membership_state :: "inputs \<Rightarrow> string \<Rightarrow> date \<Rightarrow> datetime \<Rightarrow> bool option result" where
  "bt_membership_state inp security_id session_date decision_at =
     (let candidates = sort_key (\<lambda>row. (m_available_at row, m_revision row))
            (filter (\<lambda>row. m_security_id row = security_id \<and> m_valid_from row \<le> session_date
               \<and> (case m_valid_until row of None \<Rightarrow> True | Some u \<Rightarrow> session_date < u)
               \<and> m_available_at row \<le> decision_at) (i_membership inp)) in
     if candidates = [] then Inr None
     else (let top = last candidates;
               leaders = filter (\<lambda>row. (m_available_at row, m_revision row) = (m_available_at top, m_revision top)) candidates in
          if length (remdups (map m_member leaders)) \<noteq> 1
          then raise BacktestInputError (''membership has conflicting equal-ranked assertions for ''
                 @ security_id @ '' on '' @ isoformat session_date)
          else Inr (Some (m_member (last leaders)))))"

definition bt_fx_rate :: "nat \<Rightarrow> inputs \<Rightarrow> string \<Rightarrow> string \<Rightarrow> datetime \<Rightarrow> dec result" where
  "bt_fx_rate p inp source target as_of =
     (if source = target then Inr 1
      else (let usable = (\<lambda>base quote row. f_base_currency row = base \<and> f_quote_currency row = quote
                 \<and> f_fixing_at row \<le> as_of \<and> f_available_at row \<le> as_of) in
        bindR (mapR (\<lambda>row. bindR (ddiv p 1 (f_rate row)) (\<lambda>r. Inr (f_fixing_at row, r)))
                 (filter (usable target source) (i_fx inp))) (\<lambda>inverse.
        (let direct = map (\<lambda>row. (f_fixing_at row, f_rate row)) (filter (usable source target) (i_fx inp));
             candidates = sort_key fst (direct @ inverse) in
        if candidates = []
        then raise BacktestMissingDataError (''no point-in-time FX rate supports '' @ source @ ''->'' @ target
               @ '' at '' @ timestamp as_of)
        else (let latest_at = fst (last candidates);
                  latest = map snd (filter (\<lambda>c. fst c = latest_at) candidates) in
             if length (remdups latest) \<noteq> 1
             then raise BacktestInputError (''conflicting FX rates support '' @ source @ ''->'' @ target
                    @ '' at '' @ str_datetime latest_at)
             else if hd latest \<le> 0 then raise BacktestInputError ''FX rates must be positive''
             else Inr (hd latest))))))"

definition bt_convert :: "inputs \<Rightarrow> dec \<Rightarrow> string \<Rightarrow> string \<Rightarrow> datetime \<Rightarrow> dec result" where
  "bt_convert inp value_local source target as_of =
     bindR (bt_fx_rate wide inp source target as_of) (\<lambda>rate. Inr (dmul wide value_local rate))"

section \<open>Sessions, members and signals\<close>

definition bt_calendar_sessions :: "experiment_spec \<Rightarrow> inputs \<Rightarrow> session list result" where
  "bt_calendar_sessions spec inp =
     bindR (account_date (fst (ex_period spec))) (\<lambda>start.
     bindR (account_date (snd (ex_period spec))) (\<lambda>end_date.
     (let sessions = filter (\<lambda>row. start \<le> s_session_date row \<and> s_session_date row \<le> end_date) (i_calendar inp) in
     if sessions = []
     then raise BacktestMissingDataError ''calendar has no sessions inside the experiment period''
     else bindR (mapR (\<lambda>row. ensure (\<not> s_open_at row < s_available_at row)
                   (Exn BacktestMissingDataError (''calendar session '' @ isoformat (s_session_date row)
                     @ '' is not available by its open''))) sessions) (\<lambda>_.
          bindR (mapR (\<lambda>row. bt_date_partition spec (s_session_date row)) sessions) (\<lambda>covered.
          (let missing = filter (\<lambda>k. k \<notin> set (map pa_kind covered)) partition_kinds in
          bindR (ensure (missing = []) (Exn BacktestMissingDataError
                   (''experiment partitions have no exchange sessions: '' @ join_comma missing))) (\<lambda>_.
          Inr sessions)))))))"

definition bt_active_members :: "experiment_spec \<Rightarrow> inputs \<Rightarrow> session \<Rightarrow> string list result" where
  "bt_active_members spec inp sess =
     bindR (mapR (\<lambda>security_id.
        bindR (bt_membership_state inp security_id (s_session_date sess) (s_close_at sess)) (\<lambda>st.
        case st of
          None \<Rightarrow> raise BacktestMissingDataError (''historical membership is unavailable for ''
                    @ security_id @ '' on '' @ isoformat (s_session_date sess))
        | Some member \<Rightarrow>
            Inr (security_id, member \<and> bt_price_row inp security_id (s_session_date sess) (s_close_at sess) \<noteq> None)))
       (un_security_ids (ex_universe spec))) (\<lambda>states.
     Inr (sort (map fst (filter snd states))))"

definition bt_momentum_targets ::
  "experiment_spec \<Rightarrow> inputs \<Rightarrow> session list \<Rightarrow> nat \<Rightarrow> string list \<Rightarrow> (string, dec) dict result" where
  "bt_momentum_targets spec inp sessions index active =
     bindR (session_at sessions index) (\<lambda>sess.
     (let ids = sorted_set active;
          history = map (\<lambda>security_id. (security_id,
            map (\<lambda>s. map_option p_close (bt_price_row inp security_id (s_session_date s) (s_close_at sess)))
              (take (Suc index) sessions))) ids
      in baseline_targets ''momentum_12_1'' ids (Some history) (Some index)
           (Some (st_parameters (ex_strategy spec)))))"

definition bt_rebalance_due :: "experiment_spec \<Rightarrow> session \<Rightarrow> date option \<Rightarrow> bool" where
  "bt_rebalance_due spec sess previous =
     (case previous of
        None \<Rightarrow> True
      | Some prev \<Rightarrow>
          (if st_name (ex_strategy spec) = ''buy_and_hold'' then False
           else (let frequency = (case pm_rebalance_frequency (st_parameters (ex_strategy spec)) of
                      None \<Rightarrow> ''daily'' | Some f \<Rightarrow> f)
                 in frequency = ''daily'' \<or> dt_month (s_session_date sess) \<noteq> dt_month prev)))"

text \<open>A held security that is no longer active exits; one that is kept is targeted at its current weight.\<close>

definition bt_hold_step ::
  "experiment_spec \<Rightarrow> inputs \<Rightarrow> session \<Rightarrow> bt_state \<Rightarrow> string list \<Rightarrow> bool \<Rightarrow> (string, dec) dict \<Rightarrow> string \<times> dec
    \<Rightarrow> (string, dec) dict result" where
  "bt_hold_step spec inp sess st active keeping targets = (\<lambda>(security_id, quantity).
     if 0 < quantity \<and> security_id \<notin> set active then Inr (dset security_id 0 targets)
     else if 0 < quantity \<and> keeping
     then (case bt_price_row inp security_id (s_session_date sess) (s_close_at sess) of
             None \<Rightarrow> raise BacktestMissingDataError (''missing close for held security ''
                       @ security_id @ '' on '' @ isoformat (s_session_date sess))
           | Some row \<Rightarrow>
               bindR (bt_convert inp (dmul prec quantity (p_close row)) (p_currency row)
                        (ex_base_currency spec) (s_close_at sess)) (\<lambda>current_value.
               bindR (ddiv prec current_value (bs_last_nav st)) (\<lambda>weight.
               Inr (dset security_id weight targets))))
     else Inr targets)"

definition bt_signal ::
  "experiment_spec \<Rightarrow> inputs \<Rightarrow> session list \<Rightarrow> nat \<Rightarrow> bt_state \<Rightarrow> string list \<Rightarrow> bool
    \<Rightarrow> ((string, dec) dict \<times> bt_state) result" where
  "bt_signal spec inp sessions index st active due =
     (let name = st_name (ex_strategy spec) in
      if name = ''buy_and_hold'' then
        (if \<not> bs_hold_initialized st then
           (let selected = sorted_set active;
                weights = map (\<lambda>s. (s, dquot prec 1 (of_nat (length selected)))) selected
            in Inr (weights, st\<lparr>bs_hold_weights := weights, bs_hold_initialized := True\<rparr>))
         else Inr ([], st))
      else if due then
        (if name = ''momentum_12_1''
         then bindR (bt_momentum_targets spec inp sessions index active) (\<lambda>ts. Inr (ts, st))
         else bindR (baseline_targets ''equal_weight'' (sorted_set active) None None None) (\<lambda>ts. Inr (ts, st)))
      else Inr ([], st))"

definition bt_check_limits :: "experiment_spec \<Rightarrow> (string, dec) dict \<Rightarrow> unit result" where
  "bt_check_limits spec targets =
     bindR (ensure (list_all (\<lambda>(_, weight). \<not> (weight < 0 \<or> dec_text (br_max_position_weight (ex_risk_policy spec)) < weight)) targets)
              (Exn BacktestError ''strategy target exceeds max_position_weight'')) (\<lambda>_.
     ensure (\<not> dec_text (br_max_gross_exposure (ex_risk_policy spec)) < dsum prec (map snd targets))
       (Exn BacktestError ''strategy target exceeds max_gross_exposure''))"

definition bt_target_weights ::
  "experiment_spec \<Rightarrow> inputs \<Rightarrow> session list \<Rightarrow> nat \<Rightarrow> bt_state \<Rightarrow> ((string, dec) dict \<times> bt_state) result" where
  "bt_target_weights spec inp sessions index st =
     bindR (session_at sessions index) (\<lambda>sess.
     bindR (bt_active_members spec inp sess) (\<lambda>active.
     (let name = st_name (ex_strategy spec);
          due = bt_rebalance_due spec sess (bs_last_decision_date st);
          initializing_hold = (name = ''buy_and_hold'' \<and> \<not> bs_hold_initialized st) in
     bindR (bt_signal spec inp sessions index st active due) (\<lambda>(signal, st1).
     bindR (foldR (bt_hold_step spec inp sess st1 active (\<not> due \<and> \<not> initializing_hold)) signal (bs_quantities st1)) (\<lambda>targets.
     bindR (if due \<or> name = ''buy_and_hold'' \<or> list_ex (\<lambda>(_, w). w = 0) targets
            then bt_check_limits spec targets else Inr ()) (\<lambda>_.
     Inr (targets, st1\<lparr>bs_last_decision_date := Some (s_session_date sess)\<rparr>)))))))"

text \<open>The change of the holding that a weight asks for, and its side; nothing for no change.\<close>

definition bt_order_quantity ::
  "experiment_spec \<Rightarrow> inputs \<Rightarrow> bt_state \<Rightarrow> string \<Rightarrow> dec \<Rightarrow> session \<Rightarrow> ((dec \<times> string) option \<times> bt_state) result" where
  "bt_order_quantity spec inp st security_id target_weight sess =
     (let current = dget (bs_quantities st) security_id 0 in
      case bt_price_row inp security_id (s_session_date sess) (s_close_at sess) of
        None \<Rightarrow>
          if 0 < current
          then raise BacktestMissingDataError (''no point-in-time close supports an exit decision for ''
                 @ security_id @ '' on '' @ isoformat (s_session_date sess))
          else Inr (None, st)
      | Some row \<Rightarrow>
          (let st1 = st\<lparr>bs_security_currency := dset security_id (p_currency row) (bs_security_currency st)\<rparr> in
     bindR (bt_convert inp (dmul prec (bs_last_nav st) target_weight) (ex_base_currency spec) (p_currency row)
              (s_close_at sess)) (\<lambda>target_value_local.
     bindR (ddiv prec target_value_local (p_close row)) (\<lambda>q.
     (let target_quantity = (if ba_fractional_shares (ex_accounting_policy spec) then q else round_down q);
          delta = dsub prec target_quantity current
      in Inr (if delta = 0 then None else Some (dabs prec delta, if 0 < delta then ''buy'' else ''sell''), st1))))))"

section \<open>The ledger\<close>

definition bt_ledger_row ::
  "int \<Rightarrow> date \<Rightarrow> datetime \<Rightarrow> string \<Rightarrow> string \<Rightarrow> dec \<Rightarrow> dec \<Rightarrow> string \<Rightarrow> string option \<Rightarrow> dec option \<Rightarrow> dec option \<Rightarrow> row" where
  "bt_ledger_row sequence session_date event_at event_type currency amount_local amount_base note security_id quantity price =
     [(''sequence'', JInt sequence), (''session_date'', JStr (isoformat session_date)),
      (''event_at'', JStr (timestamp event_at)), (''event_type'', JStr event_type), (''currency'', JStr currency),
      (''amount_local'', JStr (decimal_string amount_local)), (''amount_base'', JStr (decimal_string amount_base)),
      (''note'', JStr note)]
     @ (case security_id of None \<Rightarrow> [] | Some s \<Rightarrow> [(''security_id'', JStr s)])
     @ (case quantity of None \<Rightarrow> [] | Some q \<Rightarrow> [(''quantity'', JStr (decimal_string q))])
     @ (case price of None \<Rightarrow> [] | Some p \<Rightarrow> [(''price'', JStr (decimal_string p))])"

definition bt_ledger ::
  "date \<Rightarrow> datetime \<Rightarrow> string \<Rightarrow> string \<Rightarrow> dec \<Rightarrow> dec \<Rightarrow> string \<Rightarrow> string option \<Rightarrow> dec option \<Rightarrow> dec option
    \<Rightarrow> bt_state \<Rightarrow> bt_state" where
  "bt_ledger session_date event_at event_type currency amount_local amount_base note security_id quantity price st =
     st\<lparr>bs_ledger := bs_ledger st @ [bt_ledger_row (bs_next_ledger_sequence st) session_date event_at event_type currency
          amount_local amount_base note security_id quantity price],
        bs_next_ledger_sequence := bs_next_ledger_sequence st + 1\<rparr>"

text \<open>An amount added to the cash in a currency.\<close>

definition bt_add_cash :: "string \<Rightarrow> dec \<Rightarrow> bt_state \<Rightarrow> bt_state" where
  "bt_add_cash currency v st =
     st\<lparr>bs_cash := dset currency (dadd prec (dget (bs_cash st) currency 0) v) (bs_cash st)\<rparr>"

definition bt_set_quantity :: "string \<Rightarrow> dec \<Rightarrow> bt_state \<Rightarrow> bt_state" where
  "bt_set_quantity security_id q st = st\<lparr>bs_quantities := dset security_id q (bs_quantities st)\<rparr>"

section \<open>Corporate actions\<close>

definition bt_action_rank :: "action_row \<Rightarrow> nat" where
  "bt_action_rank a = (case a_action_type a of Split \<Rightarrow> 0 | CashDividend \<Rightarrow> 1 | Delisting \<Rightarrow> 2)"

definition bt_action_events :: "inputs \<Rightarrow> date \<Rightarrow> action_row list" where
  "bt_action_events inp session_date =
     sort_key (\<lambda>a. (bt_action_rank a, a_id a))
       (filter (\<lambda>a. (a_action_type a = CashDividend \<and> a_payment_date a = Some session_date)
          \<or> (a_action_type a \<noteq> CashDividend \<and> a_effective_date a = session_date)) (i_corporate_actions inp))"

definition bt_processed :: "action_row \<Rightarrow> bt_state \<Rightarrow> bt_state" where
  "bt_processed a st = st\<lparr>bs_processed_actions := List.insert (a_id a) (bs_processed_actions st)\<rparr>"

text \<open>The currency of a holding that an action names, read from the open if no close has shown it yet.\<close>

definition bt_known_currency :: "inputs \<Rightarrow> session \<Rightarrow> action_row \<Rightarrow> bt_state \<Rightarrow> bt_state result" where
  "bt_known_currency inp sess a st =
     (let security_id = a_security_id a;
          known = (case map_of (bs_security_currency st) security_id of
              Some c \<Rightarrow> c
            | None \<Rightarrow> (case bt_price_row inp security_id (s_session_date sess) (s_open_at sess) of
                  Some row \<Rightarrow> p_currency row | None \<Rightarrow> a_currency a));
          st1 = (case map_of (bs_security_currency st) security_id of
              Some _ \<Rightarrow> st
            | None \<Rightarrow> st\<lparr>bs_security_currency := dset security_id known (bs_security_currency st)\<rparr>)
      in if known \<noteq> a_currency a
         then raise BacktestInputError (''action '' @ a_id a @ '' currency disagrees with security price currency'')
         else Inr st1)"

text \<open>
  The effect of an action on a positive holding. The note of a split prints the ratio as \<open>str\<close> does, with the
  trailing zeros of the document, which a decimal of the model does not carry: the text is an argument.
\<close>

definition bt_action_effect ::
  "(action_row \<Rightarrow> string) \<Rightarrow> experiment_spec \<Rightarrow> inputs \<Rightarrow> session \<Rightarrow> action_row \<Rightarrow> dec \<Rightarrow> bt_state \<Rightarrow> bt_state result" where
  "bt_action_effect ratio_text spec inp sess a quantity st =
     (let security_id = a_security_id a; currency = a_currency a; day = s_session_date sess; open_at = s_open_at sess in
      case a_action_type a of
        Split \<Rightarrow>
          bindR (ddiv prec (a_ratio_numerator a) (a_ratio_denominator a)) (\<lambda>factor.
          Inr (bt_ledger day open_at ''split'' currency 0 0 (''split '' @ ratio_text a) (Some security_id)
                 (Some (dmul prec quantity (dsub prec factor 1))) None
                 (bt_set_quantity security_id (dmul prec quantity factor) st)))
      | CashDividend \<Rightarrow>
          (let paid = dmul prec quantity (a_cash_amount a) in
          bindR (bt_convert inp paid currency (ex_base_currency spec) open_at) (\<lambda>paid_base.
          Inr (bt_ledger day open_at ''dividend'' currency paid paid_base (''cash dividend '' @ a_id a) (Some security_id)
                 (Some quantity) (Some (a_cash_amount a)) (bt_add_cash currency paid st))))
      | Delisting \<Rightarrow>
          (case a_settlement_price a of
             None \<Rightarrow> raise BacktestMissingDataError (''delisting '' @ a_id a @ '' has no settlement price'')
           | Some settlement \<Rightarrow>
               (let paid = dmul prec quantity settlement in
               bindR (bt_convert inp paid currency (ex_base_currency spec) open_at) (\<lambda>paid_base.
               Inr (bt_ledger day open_at ''delisting'' currency paid paid_base (''delisting settlement '' @ a_id a)
                      (Some security_id) (Some (dneg prec quantity)) (Some settlement)
                      (bt_set_quantity security_id 0 (bt_add_cash currency paid st)))))))"

definition bt_apply_action ::
  "(action_row \<Rightarrow> string) \<Rightarrow> experiment_spec \<Rightarrow> inputs \<Rightarrow> session \<Rightarrow> bt_state \<Rightarrow> action_row \<Rightarrow> bt_state result" where
  "bt_apply_action ratio_text spec inp sess st a =
     (if a_id a \<in> set (bs_processed_actions st) then Inr st
      else (let quantity = dget (bs_quantities st) (a_security_id a) 0 in
        if s_open_at sess < a_available_at a then
          (if 0 < quantity
           then raise BacktestMissingDataError (''corporate action '' @ a_id a @ '' is not available by its economic event'')
           else Inr (bt_processed a st))
        else if 0 < quantity then
          bindR (bt_known_currency inp sess a st) (\<lambda>st1.
          bindR (bt_action_effect ratio_text spec inp sess a quantity st1) (\<lambda>st2.
          Inr (bt_processed a st2)))
        else Inr (bt_processed a st)))"

definition bt_apply_actions ::
  "(action_row \<Rightarrow> string) \<Rightarrow> experiment_spec \<Rightarrow> inputs \<Rightarrow> session \<Rightarrow> bt_state \<Rightarrow> bt_state result" where
  "bt_apply_actions ratio_text spec inp sess st =
     foldR (bt_apply_action ratio_text spec inp sess) st (bt_action_events inp (s_session_date sess))"

section \<open>Costs and the terms of a fill\<close>

definition bt_costs :: "experiment_spec \<Rightarrow> dec \<Rightarrow> dec \<times> dec \<times> dec \<times> dec" where
  "bt_costs spec gross =
     (let policy = ex_cost_policy spec;
          commission = max (dadd prec (dquot prec (dmul prec gross (dec_text (cp_commission_bps policy))) 10000)
                              (dec_text (cp_fixed_fee policy)))
                         (dec_text (cp_minimum_fee policy));
          spread = dquot prec (dmul prec gross (dec_text (cp_spread_bps policy))) 20000;
          slippage = dquot prec (dmul prec gross (dec_text (cp_slippage_bps policy))) 10000;
          tax = dquot prec (dmul prec gross (dec_text (cp_tax_bps policy))) 10000
      in (commission, spread, slippage, tax))"

definition bt_fill_price :: "experiment_spec \<Rightarrow> price_row \<Rightarrow> string \<Rightarrow> dec" where
  "bt_fill_price spec row side =
     (let policy = ex_cost_policy spec;
          spread_rate = dquot prec (dec_text (cp_spread_bps policy)) 20000;
          slippage_rate = dquot prec (dec_text (cp_slippage_bps policy)) 10000;
          direction = (if side = ''buy'' then 1 else - 1)
      in dmul prec (p_open row) (dadd prec 1 (dmul prec direction (dadd prec spread_rate slippage_rate))))"

definition bt_fill_terms ::
  "experiment_spec \<Rightarrow> price_row \<Rightarrow> string \<Rightarrow> dec \<Rightarrow> dec \<times> dec \<times> dec \<times> dec \<times> dec \<times> dec" where
  "bt_fill_terms spec row side quantity =
     (let (commission, spread, slippage, tax) = bt_costs spec (dmul prec (p_open row) quantity);
          fill_price = bt_fill_price spec row side
      in (fill_price, dmul prec fill_price quantity, commission, spread, slippage, tax))"

text \<open>\<open>trade_notional + commission + tax\<close> of a buy\<close>

definition bt_buy_cost :: "experiment_spec \<Rightarrow> price_row \<Rightarrow> dec \<Rightarrow> dec" where
  "bt_buy_cost spec row quantity =
     (let (_, trade_notional, commission, _, _, tax) = bt_fill_terms spec row ''buy'' quantity
      in dadd prec (dadd prec trade_notional commission) tax)"

text \<open>The bisection: the bounds after a number of rounds.\<close>

primrec bt_bisect :: "experiment_spec \<Rightarrow> price_row \<Rightarrow> dec \<Rightarrow> nat \<Rightarrow> dec \<Rightarrow> dec \<Rightarrow> dec \<times> dec" where
  "bt_bisect spec row available 0 low high = (low, high)"
| "bt_bisect spec row available (Suc n) low high =
     (let middle = dquot prec (dadd prec low high) 2
      in if bt_buy_cost spec row middle \<le> available
         then bt_bisect spec row available n middle high
         else bt_bisect spec row available n low middle)"

definition bt_max_affordable_quantity :: "experiment_spec \<Rightarrow> price_row \<Rightarrow> dec \<Rightarrow> dec \<Rightarrow> dec" where
  "bt_max_affordable_quantity spec row quantity available =
     (let low = fst (bt_bisect spec row available 120 0 quantity)
      in if ba_fractional_shares (ex_accounting_policy spec) then low else round_down low)"

section \<open>Execution of orders\<close>

text \<open>Base cash exchanged for what a buy in another currency lacks; whether the buy is funded.\<close>

definition bt_fund_trade_currency ::
  "experiment_spec \<Rightarrow> inputs \<Rightarrow> session \<Rightarrow> string \<Rightarrow> dec \<Rightarrow> bt_state \<Rightarrow> (bool \<times> bt_state) result" where
  "bt_fund_trade_currency spec inp sess currency required_local st =
     (let base = ex_base_currency spec; open_at = s_open_at sess; day = s_session_date sess;
          available = dget (bs_cash st) currency 0;
          shortfall = dsub prec required_local available
      in if shortfall \<le> 0 then Inr (True, st)
         else if currency = base then Inr (False, st)
         else
     bindR (bt_convert inp shortfall currency base open_at) (\<lambda>required_base.
     if dget (bs_cash st) base 0 < required_base then Inr (False, st)
     else
     (let cash1 = dset currency (dadd prec available shortfall) (bs_cash st);
          cash2 = dset base (dsub prec (dget cash1 base 0) required_base) cash1;
          note = ''fund '' @ currency @ '' buy'';
          st1 = bt_ledger day open_at ''fx_conversion'' base (dneg prec required_base) (dneg prec required_base) note
                  None None None (st\<lparr>bs_cash := cash2\<rparr>)
      in bindR (bt_convert inp shortfall currency base open_at) (\<lambda>credited.
         Inr (True, bt_ledger day open_at ''fx_conversion'' currency shortfall credited note None None None st1)))))"

text \<open>The order row of a pending order, changed in place.\<close>

definition bt_update_order :: "nat \<Rightarrow> (row \<Rightarrow> row) \<Rightarrow> bt_state \<Rightarrow> bt_state result" where
  "bt_update_order i f st =
     (if i < length (bs_orders st) then Inr (st\<lparr>bs_orders := (bs_orders st)[i := f (bs_orders st ! i)]\<rparr>)
      else raise PyIndexError ''list index out of range'')"

definition bt_signed_quantity :: "string \<Rightarrow> dec \<Rightarrow> dec" where
  "bt_signed_quantity side quantity = (if side = ''buy'' then quantity else dneg prec quantity)"

definition bt_reject_order ::
  "experiment_spec \<Rightarrow> session \<Rightarrow> pending_order \<Rightarrow> string \<Rightarrow> bt_state \<Rightarrow> bt_state result" where
  "bt_reject_order spec sess y reason st =
     bindR (bt_update_order (po_index y) (dset ''status'' (JStr ''rejected'')) st) (\<lambda>st1.
     (let st2 = bt_ledger (s_session_date sess) (s_open_at sess) ''reject'' (po_currency y) 0 0 reason
            (Some (po_security_id y)) (Some (bt_signed_quantity (po_side y) (po_quantity y))) None
            (st1\<lparr>bs_rejected_trade_count := bs_rejected_trade_count st1 + 1\<rparr>)
      in if ex_missing_data_policy spec = ''halt_experiment'' then raise BacktestMissingDataError reason
         else Inr st2))"

text \<open>The cash an order may spend, in its currency.\<close>

definition bt_available_cash :: "experiment_spec \<Rightarrow> inputs \<Rightarrow> session \<Rightarrow> string \<Rightarrow> bt_state \<Rightarrow> dec result" where
  "bt_available_cash spec inp sess currency st =
     (let own = dget (bs_cash st) currency 0; base = ex_base_currency spec in
      if currency = base then Inr own
      else bindR (bt_convert inp (dget (bs_cash st) base 0) base currency (s_open_at sess)) (\<lambda>v.
           Inr (dadd prec own v)))"

text \<open>
  What an order may still fill: the quantity after the holding, the volume and the cash have cut it, or the
  reason of a rejection.
\<close>

definition bt_fillable ::
  "experiment_spec \<Rightarrow> inputs \<Rightarrow> session \<Rightarrow> pending_order \<Rightarrow> price_row \<Rightarrow> bt_state \<Rightarrow> (string + dec) result" where
  "bt_fillable spec inp sess y row st =
     (let quantity = (if po_side y = ''sell'' then min (po_quantity y) (dget (bs_quantities st) (po_security_id y) 0)
            else po_quantity y);
          max_participation = dec_text (br_max_participation (ex_risk_policy spec))
      in if po_side y = ''sell'' \<and> quantity \<le> 0
         then Inr (Inl (''no position available to sell '' @ po_security_id y))
         else if p_has_volume row \<and> dmul prec (p_volume row) max_participation < quantity
         then Inr (Inl (''participation limit rejects '' @ po_security_id y))
         else if \<not> p_has_volume row \<and> max_participation < 1
         then Inr (Inl (''volume evidence missing for '' @ po_security_id y))
         else if po_side y \<noteq> ''buy'' then Inr (Inr quantity)
         else
     bindR (bt_available_cash spec inp sess (po_currency y) st) (\<lambda>available.
     if bt_buy_cost spec row quantity \<le> available then Inr (Inr quantity)
     else (let affordable = bt_max_affordable_quantity spec row quantity available
           in if affordable \<le> 0
              then Inr (Inl (''insufficient '' @ po_currency y @ '' cash for '' @ po_security_id y))
              else Inr (Inr affordable))))"

text \<open>The holding and the cash after a fill.\<close>

definition bt_settle_fill :: "pending_order \<Rightarrow> dec \<Rightarrow> dec \<Rightarrow> dec \<Rightarrow> dec \<Rightarrow> bt_state \<Rightarrow> bt_state" where
  "bt_settle_fill y quantity trade_notional commission tax st =
     (let cash = dget (bs_cash st) (po_currency y) 0; held = dget (bs_quantities st) (po_security_id y) 0 in
      if po_side y = ''buy''
      then bt_set_quantity (po_security_id y) (dadd prec held quantity)
        (st\<lparr>bs_cash := dset (po_currency y) (dsub prec cash (dadd prec (dadd prec trade_notional commission) tax)) (bs_cash st)\<rparr>)
      else bt_set_quantity (po_security_id y) (max 0 (dsub prec held quantity))
        (st\<lparr>bs_cash := dset (po_currency y) (dsub prec (dsub prec (dadd prec cash trade_notional) commission) tax) (bs_cash st)\<rparr>))"

definition bt_order_id :: "row \<Rightarrow> string result" where
  "bt_order_id r =
     bindR (jget r ''order_id'') (\<lambda>v. case v of JStr s \<Rightarrow> Inr s | _ \<Rightarrow> raise PyTypeError ''order_id is not a string'')"

definition bt_fill_row ::
  "env \<Rightarrow> session \<Rightarrow> pending_order \<Rightarrow> price_row \<Rightarrow> string \<Rightarrow> dec \<Rightarrow> dec \<Rightarrow> dec \<Rightarrow> dec \<Rightarrow> dec \<Rightarrow> dec \<Rightarrow> dec \<Rightarrow> row" where
  "bt_fill_row env sess y row order_id quantity fill_price commission spread slippage tax gross_base =
     [(''fill_id'', JStr (env_uuid5 env bt_fill_namespace
         (order_id @ '':'' @ decimal_string quantity @ '':'' @ decimal_string fill_price))),
      (''order_id'', JStr order_id), (''execution_at'', JStr (timestamp (s_open_at sess))),
      (''execution_session'', JStr (isoformat (s_session_date sess))), (''security_id'', JStr (po_security_id y)),
      (''side'', JStr (po_side y)), (''quantity'', JStr (decimal_string quantity)),
      (''reference_price'', JStr (decimal_string (p_open row))), (''fill_price'', JStr (decimal_string fill_price)),
      (''gross_notional'', JStr (decimal_string (dmul prec (p_open row) quantity))),
      (''fee'', JStr (decimal_string commission)), (''spread_cost'', JStr (decimal_string spread)),
      (''slippage_cost'', JStr (decimal_string slippage)), (''tax'', JStr (decimal_string tax)),
      (''currency'', JStr (po_currency y)), (''base_notional'', JStr (decimal_string gross_base)),
      (''status'', JStr ''filled'')]"

text \<open>The running totals of the run, in the base currency.\<close>

definition bt_add_totals :: "date \<Rightarrow> dec \<Rightarrow> dec \<Rightarrow> dec \<Rightarrow> dec \<Rightarrow> dec \<Rightarrow> bt_state \<Rightarrow> bt_state" where
  "bt_add_totals day fee spread slippage tax gross st =
     st\<lparr>bs_total_fee_base := dadd prec (bs_total_fee_base st) fee,
        bs_total_spread_base := dadd prec (bs_total_spread_base st) spread,
        bs_total_slippage_base := dadd prec (bs_total_slippage_base st) slippage,
        bs_total_tax_base := dadd prec (bs_total_tax_base st) tax,
        bs_total_gross_base := dadd prec (bs_total_gross_base st) gross,
        bs_cost_by_session := dset day (dadd prec (dget (bs_cost_by_session st) day 0)
          (dadd prec (dadd prec (dadd prec fee spread) slippage) tax)) (bs_cost_by_session st)\<rparr>"

text \<open>The order filled: its row, the fill, the three ledger rows and the totals.\<close>

definition bt_record_fill ::
  "env \<Rightarrow> experiment_spec \<Rightarrow> inputs \<Rightarrow> session \<Rightarrow> pending_order \<Rightarrow> price_row \<Rightarrow> dec \<Rightarrow> bt_state \<Rightarrow> bt_state result" where
  "bt_record_fill env spec inp sess y row quantity st =
     (let (fill_price, trade_notional, commission, spread, slippage, tax) = bt_fill_terms spec row (po_side y) quantity;
          currency = po_currency y; day = s_session_date sess; open_at = s_open_at sess;
          to_base = (\<lambda>v. bt_convert inp v currency (ex_base_currency spec) open_at);
          sign = (if po_side y = ''sell'' then 1 else - 1) in
     bindR (bt_update_order (po_index y)
              (\<lambda>r. dset ''quantity'' (JStr (decimal_string quantity)) (dset ''status'' (JStr ''filled'') r))
              (bt_settle_fill y quantity trade_notional commission tax st)) (\<lambda>st1.
     bindR (to_base (dmul prec (p_open row) quantity)) (\<lambda>gross_base.
     bindR (to_base commission) (\<lambda>fee_base.
     bindR (to_base spread) (\<lambda>spread_base.
     bindR (to_base slippage) (\<lambda>slippage_base.
     bindR (to_base tax) (\<lambda>tax_base.
     bindR (bt_order_id (bs_orders st1 ! po_index y)) (\<lambda>order_id.
     bindR (to_base trade_notional) (\<lambda>trade_base.
     (let st2 = st1\<lparr>bs_fills := bs_fills st1
            @ [bt_fill_row env sess y row order_id quantity fill_price commission spread slippage tax gross_base]\<rparr>;
          st3 = bt_ledger day open_at ''fill'' currency (dmul prec sign trade_notional) (dmul prec sign trade_base)
            (po_side y @ '' '' @ po_security_id y) (Some (po_security_id y))
            (Some (bt_signed_quantity (po_side y) quantity)) (Some fill_price) st2;
          st4 = bt_ledger day open_at ''fee'' currency (dneg prec commission) (dneg prec fee_base)
            (''commission '' @ po_security_id y) (Some (po_security_id y)) None None st3;
          st5 = bt_ledger day open_at ''tax'' currency (dneg prec tax) (dneg prec tax_base)
            (''tax '' @ po_security_id y) (Some (po_security_id y)) None None st4
      in Inr (bt_add_totals day fee_base spread_base slippage_base tax_base gross_base st5)))))))))))"

definition bt_execute_order ::
  "env \<Rightarrow> experiment_spec \<Rightarrow> inputs \<Rightarrow> session \<Rightarrow> bt_state \<Rightarrow> pending_order \<Rightarrow> bt_state result" where
  "bt_execute_order env spec inp sess st y =
     (case bt_price_row inp (po_security_id y) (s_session_date sess) (s_open_at sess) of
        None \<Rightarrow> bt_reject_order spec sess y (''missing executable open for '' @ po_security_id y) st
      | Some row \<Rightarrow>
          if p_currency row \<noteq> po_currency y
          then raise BacktestInputError (''order currency disagrees with execution price for '' @ po_security_id y)
          else
     bindR (bt_fillable spec inp sess y row st) (\<lambda>fillable.
     case fillable of
       Inl reason \<Rightarrow> bt_reject_order spec sess y reason st
     | Inr quantity \<Rightarrow>
     bindR (if po_side y = ''buy''
            then bt_fund_trade_currency spec inp sess (po_currency y) (bt_buy_cost spec row quantity) st
            else Inr (True, st)) (\<lambda>(funded, st1).
     if \<not> funded
     then bt_reject_order spec sess y (''insufficient '' @ po_currency y @ '' cash for '' @ po_security_id y) st1
     else bt_record_fill env spec inp sess y row quantity st1)))"

definition bt_execute_orders ::
  "env \<Rightarrow> experiment_spec \<Rightarrow> inputs \<Rightarrow> session \<Rightarrow> bt_state \<Rightarrow> bt_state result" where
  "bt_execute_orders env spec inp sess st =
     (let due = filter (\<lambda>y. po_execution_date y = s_session_date sess) (bs_pending st) in
      foldR (bt_execute_order env spec inp sess)
        (st\<lparr>bs_pending := filter (\<lambda>y. po_execution_date y \<noteq> s_session_date sess) (bs_pending st)\<rparr>)
        (sort_key po_index due))"

section \<open>Valuation\<close>

definition bt_holding_row :: "session \<Rightarrow> string \<Rightarrow> dec \<Rightarrow> price_row \<Rightarrow> dec \<Rightarrow> dec \<Rightarrow> dec \<Rightarrow> row" where
  "bt_holding_row sess security_id quantity row local_value base_value weight =
     [(''session_date'', JStr (isoformat (s_session_date sess))), (''security_id'', JStr security_id),
      (''quantity'', JStr (decimal_string quantity)), (''price'', JStr (decimal_string (p_close row))),
      (''currency'', JStr (p_currency row)), (''market_value_local'', JStr (decimal_string local_value)),
      (''market_value_base'', JStr (decimal_string base_value)), (''position_weight'', JStr (decimal_string weight))]"

text \<open>The loop over the holdings carries the value so far, the rows, and the state with the currencies seen.\<close>

definition bt_mark_step ::
  "experiment_spec \<Rightarrow> inputs \<Rightarrow> session \<Rightarrow> dec \<Rightarrow> dec \<times> row list \<times> bt_state \<Rightarrow> string \<times> dec
    \<Rightarrow> (dec \<times> row list \<times> bt_state) result" where
  "bt_mark_step spec inp sess cash_value = (\<lambda>(positions_base, rows, st) (security_id, quantity).
     if quantity \<le> 0 then Inr (positions_base, rows, st)
     else (case bt_price_row inp security_id (s_session_date sess) (s_close_at sess) of
             None \<Rightarrow> raise BacktestMissingDataError (''missing point-in-time close for held security ''
                       @ security_id @ '' on '' @ isoformat (s_session_date sess))
           | Some row \<Rightarrow>
               (let local_value = dmul prec quantity (p_close row) in
               bindR (bt_convert inp local_value (p_currency row) (ex_base_currency spec) (s_close_at sess)) (\<lambda>base_value.
               (let total = dadd prec positions_base base_value in
               bindR (ddiv prec base_value (max (dadd prec cash_value total) 1)) (\<lambda>weight.
               Inr (total, rows @ [bt_holding_row sess security_id quantity row local_value base_value weight],
                    st\<lparr>bs_security_currency := dset security_id (p_currency row) (bs_security_currency st)\<rparr>)))))))"

text \<open>The second loop sets the weights by the NAV.\<close>

definition bt_reweigh :: "dec \<Rightarrow> row \<Rightarrow> row result" where
  "bt_reweigh nav r =
     bindR (jget r ''market_value_base'') (\<lambda>v.
     bindR (case v of JStr s \<Rightarrow> ddiv prec (dec_text s) nav
            | _ \<Rightarrow> raise BacktestAccountingError ''invalid decimal value'') (\<lambda>w.
     Inr (dset ''position_weight'' (JStr (decimal_string w)) r)))"

text \<open>The benchmark units are bought with the initial cash at the first mark.\<close>

definition bt_benchmark ::
  "experiment_spec \<Rightarrow> inputs \<Rightarrow> session \<Rightarrow> bt_state \<Rightarrow> (dec \<times> bt_state) result" where
  "bt_benchmark spec inp sess st =
     (case bt_price_row inp (ex_benchmark_security_id spec) (s_session_date sess) (s_close_at sess) of
        None \<Rightarrow> raise BacktestMissingDataError (''missing benchmark close on '' @ isoformat (s_session_date sess))
      | Some row \<Rightarrow>
     bindR (bt_convert inp (p_close row) (p_currency row) (ex_base_currency spec) (s_close_at sess)) (\<lambda>benchmark_value.
     bindR (if bs_benchmark_value_start st = None
            then bindR (ddiv prec (dec_text (ba_initial_cash (ex_accounting_policy spec))) benchmark_value) (\<lambda>units.
              Inr (st\<lparr>bs_benchmark_value_start := Some benchmark_value, bs_benchmark_units := Some units\<rparr>))
            else Inr st) (\<lambda>st1.
     Inr (dmul prec benchmark_value (case bs_benchmark_units st1 of None \<Rightarrow> 0 | Some u \<Rightarrow> u), st1))))"

definition bt_nav_row ::
  "session \<Rightarrow> partition \<Rightarrow> (string, dec) dict \<Rightarrow> dec \<Rightarrow> dec \<Rightarrow> dec \<Rightarrow> dec \<Rightarrow> dec \<Rightarrow> dec option \<Rightarrow> row" where
  "bt_nav_row sess p cash_by_currency cash_value positions_base nav exposure benchmark_nav reporting_nav =
     [(''session_date'', JStr (isoformat (s_session_date sess))), (''partition'', JStr (pa_name p)),
      (''decision_at'', JStr (timestamp (s_close_at sess))),
      (''cash_by_currency'', JObj (map (\<lambda>(c, v). (c, JStr (decimal_string v))) cash_by_currency)),
      (''cash_base'', JStr (decimal_string cash_value)), (''positions_value_base'', JStr (decimal_string positions_base)),
      (''nav'', JStr (decimal_string nav)), (''gross_exposure'', JStr (decimal_string exposure)),
      (''net_exposure'', JStr (decimal_string exposure)), (''benchmark_nav'', JStr (decimal_string benchmark_nav)),
      (''reporting_nav'', null_or (\<lambda>v. JStr (decimal_string v)) reporting_nav)]"

definition bt_mark ::
  "experiment_spec \<Rightarrow> inputs \<Rightarrow> session \<Rightarrow> bt_state \<Rightarrow> (row \<times> row list \<times> bt_state) result" where
  "bt_mark spec inp sess st =
     (let base = ex_base_currency spec; close_at = s_close_at sess;
          cash_by_currency = filter (\<lambda>(_, v). v \<noteq> 0) (sorted_items (bs_cash st)) in
     bindR (mapR (\<lambda>(currency, v). bt_convert inp v currency base close_at) cash_by_currency) (\<lambda>cash_values.
     (let cash_value = dsum prec cash_values in
     bindR (foldR (bt_mark_step spec inp sess cash_value) (0, [], st) (sorted_items (bs_quantities st)))
       (\<lambda>(positions_base, rows, st1).
     (let nav = dadd prec cash_value positions_base in
      if nav \<le> 0 then raise BacktestAccountingError (''NAV is not positive on '' @ isoformat (s_session_date sess))
      else
     bindR (mapR (bt_reweigh nav) rows) (\<lambda>holdings.
     bindR (bt_benchmark spec inp sess st1) (\<lambda>(benchmark_nav, st2).
     bindR (case ba_reporting_currency (ex_accounting_policy spec) of
              None \<Rightarrow> Inr None
            | Some reporting \<Rightarrow> bindR (bt_convert inp nav base reporting close_at) (\<lambda>v. Inr (Some v))) (\<lambda>reporting_nav.
     bindR (bt_date_partition spec (s_session_date sess)) (\<lambda>p.
     bindR (ddiv prec positions_base nav) (\<lambda>exposure.
     (let st3 = bt_ledger (s_session_date sess) close_at ''mark'' base positions_base positions_base ''close mark''
            None None None st2
      in Inr (bt_nav_row sess p cash_by_currency cash_value positions_base nav exposure benchmark_nav reporting_nav,
              holdings,
              st3\<lparr>bs_last_nav := nav,
                  bs_out_of_market_sessions := bs_out_of_market_sessions st3 + (if positions_base = 0 then 1 else 0)\<rparr>))))))))))))"

section \<open>Decisions\<close>

definition bt_order_row ::
  "session \<Rightarrow> date \<Rightarrow> string \<Rightarrow> string \<Rightarrow> string \<Rightarrow> dec \<Rightarrow> price_row \<Rightarrow> dec \<Rightarrow> string \<Rightarrow> row" where
  "bt_order_row sess execution_date order_id security_id side quantity row target_weight reason =
     [(''order_id'', JStr order_id), (''decision_session'', JStr (isoformat (s_session_date sess))),
      (''execution_session'', JStr (isoformat execution_date)), (''security_id'', JStr security_id),
      (''side'', JStr side), (''quantity'', JStr (decimal_string quantity)),
      (''reference_price'', JStr (decimal_string (p_close row))), (''currency'', JStr (p_currency row)),
      (''target_weight'', JStr (decimal_string target_weight)), (''reason'', JStr reason),
      (''status'', JStr ''proposed'')]"

definition bt_order_identity :: "env \<Rightarrow> experiment_spec \<Rightarrow> session \<Rightarrow> string \<Rightarrow> nat \<Rightarrow> string" where
  "bt_order_identity env spec sess security_id ordinal =
     env_uuid5 env bt_order_namespace (ex_experiment_id spec @ '':'' @ isoformat (s_session_date sess) @ '':''
       @ security_id @ '':'' @ nat_string ordinal)"

definition bt_propose_order ::
  "env \<Rightarrow> experiment_spec \<Rightarrow> inputs \<Rightarrow> session \<Rightarrow> date \<Rightarrow> (string, dec) dict \<Rightarrow> bt_state \<Rightarrow> nat \<times> string \<Rightarrow> bt_state result" where
  "bt_propose_order env spec inp sess execution_date targets st = (\<lambda>(ordinal, security_id).
     (let target_weight = dget targets security_id 0 in
     bindR (bt_membership_state inp security_id (s_session_date sess) (s_close_at sess)) (\<lambda>member_state.
     if member_state = None \<and> 0 < dget (bs_quantities st) security_id 0
     then raise BacktestMissingDataError (''historical membership is unavailable for held security ''
            @ security_id @ '' on '' @ isoformat (s_session_date sess))
     else
     bindR (bt_order_quantity spec inp st security_id target_weight sess) (\<lambda>(quantity_side, st1).
     case quantity_side of
       None \<Rightarrow> Inr st1
     | Some (quantity, side) \<Rightarrow>
         (case bt_price_row inp security_id (s_session_date sess) (s_close_at sess) of
            None \<Rightarrow> raise PyAssertionError ''''
          | Some row \<Rightarrow>
     (let order_id = bt_order_identity env spec sess security_id ordinal;
          reason = (if target_weight = 0 \<and> member_state = Some False then ''membership_exit''
            else st_name (ex_strategy spec));
          st2 = st1\<lparr>bs_orders := bs_orders st1
            @ [bt_order_row sess execution_date order_id security_id side quantity row target_weight reason]\<rparr>;
          st3 = bt_ledger (s_session_date sess) (s_close_at sess) ''order'' (p_currency row) 0 0
            (side @ '' order '' @ order_id) (Some security_id) (Some (bt_signed_quantity side quantity))
            (Some (p_close row)) st2
      in Inr (st3\<lparr>bs_pending := bs_pending st3 @ [\<lparr>po_index = length (bs_orders st1), po_security_id = security_id,
            po_side = side, po_quantity = quantity, po_execution_date = execution_date,
            po_currency = p_currency row\<rparr>]\<rparr>)))))))"

definition bt_decide ::
  "env \<Rightarrow> experiment_spec \<Rightarrow> inputs \<Rightarrow> session list \<Rightarrow> nat \<Rightarrow> bt_state \<Rightarrow> bt_state result" where
  "bt_decide env spec inp sessions index st =
     (if length sessions \<le> index + 1 then Inr st
      else
     bindR (bt_target_weights spec inp sessions index st) (\<lambda>(targets, st1).
     (let execution_date = s_session_date (sessions ! (index + 1));
          candidates = sorted_set (map fst targets @ map fst (filter (\<lambda>(_, q). 0 < q) (bs_quantities st1)))
      in foldR (bt_propose_order env spec inp (sessions ! index) execution_date targets) st1 (enumerate 0 candidates))))"

section \<open>The run\<close>

text \<open>What a run carries from session to session: the state, the NAV rows and the holding rows.\<close>

type_synonym bt_progress = "bt_state \<times> row list \<times> row list"

definition bt_session ::
  "env \<Rightarrow> (action_row \<Rightarrow> string) \<Rightarrow> experiment_spec \<Rightarrow> inputs \<Rightarrow> session list \<Rightarrow> bt_progress \<Rightarrow> nat \<Rightarrow> bt_progress result" where
  "bt_session env ratio_text spec inp sessions = (\<lambda>(st, nav_rows, holding_rows) index.
     bindR (session_at sessions index) (\<lambda>sess.
     bindR (bt_apply_actions ratio_text spec inp sess st) (\<lambda>st1.
     bindR (bt_execute_orders env spec inp sess st1) (\<lambda>st2.
     bindR (bt_mark spec inp sess st2) (\<lambda>(nav_row, holdings, st3).
     bindR (bt_decide env spec inp sessions index st3) (\<lambda>st4.
     Inr (st4, nav_rows @ [nav_row], holding_rows @ holdings)))))))"

definition bt_start :: "experiment_spec \<Rightarrow> session \<Rightarrow> bt_state" where
  "bt_start spec first_session =
     (let base = ex_base_currency spec; cash = dec_text (ba_initial_cash (ex_accounting_policy spec)) in
      bt_ledger (s_session_date first_session) (s_open_at first_session) ''initial_cash'' base cash cash ''initial cash''
        None None None (initial_state [(base, cash)]))"

text \<open>All sessions from a fresh start, without checkpoints.\<close>

definition bt_run ::
  "env \<Rightarrow> (action_row \<Rightarrow> string) \<Rightarrow> experiment_spec \<Rightarrow> inputs \<Rightarrow> session list \<Rightarrow> bt_progress result" where
  "bt_run env ratio_text spec inp sessions =
     bindR (session_at sessions 0) (\<lambda>first_session.
     foldR (bt_session env ratio_text spec inp sessions) (bt_start spec first_session, [], []) [0..<length sessions])"

end
