(* ===== verification/Backtest_Checkpoint.thy ===== *)
theory Backtest_Checkpoint
  imports Backtest
begin

text \<open>
  The checkpoints of \<open>research/backtest.py\<close>: the document of an engine state, its hash, the file that is written
  after each session, and the strict restoration. A checkpoint directory is a dictionary from file names to
  documents; a document keeps the order of its keys, where the code sorts the keys as it writes.
\<close>

section \<open>Fields\<close>

definition checkpoint_schema_version :: string where
  "checkpoint_schema_version = ''1.0.0''"

definition engine_version :: string where
  "engine_version = ''python-backtest-1.0.0''"

definition checkpoint_fields :: "string list" where
  "checkpoint_fields = [''schema_version'', ''checkpoint_sha256'', ''payload'']"

definition checkpoint_payload_fields :: "string list" where
  "checkpoint_payload_fields = [''experiment_id'', ''experiment_sha256'', ''input_fingerprint'', ''engine_version'',
     ''next_session_index'', ''state'', ''nav'', ''holdings'']"

definition checkpoint_state_fields :: "string list" where
  "checkpoint_state_fields = [''cash'', ''quantities'', ''security_currency'', ''orders'', ''fills'', ''ledger'', ''pending'',
     ''processed_actions'', ''hold_weights'', ''hold_initialized'', ''last_decision_date'', ''last_nav'',
     ''benchmark_units'', ''benchmark_value_start'', ''next_ledger_sequence'', ''total_fee_base'', ''total_spread_base'',
     ''total_slippage_base'', ''total_tax_base'', ''total_gross_base'', ''cost_by_session'', ''rejected_trade_count'',
     ''out_of_market_sessions'']"

definition checkpoint_pending_fields :: "string list" where
  "checkpoint_pending_fields = [''index'', ''security_id'', ''side'', ''quantity'', ''execution_date'', ''currency'']"

abbreviation checkpoint_error :: "string \<Rightarrow> 'a result" where
  "checkpoint_error m \<equiv> raise BacktestCheckpointError m"

section \<open>Reading single values\<close>

text \<open>The \<open>repr\<close> of a list of names without quotes or escapes in them.\<close>

definition list_repr :: "string list \<Rightarrow> string" where
  "list_repr xs = ''['' @ join '', '' (map (\<lambda>s. [CHR 0x27] @ s @ [CHR 0x27]) xs) @ '']''"

definition checkpoint_exact_fields :: "(string \<times> json) list \<Rightarrow> string list \<Rightarrow> string \<Rightarrow> unit result" where
  "checkpoint_exact_fields ob expected lab =
     ensure (set (jkeys ob) = set expected)
       (Exn BacktestCheckpointError (lab @ '' fields mismatch: missing=''
          @ list_repr (sorted_set (filter (\<lambda>k. k \<notin> set (jkeys ob)) expected)) @ '', extra=''
          @ list_repr (sorted_set (filter (\<lambda>k. k \<notin> set expected) (jkeys ob)))))"

definition checkpoint_decimal :: "string \<Rightarrow> json \<Rightarrow> dec result" where
  "checkpoint_decimal field v =
     (let malformed = checkpoint_error (field @ '' must be a canonical decimal string'') in
      case v of JStr s \<Rightarrow> (case parse_signed s of Some q \<Rightarrow> Inr q | None \<Rightarrow> malformed) | _ \<Rightarrow> malformed)"

definition checkpoint_decimal_map :: "string \<Rightarrow> json \<Rightarrow> (string, dec) dict result" where
  "checkpoint_decimal_map field v =
     (case v of
        JObj ob \<Rightarrow> foldR (\<lambda>acc (key, item).
          if key = [] then checkpoint_error (field @ '' has an invalid key'')
          else bindR (checkpoint_decimal (field @ ''.'' @ key) item) (\<lambda>q. Inr (dset key q acc))) [] ob
      | _ \<Rightarrow> checkpoint_error (field @ '' must be an object''))"

definition checkpoint_list :: "string \<Rightarrow> json \<Rightarrow> json list result" where
  "checkpoint_list field v = (case v of JArr xs \<Rightarrow> Inr xs | _ \<Rightarrow> checkpoint_error (field @ '' must be an array''))"

definition checkpoint_int :: "int \<Rightarrow> string \<Rightarrow> json \<Rightarrow> int result" where
  "checkpoint_int low m v = (case v of JInt i \<Rightarrow> if i < low then checkpoint_error m else Inr i | _ \<Rightarrow> checkpoint_error m)"

definition checkpoint_rows :: "string \<Rightarrow> json list \<Rightarrow> row list result" where
  "checkpoint_rows field items =
     mapR (\<lambda>v. case v of JObj r \<Rightarrow> Inr r | _ \<Rightarrow> checkpoint_error (''checkpoint state.'' @ field @ '' contains a non-object row'')) items"

text \<open>\<open>date.fromisoformat\<close>, as far as the writer uses it: \<open>YYYY-MM-DD\<close>.\<close>

definition checkpoint_date :: "string \<Rightarrow> json \<Rightarrow> date result" where
  "checkpoint_date m v =
     (case v of JStr s \<Rightarrow> (case parse_date s of Some d \<Rightarrow> Inr d | None \<Rightarrow> checkpoint_error m) | _ \<Rightarrow> checkpoint_error m)"

text \<open>\<open>None if value is None else parse(value)\<close>\<close>

definition checkpoint_optional :: "(json \<Rightarrow> 'a result) \<Rightarrow> json \<Rightarrow> 'a option result" where
  "checkpoint_optional parse v = (if v = JNull then Inr None else bindR (parse v) (\<lambda>x. Inr (Some x)))"

section \<open>The document of a state\<close>

definition decimals_json :: "(string, dec) dict \<Rightarrow> json" where
  "decimals_json d = JObj (map (\<lambda>(k, v). (k, JStr (decimal_string v))) (sorted_items d))"

definition pending_json :: "pending_order \<Rightarrow> json" where
  "pending_json y = JObj [(''index'', JInt (int (po_index y))), (''security_id'', JStr (po_security_id y)),
     (''side'', JStr (po_side y)), (''quantity'', JStr (decimal_string (po_quantity y))),
     (''execution_date'', JStr (isoformat (po_execution_date y))), (''currency'', JStr (po_currency y))]"

definition state_checkpoint_fields :: "bt_state \<Rightarrow> (string \<times> json) list" where
  "state_checkpoint_fields st =
     [(''cash'', decimals_json (bs_cash st)), (''quantities'', decimals_json (bs_quantities st)),
      (''security_currency'', JObj (map (\<lambda>(k, v). (k, JStr v)) (sorted_items (bs_security_currency st)))),
      (''orders'', JArr (map JObj (bs_orders st))), (''fills'', JArr (map JObj (bs_fills st))),
      (''ledger'', JArr (map JObj (bs_ledger st))),
      (''pending'', JArr (map pending_json (sort_key po_index (bs_pending st)))),
      (''processed_actions'', JArr (map JStr (sort (bs_processed_actions st)))),
      (''hold_weights'', decimals_json (bs_hold_weights st)), (''hold_initialized'', JBool (bs_hold_initialized st)),
      (''last_decision_date'', null_or (\<lambda>d. JStr (isoformat d)) (bs_last_decision_date st)),
      (''last_nav'', JStr (decimal_string (bs_last_nav st))),
      (''benchmark_units'', null_or (\<lambda>v. JStr (decimal_string v)) (bs_benchmark_units st)),
      (''benchmark_value_start'', null_or (\<lambda>v. JStr (decimal_string v)) (bs_benchmark_value_start st)),
      (''next_ledger_sequence'', JInt (bs_next_ledger_sequence st)),
      (''total_fee_base'', JStr (decimal_string (bs_total_fee_base st))),
      (''total_spread_base'', JStr (decimal_string (bs_total_spread_base st))),
      (''total_slippage_base'', JStr (decimal_string (bs_total_slippage_base st))),
      (''total_tax_base'', JStr (decimal_string (bs_total_tax_base st))),
      (''total_gross_base'', JStr (decimal_string (bs_total_gross_base st))),
      (''cost_by_session'', JObj (map (\<lambda>(d, v). (isoformat d, JStr (decimal_string v))) (sorted_items (bs_cost_by_session st)))),
      (''rejected_trade_count'', JInt (bs_rejected_trade_count st)),
      (''out_of_market_sessions'', JInt (bs_out_of_market_sessions st))]"

text \<open>What ties a checkpoint to its run.\<close>

record run_identity =
  ri_experiment_id :: string
  ri_experiment_sha256 :: string
  ri_input_fingerprint :: string

definition checkpoint_payload :: "run_identity \<Rightarrow> nat \<Rightarrow> bt_progress \<Rightarrow> (string \<times> json) list" where
  "checkpoint_payload run next_index = (\<lambda>(st, nav_rows, holding_rows).
     [(''experiment_id'', JStr (ri_experiment_id run)), (''experiment_sha256'', JStr (ri_experiment_sha256 run)),
      (''input_fingerprint'', JStr (ri_input_fingerprint run)), (''engine_version'', JStr engine_version),
      (''next_session_index'', JInt (int next_index)), (''state'', JObj (state_checkpoint_fields st)),
      (''nav'', JArr (map JObj nav_rows)), (''holdings'', JArr (map JObj holding_rows))])"

definition checkpoint_hash :: "env \<Rightarrow> (string \<times> json) list \<Rightarrow> string" where
  "checkpoint_hash env payload = env_sha256 env (canonical_json (env_float env) (JObj payload) @ [CHR 0x0A])"

definition checkpoint_document :: "env \<Rightarrow> (string \<times> json) list \<Rightarrow> json" where
  "checkpoint_document env payload = JObj [(''schema_version'', JStr checkpoint_schema_version),
     (''checkpoint_sha256'', JStr (checkpoint_hash env payload)), (''payload'', JObj payload)]"

section \<open>The directory\<close>

definition checkpoint_name :: "nat \<Rightarrow> string" where
  "checkpoint_name n = ''checkpoint-'' @ zfield 6 n @ ''.json''"

definition write_checkpoint :: "env \<Rightarrow> string \<Rightarrow> (string \<times> json) list \<Rightarrow> ((string, json) dict, string) prog" where
  "write_checkpoint env path payload files =
     (let doc = checkpoint_document env payload in
      case map_of files path of
        Some existing \<Rightarrow>
          if canonical_json (env_float env) existing \<noteq> canonical_json (env_float env) doc
          then (raise BacktestCheckpointError (''immutable checkpoint path conflicts: '' @ path), files)
          else (Inr (checkpoint_hash env payload), files)
      | None \<Rightarrow> (Inr (checkpoint_hash env payload), dset path doc files))"

text \<open>The files that \<open>checkpoint-*.json\<close> matches, and the number in a name of six digits.\<close>

definition checkpoint_file :: "string \<Rightarrow> bool" where
  "checkpoint_file name \<longleftrightarrow> 16 \<le> length name \<and> take 11 name = ''checkpoint-''
     \<and> drop (length name - 5) name = ''.json''"

definition checkpoint_number :: "string \<Rightarrow> nat option" where
  "checkpoint_number name =
     (let digits = take (length name - 16) (drop 11 name)
      in if length digits = 6 \<and> list_all is_digit digits then Some (nat_of_digits digits) else None)"

definition latest_checkpoint :: "string list \<Rightarrow> (string \<times> nat) option result" where
  "latest_checkpoint names =
     bindR (mapR (\<lambda>name. case checkpoint_number name of
        None \<Rightarrow> checkpoint_error (''checkpoint directory contains an invalid file: '' @ name)
      | Some n \<Rightarrow> Inr (name, n)) (filter checkpoint_file names)) (\<lambda>candidates.
     Inr (if candidates = [] then None
          else find (\<lambda>c. snd c = Max (set (map snd candidates))) candidates))"

section \<open>Restoration\<close>

definition restore_pending :: "nat \<times> json \<Rightarrow> pending_order result" where
  "restore_pending = (\<lambda>(i, raw).
     (let lab = index_label ''checkpoint state.pending'' i in
      case raw of
        JObj ob \<Rightarrow>
     bindR (checkpoint_exact_fields ob checkpoint_pending_fields (lab [])) (\<lambda>_.
     bindR (field_of (checkpoint_int 0 (lab ''.index is invalid'')) ob ''index'') (\<lambda>order_index.
     bindR (jget ob ''side'') (\<lambda>v.
     bindR (member_of v [''buy'', ''sell'']) (\<lambda>b.
     bindR (ensure b (Exn BacktestCheckpointError (lab ''.side is invalid''))) (\<lambda>_.
     bindR (field_of (checkpoint_date (lab ''.execution_date is invalid'')) ob ''execution_date'') (\<lambda>execution_date.
     bindR (jget ob ''security_id'') (\<lambda>security.
     bindR (field_of (checkpoint_decimal (lab ''.quantity'')) ob ''quantity'') (\<lambda>quantity.
     bindR (jget ob ''currency'') (\<lambda>currency.
     case (security, v, currency) of
       (JStr s, JStr side, JStr c) \<Rightarrow>
         Inr \<lparr>po_index = nat order_index, po_security_id = s, po_side = side, po_quantity = quantity,
            po_execution_date = execution_date, po_currency = c\<rparr>
     | _ \<Rightarrow> raise PyTypeError ''a pending order names its security and currency by strings'')))))))))
      | _ \<Rightarrow> checkpoint_error (lab '' must be an object'')))"

definition restore_currencies :: "json \<Rightarrow> (string, string) dict result" where
  "restore_currencies v =
     (let m = ''checkpoint state.security_currency must map strings to currencies'' in
      case v of
        JObj ob \<Rightarrow> mapR (\<lambda>(k, c). case c of JStr s \<Rightarrow> if s = [] then checkpoint_error m else Inr (k, s)
                        | _ \<Rightarrow> checkpoint_error m) ob
      | _ \<Rightarrow> checkpoint_error m)"

definition restore_processed :: "json list \<Rightarrow> string list result" where
  "restore_processed items =
     bindR (mapR (\<lambda>v. case v of
         JStr s \<Rightarrow> if s = [] then checkpoint_error ''checkpoint state.processed_actions contains an invalid action'' else Inr s
       | _ \<Rightarrow> checkpoint_error ''checkpoint state.processed_actions contains an invalid action'') items) (\<lambda>ids.
     bindR (ensure (distinct ids) (Exn BacktestCheckpointError ''checkpoint state.processed_actions contains duplicates'')) (\<lambda>_.
     Inr ids))"

definition restore_costs :: "json \<Rightarrow> (date, dec) dict result" where
  "restore_costs v =
     (case v of
        JObj ob \<Rightarrow> foldR (\<lambda>acc (key, item).
          bindR (checkpoint_date ''checkpoint state.cost_by_session has an invalid date'' (JStr key)) (\<lambda>d.
          bindR (checkpoint_decimal (''checkpoint state.cost_by_session.'' @ key) item) (\<lambda>q. Inr (dset d q acc)))) [] ob
      | _ \<Rightarrow> checkpoint_error ''checkpoint state.cost_by_session must be an object'')"

definition state_decimal :: "(string \<times> json) list \<Rightarrow> string \<Rightarrow> dec result" where
  "state_decimal ob field = field_of (checkpoint_decimal (''checkpoint state.'' @ field)) ob field"

definition state_count :: "(string \<times> json) list \<Rightarrow> string \<Rightarrow> int result" where
  "state_count ob field = field_of (checkpoint_int 0 (''checkpoint state.'' @ field @ '' is invalid'')) ob field"

text \<open>The first half: what is read before the NAV rows are looked at. The decimals of the totals are still unread.\<close>

definition restore_state :: "(string \<times> json) list \<Rightarrow> bt_state result" where
  "restore_state ob =
     bindR (field_of (checkpoint_decimal_map ''checkpoint state.cash'') ob ''cash'') (\<lambda>cash.
     bindR (field_of (checkpoint_decimal_map ''checkpoint state.quantities'') ob ''quantities'') (\<lambda>quantities.
     bindR (field_of (checkpoint_decimal_map ''checkpoint state.hold_weights'') ob ''hold_weights'') (\<lambda>hold_weights.
     bindR (field_of restore_currencies ob ''security_currency'') (\<lambda>security_currency.
     bindR (field_of (checkpoint_list ''checkpoint state.processed_actions'') ob ''processed_actions'') (\<lambda>processed.
     bindR (restore_processed processed) (\<lambda>processed_actions.
     bindR (field_of (checkpoint_list ''checkpoint state.pending'') ob ''pending'') (\<lambda>pending_document.
     bindR (mapR restore_pending (enumerate 0 pending_document)) (\<lambda>pending.
     bindR (field_of (checkpoint_list ''checkpoint state.orders'') ob ''orders'') (\<lambda>order_items.
     bindR (field_of (checkpoint_list ''checkpoint state.fills'') ob ''fills'') (\<lambda>fill_items.
     bindR (field_of (checkpoint_list ''checkpoint state.ledger'') ob ''ledger'') (\<lambda>ledger_items.
     bindR (checkpoint_rows ''orders'' order_items) (\<lambda>orders.
     bindR (checkpoint_rows ''fills'' fill_items) (\<lambda>fills.
     bindR (checkpoint_rows ''ledger'' ledger_items) (\<lambda>ledger.
     bindR (ensure (\<forall>y \<in> set pending. po_index y < length orders)
              (Exn BacktestCheckpointError ''checkpoint state.pending references an unknown order'')) (\<lambda>_.
     bindR (field_of (checkpoint_optional (checkpoint_date ''checkpoint state.last_decision_date is invalid''))
              ob ''last_decision_date'') (\<lambda>last_decision_date.
     bindR (field_of (\<lambda>v. case v of JBool b \<Rightarrow> Inr b
              | _ \<Rightarrow> checkpoint_error ''checkpoint state.hold_initialized must be boolean'') ob ''hold_initialized'') (\<lambda>hold_initialized.
     bindR (field_of (checkpoint_int 1 ''checkpoint state.next_ledger_sequence is invalid'') ob ''next_ledger_sequence'') (\<lambda>next_sequence.
     bindR (state_count ob ''rejected_trade_count'') (\<lambda>rejected.
     bindR (state_count ob ''out_of_market_sessions'') (\<lambda>out_of_market.
     bindR (field_of restore_costs ob ''cost_by_session'') (\<lambda>costs.
     Inr ((initial_state cash)\<lparr>bs_quantities := quantities, bs_security_currency := security_currency, bs_orders := orders,
        bs_fills := fills, bs_ledger := ledger, bs_pending := sort_key po_index pending,
        bs_processed_actions := processed_actions, bs_hold_weights := hold_weights, bs_hold_initialized := hold_initialized,
        bs_last_decision_date := last_decision_date, bs_next_ledger_sequence := next_sequence,
        bs_cost_by_session := costs, bs_rejected_trade_count := rejected,
        bs_out_of_market_sessions := out_of_market\<rparr>))))))))))))))))))))))"

text \<open>The second half: the decimals that are parsed as the state is filled.\<close>

definition restore_totals :: "(string \<times> json) list \<Rightarrow> bt_state \<Rightarrow> bt_state result" where
  "restore_totals ob st =
     bindR (state_decimal ob ''last_nav'') (\<lambda>last_nav.
     bindR (field_of (checkpoint_optional (checkpoint_decimal ''checkpoint state.benchmark_units'')) ob ''benchmark_units'') (\<lambda>units.
     bindR (field_of (checkpoint_optional (checkpoint_decimal ''checkpoint state.benchmark_value_start''))
              ob ''benchmark_value_start'') (\<lambda>value_start.
     bindR (state_decimal ob ''total_fee_base'') (\<lambda>fee.
     bindR (state_decimal ob ''total_spread_base'') (\<lambda>spread.
     bindR (state_decimal ob ''total_slippage_base'') (\<lambda>slippage.
     bindR (state_decimal ob ''total_tax_base'') (\<lambda>tax.
     bindR (state_decimal ob ''total_gross_base'') (\<lambda>gross.
     Inr (st\<lparr>bs_last_nav := last_nav, bs_benchmark_units := units, bs_benchmark_value_start := value_start,
        bs_total_fee_base := fee, bs_total_spread_base := spread, bs_total_slippage_base := slippage,
        bs_total_tax_base := tax, bs_total_gross_base := gross\<rparr>)))))))))"

definition nav_row_at :: "string \<Rightarrow> session list \<Rightarrow> nat \<times> json \<Rightarrow> row result" where
  "nav_row_at path sessions = (\<lambda>(i, v).
     case v of
       JObj r \<Rightarrow> if map_of r ''session_date'' = Some (JStr (isoformat (s_session_date (sessions ! i)))) then Inr r
                 else checkpoint_error (''checkpoint '' @ path @ '' NAV rows are not session ordered'')
     | _ \<Rightarrow> checkpoint_error (''checkpoint '' @ path @ '' NAV rows are not session ordered''))"

definition ledger_sequences :: "row list \<Rightarrow> int list result" where
  "ledger_sequences rows =
     mapR (\<lambda>r. case map_of r ''sequence'' of Some (JInt i) \<Rightarrow> Inr i
       | _ \<Rightarrow> checkpoint_error ''checkpoint state.ledger contains an invalid sequence'') rows"

text \<open>The envelope of a checkpoint: its fields, its hash and the run it belongs to.\<close>

definition checkpoint_payload_of :: "env \<Rightarrow> string \<Rightarrow> run_identity \<Rightarrow> json \<Rightarrow> (string \<times> json) list result" where
  "checkpoint_payload_of env path run v =
     (case v of
        JObj ob \<Rightarrow>
     bindR (checkpoint_exact_fields ob checkpoint_fields ''checkpoint'') (\<lambda>_.
     bindR (ensure (map_of ob ''schema_version'' = Some (JStr checkpoint_schema_version))
              (Exn BacktestCheckpointError (''checkpoint '' @ path @ '' has an unsupported schema_version''))) (\<lambda>_.
     bindR (field_of (\<lambda>h. case h of JStr s \<Rightarrow> if is_sha256 s then Inr s
                else checkpoint_error (''checkpoint '' @ path @ '' has an invalid checkpoint_sha256'')
              | _ \<Rightarrow> checkpoint_error (''checkpoint '' @ path @ '' has an invalid checkpoint_sha256''))
              ob ''checkpoint_sha256'') (\<lambda>hash.
     bindR (field_of (\<lambda>p. case p of JObj payload \<Rightarrow> Inr payload
              | _ \<Rightarrow> checkpoint_error (''checkpoint '' @ path @ ''.payload must be an object'')) ob ''payload'') (\<lambda>payload.
     bindR (checkpoint_exact_fields payload checkpoint_payload_fields ''checkpoint payload'') (\<lambda>_.
     bindR (ensure (checkpoint_hash env payload = hash)
              (Exn BacktestCheckpointError (''checkpoint '' @ path @ '' hash does not match its payload''))) (\<lambda>_.
     bindR (mapR (\<lambda>(field, expected). ensure (map_of payload field = Some (JStr expected))
                (Exn BacktestCheckpointError (''checkpoint '' @ path @ '' '' @ field @ '' does not match the current run'')))
              [(''experiment_id'', ri_experiment_id run), (''experiment_sha256'', ri_experiment_sha256 run),
               (''input_fingerprint'', ri_input_fingerprint run), (''engine_version'', engine_version)]) (\<lambda>_.
     Inr payload)))))))
      | _ \<Rightarrow> checkpoint_error (''checkpoint '' @ path @ '' must be an object''))"

definition restore_checkpoint ::
  "env \<Rightarrow> string \<Rightarrow> run_identity \<Rightarrow> session list \<Rightarrow> nat \<Rightarrow> json \<Rightarrow> (bt_progress \<times> nat) result" where
  "restore_checkpoint env path run sessions expected_index v =
     bindR (checkpoint_payload_of env path run v) (\<lambda>payload.
     bindR (jget payload ''next_session_index'') (\<lambda>given.
     bindR (ensure (given = JInt (int expected_index))
              (Exn BacktestCheckpointError (''checkpoint '' @ path @ '' has an invalid next_session_index''))) (\<lambda>_.
     bindR (ensure (1 \<le> expected_index \<and> expected_index \<le> length sessions)
              (Exn BacktestCheckpointError (''checkpoint '' @ path @ '' next_session_index is outside the session range''))) (\<lambda>_.
     bindR (field_of (\<lambda>s. case s of JObj ob \<Rightarrow> Inr ob
              | _ \<Rightarrow> checkpoint_error (''checkpoint '' @ path @ ''.payload.state must be an object'')) payload ''state'') (\<lambda>ob.
     bindR (checkpoint_exact_fields ob checkpoint_state_fields ''checkpoint state'') (\<lambda>_.
     bindR (restore_state ob) (\<lambda>st.
     bindR (field_of (checkpoint_list ''checkpoint payload.nav'') payload ''nav'') (\<lambda>nav_items.
     bindR (field_of (checkpoint_list ''checkpoint payload.holdings'') payload ''holdings'') (\<lambda>holding_items.
     bindR (ensure (length nav_items = expected_index)
              (Exn BacktestCheckpointError (''checkpoint '' @ path @ '' NAV row count does not match next_session_index''))) (\<lambda>_.
     bindR (mapR (nav_row_at path sessions) (enumerate 0 nav_items)) (\<lambda>nav_rows.
     bindR (checkpoint_decimal ''checkpoint payload.nav[-1].nav''
              (case map_of (last nav_rows) ''nav'' of Some w \<Rightarrow> w | None \<Rightarrow> JNull)) (\<lambda>final_nav.
     bindR (state_decimal ob ''last_nav'') (\<lambda>last_nav.
     bindR (ensure (final_nav = last_nav)
              (Exn BacktestCheckpointError (''checkpoint '' @ path @ '' last_nav does not match the final NAV row''))) (\<lambda>_.
     bindR (ledger_sequences (bs_ledger st)) (\<lambda>sequences.
     bindR (ensure (sequences = [] \<or> bs_next_ledger_sequence st = Max (set sequences) + 1)
              (Exn BacktestCheckpointError ''checkpoint state.next_ledger_sequence does not follow the ledger'')) (\<lambda>_.
     bindR (restore_totals ob st) (\<lambda>st1.
     bindR (mapR (\<lambda>h. case h of JObj r \<Rightarrow> Inr r | _ \<Rightarrow> raise PyTypeError ''a holding row is not an object'') holding_items) (\<lambda>holding_rows.
     Inr ((st1, nav_rows, holding_rows), expected_index)))))))))))))))))))"

end
