(* ===== verification/Backtest_Simulate.thy ===== *)
theory Backtest_Simulate
  imports Backtest_Checkpoint
begin

text \<open>
  The metrics of a finished run and the whole of \<open>simulate_backtest\<close>: validation, loading, the sessions with
  their checkpoints, interruption and resumption, and the result.
\<close>

section \<open>Functions of the decimal module\<close>

text \<open>
  \<open>ln\<close> and \<open>exp\<close> at 80 digits, and the square of the default context, whose rounding the module leaves open for
  powers, are arguments. Square roots are rounded half to even from an exact integer root.
\<close>

record decimal_functions =
  df_ln :: "dec \<Rightarrow> dec"
  df_exp :: "dec \<Rightarrow> dec"
  df_square :: "dec \<Rightarrow> dec"

fun isqrt :: "nat \<Rightarrow> nat" where
  "isqrt n = (if n = 0 then 0 else (let r = 2 * isqrt (n div 4) in if (r + 1) * (r + 1) \<le> n then r + 1 else r))"

declare isqrt.simps [simp del]

definition dsqrt :: "nat \<Rightarrow> dec \<Rightarrow> dec result" where
  "dsqrt p q =
     (if q < 0 then raise PyInvalidOperation ''''
      else if q = 0 then Inr 0
      else (let k = int p + 1 - magnitude q div 2;
                scaled = q * 10 powi (2 * k);
                root = of_nat (isqrt (nat \<lfloor>scaled\<rfloor>))
            in Inr (dec_round p ((if root * root = scaled then root else root + 1 / 2) * 10 powi (- k)))))"

section \<open>Values of rows\<close>

definition row_text :: "row \<Rightarrow> string \<Rightarrow> string result" where
  "row_text r key =
     bindR (jget r key) (\<lambda>v. case v of JStr s \<Rightarrow> Inr s | _ \<Rightarrow> raise PyTypeError (key @ '' is not a string''))"

definition row_decimal :: "row \<Rightarrow> string \<Rightarrow> dec result" where
  "row_decimal r key =
     bindR (row_text r key) (\<lambda>s. case parse_signed s of Some q \<Rightarrow> Inr q
       | None \<Rightarrow> raise BacktestAccountingError (''invalid decimal value '' @ s))"

definition row_date :: "row \<Rightarrow> string \<Rightarrow> date result" where
  "row_date r key = bindR (row_text r key) account_date"

definition row_datetime :: "row \<Rightarrow> string \<Rightarrow> datetime result" where
  "row_datetime r key =
     bindR (row_text r key) (\<lambda>s. case parse_datetime s of Some t \<Rightarrow> Inr t
       | None \<Rightarrow> raise PyValueError ''Invalid isoformat string'')"

section \<open>Metrics\<close>

definition bt_returns :: "dec list \<Rightarrow> dec list result" where
  "bt_returns values =
     mapR (\<lambda>(previous, current). bindR (ddiv prec current previous) (\<lambda>q. Inr (dsub prec q 1))) (pairwise values)"

definition safe_metric :: "dec option \<Rightarrow> json" where
  "safe_metric v = null_or (\<lambda>q. JStr (decimal_string q)) v"

text \<open>The rows by label, in the order of the first row of each label.\<close>

definition bt_group :: "(row \<Rightarrow> string result) \<Rightarrow> row list \<Rightarrow> (string, row list) dict result" where
  "bt_group key rows =
     foldR (\<lambda>groups r. bindR (key r) (\<lambda>lab. Inr (dset lab (dget groups lab [] @ [r]) groups))) [] rows"

definition bt_attribution_row :: "bt_state \<Rightarrow> date list \<Rightarrow> row list \<Rightarrow> json result" where
  "bt_attribution_row st fill_dates rows =
     bindR (mapR (\<lambda>r. row_date r ''session_date'') rows) (\<lambda>dates.
     bindR (row_decimal (hd rows) ''nav'') (\<lambda>start_nav.
     bindR (row_decimal (last rows) ''nav'') (\<lambda>end_nav.
     (let cost = dsum prec (map (\<lambda>d. dget (bs_cost_by_session st) d 0) (sorted_set dates)) in
     bindR (ddiv prec end_nav start_nav) (\<lambda>growth.
     Inr (JObj [(''start_nav'', JStr (decimal_string start_nav)), (''end_nav'', JStr (decimal_string end_nav)),
        (''return'', JStr (decimal_string (dsub prec growth 1))),
        (''trade_count'', JInt (int (length (filter (\<lambda>d. d \<in> set dates) fill_dates)))),
        (''cost'', JStr (decimal_string cost))]))))))"

definition bt_attribution :: "row list \<Rightarrow> bt_state \<Rightarrow> (row \<Rightarrow> string result) \<Rightarrow> json result" where
  "bt_attribution nav_rows st key =
     bindR (bt_group key nav_rows) (\<lambda>groups.
     bindR (mapR (\<lambda>r. row_date r ''execution_session'') (bs_fills st)) (\<lambda>fill_dates.
     bindR (mapR (\<lambda>(lab, rows). bindR (bt_attribution_row st fill_dates rows) (\<lambda>v. Inr (lab, v))) (sorted_items groups)) (\<lambda>result.
     Inr (JObj result))))"

definition risk_free_rank :: "observation_row \<Rightarrow> datetime \<times> datetime \<times> int" where
  "risk_free_rank r = (o_observed_at r, o_available_at r, o_revision r)"

text \<open>The annual rate of a period, known at its end.\<close>

definition bt_annual_rate :: "experiment_spec \<Rightarrow> inputs \<Rightarrow> row \<Rightarrow> dec result" where
  "bt_annual_rate spec inp current =
     bindR (row_datetime current ''decision_at'') (\<lambda>end_at.
     if mp_risk_free_source (ex_metrics_policy spec) = ''constant_annual''
     then (case mp_risk_free_annual (ex_metrics_policy spec) of Some s \<Rightarrow> Inr (dec_text s)
       | None \<Rightarrow> raise PyTypeError ''conversion from NoneType to Decimal is not supported'')
     else
     bindR (row_text current ''session_date'') (\<lambda>day.
     (let candidates = sort_key risk_free_rank
            (filter (\<lambda>r. o_observed_at r \<le> end_at \<and> o_available_at r \<le> end_at) (i_risk_free inp)) in
      if candidates = []
      then raise BacktestMissingDataError (''no point-in-time risk-free observation supports '' @ day)
      else (let latest = filter (\<lambda>r. risk_free_rank r = risk_free_rank (last candidates)) candidates in
            if length (remdups (map o_value latest)) \<noteq> 1
            then raise BacktestInputError (''risk-free observations conflict at '' @ day)
            else Inr (o_value (last latest))))))"

definition bt_risk_free_row :: "experiment_spec \<Rightarrow> inputs \<Rightarrow> row \<times> row \<Rightarrow> (dec \<times> json) result" where
  "bt_risk_free_row spec inp = (\<lambda>(previous, current).
     bindR (bt_annual_rate spec inp current) (\<lambda>annual.
     bindR (ddiv wide annual (of_int (mp_annualization_factor (ex_metrics_policy spec)))) (\<lambda>daily.
     bindR (jget previous ''session_date'') (\<lambda>period_start.
     bindR (jget current ''session_date'') (\<lambda>period_end.
     Inr (daily, JObj [(''period_start'', period_start), (''period_end'', period_end),
        (''annual_rate'', JStr (decimal_string annual)), (''daily_rate'', JStr (decimal_string daily))]))))))"

definition bt_mean :: "dec list \<Rightarrow> dec option result" where
  "bt_mean xs =
     (if xs = [] then Inr None
      else bindR (ddiv prec (dsum prec xs) (of_nat (length xs))) (\<lambda>m. Inr (Some m)))"

text \<open>The sample variance, and the square root of it or of a mean square, annualised.\<close>

definition bt_variance :: "decimal_functions \<Rightarrow> dec list \<Rightarrow> dec \<Rightarrow> dec result" where
  "bt_variance fn xs mean =
     ddiv prec (dsum prec (map (\<lambda>v. df_square fn (dsub prec v mean)) xs)) (of_nat (length xs - 1))"

definition bt_annualized :: "experiment_spec \<Rightarrow> dec \<Rightarrow> dec result" where
  "bt_annualized spec v =
     bindR (dsqrt prec v) (\<lambda>deviation.
     bindR (dsqrt prec (of_int (mp_annualization_factor (ex_metrics_policy spec)))) (\<lambda>root.
     Inr (dmul prec deviation root)))"

definition bt_ratio :: "experiment_spec \<Rightarrow> dec option \<Rightarrow> dec option \<Rightarrow> dec option result" where
  "bt_ratio spec excess_mean deviation =
     (case (excess_mean, deviation) of
        (Some m, Some d) \<Rightarrow>
          if d = 0 then Inr None
          else bindR (dsqrt prec (of_int (mp_annualization_factor (ex_metrics_policy spec)))) (\<lambda>root.
               bindR (ddiv prec (dmul prec m root) d) (\<lambda>v. Inr (Some v)))
      | _ \<Rightarrow> Inr None)"

definition bt_volatility :: "experiment_spec \<Rightarrow> decimal_functions \<Rightarrow> dec list \<Rightarrow> dec option \<Rightarrow> dec option result" where
  "bt_volatility spec fn returns mean =
     (case mean of
        Some m \<Rightarrow> if 1 < length returns
          then bindR (bt_variance fn returns m) (\<lambda>v. bindR (bt_annualized spec v) (\<lambda>d. Inr (Some d)))
          else Inr None
      | None \<Rightarrow> Inr None)"

definition bt_downside :: "experiment_spec \<Rightarrow> decimal_functions \<Rightarrow> dec list \<Rightarrow> dec option result" where
  "bt_downside spec fn excess =
     (let squares = map (\<lambda>v. df_square fn (min v 0)) excess in
      if squares = [] then Inr None
      else bindR (ddiv prec (dsum prec squares) (of_nat (length squares))) (\<lambda>m.
           bindR (bt_annualized spec m) (\<lambda>d. Inr (Some d))))"

definition bt_drawdown_step :: "dec \<times> dec \<Rightarrow> dec \<Rightarrow> (dec \<times> dec) result" where
  "bt_drawdown_step = (\<lambda>(peak, max_drawdown) v.
     (let peak' = max peak v in
      bindR (ddiv prec v peak') (\<lambda>q. Inr (peak', min max_drawdown (dsub prec q 1)))))"

definition bt_max_drawdown :: "dec list \<Rightarrow> dec result" where
  "bt_max_drawdown values = bindR (foldR bt_drawdown_step (hd values, 0) values) (\<lambda>p. Inr (snd p))"

definition bt_beta_alpha :: "decimal_functions \<Rightarrow> dec list \<Rightarrow> dec list \<Rightarrow> dec option \<Rightarrow> (dec option \<times> dec option) result" where
  "bt_beta_alpha fn returns benchmark_returns mean =
     (case mean of
        Some m \<Rightarrow> if 1 < length returns \<and> length returns = length benchmark_returns then
          bindR (ddiv prec (dsum prec benchmark_returns) (of_nat (length benchmark_returns))) (\<lambda>benchmark_mean.
          bindR (ddiv prec (dsum prec (map (\<lambda>(left, right). dmul prec (dsub prec left m) (dsub prec right benchmark_mean))
                   (zip returns benchmark_returns))) (of_nat (length returns - 1))) (\<lambda>covariance.
          bindR (bt_variance fn benchmark_returns benchmark_mean) (\<lambda>benchmark_variance.
          if benchmark_variance = 0 then Inr (None, None)
          else bindR (ddiv prec covariance benchmark_variance) (\<lambda>beta.
               Inr (Some beta, Some (dsub prec m (dmul prec beta benchmark_mean)))))))
          else Inr (None, None)
      | None \<Rightarrow> Inr (None, None))"

text \<open>\<open>(ln(end / start) * (factor / periods)).exp() - 1\<close> with 80 digits\<close>

definition bt_cagr :: "experiment_spec \<Rightarrow> decimal_functions \<Rightarrow> dec list \<Rightarrow> dec result" where
  "bt_cagr spec fn values =
     bindR (ddiv wide (last values) (hd values)) (\<lambda>growth.
     bindR (ddiv wide (of_int (mp_annualization_factor (ex_metrics_policy spec))) (of_nat (max (length values - 1) 1))) (\<lambda>factor.
     Inr (dsub wide (df_exp fn (dmul wide (df_ln fn growth) factor)) 1)))"

definition bt_win_rate :: "dec list \<Rightarrow> dec option result" where
  "bt_win_rate returns =
     (if returns = [] then Inr None
      else bindR (ddiv prec (of_nat (length (filter (\<lambda>v. 0 < v) returns))) (of_nat (length returns))) (\<lambda>v. Inr (Some v)))"

definition bt_metric_values ::
  "experiment_spec \<Rightarrow> decimal_functions \<Rightarrow> bt_state \<Rightarrow> dec list \<Rightarrow> dec list \<Rightarrow> dec list \<Rightarrow> json result" where
  "bt_metric_values spec fn st nav_values benchmark_values risk_free_daily =
     bindR (bt_returns nav_values) (\<lambda>returns.
     bindR (bt_returns benchmark_values) (\<lambda>benchmark_returns.
     bindR (ddiv prec (last nav_values) (hd nav_values)) (\<lambda>growth.
     bindR (ddiv prec (last benchmark_values) (hd benchmark_values)) (\<lambda>benchmark_growth.
     bindR (bt_cagr spec fn nav_values) (\<lambda>cagr.
     bindR (bt_mean returns) (\<lambda>mean.
     bindR (bt_volatility spec fn returns mean) (\<lambda>volatility.
     (let total_return = dsub prec growth 1;
          excess = map (\<lambda>(v, rate). dsub prec v rate) (zip returns risk_free_daily) in
     bindR (bt_mean excess) (\<lambda>excess_mean.
     bindR (bt_ratio spec excess_mean volatility) (\<lambda>sharpe.
     bindR (bt_downside spec fn excess) (\<lambda>downside_deviation.
     bindR (bt_ratio spec excess_mean downside_deviation) (\<lambda>sortino.
     bindR (bt_max_drawdown nav_values) (\<lambda>max_drawdown.
     bindR (bt_beta_alpha fn returns benchmark_returns mean) (\<lambda>(beta, alpha).
     bindR (if max_drawdown = 0 then Inr None
            else bindR (ddiv prec total_return (dabs prec max_drawdown)) (\<lambda>v. Inr (Some v))) (\<lambda>calmar.
     bindR (ddiv prec (bs_total_gross_base st) (max (hd nav_values) 1)) (\<lambda>turnover.
     bindR (bt_win_rate returns) (\<lambda>win_rate.
     (let total_cost = dadd prec (dadd prec (dadd prec (bs_total_fee_base st) (bs_total_spread_base st))
            (bs_total_slippage_base st)) (bs_total_tax_base st) in
     Inr (JObj
       [(''total_return'', safe_metric (Some total_return)), (''cagr'', safe_metric (Some cagr)),
        (''annualized_volatility'', safe_metric volatility), (''sharpe'', safe_metric sharpe),
        (''sortino'', safe_metric sortino), (''max_drawdown'', safe_metric (Some max_drawdown)),
        (''calmar'', safe_metric calmar), (''beta'', safe_metric beta), (''alpha'', safe_metric alpha),
        (''turnover'', safe_metric (Some turnover)), (''win_rate'', safe_metric win_rate), (''profit_factor'', JNull),
        (''benchmark_relative_return'', safe_metric (Some (dsub prec total_return (dsub prec benchmark_growth 1)))),
        (''total_cost'', safe_metric (Some total_cost)), (''fee_cost'', safe_metric (Some (bs_total_fee_base st))),
        (''spread_cost'', safe_metric (Some (bs_total_spread_base st))),
        (''slippage_cost'', safe_metric (Some (bs_total_slippage_base st))),
        (''tax_cost'', safe_metric (Some (bs_total_tax_base st))), (''fx_cost'', JStr ''0''),
        (''rejected_trade_count'', JStr (int_string (bs_rejected_trade_count st))),
        (''out_of_market_sessions'', JStr (int_string (bs_out_of_market_sessions st)))])))))))))))))))))))"

definition backtest_schema_version :: string where
  "backtest_schema_version = ''1.0.0''"

definition metrics_version :: string where
  "metrics_version = ''1.0.0''"

definition bt_metrics :: "experiment_spec \<Rightarrow> decimal_functions \<Rightarrow> inputs \<Rightarrow> bt_state \<Rightarrow> row list \<Rightarrow> json result" where
  "bt_metrics spec fn inp st nav_rows =
     bindR (mapR (\<lambda>r. row_decimal r ''nav'') nav_rows) (\<lambda>nav_values.
     bindR (mapR (\<lambda>r. row_decimal r ''benchmark_nav'') nav_rows) (\<lambda>benchmark_values.
     bindR (mapR (bt_risk_free_row spec inp) (pairwise nav_rows)) (\<lambda>risk_free.
     bindR (bt_metric_values spec fn st nav_values benchmark_values (map fst risk_free)) (\<lambda>metric_values.
     bindR (bt_attribution nav_rows st (\<lambda>r. row_text r ''partition'')) (\<lambda>by_partition.
     bindR (bt_attribution nav_rows st (\<lambda>r. bindR (row_text r ''session_date'') (\<lambda>s. Inr (take 4 s)))) (\<lambda>by_year.
     Inr (JObj
       [(''schema_version'', JStr backtest_schema_version), (''metrics_version'', JStr metrics_version),
        (''base_currency'', JStr (ex_base_currency spec)),
        (''annualization_factor'', JInt (mp_annualization_factor (ex_metrics_policy spec))),
        (''risk_free_annual'', null_or JStr (mp_risk_free_annual (ex_metrics_policy spec))),
        (''metrics_policy'', exp_metrics_json (ex_metrics_policy spec)), (''risk_free_series'', JArr (map snd risk_free)),
        (''values'', metric_values), (''attribution'', JObj [(''by_partition'', by_partition), (''by_year'', by_year)])])))))))"

section \<open>A run\<close>

text \<open>The inputs of a specification, as the loader verifies and reads them.\<close>

definition load_backtest_inputs :: "env \<Rightarrow> data_root \<Rightarrow> json \<Rightarrow> inputs result" where
  "load_backtest_inputs env fs v =
     bindR (validate_experiment_spec env v) (\<lambda>e.
     load_input_artifacts fs [''backtest_safe''] [''prices'', ''calendar'', ''membership''] [''raw''] (ex_inputs e))"

record backtest_run =
  run_result_id :: string
  run_experiment_id :: string
  run_experiment_sha256 :: string
  run_input_fingerprint :: string
  run_engine_version :: string
  run_context :: json
  run_nav :: "row list"
  run_holdings :: "row list"
  run_orders :: "row list"
  run_fills :: "row list"
  run_ledger :: "row list"
  run_metrics :: json
  run_summary :: json

definition bt_result_namespace :: string where
  "bt_result_namespace = ''0b82ccec-4b5e-5e8e-8dd6-6ae7f327d0a2''"

definition bt_context :: "experiment_spec \<Rightarrow> json" where
  "bt_context e = JObj [(''strategy'', strategy_json (ex_strategy e)), (''period'', range_json (ex_period e)),
     (''universe'', universe_json (ex_universe e)), (''cost_policy'', cost_json (ex_cost_policy e)),
     (''metrics_policy'', exp_metrics_json (ex_metrics_policy e)), (''base_currency'', JStr (ex_base_currency e)),
     (''reporting_currency'', null_or JStr (ba_reporting_currency (ex_accounting_policy e)))]"

definition bt_summary :: "bt_state \<Rightarrow> row list \<Rightarrow> row list \<Rightarrow> json" where
  "bt_summary st nav_rows holding_rows = JObj [(''session_count'', JInt (int (length nav_rows))),
     (''holdings_count'', JInt (int (length holding_rows))), (''order_count'', JInt (int (length (bs_orders st)))),
     (''fill_count'', JInt (int (length (bs_fills st)))), (''ledger_count'', JInt (int (length (bs_ledger st)))),
     (''rejected_trade_count'', JInt (bs_rejected_trade_count st)), (''holdout_attempts'', JInt 0)]"

text \<open>What follows the last session.\<close>

definition bt_finish ::
  "env \<Rightarrow> decimal_functions \<Rightarrow> experiment_spec \<Rightarrow> inputs \<Rightarrow> run_identity \<Rightarrow> bt_progress \<Rightarrow> backtest_run result" where
  "bt_finish env fn e inp run = (\<lambda>(st, nav_rows, holding_rows).
     bindR (ensure (bs_pending st = [])
              (Exn BacktestError ''pending orders remain after the final executable session'')) (\<lambda>_.
     bindR (bt_metrics e fn inp st nav_rows) (\<lambda>metrics.
     Inr \<lparr>run_result_id = env_uuid5 env bt_result_namespace (ri_experiment_id run @ '':'' @ ri_experiment_sha256 run
              @ '':'' @ ri_input_fingerprint run @ '':'' @ engine_version),
        run_experiment_id = ri_experiment_id run, run_experiment_sha256 = ri_experiment_sha256 run,
        run_input_fingerprint = ri_input_fingerprint run, run_engine_version = engine_version, run_context = bt_context e,
        run_nav = nav_rows, run_holdings = holding_rows, run_orders = bs_orders st, run_fills = bs_fills st,
        run_ledger = bs_ledger st, run_metrics = metrics, run_summary = bt_summary st nav_rows holding_rows\<rparr>)))"

text \<open>One round of the session loop: the session, then its checkpoint, then the requested interruption.\<close>

definition bt_checkpointed ::
  "env \<Rightarrow> (action_row \<Rightarrow> string) \<Rightarrow> experiment_spec \<Rightarrow> inputs \<Rightarrow> run_identity \<Rightarrow> session list \<Rightarrow> bool \<Rightarrow> int option
    \<Rightarrow> bt_progress \<Rightarrow> nat \<Rightarrow> ((string, json) dict, bt_progress) prog" where
  "bt_checkpointed env ratio_text e inp run sessions checkpointing stop_after progress index =
     bindS (liftS (bt_session env ratio_text e inp sessions progress index)) (\<lambda>progress'.
     if \<not> checkpointing then returnS progress'
     else
       (let path = checkpoint_name (index + 1) in
        bindS (write_checkpoint env path (checkpoint_payload run (index + 1) progress')) (\<lambda>_.
        if stop_after = Some (int (index + 1))
        then raiseS BacktestInterruptedError (''interrupted after session ''
               @ isoformat (s_session_date (sessions ! index)) @ ''; checkpoint='' @ path)
        else returnS progress')))"

definition bt_stop_allowed :: "nat \<Rightarrow> bool \<Rightarrow> int option \<Rightarrow> unit result" where
  "bt_stop_allowed sessions_total resume stop_after =
     (case stop_after of
        None \<Rightarrow> Inr ()
      | Some k \<Rightarrow>
          if k < 1 \<or> int sessions_total \<le> k
          then checkpoint_error ''stop_after_session must be a positive session count before the final session''
          else if resume then checkpoint_error ''stop_after_session cannot be combined with resume''
          else Inr ())"

text \<open>Where a run begins: at the restored checkpoint, or with the initial cash before the first session.\<close>

definition bt_begin ::
  "env \<Rightarrow> experiment_spec \<Rightarrow> run_identity \<Rightarrow> session list \<Rightarrow> bool \<Rightarrow> bool \<Rightarrow> (string, json) dict
    \<Rightarrow> (bt_progress \<times> nat) result" where
  "bt_begin env e run sessions checkpointing resume files =
     bindR (if checkpointing
            then bindR (latest_checkpoint (map fst files)) (\<lambda>entry.
                 if \<not> resume \<and> entry \<noteq> None
                 then checkpoint_error (''checkpoint already exists for experiment '' @ ri_experiment_id run @ ''; use resume'')
                 else Inr entry)
            else Inr None) (\<lambda>entry.
     if resume
     then (case entry of
             None \<Rightarrow> checkpoint_error (''no checkpoint exists for experiment '' @ ri_experiment_id run)
           | Some (path, index) \<Rightarrow> restore_checkpoint env path run sessions index (dget files path JNull))
     else Inr ((bt_start e (hd sessions), [], []), 0))"

text \<open>
  The directory of checkpoints is the state of the program; \<open>checkpointing\<close> tells whether a
  \<open>checkpoint_root\<close> is given. An interruption needs one, else \<open>stop_after_session\<close> does nothing.
\<close>

definition simulate_backtest ::
  "env \<Rightarrow> (action_row \<Rightarrow> string) \<Rightarrow> decimal_functions \<Rightarrow> data_root \<Rightarrow> json \<Rightarrow> bool \<Rightarrow> bool \<Rightarrow> int option
    \<Rightarrow> ((string, json) dict, backtest_run) prog" where
  "simulate_backtest env ratio_text fn fs v checkpointing resume stop_after =
     bindS (liftS (validate_experiment_spec env v)) (\<lambda>e.
     bindS (liftS (experiment_sha256 env (experiment_json e))) (\<lambda>spec_hash.
     bindS (liftS (experiment_input_fingerprint env (experiment_json e))) (\<lambda>input_hash.
     bindS (liftS (load_backtest_inputs env fs (experiment_json e))) (\<lambda>inp.
     bindS (liftS (bt_calendar_sessions e inp)) (\<lambda>sessions.
     bindS (liftS (bt_stop_allowed (length sessions) resume stop_after)) (\<lambda>_.
     bindS (liftS (if resume \<and> \<not> checkpointing then checkpoint_error ''resume requires checkpoint_root'' else Inr ())) (\<lambda>_.
     (let run = \<lparr>ri_experiment_id = ex_experiment_id e, ri_experiment_sha256 = spec_hash,
                ri_input_fingerprint = input_hash\<rparr> in
     bindS (readS (bt_begin env e run sessions checkpointing resume)) (\<lambda>(progress, next_index).
     bindS (foldS (bt_checkpointed env ratio_text e inp run sessions checkpointing stop_after) progress
              [next_index..<length sessions]) (\<lambda>final.
     liftS (bt_finish env fn e inp run final)))))))))))"

end
