(* ===== verification/Backtest_Metrics.thy ===== *)
theory Backtest_Metrics
  imports Backtest_Simulate
begin

text \<open>
  What the figures of a finished run mean: the largest drawdown as the worst fall from an earlier value, and the
  integer root below the square roots.
\<close>

section \<open>The integer square root\<close>

lemma isqrt_floor: "isqrt n * isqrt n \<le> n \<and> n < (isqrt n + 1) * (isqrt n + 1)"
proof (induction n rule: isqrt.induct)
  case (1 n)
  show ?case
  proof (cases "n = 0")
    case False
    define r where "r = isqrt (n div 4)"
    from 1[OF False] have low: "r * r \<le> n div 4" and high: "n div 4 + 1 \<le> (r + 1) * (r + 1)" by (auto simp: r_def)
    have "4 * (r * r) \<le> n" using low by linarith
    then have a: "(2 * r) * (2 * r) \<le> n" by (simp add: algebra_simps)
    have "n < 4 * (n div 4 + 1)" by presburger
    also have "\<dots> \<le> 4 * ((r + 1) * (r + 1))" using high by (rule mult_le_mono2)
    finally have b: "n < (2 * r + 1 + 1) * (2 * r + 1 + 1)" by (simp add: algebra_simps)
    show ?thesis
    proof (cases "(2 * r + 1) * (2 * r + 1) \<le> n")
      case True
      with False have "isqrt n = 2 * r + 1" by (simp add: isqrt.simps[of n] r_def Let_def)
      with True b show ?thesis by simp
    next
      case no: False
      with False have "isqrt n = 2 * r" by (simp add: isqrt.simps[of n] r_def Let_def)
      with no a show ?thesis by simp
    qed
  qed (simp add: isqrt.simps)
qed

section \<open>Drawdown\<close>

text \<open>The relative change from one value to another, with the roundings of the engine.\<close>

definition rounded_change :: "dec \<Rightarrow> dec \<Rightarrow> dec" where
  "rounded_change a b = dsub prec (dquot prec b a) 1"

lemma rounded_change_mono: "0 < a \<Longrightarrow> a \<le> a' \<Longrightarrow> 0 < b \<Longrightarrow> rounded_change a' b \<le> rounded_change a b"
  unfolding rounded_change_def dsub_def dquot_def
  by (intro ctx28.rnd_mono diff_right_mono) (simp add: frac_le)

lemma rounded_change_bounds:
  assumes "0 < b" and "b \<le> a"
  shows "- 1 \<le> rounded_change a b" and "rounded_change a b \<le> 0"
proof -
  have "0 < dquot prec b a" unfolding dquot_def using assms by (intro ctx28.rnd_pos) simp
  moreover have "dquot prec b a \<le> 1" unfolding dquot_def using assms by (intro ctx28.rnd_le_fixed) (simp_all add: ctx28.rnd_1)
  moreover have "dec_round prec (- 1) = - 1" using ctx28.rnd_minus[of 1] ctx28.rnd_1 by simp
  ultimately show "- 1 \<le> rounded_change a b" "rounded_change a b \<le> 0" unfolding rounded_change_def dsub_def
    by (simp_all add: ctx28.rnd_ge_fixed ctx28.rnd_le_fixed ctx28.rnd_0)
qed

lemma drawdown_fold:
  assumes "\<forall>x \<in> set xs. 0 < x" and "0 < v" and "xs \<noteq> [] \<longrightarrow> hd xs = v"
  shows "\<exists>peak d. foldR bt_drawdown_step (v, 0) xs = Inr (peak, d) \<and> peak \<in> insert v (set xs)
    \<and> (\<forall>x \<in> insert v (set xs). x \<le> peak) \<and> - 1 \<le> d \<and> d \<le> 0
    \<and> (\<forall>j < length xs. \<forall>i \<le> j. d \<le> rounded_change (xs ! i) (xs ! j))
    \<and> (d = 0 \<or> (\<exists>j < length xs. \<exists>i \<le> j. d = rounded_change (xs ! i) (xs ! j)))"
  using assms
proof (induction xs rule: rev_induct)
  case (snoc x xs)
  let ?ys = "xs @ [x]"
  from snoc.prems have pos: "0 < x" and hd: "hd ?ys = v" by simp_all
  then have "xs \<noteq> [] \<longrightarrow> hd xs = v" by (simp add: hd_append split: if_splits)
  with snoc obtain peak d where f: "foldR bt_drawdown_step (v, 0) xs = Inr (peak, d)" and peak: "peak \<in> insert v (set xs)"
    "\<forall>x \<in> insert v (set xs). x \<le> peak" and d: "- 1 \<le> d" "d \<le> 0"
    "\<forall>j < length xs. \<forall>i \<le> j. d \<le> rounded_change (xs ! i) (xs ! j)"
    "d = 0 \<or> (\<exists>j < length xs. \<exists>i \<le> j. d = rounded_change (xs ! i) (xs ! j))" by auto
  define top where "top = max peak x"
  have v: "v \<in> set ?ys" using hd by (metis hd_in_set snoc_eq_iff_butlast)
  have top: "top \<in> set ?ys" "\<forall>y \<in> set ?ys. y \<le> top" using peak v by (auto simp: top_def max_def intro: order_trans)
  have "0 < top" using pos by (simp add: top_def less_max_iff_disj)
  then have step: "foldR bt_drawdown_step (v, 0) ?ys = Inr (top, min d (rounded_change top x))"
  proof -
    have "bt_drawdown_step (peak, d) x = Inr (top, min d (rounded_change top x))"
      using \<open>0 < top\<close> by (simp add: bt_drawdown_step_def ddiv_def rounded_change_def Let_def flip: top_def)
    then show ?thesis by (simp add: foldR_append f)
  qed
  obtain i where i: "i < length ?ys" "?ys ! i = top" using top(1) by (metis in_set_conv_nth)
  have below: "rounded_change top x \<le> rounded_change (?ys ! j) x" if "j < length ?ys" for j
    using that snoc.prems(1) top(2) pos nth_mem[of j ?ys] by (intro rounded_change_mono) blast+
  have "\<forall>j < length ?ys. \<forall>i \<le> j. min d (rounded_change top x) \<le> rounded_change (?ys ! i) (?ys ! j)"
  proof (intro allI impI)
    fix j k
    assume j: "j < length ?ys" and k: "k \<le> j"
    show "min d (rounded_change top x) \<le> rounded_change (?ys ! k) (?ys ! j)"
    proof (cases "j < length xs")
      case True
      with d(3) k show ?thesis by (simp add: nth_append min.coboundedI1)
    next
      case False
      with j have "j = length xs" by simp
      with below[of k] k show ?thesis by (simp add: min.coboundedI2)
    qed
  qed
  moreover have "min d (rounded_change top x) = 0
      \<or> (\<exists>j < length ?ys. \<exists>i \<le> j. min d (rounded_change top x) = rounded_change (?ys ! i) (?ys ! j))"
  proof (cases "d \<le> rounded_change top x")
    case True
    then have m: "min d (rounded_change top x) = d" by simp
    from d(4) have "d = 0 \<or> (\<exists>j < length ?ys. \<exists>i \<le> j. d = rounded_change (?ys ! i) (?ys ! j))"
    proof (elim disjE exE conjE)
      fix j k
      assume "j < length xs" and "k \<le> j" and "d = rounded_change (xs ! k) (xs ! j)"
      then have "j < length ?ys \<and> k \<le> j \<and> d = rounded_change (?ys ! k) (?ys ! j)" by (simp add: nth_append)
      then show ?thesis by blast
    qed simp
    then show ?thesis by (simp only: m)
  next
    case False
    then have "min d (rounded_change top x) = rounded_change (?ys ! i) (?ys ! length xs)" using i by (simp add: min_def)
    with i show ?thesis by (intro disjI2 exI[of _ "length xs"]) (auto intro!: exI[of _ i])
  qed
  moreover have "x \<le> top" by (simp add: top_def)
  ultimately show ?case using step top v d(1,2) rounded_change_bounds[OF pos \<open>x \<le> top\<close>] by auto
qed simp

text \<open>
  (C39) The maximal drawdown of positive values is defined, lies between -1 and 0, is no higher than the rounded change
  from any value to a later one, and is the change between two of them unless it is zero: one pass over the values
  with a running peak finds the worst of all falls.
\<close>

theorem max_drawdown_worst_fall:
  assumes "vs \<noteq> []" and "\<forall>v \<in> set vs. 0 < v"
  shows "\<exists>d. bt_max_drawdown vs = Inr d \<and> - 1 \<le> d \<and> d \<le> 0
    \<and> (\<forall>j < length vs. \<forall>i \<le> j. d \<le> rounded_change (vs ! i) (vs ! j))
    \<and> (d = 0 \<or> (\<exists>j < length vs. \<exists>i \<le> j. d = rounded_change (vs ! i) (vs ! j)))"
proof -
  have "0 < hd vs" using assms by simp
  from drawdown_fold[OF assms(2) this] obtain peak d where f: "foldR bt_drawdown_step (hd vs, 0) vs = Inr (peak, d)"
    and d: "- 1 \<le> d" "d \<le> 0" "\<forall>j < length vs. \<forall>i \<le> j. d \<le> rounded_change (vs ! i) (vs ! j)"
      "d = 0 \<or> (\<exists>j < length vs. \<exists>i \<le> j. d = rounded_change (vs ! i) (vs ! j))" by auto
  from f have "bt_max_drawdown vs = Inr d" by (simp add: bt_max_drawdown_def)
  with d show ?thesis by blast
qed

lemma max_drawdown_worst_fall_witness:
  "\<exists>d. bt_max_drawdown [100, 110, 99] = Inr d \<and> d \<le> rounded_change 110 99 \<and> - 1 \<le> d"
proof -
  from max_drawdown_worst_fall[of "[100, 110, 99]"] obtain d where d: "bt_max_drawdown [100, 110, 99] = Inr d" "- 1 \<le> d"
    and all: "\<forall>j < length [100, 110, 99 :: dec]. \<forall>i \<le> j. d \<le> rounded_change ([100, 110, 99] ! i) ([100, 110, 99] ! j)"
    by auto
  from all[rule_format, of 2 1] have "d \<le> rounded_change 110 99" by simp
  with d show ?thesis by blast
qed

end
