(* ===== verification/Experiment_Valid.thy ===== *)
theory Experiment_Valid
  imports Experiment Input_Documents
begin

text \<open>
  The normal form of an experiment specification: what every normalised specification satisfies, and that
  validation maps the document of a normalised specification to itself.
\<close>

section \<open>Single values\<close>

lemma exp_text_Inr: "exp_text ok m f v = Inr s \<longleftrightarrow> v = JStr s \<and> ok s"
  by (auto simp: exp_text_def split: json.splits)

lemma exp_choice_Inr: "exp_choice names m v = Inr s \<longleftrightarrow> v = JStr s \<and> s \<in> set names"
  by (auto simp: exp_choice_def member_of_def bindR_eq_Inr split: json.splits)

lemma exp_int_Inr: "exp_int low m v = Inr i \<longleftrightarrow> v = JInt i \<and> low \<le> i"
  by (auto simp: exp_int_def split: json.splits)

lemma exp_nonempty_Inr: "exp_nonempty f v = Inr s \<longleftrightarrow> (\<exists>t. v = JStr t \<and> s = strip t \<and> s \<noteq> [])"
  by (auto simp: exp_nonempty_def split: json.splits)

lemma exp_policy_Inr: "exp_policy ks m v = Inr ob \<longleftrightarrow> v = JObj ob \<and> set (jkeys ob) = set ks"
  by (auto simp: exp_policy_def split: json.splits)

lemmas exp_texts = exp_uuid_def exp_sha256_def exp_semver_def exp_git_commit_def exp_currency_def
  exp_timestamp_def exp_date_def

text \<open>A text that the validators of decimals and paths keep.\<close>

definition decimal_text :: "bool \<Rightarrow> bool \<Rightarrow> string \<Rightarrow> bool" where
  "decimal_text non_negative positive s \<longleftrightarrow> exp_decimal non_negative positive [] (JStr s) = Inr s"

definition path_text :: "string \<Rightarrow> bool" where
  "path_text s \<longleftrightarrow> safe_relative_path [] (JStr s) = Inr s"

definition nonempty_strip :: "string \<Rightarrow> bool" where
  "nonempty_strip s \<longleftrightarrow> s \<noteq> [] \<and> strip s = s"

lemma exp_decimal_text: "exp_decimal n p f v = Inr s \<longleftrightarrow> v = JStr s \<and> decimal_text n p s"
  by (cases v) (auto simp: exp_decimal_def decimal_text_def Let_def split: option.splits)

lemma safe_path_text: "safe_relative_path f v = Inr s \<Longrightarrow> path_text s"
  by (auto simp: safe_relative_path_def path_text_def bindR_eq_Inr exp_nonempty_Inr split: if_splits)

lemma exp_nonempty_text: "exp_nonempty f v = Inr s \<Longrightarrow> nonempty_strip s"
  by (auto simp: exp_nonempty_Inr nonempty_strip_def)

text \<open>What a parsed field satisfies, and that a field with it parses to itself.\<close>

lemma exp_facts:
  "field_of (exp_choice names m) ob k = Inr s \<Longrightarrow> s \<in> set names"
  "field_of (exp_semver f) ob k = Inr s \<Longrightarrow> is_semver s"
  "field_of (exp_sha256 f) ob k = Inr s \<Longrightarrow> is_sha256 s"
  "field_of (exp_git_commit f) ob k = Inr s \<Longrightarrow> s = ''unknown'' \<or> is_git_sha s"
  "field_of (exp_date f) ob k = Inr s \<Longrightarrow> parse_date s \<noteq> None"
  "field_of (exp_timestamp f) ob k = Inr s \<Longrightarrow> parse_datetime s \<noteq> None"
  "field_of (exp_uuid f) ob k = Inr s \<Longrightarrow> is_canonical_uuid s"
  "field_of (exp_currency f) ob k = Inr s \<Longrightarrow> is_currency s"
  "field_of (exp_int low m) ob k = Inr i \<Longrightarrow> low \<le> i"
  "field_of (exp_decimal n p f) ob k = Inr s \<Longrightarrow> decimal_text n p s"
  "field_of (safe_relative_path f) ob k = Inr s \<Longrightarrow> path_text s"
  "field_of (exp_nonempty f) ob k = Inr s \<Longrightarrow> nonempty_strip s"
  by (drule field_ofD, auto simp: exp_text_Inr exp_choice_Inr exp_int_Inr exp_texts exp_decimal_text
      dest: safe_path_text exp_nonempty_text)+

lemma exp_again:
  "s \<in> set names \<Longrightarrow> exp_choice names m (JStr s) = Inr s"
  "is_semver s \<Longrightarrow> exp_semver f (JStr s) = Inr s"
  "is_sha256 s \<Longrightarrow> exp_sha256 f (JStr s) = Inr s"
  "s = ''unknown'' \<or> is_git_sha s \<Longrightarrow> exp_git_commit f (JStr s) = Inr s"
  "parse_date s \<noteq> None \<Longrightarrow> exp_date f (JStr s) = Inr s"
  "parse_datetime s \<noteq> None \<Longrightarrow> exp_timestamp f (JStr s) = Inr s"
  "is_canonical_uuid s \<Longrightarrow> exp_uuid f (JStr s) = Inr s"
  "is_currency s \<Longrightarrow> exp_currency f (JStr s) = Inr s"
  "low \<le> i \<Longrightarrow> exp_int low m (JInt i) = Inr i"
  "decimal_text n p s \<Longrightarrow> exp_decimal n p f (JStr s) = Inr s"
  "path_text s \<Longrightarrow> safe_relative_path f (JStr s) = Inr s"
  "nonempty_strip s \<Longrightarrow> exp_nonempty f (JStr s) = Inr s"
  "set (jkeys ob) = set ks \<Longrightarrow> exp_policy ks m (JObj ob) = Inr ob"
  "exp_constant c m (JStr c) = Inr ()"
  by (auto simp: exp_text_Inr exp_choice_Inr exp_int_Inr exp_texts exp_decimal_text exp_nonempty_Inr exp_policy_Inr
      nonempty_strip_def exp_constant_def)
    (auto simp: safe_relative_path_def path_text_def bindR_eq_Inr exp_nonempty_Inr split: if_splits)

section \<open>Sections\<close>

definition range_ok :: "string \<times> string \<Rightarrow> bool" where
  "range_ok r \<longleftrightarrow> parse_date (fst r) \<noteq> None \<and> parse_date (snd r) \<noteq> None \<and> fst r \<le> snd r"

lemma date_range_ok: "date_range f v = Inr r \<Longrightarrow> range_ok r"
  unfolding date_range_def range_ok_def by (elim bindR_InrE) (auto dest!: exp_facts)

lemma range_again: "range_ok r \<Longrightarrow> date_range f (range_json r) = Inr r"
  by (simp add: date_range_def range_json_def range_ok_def jkeys_def exp_again not_less)

lemma exp_parameters_again:
  assumes "exp_parameters name ps = Inr p"
    and "name \<in> set [''buy_and_hold'', ''equal_weight'', ''momentum_12_1'']"
  obtains ps' where "parameters_json p = JObj ps'" and "exp_parameters name ps' = Inr p"
proof -
  define ps' where "ps' = (case parameters_json p of JObj kvs \<Rightarrow> kvs | _ \<Rightarrow> [])"
  from assms(2) consider "name = ''buy_and_hold''" | "name = ''equal_weight''" | "name = ''momentum_12_1''" by auto
  then have "parameters_json p = JObj ps' \<and> exp_parameters name ps' = Inr p"
  proof cases
    case 1
    with assms(1) show ?thesis
      by (auto simp: exp_parameters_def parameters_json_def ps'_def split: if_splits)
  next
    case 2
    with assms(1) obtain f where "f \<in> set exp_frequencies"
      "p = \<lparr>pm_rebalance_frequency = Some f, pm_lookback_sessions = None, pm_skip_sessions = None, pm_top_k = None\<rparr>"
      by (auto simp: exp_parameters_def Let_def bindR_eq_Inr dest!: exp_facts)
    with 2 show ?thesis
      by (simp add: exp_parameters_def parameters_json_def ps'_def jkeys_def exp_again Let_def)
  next
    case 3
    with assms(1) obtain f l k t where "f \<in> set exp_frequencies" "1 \<le> l" "1 \<le> k" "1 \<le> t" "k < l"
      "p = \<lparr>pm_rebalance_frequency = Some f, pm_lookback_sessions = Some l, pm_skip_sessions = Some k, pm_top_k = Some t\<rparr>"
      by (auto simp: exp_parameters_def Let_def bindR_eq_Inr dest!: exp_facts)
    with 3 show ?thesis
      by (simp add: exp_parameters_def parameters_json_def ps'_def jkeys_def exp_again Let_def)
  qed
  then show thesis by (rule conjE) (rule that)
qed

lemma exp_strategy_again:
  assumes "exp_strategy v = Inr s"
  shows "exp_strategy (strategy_json s) = Inr s"
proof -
  from assms obtain ps where s: "st_name s \<in> set [''buy_and_hold'', ''equal_weight'', ''momentum_12_1'']"
      "st_git_commit s = ''unknown'' \<or> is_git_sha (st_git_commit s)" "is_semver (st_version s)"
    and ps: "exp_parameters (st_name s) ps = Inr (st_parameters s)"
    unfolding exp_strategy_def by (elim bindR_InrE) (auto dest!: exp_facts)
  obtain ps' where "parameters_json (st_parameters s) = JObj ps'"
      "exp_parameters (st_name s) ps' = Inr (st_parameters s)"
    by (rule exp_parameters_again[OF ps s(1)])
  with s show ?thesis
    by (simp add: exp_strategy_def strategy_json_def jkeys_def exp_again del: list.set)
qed

lemma exp_universe_again:
  assumes "exp_universe v = Inr u"
  shows "exp_universe (universe_json u) = Inr u"
    and "distinct (un_security_ids u) \<and> sorted (un_security_ids u) \<and> un_security_ids u \<noteq> []"
proof -
  let ?f = "\<lambda>(i, item). exp_uuid (index_label ''universe.security_ids'' i []) item"
  from assms obtain items ids where items: "items \<noteq> []"
    and ids: "mapR ?f (enumerate 0 items) = Inr ids" and d: "distinct ids"
    and u: "un_security_ids u = sort ids" "is_canonical_uuid (un_universe_id u)" "is_semver (un_version u)"
      "is_sha256 (un_membership_fingerprint u)"
    unfolding exp_universe_def
    by (elim bindR_InrE) (auto dest!: exp_facts field_ofD[of "case_json _ _ _ _ _ _ _"] split: json.splits if_splits)
  have uuid: "is_canonical_uuid x" if "x \<in> set ids" for x
    using mapR_memD[OF ids that] by (auto simp: exp_uuid_def exp_text_Inr)
  have len: "ids \<noteq> []" using mapR_length[OF ids] items by auto
  show facts: "distinct (un_security_ids u) \<and> sorted (un_security_ids u) \<and> un_security_ids u \<noteq> []"
    using d len by (simp add: u(1))
  have again: "mapR ?f (enumerate 0 (map JStr (un_security_ids u))) = Inr (un_security_ids u)"
    by (rule mapR_enumerate_again) (simp add: exp_again uuid u(1))
  show "exp_universe (universe_json u) = Inr u"
    using u(2-4) facts
    by (simp add: exp_universe_def universe_json_def jkeys_def strings_json_def again exp_again sorted_sort_id
        insert_commute)
qed

lemma artifact_ref_again:
  assumes "artifact_ref f v = Inr r"
  shows "artifact_ref f' (exp_reference_json r) = Inr r" and "r_fitness r = ''backtest_safe''"
proof -
  from assms obtain ob where v: "v = JObj ob" and sub: "set (jkeys ob) \<subseteq> set artifact_ref_fields"
    by (auto simp: artifact_ref_def split: json.splits if_splits)
  from assms[unfolded artifact_ref_def v json.case if_P[OF sub] Let_def]
  have r: "r_kind r \<in> set supported_input_kinds" "nonempty_strip (r_kind r)" "is_canonical_uuid (r_artifact_id r)"
    "path_text (r_path r)" "is_sha256 (r_sha256 r)" "parse_datetime (r_available_at r) \<noteq> None" "r_fitness r = ''backtest_safe''"
    by (elim bindR_InrE; auto dest!: exp_facts simp del: list.set)+
  then show "artifact_ref f' (exp_reference_json r) = Inr r"
    by (simp add: artifact_ref_def exp_reference_json_def artifact_ref_fields_def jkeys_def exp_again dget_def bindR_ensure)
  show "r_fitness r = ''backtest_safe''" by (rule r)
qed

lemma exp_inputs_again:
  assumes "exp_inputs v = Inr rs"
  shows "exp_inputs (JArr (map exp_reference_json rs)) = Inr rs"
    and "distinct (map r_kind rs) \<and> {''prices'', ''calendar'', ''membership''} \<subseteq> set (map r_kind rs)
      \<and> (\<forall>r \<in> set rs. r_fitness r = ''backtest_safe'')"
proof -
  let ?f = "\<lambda>(i, item). artifact_ref (index_label ''inputs'' i []) item" and ?k = "\<lambda>r. (r_kind r, r_artifact_id r)"
  from assms obtain items rows where items: "3 \<le> length items"
    and rows: "mapR ?f (enumerate 0 items) = Inr rows"
    and ok: "distinct (map r_kind rows)"
    and req: "{''prices'', ''calendar'', ''membership''} \<subseteq> set (map r_kind rows)"
    and rs: "rs = sort_key ?k rows"
    unfolding exp_inputs_def Let_def by (elim bindR_InrE) (auto simp: not_less split: json.splits if_splits simp del: insert_subset)
  have len: "3 \<le> length (map exp_reference_json rs)" using mapR_length[OF rows] items by (simp add: rs)
  have row: "\<exists>f w. artifact_ref f w = Inr m" if "m \<in> set rs" for m
  proof -
    from that have "m \<in> set rows" by (simp add: rs)
    from mapR_memD[OF rows this] show ?thesis by auto
  qed
  have again: "mapR ?f (enumerate 0 (map exp_reference_json rs)) = Inr rs"
    by (rule mapR_enumerate_again) (use row artifact_ref_again(1) in force)
  show facts: "distinct (map r_kind rs) \<and> {''prices'', ''calendar'', ''membership''} \<subseteq> set (map r_kind rs)
      \<and> (\<forall>r \<in> set rs. r_fitness r = ''backtest_safe'')"
    using ok req row artifact_ref_again(2) by (auto simp: rs distinct_map)
  moreover have "sort_key ?k rs = rs" by (simp add: rs)
  ultimately show "exp_inputs (JArr (map exp_reference_json rs)) = Inr rs"
    using len by (simp add: exp_inputs_def again bindR_ensure)
qed

lemma exp_benchmark_again:
  assumes "exp_benchmark v = Inr (s, c)"
  shows "exp_benchmark (JObj [(''security_id'', JStr s), (''currency'', JStr c)]) = Inr (s, c)"
proof -
  from assms have "is_canonical_uuid s" "is_currency c"
    unfolding exp_benchmark_def by (elim bindR_InrE; auto dest!: exp_facts)+
  then show ?thesis by (simp add: exp_benchmark_def jkeys_def exp_again)
qed

lemma exp_decision_again:
  assumes "exp_decision v = Inr d"
  shows "exp_decision (JObj [(''name'', JStr ''after_close_next_session_open''), (''frequency'', JStr ''daily''),
        (''signal_delay_sessions'', d), (''execution_price'', JStr ''open'')]) = Inr d"
proof -
  from assms have "equals_one d" unfolding exp_decision_def by (elim bindR_InrE; auto)+
  then show ?thesis by (simp add: exp_decision_def jkeys_def jget_def exp_again)
qed

lemma exp_optional_Inr: "exp_optional p v = Inr x \<longleftrightarrow> v = JNull \<and> x = None \<or> v \<noteq> JNull \<and> (\<exists>y. p v = Inr y \<and> x = Some y)"
  by (auto simp: exp_optional_def bindR_eq_Inr)

lemma exp_optional_again: "(\<And>y. x = Some y \<Longrightarrow> p (g y) = Inr y \<and> g y \<noteq> JNull) \<Longrightarrow> exp_optional p (null_or g x) = Inr x"
  by (cases x) (auto simp: exp_optional_def null_or_def)

lemma exp_optional_currency:
  "field_of (exp_optional (exp_currency f)) ob k = Inr x \<Longrightarrow> \<forall>c. x = Some c \<longrightarrow> is_currency c"
  by (drule field_ofD) (auto simp: exp_optional_Inr exp_currency_def exp_text_Inr)

lemma exp_accounting_again:
  assumes "exp_accounting v = Inr a"
  shows "exp_accounting (exp_accounting_json a) = Inr a"
    and "is_currency (ba_base_currency a) \<and> decimal_text False True (ba_initial_cash a)"
proof -
  from assms have a: "ba_rebalance_frequency a \<in> set [''once'', ''daily'', ''monthly'']"
      "is_currency (ba_base_currency a)" "decimal_text False True (ba_initial_cash a)"
      "\<forall>c. ba_reporting_currency a = Some c \<longrightarrow> is_currency c"
    unfolding exp_accounting_def
    by (elim bindR_InrE; auto dest!: exp_facts exp_optional_currency simp del: list.set)+
  then have "exp_optional (exp_currency f) (null_or JStr (ba_reporting_currency a)) = Inr (ba_reporting_currency a)" for f
    by (intro exp_optional_again) (simp add: exp_again)
  with a show "exp_accounting (exp_accounting_json a) = Inr a"
    by (simp add: exp_accounting_def exp_accounting_json_def jkeys_def exp_again del: list.set)
  from a show "is_currency (ba_base_currency a) \<and> decimal_text False True (ba_initial_cash a)" by simp
qed

definition exp_cost_ok :: "cost_policy \<Rightarrow> bool" where
  "exp_cost_ok c \<longleftrightarrow> is_semver (cp_version c) \<and> list_all (decimal_text True False)
     [cp_commission_bps c, cp_fixed_fee c, cp_minimum_fee c, cp_spread_bps c, cp_slippage_bps c, cp_tax_bps c]"

lemma exp_cost_again:
  assumes "exp_cost v = Inr c"
  shows "exp_cost (cost_json c) = Inr c" and "exp_cost_ok c"
proof -
  from assms show c: "exp_cost_ok c"
    unfolding exp_cost_def exp_cost_ok_def by (elim bindR_InrE) (auto dest!: exp_facts)
  then show "exp_cost (cost_json c) = Inr c"
    by (simp add: exp_cost_def cost_json_def cost_fields_def exp_cost_ok_def jkeys_def exp_again del: list.set)
qed

definition exp_risk_ok :: "backtest_risk \<Rightarrow> bool" where
  "exp_risk_ok r \<longleftrightarrow> decimal_text True False (br_max_gross_exposure r) \<and> decimal_text True False (br_max_position_weight r)
     \<and> decimal_text True False (br_max_participation r)
     \<and> 0 < dec_text (br_max_position_weight r) \<and> dec_text (br_max_position_weight r) \<le> dec_text (br_max_gross_exposure r)
     \<and> dec_text (br_max_participation r) \<le> 1"

lemma exp_risk_again:
  assumes "exp_risk v = Inr r"
  shows "exp_risk (exp_risk_json r) = Inr r" and "exp_risk_ok r"
proof -
  from assms show r: "exp_risk_ok r"
    unfolding exp_risk_def exp_risk_ok_def by (elim bindR_InrE) (auto dest!: exp_facts)
  then show "exp_risk (exp_risk_json r) = Inr r"
    by (simp add: exp_risk_def exp_risk_json_def exp_risk_ok_def jkeys_def exp_again bindR_ensure not_less not_le
        insert_commute)
qed

definition exp_metrics_ok :: "string list \<Rightarrow> metrics_policy \<Rightarrow> bool" where
  "exp_metrics_ok kinds m \<longleftrightarrow> is_semver (mp_version m) \<and> 1 \<le> mp_annualization_factor m
     \<and> (mp_risk_free_source m = ''constant_annual'' \<and> ''risk_free'' \<notin> set kinds
          \<and> (\<exists>s. mp_risk_free_annual m = Some s \<and> decimal_text False False s)
        \<or> mp_risk_free_source m = ''artifact'' \<and> ''risk_free'' \<in> set kinds \<and> mp_risk_free_annual m = None)"

lemma exp_metrics_again:
  assumes "exp_metrics kinds v = Inr m"
  shows "exp_metrics kinds (exp_metrics_json m) = Inr m" and "exp_metrics_ok kinds m"
proof -
  from assms show m: "exp_metrics_ok kinds m"
    unfolding exp_metrics_def exp_metrics_ok_def
    by (elim bindR_InrE) (auto dest!: exp_facts simp: exp_decimal_text bindR_eq_Inr split: if_splits)
  from m consider s where "mp_risk_free_source m = ''constant_annual''" "''risk_free'' \<notin> set kinds"
      "mp_risk_free_annual m = Some s" "decimal_text False False s"
    | "mp_risk_free_source m = ''artifact''" "''risk_free'' \<in> set kinds" "mp_risk_free_annual m = None"
    by (auto simp: exp_metrics_ok_def)
  then show "exp_metrics kinds (exp_metrics_json m) = Inr m"
  proof cases
    case 1
    with m show ?thesis
      by (simp add: exp_metrics_def exp_metrics_json_def exp_metrics_ok_def jkeys_def jget_def null_or_def exp_again)
  next
    case 2
    with m show ?thesis
      by (simp add: exp_metrics_def exp_metrics_json_def exp_metrics_ok_def jkeys_def jget_def null_or_def exp_again)
  qed
qed

section \<open>Partitions\<close>

definition partition_ok :: "string \<times> string \<Rightarrow> partition \<Rightarrow> bool" where
  "partition_ok period p \<longleftrightarrow> nonempty_strip (pa_name p) \<and> is_slug (pa_name p) \<and> pa_kind p \<in> set partition_kinds
     \<and> range_ok (pa_start_date p, pa_end_date p) \<and> fst period \<le> pa_start_date p \<and> pa_end_date p \<le> snd period"

lemma partition_step_row:
  assumes "partition_step period acc (i, v) = Inr acc'"
  shows "\<exists>p. acc' = acc @ [p] \<and> partition_ok period p \<and> pa_name p \<notin> set (map pa_name acc)
    \<and> pa_kind p \<notin> set (map pa_kind acc)"
proof -
  from assms show ?thesis
    unfolding partition_step_def partition_ok_def Let_def prod.case
    by (elim bindR_InrE)
      (auto simp: outside_period_def not_less dest!: exp_facts date_range_ok field_ofD[of "case_json _ _ _ _ _ _ _"]
        split: json.splits if_splits prod.splits)
qed

lemma partition_rows:
  assumes "foldR (partition_step period) [] (enumerate n items) = Inr rows"
  shows "\<forall>p \<in> set rows. partition_ok period p" and "distinct (map pa_name rows)" and "distinct (map pa_kind rows)"
    and "length rows = length items"
proof -
  have a: "appends_row (partition_ok period) pa_name (partition_step period)"
    and b: "appends_row (partition_ok period) pa_kind (partition_step period)"
    unfolding appends_row_def using partition_step_row by fastforce+
  from appends_row_fold[OF a assms] show "\<forall>p \<in> set rows. partition_ok period p" "distinct (map pa_name rows)"
    "length rows = length items" by (simp_all add: list_all_iff)
  from appends_row_fold[OF b assms] show "distinct (map pa_kind rows)" by simp
qed

lemma partition_step_again:
  assumes "partition_ok period p" and "pa_name p \<notin> set (map pa_name acc)" and "pa_kind p \<notin> set (map pa_kind acc)"
  shows "partition_step period acc (i, partition_json p) = Inr (acc @ [p])"
proof -
  note p = assms(1)[unfolded partition_ok_def]
  have "date_range f (JObj [(''start_date'', JStr (pa_start_date p)), (''end_date'', JStr (pa_end_date p))])
      = Inr (pa_start_date p, pa_end_date p)" for f
    using range_again[of "(pa_start_date p, pa_end_date p)" f] p by (simp add: range_json_def)
  with p assms(2,3) show ?thesis
    by (simp add: partition_step_def partition_json_def jkeys_def jget_def exp_again bindR_ensure outside_period_def
        not_less Let_def)
qed

lemma partition_fold_again:
  assumes "\<forall>p \<in> set ps. partition_ok period p" and "distinct (map pa_name (acc @ ps))" and "distinct (map pa_kind (acc @ ps))"
  shows "foldR (partition_step period) acc (enumerate n (map partition_json ps)) = Inr (acc @ ps)"
  using assms
proof (induction ps arbitrary: acc n)
  case (Cons p ps)
  have "partition_step period acc (n, partition_json p) = Inr (acc @ [p])"
    by (rule partition_step_again) (use Cons.prems in auto)
  with Cons.IH[of "acc @ [p]" "Suc n"] Cons.prems show ?case by simp
qed simp

text \<open>
  The partitions of a specification: the three kinds in their order, each a range inside the period, and
  each starting after the end of the one before.
\<close>

definition partitions_ok :: "string \<times> string \<Rightarrow> partition list \<Rightarrow> bool" where
  "partitions_ok period ps \<longleftrightarrow> map pa_kind ps = partition_kinds \<and> (\<forall>p \<in> set ps. partition_ok period p)
     \<and> distinct (map pa_name ps) \<and> list_all (\<lambda>(p, q). pa_end_date p < pa_start_date q) (pairwise ps)"

lemma partition_order:
  assumes "distinct (map pa_kind ps)" and "set (map pa_kind ps) = set partition_kinds"
    and "sorted (map (kind_order \<circ> pa_kind) ps)"
  shows "map pa_kind ps = partition_kinds"
proof -
  let ?ks = "map pa_kind ps"
  have "sorted (map kind_order ?ks)" using assms(3) by simp
  moreover have inj: "inj_on kind_order (set partition_kinds)"
    by (auto simp: inj_on_def kind_order_def partition_kinds_def)
  ultimately have "sorted (map kind_order ?ks)" "distinct (map kind_order ?ks)"
    using assms(1,2) by (simp_all only: distinct_map)
  moreover have "sorted (map kind_order partition_kinds)" "distinct (map kind_order partition_kinds)"
    by (simp_all add: partition_kinds_def kind_order_def)
  moreover have "set (map kind_order ?ks) = set (map kind_order partition_kinds)"
    using assms(2) by (metis set_map)
  ultimately have "map kind_order ?ks = map kind_order partition_kinds" by (rule sorted_distinct_set_unique)
  then show ?thesis
    by (rule map_inj_on) (use inj assms(2) in simp)
qed

lemma exp_partitions_ok:
  assumes "exp_partitions period v = Inr ps"
  shows "partitions_ok period ps"
proof -
  from assms obtain items rows where rows: "foldR (partition_step period) [] (enumerate 0 items) = Inr rows"
    and kinds: "set (map pa_kind rows) = set partition_kinds" and ps: "ps = sort_key pa_start_date rows"
    and order: "list_all (\<lambda>(previous, current). \<not> pa_start_date current \<le> pa_end_date previous) (pairwise ps)"
      "sorted (map (kind_order \<circ> pa_kind) ps)"
    unfolding exp_partitions_def Let_def by (elim bindR_InrE) auto
  note facts = partition_rows[OF rows]
  have "map pa_kind ps = partition_kinds"
    using facts(3) kinds order(2) by (intro partition_order) (simp_all add: ps sort_key_rows)
  moreover have "list_all (\<lambda>(p, q). pa_end_date p < pa_start_date q) (pairwise ps)"
    using order(1) by (auto simp: list_all_iff)
  ultimately show ?thesis using facts(1,2) by (simp add: partitions_ok_def ps sort_key_rows)
qed

lemma exp_partitions_again:
  assumes "partitions_ok period ps"
  shows "exp_partitions period (JArr (map partition_json ps)) = Inr ps"
proof -
  note ok = assms[unfolded partitions_ok_def]
  have kinds: "map pa_kind ps = partition_kinds" using ok by simp
  then have len: "length ps = 3" by (metis length_map partition_kinds_def list.size(3,4) numeral_3_eq_3 One_nat_def Suc_eq_plus1 plus_1_eq_Suc)
  then obtain a b c where abc: "ps = [a, b, c]" by (auto simp: numeral_3_eq_3 length_Suc_conv)
  have "pa_start_date a \<le> pa_end_date a" "pa_start_date b \<le> pa_end_date b" "pa_end_date a < pa_start_date b" "pa_end_date b < pa_start_date c"
    using ok by (auto simp: abc pairwise_def partition_ok_def range_ok_def)
  then have "pa_start_date a \<le> pa_start_date b" "pa_start_date b \<le> pa_start_date c" "pa_start_date a \<le> pa_start_date c"
    by (meson order.strict_implies_order order.trans)+
  then have sorted: "sort_key pa_start_date ps = ps" by (intro sort_key_id_if_sorted) (simp add: abc)
  have fold: "foldR (partition_step period) [] (enumerate 0 (map partition_json ps)) = Inr ps"
    using partition_fold_again[of ps period "[]" 0] ok by (simp add: kinds partition_kinds_def)
  have "sorted (map (kind_order \<circ> pa_kind) ps)"
    unfolding map_map[symmetric] kinds by (simp add: partition_kinds_def kind_order_def)
  moreover have "list_all (\<lambda>(p, q). \<not> pa_start_date q \<le> pa_end_date p) (pairwise ps)"
    using ok by (auto simp: list_all_iff)
  moreover have "set (map pa_kind ps) = set partition_kinds" by (simp only: kinds)
  ultimately show ?thesis
    by (simp add: exp_partitions_def fold sorted len bindR_ensure del: set_map)
qed

section \<open>Walk-forward windows\<close>

definition window_ok :: "string \<times> string \<Rightarrow> forward_window \<Rightarrow> bool" where
  "window_ok period w \<longleftrightarrow> nonempty_strip (fw_name w) \<and> is_slug (fw_name w)
     \<and> range_ok (fw_train w) \<and> range_ok (fw_calibration w) \<and> range_ok (fw_test w)
     \<and> snd (fw_train w) < fst (fw_calibration w) \<and> snd (fw_calibration w) < fst (fw_test w)
     \<and> fst period \<le> fst (fw_train w) \<and> snd (fw_test w) \<le> snd period"

lemma window_step_row:
  assumes "window_step period acc (i, v) = Inr acc'"
  shows "\<exists>w. acc' = acc @ [w] \<and> window_ok period w \<and> fw_name w \<notin> set (map fw_name acc)"
proof -
  have r: "field_of (date_range f) ob k = Inr r \<Longrightarrow> range_ok r" for f ob k r
    by (drule field_ofD) (auto dest: date_range_ok)
  from assms show ?thesis
    unfolding window_step_def window_ok_def Let_def prod.case
    by (elim bindR_InrE) (auto simp: outside_period_def not_less dest!: exp_facts r)
qed

lemma exp_windows_ok:
  assumes "exp_windows period v = Inr ws"
  shows "(\<forall>w \<in> set ws. window_ok period w) \<and> distinct (map fw_name ws)"
proof (cases v)
  case (JArr xs)
  have a: "appends_row (window_ok period) fw_name (window_step period)"
    unfolding appends_row_def using window_step_row by fastforce
  from assms JArr appends_row_fold[OF a] show ?thesis by (auto simp: exp_windows_def list_all_iff)
qed (use assms in \<open>auto simp: exp_windows_def\<close>)

lemma exp_windows_again:
  assumes "\<forall>w \<in> set ws. window_ok period w" and "distinct (map fw_name ws)"
  shows "exp_windows period (JArr (map window_json ws)) = Inr ws"
proof -
  have "foldR (window_step period) [] (enumerate 0 (map window_json ws)) = Inr ([] @ ws)"
  proof (rule fold_docs[where key = fw_name])
    fix acc :: "forward_window list" and i w
    assume "w \<in> set ws" and "fw_name w \<notin> set (map fw_name acc)"
    moreover from this assms(1) have "window_ok period w" by blast
    moreover then have "fst (fw_calibration w) \<le> snd (fw_calibration w)" by (simp add: window_ok_def range_ok_def)
    ultimately show "window_step period acc (i, window_json w) = Inr (acc @ [w])"
      by (simp add: window_step_def window_json_def jkeys_def exp_again range_again bindR_ensure outside_period_def
          not_less Let_def window_ok_def)
  qed (use assms(2) in simp)
  then show ?thesis by (simp add: exp_windows_def)
qed

section \<open>The whole specification\<close>

text \<open>What the engine relies on.\<close>

definition experiment_ok :: "experiment_spec \<Rightarrow> bool" where
  "experiment_ok e \<longleftrightarrow> range_ok (ex_period e) \<and> partitions_ok (ex_period e) (ex_partitions e)
     \<and> distinct (un_security_ids (ex_universe e)) \<and> sorted (un_security_ids (ex_universe e))
     \<and> un_security_ids (ex_universe e) \<noteq> []
     \<and> distinct (map r_kind (ex_inputs e)) \<and> {''prices'', ''calendar'', ''membership''} \<subseteq> set (map r_kind (ex_inputs e))
     \<and> (\<forall>r \<in> set (ex_inputs e). r_fitness r = ''backtest_safe'')
     \<and> is_currency (ba_base_currency (ex_accounting_policy e))
     \<and> decimal_text False True (ba_initial_cash (ex_accounting_policy e))
     \<and> exp_cost_ok (ex_cost_policy e) \<and> exp_risk_ok (ex_risk_policy e)
     \<and> exp_metrics_ok (map r_kind (ex_inputs e)) (ex_metrics_policy e)
     \<and> (\<forall>w \<in> set (ex_walk_forward_windows e). window_ok (ex_period e) w)
     \<and> distinct (map fw_name (ex_walk_forward_windows e))"

lemma normalize_sections_parts:
  assumes "normalize_sections ob = Inr e"
  obtains vp vi vb vs vu vd va vc vr vm vt vw where "date_range ''period'' vp = Inr (ex_period e)"
    and "exp_inputs vi = Inr (ex_inputs e)"
    and "exp_benchmark vb = Inr (ex_benchmark_security_id e, ex_benchmark_currency e)"
    and "exp_strategy vs = Inr (ex_strategy e)" and "exp_universe vu = Inr (ex_universe e)"
    and "exp_decision vd = Inr (ex_signal_delay e)" and "exp_accounting va = Inr (ex_accounting_policy e)"
    and "exp_cost vc = Inr (ex_cost_policy e)" and "exp_risk vr = Inr (ex_risk_policy e)"
    and "exp_metrics (map r_kind (ex_inputs e)) vm = Inr (ex_metrics_policy e)"
    and "exp_partitions (ex_period e) vt = Inr (ex_partitions e)"
    and "exp_windows (ex_period e) vw = Inr (ex_walk_forward_windows e)"
    and "ex_missing_data_policy e \<in> set [''reject_trade'', ''halt_experiment'']"
    and "\<forall>i. ex_random_seed e = Some i \<longrightarrow> 0 \<le> i"
    and "ex_experiment_id e = []"
proof -
  have seed: "exp_seed v = Inr x \<Longrightarrow> \<forall>i. x = Some i \<longrightarrow> 0 \<le> i" for v x
    by (auto simp: exp_seed_def exp_optional_Inr exp_int_Inr)
  from assms show thesis
    unfolding normalize_sections_def
    apply (elim bindR_InrE)
    apply (simp only: prod.case_eq_if)
    apply (elim bindR_InrE)
    apply (drule exp_facts(1) field_ofD seed)+
    apply (elim exE)
    apply (simp only: sum.inject)
    apply hypsubst
    apply (rule that; simp only: experiment_spec.select_convs prod.collapse; assumption?)
    done
qed

lemma normalize_sections_ok: "normalize_sections ob = Inr e \<Longrightarrow> experiment_ok e"
proof (erule normalize_sections_parts)
  fix vp vi vs vu va vc vr vm vt vw
  assume s: "date_range ''period'' vp = Inr (ex_period e)" "exp_inputs vi = Inr (ex_inputs e)"
    "exp_universe vu = Inr (ex_universe e)" "exp_accounting va = Inr (ex_accounting_policy e)"
    "exp_cost vc = Inr (ex_cost_policy e)" "exp_risk vr = Inr (ex_risk_policy e)"
    "exp_metrics (map r_kind (ex_inputs e)) vm = Inr (ex_metrics_policy e)"
    "exp_partitions (ex_period e) vt = Inr (ex_partitions e)"
    "exp_windows (ex_period e) vw = Inr (ex_walk_forward_windows e)"
  show ?thesis
    using s(1)[THEN date_range_ok] s(2)[THEN exp_inputs_again(2)] s(3)[THEN exp_universe_again(2)]
      s(4)[THEN exp_accounting_again(2)] s(5)[THEN exp_cost_again(2)] s(6)[THEN exp_risk_again(2)]
      s(7)[THEN exp_metrics_again(2)] s(8)[THEN exp_partitions_ok] s(9)[THEN exp_windows_ok]
    by (simp add: experiment_ok_def)
qed

lemma identity_lookup:
  "map_of (identity_fields e @ rest) k = (case map_of (identity_fields e) k of None \<Rightarrow> map_of rest k | Some v \<Rightarrow> Some v)"
  by (simp add: map_add_def)

lemma identity_values:
  "map_of (identity_fields e) ''schema_version'' = Some (JStr experiment_schema_version)"
  "map_of (identity_fields e) ''strategy'' = Some (strategy_json (ex_strategy e))"
  "map_of (identity_fields e) ''period'' = Some (range_json (ex_period e))"
  "map_of (identity_fields e) ''universe'' = Some (universe_json (ex_universe e))"
  "map_of (identity_fields e) ''inputs'' = Some (JArr (map exp_reference_json (ex_inputs e)))"
  "map_of (identity_fields e) ''benchmark'' = Some (JObj [(''security_id'', JStr (ex_benchmark_security_id e)),
     (''currency'', JStr (ex_benchmark_currency e))])"
  "map_of (identity_fields e) ''decision_policy'' = Some (JObj [(''name'', JStr ''after_close_next_session_open''),
     (''frequency'', JStr ''daily''), (''signal_delay_sessions'', ex_signal_delay e), (''execution_price'', JStr ''open'')])"
  "map_of (identity_fields e) ''accounting_policy'' = Some (exp_accounting_json (ex_accounting_policy e))"
  "map_of (identity_fields e) ''cost_policy'' = Some (cost_json (ex_cost_policy e))"
  "map_of (identity_fields e) ''risk_policy'' = Some (exp_risk_json (ex_risk_policy e))"
  "map_of (identity_fields e) ''metrics_policy'' = Some (exp_metrics_json (ex_metrics_policy e))"
  "map_of (identity_fields e) ''partitions'' = Some (JArr (map partition_json (ex_partitions e)))"
  "map_of (identity_fields e) ''walk_forward_windows'' = Some (JArr (map window_json (ex_walk_forward_windows e)))"
  "map_of (identity_fields e) ''missing_data_policy'' = Some (JStr (ex_missing_data_policy e))"
  "map_of (identity_fields e) ''random_seed'' = Some (null_or JInt (ex_random_seed e))"
  "map_of (identity_fields e) ''experiment_id'' = None"
  by (simp_all add: identity_fields_def)

lemma identity_keys: "jkeys (identity_fields e) = removeAll ''experiment_id'' experiment_fields"
  by (simp add: identity_fields_def jkeys_def experiment_fields_def)

lemma identity_same: "identity_fields (e\<lparr>ex_experiment_id := i\<rparr>) = identity_fields e"
  by (simp add: identity_fields_def)

text \<open>The sections of a normalised specification are read back unchanged.\<close>

lemma normalize_sections_again:
  assumes "normalize_sections ob = Inr e"
  shows "normalize_sections (identity_fields e @ rest) = Inr e"
  using assms
proof (rule normalize_sections_parts)
  fix vp vi vb vs vu vd va vc vr vm vt vw
  assume s: "date_range ''period'' vp = Inr (ex_period e)" "exp_inputs vi = Inr (ex_inputs e)"
    "exp_benchmark vb = Inr (ex_benchmark_security_id e, ex_benchmark_currency e)"
    "exp_strategy vs = Inr (ex_strategy e)" "exp_universe vu = Inr (ex_universe e)"
    "exp_decision vd = Inr (ex_signal_delay e)" "exp_accounting va = Inr (ex_accounting_policy e)"
    "exp_cost vc = Inr (ex_cost_policy e)" "exp_risk vr = Inr (ex_risk_policy e)"
    "exp_metrics (map r_kind (ex_inputs e)) vm = Inr (ex_metrics_policy e)"
    "exp_partitions (ex_period e) vt = Inr (ex_partitions e)"
    "exp_windows (ex_period e) vw = Inr (ex_walk_forward_windows e)"
    and t: "ex_missing_data_policy e \<in> set [''reject_trade'', ''halt_experiment'']"
    "\<forall>i. ex_random_seed e = Some i \<longrightarrow> 0 \<le> i" "ex_experiment_id e = []"
  note again = s(1)[THEN date_range_ok, THEN range_again] s(2)[THEN exp_inputs_again(1)] s(3)[THEN exp_benchmark_again]
    s(4)[THEN exp_strategy_again] s(5)[THEN exp_universe_again(1)] s(6)[THEN exp_decision_again]
    s(7)[THEN exp_accounting_again(1)] s(8)[THEN exp_cost_again(1)] s(9)[THEN exp_risk_again(1)]
    s(10)[THEN exp_metrics_again(1)] s(11)[THEN exp_partitions_ok, THEN exp_partitions_again]
  have windows: "exp_windows (ex_period e) (JArr (map window_json (ex_walk_forward_windows e))) = Inr (ex_walk_forward_windows e)"
    using exp_windows_ok[OF s(12)] by (intro exp_windows_again) simp_all
  have seed: "exp_seed (null_or JInt (ex_random_seed e)) = Inr (ex_random_seed e)"
    unfolding exp_seed_def by (rule exp_optional_again) (use t(2) in \<open>simp add: exp_again\<close>)
  show ?thesis
    unfolding normalize_sections_def
    using t(1,3) by (simp add: identity_lookup identity_values again windows seed exp_again dget_def del: list.set map_append map_of_append)
qed

lemma normalize_unfold:
  assumes "normalize_experiment_spec env required v = Inr e"
  obtains ob e0 where "normalize_sections ob = Inr e0" and "e = e0\<lparr>ex_experiment_id := experiment_identity env e0\<rparr>"
    and "map_of ob ''experiment_id'' \<noteq> None \<Longrightarrow> is_canonical_uuid (ex_experiment_id e)"
    and "required \<Longrightarrow> map_of ob ''experiment_id'' \<noteq> None"
proof -
  from assms obtain ob where v: "v = JObj ob" by (auto simp: normalize_experiment_spec_def split: json.splits)
  from assms[unfolded normalize_experiment_spec_def v json.case Let_def] obtain e0 given where
    e0: "normalize_sections ob = Inr e0"
    and given: "(case map_of ob ''experiment_id'' of
              Some w \<Rightarrow> bindR (exp_uuid ''experiment_id'' w) (\<lambda>s. Inr (Some s))
            | None \<Rightarrow> if required then exp_error ''experiment_id is required'' else Inr None) = Inr given"
    and same: "given = None \<or> given = Some (experiment_identity env e0)"
    and e: "e = e0\<lparr>ex_experiment_id := experiment_identity env e0\<rparr>"
    by (elim bindR_InrE) (simp only: ensure_Inr sum.inject)
  show thesis
    by (rule that[OF e0 e]) (use given same in \<open>auto simp: e bindR_eq_Inr exp_uuid_def exp_text_Inr split: option.splits if_splits\<close>)
qed

lemma normalize_again:
  assumes "normalize_experiment_spec env required v = Inr e" and "is_canonical_uuid (ex_experiment_id e)"
  shows "normalize_experiment_spec env True (experiment_json e) = Inr e"
  using assms(1)
proof (rule normalize_unfold)
  fix ob e0
  assume s: "normalize_sections ob = Inr e0" and e: "e = e0\<lparr>ex_experiment_id := experiment_identity env e0\<rparr>"
  have doc: "experiment_json e = JObj (identity_fields e0 @ [(''experiment_id'', JStr (ex_experiment_id e))])"
    by (simp add: experiment_json_def e identity_same)
  have known: "filter (\<lambda>k. k \<notin> set experiment_fields) (jkeys (identity_fields e0 @ [(''experiment_id'', x)])) = []"
    and present: "filter (\<lambda>k. k \<notin> set optional_fields \<and> k \<notin> set (jkeys (identity_fields e0 @ [(''experiment_id'', x)]))) experiment_fields = []" for x
    using identity_keys[of e0] by (simp_all add: jkeys_def experiment_fields_def)
  show ?thesis
    unfolding doc normalize_experiment_spec_def json.case Let_def known present
    using assms(2)
    by (simp add: normalize_sections_again[OF s] identity_lookup identity_values exp_again bindR_ensure e
        del: map_of_append)
qed

text \<open>
  (C35) The document of a specification is a normal form: whatever validation or construction returned,
  written out, validates to the same specification under the same identity; and it is well formed: the three
  partitions in their order, disjoint and inside the period, one pinned artifact per kind, positive limits
  and cash.
\<close>

theorem experiment_normal_form:
  assumes "normalize_experiment_spec env required v = Inr e" and "is_canonical_uuid (ex_experiment_id e)"
  shows "validate_experiment_spec env (experiment_json e) = Inr e \<and> experiment_ok e
    \<and> ex_experiment_id e = experiment_identity env e"
proof -
  obtain ob e0 where s: "normalize_sections ob = Inr e0" and e: "e = e0\<lparr>ex_experiment_id := experiment_identity env e0\<rparr>"
    by (rule normalize_unfold[OF assms(1)])
  have "experiment_ok e" using normalize_sections_ok[OF s] by (simp add: e experiment_ok_def)
  moreover have "ex_experiment_id e = experiment_identity env e" by (simp add: e experiment_identity_def identity_same)
  ultimately show ?thesis
    by (simp add: validate_experiment_spec_def normalize_again[OF assms])
qed

section \<open>The store\<close>

lemma validate_Inr_iff: "validate_experiment_spec env v = Inr e \<longleftrightarrow> normalize_experiment_spec env True v = Inr e"
  by (auto simp: validate_experiment_spec_def split: sum.splits exn.splits exn_class.splits)

lemma validated_again:
  assumes "validate_experiment_spec env v = Inr e"
  shows "validate_experiment_spec env (experiment_json e) = Inr e" and "experiment_ok e"
proof -
  have n: "normalize_experiment_spec env True v = Inr e" using assms by (simp only: validate_Inr_iff)
  obtain ob e0 where s: "normalize_sections ob = Inr e0" "e = e0\<lparr>ex_experiment_id := experiment_identity env e0\<rparr>"
    and "is_canonical_uuid (ex_experiment_id e)"
    by (rule normalize_unfold[OF n]) simp
  then show "validate_experiment_spec env (experiment_json e) = Inr e"
    using normalize_again[OF n] by (simp only: validate_Inr_iff)
  from normalize_sections_ok[OF s(1)] s(2) show "experiment_ok e" by (simp add: experiment_ok_def)
qed

text \<open>
  (C36) Publishing a specification under a fresh path and reading the path back gives the validated
  specification with the hash that identifies it everywhere else, and publishing it again changes nothing.
\<close>

theorem experiment_store_roundtrip:
  assumes "write_experiment_spec env v files = (Inr path, files')" and "map_of files path = None"
  shows "\<exists>e h. validate_experiment_spec env v = Inr e \<and> experiment_sha256 env v = Inr h
    \<and> read_experiment_spec env path files' = Inr (e, h)
    \<and> write_experiment_spec env v files' = (Inr path, files')"
proof -
  from assms obtain e where e: "validate_experiment_spec env v = Inr e" and path: "path = spec_path (ex_experiment_id e)"
    and files': "files' = dset path (experiment_json e) files"
    by (auto simp: write_experiment_spec_def Let_def split: sum.splits option.splits if_splits)
  obtain ob where doc: "experiment_json e = JObj ob" by (simp add: experiment_json_def)
  note again = validated_again(1)[OF e, unfolded doc]
  show ?thesis
    by (simp add: experiment_sha256_def read_experiment_spec_def write_experiment_spec_def files' e path doc again Let_def
        del: canonical_json.simps)
qed

end
