(* ===== verification/Example_Experiment.thy ===== *)
theory Example_Experiment
  imports Example_Account Experiment_Valid
begin

text \<open>
  An experiment over the two example securities, its document, and the store that publishes it.
\<close>

section \<open>The experiment\<close>

definition ex_part :: "string \<Rightarrow> string \<Rightarrow> string \<Rightarrow> string \<Rightarrow> partition" where
  "ex_part name kind first final = \<lparr>pa_name = name, pa_kind = kind, pa_start_date = first, pa_end_date = final\<rparr>"

definition ex_experiment :: experiment_spec where
  "ex_experiment = \<lparr>ex_experiment_id = art_id CHR ''f'',
     ex_strategy = \<lparr>st_name = ''equal_weight'', st_version = ''1.0.0'', st_git_commit = ''unknown'',
       st_parameters = \<lparr>pm_rebalance_frequency = Some ''daily'', pm_lookback_sessions = None,
         pm_skip_sessions = None, pm_top_k = None\<rparr>\<rparr>,
     ex_period = (''2024-01-01'', ''2024-12-31''),
     ex_universe = \<lparr>un_universe_id = art_id CHR ''e'', un_version = ''1.0.0'', un_security_ids = [sec_a, sec_b],
       un_membership_fingerprint = replicate 64 CHR ''a''\<rparr>,
     ex_inputs = ex_refs, ex_benchmark_security_id = sec_a, ex_benchmark_currency = ''USD'', ex_signal_delay = JInt 1,
     ex_accounting_policy = \<lparr>ba_base_currency = ''USD'', ba_reporting_currency = None, ba_initial_cash = ''1000'',
       ba_fractional_shares = False, ba_rebalance_frequency = ''daily''\<rparr>,
     ex_cost_policy = \<lparr>cp_version = ''1.0.0'', cp_commission_bps = ''0'', cp_fixed_fee = ''0'', cp_minimum_fee = ''0'',
       cp_spread_bps = ''0'', cp_slippage_bps = ''0'', cp_tax_bps = ''0''\<rparr>,
     ex_risk_policy = \<lparr>br_max_gross_exposure = ''1'', br_max_position_weight = ''1'', br_max_participation = ''1''\<rparr>,
     ex_metrics_policy = \<lparr>mp_version = ''1.0.0'', mp_annualization_factor = 252,
       mp_risk_free_source = ''constant_annual'', mp_risk_free_annual = Some ''0''\<rparr>,
     ex_partitions = [ex_part ''dev'' ''development'' ''2024-01-01'' ''2024-01-01'',
       ex_part ''val'' ''validation'' ''2024-01-02'' ''2024-01-02'', ex_part ''out'' ''holdout'' ''2024-01-03'' ''2024-12-31''],
     ex_walk_forward_windows = [], ex_missing_data_policy = ''reject_trade'', ex_random_seed = None\<rparr>"

text \<open>An environment that names every experiment alike, so that the identity needs no hashing.\<close>

definition exp_env :: env where
  "exp_env = ex_env\<lparr>env_uuid5 := \<lambda>_ _. art_id CHR ''f''\<rparr>"

section \<open>Its sections are normal\<close>

lemma exp_ids [simp]: "is_canonical_uuid sec_a" "is_canonical_uuid sec_b" "is_canonical_uuid (art_id CHR ''a'')"
    "is_canonical_uuid (art_id CHR ''b'')" "is_canonical_uuid (art_id CHR ''c'')" "is_canonical_uuid (art_id CHR ''e'')"
    "is_canonical_uuid (art_id CHR ''f'')"
  by (simp_all add: is_canonical_uuid_def sec_a_def sec_b_def art_id_def is_lower_hex_def is_digit_def numeral_eq_Suc)

lemma exp_dates [simp]: "exp_date f (JStr ''2024-01-01'') = Inr ''2024-01-01''" "exp_date f (JStr ''2024-01-02'') = Inr ''2024-01-02''"
    "exp_date f (JStr ''2024-01-03'') = Inr ''2024-01-03''" "exp_date f (JStr ''2024-01-04'') = Inr ''2024-01-04''"
    "exp_date f (JStr ''2024-12-31'') = Inr ''2024-12-31''"
  by (simp_all add: exp_date_def exp_text_def parse_date_def nat_of_digits_def digit_val_def is_digit_def valid_date_def
      days_in_month_def)

lemmas exp_read = exp_policy_def jkeys_def field_of_def jget_def exp_choice_def member_of_def exp_text_def bindR_ensure
  exp_semver_def exp_sha256_def exp_currency_def exp_uuid_def exp_git_commit_def ex_strings

lemma exp_period: "date_range f (range_json (ex_period ex_experiment)) = Inr (ex_period ex_experiment)"
  by (simp add: date_range_def range_json_def ex_experiment_def exp_read insert_commute)

lemma exp_path: "safe_relative_path f (JStr ''prices'') = Inr ''prices''"
    "safe_relative_path f (JStr ''calendar'') = Inr ''calendar''"
    "safe_relative_path f (JStr ''membership'') = Inr ''membership''"
  by (simp_all add: safe_relative_path_def exp_nonempty_def strip_def is_space_def Let_def path_parts_def)

lemma exp_nonempty_eval: "exp_nonempty f (JStr ''prices'') = Inr ''prices''" "exp_nonempty f (JStr ''calendar'') = Inr ''calendar''"
    "exp_nonempty f (JStr ''membership'') = Inr ''membership''" "exp_nonempty f (JStr ''dev'') = Inr ''dev''"
    "exp_nonempty f (JStr ''val'') = Inr ''val''" "exp_nonempty f (JStr ''out'') = Inr ''out''"
  by (simp_all add: exp_nonempty_def strip_def is_space_def)

lemma exp_reference: "kind \<in> {''prices'', ''calendar'', ''membership''} \<Longrightarrow> is_canonical_uuid (art_id c) \<Longrightarrow>
    artifact_ref f (exp_reference_json (ex_ref kind c)) = Inr (ex_ref kind c)"
  by (auto simp: artifact_ref_def exp_reference_json_def ex_ref_def artifact_ref_fields_def supported_input_kinds_def
      exp_read exp_path exp_nonempty_eval exp_timestamp_def dget_def)

lemma exp_inputs_read: "exp_inputs (JArr (map exp_reference_json (ex_inputs ex_experiment))) = Inr (ex_inputs ex_experiment)"
  by (simp add: exp_inputs_def ex_experiment_def ex_refs_def exp_reference ex_ref_simps bindR_ensure)

lemma exp_strategy_read: "exp_strategy (strategy_json (ex_strategy ex_experiment)) = Inr (ex_strategy ex_experiment)"
  by (simp add: exp_strategy_def strategy_json_def ex_experiment_def exp_parameters_def parameters_json_def
      exp_frequencies_def exp_read insert_commute)

lemma exp_universe_read: "exp_universe (universe_json (ex_universe ex_experiment)) = Inr (ex_universe ex_experiment)"
  by (simp add: exp_universe_def universe_json_def strings_json_def ex_experiment_def exp_read insert_commute)

lemma exp_policies: "exp_accounting (exp_accounting_json (ex_accounting_policy ex_experiment)) = Inr (ex_accounting_policy ex_experiment)"
    "exp_cost (cost_json (ex_cost_policy ex_experiment)) = Inr (ex_cost_policy ex_experiment)"
    "exp_risk (exp_risk_json (ex_risk_policy ex_experiment)) = Inr (ex_risk_policy ex_experiment)"
    "exp_metrics (map r_kind (ex_inputs ex_experiment)) (exp_metrics_json (ex_metrics_policy ex_experiment))
      = Inr (ex_metrics_policy ex_experiment)"
  by (simp_all add: exp_accounting_def exp_accounting_json_def exp_cost_def cost_json_def cost_fields_def exp_risk_def
      exp_risk_json_def exp_metrics_def exp_metrics_json_def ex_experiment_def ex_refs_def ex_ref_simps exp_optional_def
      null_or_def exp_decimal_def exp_int_def exp_constant_def dec_text_def parse_signed_def exp_read insert_commute)

lemma exp_partitions_read: "exp_partitions (ex_period ex_experiment) (JArr (map partition_json (ex_partitions ex_experiment)))
    = Inr (ex_partitions ex_experiment)"
  by (simp add: exp_partitions_def ex_experiment_def ex_part_def partition_json_def partition_step_def partition_kinds_def
      exp_nonempty_eval is_slug_def is_lower_def is_digit_def date_range_def outside_period_def kind_order_def pairwise_def
      exp_read insert_commute)

end
