(* ===== verification/Backtest_Relation.thy ===== *)
theory Backtest_Relation
  imports Backtest
begin

text \<open>
  Two runs of the simulation from states that are related. The contract of the relation says what a step reads
  (related states give the same answers) and what it writes (the same write keeps them related); from it, the
  application of an action, the execution, the valuation and the proposal of orders give related results. The
  parts of the state that a relation may treat in its own way, the processed actions and the weights of a strategy,
  are not in the contract.
\<close>

locale state_relation =
  fixes R :: "bt_state \<Rightarrow> bt_state \<Rightarrow> bool"
  assumes reads: "R st st' \<Longrightarrow> dget (bs_cash st') key v = dget (bs_cash st) key v"
    "R st st' \<Longrightarrow> dget (bs_quantities st') key v = dget (bs_quantities st) key v"
    "R st st' \<Longrightarrow> map_of (bs_security_currency st') key = map_of (bs_security_currency st) key"
    "R st st' \<Longrightarrow> sorted_items (bs_cash st') = sorted_items (bs_cash st)"
    "R st st' \<Longrightarrow> sorted_items (bs_quantities st') = sorted_items (bs_quantities st)"
    "R st st' \<Longrightarrow> dget (bs_cost_by_session st') day v = dget (bs_cost_by_session st) day v"
    "R st st' \<Longrightarrow> bs_orders st' = bs_orders st"
    "R st st' \<Longrightarrow> bs_fills st' = bs_fills st"
    "R st st' \<Longrightarrow> bs_ledger st' = bs_ledger st"
    "R st st' \<Longrightarrow> bs_pending st' = bs_pending st"
    "R st st' \<Longrightarrow> bs_last_nav st' = bs_last_nav st"
    "R st st' \<Longrightarrow> bs_benchmark_units st' = bs_benchmark_units st"
    "R st st' \<Longrightarrow> bs_benchmark_value_start st' = bs_benchmark_value_start st"
    "R st st' \<Longrightarrow> bs_rejected_trade_count st' = bs_rejected_trade_count st"
    "R st st' \<Longrightarrow> bs_out_of_market_sessions st' = bs_out_of_market_sessions st"
  and writes: "R st st' \<Longrightarrow> R (bt_ledger d t e c v w n so qo pr st) (bt_ledger d t e c v w n so qo pr st')"
    "R st st' \<Longrightarrow> R (bt_add_cash c v st) (bt_add_cash c v st')"
    "R st st' \<Longrightarrow> R (bt_set_quantity s x st) (bt_set_quantity s x st')"
    "R st st' \<Longrightarrow> R (st\<lparr>bs_security_currency := dset s c (bs_security_currency st)\<rparr>) (st'\<lparr>bs_security_currency := dset s c (bs_security_currency st')\<rparr>)"
    "R st st' \<Longrightarrow> R (st\<lparr>bs_cash := dset c v (bs_cash st)\<rparr>) (st'\<lparr>bs_cash := dset c v (bs_cash st')\<rparr>)"
    "R st st' \<Longrightarrow> R (st\<lparr>bs_cash := dset c v (dset e w (bs_cash st))\<rparr>) (st'\<lparr>bs_cash := dset c v (dset e w (bs_cash st'))\<rparr>)"
    "R st st' \<Longrightarrow> R (st\<lparr>bs_orders := rows\<rparr>) (st'\<lparr>bs_orders := rows\<rparr>)"
    "R st st' \<Longrightarrow> R (st\<lparr>bs_fills := rows\<rparr>) (st'\<lparr>bs_fills := rows\<rparr>)"
    "R st st' \<Longrightarrow> R (st\<lparr>bs_pending := ys\<rparr>) (st'\<lparr>bs_pending := ys\<rparr>)"
    "R st st' \<Longrightarrow> R (st\<lparr>bs_rejected_trade_count := k\<rparr>) (st'\<lparr>bs_rejected_trade_count := k\<rparr>)"
    "R st st' \<Longrightarrow> R (st\<lparr>bs_benchmark_value_start := u, bs_benchmark_units := v'\<rparr>) (st'\<lparr>bs_benchmark_value_start := u, bs_benchmark_units := v'\<rparr>)"
    "R st st' \<Longrightarrow> R (st\<lparr>bs_last_nav := x, bs_out_of_market_sessions := k\<rparr>) (st'\<lparr>bs_last_nav := x, bs_out_of_market_sessions := k\<rparr>)"
    "R st st' \<Longrightarrow> R (bt_add_totals d x1 x2 x3 x4 x5 st) (bt_add_totals d x1 x2 x3 x4 x5 st')"
    "R st st' \<Longrightarrow> R (bt_settle_fill y q1 q2 q3 q4 st) (bt_settle_fill y q1 q2 q3 q4 st')"
begin

section \<open>Corporate actions\<close>

lemma rel_known: "R st st' \<Longrightarrow> same_result R (bt_known_currency inp sess a st) (bt_known_currency inp sess a st')"
  unfolding bt_known_currency_def Let_def
  by (auto simp: reads split: option.splits intro!: same_rules writes)

lemma rel_effect: "R st st' \<Longrightarrow>
    same_result R (bt_action_effect ratio_text spec inp sess a q st) (bt_action_effect ratio_text spec inp sess a q st')"
  unfolding bt_action_effect_def Let_def
  by (cases "a_action_type a") (auto split: option.splits intro!: same_rules writes)

section \<open>Execution\<close>

lemma rel_update: "R st st' \<Longrightarrow> same_result R (bt_update_order i f st) (bt_update_order i f st')"
  unfolding bt_update_order_def by (auto simp: reads intro!: same_rules writes)

lemma rel_reject: "R st st' \<Longrightarrow> same_result R (bt_reject_order spec sess y reason st) (bt_reject_order spec sess y reason st')"
  unfolding bt_reject_order_def Let_def
  by (rule same_bind[OF rel_update], assumption) (auto simp: reads intro!: same_rules writes)

lemma rel_fillable:
  assumes "R st st'"
  shows "bt_fillable spec inp sess y row st' = bt_fillable spec inp sess y row st"
  unfolding bt_fillable_def bt_available_cash_def reads(1,2)[OF assms] by (rule refl)

lemma rel_fund: "R st st' \<Longrightarrow> same_result (rel_prod (=) R)
    (bt_fund_trade_currency spec inp sess c v st) (bt_fund_trade_currency spec inp sess c v st')"
  unfolding bt_fund_trade_currency_def Let_def
  by (auto simp: reads intro!: same_rules writes)

lemma rel_record: "R st st' \<Longrightarrow>
    same_result R (bt_record_fill env spec inp sess y row q st) (bt_record_fill env spec inp sess y row q st')"
  unfolding bt_record_fill_def Let_def
  by (auto split: prod.splits simp: reads intro!: same_bind[OF rel_update] same_rules writes)

lemma rel_execute: "R st st' \<Longrightarrow>
    same_result R (bt_execute_orders env spec inp sess st) (bt_execute_orders env spec inp sess st')"
  unfolding bt_execute_orders_def Let_def
proof (subst reads(10), assumption, subst reads(10), assumption, rule same_fold)
  fix s t y
  assume s: "R s t"
  show "same_result R (bt_execute_order env spec inp sess s y) (bt_execute_order env spec inp sess t y)"
    unfolding bt_execute_order_def rel_fillable[OF s]
    by (auto split: sum.splits intro!: same_rules rel_reject rel_record s same_bind[of "rel_prod (=) R"] rel_fund)
qed (rule writes)

section \<open>Valuation\<close>

lemma rel_mark_step:
  assumes "rel_prod (=) (rel_prod (=) R) x y"
  shows "same_result (rel_prod (=) (rel_prod (=) R)) (bt_mark_step spec inp sess cash x k) (bt_mark_step spec inp sess cash y k)"
proof -
  obtain total rows st where x: "x = (total, rows, st)" by (cases x)
  with assms obtain st' where y: "y = (total, rows, st')" and s: "R st st'" by (cases y) auto
  show ?thesis unfolding x y bt_mark_step_def Let_def
    by (cases k) (auto split: option.splits intro!: same_rules writes s)
qed

lemma rel_benchmark: "R st st' \<Longrightarrow>
    same_result (rel_prod (=) R) (bt_benchmark spec inp sess st) (bt_benchmark spec inp sess st')"
  unfolding bt_benchmark_def
  by (rule same_option, rule same_raise, rule same_bind_eq,
      rule same_bind[where R = "\<lambda>a b. R a b \<and> bs_benchmark_units b = bs_benchmark_units a"])
    (auto simp: reads intro!: same_rules writes)

lemma rel_marked: "R st st' \<Longrightarrow>
    R (st\<lparr>bs_last_nav := x, bs_out_of_market_sessions := bs_out_of_market_sessions st + k\<rparr>)
      (st'\<lparr>bs_last_nav := x, bs_out_of_market_sessions := bs_out_of_market_sessions st' + k\<rparr>)"
  using writes(12) reads(15) by simp

lemma rel_ordered: "R st st' \<Longrightarrow> R (st\<lparr>bs_pending := bs_pending st @ ys\<rparr>) (st'\<lparr>bs_pending := bs_pending st' @ ys\<rparr>)"
  using writes(9) reads(10) by simp

lemma rel_mark:
  assumes "R st st'"
  shows "same_result (rel_prod (=) (rel_prod (=) R)) (bt_mark spec inp sess st) (bt_mark spec inp sess st')"
  unfolding bt_mark_def Let_def reads(4,5)[OF assms]
proof (rule same_bind_eq, rule same_bind[where R = "rel_prod (=) (rel_prod (=) R)"], goal_cases)
  case 1
  show ?case by (rule same_fold[OF rel_mark_step]) (use assms in auto)
next
  case (2 cash_values x y)
  then obtain total rows s s' where x: "x = (total, rows, s)" "y = (total, rows, s')" and s: "R s s'"
    by (cases x; cases y) auto
  show ?case unfolding x prod.case
    by (intro same_if same_raise same_bind_eq same_bind[OF rel_benchmark[OF s]])
      (auto split del: if_split intro!: same_rules rel_marked writes)
qed

lemma rel_quantity: "R st st' \<Longrightarrow> same_result (rel_prod (=) R)
    (bt_order_quantity spec inp st s w sess) (bt_order_quantity spec inp st' s w sess)"
  unfolding bt_order_quantity_def Let_def
  by (auto simp: reads split: option.splits intro!: same_rules writes)

lemma rel_propose:
  assumes "R st st'" and "\<And>k v. dget ts' k v = dget ts k v"
  shows "same_result R (bt_propose_order env spec inp sess d ts st x) (bt_propose_order env spec inp sess d ts' st' x)"
proof -
  obtain ordinal s where x: "x = (ordinal, s)" by (cases x)
  show ?thesis unfolding bt_propose_order_def x prod.case Let_def reads(2)[OF assms(1)] assms(2)
  proof (intro same_bind_eq same_if same_raise, rule same_bind[OF rel_quantity[OF assms(1)]], goal_cases)
    case (1 member a b)
    then obtain qs u u' where a: "a = (qs, u)" "b = (qs, u')" and u: "R u u'" by (cases a; cases b) auto
    show ?case unfolding a prod.case
      by (auto split: option.splits prod.splits simp: reads[OF u]
          intro!: same_rules u rel_ordered[OF writes(1)[OF writes(7)[OF u]]])
  qed
qed

end

section \<open>Relations that also keep the strategy\<close>

text \<open>
  When related states have the same holdings in the same order and the same memory of the strategy, the decision
  is related too, for every strategy.
\<close>

locale state_frame = state_relation +
  assumes memory: "R st st' \<Longrightarrow> bs_quantities st' = bs_quantities st"
    "R st st' \<Longrightarrow> bs_hold_initialized st' = bs_hold_initialized st"
    "R st st' \<Longrightarrow> bs_last_decision_date st' = bs_last_decision_date st"
  and remembers: "R st st' \<Longrightarrow> R (st\<lparr>bs_hold_weights := ws, bs_hold_initialized := b\<rparr>) (st'\<lparr>bs_hold_weights := ws, bs_hold_initialized := b\<rparr>)"
    "R st st' \<Longrightarrow> R (st\<lparr>bs_last_decision_date := day'\<rparr>) (st'\<lparr>bs_last_decision_date := day'\<rparr>)"
begin

lemma rel_signal: "R st st' \<Longrightarrow> same_result (rel_prod (=) R)
    (bt_signal spec inp sessions k st active due) (bt_signal spec inp sessions k st' active due)"
  unfolding bt_signal_def Let_def by (auto simp: memory intro!: same_rules remembers)

lemma rel_hold:
  assumes "R st st'"
  shows "bt_hold_step spec inp sess st' active keeping = bt_hold_step spec inp sess st active keeping"
  unfolding bt_hold_step_def reads(11)[OF assms] by (rule refl)

lemma rel_targets:
  assumes "R st st'"
  shows "same_result (rel_prod (=) R) (bt_target_weights spec inp sessions k st) (bt_target_weights spec inp sessions k st')"
  unfolding bt_target_weights_def Let_def memory[OF assms]
proof (intro same_bind_eq same_bind[OF rel_signal[OF assms]], goal_cases)
  case (1 sess active a b)
  then obtain ts s s' where a: "a = (ts, s)" "b = (ts, s')" and s: "R s s'" by (cases a; cases b) auto
  show ?case unfolding a prod.case rel_hold[OF s] memory(1)[OF s]
    by (intro same_bind_eq same_value) (simp add: remembers s)
qed

lemma rel_decide:
  assumes "R st st'"
  shows "same_result R (bt_decide env spec inp sessions k st) (bt_decide env spec inp sessions k st')"
  unfolding bt_decide_def Let_def
proof (intro same_if same_value assms, rule same_bind[OF rel_targets[OF assms]], goal_cases)
  case (1 a b)
  then obtain ts s s' where a: "a = (ts, s)" "b = (ts, s')" and s: "R s s'" by (cases a; cases b) auto
  show ?case unfolding a prod.case memory(1)[OF s] by (rule same_fold[OF rel_propose s]) simp_all
qed

text \<open>A session gives related progress as soon as its corporate actions did.\<close>

lemma rel_session_rest:
  assumes "R st st'"
  shows "same_result (rel_prod R (=))
    (bindR (bt_execute_orders env spec inp sess st) (\<lambda>st2.
     bindR (bt_mark spec inp sess st2) (\<lambda>(nav_row, holdings, st3).
     bindR (bt_decide env spec inp sessions k st3) (\<lambda>st4. Inr (st4, nav_rows @ [nav_row], holding_rows @ holdings)))))
    (bindR (bt_execute_orders env spec inp sess st') (\<lambda>st2.
     bindR (bt_mark spec inp sess st2) (\<lambda>(nav_row, holdings, st3).
     bindR (bt_decide env spec inp sessions k st3) (\<lambda>st4. Inr (st4, nav_rows @ [nav_row], holding_rows @ holdings)))))"
  by (intro same_bind[OF rel_execute[OF assms]] same_bind[OF rel_mark]) (auto intro!: same_bind[OF rel_decide])

end

end
