(* ===== verification/Backtest_Lookahead.thy ===== *)
theory Backtest_Lookahead
  imports Backtest_Relation
begin

text \<open>
  The simulation never reads a price, a membership assertion or a rate that was not yet available at the
  clock of the step it makes. Corporate actions are different: the engine meets each of them on the day it takes
  effect, and raises when a holding needs one that is not available yet. Two runs on data sets with the same view at
  a clock are therefore compared up to that error, and up to the ids of unpublished actions that were only noted.
\<close>

section \<open>Lookups\<close>

lemma bt_price_row_eq: "bt_price_row = Portfolio.price_row"
  by (intro ext) (simp add: bt_price_row_def Portfolio.price_row_def)

lemma bt_membership_state_eq: "bt_membership_state = membership_state"
  by (intro ext) (simp add: bt_membership_state_def membership_state_def membership_candidates_def membership_rank_def[abs_def] Let_def)

interpretation pit_bt_price: point_in_time "\<lambda>inp k. bt_price_row inp (fst k) (snd k)"
  using pit_price.point_in_time_axioms by (simp add: bt_price_row_eq)

interpretation pit_bt_membership: point_in_time "\<lambda>inp k. bt_membership_state inp (fst k) (snd k)"
  using pit_membership.point_in_time_axioms by (simp add: bt_membership_state_eq)

interpretation pit_bt_fx: point_in_time "\<lambda>inp k. bt_fx_rate (fst k) inp (fst (snd k)) (snd (snd k))"
proof
  fix inp t and k :: "nat \<times> string \<times> string"
  have "filter (\<lambda>row. f_base_currency row = b \<and> f_quote_currency row = q \<and> f_fixing_at row \<le> t \<and> f_available_at row \<le> t)
      (i_fx (visible t inp)) = filter (\<lambda>row. f_base_currency row = b \<and> f_quote_currency row = q \<and> f_fixing_at row \<le> t
        \<and> f_available_at row \<le> t) (i_fx inp)" for b q
    by (auto intro!: filter_cong)
  then show "bt_fx_rate (fst k) (visible t inp) (fst (snd k)) (snd (snd k)) t
      = bt_fx_rate (fst k) inp (fst (snd k)) (snd (snd k)) t"
    by (cases k) (simp only: bt_fx_rate_def Let_def fst_conv snd_conv)
qed

lemma bt_lookups:
  assumes "unique_prices inp" and "s \<le> t"
  shows "bt_price_row (visible t inp) security_id d s = bt_price_row inp security_id d s"
    and "bt_membership_state (visible t inp) security_id d s = bt_membership_state inp security_id d s"
    and "bt_convert (visible t inp) v source tgt s = bt_convert inp v source tgt s"
  using pit_bt_price.look_later[OF assms, of "(security_id, d)"]
    pit_bt_membership.look_later[OF assms, of "(security_id, d)"]
    pit_bt_fx.look_later[OF assms, of "(wide, source, tgt)"]
  by (simp_all add: bt_convert_def)

section \<open>Steps\<close>

text \<open>Both clocks of a session have passed by \<open>t\<close>.\<close>

definition passed :: "datetime \<Rightarrow> inputs \<Rightarrow> session \<Rightarrow> bool" where
  "passed t inp sess \<longleftrightarrow> unique_prices inp \<and> s_open_at sess \<le> t \<and> s_close_at sess \<le> t"

lemma passed_lookups [simp]:
  assumes "passed t inp sess"
  shows "bt_price_row (visible t inp) security_id d (s_open_at sess) = bt_price_row inp security_id d (s_open_at sess)"
    and "bt_price_row (visible t inp) security_id d (s_close_at sess) = bt_price_row inp security_id d (s_close_at sess)"
    and "bt_membership_state (visible t inp) security_id d (s_close_at sess) = bt_membership_state inp security_id d (s_close_at sess)"
    and "bt_convert (visible t inp) v source tgt (s_open_at sess) = bt_convert inp v source tgt (s_open_at sess)"
    and "bt_convert (visible t inp) v source tgt (s_close_at sess) = bt_convert inp v source tgt (s_close_at sess)"
  using assms by (simp_all add: passed_def bt_lookups)

lemma action_visible:
  assumes "passed t inp sess"
  shows "bt_apply_action ratio_text spec (visible t inp) sess = bt_apply_action ratio_text spec inp sess"
proof -
  have "bt_known_currency (visible t inp) sess = bt_known_currency inp sess"
    by (intro ext) (simp add: bt_known_currency_def assms Let_def cong: option.case_cong)
  moreover have "bt_action_effect ratio_text spec (visible t inp) sess = bt_action_effect ratio_text spec inp sess"
    by (intro ext) (simp add: bt_action_effect_def assms Let_def cong: action_type.case_cong option.case_cong)
  ultimately show ?thesis by (intro ext) (simp only: bt_apply_action_def)
qed

lemma orders_visible:
  assumes "passed t inp sess"
  shows "bt_execute_orders env spec (visible t inp) sess = bt_execute_orders env spec inp sess"
proof -
  have "bt_available_cash spec (visible t inp) sess = bt_available_cash spec inp sess"
    by (intro ext) (simp add: bt_available_cash_def assms Let_def cong: if_cong)
  then have "bt_fillable spec (visible t inp) sess = bt_fillable spec inp sess"
    by (intro ext) (simp only: bt_fillable_def)
  moreover have "bt_fund_trade_currency spec (visible t inp) sess = bt_fund_trade_currency spec inp sess"
    by (intro ext) (simp add: bt_fund_trade_currency_def assms Let_def cong: if_cong)
  moreover have "bt_record_fill env spec (visible t inp) sess = bt_record_fill env spec inp sess"
    by (intro ext) (simp add: bt_record_fill_def assms Let_def cong: prod.case_cong)
  ultimately have "bt_execute_order env spec (visible t inp) sess = bt_execute_order env spec inp sess"
    by (intro ext) (simp add: bt_execute_order_def assms cong: if_cong option.case_cong sum.case_cong prod.case_cong)
  then show ?thesis by (intro ext) (simp add: bt_execute_orders_def)
qed

lemma mark_visible:
  assumes "passed t inp sess"
  shows "bt_mark spec (visible t inp) sess = bt_mark spec inp sess"
proof -
  have "bt_mark_step spec (visible t inp) sess = bt_mark_step spec inp sess"
    by (intro ext) (simp add: bt_mark_step_def assms Let_def cong: option.case_cong prod.case_cong if_cong)
  moreover have "bt_benchmark spec (visible t inp) sess = bt_benchmark spec inp sess"
    by (intro ext) (simp add: bt_benchmark_def assms cong: option.case_cong)
  ultimately show ?thesis by (intro ext) (simp add: bt_mark_def assms Let_def cong: option.case_cong prod.case_cong if_cong)
qed

lemma decide_visible:
  assumes "passed t inp (sessions ! k)"
  shows "bt_decide env spec (visible t inp) sessions k = bt_decide env spec inp sessions k"
proof (cases "k < length sessions")
  case True
  let ?s = "sessions ! k"
  have "bt_active_members spec (visible t inp) ?s = bt_active_members spec inp ?s"
    by (simp add: bt_active_members_def assms cong: option.case_cong)
  moreover have "bt_momentum_targets spec (visible t inp) sessions k = bt_momentum_targets spec inp sessions k"
    by (intro ext) (simp add: bt_momentum_targets_def session_at_def True assms Let_def)
  then have "bt_signal spec (visible t inp) sessions k = bt_signal spec inp sessions k"
    by (intro ext) (simp only: bt_signal_def)
  moreover have "bt_hold_step spec (visible t inp) ?s = bt_hold_step spec inp ?s"
    by (intro ext) (simp add: bt_hold_step_def assms cong: option.case_cong prod.case_cong if_cong)
  ultimately have "bt_target_weights spec (visible t inp) sessions k = bt_target_weights spec inp sessions k"
    by (intro ext) (simp add: bt_target_weights_def session_at_def True)
  moreover have "bt_order_quantity spec (visible t inp) st s w ?s = bt_order_quantity spec inp st s w ?s" for st s w
    by (simp add: bt_order_quantity_def assms Let_def cong: option.case_cong)
  then have "bt_propose_order env spec (visible t inp) ?s = bt_propose_order env spec inp ?s"
    by (intro ext) (simp add: bt_propose_order_def assms Let_def cong: option.case_cong prod.case_cong if_cong)
  ultimately show ?thesis by (intro ext) (simp add: bt_decide_def)
qed (intro ext, simp add: bt_decide_def)

section \<open>Corporate actions\<close>

text \<open>
  The engine meets every action on the day it takes effect. An action that is not published by then stops the run
  when the security is held; otherwise only its id is kept, as processed.
\<close>

definition unpublished :: "datetime \<Rightarrow> inputs \<Rightarrow> string set" where
  "unpublished t inp = a_id ` {a \<in> set (i_corporate_actions inp). t < a_available_at a}"

definition unpublished_stops :: "datetime \<Rightarrow> inputs \<Rightarrow> session list \<Rightarrow> exn set" where
  "unpublished_stops t inp days =
     (\<lambda>a. Exn BacktestMissingDataError (''corporate action '' @ a_id a @ '' is not available by its economic event''))
       ` {a \<in> \<Union>sess \<in> set days. set (bt_action_events inp (s_session_date sess)). t < a_available_at a}"

text \<open>Two states that differ in nothing but whether the given actions count as processed.\<close>

definition same_but_actions :: "string set \<Rightarrow> bt_state \<Rightarrow> bt_state \<Rightarrow> bool" where
  "same_but_actions U st st' \<longleftrightarrow> st'\<lparr>bs_processed_actions := []\<rparr> = st\<lparr>bs_processed_actions := []\<rparr>
     \<and> set (bs_processed_actions st') - U = set (bs_processed_actions st) - U"

lemma same_butE:
  assumes "same_but_actions U st st'"
  obtains ps where "st' = st\<lparr>bs_processed_actions := ps\<rparr>" and "set ps - U = set (bs_processed_actions st) - U"
  using assms by (cases st; cases st') (auto simp: same_but_actions_def)

lemma same_but_compose: "same_but_actions U a c \<Longrightarrow> same_but_actions V b c \<Longrightarrow> same_but_actions (U \<union> V) a b"
  by (auto simp: same_but_actions_def)

interpretation frame: state_frame "same_but_actions U"
  by unfold_locales
    (erule same_butE; simp add: same_but_actions_def bt_ledger_def bt_add_cash_def bt_set_quantity_def bt_add_totals_def
      bt_settle_fill_def Let_def)+

lemma processed_frame:
  assumes "same_but_actions U st st'"
  shows "same_but_actions U (bt_processed a st) (bt_processed a st')"
    and "a_id a \<in> U \<Longrightarrow> same_but_actions U (bt_processed a st) st'"
    and "a_id a \<notin> U \<Longrightarrow> a_id a \<in> set (bs_processed_actions st') \<longleftrightarrow> a_id a \<in> set (bs_processed_actions st)"
  using assms by (auto simp: same_but_actions_def bt_processed_def)

lemma action_frame:
  assumes "same_but_actions U st st'" and "a_id a \<notin> U"
  shows "same_result (same_but_actions U) (bt_apply_action ratio_text spec inp sess st a) (bt_apply_action ratio_text spec inp sess st' a)"
  unfolding bt_apply_action_def Let_def processed_frame(3)[OF assms] frame.reads(2)[OF assms(1)]
  by (intro same_if same_raise same_value processed_frame(1)[OF assms(1)] assms(1))
    (rule same_bind[OF frame.rel_known[OF assms(1)]], rule same_bind[OF frame.rel_effect], assumption,
      rule same_value, rule processed_frame(1))

lemma events_visible: "bt_action_events (visible t inp) d = filter (\<lambda>a. a_available_at a \<le> t) (bt_action_events inp d)"
  by (simp add: bt_action_events_def filter_sort conj_commute)

lemma events_are_actions: "set (bt_action_events inp d) \<subseteq> set (i_corporate_actions inp)"
  by (auto simp: bt_action_events_def)

lemma published_id:
  assumes "distinct (map a_id (i_corporate_actions inp))" and "a \<in> set (i_corporate_actions inp)" and "a_available_at a \<le> t"
  shows "a_id a \<notin> unpublished t inp"
proof
  assume "a_id a \<in> unpublished t inp"
  then obtain b where b: "b \<in> set (i_corporate_actions inp)" "t < a_available_at b" "a_id a = a_id b"
    by (auto simp: unpublished_def)
  from assms(1) have "inj_on a_id (set (i_corporate_actions inp))" by (simp only: distinct_map)
  from inj_onD[OF this b(3) assms(2) b(1)] b(2) assms(3) show False by simp
qed

text \<open>The actions of a session, with and without those that are published later.\<close>

lemma actions_frame:
  assumes "same_but_actions (unpublished t inp) st st'" and "distinct (map a_id (i_corporate_actions inp))" and "s_open_at sess \<le> t"
    and "set xs \<subseteq> set (i_corporate_actions inp)"
    and "\<And>a. a \<in> set xs \<Longrightarrow> t < a_available_at a \<Longrightarrow>
      Exn BacktestMissingDataError (''corporate action '' @ a_id a @ '' is not available by its economic event'') \<in> E"
  shows "same_or_stops E (same_but_actions (unpublished t inp)) (foldR (bt_apply_action ratio_text spec inp sess) st xs)
    (foldR (bt_apply_action ratio_text spec inp sess) st' (filter (\<lambda>a. a_available_at a \<le> t) xs))"
  using assms(1,4,5)
proof (induction xs arbitrary: st st')
  case (Cons a xs)
  note IH = Cons.IH[OF _ _ Cons.prems(3)]
  show ?case
  proof (cases "a_available_at a \<le> t")
    case True
    then have "a_id a \<notin> unpublished t inp" using published_id[OF assms(2)] Cons.prems(2) by simp
    then show ?thesis using True Cons.prems(2)
      by (simp add: stops_bind[OF same_stops[OF action_frame[OF Cons.prems(1)]]] IH)
  next
    case False
    then have "a_id a \<in> unpublished t inp" using Cons.prems(2) by (auto simp: unpublished_def)
    then have "same_or_stops E (same_but_actions (unpublished t inp)) (bt_apply_action ratio_text spec inp sess st a) (Inr st')"
      using False assms(3) Cons.prems(1) Cons.prems(3)[of a]
      by (auto simp: bt_apply_action_def Let_def same_or_stops_def raise_def processed_frame(2))
    then have "same_or_stops E (same_but_actions (unpublished t inp))
        (bindR (bt_apply_action ratio_text spec inp sess st a) (\<lambda>s. foldR (bt_apply_action ratio_text spec inp sess) s xs))
        (bindR (Inr st') (\<lambda>s. foldR (bt_apply_action ratio_text spec inp sess) s (filter (\<lambda>a. a_available_at a \<le> t) xs)))"
      by (rule stops_bind) (use Cons.prems(2) IH in auto)
    then show ?thesis using False by simp
  qed
qed (simp add: same_or_stops_def)

section \<open>Sessions\<close>

lemma session_frame:
  assumes "wf_inputs inp" and "rel_prod (same_but_actions (unpublished t inp)) (=) p q"
    and "\<And>sess. session_at sessions k = Inr sess \<Longrightarrow> sess \<in> set days \<and> s_open_at sess \<le> t \<and> s_close_at sess \<le> t"
  shows "same_or_stops (unpublished_stops t inp days) (rel_prod (same_but_actions (unpublished t inp)) (=))
    (bt_session env ratio_text spec inp sessions p k) (bt_session env ratio_text spec (visible t inp) sessions q k)"
proof (cases "session_at sessions k")
  case (Inl e)
  then show ?thesis by (cases p; cases q) (simp add: bt_session_def same_or_stops_def)
next
  case (Inr sess)
  obtain st nav_rows holding_rows where p: "p = (st, nav_rows, holding_rows)" by (cases p)
  with assms(2) obtain st' where q: "q = (st', nav_rows, holding_rows)" and s: "same_but_actions (unpublished t inp) st st'"
    by (cases q) auto
  from assms(3)[OF Inr] have day: "sess \<in> set days" "s_open_at sess \<le> t" and now: "passed t inp sess"
    using wf_unique_prices[OF assms(1)] by (simp_all add: passed_def)
  from Inr have k: "sessions ! k = sess" by (simp add: session_at_def split: if_splits)
  have ids: "distinct (map a_id (i_corporate_actions inp))" using assms(1) by (simp add: wf_inputs_def)
  have acts: "same_or_stops (unpublished_stops t inp days) (same_but_actions (unpublished t inp))
      (bt_apply_actions ratio_text spec inp sess st) (bt_apply_actions ratio_text spec (visible t inp) sess st')"
    unfolding bt_apply_actions_def events_visible action_visible[OF now]
    by (rule actions_frame[OF s ids day(2) events_are_actions]) (use day(1) in \<open>auto simp: unpublished_stops_def\<close>)
  show ?thesis
    unfolding p q bt_session_def prod.case Inr bindR_Inr orders_visible[OF now] mark_visible[OF now]
      decide_visible[OF now[folded k]]
    by (rule stops_bind[OF acts], rule same_stops, rule frame.rel_session_rest)
qed

text \<open>All sessions up to a clock, on the data and on what had been published of it.\<close>

lemma run_frame:
  assumes "wf_inputs inp" and "\<forall>sess \<in> set (take n sessions). s_open_at sess \<le> t \<and> s_close_at sess \<le> t"
  shows "same_or_stops (unpublished_stops t inp (take n sessions)) (rel_prod (same_but_actions (unpublished t inp)) (=))
    (foldR (bt_session env ratio_text spec inp sessions) p [0..<n])
    (foldR (bt_session env ratio_text spec (visible t inp) sessions) p [0..<n])"
proof (rule stops_fold)
  fix u v :: bt_progress and k
  assume k: "k \<in> set [0..<n]" and r: "rel_prod (same_but_actions (unpublished t inp)) (=) u v"
  have "sess \<in> set (take n sessions) \<and> s_open_at sess \<le> t \<and> s_close_at sess \<le> t" if "session_at sessions k = Inr sess" for sess
  proof -
    from that have "k < length sessions" "sess = sessions ! k" by (auto simp: session_at_def split: if_splits)
    with k have "sess \<in> set (take n sessions)" by (auto simp: in_set_conv_nth intro!: exI[of _ k])
    with assms(2) show ?thesis by blast
  qed
  then show "same_or_stops (unpublished_stops t inp (take n sessions)) (rel_prod (same_but_actions (unpublished t inp)) (=))
      (bt_session env ratio_text spec inp sessions u k) (bt_session env ratio_text spec (visible t inp) sessions v k)"
    by (rule session_frame[OF assms(1) r])
qed (simp add: rel_prod_sel same_but_actions_def)

section \<open>No lookahead\<close>

text \<open>
  (C32) The simulation never looks ahead. Take two data sets that agree on everything that was published by a clock
  (prices, assertions, rates and corporate actions), and any sessions that open and close before the clock. Either one
  of the two runs stops, because it meets an action that takes effect in one of these sessions and is published only
  after the clock, with the error that says so; or both runs give the same error, or the same NAV rows, the same
  holding rows and the same state, but for the ids of unpublished actions among the processed ones. What either data
  set publishes later has no other influence.
\<close>

theorem backtest_no_lookahead:
  assumes "wf_inputs inp" and "wf_inputs inp'" and "visible t inp = visible t inp'"
    and "\<forall>sess \<in> set (take n sessions). s_open_at sess \<le> t \<and> s_close_at sess \<le> t"
  shows "foldR (bt_session env ratio_text spec inp sessions) p [0..<n] \<in> Inl ` unpublished_stops t inp (take n sessions)
    \<or> foldR (bt_session env ratio_text spec inp' sessions) p [0..<n] \<in> Inl ` unpublished_stops t inp' (take n sessions)
    \<or> same_result (rel_prod (same_but_actions (unpublished t inp \<union> unpublished t inp')) (=))
        (foldR (bt_session env ratio_text spec inp sessions) p [0..<n])
        (foldR (bt_session env ratio_text spec inp' sessions) p [0..<n])"
  using run_frame[OF assms(1,4), of env ratio_text spec p, unfolded same_or_stops_def]
    run_frame[OF assms(2,4), of env ratio_text spec p, unfolded same_or_stops_def, folded assms(3)]
  by (auto intro: same_compose simp: rel_prod_sel same_but_compose)

end
