(* ===== verification/Backtest_Fills.thy ===== *)
theory Backtest_Fills
  imports Backtest_Lookahead Experiment_Valid
begin

text \<open>
  How much of an order the simulation fills: costs never fall when the quantity grows, the bisection finds a
  quantity that the cash pays for, and no fill exceeds its order, the holding, the volume or the cash.
\<close>

section \<open>Costs are monotone\<close>

lemma decimal_text_nonneg: "decimal_text True p s \<Longrightarrow> 0 \<le> dec_text s"
  by (auto simp: decimal_text_def exp_decimal_def dec_text_def Let_def parse_unsigned_signed
      split: option.splits if_splits)

lemma cost_policy_nonneg:
  assumes "experiment_ok spec"
  shows "0 \<le> dec_text (cp_commission_bps (ex_cost_policy spec))" "0 \<le> dec_text (cp_spread_bps (ex_cost_policy spec))"
    "0 \<le> dec_text (cp_slippage_bps (ex_cost_policy spec))" "0 \<le> dec_text (cp_tax_bps (ex_cost_policy spec))"
  using assms by (auto simp: experiment_ok_def exp_cost_ok_def intro: decimal_text_nonneg)

text \<open>The cost of a buy written out.\<close>

lemma bt_buy_cost_eq:
  "bt_buy_cost spec row q =
     (let gross = dmul prec (p_open row) q; policy = ex_cost_policy spec in
      dadd prec (dadd prec (dmul prec (bt_fill_price spec row ''buy'') q)
        (max (dadd prec (dquot prec (dmul prec gross (dec_text (cp_commission_bps policy))) 10000) (dec_text (cp_fixed_fee policy)))
           (dec_text (cp_minimum_fee policy))))
        (dquot prec (dmul prec gross (dec_text (cp_tax_bps policy))) 10000))"
  by (simp add: bt_buy_cost_def bt_fill_terms_def bt_costs_def Let_def)

lemma buy_price_nonneg:
  assumes "experiment_ok spec" and "0 \<le> p_open row"
  shows "0 \<le> bt_fill_price spec row ''buy''"
  using assms cost_policy_nonneg[OF assms(1)] unfolding bt_fill_price_def Let_def
  by (auto intro!: dmul_nonneg dadd_nonneg dquot_nonneg)

lemma dmul_mono2: "b \<le> b' \<Longrightarrow> 0 \<le> a \<Longrightarrow> dmul prec a b \<le> dmul prec a b'"
  using dmul_mono[of b b' a] by (simp add: dmul_def mult.commute)

lemma buy_cost_mono:
  assumes "experiment_ok spec" and "0 \<le> p_open row" and "q \<le> q'"
  shows "bt_buy_cost spec row q \<le> bt_buy_cost spec row q'"
  using cost_policy_nonneg[OF assms(1)] buy_price_nonneg[OF assms(1,2)] assms(2,3)
  by (auto simp: bt_buy_cost_eq Let_def intro!: dadd_mono max.mono dquot_mono dmul_mono dmul_mono2)

section \<open>The bisection\<close>

lemma bt_bisect_low:
  assumes "low = 0 \<or> bt_buy_cost spec row low \<le> available" and "0 \<le> low" and "0 \<le> high"
    and "bt_bisect spec row available n low high = (l, h)"
  shows "(l = 0 \<or> bt_buy_cost spec row l \<le> available) \<and> 0 \<le> l"
  using assms
proof (induction n arbitrary: low high)
  case (Suc n)
  have "0 \<le> dquot prec (dadd prec low high) 2" using Suc.prems(2,3) by (intro dquot_nonneg dadd_nonneg) simp_all
  with Suc show ?case by (auto simp: Let_def split: if_splits)
qed simp

lemma affordable:
  assumes "experiment_ok spec" and "0 \<le> p_open row" and "0 < quantity"
    and "available < bt_buy_cost spec row quantity" and r: "r = bt_max_affordable_quantity spec row quantity available"
  shows "0 \<le> r" and "r \<le> quantity" and "r = 0 \<or> bt_buy_cost spec row r \<le> available"
proof -
  obtain l h where b: "bt_bisect spec row available 120 0 quantity = (l, h)" by (cases "bt_bisect spec row available 120 0 quantity")
  from bt_bisect_low[OF _ _ _ b] assms(3) have l: "l = 0 \<or> bt_buy_cost spec row l \<le> available" "0 \<le> l" by auto
  have lq: "l \<le> quantity"
    using l assms(3,4) buy_cost_mono[OF assms(1,2), of quantity l] by fastforce
  have q: "0 \<le> r" "r \<le> l"
    using l b round_down_bounds[of l] by (auto simp: r bt_max_affordable_quantity_def)
  with lq show "0 \<le> r" "r \<le> quantity" by simp_all
  from buy_cost_mono[OF assms(1,2) q(2)] l q show "r = 0 \<or> bt_buy_cost spec row r \<le> available" by fastforce
qed

section \<open>Fills\<close>

text \<open>What a fill may not exceed, given the order, the row it trades on and the state before it.\<close>

definition fill_within ::
  "experiment_spec \<Rightarrow> inputs \<Rightarrow> session \<Rightarrow> pending_order \<Rightarrow> price_row \<Rightarrow> bt_state \<Rightarrow> dec \<Rightarrow> bool" where
  "fill_within spec inp sess y row st q \<longleftrightarrow> 0 < q \<and> q \<le> po_quantity y
     \<and> (po_side y = ''sell'' \<longrightarrow> q \<le> dget (bs_quantities st) (po_security_id y) 0)
     \<and> (p_has_volume row \<longrightarrow> q \<le> dmul prec (p_volume row) (dec_text (br_max_participation (ex_risk_policy spec))))
     \<and> (p_has_volume row \<or> 1 \<le> dec_text (br_max_participation (ex_risk_policy spec)))
     \<and> (po_side y = ''buy'' \<longrightarrow>
          (\<exists>available. bt_available_cash spec inp sess (po_currency y) st = Inr available \<and> bt_buy_cost spec row q \<le> available))"

lemma bt_fillable_within:
  assumes "experiment_ok spec" and "0 \<le> p_open row" and "0 < po_quantity y"
    and "bt_fillable spec inp sess y row st = Inr (Inr q)"
  shows "fill_within spec inp sess y row st q"
proof (cases "po_side y = ''buy''")
  case True
  with assms(4) obtain available where a: "bt_available_cash spec inp sess (po_currency y) st = Inr available"
    and v: "p_has_volume row \<longrightarrow> po_quantity y \<le> dmul prec (p_volume row) (dec_text (br_max_participation (ex_risk_policy spec)))"
      "p_has_volume row \<or> 1 \<le> dec_text (br_max_participation (ex_risk_policy spec))"
    and q: "(if bt_buy_cost spec row (po_quantity y) \<le> available then Inr (Inr (po_quantity y))
       else (let affordable = bt_max_affordable_quantity spec row (po_quantity y) available
             in if affordable \<le> 0 then Inr (Inl (''insufficient '' @ po_currency y @ '' cash for '' @ po_security_id y))
                else Inr (Inr affordable))) = (Inr (Inr q) :: (string + dec) result)"
    unfolding bt_fillable_def Let_def by (force elim!: bindR_InrE split: if_splits)
  show ?thesis
  proof (cases "bt_buy_cost spec row (po_quantity y) \<le> available")
    case True
    with q have "q = po_quantity y" by simp
    with True a v assms(3) \<open>po_side y = ''buy''\<close> show ?thesis by (simp add: fill_within_def)
  next
    case False
    with q have "0 < q" and "q = bt_max_affordable_quantity spec row (po_quantity y) available"
      by (auto simp: Let_def split: if_splits)
    with affordable[OF assms(1-3), of available q] False a v \<open>po_side y = ''buy''\<close>
    show ?thesis by (auto simp: fill_within_def)
  qed
next
  case False
  with assms(3,4) show ?thesis
    by (auto simp: bt_fillable_def fill_within_def Let_def not_less split: if_splits)
qed

text \<open>
  (C34) The largest affordable quantity: for a buy that the cash does not pay for, the bisection ends with a
  quantity between zero and the order, whole where shares are not fractional, and the cash pays for it if it is
  positive.
\<close>

theorem affordable_quantity_bounds:
  assumes "experiment_ok spec" and "0 \<le> p_open row" and "0 < quantity"
    and "available < bt_buy_cost spec row quantity"
  shows "0 \<le> bt_max_affordable_quantity spec row quantity available
    \<and> bt_max_affordable_quantity spec row quantity available \<le> quantity
    \<and> (bt_max_affordable_quantity spec row quantity available = 0
       \<or> bt_buy_cost spec row (bt_max_affordable_quantity spec row quantity available) \<le> available)
    \<and> (ba_fractional_shares (ex_accounting_policy spec)
       \<or> bt_max_affordable_quantity spec row quantity available \<in> \<int>)"
proof -
  have "ba_fractional_shares (ex_accounting_policy spec) \<or> bt_max_affordable_quantity spec row quantity available \<in> \<int>"
    by (auto simp: bt_max_affordable_quantity_def round_down_def Let_def)
  with affordable[OF assms refl] show ?thesis by blast
qed

section \<open>The ledger\<close>

text \<open>The rows are numbered from one, in order.\<close>

definition numbered :: "bt_state \<Rightarrow> bool" where
  "numbered st \<longleftrightarrow> map (\<lambda>r. map_of r ''sequence'') (bs_ledger st)
      = map (\<lambda>i. Some (JInt (int i + 1))) [0..<length (bs_ledger st)]
     \<and> bs_next_ledger_sequence st = int (length (bs_ledger st)) + 1"

lemma numbered_ledger [simp, intro]:
  "numbered st \<Longrightarrow> numbered (bt_ledger day event_at kind currency v w note security_id q p st)"
  by (simp add: numbered_def bt_ledger_def bt_ledger_row_def)

lemma numbered_frame: "bs_ledger st' = bs_ledger st \<Longrightarrow> bs_next_ledger_sequence st' = bs_next_ledger_sequence st \<Longrightarrow>
    numbered st' = numbered st"
  by (simp add: numbered_def)

lemma bt_ledger_fields [simp]:
  "bs_orders (bt_ledger day event_at kind currency v w note security_id q p st) = bs_orders st"
  "bs_fills (bt_ledger day event_at kind currency v w note security_id q p st) = bs_fills st"
  "bs_quantities (bt_ledger day event_at kind currency v w note security_id q p st) = bs_quantities st"
  "bs_cash (bt_ledger day event_at kind currency v w note security_id q p st) = bs_cash st"
  "bs_pending (bt_ledger day event_at kind currency v w note security_id q p st) = bs_pending st"
  "bs_last_nav (bt_ledger day event_at kind currency v w note security_id q p st) = bs_last_nav st"
  "bs_rejected_trade_count (bt_ledger day event_at kind currency v w note security_id q p st) = bs_rejected_trade_count st"
  "bs_out_of_market_sessions (bt_ledger day event_at kind currency v w note security_id q p st) = bs_out_of_market_sessions st"
  by (simp_all add: bt_ledger_def)

section \<open>The outcome of an order\<close>

definition order_filled :: "dec \<Rightarrow> row \<Rightarrow> row" where
  "order_filled q r = dset ''quantity'' (JStr (decimal_string q)) (dset ''status'' (JStr ''filled'') r)"

definition order_rejected :: "row \<Rightarrow> row" where
  "order_rejected r = dset ''status'' (JStr ''rejected'') r"

text \<open>The order's row changes in place; either nothing else does, or the fill is recorded and the holding moves by it.\<close>

definition rejects :: "pending_order \<Rightarrow> bt_state \<Rightarrow> bt_state \<Rightarrow> bool" where
  "rejects y st st' \<longleftrightarrow> bs_orders st' = (bs_orders st)[po_index y := order_rejected (bs_orders st ! po_index y)]
     \<and> bs_fills st' = bs_fills st \<and> bs_quantities st' = bs_quantities st \<and> bs_cash st' = bs_cash st
     \<and> bs_rejected_trade_count st' = bs_rejected_trade_count st + 1"

definition fills_order :: "pending_order \<Rightarrow> dec \<Rightarrow> row \<Rightarrow> bt_state \<Rightarrow> bt_state \<Rightarrow> bool" where
  "fills_order y q fill st st' \<longleftrightarrow> bs_orders st' = (bs_orders st)[po_index y := order_filled q (bs_orders st ! po_index y)]
     \<and> bs_fills st' = bs_fills st @ [fill] \<and> map_of fill ''order_id'' = map_of (bs_orders st ! po_index y) ''order_id''
     \<and> map_of fill ''quantity'' = Some (JStr (decimal_string q))
     \<and> map_of fill ''security_id'' = Some (JStr (po_security_id y)) \<and> map_of fill ''side'' = Some (JStr (po_side y))
     \<and> map_of fill ''currency'' = Some (JStr (po_currency y))
     \<and> bs_quantities st' = dset (po_security_id y)
          (if po_side y = ''buy'' then dadd prec (dget (bs_quantities st) (po_security_id y) 0) q
           else max 0 (dsub prec (dget (bs_quantities st) (po_security_id y) 0) q)) (bs_quantities st)
     \<and> bs_rejected_trade_count st' = bs_rejected_trade_count st"

definition same_frame :: "bt_state \<Rightarrow> bt_state \<Rightarrow> bool" where
  "same_frame st st' \<longleftrightarrow> bs_pending st' = bs_pending st \<and> (numbered st \<longrightarrow> numbered st')"

lemma bt_update_order_Inr: "bt_update_order i f st = Inr st' \<longleftrightarrow>
    i < length (bs_orders st) \<and> st' = st\<lparr>bs_orders := (bs_orders st)[i := f (bs_orders st ! i)]\<rparr>"
  by (auto simp: bt_update_order_def)

lemma reject_outcome:
  assumes "bt_reject_order spec sess y reason st = Inr st'"
  shows "po_index y < length (bs_orders st) \<and> rejects y st st' \<and> same_frame st st'"
proof -
  from assms obtain st1 where "po_index y < length (bs_orders st)"
    and st1: "st1 = st\<lparr>bs_orders := (bs_orders st)[po_index y := order_rejected (bs_orders st ! po_index y)]\<rparr>"
    and st': "st' = bt_ledger (s_session_date sess) (s_open_at sess) ''reject'' (po_currency y) 0 0 reason
            (Some (po_security_id y)) (Some (bt_signed_quantity (po_side y) (po_quantity y))) None
            (st1\<lparr>bs_rejected_trade_count := bs_rejected_trade_count st1 + 1\<rparr>)"
    unfolding bt_reject_order_def order_rejected_def
    by (auto simp: bt_update_order_Inr Let_def elim!: bindR_InrE split: if_splits)
  moreover have "numbered st \<Longrightarrow> numbered (st1\<lparr>bs_rejected_trade_count := bs_rejected_trade_count st1 + 1\<rparr>)"
    by (simp add: st1 numbered_def)
  ultimately show ?thesis by (auto simp: rejects_def same_frame_def)
qed

lemma settle_fill_fields [simp]:
  "bs_orders (bt_settle_fill y q v c t st) = bs_orders st" "bs_fills (bt_settle_fill y q v c t st) = bs_fills st"
  "bs_pending (bt_settle_fill y q v c t st) = bs_pending st"
  "numbered (bt_settle_fill y q v c t st) = numbered st"
  "bs_rejected_trade_count (bt_settle_fill y q v c t st) = bs_rejected_trade_count st"
  "bs_quantities (bt_settle_fill y q v c t st) = dset (po_security_id y)
          (if po_side y = ''buy'' then dadd prec (dget (bs_quantities st) (po_security_id y) 0) q
           else max 0 (dsub prec (dget (bs_quantities st) (po_security_id y) 0) q)) (bs_quantities st)"
  by (simp_all add: bt_settle_fill_def bt_set_quantity_def numbered_def Let_def)

lemma add_totals_fields [simp]:
  "bs_orders (bt_add_totals d a b c t g st) = bs_orders st" "bs_fills (bt_add_totals d a b c t g st) = bs_fills st"
  "bs_pending (bt_add_totals d a b c t g st) = bs_pending st" "bs_quantities (bt_add_totals d a b c t g st) = bs_quantities st"
  "numbered (bt_add_totals d a b c t g st) = numbered st"
  "bs_rejected_trade_count (bt_add_totals d a b c t g st) = bs_rejected_trade_count st"
  by (simp_all add: bt_add_totals_def numbered_def)

lemma bt_order_id_Inr: "bt_order_id r = Inr s \<longleftrightarrow> map_of r ''order_id'' = Some (JStr s)"
  by (auto simp: bt_order_id_def jget_def split: option.splits json.splits)

lemma fill_outcome:
  assumes "bt_record_fill env spec inp sess y row q st = Inr st'"
  shows "po_index y < length (bs_orders st) \<and> (\<exists>fill. fills_order y q fill st st') \<and> same_frame st st'"
proof -
  obtain fp tn co sp sl tx where t: "bt_fill_terms spec row (po_side y) q = (fp, tn, co, sp, sl, tx)"
    by (cases "bt_fill_terms spec row (po_side y) q")
  let ?st0 = "bt_settle_fill y q tn co tx st"
  let ?fill = "\<lambda>oid gb. bt_fill_row env sess y row oid q fp co sp sl tx gb"
  let ?rows = "\<lambda>oid gb trb fb tb st1. bt_ledger (s_session_date sess) (s_open_at sess) ''tax'' (po_currency y) (dneg prec tx) (dneg prec tb)
      (''tax '' @ po_security_id y) (Some (po_security_id y)) None None
      (bt_ledger (s_session_date sess) (s_open_at sess) ''fee'' (po_currency y) (dneg prec co) (dneg prec fb)
        (''commission '' @ po_security_id y) (Some (po_security_id y)) None None
        (bt_ledger (s_session_date sess) (s_open_at sess) ''fill'' (po_currency y)
          (dmul prec (if po_side y = ''sell'' then 1 else - 1) tn) (dmul prec (if po_side y = ''sell'' then 1 else - 1) trb)
          (po_side y @ '' '' @ po_security_id y) (Some (po_security_id y))
          (Some (bt_signed_quantity (po_side y) q)) (Some fp) (st1\<lparr>bs_fills := bs_fills st1 @ [?fill oid gb]\<rparr>)))"
  obtain st1 oid gb trb fb sb slb tb where u: "bt_update_order (po_index y) (order_filled q) ?st0 = Inr st1"
    and oid: "bt_order_id (bs_orders st1 ! po_index y) = Inr oid"
    and st': "bt_add_totals (s_session_date sess) fb sb slb tb gb (?rows oid gb trb fb tb st1) = st'"
    using assms unfolding bt_record_fill_def t Let_def prod.case order_filled_def[abs_def]
    by (elim bindR_InrE) (simp only: sum.inject)
  from u have i: "po_index y < length (bs_orders st)"
    and st1: "st1 = ?st0\<lparr>bs_orders := (bs_orders st)[po_index y := order_filled q (bs_orders st ! po_index y)]\<rparr>"
    by (simp_all add: bt_update_order_Inr)
  have fills: "bs_fills st' = bs_fills st @ [?fill oid gb]"
    and rest: "bs_orders st' = bs_orders st1" "bs_pending st' = bs_pending st1" "bs_quantities st' = bs_quantities st1"
      "bs_rejected_trade_count st' = bs_rejected_trade_count st1"
    by (simp_all add: st'[symmetric] st1)
  have "numbered st1 = numbered ?st0" by (rule numbered_frame) (simp_all add: st1)
  moreover have "numbered (st1\<lparr>bs_fills := bs_fills st1 @ [?fill oid gb]\<rparr>) = numbered st1" by (rule numbered_frame) simp_all
  ultimately have num: "numbered st \<Longrightarrow> numbered st'" by (simp add: st'[symmetric])
  from oid i have "map_of (bs_orders st ! po_index y) ''order_id'' = Some (JStr oid)"
    by (simp add: st1 bt_order_id_Inr order_filled_def)
  with i fills rest have "fills_order y q (bt_fill_row env sess y row oid q fp co sp sl tx gb) st st'"
    by (simp add: fills_order_def st1 bt_fill_row_def)
  then show ?thesis using i rest num by (auto simp: same_frame_def st1)
qed

lemma fund_outcome:
  assumes "bt_fund_trade_currency spec inp sess currency v st = Inr (b, st1)"
  shows "bs_orders st1 = bs_orders st" "bs_fills st1 = bs_fills st" "bs_quantities st1 = bs_quantities st"
    "bs_pending st1 = bs_pending st" "bs_rejected_trade_count st1 = bs_rejected_trade_count st"
    "same_frame st st1" "\<not> b \<Longrightarrow> st1 = st"
proof -
  have n: "numbered (s\<lparr>bs_cash := c\<rparr>) = numbered s" for s c by (rule numbered_frame) simp_all
  from assms show "bs_orders st1 = bs_orders st" "bs_fills st1 = bs_fills st" "bs_quantities st1 = bs_quantities st"
    "bs_pending st1 = bs_pending st" "bs_rejected_trade_count st1 = bs_rejected_trade_count st"
    "same_frame st st1" "\<not> b \<Longrightarrow> st1 = st"
    unfolding bt_fund_trade_currency_def Let_def
    by (auto split: if_splits elim!: bindR_InrE simp: n same_frame_def)
qed

text \<open>The ways in which an order executes without an exception.\<close>

lemma execute_order_parts:
  assumes "bt_execute_order env spec inp sess st y = Inr st'"
  shows "(\<exists>reason. bt_reject_order spec sess y reason st = Inr st') \<or>
    (\<exists>row q st1. bt_price_row inp (po_security_id y) (s_session_date sess) (s_open_at sess) = Some row
       \<and> p_currency row = po_currency y \<and> bt_fillable spec inp sess y row st = Inr (Inr q)
       \<and> (st1 = st \<or> (\<exists>v. bt_fund_trade_currency spec inp sess (po_currency y) v st = Inr (True, st1)))
       \<and> bt_record_fill env spec inp sess y row q st1 = Inr st')"
proof (cases "bt_price_row inp (po_security_id y) (s_session_date sess) (s_open_at sess)")
  case None
  with assms show ?thesis by (auto simp: bt_execute_order_def)
next
  case (Some row)
  with assms obtain fillable where c: "p_currency row = po_currency y" and f: "bt_fillable spec inp sess y row st = Inr fillable"
    and k: "(case fillable of Inl reason \<Rightarrow> bt_reject_order spec sess y reason st
     | Inr quantity \<Rightarrow>
     bindR (if po_side y = ''buy''
            then bt_fund_trade_currency spec inp sess (po_currency y) (bt_buy_cost spec row quantity) st
            else Inr (True, st)) (\<lambda>(funded, st1).
     if \<not> funded
     then bt_reject_order spec sess y (''insufficient '' @ po_currency y @ '' cash for '' @ po_security_id y) st1
     else bt_record_fill env spec inp sess y row quantity st1)) = Inr st'"
    unfolding bt_execute_order_def by (auto split: if_splits elim!: bindR_InrE)
  show ?thesis
  proof (cases fillable)
    case (Inl reason)
    with k show ?thesis by auto
  next
    case (Inr q)
    with k obtain b st1 where m: "(if po_side y = ''buy''
            then bt_fund_trade_currency spec inp sess (po_currency y) (bt_buy_cost spec row q) st
            else Inr (True, st)) = Inr (b, st1)"
      and k': "(if \<not> b
     then bt_reject_order spec sess y (''insufficient '' @ po_currency y @ '' cash for '' @ po_security_id y) st1
     else bt_record_fill env spec inp sess y row q st1) = Inr st'"
      by (auto elim!: bindR_InrE)
    show ?thesis
    proof (cases b)
      case True
      with m have "st1 = st \<or> (\<exists>v. bt_fund_trade_currency spec inp sess (po_currency y) v st = Inr (True, st1))"
        by (auto split: if_splits)
      with Some c f Inr k' True show ?thesis by auto
    next
      case False
      with m fund_outcome(7)[of spec inp sess "po_currency y" _ st b st1] have "st1 = st" by (auto split: if_splits)
      with k' False show ?thesis by auto
    qed
  qed
qed

text \<open>An order that executes without an exception is rejected, or filled within its limits.\<close>

lemma execute_order_outcome:
  assumes "bt_execute_order env spec inp sess st y = Inr st'"
  shows "po_index y < length (bs_orders st) \<and> same_frame st st' \<and> (rejects y st st' \<or>
    (\<exists>row q fill. bt_price_row inp (po_security_id y) (s_session_date sess) (s_open_at sess) = Some row
       \<and> p_currency row = po_currency y \<and> bt_fillable spec inp sess y row st = Inr (Inr q) \<and> fills_order y q fill st st'))"
proof (cases "\<exists>reason. bt_reject_order spec sess y reason st = Inr st'")
  case True
  with reject_outcome show ?thesis by blast
next
  case False
  with execute_order_parts[OF assms] obtain row q st1 where
    s: "st1 = st \<or> (\<exists>v. bt_fund_trade_currency spec inp sess (po_currency y) v st = Inr (True, st1))"
    and f: "bt_record_fill env spec inp sess y row q st1 = Inr st'"
    and r: "bt_price_row inp (po_security_id y) (s_session_date sess) (s_open_at sess) = Some row"
      "p_currency row = po_currency y" "bt_fillable spec inp sess y row st = Inr (Inr q)"
    by blast
  have "bs_orders st1 = bs_orders st" "bs_fills st1 = bs_fills st" "bs_quantities st1 = bs_quantities st"
    "bs_pending st1 = bs_pending st" "bs_rejected_trade_count st1 = bs_rejected_trade_count st" "same_frame st st1"
    using s fund_outcome[of spec inp sess "po_currency y" _ st True st1] by (auto simp: same_frame_def)
  with fill_outcome[OF f] r show ?thesis by (auto simp: fills_order_def same_frame_def)
qed

text \<open>
  (C30) The safety of an execution: for a valid experiment and well-formed inputs, an order for a positive quantity
  that executes at an open is either rejected, and then only its status, the count of rejections and the ledger
  change, or filled for a positive quantity that exceeds neither the order, nor the holding it sells, nor the
  participation in the volume, nor what the available cash pays including commission and tax; and then exactly one
  fill with that quantity is recorded and the holding moves by it.
\<close>

theorem execution_within_limits:
  assumes "experiment_ok spec" and "wf_inputs inp" and "0 < po_quantity y"
    and "bt_execute_order env spec inp sess st y = Inr st'"
  shows "rejects y st st' \<or>
    (\<exists>row q fill. bt_price_row inp (po_security_id y) (s_session_date sess) (s_open_at sess) = Some row
       \<and> p_currency row = po_currency y \<and> fill_within spec inp sess y row st q \<and> fills_order y q fill st st')"
proof -
  have "0 \<le> p_open row" if "bt_price_row inp (po_security_id y) (s_session_date sess) (s_open_at sess) = Some row" for row
    using that price_row_mem[of inp] assms(2)
    by (fastforce simp: bt_price_row_eq wf_inputs_def list_all_iff price_row_ok_def)
  with execute_order_outcome[OF assms(4)] bt_fillable_within[OF assms(1) _ assms(3)] show ?thesis by blast
qed

end
