(* ===== verification/Backtest_Invariant.thy ===== *)
theory Backtest_Invariant
  imports Backtest_Fills
begin

text \<open>
  What holds of the simulation's state between the sessions of a run: every order is pending for the next session
  or has been filled or rejected, the fills and the filled orders agree one to one, the ledger is numbered, and
  no holding is negative.
\<close>

section \<open>The order book\<close>

definition order_status :: "row \<Rightarrow> string \<Rightarrow> bool" where
  "order_status r s \<longleftrightarrow> map_of r ''status'' = Some (JStr s)"

text \<open>The row of an order that is still proposed, and the pending order that stands for it.\<close>

definition proposed_for :: "pending_order \<Rightarrow> row \<Rightarrow> bool" where
  "proposed_for y r \<longleftrightarrow> order_status r ''proposed'' \<and> 0 < po_quantity y \<and> po_side y \<in> {''buy'', ''sell''}
     \<and> (\<exists>oid. map_of r ''order_id'' = Some (JStr oid))
     \<and> map_of r ''security_id'' = Some (JStr (po_security_id y)) \<and> map_of r ''side'' = Some (JStr (po_side y))
     \<and> map_of r ''currency'' = Some (JStr (po_currency y))
     \<and> map_of r ''quantity'' = Some (JStr (decimal_string (po_quantity y)))"

text \<open>A fill and the row of its order.\<close>

definition fill_of :: "row \<Rightarrow> row \<Rightarrow> bool" where
  "fill_of fill r \<longleftrightarrow> (\<forall>k \<in> {''order_id'', ''security_id'', ''side'', ''currency'', ''quantity''}. map_of fill k = map_of r k)"

text \<open>The orders are the closed ones followed by the open ones, and \<open>ys\<close> are the pending entries of the open ones.\<close>

definition booked :: "pending_order list \<Rightarrow> bt_state \<Rightarrow> bool" where
  "booked ys st \<longleftrightarrow> (\<exists>closed open_rows. bs_orders st = closed @ open_rows
     \<and> (\<forall>r \<in> set closed. order_status r ''filled'' \<or> order_status r ''rejected'')
     \<and> list_all2 proposed_for ys open_rows
     \<and> map po_index ys = [length closed..<length closed + length open_rows]
     \<and> list_all2 fill_of (bs_fills st) (filter (\<lambda>r. order_status r ''filled'') closed)
     \<and> bs_rejected_trade_count st = int (length (filter (\<lambda>r. order_status r ''rejected'') closed)))"

lemma order_filled_facts: "map_of (order_filled q r) k =
    (if k = ''quantity'' then Some (JStr (decimal_string q)) else if k = ''status'' then Some (JStr ''filled'') else map_of r k)"
  by (auto simp: order_filled_def)

lemma order_rejected_facts: "map_of (order_rejected r) k = (if k = ''status'' then Some (JStr ''rejected'') else map_of r k)"
  by (auto simp: order_rejected_def)

lemma booked_execute:
  assumes "booked (y # ys) st" and "rejects y st st' \<or> fills_order y q fill st st'"
  shows "booked ys st'"
proof -
  from assms(1) obtain closed open_rows where o: "bs_orders st = closed @ open_rows"
    and c: "\<forall>r \<in> set closed. order_status r ''filled'' \<or> order_status r ''rejected''"
    and p: "list_all2 proposed_for (y # ys) open_rows" and i: "map po_index (y # ys) = [length closed..<length closed + length open_rows]"
    and f: "list_all2 fill_of (bs_fills st) (filter (\<lambda>r. order_status r ''filled'') closed)"
    and n: "bs_rejected_trade_count st = int (length (filter (\<lambda>r. order_status r ''rejected'') closed))"
    by (auto simp: booked_def)
  from p obtain r rs where rs: "open_rows = r # rs" "proposed_for y r" "list_all2 proposed_for ys rs"
    by (auto simp: list_all2_Cons1)
  have upt: "[length closed..<length closed + length open_rows]
      = length closed # [Suc (length closed)..<Suc (length closed) + length rs]"
    by (subst upt_conv_Cons) (simp_all add: rs(1) del: upt_Suc)
  from i have iy: "po_index y = length closed" and iys: "map po_index ys = [Suc (length closed)..<Suc (length closed) + length rs]"
    unfolding upt by simp_all
  have at_y: "bs_orders st ! po_index y = r" by (simp add: o rs iy)
  from assms(2) show ?thesis
  proof
    assume j: "rejects y st st'"
    with f n c rs iys show ?thesis unfolding booked_def
      by (intro exI[of _ "closed @ [order_rejected r]"] exI[of _ rs])
        (auto simp: rejects_def o iy order_status_def order_rejected_facts)
  next
    assume j: "fills_order y q fill st st'"
    have "fill_of fill (order_filled q r)"
      using j rs(2) by (simp add: fill_of_def fills_order_def at_y order_filled_facts proposed_for_def)
    with j f n c rs iys show ?thesis unfolding booked_def
      by (intro exI[of _ "closed @ [order_filled q r]"] exI[of _ rs])
        (auto simp: fills_order_def o iy order_status_def order_filled_facts intro!: list_all2_appendI)
  qed
qed

lemma booked_frame:
  assumes "bs_orders st' = bs_orders st" and "bs_fills st' = bs_fills st"
    and "bs_rejected_trade_count st' = bs_rejected_trade_count st"
  shows "booked ys st' = booked ys st"
  by (simp add: booked_def assms)

lemma booked_length: "booked ys st \<Longrightarrow> length (bs_orders st) = length (bs_fills st) + nat (bs_rejected_trade_count st) + length ys"
proof -
  have split: "length xs = length (filter (\<lambda>r. order_status r ''filled'') xs) + length (filter (\<lambda>r. order_status r ''rejected'') xs)"
    if "\<forall>r \<in> set xs. order_status r ''filled'' \<or> order_status r ''rejected''" for xs
    using that by (induction xs) (auto simp: order_status_def)
  assume "booked ys st"
  then obtain closed open_rows where "bs_orders st = closed @ open_rows"
    and c: "\<forall>r \<in> set closed. order_status r ''filled'' \<or> order_status r ''rejected''"
    and l: "length ys = length open_rows" "length (bs_fills st) = length (filter (\<lambda>r. order_status r ''filled'') closed)"
    and n: "bs_rejected_trade_count st = int (length (filter (\<lambda>r. order_status r ''rejected'') closed))"
    unfolding booked_def by (blast dest: list_all2_lengthD)
  then show ?thesis using split[OF c] by simp
qed

section \<open>Holdings\<close>

definition holdings_ok :: "bt_state \<Rightarrow> bool" where
  "holdings_ok st \<longleftrightarrow> distinct (map fst (bs_quantities st)) \<and> (\<forall>(s, q) \<in> set (bs_quantities st). 0 \<le> q)"

lemma holdings_frame: "bs_quantities st' = bs_quantities st \<Longrightarrow> holdings_ok st' = holdings_ok st"
  by (simp add: holdings_ok_def)

lemma holding_nonneg: "holdings_ok st \<Longrightarrow> 0 \<le> dget (bs_quantities st) s 0"
  by (auto simp: holdings_ok_def dget_def split: option.splits dest!: map_of_SomeD)

lemma holdings_dset:
  assumes "holdings_ok st" and "bs_quantities st' = dset s q (bs_quantities st)" and "0 \<le> q"
  shows "holdings_ok st'"
proof -
  have "0 \<le> v" if "(k, v) \<in> set (dset s q (bs_quantities st))" for k v
  proof -
    have "distinct (map fst (dset s q (bs_quantities st)))" using assms(1) by (simp add: holdings_ok_def distinct_dset)
    from map_of_is_SomeI[OF this that] have "((map_of (bs_quantities st))(s \<mapsto> q)) k = Some v" by simp
    with assms(1,3) show ?thesis by (auto simp: holdings_ok_def split: if_splits dest!: map_of_SomeD)
  qed
  with assms(1,2) show ?thesis by (auto simp: holdings_ok_def distinct_dset)
qed

lemma holdings_fill:
  assumes "holdings_ok st" and "fills_order y q fill st st'" and "0 \<le> q"
  shows "holdings_ok st'"
  using assms(2) by (intro holdings_dset[OF assms(1)]) (auto simp: fills_order_def intro!: dadd_nonneg holding_nonneg assms)
section \<open>Steps that leave the order book alone\<close>

definition same_book :: "bt_state \<Rightarrow> bt_state \<Rightarrow> bool" where
  "same_book st st' \<longleftrightarrow> bs_orders st' = bs_orders st \<and> bs_fills st' = bs_fills st
     \<and> bs_rejected_trade_count st' = bs_rejected_trade_count st \<and> bs_pending st' = bs_pending st
     \<and> (numbered st \<longrightarrow> numbered st') \<and> (holdings_ok st \<longrightarrow> holdings_ok st')"

lemma same_book_trans: "same_book a b \<Longrightarrow> same_book b c \<Longrightarrow> same_book a c"
  by (simp add: same_book_def)

lemma same_book_refl [simp]: "same_book a a"
  by (simp add: same_book_def)

lemma same_book_frame:
  assumes "bs_orders st' = bs_orders st" and "bs_fills st' = bs_fills st"
    and "bs_rejected_trade_count st' = bs_rejected_trade_count st" and "bs_pending st' = bs_pending st"
    and "bs_ledger st' = bs_ledger st" and "bs_next_ledger_sequence st' = bs_next_ledger_sequence st"
    and "bs_quantities st' = bs_quantities st"
  shows "same_book st st'"
  using assms by (simp add: same_book_def holdings_ok_def numbered_def)

lemma same_book_ledger: "same_book a b \<Longrightarrow> same_book a (bt_ledger day event_at kind currency v w note s q p b)"
  by (simp add: same_book_def holdings_ok_def)

lemma same_book_cash: "same_book st (bt_add_cash currency v st)"
  by (rule same_book_frame) (simp_all add: bt_add_cash_def)

lemma same_book_quantity: "0 \<le> q \<Longrightarrow> same_book st (bt_set_quantity s q st)"
  using holdings_dset[of st "bt_set_quantity s q st" s q]
  by (auto simp: same_book_def bt_set_quantity_def numbered_def)

lemma known_currency_book: "bt_known_currency inp sess a st = Inr st' \<Longrightarrow> same_book st st'"
  by (auto simp: bt_known_currency_def Let_def split: option.splits if_splits intro!: same_book_frame)

lemma action_effect_book:
  assumes "action_ok a" and "0 < quantity" and "bt_action_effect ratio_text spec inp sess a quantity st = Inr st'"
  shows "same_book st st'"
proof (cases "a_action_type a")
  case Split
  with assms(1) have "0 < a_ratio_numerator a" "0 < a_ratio_denominator a" by (simp_all add: action_ok_def)
  then have q: "0 \<le> dmul prec quantity (dquot prec (a_ratio_numerator a) (a_ratio_denominator a))"
    using assms(2) by (intro dmul_nonneg dquot_nonneg) simp_all
  from Split assms(3) show ?thesis unfolding bt_action_effect_def Let_def
    by (auto simp: ddiv_Inr_iff elim!: bindR_InrE intro!: same_book_ledger same_book_quantity q)
next
  case CashDividend
  with assms(3) show ?thesis unfolding bt_action_effect_def Let_def
    by (auto elim!: bindR_InrE intro!: same_book_ledger same_book_cash)
next
  case Delisting
  with assms(3) show ?thesis unfolding bt_action_effect_def Let_def
    by (auto split: option.splits elim!: bindR_InrE
        intro!: same_book_ledger same_book_trans[OF same_book_cash same_book_quantity])
qed

lemma processed_book: "same_book a b \<Longrightarrow> same_book a (bt_processed x b)"
  by (rule same_book_trans, assumption, rule same_book_frame) (simp_all add: bt_processed_def)

lemma apply_actions_book:
  assumes "wf_inputs inp" and "bt_apply_actions ratio_text spec inp sess st = Inr st'"
  shows "same_book st st'"
proof -
  have step: "same_book s s'" if "a \<in> set (bt_action_events inp (s_session_date sess))"
      and "bt_apply_action ratio_text spec inp sess s a = Inr s'" for a s s'
  proof -
    from that(1) assms(1) have "action_ok a" by (auto simp: bt_action_events_def wf_inputs_def list_all_iff)
    with that(2) show ?thesis unfolding bt_apply_action_def Let_def
      by (auto split: if_splits elim!: bindR_InrE intro!: processed_book
          intro: same_book_trans[OF known_currency_book action_effect_book])
  qed
  show ?thesis
    by (rule foldR_invariant[OF assms(2)[unfolded bt_apply_actions_def], where P = "same_book st"])
      (auto intro: same_book_trans step)
qed

lemma if_raise_Inr: "(if b then raise c m else x) = Inr v \<longleftrightarrow> \<not> b \<and> x = Inr v"
  by simp

text \<open>A mark taken apart.\<close>

lemma mark_parts:
  assumes "bt_mark spec inp sess st = Inr (nav_row, holdings, st')"
  obtains cash_value total rows st1 bn st2 nav p exposure reporting where
      "foldR (bt_mark_step spec inp sess cash_value) (0, [], st) (sorted_items (bs_quantities st)) = Inr (total, rows, st1)"
    and "nav = dadd prec cash_value total" and "0 < nav"
    and "mapR (bt_reweigh nav) rows = Inr holdings"
    and "bt_benchmark spec inp sess st1 = Inr (bn, st2)"
    and "bt_date_partition spec (s_session_date sess) = Inr p"
    and "nav_row = bt_nav_row sess p (filter (\<lambda>(_, v). v \<noteq> 0) (sorted_items (bs_cash st))) cash_value total nav exposure bn reporting"
    and "st' = (bt_ledger (s_session_date sess) (s_close_at sess) ''mark'' (ex_base_currency spec) total total ''close mark''
            None None None st2)\<lparr>bs_last_nav := nav,
          bs_out_of_market_sessions := bs_out_of_market_sessions st2 + (if total = 0 then 1 else 0)\<rparr>"
  using assms unfolding bt_mark_def Let_def
  by (auto simp: if_raise_Inr not_le elim!: bindR_InrE split del: if_split)

lemma currency_book: "same_book st (st\<lparr>bs_security_currency := c\<rparr>)"
  by (rule same_book_frame) simp_all

lemma mark_step_book:
  assumes "bt_mark_step spec inp sess cash_value acc h = Inr acc'"
  shows "same_book (snd (snd acc)) (snd (snd acc'))"
  using assms unfolding bt_mark_step_def Let_def
  by (cases acc; cases h) (auto split: if_splits option.splits elim!: bindR_InrE simp: currency_book)

lemma mark_book:
  assumes "bt_mark spec inp sess st = Inr (nav_row, holdings, st')"
  shows "same_book st st'"
proof -
  from assms obtain cash_value total rows st1 bn st2 nav where
      f: "foldR (bt_mark_step spec inp sess cash_value) (0, [], st) (sorted_items (bs_quantities st)) = Inr (total, rows, st1)"
    and b: "bt_benchmark spec inp sess st1 = Inr (bn, st2)"
    and e: "st' = (bt_ledger (s_session_date sess) (s_close_at sess) ''mark'' (ex_base_currency spec) total total ''close mark''
            None None None st2)\<lparr>bs_last_nav := nav,
          bs_out_of_market_sessions := bs_out_of_market_sessions st2 + (if total = 0 then 1 else 0)\<rparr>"
    by (rule mark_parts)
  have "same_book st (snd (snd (total, rows, st1)))"
    by (rule foldR_invariant[OF f]) (auto intro: same_book_trans mark_step_book)
  then have "same_book st st1" by simp
  moreover have "same_book st1 st2"
    using b unfolding bt_benchmark_def
    by (auto split: option.splits if_splits elim!: bindR_InrE intro!: same_book_frame)
  moreover have "same_book st2 st'"
    unfolding e by (rule same_book_trans[OF same_book_ledger[OF same_book_refl] same_book_frame]) simp_all
  ultimately show ?thesis by (blast intro: same_book_trans)
qed

section \<open>Orders\<close>

definition settled :: "pending_order list \<Rightarrow> bt_state \<Rightarrow> bool" where
  "settled ys st \<longleftrightarrow> booked ys st \<and> holdings_ok st \<and> numbered st"

lemma settled_book: "same_book st st' \<Longrightarrow> settled ys st \<Longrightarrow> settled ys st'"
  by (simp add: same_book_def settled_def booked_def)

lemma settled_execute:
  assumes "experiment_ok spec" and "wf_inputs inp" and "settled (y # ys) st"
    and "bt_execute_order env spec inp sess st y = Inr st'"
  shows "settled ys st' \<and> bs_pending st' = bs_pending st"
proof -
  from assms(3) have y: "0 < po_quantity y"
    by (auto simp: settled_def booked_def list_all2_Cons1 proposed_for_def)
  have frame: "same_frame st st'" using execute_order_outcome[OF assms(4)] by blast
  have "bt_price_row inp s d t = Some row \<Longrightarrow> 0 \<le> p_open row" for s d t row
    using price_row_mem[of inp s d t row] assms(2)
    by (fastforce simp: bt_price_row_eq wf_inputs_def list_all_iff price_row_ok_def)
  with execute_order_outcome[OF assms(4)] bt_fillable_within[OF assms(1) _ y]
  consider "rejects y st st'" | row q fill where "fills_order y q fill st st'" "fill_within spec inp sess y row st q" by blast
  then have "booked ys st' \<and> holdings_ok st'"
  proof cases
    case 1
    with assms(3) show ?thesis
      by (auto simp: settled_def rejects_def holdings_ok_def intro: booked_execute)
  next
    case 2
    then have "0 \<le> q" by (simp add: fill_within_def)
    with 2 assms(3) show ?thesis by (auto simp: settled_def intro: booked_execute holdings_fill)
  qed
  with frame assms(3) show ?thesis by (simp add: settled_def same_frame_def)
qed

lemma settled_execute_all:
  assumes "experiment_ok spec" and "wf_inputs inp" and "settled ys st"
    and "foldR (bt_execute_order env spec inp sess) st ys = Inr st'"
  shows "settled [] st' \<and> bs_pending st' = bs_pending st"
  using assms(3,4)
proof (induction ys arbitrary: st)
  case (Cons y ys)
  from Cons.prems(2) obtain s where s: "bt_execute_order env spec inp sess st y = Inr s"
    "foldR (bt_execute_order env spec inp sess) s ys = Inr st'" by (auto elim: bindR_InrE)
  from settled_execute[OF assms(1,2) Cons.prems(1) s(1)] Cons.IH[of s] s(2) show ?case by simp
qed simp

text \<open>All that was pending is due, and is executed in the order of the book.\<close>

lemma execute_orders_settled:
  assumes "experiment_ok spec" and "wf_inputs inp" and "settled (bs_pending st) st"
    and "\<forall>y \<in> set (bs_pending st). po_execution_date y = s_session_date sess"
    and "bt_execute_orders env spec inp sess st = Inr st'"
  shows "settled [] st' \<and> bs_pending st' = []"
proof -
  let ?st = "st\<lparr>bs_pending := []\<rparr>"
  from assms(3) have "sorted (map po_index (bs_pending st))" by (auto simp: settled_def booked_def)
  then have s: "sort_key po_index (bs_pending st) = bs_pending st" by (rule sort_key_id_if_sorted)
  have f: "filter (\<lambda>y. po_execution_date y = s_session_date sess) (bs_pending st) = bs_pending st"
    "filter (\<lambda>y. po_execution_date y \<noteq> s_session_date sess) (bs_pending st) = []"
    using assms(4) by (simp_all add: filter_id_conv filter_empty_conv)
  have "settled (bs_pending st) ?st" using assms(3) by (simp add: settled_def booked_def holdings_ok_def numbered_def)
  from settled_execute_all[OF assms(1,2) this] assms(5) show ?thesis
    by (simp add: bt_execute_orders_def f s)
qed

section \<open>Decisions\<close>

lemma signal_book: "bt_signal spec inp sessions k st active due = Inr (ts, st') \<Longrightarrow> same_book st st'"
  unfolding bt_signal_def Let_def by (auto split: if_splits elim!: bindR_InrE intro!: same_book_frame)

lemma target_weights_book:
  assumes "bt_target_weights spec inp sessions k st = Inr (ts, st')"
  shows "same_book st st'"
  using assms unfolding bt_target_weights_def Let_def
  by (auto elim!: bindR_InrE intro!: same_book_trans[OF signal_book same_book_frame])

lemma order_quantity_facts:
  assumes "bt_order_quantity spec inp st s w sess = Inr (qs, st')"
  shows "same_book st st'" and "qs = Some (q, side) \<Longrightarrow> 0 < q \<and> side \<in> {''buy'', ''sell''}"
proof -
  have abs: "d \<noteq> 0 \<Longrightarrow> 0 < dabs prec d" for d by (auto simp: dabs_def intro!: dec_round_pos)
  from assms show "same_book st st'" unfolding bt_order_quantity_def Let_def
    by (auto split: option.splits if_splits elim!: bindR_InrE simp: currency_book)
  assume "qs = Some (q, side)"
  with assms show "0 < q \<and> side \<in> {''buy'', ''sell''}" unfolding bt_order_quantity_def Let_def
    by (auto split: option.splits if_splits elim!: bindR_InrE simp: abs)
qed

lemma booked_propose:
  assumes "booked ys st" and "bs_orders st' = bs_orders st @ [r]" and "proposed_for y r"
    and "po_index y = length (bs_orders st)"
    and "bs_fills st' = bs_fills st" and "bs_rejected_trade_count st' = bs_rejected_trade_count st"
  shows "booked (ys @ [y]) st'"
proof -
  from assms(1) obtain closed open_rows where o: "bs_orders st = closed @ open_rows"
    and c: "\<forall>r \<in> set closed. order_status r ''filled'' \<or> order_status r ''rejected''"
    and p: "list_all2 proposed_for ys open_rows" and i: "map po_index ys = [length closed..<length closed + length open_rows]"
    and f: "list_all2 fill_of (bs_fills st) (filter (\<lambda>r. order_status r ''filled'') closed)"
    and n: "bs_rejected_trade_count st = int (length (filter (\<lambda>r. order_status r ''rejected'') closed))"
    by (auto simp: booked_def)
  from o assms(2,4) have "bs_orders st' = closed @ (open_rows @ [r])" "po_index y = length closed + length open_rows" by simp_all
  moreover from p assms(3) have "list_all2 proposed_for (ys @ [y]) (open_rows @ [r])" by (simp add: list_all2_appendI)
  ultimately show ?thesis using c f n i assms(5,6) unfolding booked_def
    by (intro exI[of _ closed] exI[of _ "open_rows @ [r]"]) simp
qed

text \<open>The state after a proposal: one order, one ledger row, one pending entry.\<close>

definition proposed_state ::
  "session \<Rightarrow> date \<Rightarrow> string \<Rightarrow> (string, dec) dict \<Rightarrow> bt_state \<Rightarrow> string \<Rightarrow> dec \<Rightarrow> price_row \<Rightarrow> string \<Rightarrow> string \<Rightarrow> bt_state" where
  "proposed_state sess d s targets st side quantity row oid reason =
     (bt_ledger (s_session_date sess) (s_close_at sess) ''order'' (p_currency row) 0 0
        (side @ '' order '' @ oid) (Some s) (Some (bt_signed_quantity side quantity)) (Some (p_close row))
        (st\<lparr>bs_orders := bs_orders st @ [bt_order_row sess d oid s side quantity row (dget targets s 0) reason]\<rparr>))
      \<lparr>bs_pending := bs_pending st @ [\<lparr>po_index = length (bs_orders st), po_security_id = s,
         po_side = side, po_quantity = quantity, po_execution_date = d, po_currency = p_currency row\<rparr>]\<rparr>"

lemma propose_parts:
  assumes "bt_propose_order env spec inp sess d targets st (ordinal, s) = Inr st'"
  shows "\<exists>qs st1. bt_order_quantity spec inp st s (dget targets s 0) sess = Inr (qs, st1)
    \<and> (case qs of None \<Rightarrow> st' = st1
       | Some (quantity, side) \<Rightarrow> \<exists>row oid reason. st' = proposed_state sess d s targets st1 side quantity row oid reason)"
  using assms unfolding bt_propose_order_def Let_def prod.case
  apply (elim bindR_InrE)
  apply (simp only: if_raise_Inr)
  apply (elim conjE bindR_InrE)
  subgoal for m qs
    apply (cases qs)
    subgoal for a st1
      apply (cases a)
       apply simp
      apply (simp only: prod.case option.case)
      apply (cases "bt_price_row inp s (s_session_date sess) (s_close_at sess)")
       apply (simp add: case_prod_beta)
      apply (simp add: case_prod_beta proposed_state_def)
      apply blast
      done
    done
  done

lemma propose_settled:
  assumes "bt_propose_order env spec inp sess d targets st k = Inr st'"
    and "settled (bs_pending st) st" and "\<forall>y \<in> set (bs_pending st). po_execution_date y = d"
  shows "settled (bs_pending st') st' \<and> (\<forall>y \<in> set (bs_pending st'). po_execution_date y = d)"
proof -
  obtain ordinal s where k: "k = (ordinal, s)" by (cases k)
  from propose_parts[OF assms(1)[unfolded k]] obtain qs st1
    where q: "bt_order_quantity spec inp st s (dget targets s 0) sess = Inr (qs, st1)"
    and more: "case qs of None \<Rightarrow> st' = st1
      | Some (quantity, side) \<Rightarrow> \<exists>row oid reason. st' = proposed_state sess d s targets st1 side quantity row oid reason" by blast
  have s1: "same_book st st1" by (rule order_quantity_facts(1)[OF q])
  with assms(2) have b1: "settled (bs_pending st1) st1" by (auto simp: same_book_def intro: settled_book)
  show ?thesis
  proof (cases qs)
    case None
    with more b1 s1 assms(3) show ?thesis by (simp add: same_book_def)
  next
    case (Some x)
    obtain quantity side where x: "x = (quantity, side)" by (cases x)
    from more Some x obtain row oid reason where
      st': "st' = proposed_state sess d s targets st1 side quantity row oid reason" by auto
    note st' = st'[unfolded proposed_state_def]
    from order_quantity_facts(2)[OF q Some[unfolded x]] have qs: "0 < quantity" "side \<in> {''buy'', ''sell''}" by simp_all
    have "booked (bs_pending st') st'"
      using b1 qs unfolding settled_def
      by (subst st', simp, intro booked_propose[of "bs_pending st1" st1])
        (auto simp: st' bt_ledger_def bt_order_row_def proposed_for_def order_status_def)
    moreover have "holdings_ok st'" using b1 by (simp add: settled_def holdings_ok_def st')
    moreover have "numbered st'"
    proof -
      let ?l = "bt_ledger (s_session_date sess) (s_close_at sess) ''order'' (p_currency row) 0 0
            (side @ '' order '' @ oid) (Some s) (Some (bt_signed_quantity side quantity)) (Some (p_close row))
            (st1\<lparr>bs_orders := bs_orders st1 @ [bt_order_row sess d oid s side quantity row (dget targets s 0) reason]\<rparr>)"
      have "numbered ?l" using b1 by (intro numbered_ledger) (simp add: settled_def numbered_def)
      then show ?thesis by (simp add: st' numbered_def)
    qed
    ultimately show ?thesis using s1 assms(3) by (auto simp: settled_def st' same_book_def)
  qed
qed

lemma decide_settled:
  assumes "bt_decide env spec inp sessions k st = Inr st'" and "settled [] st" and "bs_pending st = []"
  shows "settled (bs_pending st') st'"
    and "k + 1 < length sessions \<Longrightarrow> \<forall>y \<in> set (bs_pending st'). po_execution_date y = s_session_date (sessions ! (k + 1))"
    and "length sessions \<le> k + 1 \<Longrightarrow> bs_pending st' = []"
proof -
  have "settled (bs_pending st') st' \<and> (\<forall>y \<in> set (bs_pending st'). po_execution_date y = s_session_date (sessions ! (k + 1)))"
    if k: "k + 1 < length sessions"
  proof -
    from assms(1) k obtain ts st1 cs where w: "bt_target_weights spec inp sessions k st = Inr (ts, st1)"
      and f: "foldR (bt_propose_order env spec inp (sessions ! k) (s_session_date (sessions ! (k + 1))) ts) st1 cs = Inr st'"
      unfolding bt_decide_def Let_def by (auto elim!: bindR_InrE)
    have sb: "same_book st st1" by (rule target_weights_book[OF w])
    then have "bs_pending st1 = []" using assms(3) by (simp add: same_book_def)
    moreover from this settled_book[OF sb assms(2)] have "settled (bs_pending st1) st1" by simp
    ultimately show ?thesis
      by (intro foldR_invariant[OF f, where P = "\<lambda>s. settled (bs_pending s) s
          \<and> (\<forall>y \<in> set (bs_pending s). po_execution_date y = s_session_date (sessions ! (k + 1)))"])
        (simp, blast dest: propose_settled)
  qed
  moreover have "st' = st" if "length sessions \<le> k + 1" using assms(1) that by (simp add: bt_decide_def)
  ultimately show "settled (bs_pending st') st'"
    and "k + 1 < length sessions \<Longrightarrow> \<forall>y \<in> set (bs_pending st'). po_execution_date y = s_session_date (sessions ! (k + 1))"
    and "length sessions \<le> k + 1 \<Longrightarrow> bs_pending st' = []"
    using assms(2,3) by (cases "k + 1 < length sessions"; simp)+
qed

section \<open>Sessions and runs\<close>

text \<open>A NAV row: its session, the partition that the session falls in, and the value split into cash and positions.\<close>

definition nav_row_ok :: "experiment_spec \<Rightarrow> session \<Rightarrow> row \<Rightarrow> bool" where
  "nav_row_ok spec sess r \<longleftrightarrow> map_of r ''session_date'' = Some (JStr (isoformat (s_session_date sess)))
     \<and> (\<exists>p \<in> set (ex_partitions spec). map_of r ''partition'' = Some (JStr (pa_name p))
          \<and> pa_start_date p \<le> isoformat (s_session_date sess) \<and> isoformat (s_session_date sess) \<le> pa_end_date p)
     \<and> (\<exists>cash_value positions. map_of r ''cash_base'' = Some (JStr (decimal_string cash_value))
          \<and> map_of r ''positions_value_base'' = Some (JStr (decimal_string positions))
          \<and> map_of r ''nav'' = Some (JStr (decimal_string (dadd prec cash_value positions)))
          \<and> 0 < dadd prec cash_value positions)"

lemma date_partition_facts: "bt_date_partition spec d = Inr p \<Longrightarrow> p \<in> set (ex_partitions spec)
    \<and> pa_start_date p \<le> isoformat d \<and> isoformat d \<le> pa_end_date p"
  by (auto simp: bt_date_partition_def find_Some_iff split: option.splits)

lemma mark_row:
  assumes "bt_mark spec inp sess st = Inr (nav_row, holdings, st')"
  shows "nav_row_ok spec sess nav_row"
proof -
  from assms obtain cash_value total bn nav p exposure reporting where n: "nav = dadd prec cash_value total" "0 < nav"
    and p: "bt_date_partition spec (s_session_date sess) = Inr p"
    and r: "nav_row = bt_nav_row sess p (filter (\<lambda>(_, v). v \<noteq> 0) (sorted_items (bs_cash st))) cash_value total nav exposure bn reporting"
    by (rule mark_parts)
  have "\<exists>c t. map_of nav_row ''cash_base'' = Some (JStr (decimal_string c))
      \<and> map_of nav_row ''positions_value_base'' = Some (JStr (decimal_string t))
      \<and> map_of nav_row ''nav'' = Some (JStr (decimal_string (dadd prec c t))) \<and> 0 < dadd prec c t"
    using n by (intro exI[of _ cash_value] exI[of _ total]) (simp add: r bt_nav_row_def)
  with date_partition_facts[OF p] show ?thesis
    unfolding nav_row_ok_def by (auto simp: r bt_nav_row_def)
qed

text \<open>What holds after the first sessions of a run.\<close>

definition progress_ok :: "experiment_spec \<Rightarrow> session list \<Rightarrow> nat \<Rightarrow> bt_progress \<Rightarrow> bool" where
  "progress_ok spec sessions n = (\<lambda>(st, nav_rows, holding_rows). settled (bs_pending st) st
     \<and> (bs_pending st \<noteq> [] \<longrightarrow> n < length sessions)
     \<and> (\<forall>y \<in> set (bs_pending st). po_execution_date y = s_session_date (sessions ! n))
     \<and> list_all2 (nav_row_ok spec) (take n sessions) nav_rows)"

lemma session_progress:
  assumes "experiment_ok spec" and "wf_inputs inp" and "progress_ok spec sessions n p"
    and "bt_session env ratio_text spec inp sessions p n = Inr p'"
  shows "n < length sessions \<and> progress_ok spec sessions (Suc n) p'"
proof -
  obtain st nav_rows holding_rows where p: "p = (st, nav_rows, holding_rows)" by (cases p)
  from assms(4) obtain sess st1 st2 nav_row holdings st3 st4 where
      s: "session_at sessions n = Inr sess"
    and a: "bt_apply_actions ratio_text spec inp sess st = Inr st1" and x: "bt_execute_orders env spec inp sess st1 = Inr st2"
    and m: "bt_mark spec inp sess st2 = Inr (nav_row, holdings, st3)" and d: "bt_decide env spec inp sessions n st3 = Inr st4"
    and p': "p' = (st4, nav_rows @ [nav_row], holding_rows @ holdings)"
    unfolding p bt_session_def by (auto elim!: bindR_InrE)
  from s have n: "n < length sessions" and sess: "sess = sessions ! n"
    by (auto simp: session_at_def split: if_splits)
  note b1 = apply_actions_book[OF assms(2) a]
  from assms(3) have st: "settled (bs_pending st) st" "\<forall>y \<in> set (bs_pending st). po_execution_date y = s_session_date sess"
    and navs: "list_all2 (nav_row_ok spec) (take n sessions) nav_rows"
    by (auto simp: progress_ok_def p sess)
  from b1 have pend1: "bs_pending st1 = bs_pending st" by (simp add: same_book_def)
  have "settled [] st2 \<and> bs_pending st2 = []"
    by (rule execute_orders_settled[OF assms(1,2) _ _ x]) (use settled_book[OF b1 st(1)] st(2) in \<open>simp_all add: pend1\<close>)
  then have st2: "settled [] st2" "bs_pending st2 = []" by simp_all
  note b3 = mark_book[OF m]
  from b3 st2 have "bs_pending st3 = []" by (simp add: same_book_def)
  note decided = decide_settled[OF d settled_book[OF b3 st2(1)] this]
  from navs mark_row[OF m] n have "list_all2 (nav_row_ok spec) (take (Suc n) sessions) (nav_rows @ [nav_row])"
    by (simp add: take_Suc_conv_app_nth sess list_all2_appendI)
  moreover have "Suc n < length sessions" if "bs_pending st4 \<noteq> []"
    using decided(3) that by (cases "length sessions \<le> n + 1") simp_all
  moreover have "\<forall>y \<in> set (bs_pending st4). po_execution_date y = s_session_date (sessions ! Suc n)"
    using decided(2,3) by (cases "n + 1 < length sessions") simp_all
  ultimately show ?thesis using n decided(1) by (simp add: progress_ok_def p')
qed

lemma sessions_progress:
  assumes "experiment_ok spec" and "wf_inputs inp" and "progress_ok spec sessions 0 p"
    and "foldR (bt_session env ratio_text spec inp sessions) p [0..<n] = Inr p'"
  shows "n \<le> length sessions \<and> progress_ok spec sessions n p'"
  using assms(4)
proof (induction n arbitrary: p')
  case 0
  with assms(3) show ?case by simp
next
  case (Suc n)
  from Suc.prems obtain q where "foldR (bt_session env ratio_text spec inp sessions) p [0..<n] = Inr q"
    and q: "bt_session env ratio_text spec inp sessions q n = Inr p'"
    by (auto simp: foldR_append elim!: bindR_InrE)
  with Suc.IH have "progress_ok spec sessions n q" by blast
  from session_progress[OF assms(1,2) this q] show ?case by simp
qed

lemma start_progress: "progress_ok spec sessions 0 (bt_start spec sess, [], [])"
proof -
  have "numbered (initial_state c)" for c by (simp add: numbered_def initial_state_def)
  moreover have "booked [] (bt_start spec sess)"
    unfolding booked_def by (intro exI[of _ "[]"]) (simp add: bt_start_def initial_state_def Let_def)
  ultimately show ?thesis
    by (simp add: progress_ok_def settled_def bt_start_def Let_def) (simp add: holdings_ok_def initial_state_def)
qed

lemma run_progress:
  assumes "experiment_ok spec" and "wf_inputs inp" and "bt_run env ratio_text spec inp sessions = Inr (st, nav_rows, holding_rows)"
  shows "settled [] st" "bs_pending st = []" "list_all2 (nav_row_ok spec) sessions nav_rows"
proof -
  from assms(3) obtain s where "foldR (bt_session env ratio_text spec inp sessions) (bt_start spec s, [], []) [0..<length sessions]
      = Inr (st, nav_rows, holding_rows)"
    by (auto simp: bt_run_def elim!: bindR_InrE)
  from sessions_progress[OF assms(1,2) start_progress this]
  show "settled [] st" "bs_pending st = []" "list_all2 (nav_row_ok spec) sessions nav_rows"
    by (auto simp: progress_ok_def)
qed

text \<open>
  (C31) A run leaves no order open: every order it proposed was filled or rejected at the next session, the fills
  agree one to one, in order, with the filled orders, and the count of rejections is that of the rejected ones; so
  the check for orders that remain pending at the end never fails.
\<close>

theorem backtest_orders_closed:
  assumes "experiment_ok spec" and "wf_inputs inp" and "bt_run env ratio_text spec inp sessions = Inr (st, nav_rows, holding_rows)"
  shows "bs_pending st = [] \<and> (\<forall>r \<in> set (bs_orders st). order_status r ''filled'' \<or> order_status r ''rejected'')
    \<and> list_all2 fill_of (bs_fills st) (filter (\<lambda>r. order_status r ''filled'') (bs_orders st))
    \<and> bs_rejected_trade_count st = int (length (filter (\<lambda>r. order_status r ''rejected'') (bs_orders st)))"
  using run_progress[OF assms] by (auto simp: settled_def booked_def)

text \<open>
  (C33) A run that ends has one NAV row for each session, in order, with the partition that the session lies in
  and a positive NAV that is the rounded sum of its cash and its positions; its ledger is numbered from one
  without a gap, and no holding is negative.
\<close>

theorem backtest_run_invariant:
  assumes "experiment_ok spec" and "wf_inputs inp" and "bt_run env ratio_text spec inp sessions = Inr (st, nav_rows, holding_rows)"
  shows "list_all2 (nav_row_ok spec) sessions nav_rows \<and> numbered st \<and> holdings_ok st"
  using run_progress[OF assms] by (simp add: settled_def)

end
