(* ===== verification/Backtest_Restore.thy ===== *)
theory Backtest_Restore
  imports Backtest_Checkpoint Backtest_Invariant
begin

text \<open>
  A checkpoint restores the state it was written from, with its dictionaries sorted; and every state between two
  sessions of a run can be written and restored.
\<close>

section \<open>States that a checkpoint can hold\<close>

definition texts_ok :: "(string, dec) dict \<Rightarrow> bool" where
  "texts_ok d \<longleftrightarrow> distinct (map fst d) \<and> (\<forall>(k, v) \<in> set d. k \<noteq> [] \<and> is_decimal v)"

definition pending_ok :: "nat \<Rightarrow> pending_order \<Rightarrow> bool" where
  "pending_ok n y \<longleftrightarrow> po_index y < n \<and> po_side y \<in> {''buy'', ''sell''} \<and> is_decimal (po_quantity y) \<and> valid_date (po_execution_date y)"

definition optional_decimal_ok :: "dec option \<Rightarrow> bool" where
  "optional_decimal_ok v \<longleftrightarrow> (case v of None \<Rightarrow> True | Some q \<Rightarrow> is_decimal q)"

definition checkpointable :: "bt_state \<Rightarrow> bool" where
  "checkpointable st \<longleftrightarrow> texts_ok (bs_cash st) \<and> texts_ok (bs_quantities st) \<and> texts_ok (bs_hold_weights st)
     \<and> distinct (map fst (bs_security_currency st)) \<and> (\<forall>(_, c) \<in> set (bs_security_currency st). c \<noteq> [])
     \<and> (\<forall>y \<in> set (bs_pending st). pending_ok (length (bs_orders st)) y)
     \<and> distinct (bs_processed_actions st) \<and> [] \<notin> set (bs_processed_actions st)
     \<and> (\<forall>d. bs_last_decision_date st = Some d \<longrightarrow> valid_date d) \<and> is_decimal (bs_last_nav st)
     \<and> optional_decimal_ok (bs_benchmark_units st) \<and> optional_decimal_ok (bs_benchmark_value_start st) \<and> numbered st
     \<and> is_decimal (bs_total_fee_base st) \<and> is_decimal (bs_total_spread_base st) \<and> is_decimal (bs_total_slippage_base st)
     \<and> is_decimal (bs_total_tax_base st) \<and> is_decimal (bs_total_gross_base st)
     \<and> distinct (map fst (bs_cost_by_session st))
     \<and> (\<forall>(d, v) \<in> set (bs_cost_by_session st). valid_date d \<and> is_decimal v)
     \<and> 0 \<le> bs_rejected_trade_count st \<and> 0 \<le> bs_out_of_market_sessions st"

text \<open>The same state with the entries of its dictionaries in order.\<close>

definition sorted_state :: "bt_state \<Rightarrow> bt_state" where
  "sorted_state st = st\<lparr>bs_cash := sorted_items (bs_cash st), bs_quantities := sorted_items (bs_quantities st),
     bs_security_currency := sorted_items (bs_security_currency st), bs_pending := sort_key po_index (bs_pending st),
     bs_processed_actions := sort (bs_processed_actions st), bs_hold_weights := sorted_items (bs_hold_weights st),
     bs_cost_by_session := sorted_items (bs_cost_by_session st)\<rparr>"

section \<open>Reading back single values\<close>

lemma mapR_back: "(\<And>x. x \<in> set xs \<Longrightarrow> f (g x) = Inr x) \<Longrightarrow> mapR f (map g xs) = Inr xs"
  by (induction xs) auto

lemma mapR_back_enumerate: "(\<And>i x. x \<in> set xs \<Longrightarrow> f (i, g x) = Inr x) \<Longrightarrow> mapR f (enumerate n (map g xs)) = Inr xs"
  by (induction xs arbitrary: n) auto

lemma foldR_back:
  assumes "\<And>acc p. p \<in> set ps \<Longrightarrow> f acc (g p) = Inr (dset (fst p) (snd p) acc)" and "distinct (map fst (acc @ ps))"
  shows "foldR f acc (map g ps) = Inr (acc @ ps)"
  using assms
proof (induction ps arbitrary: acc)
  case (Cons p ps)
  from Cons.prems(2) have "dset (fst p) (snd p) acc = acc @ [p]" by (subst dset_fresh) auto
  with Cons show ?case by simp
qed simp

lemma distinct_sorted_items: "distinct (map fst d) \<Longrightarrow> distinct (map fst (sorted_items d))"
  by (simp add: sorted_items_def distinct_map_fst_sort)

lemma checkpoint_decimal_back [simp]: "is_decimal q \<Longrightarrow> checkpoint_decimal f (JStr (decimal_string q)) = Inr q"
  by (simp add: checkpoint_decimal_def)

lemma decimal_map_back: "texts_ok d \<Longrightarrow> checkpoint_decimal_map f (decimals_json d) = Inr (sorted_items d)"
  unfolding checkpoint_decimal_map_def decimals_json_def texts_ok_def
  by (simp, subst foldR_back[where acc = "[]"]) (auto simp: distinct_sorted_items)

lemma costs_back:
  assumes "distinct (map fst d)" and "\<forall>(k, v) \<in> set d. valid_date k \<and> is_decimal v"
  shows "restore_costs (JObj (map (\<lambda>(k, v). (isoformat k, JStr (decimal_string v))) (sorted_items d))) = Inr (sorted_items d)"
  unfolding restore_costs_def using assms
  by (simp, subst foldR_back[where acc = "[]"]) (auto simp: distinct_sorted_items checkpoint_date_def)

lemma currencies_back:
  assumes "\<forall>(_, c) \<in> set d. c \<noteq> []"
  shows "restore_currencies (JObj (map (\<lambda>(k, v). (k, JStr v)) (sorted_items d))) = Inr (sorted_items d)"
  unfolding restore_currencies_def Let_def using assms by (simp, intro mapR_back) auto

lemma processed_back:
  assumes "distinct xs" and "[] \<notin> set xs"
  shows "restore_processed (map JStr (sort xs)) = Inr (sort xs)"
proof -
  have "mapR (\<lambda>v. case v of
         JStr s \<Rightarrow> if s = [] then checkpoint_error ''checkpoint state.processed_actions contains an invalid action'' else Inr s
       | _ \<Rightarrow> checkpoint_error ''checkpoint state.processed_actions contains an invalid action'') (map JStr (sort xs)) = Inr (sort xs)"
    using assms(2) by (intro mapR_back) auto
  then show ?thesis using assms(1) by (simp add: restore_processed_def bindR_ensure)
qed

lemma pending_back:
  assumes "pending_ok n y"
  shows "restore_pending (i, pending_json y) = Inr y"
  using assms by (cases y) (simp add: restore_pending_def pending_json_def Let_def pending_ok_def checkpoint_exact_fields_def
      jkeys_def checkpoint_pending_fields_def field_of_def jget_def checkpoint_int_def member_of_def bindR_ensure
      checkpoint_date_def insert_commute)

lemma rows_back: "checkpoint_rows f (map JObj rows) = Inr rows"
  unfolding checkpoint_rows_def by (intro mapR_back) simp

lemma optional_back: "optional_decimal_ok v \<Longrightarrow>
    checkpoint_optional (checkpoint_decimal f) (null_or (\<lambda>v. JStr (decimal_string v)) v) = Inr v"
  by (cases v) (simp_all add: checkpoint_optional_def null_or_def optional_decimal_ok_def)

lemma optional_date_back: "(\<forall>d. v = Some d \<longrightarrow> valid_date d) \<Longrightarrow>
    checkpoint_optional (checkpoint_date m) (null_or (\<lambda>d. JStr (isoformat d)) v) = Inr v"
  by (cases v) (simp_all add: checkpoint_optional_def null_or_def checkpoint_date_def)

section \<open>Reading back the state\<close>

lemma state_fields_at:
  "map_of (state_checkpoint_fields st) ''cash'' = Some (decimals_json (bs_cash st))"
  "map_of (state_checkpoint_fields st) ''quantities'' = Some (decimals_json (bs_quantities st))"
  "map_of (state_checkpoint_fields st) ''security_currency''
     = Some (JObj (map (\<lambda>(k, v). (k, JStr v)) (sorted_items (bs_security_currency st))))"
  "map_of (state_checkpoint_fields st) ''orders'' = Some (JArr (map JObj (bs_orders st)))"
  "map_of (state_checkpoint_fields st) ''fills'' = Some (JArr (map JObj (bs_fills st)))"
  "map_of (state_checkpoint_fields st) ''ledger'' = Some (JArr (map JObj (bs_ledger st)))"
  "map_of (state_checkpoint_fields st) ''pending'' = Some (JArr (map pending_json (sort_key po_index (bs_pending st))))"
  "map_of (state_checkpoint_fields st) ''processed_actions'' = Some (JArr (map JStr (sort (bs_processed_actions st))))"
  "map_of (state_checkpoint_fields st) ''hold_weights'' = Some (decimals_json (bs_hold_weights st))"
  "map_of (state_checkpoint_fields st) ''hold_initialized'' = Some (JBool (bs_hold_initialized st))"
  "map_of (state_checkpoint_fields st) ''last_decision_date'' = Some (null_or (\<lambda>d. JStr (isoformat d)) (bs_last_decision_date st))"
  "map_of (state_checkpoint_fields st) ''last_nav'' = Some (JStr (decimal_string (bs_last_nav st)))"
  "map_of (state_checkpoint_fields st) ''benchmark_units'' = Some (null_or (\<lambda>v. JStr (decimal_string v)) (bs_benchmark_units st))"
  "map_of (state_checkpoint_fields st) ''benchmark_value_start''
     = Some (null_or (\<lambda>v. JStr (decimal_string v)) (bs_benchmark_value_start st))"
  "map_of (state_checkpoint_fields st) ''next_ledger_sequence'' = Some (JInt (bs_next_ledger_sequence st))"
  "map_of (state_checkpoint_fields st) ''total_fee_base'' = Some (JStr (decimal_string (bs_total_fee_base st)))"
  "map_of (state_checkpoint_fields st) ''total_spread_base'' = Some (JStr (decimal_string (bs_total_spread_base st)))"
  "map_of (state_checkpoint_fields st) ''total_slippage_base'' = Some (JStr (decimal_string (bs_total_slippage_base st)))"
  "map_of (state_checkpoint_fields st) ''total_tax_base'' = Some (JStr (decimal_string (bs_total_tax_base st)))"
  "map_of (state_checkpoint_fields st) ''total_gross_base'' = Some (JStr (decimal_string (bs_total_gross_base st)))"
  "map_of (state_checkpoint_fields st) ''cost_by_session''
     = Some (JObj (map (\<lambda>(d, v). (isoformat d, JStr (decimal_string v))) (sorted_items (bs_cost_by_session st))))"
  "map_of (state_checkpoint_fields st) ''rejected_trade_count'' = Some (JInt (bs_rejected_trade_count st))"
  "map_of (state_checkpoint_fields st) ''out_of_market_sessions'' = Some (JInt (bs_out_of_market_sessions st))"
  by (simp_all add: state_checkpoint_fields_def)

lemma state_fields_exact: "checkpoint_exact_fields (state_checkpoint_fields st) checkpoint_state_fields lab = Inr ()"
  by (simp add: checkpoint_exact_fields_def state_checkpoint_fields_def checkpoint_state_fields_def jkeys_def)

lemma restore_state_back:
  assumes "checkpointable st"
  shows "\<exists>st1. restore_state (state_checkpoint_fields st) = Inr st1 \<and> bs_ledger st1 = bs_ledger st
    \<and> bs_next_ledger_sequence st1 = bs_next_ledger_sequence st
    \<and> restore_totals (state_checkpoint_fields st) st1 = Inr (sorted_state st)"
proof -
  note ok = assms[unfolded checkpointable_def]
  have next1: "1 \<le> bs_next_ledger_sequence st" using ok by (simp add: numbered_def)
  have pend: "mapR restore_pending (enumerate 0 (map pending_json (sort_key po_index (bs_pending st)))) = Inr (sort_key po_index (bs_pending st))"
    using ok by (intro mapR_back_enumerate pending_back[of "length (bs_orders st)"]) auto
  have bounds: "\<forall>y \<in> set (sort_key po_index (bs_pending st)). po_index y < length (bs_orders st)"
    using ok by (auto simp: pending_ok_def)
  have reads: "checkpoint_decimal_map f (decimals_json (bs_cash st)) = Inr (sorted_items (bs_cash st))"
    "checkpoint_decimal_map f (decimals_json (bs_quantities st)) = Inr (sorted_items (bs_quantities st))"
    "checkpoint_decimal_map f (decimals_json (bs_hold_weights st)) = Inr (sorted_items (bs_hold_weights st))" for f
    using ok by (simp_all add: decimal_map_back)
  have reads2: "restore_currencies (JObj (map (\<lambda>(k, v). (k, JStr v)) (sorted_items (bs_security_currency st))))
      = Inr (sorted_items (bs_security_currency st))"
    "restore_processed (map JStr (sort (bs_processed_actions st))) = Inr (sort (bs_processed_actions st))"
    "restore_costs (JObj (map (\<lambda>(k, v). (isoformat k, JStr (decimal_string v))) (sorted_items (bs_cost_by_session st))))
      = Inr (sorted_items (bs_cost_by_session st))"
    using ok currencies_back[of "bs_security_currency st"] processed_back costs_back by blast+
  have opts: "checkpoint_optional (checkpoint_decimal f) (null_or (\<lambda>v. JStr (decimal_string v)) (bs_benchmark_units st)) = Inr (bs_benchmark_units st)"
    "checkpoint_optional (checkpoint_decimal f) (null_or (\<lambda>v. JStr (decimal_string v)) (bs_benchmark_value_start st)) = Inr (bs_benchmark_value_start st)"
    "checkpoint_optional (checkpoint_date m) (null_or (\<lambda>d. JStr (isoformat d)) (bs_last_decision_date st)) = Inr (bs_last_decision_date st)" for f m
    using ok by (simp_all add: optional_back optional_date_back)
  let ?st1 = "(initial_state (sorted_items (bs_cash st)))\<lparr>bs_quantities := sorted_items (bs_quantities st),
        bs_security_currency := sorted_items (bs_security_currency st), bs_orders := bs_orders st,
        bs_fills := bs_fills st, bs_ledger := bs_ledger st, bs_pending := sort_key po_index (bs_pending st),
        bs_processed_actions := sort (bs_processed_actions st), bs_hold_weights := sorted_items (bs_hold_weights st),
        bs_hold_initialized := bs_hold_initialized st,
        bs_last_decision_date := bs_last_decision_date st, bs_next_ledger_sequence := bs_next_ledger_sequence st,
        bs_cost_by_session := sorted_items (bs_cost_by_session st), bs_rejected_trade_count := bs_rejected_trade_count st,
        bs_out_of_market_sessions := bs_out_of_market_sessions st\<rparr>"
  have "restore_state (state_checkpoint_fields st) = Inr ?st1"
    using ok next1 bounds by (simp add: restore_state_def field_of_def jget_def state_fields_at reads reads2 opts pend rows_back checkpoint_list_def
        bindR_ensure state_count_def checkpoint_int_def not_less)
  moreover have "restore_totals (state_checkpoint_fields st) ?st1 = Inr (sorted_state st)"
    using ok by (simp add: restore_totals_def state_decimal_def field_of_def jget_def state_fields_at opts)
      (simp add: sorted_state_def initial_state_def)
  ultimately show ?thesis by simp
qed


section \<open>A written checkpoint is restored\<close>

text \<open>What the engine knows of its progress when it writes a checkpoint.\<close>

definition nav_rows_match :: "session list \<Rightarrow> nat \<Rightarrow> bt_progress \<Rightarrow> bool" where
  "nav_rows_match sessions n = (\<lambda>(st, nav_rows, _). 1 \<le> n \<and> n \<le> length sessions
     \<and> list_all2 (\<lambda>sess r. map_of r ''session_date'' = Some (JStr (isoformat (s_session_date sess)))) (take n sessions) nav_rows
     \<and> map_of (last nav_rows) ''nav'' = Some (JStr (decimal_string (bs_last_nav st))))"

lemma nav_rows_back:
  assumes "list_all2 (\<lambda>sess r. map_of r ''session_date'' = Some (JStr (isoformat (s_session_date sess)))) (take n sessions) rows"
  shows "mapR (nav_row_at path sessions) (enumerate 0 (map JObj rows)) = Inr rows"
proof -
  have "mapR (nav_row_at path sessions) (enumerate k (map JObj rs)) = Inr rs"
    if "\<forall>i < length rs. map_of (rs ! i) ''session_date'' = Some (JStr (isoformat (s_session_date (sessions ! (k + i)))))" for k rs
    using that
  proof (induction rs arbitrary: k)
    case (Cons r rs)
    from Cons.prems have "map_of r ''session_date'' = Some (JStr (isoformat (s_session_date (sessions ! k))))" by (auto dest: spec[of _ 0])
    moreover from Cons.prems have "mapR (nav_row_at path sessions) (enumerate (Suc k) (map JObj rs)) = Inr rs"
      by (intro Cons.IH) (auto dest: spec[of _ "Suc _"])
    ultimately show ?case by (simp add: nav_row_at_def)
  qed simp
  moreover have "\<forall>i < length rows. map_of (rows ! i) ''session_date'' = Some (JStr (isoformat (s_session_date (sessions ! i))))"
    using assms unfolding list_all2_conv_all_nth by (metis length_take min_less_iff_conj nth_take)
  ultimately show ?thesis by simp
qed

lemma numbered_sequences:
  assumes "numbered st"
  shows "\<exists>is. ledger_sequences (bs_ledger st) = Inr is \<and> (is = [] \<or> bs_next_ledger_sequence st = Max (set is) + 1)"
proof -
  let ?n = "length (bs_ledger st)" and ?is = "map (\<lambda>i. int i + 1) [0..<length (bs_ledger st)]"
  have at: "map_of (bs_ledger st ! i) ''sequence'' = Some (JInt (int i + 1))" if "i < ?n" for i
  proof -
    from assms have "map (\<lambda>r. map_of r ''sequence'') (bs_ledger st) ! i = map (\<lambda>i. Some (JInt (int i + 1))) [0..<?n] ! i"
      by (simp add: numbered_def)
    with that show ?thesis by simp
  qed
  have "ledger_sequences (bs_ledger st) = Inr ?is"
    unfolding ledger_sequences_def mapR_Inr_iff by (auto simp: list_all2_conv_all_nth at)
  moreover have "Max (set ?is) + 1 = bs_next_ledger_sequence st" if "?n \<noteq> 0"
  proof -
    from that obtain m where m: "?n = Suc m" by (cases ?n) auto
    have "Max (set ?is) = int ?n"
      unfolding m by (intro Max_eqI) (auto simp: image_iff)
    then show ?thesis using assms by (simp add: numbered_def)
  qed
  moreover have "?is = []" if "?n = 0" using that by simp
  ultimately show ?thesis by (cases "?n = 0") metis+
qed

lemma payload_back:
  assumes "is_sha256 (checkpoint_hash env (checkpoint_payload run n p))"
  shows "checkpoint_payload_of env path run (checkpoint_document env (checkpoint_payload run n p)) = Inr (checkpoint_payload run n p)"
proof -
  obtain st navs holds where p: "p = (st, navs, holds)" by (cases p)
  have "checkpoint_exact_fields (checkpoint_payload run n p) checkpoint_payload_fields lab = Inr ()" for lab
    by (simp add: checkpoint_exact_fields_def checkpoint_payload_def checkpoint_payload_fields_def jkeys_def p)
  moreover have "map_of (checkpoint_payload run n p) ''experiment_id'' = Some (JStr (ri_experiment_id run))"
    "map_of (checkpoint_payload run n p) ''experiment_sha256'' = Some (JStr (ri_experiment_sha256 run))"
    "map_of (checkpoint_payload run n p) ''input_fingerprint'' = Some (JStr (ri_input_fingerprint run))"
    "map_of (checkpoint_payload run n p) ''engine_version'' = Some (JStr engine_version)"
    by (simp_all add: checkpoint_payload_def p)
  ultimately show ?thesis using assms
    by (simp add: checkpoint_payload_of_def checkpoint_document_def checkpoint_exact_fields_def[of _ "[''schema_version'', ''checkpoint_sha256'', ''payload'']"]
        jkeys_def checkpoint_fields_def field_of_def jget_def bindR_ensure)
qed

lemma restore_back:
  assumes "is_sha256 (checkpoint_hash env (checkpoint_payload run n (st, nav_rows, holding_rows)))"
    and "checkpointable st" and "nav_rows_match sessions n (st, nav_rows, holding_rows)"
  shows "restore_checkpoint env path run sessions n (checkpoint_document env (checkpoint_payload run n (st, nav_rows, holding_rows)))
    = Inr ((sorted_state st, nav_rows, holding_rows), n)"
proof -
  let ?p = "checkpoint_payload run n (st, nav_rows, holding_rows)" and ?s = "state_checkpoint_fields st"
  from restore_state_back[OF assms(2)] obtain st1 where st1: "restore_state ?s = Inr st1" "bs_ledger st1 = bs_ledger st"
    "bs_next_ledger_sequence st1 = bs_next_ledger_sequence st" "restore_totals ?s st1 = Inr (sorted_state st)" by blast
  from assms(3) have n: "1 \<le> n" "n \<le> length sessions" "map_of (last nav_rows) ''nav'' = Some (JStr (decimal_string (bs_last_nav st)))"
    and rows: "list_all2 (\<lambda>sess r. map_of r ''session_date'' = Some (JStr (isoformat (s_session_date sess)))) (take n sessions) nav_rows"
    by (simp_all add: nav_rows_match_def)
  from rows n have l: "length nav_rows = n" by (auto dest: list_all2_lengthD)
  have nav: "is_decimal (bs_last_nav st)" "numbered st" using assms(2) by (simp_all add: checkpointable_def)
  from numbered_sequences[OF nav(2)] obtain js where seq: "ledger_sequences (bs_ledger st) = Inr js"
    "js = [] \<or> bs_next_ledger_sequence st = Max (set js) + 1" by blast
  have fields: "map_of ?p ''next_session_index'' = Some (JInt (int n))" "map_of ?p ''state'' = Some (JObj ?s)"
    "map_of ?p ''nav'' = Some (JArr (map JObj nav_rows))" "map_of ?p ''holdings'' = Some (JArr (map JObj holding_rows))"
    by (simp_all add: checkpoint_payload_def)
  have holds: "mapR (\<lambda>h. case h of JObj r \<Rightarrow> Inr r | _ \<Rightarrow> raise PyTypeError ''a holding row is not an object'') (map JObj holding_rows)
      = Inr holding_rows" by (intro mapR_back) simp
  show ?thesis
    using n l seq by (simp add: restore_checkpoint_def payload_back[OF assms(1)] field_of_def jget_def fields bindR_ensure
        state_fields_exact st1 checkpoint_list_def nav_rows_back[OF rows] nav state_decimal_def state_fields_at holds)
qed

section \<open>Every state of a run can be written\<close>

text \<open>The part of \<open>checkpointable\<close> that is not about orders.\<close>

definition books_ok :: "bt_state \<Rightarrow> bool" where
  "books_ok st \<longleftrightarrow> texts_ok (bs_cash st) \<and> texts_ok (bs_quantities st) \<and> texts_ok (bs_hold_weights st)
     \<and> distinct (map fst (bs_security_currency st)) \<and> (\<forall>(_, c) \<in> set (bs_security_currency st). c \<noteq> [])
     \<and> distinct (bs_processed_actions st) \<and> [] \<notin> set (bs_processed_actions st)
     \<and> (\<forall>d. bs_last_decision_date st = Some d \<longrightarrow> valid_date d) \<and> is_decimal (bs_last_nav st)
     \<and> optional_decimal_ok (bs_benchmark_units st) \<and> optional_decimal_ok (bs_benchmark_value_start st)
     \<and> is_decimal (bs_total_fee_base st) \<and> is_decimal (bs_total_spread_base st) \<and> is_decimal (bs_total_slippage_base st)
     \<and> is_decimal (bs_total_tax_base st) \<and> is_decimal (bs_total_gross_base st)
     \<and> distinct (map fst (bs_cost_by_session st))
     \<and> (\<forall>(d, v) \<in> set (bs_cost_by_session st). valid_date d \<and> is_decimal v)
     \<and> 0 \<le> bs_out_of_market_sessions st"

lemma dset_elems: "(k, v) \<in> set (dset k' v' d) \<Longrightarrow> (k, v) = (k', v') \<or> (k, v) \<in> set d"
  by (induction d) (auto split: if_splits)

lemma dset_all: "P k v \<Longrightarrow> (\<forall>(k, v) \<in> set d. P k v) \<Longrightarrow> \<forall>(k, v) \<in> set (dset k v d). P k v"
  using dset_elems by fast

lemma texts_dset: "texts_ok d \<Longrightarrow> k \<noteq> [] \<Longrightarrow> is_decimal v \<Longrightarrow> texts_ok (dset k v d)"
  unfolding texts_ok_def by (auto simp: distinct_dset dest!: dset_elems)

lemma books_frame [simp]:
  "books_ok (bt_ledger day event_at kind currency v w note s q p st) = books_ok st"
  "books_ok (st\<lparr>bs_orders := orders\<rparr>) = books_ok st" "books_ok (st\<lparr>bs_fills := fills\<rparr>) = books_ok st"
  "books_ok (st\<lparr>bs_pending := ys\<rparr>) = books_ok st" "books_ok (st\<lparr>bs_rejected_trade_count := n\<rparr>) = books_ok st"
  by (simp_all add: books_ok_def bt_ledger_def)

lemma books_updates [intro]:
  "books_ok st \<Longrightarrow> texts_ok c \<Longrightarrow> books_ok (st\<lparr>bs_cash := c\<rparr>)"
  "books_ok st \<Longrightarrow> texts_ok c \<Longrightarrow> books_ok (st\<lparr>bs_quantities := c\<rparr>)"
  "books_ok st \<Longrightarrow> valid_date d \<Longrightarrow> books_ok (st\<lparr>bs_last_decision_date := Some d\<rparr>)"
  "books_ok st \<Longrightarrow> texts_ok c \<Longrightarrow> books_ok (st\<lparr>bs_hold_weights := c, bs_hold_initialized := b\<rparr>)"
  by (simp_all add: books_ok_def)

lemma books_texts: "books_ok st \<Longrightarrow> texts_ok (bs_cash st)" "books_ok st \<Longrightarrow> texts_ok (bs_quantities st)"
  by (simp_all add: books_ok_def)

lemma books_currency: "books_ok st \<Longrightarrow> c \<noteq> [] \<Longrightarrow> books_ok (st\<lparr>bs_security_currency := dset s c (bs_security_currency st)\<rparr>)"
  unfolding books_ok_def by (auto simp: distinct_dset dest!: dset_elems)

lemma books_add_cash: "books_ok st \<Longrightarrow> currency \<noteq> [] \<Longrightarrow> books_ok (bt_add_cash currency v st)"
  unfolding bt_add_cash_def by (intro books_updates texts_dset books_texts) simp_all

lemma books_set_quantity: "books_ok st \<Longrightarrow> s \<noteq> [] \<Longrightarrow> is_decimal q \<Longrightarrow> books_ok (bt_set_quantity s q st)"
  unfolding bt_set_quantity_def by (intro books_updates texts_dset books_texts) simp_all

lemma books_processed: "books_ok st \<Longrightarrow> a_id a \<noteq> [] \<Longrightarrow> books_ok (bt_processed a st)"
  by (auto simp: books_ok_def bt_processed_def)

lemma uuid_text_nonempty: "is_uuid s \<Longrightarrow> s \<noteq> []"
  by (auto simp: is_uuid_def)

lemma currency_nonempty: "is_currency c \<Longrightarrow> c \<noteq> []"
  by (auto simp: is_currency_def)

lemma price_names:
  assumes "wf_inputs inp" and "bt_price_row inp s d t = Some row"
  shows "s \<noteq> []" and "p_currency row \<noteq> []"
proof -
  from price_row_mem[of inp s d t row] assms have "row \<in> set (i_prices inp)" "p_security_id row = s"
    by (simp_all add: bt_price_row_eq)
  with assms(1) show "s \<noteq> []" "p_currency row \<noteq> []"
    by (auto simp: wf_inputs_def list_all_iff price_row_ok_def dest!: uuid_text_nonempty currency_nonempty)
qed

lemma known_currency_books:
  assumes "bt_known_currency inp sess a st = Inr st'" and "books_ok st" and "wf_inputs inp" and "action_ok a"
  shows "books_ok st'"
proof -
  have "a_currency a \<noteq> []" using assms(4) by (auto simp: action_ok_def dest!: currency_nonempty)
  with assms(1,2) price_names(2)[OF assms(3)] show ?thesis
    unfolding bt_known_currency_def Let_def by (auto split: option.splits if_splits intro!: books_currency)
qed

lemma action_effect_books:
  assumes "bt_action_effect ratio_text spec inp sess a quantity st = Inr st'" and "books_ok st" and "action_ok a"
  shows "books_ok st'"
proof -
  have n: "a_currency a \<noteq> []" "a_security_id a \<noteq> []"
    using assms(3) by (auto simp: action_ok_def dest!: currency_nonempty uuid_text_nonempty)
  from assms(1,2) show ?thesis
    unfolding bt_action_effect_def Let_def
    by (cases "a_action_type a") (auto split: option.splits elim!: bindR_InrE
        intro!: books_set_quantity books_add_cash n)
qed

lemma apply_actions_books:
  assumes "wf_inputs inp" and "bt_apply_actions ratio_text spec inp sess st = Inr st'" and "books_ok st"
  shows "books_ok st'"
proof (rule foldR_invariant[OF assms(2)[unfolded bt_apply_actions_def], where P = books_ok])
  fix s a t
  assume "a \<in> set (bt_action_events inp (s_session_date sess))" and s: "books_ok s"
    and t: "bt_apply_action ratio_text spec inp sess s a = Inr t"
  then have a: "action_ok a" using assms(1) by (auto simp: bt_action_events_def wf_inputs_def list_all_iff)
  then have "a_id a \<noteq> []" by (auto simp: action_ok_def dest!: uuid_text_nonempty)
  with t s a show "books_ok t" unfolding bt_apply_action_def Let_def
    by (auto split: if_splits elim!: bindR_InrE intro!: books_processed
        intro: action_effect_books known_currency_books assms(1))
qed (rule assms(3))

section \<open>Executions, marks and decisions\<close>

lemma books_totals: "books_ok st \<Longrightarrow> valid_date day \<Longrightarrow> books_ok (bt_add_totals day a b c d e st)"
  unfolding books_ok_def bt_add_totals_def by (auto simp: distinct_dset dest!: dset_elems)

lemma is_decimal_max: "is_decimal a \<Longrightarrow> is_decimal b \<Longrightarrow> is_decimal (max a b)"
  by (simp add: max_def)

lemma books_settle:
  assumes "books_ok st" and "po_security_id y \<noteq> []" and "po_currency y \<noteq> []"
  shows "books_ok (bt_settle_fill y q v c t st)"
  using assms unfolding bt_settle_fill_def Let_def
  by (auto intro!: books_set_quantity books_updates texts_dset books_texts is_decimal_max)

lemma reject_books: "bt_reject_order spec sess y reason st = Inr st' \<Longrightarrow> books_ok st \<Longrightarrow> books_ok st'"
  unfolding bt_reject_order_def by (auto simp: bt_update_order_Inr Let_def elim!: bindR_InrE split: if_splits)

lemma fund_books:
  assumes "bt_fund_trade_currency spec inp sess currency v st = Inr (b, st')" and "books_ok st"
    and "currency \<noteq> []" and "ex_base_currency spec \<noteq> []"
  shows "books_ok st'"
  using assms unfolding bt_fund_trade_currency_def Let_def
  by (auto split: if_splits elim!: bindR_InrE intro!: books_updates texts_dset books_texts)

lemma fill_books:
  assumes "bt_record_fill env spec inp sess y row q st = Inr st'" and "books_ok st"
    and "po_security_id y \<noteq> []" and "po_currency y \<noteq> []" and "valid_date (s_session_date sess)"
  shows "books_ok st'"
proof -
  obtain fp tn co sp sl tx where t: "bt_fill_terms spec row (po_side y) q = (fp, tn, co, sp, sl, tx)"
    by (cases "bt_fill_terms spec row (po_side y) q")
  from assms(1) books_settle[OF assms(2-4)] assms(5) show ?thesis unfolding bt_record_fill_def t Let_def prod.case
    by (elim bindR_InrE) (auto simp: bt_update_order_Inr intro!: books_totals)
qed

lemma execute_order_books:
  assumes "bt_execute_order env spec inp sess st y = Inr st'" and "books_ok st" and "wf_inputs inp"
    and "ex_base_currency spec \<noteq> []" and "valid_date (s_session_date sess)"
  shows "books_ok st'"
proof (cases "\<exists>reason. bt_reject_order spec sess y reason st = Inr st'")
  case True
  with reject_books assms(2) show ?thesis by blast
next
  case False
  with execute_order_parts[OF assms(1)] obtain row q st1 where
    s: "st1 = st \<or> (\<exists>v. bt_fund_trade_currency spec inp sess (po_currency y) v st = Inr (True, st1))"
    and f: "bt_record_fill env spec inp sess y row q st1 = Inr st'" and c: "p_currency row = po_currency y"
    and r: "bt_price_row inp (po_security_id y) (s_session_date sess) (s_open_at sess) = Some row"
    by blast
  from price_names[OF assms(3) r] c have n: "po_security_id y \<noteq> []" "po_currency y \<noteq> []" by simp_all
  from s fund_books[OF _ assms(2) n(2) assms(4)] assms(2) have "books_ok st1" by auto
  from fill_books[OF f this n assms(5)] show ?thesis .
qed

lemma execute_orders_books:
  assumes "bt_execute_orders env spec inp sess st = Inr st'" and "books_ok st" and "wf_inputs inp"
    and "ex_base_currency spec \<noteq> []" and "valid_date (s_session_date sess)"
  shows "books_ok st'"
proof (rule foldR_invariant[OF assms(1)[unfolded bt_execute_orders_def Let_def], where P = books_ok])
  fix s y t
  assume "books_ok s" and "bt_execute_order env spec inp sess s y = Inr t"
  then show "books_ok t" using execute_order_books assms(3-5) by blast
qed (use assms(2) in simp)

lemma mark_step_books:
  assumes "bt_mark_step spec inp sess cash_value acc h = Inr acc'" and "wf_inputs inp" and "books_ok (snd (snd acc))"
  shows "books_ok (snd (snd acc'))"
  using assms(1,3) price_names(2)[OF assms(2)] unfolding bt_mark_step_def Let_def
  by (cases acc; cases h) (auto split: if_splits option.splits elim!: bindR_InrE intro!: books_currency)

lemma convert_decimal: "bt_convert inp v a b t = Inr q \<Longrightarrow> is_decimal q"
  unfolding bt_convert_def by (auto elim!: bindR_InrE)

lemma benchmark_books:
  assumes "bt_benchmark spec inp sess st = Inr (v, st')" and "books_ok st"
  shows "books_ok st'"
  using assms unfolding bt_benchmark_def
  by (auto split: option.splits if_splits elim!: bindR_InrE
      simp: ddiv_Inr_iff books_ok_def optional_decimal_ok_def dest: convert_decimal)

lemma mark_books:
  assumes "bt_mark spec inp sess st = Inr (nav_row, holdings, st')" and "wf_inputs inp" and "books_ok st"
  shows "books_ok st'" and "map_of nav_row ''nav'' = Some (JStr (decimal_string (bs_last_nav st')))"
proof -
  from assms(1) obtain cash_value total rows st1 bn st2 nav p exposure reporting where
      f: "foldR (bt_mark_step spec inp sess cash_value) (0, [], st) (sorted_items (bs_quantities st)) = Inr (total, rows, st1)"
    and nav: "nav = dadd prec cash_value total"
    and b: "bt_benchmark spec inp sess st1 = Inr (bn, st2)"
    and r: "nav_row = bt_nav_row sess p (filter (\<lambda>(_, v). v \<noteq> 0) (sorted_items (bs_cash st))) cash_value total nav exposure bn reporting"
    and e: "st' = (bt_ledger (s_session_date sess) (s_close_at sess) ''mark'' (ex_base_currency spec) total total ''close mark''
            None None None st2)\<lparr>bs_last_nav := nav,
          bs_out_of_market_sessions := bs_out_of_market_sessions st2 + (if total = 0 then 1 else 0)\<rparr>"
    by (rule mark_parts)
  show "map_of nav_row ''nav'' = Some (JStr (decimal_string (bs_last_nav st')))" by (simp add: r e bt_nav_row_def)
  have "books_ok (snd (snd (total, rows, st1)))"
    by (rule foldR_invariant[OF f, where P = "\<lambda>a. books_ok (snd (snd a))"])
      (use assms(3) in \<open>auto intro: mark_step_books[OF _ assms(2)]\<close>)
  with benchmark_books[OF b] have "books_ok st2" by simp
  then have "books_ok (bt_ledger (s_session_date sess) (s_close_at sess) ''mark'' (ex_base_currency spec) total total ''close mark''
            None None None st2)" by simp
  then show "books_ok st'" unfolding e nav by (simp add: books_ok_def)
qed

lemma active_names:
  assumes "bt_active_members spec inp sess = Inr active" and "wf_inputs inp"
  shows "[] \<notin> set active"
proof
  assume "[] \<in> set active"
  with assms(1) obtain states where m: "mapR (\<lambda>security_id.
        bindR (bt_membership_state inp security_id (s_session_date sess) (s_close_at sess)) (\<lambda>st.
        case st of
          None \<Rightarrow> raise BacktestMissingDataError (''historical membership is unavailable for ''
                    @ security_id @ '' on '' @ isoformat (s_session_date sess))
        | Some member \<Rightarrow>
            Inr (security_id, member \<and> bt_price_row inp security_id (s_session_date sess) (s_close_at sess) \<noteq> None)))
       (un_security_ids (ex_universe spec)) = Inr states" and "([], True) \<in> set states"
    unfolding bt_active_members_def by (auto elim!: bindR_InrE)
  from mapR_memD[OF this] have "bt_price_row inp [] (s_session_date sess) (s_close_at sess) \<noteq> None"
    by (auto elim!: bindR_InrE split: option.splits)
  with price_names(1)[OF assms(2)] show False by blast
qed

lemma texts_weights: "[] \<notin> set ids \<Longrightarrow> distinct ids \<Longrightarrow> is_decimal w \<Longrightarrow> texts_ok (map (\<lambda>s. (s, w)) ids)"
  by (auto simp: texts_ok_def comp_def)

lemma signal_books:
  assumes "bt_signal spec inp sessions k st active due = Inr (ts, st')" and "books_ok st" and "[] \<notin> set active"
  shows "books_ok st'"
  using assms unfolding bt_signal_def Let_def
  by (auto split: if_splits elim!: bindR_InrE intro!: books_updates texts_weights)

lemma target_weights_books:
  assumes "bt_target_weights spec inp sessions k st = Inr (ts, st')" and "books_ok st" and "wf_inputs inp"
    and "valid_date (s_session_date (sessions ! k))"
  shows "books_ok st'"
proof -
  have sess: "session_at sessions k = Inr v \<Longrightarrow> valid_date (s_session_date v)" for v
    using assms(4) by (auto simp: session_at_def split: if_splits)
  have signal: "bt_active_members spec inp v = Inr act \<Longrightarrow> bt_signal spec inp sessions k st act due = Inr (w, b) \<Longrightarrow> books_ok b"
    for v act due w b using signal_books[OF _ assms(2)] active_names[OF _ assms(3)] by blast
  from assms(1) show ?thesis unfolding bt_target_weights_def Let_def
    by (elim bindR_InrE) (auto elim!: bindR_InrE intro!: books_updates(3) sess intro: signal)
qed

text \<open>A pending order that a checkpoint can hold.\<close>

definition pending_writable :: "pending_order \<Rightarrow> bool" where
  "pending_writable y \<longleftrightarrow> is_decimal (po_quantity y) \<and> valid_date (po_execution_date y)"

lemma order_quantity_books:
  assumes "bt_order_quantity spec inp st s w sess = Inr (qs, st')" and "books_ok st" and "wf_inputs inp"
  shows "books_ok st'" and "qs = Some (q, side) \<Longrightarrow> is_decimal q"
  using assms(1,2) price_names(2)[OF assms(3)] unfolding bt_order_quantity_def Let_def
  by (auto split: option.splits if_splits elim!: bindR_InrE intro!: books_currency)

lemma propose_books:
  assumes "bt_propose_order env spec inp sess d targets st k = Inr st'" and "books_ok st" and "wf_inputs inp" and "valid_date d"
    and "\<forall>y \<in> set (bs_pending st). pending_writable y"
  shows "books_ok st' \<and> (\<forall>y \<in> set (bs_pending st'). pending_writable y)"
proof -
  obtain ordinal s where k: "k = (ordinal, s)" by (cases k)
  from propose_parts[OF assms(1)[unfolded k]] obtain qs st1
    where q: "bt_order_quantity spec inp st s (dget targets s 0) sess = Inr (qs, st1)"
    and more: "case qs of None \<Rightarrow> st' = st1
      | Some (quantity, side) \<Rightarrow> \<exists>row oid reason. st' = proposed_state sess d s targets st1 side quantity row oid reason" by blast
  note b = order_quantity_books[OF q assms(2,3)]
  have pend: "bs_pending st1 = bs_pending st" using order_quantity_facts(1)[OF q] by (simp add: same_book_def)
  show ?thesis
  proof (cases qs)
    case None
    with more b(1) pend assms(5) show ?thesis by simp
  next
    case (Some x)
    obtain quantity side where x: "x = (quantity, side)" by (cases x)
    with b(2) Some have "is_decimal quantity" by simp
    with more Some x b(1) pend assms(4,5) show ?thesis
      by (auto simp: proposed_state_def pending_writable_def)
  qed
qed

lemma decide_books:
  assumes "bt_decide env spec inp sessions k st = Inr st'" and "books_ok st" and "wf_inputs inp" and "bs_pending st = []"
    and "\<forall>s \<in> set sessions. valid_date (s_session_date s)"
  shows "books_ok st' \<and> (\<forall>y \<in> set (bs_pending st'). pending_writable y)"
proof (cases "k + 1 < length sessions")
  case False
  with assms show ?thesis by (simp add: bt_decide_def)
next
  case True
  with assms(5) have v: "valid_date (s_session_date (sessions ! k))" "valid_date (s_session_date (sessions ! (k + 1)))" by simp_all
  from assms(1) True obtain ts st1 cs where w: "bt_target_weights spec inp sessions k st = Inr (ts, st1)"
    and f: "foldR (bt_propose_order env spec inp (sessions ! k) (s_session_date (sessions ! (k + 1))) ts) st1 cs = Inr st'"
    unfolding bt_decide_def Let_def by (auto elim!: bindR_InrE)
  have "bs_pending st1 = []" using target_weights_book[OF w] assms(4) by (simp add: same_book_def)
  with target_weights_books[OF w assms(2,3) v(1)] show ?thesis
    by (intro foldR_invariant[OF f, where P = "\<lambda>s. books_ok s \<and> (\<forall>y \<in> set (bs_pending s). pending_writable y)"])
      (simp, use propose_books assms(3) v(2) in blast)
qed

section \<open>Sessions\<close>

text \<open>What holds after the first \<open>n\<close> sessions, over \<open>progress_ok\<close>.\<close>

definition resumable :: "experiment_spec \<Rightarrow> session list \<Rightarrow> nat \<Rightarrow> bt_progress \<Rightarrow> bool" where
  "resumable spec sessions n p \<longleftrightarrow> progress_ok spec sessions n p \<and> books_ok (fst p)
     \<and> (\<forall>y \<in> set (bs_pending (fst p)). pending_writable y)
     \<and> (0 < n \<longrightarrow> map_of (last (fst (snd p))) ''nav'' = Some (JStr (decimal_string (bs_last_nav (fst p)))))"

lemma decide_nav: "bt_decide env spec inp sessions k st = Inr st' \<Longrightarrow> bs_last_nav st' = bs_last_nav st"
proof -
  assume d: "bt_decide env spec inp sessions k st = Inr st'"
  have signal: "bs_last_nav b = bs_last_nav a" if "bt_signal spec inp sessions k a act due = Inr (ts, b)" for a b act due ts
    using that unfolding bt_signal_def Let_def by (auto split: if_splits elim!: bindR_InrE)
  have targets: "bs_last_nav b = bs_last_nav a" if "bt_target_weights spec inp sessions k a = Inr (ts, b)" for a b ts
    using that unfolding bt_target_weights_def Let_def by (auto elim!: bindR_InrE dest: signal)
  have quantity: "bs_last_nav b = bs_last_nav a" if "bt_order_quantity spec inp a s w sess = Inr (qs, b)" for a b s w sess qs
    using that unfolding bt_order_quantity_def Let_def by (auto split: option.splits if_splits elim!: bindR_InrE)
  have propose: "bs_last_nav b = bs_last_nav a" if "bt_propose_order env spec inp sess day ts a x = Inr b" for a b x sess day ts
    using propose_parts[of env spec inp sess day ts a "fst x" "snd x" b] that quantity
    by (auto simp: proposed_state_def split: option.splits prod.splits)
  show ?thesis
  proof (cases "k + 1 < length sessions")
    case True
    from d True obtain ts st1 cs where w: "bt_target_weights spec inp sessions k st = Inr (ts, st1)"
      and f: "foldR (bt_propose_order env spec inp (sessions ! k) (s_session_date (sessions ! (k + 1))) ts) st1 cs = Inr st'"
      unfolding bt_decide_def Let_def by (auto elim!: bindR_InrE)
    show ?thesis
      by (rule foldR_invariant[OF f, where P = "\<lambda>s. bs_last_nav s = bs_last_nav st"]) (use targets[OF w] propose in auto)
  qed (use d in \<open>simp add: bt_decide_def\<close>)
qed

lemma session_resumable:
  assumes "experiment_ok spec" and "wf_inputs inp" and "\<forall>s \<in> set sessions. valid_date (s_session_date s)"
    and "resumable spec sessions n p" and "bt_session env ratio_text spec inp sessions p n = Inr p'"
  shows "resumable spec sessions (Suc n) p'"
proof -
  obtain st nav_rows holding_rows where p: "p = (st, nav_rows, holding_rows)" by (cases p)
  from assms(5) obtain sess st1 st2 nav_row holdings st3 st4 where
      s: "session_at sessions n = Inr sess"
    and a: "bt_apply_actions ratio_text spec inp sess st = Inr st1" and x: "bt_execute_orders env spec inp sess st1 = Inr st2"
    and m: "bt_mark spec inp sess st2 = Inr (nav_row, holdings, st3)" and d: "bt_decide env spec inp sessions n st3 = Inr st4"
    and p': "p' = (st4, nav_rows @ [nav_row], holding_rows @ holdings)"
    unfolding p bt_session_def by (auto elim!: bindR_InrE)
  from s have n: "n < length sessions" and sess: "sess = sessions ! n"
    by (auto simp: session_at_def split: if_splits)
  with assms(3) have v: "valid_date (s_session_date sess)" by simp
  have base: "ex_base_currency spec \<noteq> []" using assms(1) by (auto simp: experiment_ok_def dest!: currency_nonempty)
  from assms(4) have ok: "progress_ok spec sessions n p" "books_ok st" by (simp_all add: resumable_def p)
  note b1 = apply_actions_books[OF assms(2) a ok(2)]
  note b2 = execute_orders_books[OF x b1 assms(2) base v]
  note b3 = mark_books[OF m assms(2) b2]
  have "settled (bs_pending st) st" "\<forall>y \<in> set (bs_pending st). po_execution_date y = s_session_date sess"
    using ok(1) by (auto simp: progress_ok_def p sess)
  moreover have sb: "same_book st st1" by (rule apply_actions_book[OF assms(2) a])
  moreover from sb have "bs_pending st1 = bs_pending st" by (simp add: same_book_def)
  ultimately have "bs_pending st2 = []"
    using execute_orders_settled[OF assms(1,2) _ _ x] settled_book[OF sb] by auto
  with mark_book[OF m] have "bs_pending st3 = []" by (simp add: same_book_def)
  from decide_books[OF d b3(1) assms(2) this assms(3)] decide_nav[OF d] b3(2)
    session_progress[OF assms(1,2) ok(1) assms(5)]
  show ?thesis by (simp add: resumable_def p')
qed

lemma sessions_resumable:
  assumes "experiment_ok spec" and "wf_inputs inp" and "\<forall>s \<in> set sessions. valid_date (s_session_date s)"
    and "resumable spec sessions k p" and "foldR (bt_session env ratio_text spec inp sessions) p [k..<n] = Inr p'" and "k \<le> n"
  shows "resumable spec sessions n p'"
  using assms(5,6)
proof (induction n arbitrary: p')
  case 0
  with assms(4) show ?case by simp
next
  case (Suc n)
  show ?case
  proof (cases "k = Suc n")
    case True
    with Suc.prems assms(4) show ?thesis by simp
  next
    case False
    with Suc.prems have "k \<le> n" by simp
    with Suc.prems(1) obtain q where "foldR (bt_session env ratio_text spec inp sessions) p [k..<n] = Inr q"
      and q: "bt_session env ratio_text spec inp sessions q n = Inr p'"
      by (auto simp: foldR_append elim!: bindR_InrE)
    with Suc.IH \<open>k \<le> n\<close> have "resumable spec sessions n q" by blast
    from session_resumable[OF assms(1-3) this q] show ?thesis .
  qed
qed

lemma start_resumable:
  assumes "experiment_ok spec"
  shows "resumable spec sessions 0 (bt_start spec sess, [], [])"
proof -
  have "ex_base_currency spec \<noteq> []" using assms by (auto simp: experiment_ok_def dest!: currency_nonempty)
  moreover have "is_decimal (dec_text s)" for s by (auto simp: dec_text_def parse_signed_decimal split: option.splits)
  ultimately have "books_ok (bt_start spec sess)"
    by (simp add: bt_start_def Let_def) (simp add: books_ok_def initial_state_def texts_ok_def optional_decimal_ok_def)
  then show ?thesis using start_progress[of spec sessions sess]
    by (simp add: resumable_def bt_start_def Let_def initial_state_def)
qed

lemma resumable_checkpoint:
  assumes "resumable spec sessions n (st, nav_rows, holding_rows)" and "n \<le> length sessions"
  shows "checkpointable st" and "0 < n \<Longrightarrow> nav_rows_match sessions n (st, nav_rows, holding_rows)"
proof -
  from assms(1) have p: "progress_ok spec sessions n (st, nav_rows, holding_rows)" "books_ok st"
    "\<forall>y \<in> set (bs_pending st). pending_writable y" by (simp_all add: resumable_def)
  have "pending_ok (length (bs_orders st)) y" if y: "y \<in> set (bs_pending st)" for y
  proof -
    from p(1) have "booked (bs_pending st) st" by (simp add: progress_ok_def settled_def)
    then obtain closed open_rows where o: "bs_orders st = closed @ open_rows" "list_all2 proposed_for (bs_pending st) open_rows"
      "map po_index (bs_pending st) = [length closed..<length closed + length open_rows]" by (auto simp: booked_def)
    from o(3) y have "po_index y \<in> set [length closed..<length closed + length open_rows]" by (metis image_eqI set_map)
    moreover from o(2) y have "po_side y \<in> {''buy'', ''sell''}"
      by (auto simp: in_set_conv_nth proposed_for_def dest: list_all2_nthD)
    ultimately show ?thesis using p(3) y o(1) by (auto simp: pending_ok_def pending_writable_def)
  qed
  moreover have "0 \<le> bs_rejected_trade_count st" "numbered st"
    using p(1) by (auto simp: progress_ok_def settled_def booked_def)
  ultimately show "checkpointable st" using p(2) by (simp add: checkpointable_def books_ok_def)
  assume "0 < n"
  moreover have "list_all2 (\<lambda>sess r. map_of r ''session_date'' = Some (JStr (isoformat (s_session_date sess)))) (take n sessions) nav_rows"
    using p(1) by (auto simp: progress_ok_def nav_row_ok_def elim!: list_all2_mono)
  ultimately show "nav_rows_match sessions n (st, nav_rows, holding_rows)"
    using assms by (simp add: nav_rows_match_def resumable_def)
qed

text \<open>
  (C37) Every state between two sessions of a run survives its checkpoint: the document that is written after the
  first \<open>n\<close> sessions passes every check of the restoration and gives the same NAV rows, holding rows, orders,
  fills, ledger and totals, with the dictionaries sorted.
\<close>

theorem checkpoint_roundtrip:
  assumes "experiment_ok spec" and "wf_inputs inp" and "\<forall>s \<in> set sessions. valid_date (s_session_date s)"
    and "foldR (bt_session env ratio_text spec inp sessions) (bt_start spec first_session, [], []) [0..<n] = Inr (st, nav_rows, holding_rows)"
    and "0 < n" and "is_sha256 (checkpoint_hash env (checkpoint_payload run n (st, nav_rows, holding_rows)))"
  shows "restore_checkpoint env path run sessions n (checkpoint_document env (checkpoint_payload run n (st, nav_rows, holding_rows)))
    = Inr ((sorted_state st, nav_rows, holding_rows), n)"
proof -
  have n: "n \<le> length sessions" using sessions_progress[OF assms(1,2) start_progress assms(4)] by simp
  from sessions_resumable[OF assms(1-3) start_resumable[OF assms(1)] assms(4)]
  have "resumable spec sessions n (st, nav_rows, holding_rows)" by simp
  from resumable_checkpoint[OF this n] restore_back[OF assms(6)] assms(5) show ?thesis by simp
qed

end
