(* ===== verification/Example_Backtest.thy ===== *)
theory Example_Backtest
  imports Example_Experiment Example_Decision Backtest_Restore Backtest_Simulate
begin

text \<open>
  A run of the simulation over the two example sessions: equal weights are decided at the first close and bought
  at the second open. The theorems on experiments and on the simulation are applied to it.
\<close>

section \<open>The experiment is valid and can be published\<close>

abbreviation bt_inputs :: inputs where "bt_inputs \<equiv> Example_Inputs.ex_inputs"

lemma exp_sections: "normalize_sections (identity_fields ex_experiment @ [(''experiment_id'', JStr (ex_experiment_id ex_experiment))])
    = Inr (ex_experiment\<lparr>ex_experiment_id := []\<rparr>)"
proof -
  have "exp_decision (JObj [(''name'', JStr ''after_close_next_session_open''), (''frequency'', JStr ''daily''),
      (''signal_delay_sessions'', JInt 1), (''execution_price'', JStr ''open'')]) = Inr (JInt 1)"
    by (simp add: exp_decision_def exp_read equals_one_def insert_commute)
  moreover have "exp_benchmark (JObj [(''security_id'', JStr (ex_benchmark_security_id ex_experiment)),
      (''currency'', JStr (ex_benchmark_currency ex_experiment))])
      = Inr (ex_benchmark_security_id ex_experiment, ex_benchmark_currency ex_experiment)"
    by (simp add: exp_benchmark_def ex_experiment_def exp_read insert_commute)
  moreover have "ex_signal_delay ex_experiment = JInt 1" "ex_missing_data_policy ex_experiment = ''reject_trade''"
    "ex_walk_forward_windows ex_experiment = []" "ex_random_seed ex_experiment = None"
    by (simp_all add: ex_experiment_def)
  ultimately show ?thesis
    using exp_period exp_inputs_read exp_strategy_read exp_universe_read exp_policies exp_partitions_read
    by (simp add: normalize_sections_def identity_fields_def field_of_def jget_def exp_windows_def exp_seed_def null_or_def
        dget_def exp_choice_def member_of_def bindR_ensure exp_optional_def)
qed

lemma exp_normal: "normalize_experiment_spec exp_env True (experiment_json ex_experiment) = Inr ex_experiment"
proof -
  have "experiment_identity exp_env e = art_id CHR ''f''" for e by (simp add: experiment_identity_def exp_env_def)
  moreover have "ex_experiment_id ex_experiment = art_id CHR ''f''" by (simp add: ex_experiment_def)
  moreover have "exp_uuid f (JStr (art_id CHR ''f'')) = Inr (art_id CHR ''f'')" for f by (simp add: exp_uuid_def exp_text_def)
  ultimately show ?thesis using exp_sections
    by (simp add: normalize_experiment_spec_def experiment_json_def jkeys_def identity_fields_def experiment_fields_def
        optional_fields_def bindR_ensure)
qed

lemma exp_ok: "experiment_ok ex_experiment"
  using normalize_sections_ok[OF exp_sections] by (simp add: experiment_ok_def)
section \<open>The theorems on experiments\<close>

lemma experiment_normal_form_witness:
  "validate_experiment_spec exp_env (experiment_json ex_experiment) = Inr ex_experiment \<and> experiment_ok ex_experiment
    \<and> ex_experiment_id ex_experiment = experiment_identity exp_env ex_experiment"
  by (rule experiment_normal_form[OF exp_normal]) (simp add: ex_experiment_def)

lemma exp_valid: "validate_experiment_spec exp_env (experiment_json ex_experiment) = Inr ex_experiment"
  by (simp add: validate_experiment_spec_def exp_normal)

lemma experiment_store_roundtrip_witness:
  "\<exists>path files' h. write_experiment_spec exp_env (experiment_json ex_experiment) [] = (Inr path, files')
    \<and> experiment_sha256 exp_env (experiment_json ex_experiment) = Inr h
    \<and> read_experiment_spec exp_env path files' = Inr (ex_experiment, h)"
proof -
  have w: "write_experiment_spec exp_env (experiment_json ex_experiment) []
      = (Inr (spec_path (ex_experiment_id ex_experiment)),
         [(spec_path (ex_experiment_id ex_experiment), experiment_json ex_experiment)])"
    by (simp add: write_experiment_spec_def exp_valid Let_def)
  from experiment_store_roundtrip[OF w] exp_valid show ?thesis using w by auto
qed

section \<open>The first session\<close>

lemma bt_arith: "dmul 80 1000 1 = 1000" "dmul 80 100 1 = 100" "dmul 80 500 1 = 500" "dmul 80 0 1 = 0" "dmul 80 550 1 = 550"
    "dmul 80 450 1 = 450" "dmul 80 110 1 = 110"
    "dsum 28 [1000] = 1000" "dadd 28 1000 0 = 1000" "dquot 28 1000 100 = 10" "dmul 28 100 10 = 1000" "dquot 28 0 1000 = 0"
    "dmul 28 1000 (1 / 2) = 500" "dquot 28 500 100 = 5" "dquot 28 500 50 = 10" "dsum 28 [1 / 2, 1 / 2] = 1"
    "round_down 5 = 5" "round_down 10 = 10" "dsub 28 5 0 = 5" "dsub 28 10 0 = 10" "dabs 28 5 = 5" "dabs 28 10 = 10"
    "dmul 28 100 5 = 500" "dmul 28 50 10 = 500" "dmul 28 500 0 = 0" "dquot 28 0 10000 = 0" "dquot 28 0 20000 = 0"
    "dadd 28 0 0 = 0" "dadd 28 1 0 = 1" "dmul 28 1 0 = 0" "dmul 28 100 1 = 100" "dmul 28 50 1 = 50" "dadd 28 500 0 = 500"
    "dsub 28 500 1000 = -500" "dsub 28 500 500 = 0" "dsub 28 1000 500 = 500" "dadd 28 0 5 = 5" "dadd 28 0 10 = 10"
    "dmul 28 1000 1 = 1000" "dsub 28 0 500 = -500"
    "dmul 28 5 110 = 550" "dmul 28 10 45 = 450" "dadd 28 0 550 = 550" "dadd 28 550 450 = 1000" "dadd 28 0 1000 = 1000"
    "dquot 28 1000 1000 = 1" "dquot 28 550 1000 = 11 / 20" "dquot 28 450 1000 = 9 / 20" "dquot 28 550 550 = 1"
    "dmul 28 110 10 = 1100" "dsum 28 [] = 0"
  by code_simp+

lemma bt_print: "decimal_string 550 = ''550''" "decimal_string 450 = ''450''" "decimal_string 500 = ''500''"
  by (simp_all add: print_eval)

lemma bt_prices [simp]:
    "bt_price_row bt_inputs sec_a day1 (at_close day1) = Some (ex_price sec_a day1 99 101 98 100)"
    "bt_price_row bt_inputs sec_b day1 (at_close day1) = Some (ex_price sec_b day1 50 52 49 50)"
    "bt_price_row bt_inputs sec_a day2 (at_open day2) = Some (ex_price sec_a day2 100 112 100 110)"
    "bt_price_row bt_inputs sec_b day2 (at_open day2) = Some (ex_price sec_b day2 50 50 44 45)"
    "bt_price_row bt_inputs sec_a day2 (at_close day2) = Some (ex_price sec_a day2 100 112 100 110)"
    "bt_price_row bt_inputs sec_b day2 (at_close day2) = Some (ex_price sec_b day2 50 50 44 45)"
  by (simp_all add: bt_price_row_def Example_Inputs.ex_inputs_def ex_rows less_imp_le)

lemma bt_members [simp]:
  "s \<in> {sec_a, sec_b} \<Longrightarrow> bt_membership_state bt_inputs s day1 (at_close day1) = Inr (Some True)"
  by (auto simp: bt_membership_state_def Example_Inputs.ex_inputs_def ex_membership_def ex_member_def)

lemma bt_fixture [simp]: "s_session_date (ex_session d) = d" "s_open_at (ex_session d) = at_open d"
    "s_close_at (ex_session d) = at_close d" "i_corporate_actions bt_inputs = []"
    "p_close (ex_price s d op hi lo cl) = cl" "p_open (ex_price s d op hi lo cl) = op" "p_currency (ex_price s d op hi lo cl) = ''USD''"
    "p_volume (ex_price s d op hi lo cl) = 1000" "p_has_volume (ex_price s d op hi lo cl)"
  by (simp_all add: ex_session_def Example_Inputs.ex_inputs_def ex_price_def)

lemma exp_fixture [simp]: "ex_base_currency ex_experiment = ''USD''" "dec_text (ba_initial_cash (ex_accounting_policy ex_experiment)) = 1000"
    "ba_reporting_currency (ex_accounting_policy ex_experiment) = None" "\<not> ba_fractional_shares (ex_accounting_policy ex_experiment)"
    "st_name (ex_strategy ex_experiment) = ''equal_weight''" "ex_benchmark_security_id ex_experiment = sec_a"
    "un_security_ids (ex_universe ex_experiment) = [sec_a, sec_b]" "ex_missing_data_policy ex_experiment = ''reject_trade''"
    "dec_text (br_max_position_weight (ex_risk_policy ex_experiment)) = 1" "dec_text (br_max_gross_exposure (ex_risk_policy ex_experiment)) = 1"
    "dec_text (br_max_participation (ex_risk_policy ex_experiment)) = 1"
    "dec_text (cp_commission_bps (ex_cost_policy ex_experiment)) = 0" "dec_text (cp_fixed_fee (ex_cost_policy ex_experiment)) = 0"
    "dec_text (cp_minimum_fee (ex_cost_policy ex_experiment)) = 0" "dec_text (cp_spread_bps (ex_cost_policy ex_experiment)) = 0"
    "dec_text (cp_slippage_bps (ex_cost_policy ex_experiment)) = 0" "dec_text (cp_tax_bps (ex_cost_policy ex_experiment)) = 0"
  by (simp_all add: ex_experiment_def dec_text_def parse_signed_def)

lemma bt_same_currency [simp]: "bt_convert inp v c c t = Inr (dmul wide v 1)"
  by (simp add: bt_convert_def bt_fx_rate_def)

lemma bt_years: "zfield 4 2024 = ''2024''" "zfield 2 (Suc 0) = ''01''" "zfield 2 2 = ''02''" "zfield 2 3 = ''03''"
  by (simp_all add: zfield_def pad_def nat_string_eval digit_char_eval nat_string.simps[of 2024] nat_string.simps[of 202]
      nat_string.simps[of 20])

lemma bt_partitions: "\<exists>p. bt_date_partition ex_experiment day1 = Inr p" "\<exists>p. bt_date_partition ex_experiment day2 = Inr p"
  by (simp_all add: bt_date_partition_def ex_experiment_def ex_part_def isoformat_def day1_def day2_def bt_years)

lemma bt_day1_mark:
  "\<exists>row st. bt_mark ex_experiment bt_inputs (ex_session day1) (bt_start ex_experiment (ex_session day1)) = Inr (row, [], st)
    \<and> bs_cash st = [(''USD'', 1000)] \<and> bs_quantities st = [] \<and> bs_orders st = [] \<and> bs_pending st = [] \<and> bs_last_nav st = 1000
    \<and> bs_last_decision_date st = None \<and> bs_benchmark_value_start st = Some 100 \<and> bs_benchmark_units st = Some 10
    \<and> bs_fills st = []"
  using bt_partitions(1)
  by (auto simp: bt_mark_def bt_start_def initial_state_def bt_ledger_def sorted_items_def Let_def bt_benchmark_def
      bt_arith ddiv_def)

lemma bt_day1_targets:
  assumes "bs_quantities st = []" and "bs_last_decision_date st = None"
  shows "bt_target_weights ex_experiment bt_inputs ex_sessions 0 st
    = Inr ([(sec_a, 1 / 2), (sec_b, 1 / 2)], st\<lparr>bs_last_decision_date := Some day1\<rparr>)"
proof -
  have "bt_active_members ex_experiment bt_inputs (ex_session day1) = Inr [sec_a, sec_b]"
    by (simp add: bt_active_members_def)
  moreover have "baseline_targets ''equal_weight'' [sec_a, sec_b] None None None = Inr [(sec_a, 1 / 2), (sec_b, 1 / 2)]"
    by (simp add: baseline_targets_def equal_weight_targets_def Let_def ex_arith sorted_set_def)
  moreover have "session_at ex_sessions 0 = Inr (ex_session day1)" by (simp add: session_at_def ex_sessions_def)
  moreover have "bt_check_limits ex_experiment [(sec_a, 1 / 2), (sec_b, 1 / 2)] = Inr ()"
    by (simp add: bt_check_limits_def bindR_ensure bt_arith)
  ultimately show ?thesis
    by (simp add: bt_target_weights_def bt_signal_def bt_rebalance_due_def assms Let_def sorted_set_def)
qed

lemma bt_day1_decide:
  assumes "bs_quantities st = []" "bs_last_decision_date st = None" "bs_last_nav st = 1000" "bs_orders st = []" "bs_pending st = []"
  shows "\<exists>st' r1 r2. bt_decide exp_env ex_experiment bt_inputs ex_sessions 0 st = Inr st'
    \<and> bs_orders st' = [r1, r2] \<and> map_of r1 ''order_id'' = Some (JStr (art_id CHR ''f''))
    \<and> map_of r2 ''order_id'' = Some (JStr (art_id CHR ''f''))
    \<and> bs_pending st' = [\<lparr>po_index = 0, po_security_id = sec_a, po_side = ''buy'', po_quantity = 5,
           po_execution_date = day2, po_currency = ''USD''\<rparr>,
         \<lparr>po_index = 1, po_security_id = sec_b, po_side = ''buy'', po_quantity = 10,
           po_execution_date = day2, po_currency = ''USD''\<rparr>]
    \<and> bs_cash st' = bs_cash st \<and> bs_quantities st' = [] \<and> bs_fills st' = bs_fills st
    \<and> bs_benchmark_value_start st' = bs_benchmark_value_start st \<and> bs_benchmark_units st' = bs_benchmark_units st"
proof -
  have s: "ex_sessions ! 0 = ex_session day1" "ex_sessions ! Suc 0 = ex_session day2" "length ex_sessions = 2"
    by (simp_all add: ex_sessions_def)
  have i: "bt_order_identity exp_env spec sess x n = art_id CHR ''f''" for spec sess x n
    by (simp add: bt_order_identity_def exp_env_def)
  show ?thesis
    by (simp add: bt_decide_def s bt_day1_targets[OF assms(1,2)] sorted_set_def assms bt_propose_order_def
        bt_order_quantity_def Let_def i bt_ledger_def bt_order_row_def bt_arith ddiv_def dget_def)
qed

lemma bt_day1_session:
  "\<exists>row st r1 r2. bt_session exp_env (\<lambda>_. []) ex_experiment bt_inputs ex_sessions
      (bt_start ex_experiment (ex_session day1), [], []) 0 = Inr (st, [row], [])
    \<and> bs_orders st = [r1, r2] \<and> map_of r1 ''order_id'' = Some (JStr (art_id CHR ''f''))
    \<and> map_of r2 ''order_id'' = Some (JStr (art_id CHR ''f''))
    \<and> bs_pending st = [\<lparr>po_index = 0, po_security_id = sec_a, po_side = ''buy'', po_quantity = 5,
           po_execution_date = day2, po_currency = ''USD''\<rparr>,
         \<lparr>po_index = 1, po_security_id = sec_b, po_side = ''buy'', po_quantity = 10,
           po_execution_date = day2, po_currency = ''USD''\<rparr>]
    \<and> bs_cash st = [(''USD'', 1000)] \<and> bs_quantities st = [] \<and> bs_fills st = []
    \<and> bs_benchmark_value_start st = Some 100 \<and> bs_benchmark_units st = Some 10"
proof -
  obtain row st where m: "bt_mark ex_experiment bt_inputs (ex_session day1) (bt_start ex_experiment (ex_session day1)) = Inr (row, [], st)"
    and st: "bs_cash st = [(''USD'', 1000)]" "bs_quantities st = []" "bs_orders st = []" "bs_pending st = []" "bs_last_nav st = 1000"
      "bs_last_decision_date st = None" "bs_benchmark_value_start st = Some 100" "bs_benchmark_units st = Some 10" "bs_fills st = []"
    using bt_day1_mark by blast
  have s: "session_at ex_sessions 0 = Inr (ex_session day1)" by (simp add: session_at_def ex_sessions_def)
  have a: "bt_apply_actions (\<lambda>_. []) ex_experiment bt_inputs (ex_session day1) x = Inr x" for x
    by (simp add: bt_apply_actions_def bt_action_events_def)
  have e: "bt_execute_orders exp_env ex_experiment bt_inputs (ex_session day1) (bt_start ex_experiment (ex_session day1))
      = Inr (bt_start ex_experiment (ex_session day1))"
    by (simp add: bt_execute_orders_def bt_start_def initial_state_def bt_ledger_def Let_def)
  show ?thesis
    using bt_day1_decide[OF st(2,6,5,3,4)] by (auto simp: bt_session_def s a e m st)
qed

section \<open>The second session\<close>

abbreviation order_a :: pending_order where
  "order_a \<equiv> \<lparr>po_index = 0, po_security_id = sec_a, po_side = ''buy'', po_quantity = 5, po_execution_date = day2, po_currency = ''USD''\<rparr>"

abbreviation order_b :: pending_order where
  "order_b \<equiv> \<lparr>po_index = 1, po_security_id = sec_b, po_side = ''buy'', po_quantity = 10, po_execution_date = day2, po_currency = ''USD''\<rparr>"

lemma bt_terms: "bt_fill_terms ex_experiment (ex_price sec_a day2 100 112 100 110) ''buy'' 5 = (100, 500, 0, 0, 0, 0)"
    "bt_fill_terms ex_experiment (ex_price sec_b day2 50 50 44 45) ''buy'' 10 = (50, 500, 0, 0, 0, 0)"
    "bt_buy_cost ex_experiment (ex_price sec_a day2 100 112 100 110) 5 = 500"
    "bt_buy_cost ex_experiment (ex_price sec_b day2 50 50 44 45) 10 = 500"
  by (simp_all add: bt_buy_cost_def bt_fill_terms_def bt_costs_def bt_fill_price_def Let_def bt_arith)

lemma bt_fill_a:
  assumes "bs_cash st = [(''USD'', 1000)]" "bs_quantities st = []" "bs_orders st = [r1, r2]"
    and "map_of r1 ''order_id'' = Some (JStr (art_id CHR ''f''))"
  shows "\<exists>st' f r1'. bt_execute_order exp_env ex_experiment bt_inputs (ex_session day2) st order_a = Inr st'
    \<and> bs_cash st' = [(''USD'', 500)] \<and> bs_quantities st' = [(sec_a, 5)] \<and> bs_orders st' = [r1', r2] \<and> bs_fills st' = bs_fills st @ [f]
    \<and> bs_benchmark_value_start st' = bs_benchmark_value_start st \<and> bs_benchmark_units st' = bs_benchmark_units st
    \<and> bs_pending st' = bs_pending st"
  by (simp add: bt_execute_order_def bt_fillable_def bt_terms Let_def assms bt_available_cash_def bt_fund_trade_currency_def
      bt_record_fill_def bt_update_order_def bt_order_id_def jget_def bt_settle_fill_def bt_set_quantity_def bt_add_totals_def
      bt_arith dget_def bt_ledger_def)

lemma bt_fill_b:
  assumes "bs_cash st = [(''USD'', 500)]" "bs_quantities st = [(sec_a, 5)]" "bs_orders st = [r1, r2]"
    and "map_of r2 ''order_id'' = Some (JStr (art_id CHR ''f''))"
  shows "\<exists>st' f r2'. bt_execute_order exp_env ex_experiment bt_inputs (ex_session day2) st order_b = Inr st'
    \<and> bs_cash st' = [(''USD'', 0)] \<and> bs_quantities st' = [(sec_a, 5), (sec_b, 10)] \<and> bs_orders st' = [r1, r2']
    \<and> bs_fills st' = bs_fills st @ [f]
    \<and> bs_benchmark_value_start st' = bs_benchmark_value_start st \<and> bs_benchmark_units st' = bs_benchmark_units st
    \<and> bs_pending st' = bs_pending st"
  by (simp add: bt_execute_order_def bt_fillable_def bt_terms Let_def assms bt_available_cash_def bt_fund_trade_currency_def
      bt_record_fill_def bt_update_order_def bt_order_id_def jget_def bt_settle_fill_def bt_set_quantity_def bt_add_totals_def
      bt_arith dget_def bt_ledger_def)

lemma bt_values: "dec_text ''550'' = 550" "dec_text ''450'' = 450"
  by (simp_all add: dec_text_def parse_signed_def parse_unsigned_def Let_def is_digit_def nat_of_digits_def digit_val_def)

lemma bt_day2_mark:
  assumes "bs_cash st = [(''USD'', 0)]" "bs_quantities st = [(sec_a, 5), (sec_b, 10)]"
    and "bs_benchmark_value_start st = Some 100" "bs_benchmark_units st = Some 10"
  shows "\<exists>row st' hs. bt_mark ex_experiment bt_inputs (ex_session day2) st = Inr (row, hs, st')
    \<and> bs_fills st' = bs_fills st \<and> bs_orders st' = bs_orders st \<and> bs_quantities st' = bs_quantities st \<and> bs_last_nav st' = 1000"
  using bt_partitions(2)
  by (auto simp: bt_mark_def assms sorted_items_def Let_def bt_benchmark_def bt_mark_step_def bt_reweigh_def bt_holding_row_def
      jget_def bt_print bt_values bt_arith ddiv_def)

lemma bt_example_run:
  "\<exists>st navs hs. bt_run exp_env (\<lambda>_. []) ex_experiment bt_inputs ex_sessions = Inr (st, navs, hs)
    \<and> length (bs_fills st) = 2 \<and> bs_quantities st = [(sec_a, 5), (sec_b, 10)] \<and> bs_last_nav st = 1000"
proof -
  obtain row st r1 r2 where one: "bt_session exp_env (\<lambda>_. []) ex_experiment bt_inputs ex_sessions
      (bt_start ex_experiment (ex_session day1), [], []) 0 = Inr (st, [row], [])"
    and st: "bs_orders st = [r1, r2]" "map_of r1 ''order_id'' = Some (JStr (art_id CHR ''f''))"
      "map_of r2 ''order_id'' = Some (JStr (art_id CHR ''f''))" "bs_pending st = [order_a, order_b]"
      "bs_cash st = [(''USD'', 1000)]" "bs_quantities st = []" "bs_fills st = []"
      "bs_benchmark_value_start st = Some 100" "bs_benchmark_units st = Some 10"
    using bt_day1_session by blast
  let ?st = "st\<lparr>bs_pending := []\<rparr>"
  obtain sa fa ra where a: "bt_execute_order exp_env ex_experiment bt_inputs (ex_session day2) ?st order_a = Inr sa"
    and sa: "bs_cash sa = [(''USD'', 500)]" "bs_quantities sa = [(sec_a, 5)]" "bs_orders sa = [ra, r2]" "bs_fills sa = [fa]"
      "bs_benchmark_value_start sa = Some 100" "bs_benchmark_units sa = Some 10"
    using bt_fill_a[of ?st r1 r2] st by auto
  obtain sb fb rb where b: "bt_execute_order exp_env ex_experiment bt_inputs (ex_session day2) sa order_b = Inr sb"
    and sb: "bs_cash sb = [(''USD'', 0)]" "bs_quantities sb = [(sec_a, 5), (sec_b, 10)]" "bs_fills sb = [fa, fb]"
      "bs_benchmark_value_start sb = Some 100" "bs_benchmark_units sb = Some 10"
    using bt_fill_b[OF sa(1-3) st(3)] sa by auto
  obtain row2 sm hs where m: "bt_mark ex_experiment bt_inputs (ex_session day2) sb = Inr (row2, hs, sm)"
    and sm: "bs_fills sm = [fa, fb]" "bs_quantities sm = [(sec_a, 5), (sec_b, 10)]" "bs_last_nav sm = 1000"
    using bt_day2_mark[OF sb(1,2,4,5)] sb by auto
  have acts: "bt_apply_actions (\<lambda>_. []) ex_experiment bt_inputs (ex_session day2) x = Inr x" for x
    by (simp add: bt_apply_actions_def bt_action_events_def)
  have orders: "bt_execute_orders exp_env ex_experiment bt_inputs (ex_session day2) st = Inr sb"
    using b by (simp add: bt_execute_orders_def st a)
  have s: "session_at ex_sessions (Suc 0) = Inr (ex_session day2)" "length ex_sessions = 2" "session_at ex_sessions 0 = Inr (ex_session day1)"
    by (simp_all add: session_at_def ex_sessions_def)
  have two: "bt_session exp_env (\<lambda>_. []) ex_experiment bt_inputs ex_sessions (st, [row], []) (Suc 0) = Inr (sm, [row, row2], hs)"
    by (simp add: bt_session_def s acts orders m bt_decide_def)
  show ?thesis using one two sm by (simp add: bt_run_def s numeral_2_eq_2)
qed

section \<open>The theorems on the simulation\<close>

text \<open>
  The first session on the second data set: the delisting that is not published yet concerns nothing that is held,
  so its id is kept and the session goes on.
\<close>

lemma later_day1_session:
  "\<exists>row st. bt_session exp_env (\<lambda>_. []) ex_experiment later_inputs ex_sessions
      (bt_start ex_experiment (ex_session day1), [], []) 0 = Inr (st, [row], [])"
proof -
  let ?start = "bt_start ex_experiment (ex_session day1)" and ?X = "art_id CHR ''d''"
  have p: "passed (at_close day1) bt_inputs (ex_session day1)" "passed (at_close day1) later_inputs (ex_session day1)"
    "passed (at_close day1) bt_inputs (ex_sessions ! 0)" "passed (at_close day1) later_inputs (ex_sessions ! 0)"
    using wf_unique_prices[OF ex_wf] wf_unique_prices[OF later_wf] by (simp_all add: passed_def ex_sessions_def less_imp_le)
  have start: "bs_processed_actions ?start = []" "bs_quantities ?start = []" "bs_pending ?start = []"
    by (simp_all add: bt_start_def initial_state_def bt_ledger_def Let_def)
  have acts: "bt_apply_actions (\<lambda>_. []) ex_experiment later_inputs (ex_session day1) ?start = Inr (bt_processed later_action ?start)"
    by (simp add: bt_apply_actions_def bt_action_events_def later_inputs_def later_action_def bt_apply_action_def start dget_def
        less_le_not_le)
  have m: "\<exists>row st. bt_mark ex_experiment later_inputs (ex_session day1) (bt_processed later_action ?start) = Inr (row, [], st)
      \<and> bs_quantities st = [] \<and> bs_last_decision_date st = None \<and> bs_last_nav st = 1000 \<and> bs_orders st = [] \<and> bs_pending st = []"
    unfolding mark_visible[OF p(2), symmetric] later_visible[symmetric] mark_visible[OF p(1)]
    using bt_partitions(1)
    by (auto simp: bt_mark_def bt_start_def bt_processed_def initial_state_def bt_ledger_def sorted_items_def Let_def
        bt_benchmark_def bt_arith ddiv_def)
  then obtain row st where m: "bt_mark ex_experiment later_inputs (ex_session day1) (bt_processed later_action ?start) = Inr (row, [], st)"
    and st: "bs_quantities st = []" "bs_last_decision_date st = None" "bs_last_nav st = 1000" "bs_orders st = []" "bs_pending st = []"
    by blast
  have e: "bt_execute_orders exp_env ex_experiment later_inputs (ex_session day1) (bt_processed later_action ?start)
      = Inr (bt_processed later_action ?start)"
    by (simp add: bt_execute_orders_def bt_start_def initial_state_def bt_ledger_def bt_processed_def Let_def)
  have "\<exists>st'. bt_decide exp_env ex_experiment later_inputs ex_sessions 0 st = Inr st'"
    unfolding decide_visible[OF p(4), symmetric] later_visible[symmetric] decide_visible[OF p(3)]
    using bt_day1_decide[OF st] by blast
  moreover have "session_at ex_sessions 0 = Inr (ex_session day1)" by (simp add: session_at_def ex_sessions_def)
  ultimately show ?thesis by (auto simp: bt_session_def acts e m)
qed

text \<open>
  Both runs of the first day go through and give the same, up to the id of the delisting: the prices of the second day
  and the delisting have no influence.
\<close>

lemma backtest_no_lookahead_witness:
  "load_input_artifacts later_root [''current_research_only'', ''backtest_safe'']
       [''prices'', ''calendar'', ''membership''] ex_bases later_refs = Inr later_inputs
    \<and> i_prices later_inputs \<noteq> i_prices bt_inputs
    \<and> unpublished (at_close day1) later_inputs = {art_id CHR ''d''}
    \<and> (\<exists>p q. foldR (bt_session exp_env (\<lambda>_. []) ex_experiment bt_inputs ex_sessions)
          (bt_start ex_experiment (ex_session day1), [], []) [0..<1] = Inr p
        \<and> foldR (bt_session exp_env (\<lambda>_. []) ex_experiment later_inputs ex_sessions)
          (bt_start ex_experiment (ex_session day1), [], []) [0..<1] = Inr q
        \<and> snd p = snd q \<and> same_but_actions {art_id CHR ''d''} (fst p) (fst q))"
proof -
  let ?run = "\<lambda>inp. foldR (bt_session exp_env (\<lambda>_. []) ex_experiment inp ex_sessions)
    (bt_start ex_experiment (ex_session day1), [], []) [0..<1]"
  obtain p where p: "?run bt_inputs = Inr p" using bt_day1_session by auto
  obtain q where q: "?run later_inputs = Inr q" using later_day1_session by auto
  have a: "at_close day1 < a_available_at later_action" "a_id later_action = art_id CHR ''d''"
    "set (i_corporate_actions later_inputs) = {later_action}" by (simp_all add: later_action_def later_inputs_def)
  then have e: "{a \<in> set (i_corporate_actions later_inputs). at_close day1 < a_available_at a} = {later_action}" by blast
  have u: "unpublished (at_close day1) bt_inputs = {}" by (simp add: unpublished_def)
  have v: "unpublished (at_close day1) later_inputs = {art_id CHR ''d''}"
    unfolding unpublished_def e by (simp only: image_insert image_empty a(2))
  have "\<forall>sess \<in> set (take 1 ex_sessions). s_open_at sess \<le> at_close day1 \<and> s_close_at sess \<le> at_close day1"
    by (simp add: ex_sessions_def)
  from backtest_no_lookahead[OF ex_wf later_wf later_visible this, of exp_env "\<lambda>_. []" ex_experiment
      "(bt_start ex_experiment (ex_session day1), [], [])", unfolded p q u v]
  have "snd p = snd q \<and> same_but_actions {art_id CHR ''d''} (fst p) (fst q)" by (cases p; cases q) auto
  with p q v later_load later_differs(1) show ?thesis by blast
qed

lemma affordable_quantity_bounds_witness:
  "bt_max_affordable_quantity ex_experiment (ex_price sec_a day2 100 112 100 110) 5 499 \<le> 5
    \<and> bt_max_affordable_quantity ex_experiment (ex_price sec_a day2 100 112 100 110) 5 499 \<in> \<int>"
  using affordable_quantity_bounds[OF exp_ok, of "ex_price sec_a day2 100 112 100 110" 5 499] by (simp add: bt_terms)

lemma execution_within_limits_witness:
  "\<exists>st st'. bt_execute_order exp_env ex_experiment bt_inputs (ex_session day2) st order_a = Inr st' \<and> \<not> rejects order_a st st'
    \<and> (\<exists>q fill. fills_order order_a q fill st st' \<and> q \<le> 5)"
proof -
  let ?st = "(initial_state [(''USD'', 1000)])\<lparr>bs_orders := [[(''order_id'', JStr (art_id CHR ''f''))], []]\<rparr>"
  obtain st' f where e: "bt_execute_order exp_env ex_experiment bt_inputs (ex_session day2) ?st order_a = Inr st'"
    and f: "bs_fills st' = bs_fills ?st @ [f]"
    using bt_fill_a[of ?st] by (auto simp: initial_state_def)
  have n: "\<not> rejects order_a ?st st'" using f by (simp add: rejects_def)
  have "0 < po_quantity order_a" by simp
  from execution_within_limits[OF exp_ok ex_wf this e] n obtain row q fill where
    "fill_within ex_experiment bt_inputs (ex_session day2) order_a row ?st q" "fills_order order_a q fill ?st st'" by blast
  then have "fills_order order_a q fill ?st st' \<and> q \<le> 5" by (simp add: fill_within_def)
  with e n show ?thesis by blast
qed

lemma backtest_orders_closed_witness:
  "\<exists>st navs hs. bt_run exp_env (\<lambda>_. []) ex_experiment bt_inputs ex_sessions = Inr (st, navs, hs) \<and> bs_pending st = []
    \<and> length (filter (\<lambda>r. order_status r ''filled'') (bs_orders st)) = 2"
proof -
  obtain st navs hs where r: "bt_run exp_env (\<lambda>_. []) ex_experiment bt_inputs ex_sessions = Inr (st, navs, hs)"
    and f: "length (bs_fills st) = 2" using bt_example_run by blast
  from backtest_orders_closed[OF exp_ok ex_wf r] r f show ?thesis by (metis list_all2_lengthD)
qed

lemma backtest_run_invariant_witness:
  "\<exists>st navs hs. bt_run exp_env (\<lambda>_. []) ex_experiment bt_inputs ex_sessions = Inr (st, navs, hs)
    \<and> length navs = 2 \<and> numbered st \<and> holdings_ok st"
proof -
  obtain st navs hs where r: "bt_run exp_env (\<lambda>_. []) ex_experiment bt_inputs ex_sessions = Inr (st, navs, hs)"
    using bt_example_run by blast
  from backtest_run_invariant[OF exp_ok ex_wf r] have "list_all2 (nav_row_ok ex_experiment) ex_sessions navs"
    and c: "numbered st" "holdings_ok st" by simp_all
  from list_all2_lengthD[OF this(1)] have "length navs = 2" by (simp add: ex_sessions_def)
  with r c show ?thesis by blast
qed

lemma checkpoint_roundtrip_witness:
  "\<exists>p run. foldR (bt_session exp_env (\<lambda>_. []) ex_experiment bt_inputs ex_sessions)
      (bt_start ex_experiment (ex_session day1), [], []) [0..<1] = Inr p
    \<and> restore_checkpoint exp_env ''checkpoint-000001.json'' run ex_sessions 1
        (checkpoint_document exp_env (checkpoint_payload run 1 p)) = Inr ((sorted_state (fst p), snd p), 1)"
proof -
  obtain row st where one: "bt_session exp_env (\<lambda>_. []) ex_experiment bt_inputs ex_sessions
      (bt_start ex_experiment (ex_session day1), [], []) 0 = Inr (st, [row], [])"
    using bt_day1_session by blast
  then have f: "foldR (bt_session exp_env (\<lambda>_. []) ex_experiment bt_inputs ex_sessions)
      (bt_start ex_experiment (ex_session day1), [], []) [0..<1] = Inr (st, [row], [])" by simp
  have d: "\<forall>s \<in> set ex_sessions. valid_date (s_session_date s)" by (simp add: ex_sessions_def)
  have h: "is_sha256 (checkpoint_hash exp_env x)" for x
    by (simp add: checkpoint_hash_def exp_env_def ex_env_def ex_strings)
  from checkpoint_roundtrip[OF exp_ok ex_wf d f _ h] f show ?thesis by force
qed

end
