(* ===== verification/Backtest_Resume.thy ===== *)
theory Backtest_Resume
  imports Backtest_Restore Backtest_Simulate Backtest_Relation
begin

text \<open>
  A restored state has the entries of its dictionaries in another order than the state that was written. For
  strategies that rebalance every session no result depends on that order: a run that is interrupted and resumed
  gives what the uninterrupted run gives.
\<close>

section \<open>Dictionaries and states up to order\<close>

definition same_dict :: "('k, 'v) dict \<Rightarrow> ('k, 'v) dict \<Rightarrow> bool" where
  "same_dict d d' \<longleftrightarrow> map_of d = map_of d' \<and> distinct (map fst d) \<and> distinct (map fst d')"

lemma same_dict_get: "same_dict d d' \<Longrightarrow> dget d' k v = dget d k v"
  by (simp add: same_dict_def dget_def)

lemma same_dict_set: "same_dict d d' \<Longrightarrow> same_dict (dset k v d) (dset k v d')"
  by (simp add: same_dict_def distinct_dset)

lemma same_dict_member: "same_dict d d' \<Longrightarrow> (k, v) \<in> set d' \<longleftrightarrow> (k, v) \<in> set d"
  unfolding same_dict_def by (metis map_of_eq_Some_iff)

lemma same_dict_items: "same_dict d d' \<Longrightarrow> set d' = set d"
  by (rule set_eqI) (simp add: split_paired_all same_dict_member del: split_paired_All)

lemma same_dict_mset: "same_dict d d' \<Longrightarrow> mset d' = mset d"
  using same_dict_items[of d d'] unfolding same_dict_def
  by (metis distinct_map set_eq_iff_mset_eq_distinct)

lemma same_dict_sorted:
  assumes "same_dict d d'"
  shows "sorted_items d' = sorted_items d"
  unfolding sorted_items_def
proof (rule sort_key_inj_key_eq)
  show "mset d' = mset (sort_key fst d)" using same_dict_mset[OF assms] by simp
  show "inj_on fst (set d')" using assms by (simp only: same_dict_def distinct_map)
qed simp

lemma sorted_items_same: "distinct (map fst d) \<Longrightarrow> same_dict d (sorted_items d)"
  using distinct_sorted_items[of d] map_of_inject_set[of d "sorted_items d"] by (simp add: same_dict_def)

definition same_state :: "bt_state \<Rightarrow> bt_state \<Rightarrow> bool" where
  "same_state st st' \<longleftrightarrow> same_dict (bs_cash st) (bs_cash st') \<and> same_dict (bs_quantities st) (bs_quantities st')
     \<and> same_dict (bs_security_currency st) (bs_security_currency st')
     \<and> same_dict (bs_cost_by_session st) (bs_cost_by_session st')
     \<and> set (bs_processed_actions st') = set (bs_processed_actions st)
     \<and> bs_orders st' = bs_orders st \<and> bs_fills st' = bs_fills st \<and> bs_ledger st' = bs_ledger st
     \<and> bs_pending st' = bs_pending st \<and> bs_hold_initialized st' = bs_hold_initialized st
     \<and> bs_last_decision_date st' = bs_last_decision_date st \<and> bs_last_nav st' = bs_last_nav st
     \<and> bs_benchmark_units st' = bs_benchmark_units st \<and> bs_benchmark_value_start st' = bs_benchmark_value_start st
     \<and> bs_next_ledger_sequence st' = bs_next_ledger_sequence st \<and> bs_total_fee_base st' = bs_total_fee_base st
     \<and> bs_total_spread_base st' = bs_total_spread_base st \<and> bs_total_slippage_base st' = bs_total_slippage_base st
     \<and> bs_total_tax_base st' = bs_total_tax_base st \<and> bs_total_gross_base st' = bs_total_gross_base st
     \<and> bs_rejected_trade_count st' = bs_rejected_trade_count st
     \<and> bs_out_of_market_sessions st' = bs_out_of_market_sessions st"

text \<open>What an operation reads of two such states, and the writes that keep them alike.\<close>

lemma same_reads:
  assumes "same_state st st'"
  shows "dget (bs_cash st') k v = dget (bs_cash st) k v" "dget (bs_quantities st') k v = dget (bs_quantities st) k v"
    "map_of (bs_security_currency st') k = map_of (bs_security_currency st) k"
    "set (bs_quantities st') = set (bs_quantities st)" "sorted_items (bs_cash st') = sorted_items (bs_cash st)"
    "sorted_items (bs_quantities st') = sorted_items (bs_quantities st)"
    "dget (bs_cost_by_session st') day v = dget (bs_cost_by_session st) day v"
    "set (bs_processed_actions st') = set (bs_processed_actions st)"
    "bs_orders st' = bs_orders st" "bs_fills st' = bs_fills st" "bs_ledger st' = bs_ledger st" "bs_pending st' = bs_pending st"
    "bs_last_decision_date st' = bs_last_decision_date st" "bs_last_nav st' = bs_last_nav st"
    "bs_benchmark_units st' = bs_benchmark_units st" "bs_benchmark_value_start st' = bs_benchmark_value_start st"
    "bs_rejected_trade_count st' = bs_rejected_trade_count st" "bs_out_of_market_sessions st' = bs_out_of_market_sessions st"
    "bs_total_fee_base st' = bs_total_fee_base st" "bs_total_spread_base st' = bs_total_spread_base st"
    "bs_total_slippage_base st' = bs_total_slippage_base st" "bs_total_tax_base st' = bs_total_tax_base st"
    "bs_total_gross_base st' = bs_total_gross_base st" "bs_hold_initialized st' = bs_hold_initialized st"
  using assms by (simp_all add: same_state_def same_dict_get same_dict_items same_dict_sorted) (simp add: same_dict_def)

lemma same_writes [intro]:
  assumes "same_state st st'"
  shows "same_state (bt_ledger d t e c v w n so qo pr st) (bt_ledger d t e c v w n so qo pr st')"
    "same_state (bt_add_cash c v st) (bt_add_cash c v st')"
    "same_state (bt_set_quantity s x st) (bt_set_quantity s x st')"
    "same_state (bt_processed a st) (bt_processed a st')"
    "same_state (st\<lparr>bs_security_currency := dset s c (bs_security_currency st)\<rparr>)
       (st'\<lparr>bs_security_currency := dset s c (bs_security_currency st')\<rparr>)"
    "same_state (st\<lparr>bs_cash := dset c v (bs_cash st)\<rparr>) (st'\<lparr>bs_cash := dset c v (bs_cash st')\<rparr>)"
    "same_state (st\<lparr>bs_cash := dset c v (dset e w (bs_cash st))\<rparr>) (st'\<lparr>bs_cash := dset c v (dset e w (bs_cash st'))\<rparr>)"
    "same_state (st\<lparr>bs_orders := rows\<rparr>) (st'\<lparr>bs_orders := rows\<rparr>)"
    "same_state (st\<lparr>bs_fills := rows\<rparr>) (st'\<lparr>bs_fills := rows\<rparr>)"
    "same_state (st\<lparr>bs_pending := ys\<rparr>) (st'\<lparr>bs_pending := ys\<rparr>)"
    "same_state (st\<lparr>bs_rejected_trade_count := k\<rparr>) (st'\<lparr>bs_rejected_trade_count := k\<rparr>)"
    "same_state (st\<lparr>bs_last_decision_date := day\<rparr>) (st'\<lparr>bs_last_decision_date := day\<rparr>)"
    "same_state (st\<lparr>bs_benchmark_value_start := u, bs_benchmark_units := v'\<rparr>)
       (st'\<lparr>bs_benchmark_value_start := u, bs_benchmark_units := v'\<rparr>)"
    "same_state (st\<lparr>bs_last_nav := x, bs_out_of_market_sessions := k\<rparr>) (st'\<lparr>bs_last_nav := x, bs_out_of_market_sessions := k\<rparr>)"
    "same_state (bt_add_totals d x1 x2 x3 x4 x5 st) (bt_add_totals d x1 x2 x3 x4 x5 st')"
    "same_state (bt_settle_fill y q1 q2 q3 q4 st) (bt_settle_fill y q1 q2 q3 q4 st')"
  using assms same_reads(1,2,7)[OF assms]
  unfolding bt_ledger_def bt_add_cash_def bt_set_quantity_def bt_processed_def bt_add_totals_def
      bt_settle_fill_def Let_def same_reads(1,2,7)[OF assms]
  by (simp_all add: same_state_def same_dict_set)

interpretation same: state_relation same_state
  by unfold_locales (rule same_reads same_writes; assumption)+

lemma same_actions: "same_state st st' \<Longrightarrow>
    same_result same_state (bt_apply_actions ratio_text spec inp sess st) (bt_apply_actions ratio_text spec inp sess st')"
  unfolding bt_apply_actions_def
proof (rule same_fold)
  fix s t a
  assume s: "same_state s t"
  show "same_result same_state (bt_apply_action ratio_text spec inp sess s a) (bt_apply_action ratio_text spec inp sess t a)"
    unfolding bt_apply_action_def Let_def same_reads[OF s]
    by (intro same_if same_raise same_value same_writes s same_bind[OF same.rel_known] same_bind[OF same.rel_effect])
qed

section \<open>Decisions\<close>

text \<open>A strategy whose signal is taken anew in every session.\<close>

definition rebalances_daily :: "experiment_spec \<Rightarrow> bool" where
  "rebalances_daily spec \<longleftrightarrow> st_name (ex_strategy spec) \<noteq> ''buy_and_hold''
     \<and> pm_rebalance_frequency (st_parameters (ex_strategy spec)) \<in> {None, Some ''daily''}"

lemma daily_due: "rebalances_daily spec \<Longrightarrow> bt_rebalance_due spec sess previous"
  by (auto simp: rebalances_daily_def bt_rebalance_due_def split: option.splits)

text \<open>In such a session the loop over the holdings only adds exits.\<close>

definition zeroed :: "string list \<Rightarrow> (string, dec) dict \<Rightarrow> (string, dec) dict" where
  "zeroed = fold (\<lambda>s. dset s 0)"

lemma exits_fold: "foldR (bt_hold_step spec inp sess st active False) ts qs
    = Inr (zeroed (map fst (filter (\<lambda>(s, q). 0 < q \<and> s \<notin> set active) qs)) ts)"
proof (induction qs arbitrary: ts)
  case (Cons x qs)
  obtain s q where x: "x = (s, q)" by (cases x)
  show ?case unfolding x
    by (cases "0 < q"; cases "s \<in> set active") (simp_all add: bt_hold_step_def zeroed_def Cons.IH[unfolded bt_hold_step_def zeroed_def])
qed (simp add: zeroed_def)

lemma map_of_zeroed: "map_of (zeroed ns ts) = (\<lambda>k. if k \<in> set ns then Some 0 else map_of ts k)"
  by (induction ns arbitrary: ts) (auto simp: zeroed_def fun_eq_iff)

lemma distinct_zeroed: "distinct (map fst ts) \<Longrightarrow> distinct (map fst (zeroed ns ts))"
  by (induction ns arbitrary: ts) (simp_all add: zeroed_def distinct_dset)

lemma dset_present: "k \<in> fst ` set d \<Longrightarrow> distinct (map fst d) \<Longrightarrow>
    dset k v d = map (\<lambda>(j, w). (j, if j = k then v else w)) d"
  by (induction d) (auto intro!: map_idI[symmetric] simp: rev_image_eqI)

lemma dsum_zeroed: "distinct (map fst ts) \<Longrightarrow>
    dsum prec (map snd (zeroed ns ts)) = dsum prec (map (\<lambda>(k, v). if k \<in> set ns then 0 else v) ts)"
proof (induction ns arbitrary: ts)
  case Nil
  then show ?case by (simp add: zeroed_def case_prod_beta)
next
  case (Cons n ns)
  have "dsum prec (map snd (zeroed (n # ns) ts)) = dsum prec (map (\<lambda>(k, v). if k \<in> set ns then 0 else v) (dset n 0 ts))"
    using Cons.IH[OF distinct_dset[OF Cons.prems]] by (simp add: zeroed_def)
  also have "\<dots> = dsum prec (map (\<lambda>(k, v). if k \<in> set (n # ns) then 0 else v) ts)"
  proof (cases "n \<in> fst ` set ts")
    case True
    then show ?thesis using Cons.prems
      by (simp add: dset_present comp_def case_prod_beta) (rule arg_cong[where f = "dsum prec"], auto)
  next
    case False
    then have same: "map (\<lambda>(k, v). if k \<in> set (n # ns) then 0 else v) ts = map (\<lambda>(k, v). if k \<in> set ns then 0 else v) ts" by force
    show ?thesis unfolding same dset_fresh[OF False] by (simp add: dsum_snoc dadd_def dsum_fixed)
  qed
  finally show ?case .
qed

lemma same_zeroed: "distinct (map fst ts) \<Longrightarrow> set ns' = set ns \<Longrightarrow> same_dict (zeroed ns ts) (zeroed ns' ts)"
  by (simp add: same_dict_def map_of_zeroed distinct_zeroed)

lemma same_limits:
  assumes "distinct (map fst ts)" and "set ns' = set ns"
  shows "bt_check_limits spec (zeroed ns' ts) = bt_check_limits spec (zeroed ns ts)"
  using same_dict_items[OF same_zeroed[OF assms]] assms by (simp add: bt_check_limits_def list_all_iff dsum_zeroed)

lemma daily_signal:
  assumes "rebalances_daily spec" and "same_state st st'"
  shows "same_result (\<lambda>a b. fst b = fst a \<and> distinct (map fst (fst a)) \<and> same_state (snd a) (snd b))
    (bt_signal spec inp sessions k st active due) (bt_signal spec inp sessions k st' active due)"
proof -
  have momentum: "distinct (map fst ts)" if "bt_momentum_targets spec inp sessions k active = Inr ts" for ts
    using that unfolding bt_momentum_targets_def baseline_targets_def momentum_12_1_targets_def Let_def
    by (auto elim!: bindR_InrE split: if_splits option.splits)
  have equal: "distinct (map fst ts)" if "baseline_targets ''equal_weight'' ids None None None = Inr ts" for ids ts
    using that by (auto simp: baseline_targets_def)
  show ?thesis using assms unfolding bt_signal_def Let_def
    by (auto simp: rebalances_daily_def intro!: same_rules dest!: momentum equal)
qed

lemma same_targets:
  assumes "rebalances_daily spec" and "same_state st st'"
  shows "same_result (rel_prod same_dict same_state)
    (bt_target_weights spec inp sessions k st) (bt_target_weights spec inp sessions k st')"
proof -
  have step: "same_result (rel_prod same_dict same_state)
      (bindR (foldR (bt_hold_step spec inp sess s active False) ts (bs_quantities s)) (\<lambda>targets.
         bindR (bt_check_limits spec targets) (\<lambda>_. Inr (targets, s\<lparr>bs_last_decision_date := day\<rparr>))))
      (bindR (foldR (bt_hold_step spec inp sess s' active False) ts (bs_quantities s')) (\<lambda>targets.
         bindR (bt_check_limits spec targets) (\<lambda>_. Inr (targets, s'\<lparr>bs_last_decision_date := day\<rparr>))))"
    if s: "same_state s s'" and d: "distinct (map fst ts)" for sess s s' active ts day
  proof -
    have ns: "set (map fst (filter (\<lambda>(s, q). 0 < q \<and> s \<notin> set active) (bs_quantities s')))
        = set (map fst (filter (\<lambda>(s, q). 0 < q \<and> s \<notin> set active) (bs_quantities s)))"
      by (simp add: same_reads(4)[OF s])
    show ?thesis unfolding exits_fold bindR_Inr same_limits[OF d ns]
      by (rule same_bind_eq) (simp add: same_zeroed[OF d ns] same_writes[OF s])
  qed
  show ?thesis unfolding bt_target_weights_def Let_def
    using assms(1) unfolding daily_due[OF assms(1), THEN eqTrueI]
    by (intro same_bind_eq same_bind[OF daily_signal[OF assms]])
      (simp add: daily_due rebalances_daily_def case_prod_beta step)
qed

lemma same_decide:
  assumes "rebalances_daily spec" and "same_state st st'"
  shows "same_result same_state (bt_decide env spec inp sessions k st) (bt_decide env spec inp sessions k st')"
  unfolding bt_decide_def Let_def
proof (intro same_if same_value assms(2), rule same_bind[OF same_targets[OF assms]], goal_cases)
  case (1 a b)
  then obtain ts s ts' s' where a: "a = (ts, s)" "b = (ts', s')" and t: "same_dict ts ts'" and s: "same_state s s'"
    by (cases a; cases b) auto
  have c: "sorted_set (map fst ts' @ map fst (filter (\<lambda>(_, q). 0 < q) (bs_quantities s')))
      = sorted_set (map fst ts @ map fst (filter (\<lambda>(_, q). 0 < q) (bs_quantities s)))"
    by (rule sorted_set_cong) (simp add: same_dict_items[OF t] same_reads(4)[OF s])
  show ?case unfolding a prod.case c by (rule same_fold[OF same.rel_propose[OF _ same_dict_get[OF t]] s])
qed

section \<open>Sessions and results\<close>

abbreviation same_progress :: "bt_progress \<Rightarrow> bt_progress \<Rightarrow> bool" where
  "same_progress \<equiv> rel_prod same_state (=)"

lemma same_session:
  assumes "rebalances_daily spec" and "same_progress p p'"
  shows "same_result same_progress (bt_session env ratio_text spec inp sessions p k) (bt_session env ratio_text spec inp sessions p' k)"
proof -
  obtain st nav_rows holding_rows where p: "p = (st, nav_rows, holding_rows)" by (cases p)
  with assms(2) obtain st' where p': "p' = (st', nav_rows, holding_rows)" and s: "same_state st st'" by (cases p') auto
  show ?thesis unfolding p p' bt_session_def prod.case
    by (intro same_bind_eq same_bind[OF same_actions[OF s]] same_bind[OF same.rel_execute] same_bind[OF same.rel_mark])
      (auto intro!: same_bind[OF same_decide[OF assms(1)]])
qed

lemma same_sessions:
  assumes "rebalances_daily spec" and "same_progress p p'"
  shows "same_result same_progress (foldR (bt_session env ratio_text spec inp sessions) p ks)
    (foldR (bt_session env ratio_text spec inp sessions) p' ks)"
  by (rule same_fold[OF same_session[OF assms(1)] assms(2)])

lemma same_finish:
  assumes "same_progress p p'"
  shows "bt_finish env fn spec inp run p' = bt_finish env fn spec inp run p"
proof -
  obtain st nav_rows holding_rows where p: "p = (st, nav_rows, holding_rows)" by (cases p)
  with assms obtain st' where p': "p' = (st', nav_rows, holding_rows)" and s: "same_state st st'" by (cases p') auto
  have m: "bt_metrics spec fn inp st' rows = bt_metrics spec fn inp st rows" for rows
    unfolding bt_metrics_def bt_metric_values_def bt_attribution_def bt_attribution_row_def same_reads[OF s] by (rule refl)
  show ?thesis unfolding p p' bt_finish_def prod.case bt_summary_def m same_reads[OF s] by (rule refl)
qed

lemma checkpointable_same:
  assumes "checkpointable st" and "sort_key po_index (bs_pending st) = bs_pending st"
  shows "same_state st (sorted_state st)"
  using assms by (simp add: same_state_def sorted_state_def checkpointable_def texts_ok_def sorted_items_same)

lemma resumable_same:
  assumes "resumable spec sessions n p" and "n \<le> length sessions"
  shows "same_progress p (sorted_state (fst p), snd p)"
proof -
  obtain st nav_rows holding_rows where p: "p = (st, nav_rows, holding_rows)" by (cases p)
  from assms(1) have "booked (bs_pending st) st" by (simp add: p resumable_def progress_ok_def settled_def)
  then have "sorted (map po_index (bs_pending st))" by (auto simp: booked_def)
  then have "sort_key po_index (bs_pending st) = bs_pending st" by (intro properties_for_sort_key) simp_all
  with checkpointable_same[OF resumable_checkpoint(1)[OF assms(1)[unfolded p] assms(2)]]
  show ?thesis by (simp add: p)
qed

section \<open>The loop with checkpoints\<close>

lemma foldS_append: "foldS f v (xs @ ys) s = bindS (foldS f v xs) (\<lambda>w. foldS f w ys) s"
  by (induction xs arbitrary: v s) (auto simp: bindS_def returnS_def split: prod.splits sum.splits)

lemma checkpoint_name_inject: "checkpoint_name m = checkpoint_name n \<longleftrightarrow> m = n"
  by (auto simp: checkpoint_name_def) (metis nat_of_digits_zfield)

lemma checkpoint_name_file:
  assumes "n < 10 ^ 6"
  shows "checkpoint_file (checkpoint_name n)" and "checkpoint_number (checkpoint_name n) = Some n"
  using length_zfield[OF assms] by (simp_all add: checkpoint_file_def checkpoint_number_def checkpoint_name_def Let_def)

lemma write_fresh: "path \<notin> fst ` set files \<Longrightarrow> write_checkpoint env path payload files
    = (Inr (checkpoint_hash env payload), files @ [(path, checkpoint_document env payload)])"
  using map_of_eq_None_iff[of files path] by (simp add: write_checkpoint_def Let_def dset_fresh)

lemma checkpointed_step:
  assumes "checkpoint_name (Suc k) \<notin> fst ` set files"
  shows "bt_checkpointed env ratio_text e inp run sessions True stop p k files =
    (case bt_session env ratio_text e inp sessions p k of
       Inl x \<Rightarrow> (Inl x, files)
     | Inr q \<Rightarrow> ((if stop = Some (int (Suc k))
           then raise BacktestInterruptedError (''interrupted after session '' @ isoformat (s_session_date (sessions ! k))
             @ ''; checkpoint='' @ checkpoint_name (Suc k)) else Inr q),
         files @ [(checkpoint_name (Suc k), checkpoint_document env (checkpoint_payload run (Suc k) q))]))"
  using assms by (simp add: bt_checkpointed_def prog_defs Let_def write_fresh split: sum.splits)

text \<open>Into a directory without checkpoints of these sessions, the loop gives what it gives without checkpoints.\<close>

lemma checkpointed_result:
  assumes "\<forall>k \<in> set ks. checkpoint_name (Suc k) \<notin> fst ` set files" and "distinct ks"
  shows "fst (foldS (bt_checkpointed env ratio_text e inp run sessions True None) p ks files)
    = foldR (bt_session env ratio_text e inp sessions) p ks"
  using assms
proof (induction ks arbitrary: p files)
  case (Cons k ks)
  then have k: "checkpoint_name (Suc k) \<notin> fst ` set files" by simp
  show ?case
  proof (cases "bt_session env ratio_text e inp sessions p k")
    case (Inl x)
    then show ?thesis by (simp add: bindS_def checkpointed_step[OF k])
  next
    case (Inr q)
    from Cons.prems show ?thesis
      by (simp add: bindS_def checkpointed_step[OF k] Inr) (rule Cons.IH, auto simp: checkpoint_name_inject)
  qed
qed (simp add: returnS_def)

lemma checkpointed_files:
  assumes "foldR (bt_session env ratio_text e inp sessions) p [0..<j] = Inr q" and "\<forall>k < j. stop \<noteq> Some (int (Suc k))"
  shows "\<exists>files. foldS (bt_checkpointed env ratio_text e inp run sessions True stop) p [0..<j] [] = (Inr q, files)
    \<and> map fst files = map (\<lambda>k. checkpoint_name (Suc k)) [0..<j]"
  using assms
proof (induction j arbitrary: q)
  case (Suc j)
  from Suc.prems(1) obtain r where r: "foldR (bt_session env ratio_text e inp sessions) p [0..<j] = Inr r"
    and q: "bt_session env ratio_text e inp sessions r j = Inr q"
    by (auto simp: foldR_append elim!: bindR_InrE)
  from Suc.IH[OF r] Suc.prems(2) obtain files
    where f: "foldS (bt_checkpointed env ratio_text e inp run sessions True stop) p [0..<j] [] = (Inr r, files)"
    and names: "map fst files = map (\<lambda>k. checkpoint_name (Suc k)) [0..<j]" by auto
  have "fst ` set files = (\<lambda>k. checkpoint_name (Suc k)) ` {0..<j}" using arg_cong[OF names, of set] by simp
  then have fresh: "checkpoint_name (Suc j) \<notin> fst ` set files" by (auto simp: checkpoint_name_inject)
  from Suc.prems(2) have "stop \<noteq> Some (int (Suc j))" by simp
  then show ?case
    by (simp add: foldS_append bindS_def f checkpointed_step[OF fresh] q returnS_def names del: of_nat_Suc)
qed (simp add: returnS_def)

lemma latest_of_names:
  assumes "n < 10 ^ 6" and "0 < n"
  shows "latest_checkpoint (map (\<lambda>k. checkpoint_name (Suc k)) [0..<n]) = Inr (Some (checkpoint_name n, n))"
proof -
  let ?names = "map (\<lambda>k. checkpoint_name (Suc k)) [0..<n]"
  have files: "filter checkpoint_file ?names = ?names" using assms by (auto simp: filter_id_conv checkpoint_name_file)
  have numbers: "mapR (\<lambda>name. case checkpoint_number name of
        None \<Rightarrow> checkpoint_error (''checkpoint directory contains an invalid file: '' @ name)
      | Some n \<Rightarrow> Inr (name, n)) ?names = Inr (map (\<lambda>k. (checkpoint_name (Suc k), Suc k)) [0..<n])"
    unfolding mapR_Inr_iff using assms by (auto simp: list_all2_map1 list_all2_map2 list_all2_same checkpoint_name_file)
  obtain m where m: "n = Suc m" using assms(2) by (cases n) auto
  let ?found = "map (\<lambda>k. (checkpoint_name (Suc k), Suc k)) [0..<n]"
  have max: "Max (set (map snd ?found)) = n" by (rule Max_eqI) (auto simp: m)
  have "find (\<lambda>c. snd c = n) ?found = Some (checkpoint_name n, n)"
    unfolding m by (auto simp: find_Some_iff nth_append intro!: exI[of _ m])
  then show ?thesis using assms(2) unfolding latest_checkpoint_def files numbers bindR_Inr max by simp
qed

section \<open>Interruption and resumption\<close>

lemma progress_rows: "progress_ok spec sessions n (st, nav_rows, holding_rows) \<Longrightarrow> n \<le> length sessions \<Longrightarrow> length nav_rows = n"
  by (auto simp: progress_ok_def dest!: list_all2_lengthD)

text \<open>The loop with checkpoints, interrupted after the first \<open>n\<close> sessions, and where the resumed run begins.\<close>

lemma interrupted_run:
  assumes "experiment_ok e" and "wf_inputs inp" and "\<forall>s \<in> set sessions. valid_date (s_session_date s)" and "rebalances_daily e"
    and "\<forall>x. is_sha256 (env_sha256 env x)"
    and "foldR (bt_session env ratio_text e inp sessions) (bt_start e first_session, [], []) [0..<length sessions] = Inr p"
    and n: "0 < n" "n < length sessions" "n < 10 ^ 6"
  obtains msg files q q' where
    "foldS (bt_checkpointed env ratio_text e inp run sessions True (Some (int n))) (bt_start e first_session, [], [])
       [0..<length sessions] [] = (Inl (Exn BacktestInterruptedError msg), files)"
    and "bt_begin env e run sessions True True files = Inr (q, n)"
    and "fst (foldS (bt_checkpointed env ratio_text e inp run sessions True None) q [n..<length sessions] files) = Inr q'"
    and "same_progress p q'"
proof -
  let ?start = "(bt_start e first_session, [], [])"
  obtain m where m: "n = Suc m" using n(1) by (cases n) auto
  have last: "[0..<n] = [0..<m] @ [m]" by (simp add: m)
  have "[0..<length sessions] = [0..<n] @ [n..<length sessions]"
    using upt_add_eq_append[of 0 n "length sessions - n"] n(2) by simp
  then have split: "[0..<length sessions] = [0..<m] @ m # [n..<length sessions]" by (simp only: last) simp
  from assms(6) obtain r c where r: "foldR (bt_session env ratio_text e inp sessions) ?start [0..<m] = Inr r"
    and c: "bt_session env ratio_text e inp sessions r m = Inr c"
    and rest: "foldR (bt_session env ratio_text e inp sessions) c [n..<length sessions] = Inr p"
    unfolding split by (auto simp: foldR_append elim!: bindR_InrE)
  have ran: "foldR (bt_session env ratio_text e inp sessions) ?start [0..<n] = Inr c"
    unfolding last by (simp add: foldR_append r c)
  from checkpointed_files[OF r, of "Some (int n)"] obtain files where
    f: "foldS (bt_checkpointed env ratio_text e inp run sessions True (Some (int n))) ?start [0..<m] [] = (Inr r, files)"
    and names: "map fst files = map (\<lambda>k. checkpoint_name (Suc k)) [0..<m]" by (auto simp: m)
  have keys: "fst ` set files = (\<lambda>k. checkpoint_name (Suc k)) ` {0..<m}" using arg_cong[OF names, of set] by simp
  then have fresh: "checkpoint_name (Suc m) \<notin> fst ` set files" by (auto simp: checkpoint_name_inject)
  define doc where "doc = checkpoint_document env (checkpoint_payload run n c)"
  let ?files = "files @ [(checkpoint_name n, doc)]"
  have stop: "\<exists>msg. foldS (bt_checkpointed env ratio_text e inp run sessions True (Some (int n))) ?start [0..<length sessions] []
      = (Inl (Exn BacktestInterruptedError msg), ?files)"
    unfolding split foldS_append by (simp add: bindS_def f checkpointed_step[OF fresh, unfolded m[symmetric]] c raise_def doc_def)
  have latest: "latest_checkpoint (map fst ?files) = Inr (Some (checkpoint_name n, n))"
    using latest_of_names[OF n(3,1)] by (simp add: names m)
  have doc: "dget ?files (checkpoint_name n) JNull = doc"
    using fresh map_of_eq_None_iff[of files "checkpoint_name (Suc m)"] by (simp add: dget_def map_add_def m)
  obtain st nav_rows holding_rows where c3: "c = (st, nav_rows, holding_rows)" by (cases c)
  have hash: "is_sha256 (checkpoint_hash env (checkpoint_payload run n c))" using assms(5) by (simp add: checkpoint_hash_def)
  have ready: "resumable e sessions n c" using sessions_resumable[OF assms(1-3) start_resumable[OF assms(1)] ran] by simp
  from resumable_checkpoint[OF ready[unfolded c3] less_imp_le[OF n(2)]] restore_back[OF hash[unfolded c3]] n(1)
  have "restore_checkpoint env (checkpoint_name n) run sessions n doc = Inr ((sorted_state st, nav_rows, holding_rows), n)"
    by (simp add: doc_def c3)
  with latest doc have restored: "bt_begin env e run sessions True True ?files = Inr ((sorted_state (fst c), snd c), n)"
    by (simp add: bt_begin_def c3)
  from same_sessions[OF assms(4) resumable_same[OF ready less_imp_le[OF n(2)]], of env ratio_text inp sessions "[n..<length sessions]"] rest
  obtain q' where q': "foldR (bt_session env ratio_text e inp sessions) (sorted_state (fst c), snd c) [n..<length sessions] = Inr q'"
    and same: "same_progress p q'" by (auto elim: rel_sum.cases)
  have "\<forall>k \<in> set [n..<length sessions]. checkpoint_name (Suc k) \<notin> fst ` set ?files"
    by (auto simp: keys checkpoint_name_inject m)
  from checkpointed_result[OF this, of env ratio_text e inp run sessions "(sorted_state (fst c), snd c)"] q'
  have "fst (foldS (bt_checkpointed env ratio_text e inp run sessions True None) (sorted_state (fst c), snd c)
      [n..<length sessions] ?files) = Inr q'" by simp
  with stop restored same that show thesis by blast
qed

text \<open>Whole calls of \<open>simulate_backtest\<close>, from validation to the result.\<close>

lemma unchecked_loop: "foldS (bt_checkpointed env ratio_text e inp run sessions False stop) p ks files
    = (foldR (bt_session env ratio_text e inp sessions) p ks, files)"
  by (induction ks arbitrary: p) (auto simp: bt_checkpointed_def prog_defs split: sum.splits)

lemma simulate_parts:
  assumes "simulate_backtest env ratio_text fn fs v False False None files = (Inr r, files')"
  obtains e spec_hash input_hash inp sessions p where "validate_experiment_spec env v = Inr e"
    and "experiment_sha256 env (experiment_json e) = Inr spec_hash"
    and "experiment_input_fingerprint env (experiment_json e) = Inr input_hash"
    and "load_backtest_inputs env fs (experiment_json e) = Inr inp" and "bt_calendar_sessions e inp = Inr sessions"
    and "foldR (bt_session env ratio_text e inp sessions) (bt_start e (hd sessions), [], []) [0..<length sessions] = Inr p"
    and "bt_finish env fn e inp \<lparr>ri_experiment_id = ex_experiment_id e, ri_experiment_sha256 = spec_hash,
           ri_input_fingerprint = input_hash\<rparr> p = Inr r"
  using assms unfolding simulate_backtest_def Let_def
  by (auto simp: bindS_Inr liftS_def readS_def unchecked_loop bt_begin_def bt_stop_allowed_def)

lemma calendar_sessions_valid:
  assumes "load_backtest_inputs env fs v = Inr inp" and "bt_calendar_sessions e inp = Inr sessions"
  shows "wf_inputs inp" and "\<forall>s \<in> set sessions. valid_date (s_session_date s)"
proof -
  show wf: "wf_inputs inp" using assms(1) unfolding load_backtest_inputs_def by (auto elim!: bindR_InrE intro: loaded_inputs_wf)
  from assms(2) have "set sessions \<subseteq> set (i_calendar inp)"
    unfolding bt_calendar_sessions_def Let_def by (auto elim!: bindR_InrE split: if_splits)
  with wf show "\<forall>s \<in> set sessions. valid_date (s_session_date s)"
    by (auto simp: wf_inputs_def list_all_iff session_ok_def)
qed

text \<open>
  (C38) Stopping and resuming a backtest changes nothing: if the run over all sessions returns a result, then the run
  that is interrupted after any session before the last leaves a checkpoint directory from which the resumed run
  returns the same result, with all rows, metrics and identifiers. The strategy rebalances every session; for a
  portfolio that is held the restored order of the holdings can enter a rounded sum.
\<close>

theorem resumed_run_equal:
  assumes "simulate_backtest env ratio_text fn fs v False False None [] = (Inr r, [])" and "\<forall>x. is_sha256 (env_sha256 env x)"
    and "validate_experiment_spec env v = Inr e" and "rebalances_daily e"
    and n: "0 < n" "n < length (run_nav r)" "n < 10 ^ 6"
  shows "\<exists>m files. simulate_backtest env ratio_text fn fs v True False (Some (int n)) []
      = (Inl (Exn BacktestInterruptedError m), files)
    \<and> fst (simulate_backtest env ratio_text fn fs v True True None files) = Inr r"
proof -
  obtain spec_hash input_hash inp sessions p where
      parts: "experiment_sha256 env (experiment_json e) = Inr spec_hash"
      "experiment_input_fingerprint env (experiment_json e) = Inr input_hash"
      "load_backtest_inputs env fs (experiment_json e) = Inr inp" "bt_calendar_sessions e inp = Inr sessions"
    and run: "foldR (bt_session env ratio_text e inp sessions) (bt_start e (hd sessions), [], []) [0..<length sessions] = Inr p"
    and r: "bt_finish env fn e inp \<lparr>ri_experiment_id = ex_experiment_id e, ri_experiment_sha256 = spec_hash,
           ri_input_fingerprint = input_hash\<rparr> p = Inr r"
    using simulate_parts[OF assms(1)] assms(3) by (metis sum.inject(2))
  note ok = validated_again(2)[OF assms(3)] calendar_sessions_valid[OF parts(3,4)]
  let ?run = "\<lparr>ri_experiment_id = ex_experiment_id e, ri_experiment_sha256 = spec_hash, ri_input_fingerprint = input_hash\<rparr>"
  obtain st nav_rows holding_rows where p: "p = (st, nav_rows, holding_rows)" by (cases p)
  have "length nav_rows = length sessions"
    using progress_rows sessions_progress[OF ok(1,2) start_progress run[unfolded p]] by blast
  moreover have "run_nav r = nav_rows" using r by (auto simp: bt_finish_def p elim!: bindR_InrE)
  ultimately have len: "n < length sessions" using n(2) by simp
  obtain msg files q q' where
    f: "foldS (bt_checkpointed env ratio_text e inp ?run sessions True (Some (int n))) (bt_start e (hd sessions), [], [])
       [0..<length sessions] [] = (Inl (Exn BacktestInterruptedError msg), files)"
    and q: "bt_begin env e ?run sessions True True files = Inr (q, n)"
    and q': "fst (foldS (bt_checkpointed env ratio_text e inp ?run sessions True None) q [n..<length sessions] files) = Inr q'"
    and same: "same_progress p q'"
    using interrupted_run[OF ok assms(4,2) run n(1) len n(3)] by blast
  have fresh: "bt_begin env e ?run sessions True False [] = Inr ((bt_start e (hd sessions), [], []), 0)"
    by (simp add: bt_begin_def latest_checkpoint_def)
  have first: "simulate_backtest env ratio_text fn fs v True False (Some (int n)) [] = (Inl (Exn BacktestInterruptedError msg), files)"
    using n(1) len unfolding simulate_backtest_def Let_def
    by (simp add: bindS_def liftS_def readS_def assms(3) parts bt_stop_allowed_def fresh f)
  obtain files' where s: "foldS (bt_checkpointed env ratio_text e inp ?run sessions True None) q [n..<length sessions] files = (Inr q', files')"
    using q' by (metis prod.collapse)
  have "fst (simulate_backtest env ratio_text fn fs v True True None files) = Inr r"
    unfolding simulate_backtest_def Let_def
    by (simp add: bindS_def liftS_def readS_def assms(3) parts bt_stop_allowed_def q s same_finish[OF same] r)
  with first show ?thesis by blast
qed

section \<open>The directory only grows\<close>

definition grows :: "(string, json) dict \<Rightarrow> (string, json) dict \<Rightarrow> bool" where
  "grows files files' \<longleftrightarrow> (\<exists>added. files' = files @ added)"

interpretation directory: state_order grows
  by unfold_locales (auto simp: grows_def)

lemma write_grows: "steps_after grows s (write_checkpoint env path payload)"
  by (auto simp: steps_after_def grows_def write_checkpoint_def Let_def dset_fresh map_of_eq_None_iff split: option.splits)

lemma checkpointed_grows: "steps_after grows s (bt_checkpointed env ratio_text e inp run sessions checkpointing stop p k)"
  unfolding bt_checkpointed_def Let_def
  by (intro directory.steps_rules write_grows)

text \<open>
  (C40) A checkpoint directory is append-only: however a run is called and however it ends, with a result, an
  interruption or an error, the checkpoints that were there are still there with the same content, and without a
  checkpoint root nothing is written.
\<close>

theorem checkpoints_append_only:
  "\<exists>added. snd (simulate_backtest env ratio_text fn fs v checkpointing resume stop files) = files @ added
    \<and> (checkpointing \<or> added = [])"
proof (cases checkpointing)
  case True
  have "steps_after grows files (simulate_backtest env ratio_text fn fs v True resume stop)"
    unfolding simulate_backtest_def Let_def by (intro directory.steps_rules checkpointed_grows)
  then have "grows files (snd (simulate_backtest env ratio_text fn fs v True resume stop files))"
    by (simp add: steps_after_def directory.refl)
  with True show ?thesis by (simp add: grows_def)
next
  case False
  have "snd (simulate_backtest env ratio_text fn fs v False resume stop files) = files"
    by (simp add: simulate_backtest_def Let_def bindS_def liftS_def readS_def unchecked_loop split: sum.splits prod.splits)
  with False show ?thesis by simp
qed

end
