(* ===== verification/Example_Simulation.thy ===== *)
theory Example_Simulation
  imports Example_Backtest Backtest_Resume
begin

text \<open>
  Whole calls of \<open>simulate_backtest\<close> on the example experiment, over three sessions of which each partition has one.
  Neither security is a member, so the run stays in cash and every figure can be followed by hand.
\<close>

section \<open>The data\<close>

definition day0 :: date where "day0 = Date 2024 1 1"

definition cash_price :: "date \<Rightarrow> price_row" where
  "cash_price d = \<lparr>p_security_id = sec_a, p_session_date = d, p_observed_at = at_close d,
     p_available_at = at_close d, p_currency = ''USD'', p_price_basis = ''raw'', p_open = 100, p_high = 100,
     p_low = 100, p_close = 100, p_volume = 1000, p_has_volume = True, p_source_record_id = None\<rparr>"

definition cash_session :: "date \<Rightarrow> session" where
  "cash_session d = \<lparr>s_session_date = d, s_open_at = at_open d, s_close_at = at_close d,
     s_available_at = at_open day0, s_status = ''open'', s_decision_at = None\<rparr>"

definition cash_member :: "string \<Rightarrow> membership_row" where
  "cash_member s = \<lparr>m_security_id = s, m_valid_from = day0, m_valid_until = None, m_member = False,
     m_available_at = at_open day0, m_revision = 0\<rparr>"

definition cash_prices :: "price_row list" where "cash_prices = [cash_price day0, cash_price day1, cash_price day2]"
definition cash_sessions :: "session list" where "cash_sessions = [cash_session day0, cash_session day1, cash_session day2]"
definition cash_members :: "membership_row list" where "cash_members = [cash_member sec_a, cash_member sec_b]"

definition cash_root :: data_root where
  "cash_root = \<lparr>fs_resolve = (\<lambda>p. Inr p), fs_file = map_of
     [(''prices'', replicate 64 CHR ''a'', Inr (envelope ''prices'' (art_id CHR ''a'') (map price_doc cash_prices))),
      (''calendar'', replicate 64 CHR ''a'', Inr (envelope ''calendar'' (art_id CHR ''b'') (map session_doc cash_sessions))),
      (''membership'', replicate 64 CHR ''a'', Inr (envelope ''membership'' (art_id CHR ''c'') (map membership_doc cash_members)))]\<rparr>"

lemmas cash_rows = cash_prices_def cash_price_def cash_sessions_def cash_session_def cash_members_def cash_member_def

lemma day0_facts [simp]: "valid_date day0" "valid_datetime (at_open day0)" "valid_datetime (at_close day0)"
    "day0 < day1" "day0 < day2" "day0 \<le> day1" "day0 \<le> day2" "day0 \<noteq> day1" "day0 \<noteq> day2" "day1 \<noteq> day0" "day2 \<noteq> day0"
    "at_open day0 < at_close day0" "at_open day0 \<le> at_close day0" "at_open day0 \<le> at_close day1" "at_open day0 \<le> at_close day2"
    "\<not> ex_published < at_open day0" "\<not> ex_published < at_close day0"
    "\<not> at_open day0 < at_open day0" "\<not> at_open day1 < at_open day0" "\<not> at_open day2 < at_open day0"
  by (simp_all add: valid_datetime_def day0_def at_open_def at_close_def ex_published_def day1_def day2_def valid_date_def
      days_in_month_def less_datetime_def less_eq_datetime_def less_date_def less_eq_date_def)

lemma cash_writable: "\<forall>r \<in> set cash_prices. price_writable r \<and> p_price_basis r = ''raw''" "distinct (map price_key cash_prices)"
    "\<forall>s \<in> set cash_sessions. session_writable s" "distinct (map s_session_date cash_sessions)"
    "\<forall>r \<in> set cash_members. membership_writable r" "distinct (map membership_key cash_members)"
  by (simp_all add: cash_rows price_writable_def price_row_ok_def price_key_def session_writable_def session_ok_def
      membership_writable_def membership_ok_def membership_key_def)

lemma cash_parsed: "price_rows [''raw''] (map price_doc cash_prices) = Inr cash_prices"
    "calendar_rows (map session_doc cash_sessions) = Inr cash_sessions"
    "membership_rows (map membership_doc cash_members) = Inr cash_members"
  using price_rows_doc[OF cash_writable(1) _ cash_writable(2), of "[''raw'']"]
    calendar_rows_doc[OF cash_writable(3,4)] membership_rows_doc[OF cash_writable(5,6)]
  by (simp_all add: cash_rows)

lemma cash_available: "check_rows_available k ex_published (PriceRows cash_prices) = Inr ()"
    "check_rows_available k ex_published (CalendarRows cash_sessions) = Inr ()"
    "check_rows_available k ex_published (MembershipRows cash_members) = Inr ()"
  by (simp_all add: check_rows_available_def cash_rows bindR_ensure)

lemma cash_load:
  obtains inp where "load_backtest_inputs exp_env cash_root (experiment_json ex_experiment) = Inr inp"
    and "i_prices inp = cash_prices" "i_calendar inp = cash_sessions" "i_membership inp = cash_members"
    and "i_corporate_actions inp = []"
proof -
  have "load_artifact cash_root [''raw''] ''prices'' (ex_ref ''prices'' CHR ''a'') = Inr (ex_artifact ''prices'' CHR ''a'' (PriceRows cash_prices))"
    "load_artifact cash_root [''raw''] ''calendar'' (ex_ref ''calendar'' CHR ''b'') = Inr (ex_artifact ''calendar'' CHR ''b'' (CalendarRows cash_sessions))"
    "load_artifact cash_root [''raw''] ''membership'' (ex_ref ''membership'' CHR ''c'') = Inr (ex_artifact ''membership'' CHR ''c'' (MembershipRows cash_members))"
    by (rule load_pinned; simp add: parse_rows_def cash_parsed cash_available cash_root_def input_kinds_def)+
  moreover have "fs_resolve cash_root p = Inr p" for p by (simp add: cash_root_def)
  moreover have "Experiment.ex_inputs ex_experiment = ex_refs" by (simp add: ex_experiment_def)
  ultimately have "\<exists>inp. load_backtest_inputs exp_env cash_root (experiment_json ex_experiment) = Inr inp
      \<and> i_prices inp = cash_prices \<and> i_calendar inp = cash_sessions \<and> i_membership inp = cash_members \<and> i_corporate_actions inp = []"
    by (simp add: load_backtest_inputs_def exp_valid load_input_artifacts_def price_bases_def ex_refs_def load_step_def input_kinds_def
      ex_ref_simps ex_artifact_def price_rows_of_def calendar_rows_of_def membership_rows_of_def action_rows_of_def
      fx_rows_of_def observation_rows_of_def)
  then show thesis using that by blast
qed

section \<open>The sessions\<close>

lemma cash_fixture [simp]: "s_session_date (cash_session d) = d" "s_open_at (cash_session d) = at_open d"
    "s_close_at (cash_session d) = at_close d" "s_available_at (cash_session d) = at_open day0"
    "p_close (cash_price d) = 100" "p_currency (cash_price d) = ''USD''"
  by (simp_all add: cash_session_def cash_price_def)

definition cash_days :: "date set" where "cash_days = {day0, day1, day2}"

definition cash_part :: "date \<Rightarrow> partition" where
  "cash_part d = (if d = day0 then ex_part ''dev'' ''development'' ''2024-01-01'' ''2024-01-01''
     else if d = day1 then ex_part ''val'' ''validation'' ''2024-01-02'' ''2024-01-02''
     else ex_part ''out'' ''holdout'' ''2024-01-03'' ''2024-12-31'')"

lemma cash_iso: "isoformat day0 = ''2024-01-01''" "isoformat day1 = ''2024-01-02''" "isoformat day2 = ''2024-01-03''"
  by (simp_all add: isoformat_def day0_def day1_def day2_def bt_years)

lemma cash_partitions: "d \<in> cash_days \<Longrightarrow> bt_date_partition ex_experiment d = Inr (cash_part d)"
  by (auto simp: cash_days_def cash_part_def bt_date_partition_def ex_experiment_def ex_part_def cash_iso)

lemma cash_calendar:
  assumes "i_calendar inp = cash_sessions"
  shows "bt_calendar_sessions ex_experiment inp = Inr cash_sessions"
proof -
  have "account_date ''2024-01-01'' = Inr day0" "account_date ''2024-12-31'' = Inr (Date 2024 12 31)"
    by (simp_all add: account_date_def parse_date_def day0_def nat_of_digits_def digit_val_def is_digit_def valid_date_def
        days_in_month_def)
  moreover have "day0 \<le> Date 2024 12 31" "day1 \<le> Date 2024 12 31" "day2 \<le> Date 2024 12 31"
    by (simp_all add: day0_def day1_def day2_def less_eq_date_def)
  moreover have "bt_date_partition ex_experiment day0 = Inr (cash_part day0)" "bt_date_partition ex_experiment day1 = Inr (cash_part day1)"
    "bt_date_partition ex_experiment day2 = Inr (cash_part day2)"
    using cash_partitions by (simp_all add: cash_days_def)
  moreover have "ex_period ex_experiment = (''2024-01-01'', ''2024-12-31'')" by (simp add: ex_experiment_def)
  ultimately show ?thesis
    by (simp add: bt_calendar_sessions_def assms cash_sessions_def bindR_ensure partition_kinds_def cash_part_def ex_part_def)
qed

text \<open>A state of the run: all cash, nothing pending, and the benchmark bought or not.\<close>

definition cash_state :: "bt_state \<Rightarrow> bool" where
  "cash_state st \<longleftrightarrow> bs_cash st = [(''USD'', 1000)] \<and> bs_quantities st = [] \<and> bs_pending st = [] \<and> bs_fills st = []
     \<and> bs_benchmark_value_start st \<in> {None, Some 100}
     \<and> (bs_benchmark_value_start st = Some 100 \<longrightarrow> bs_benchmark_units st = Some 10)"

definition cash_row :: "date \<Rightarrow> row" where
  "cash_row d = bt_nav_row (cash_session d) (cash_part d) [(''USD'', 1000)] 1000 0 1000 0 1000 None"

lemma cash_mark:
  assumes "d \<in> cash_days" and "i_prices inp = cash_prices" and "cash_state st"
  shows "\<exists>st'. bt_mark ex_experiment inp (cash_session d) st = Inr (cash_row d, [], st') \<and> cash_state st' \<and> bs_last_nav st' = 1000"
proof -
  have price: "bt_price_row inp sec_a d (at_close d) = Some (cash_price d)"
    using assms(1) by (auto simp: bt_price_row_def assms(2) cash_days_def cash_prices_def cash_price_def)
  show ?thesis using assms(3)
    by (auto simp: cash_state_def cash_row_def bt_mark_def bt_ledger_def sorted_items_def Let_def bt_benchmark_def bt_arith
        ddiv_def cash_partitions[OF assms(1)] price)
qed

lemma cash_targets:
  assumes "sess \<in> set cash_sessions" and "session_at cash_sessions k = Inr sess" and "i_membership inp = cash_members"
    and "bs_quantities st = []"
  shows "bt_target_weights ex_experiment inp cash_sessions k st = Inr ([], st\<lparr>bs_last_decision_date := Some (s_session_date sess)\<rparr>)"
proof -
  have "bt_membership_state inp s (s_session_date sess) (s_close_at sess) = Inr (Some False)" if "s \<in> {sec_a, sec_b}" for s
    using that assms(1) by (auto simp: bt_membership_state_def assms(3) cash_members_def cash_member_def cash_sessions_def)
  then have "bt_active_members ex_experiment inp sess = Inr []" by (simp add: bt_active_members_def)
  moreover have "baseline_targets ''equal_weight'' [] None None None = Inr []"
    by (simp add: baseline_targets_def equal_weight_targets_def sorted_set_def)
  moreover have "bt_check_limits ex_experiment [] = Inr ()" by (simp add: bt_check_limits_def bindR_ensure)
  ultimately show ?thesis
    by (simp add: bt_target_weights_def bt_signal_def assms(2,4) Let_def)
qed

lemma exp_daily: "rebalances_daily ex_experiment"
  by (simp add: rebalances_daily_def ex_experiment_def)

lemma cash_run_session:
  assumes "k < 3" and "cash_state st" and inp: "i_prices inp = cash_prices" "i_membership inp = cash_members" "i_corporate_actions inp = []"
  shows "\<exists>st'. bt_session exp_env (\<lambda>_. []) ex_experiment inp cash_sessions (st, rows, hs) k
      = Inr (st', rows @ [cash_row (s_session_date (cash_sessions ! k))], hs) \<and> cash_state st'"
proof -
  define d where "d = s_session_date (cash_sessions ! k)"
  have d: "d \<in> cash_days" "cash_sessions ! k = cash_session d" "session_at cash_sessions k = Inr (cash_session d)"
    using assms(1) by (auto simp: d_def cash_days_def cash_sessions_def session_at_def less_Suc_eq numeral_eq_Suc)
  have a: "bt_apply_actions (\<lambda>_. []) ex_experiment inp (cash_session d) st = Inr st"
    by (simp add: bt_apply_actions_def bt_action_events_def inp(3))
  have x: "bt_execute_orders exp_env ex_experiment inp (cash_session d) st = Inr st"
    using assms(2) by (simp add: bt_execute_orders_def cash_state_def)
  obtain st1 where m: "bt_mark ex_experiment inp (cash_session d) st = Inr (cash_row d, [], st1)" and st1: "cash_state st1"
    using cash_mark[OF d(1) inp(1) assms(2)] by blast
  have sess: "cash_session d \<in> set cash_sessions" using d(1) by (auto simp: cash_days_def cash_sessions_def)
  have q: "bs_quantities st1 = []" using st1 by (simp add: cash_state_def)
  obtain st2 where t: "bt_decide exp_env ex_experiment inp cash_sessions k st1 = Inr st2" and st2: "cash_state st2"
    using st1 q by (cases "length cash_sessions \<le> k + 1")
      (auto simp: bt_decide_def cash_targets[OF sess d(3) inp(2) q] Let_def cash_state_def)
  show ?thesis using st2 by (auto simp: bt_session_def d a x m t)
qed

lemma cash_run:
  assumes inp: "i_prices inp = cash_prices" "i_membership inp = cash_members" "i_corporate_actions inp = []"
  obtains st where "foldR (bt_session exp_env (\<lambda>_. []) ex_experiment inp cash_sessions)
      (bt_start ex_experiment (hd cash_sessions), [], []) [0..<length cash_sessions]
    = Inr (st, [cash_row day0, cash_row day1, cash_row day2], [])" and "cash_state st"
proof -
  have start: "cash_state (bt_start ex_experiment (hd cash_sessions))"
    by (simp add: cash_state_def bt_start_def bt_ledger_def initial_state_def Let_def)
  note one = cash_run_session[OF _ _ inp]
  obtain s0 where 0: "bt_session exp_env (\<lambda>_. []) ex_experiment inp cash_sessions (bt_start ex_experiment (hd cash_sessions), [], []) 0
      = Inr (s0, [cash_row day0], [])" "cash_state s0"
    using one[OF _ start, of 0 "[]" "[]"] by (auto simp: cash_sessions_def)
  obtain s1 where 1: "bt_session exp_env (\<lambda>_. []) ex_experiment inp cash_sessions (s0, [cash_row day0], []) (Suc 0)
      = Inr (s1, [cash_row day0, cash_row day1], [])" "cash_state s1"
    using one[OF _ 0(2), of "Suc 0" "[cash_row day0]" "[]"] by (auto simp: cash_sessions_def)
  obtain s2 where 2: "bt_session exp_env (\<lambda>_. []) ex_experiment inp cash_sessions (s1, [cash_row day0, cash_row day1], []) 2
      = Inr (s2, [cash_row day0, cash_row day1, cash_row day2], [])" "cash_state s2"
    using one[OF _ 1(2), of 2 "[cash_row day0, cash_row day1]" "[]"] by (auto simp: cash_sessions_def)
  have "[0..<length cash_sessions] = [0, Suc 0, 2]" by (simp add: cash_sessions_def upt_rec numeral_2_eq_2)
  with 0 1 2 that show thesis by simp
qed

section \<open>The result\<close>

text \<open>For the arguments that occur: the logarithm of one, the exponential of zero, and squares.\<close>

definition cash_functions :: decimal_functions where
  "cash_functions = \<lparr>df_ln = (\<lambda>_. 0), df_exp = (\<lambda>_. 1), df_square = (\<lambda>q. dmul prec q q)\<rparr>"

lemma cash_arith: "dsub 28 1 1 = 0" "dquot 80 0 252 = 0" "dquot 80 1000 1000 = 1" "dquot 80 252 2 = 126" "dmul 80 0 126 = 0"
    "dsub 80 1 1 = 0" "dsum 28 [0, 0] = 0" "dquot 28 0 2 = 0" "dquot 28 0 1 = 0" "dmul 28 0 0 = 0" "dsub 28 0 0 = 0" "dsub 28 1000 0 = 1000"
  by code_simp+

lemma dmul_zero: "dmul 28 0 x = 0"
  by (simp add: dmul_def)

lemma dsqrt_defined: "0 \<le> q \<Longrightarrow> \<exists>x. dsqrt p q = Inr x"
  by (simp add: dsqrt_def Let_def)

lemma cash_row_reads: "row_decimal (cash_row d) ''nav'' = Inr 1000" "row_decimal (cash_row d) ''benchmark_nav'' = Inr 1000"
    "row_text (cash_row d) ''partition'' = Inr (pa_name (cash_part d))" "row_text (cash_row d) ''session_date'' = Inr (isoformat d)"
    "valid_date d \<Longrightarrow> row_date (cash_row d) ''session_date'' = Inr d"
    "valid_datetime (at_close d) \<Longrightarrow> row_datetime (cash_row d) ''decision_at'' = Inr (at_close d)"
    "jget (cash_row d) ''session_date'' = Inr (JStr (isoformat d))"
  by (simp_all add: cash_row_def bt_nav_row_def row_decimal_def row_text_def row_date_def row_datetime_def jget_def account_date_def
      parse_signed_def)

lemma cash_group:
  assumes "\<forall>x \<in> set (d # ds). valid_date x"
  shows "\<exists>v. bt_attribution_row st [] (map cash_row (d # ds)) = Inr v"
proof -
  have "mapR (\<lambda>r. row_date r ''session_date'') (map cash_row (d # ds)) = Inr (d # ds)"
    using assms by (intro mapR_back) (auto simp: cash_row_reads)
  moreover have "last (map cash_row (d # ds)) = cash_row (last (d # ds))" by (rule last_map) simp
  then have "row_decimal (last (map cash_row (d # ds))) ''nav'' = Inr 1000" by (simp only: cash_row_reads)
  ultimately show ?thesis by (simp add: bt_attribution_row_def Let_def ddiv_def cash_row_reads del: last.simps)
qed

lemma cash_attribution:
  assumes "bs_fills st = []" and "bt_group key [cash_row day0, cash_row day1, cash_row day2] = Inr groups"
    and "\<forall>(lab, rows) \<in> set groups. \<exists>d ds. rows = map cash_row (d # ds) \<and> (\<forall>x \<in> set (d # ds). valid_date x)"
  shows "\<exists>v. bt_attribution [cash_row day0, cash_row day1, cash_row day2] st key = Inr v"
proof -
  have "\<exists>ys. mapR (\<lambda>(lab, rows). bindR (bt_attribution_row st [] rows) (\<lambda>v. Inr (lab, v))) (sorted_items groups) = Inr ys"
  proof (rule mapR_total)
    fix x assume "x \<in> set (sorted_items groups)"
    with assms(3) obtain lab d ds where "x = (lab, map cash_row (d # ds))" "\<forall>x \<in> set (d # ds). valid_date x" by (cases x) auto
    with cash_group[of d ds st] assms(1) show "\<exists>y. (case x of (lab, rows) \<Rightarrow> bindR (bt_attribution_row st [] rows) (\<lambda>v. Inr (lab, v))) = Inr y"
      by auto
  qed
  with assms show ?thesis by (auto simp: bt_attribution_def)
qed

lemma cash_metrics:
  assumes "cash_state st"
  shows "\<exists>m. bt_metrics ex_experiment cash_functions inp st [cash_row day0, cash_row day1, cash_row day2] = Inr m"
proof -
  let ?rows = "[cash_row day0, cash_row day1, cash_row day2]"
  have f: "bs_fills st = []" using assms by (simp add: cash_state_def)
  have "\<exists>v. bt_attribution ?rows st (\<lambda>r. row_text r ''partition'') = Inr v"
    by (rule cash_attribution[OF f, of _ "[(''dev'', [cash_row day0]), (''val'', [cash_row day1]), (''out'', [cash_row day2])]"])
      (auto simp: bt_group_def cash_row_reads cash_part_def ex_part_def dget_def intro: exI[of _ "[]"])
  then obtain a where a: "bt_attribution ?rows st (\<lambda>r. row_text r ''partition'') = Inr a" by blast
  have "\<exists>v. bt_attribution ?rows st (\<lambda>r. bindR (row_text r ''session_date'') (\<lambda>s. Inr (take 4 s))) = Inr v"
    by (rule cash_attribution[OF f, of _ "[(''2024'', ?rows)]"])
      (auto simp: bt_group_def cash_row_reads cash_iso dget_def intro!: exI[of _ day0] exI[of _ "[day1, day2]"])
  then obtain b where b: "bt_attribution ?rows st (\<lambda>r. bindR (row_text r ''session_date'') (\<lambda>s. Inr (take 4 s))) = Inr b" by blast
  have m: "ex_metrics_policy ex_experiment = \<lparr>mp_version = ''1.0.0'', mp_annualization_factor = 252,
       mp_risk_free_source = ''constant_annual'', mp_risk_free_annual = Some ''0''\<rparr>" by (simp add: ex_experiment_def)
  have rf: "\<exists>j1 j2. mapR (bt_risk_free_row ex_experiment inp) (pairwise ?rows) = Inr [(0, j1), (0, j2)]"
    by (simp add: pairwise_def bt_risk_free_row_def bt_annual_rate_def m cash_row_reads dec_text_def parse_signed_def ddiv_def cash_arith)
  obtain root where root: "dsqrt 28 252 = Inr root" using dsqrt_defined[of 252 28] by auto
  have zero: "dsqrt 28 0 = Inr 0" by (simp add: dsqrt_def)
  have "\<exists>v. bt_metric_values ex_experiment cash_functions st [1000, 1000, 1000] [1000, 1000, 1000] [0, 0] = Inr v"
    by (simp add: bt_metric_values_def bt_returns_def pairwise_def ddiv_def bt_arith cash_arith bt_cagr_def m cash_functions_def
        bt_mean_def bt_volatility_def bt_variance_def bt_annualized_def zero root dmul_zero bt_ratio_def bt_downside_def Let_def
        bt_max_drawdown_def bt_drawdown_step_def bt_beta_alpha_def bt_win_rate_def)
  then obtain v where v: "bt_metric_values ex_experiment cash_functions st [1000, 1000, 1000] [1000, 1000, 1000] [0, 0] = Inr v" by blast
  from rf show ?thesis by (auto simp: bt_metrics_def cash_row_reads v a b)
qed

lemma cash_simulation:
  "\<exists>r. simulate_backtest exp_env (\<lambda>_. []) cash_functions cash_root (experiment_json ex_experiment) False False None [] = (Inr r, [])
    \<and> length (run_nav r) = 3"
proof -
  obtain inp where load: "load_backtest_inputs exp_env cash_root (experiment_json ex_experiment) = Inr inp"
    and inp: "i_prices inp = cash_prices" "i_calendar inp = cash_sessions" "i_membership inp = cash_members" "i_corporate_actions inp = []"
    by (rule cash_load)
  obtain st where run: "foldR (bt_session exp_env (\<lambda>_. []) ex_experiment inp cash_sessions)
      (bt_start ex_experiment (hd cash_sessions), [], []) [0..<length cash_sessions]
    = Inr (st, [cash_row day0, cash_row day1, cash_row day2], [])" and st: "cash_state st"
    by (rule cash_run[OF inp(1,3,4)])
  obtain m where m: "bt_metrics ex_experiment cash_functions inp st [cash_row day0, cash_row day1, cash_row day2] = Inr m"
    using cash_metrics[OF st] by blast
  have p: "bs_pending st = []" using st by (simp add: cash_state_def)
  show ?thesis
    by (simp add: simulate_backtest_def Let_def bindS_def liftS_def readS_def exp_valid load cash_calendar[OF inp(2)]
        experiment_sha256_def experiment_input_fingerprint_def bt_stop_allowed_def bt_begin_def unchecked_loop run bt_finish_def p m)
qed

lemma resumed_run_equal_witness:
  "\<exists>r m files. simulate_backtest exp_env (\<lambda>_. []) cash_functions cash_root (experiment_json ex_experiment) True False (Some 2) []
      = (Inl (Exn BacktestInterruptedError m), files)
    \<and> fst (simulate_backtest exp_env (\<lambda>_. []) cash_functions cash_root (experiment_json ex_experiment) True True None files) = Inr r
    \<and> length (run_nav r) = 3"
proof -
  obtain r where r: "simulate_backtest exp_env (\<lambda>_. []) cash_functions cash_root (experiment_json ex_experiment) False False None [] = (Inr r, [])"
    and n: "length (run_nav r) = 3" using cash_simulation by blast
  have h: "\<forall>x. is_sha256 (env_sha256 exp_env x)" by (simp add: exp_env_def ex_env_def ex_strings)
  from resumed_run_equal[OF r h exp_valid exp_daily, of 2] n show ?thesis by auto
qed

end
