(* ===== verification/Spec2Isabelle.thy ===== *)
theory Spec2Isabelle
  imports Construction Input_Documents Paper_Acceptance Example_Decision Example_Paper Backtest_Metrics Example_Simulation
begin

text \<open>
  A verification library for the trading core of the research platform, the Python modules
  \<open>backtest_inputs.py\<close>, \<open>strategies.py\<close>, \<open>portfolio.py\<close>, \<open>risk.py\<close>, \<open>paper.py\<close>, \<open>experiments.py\<close>
  and \<open>backtest.py\<close> of \<open>src/python/research\<close>. Everything is a definition with executable right-hand side; nothing is
  assumed. What the code does not contain (hashing, clocks, files) is an argument of the definitions that use it.

  \<^bold>\<open>The program.\<close> Input artifacts are JSON files that a specification pins by their hash. The loader reads them
  into tables of rows, each with the clock at which it became available. Two engines work on these tables. The
  paper engine keeps an account as an append-only directory of events: for each trading session it settles the
  orders that are due at the open, marks the account at the close, lets a strategy decide, builds a target
  portfolio, checks it against the limits of the account, and records orders, which an approval releases. The
  backtest engine runs the same cycle over all sessions of an experiment in memory, writes a checkpoint after
  each session, and derives metrics at the end. Both decide on rows that were available at the clock of the step;
  the one thing the backtest engine takes from a row that is not yet available is that a corporate action takes effect:
  for a held security it stops with an error.

  \<^bold>\<open>Theories, in the order in which they build on each other.\<close>
  \<^item> \<open>Prelude\<close>: exceptions as values (\<open>exn\<close>, \<open>'a result\<close>, \<open>bindR\<close>, \<open>mapR\<close>, \<open>foldR\<close>), programs over a mutable state
    that may raise half way and keep the effects made before (\<open>('s, 'a) prog\<close>), two runs whose results are related
    (\<open>same_result\<close>, \<open>same_or_stops\<close>), the locale \<open>state_order\<close> for
    relations that every step of a program stays in, dictionaries in insertion order, the collections of simp rules.
  \<^item> \<open>Decimals\<close>: \<open>decimal.Decimal\<close> as exact rationals with rounding half to even after each operation, in the
    default context of 28 digits (\<open>prec\<close>) and in the local context of 80 (\<open>wide\<close>); printing and parsing. The
    locale \<open>decimal_context\<close> holds what both contexts share.
  \<^item> \<open>Calendar_Time\<close>: dates, UTC clocks, ISO weeks, and their texts. \<open>Json\<close>: documents, canonical printing, hashing.
  \<^item> \<open>Strategies\<close> (\<open>strategies.py\<close>): equal weights and 12-1 momentum.
  \<^item> \<open>Inputs\<close> (\<open>backtest_inputs.py\<close>): the parsers of rows and envelopes, the hash pins, the loader, and the invariant
    \<open>wf_inputs\<close> of what it returns. \<open>Input_Documents\<close>: documents of well-formed rows are read back unchanged.
  \<^item> \<open>Account\<close> (first third of \<open>paper.py\<close>): the account specification and \<open>validate_paper_account\<close>.
  \<^item> \<open>Portfolio\<close> (\<open>portfolio.py\<close>): point-in-time lookups, valuation, rebalance schedule, \<open>build_target\<close>,
    \<open>target_orders\<close>. The view \<open>visible\<close> of a data set at a clock keeps the published prices, assertions,
    actions and rates and nothing else: not the copies of all rows that the inputs keep with their artifacts. The locale
    \<open>point_in_time\<close> states that a lookup gives the same on the inputs and on their view, and so for two data sets
    with the same view; it is interpreted on the lookups of both engines.
  \<^item> \<open>Risk\<close> (\<open>risk.py\<close>): \<open>assess_target\<close> and the limits it decides. \<open>Construction\<close>: the check is total on what
    construction publishes.
  \<^item> \<open>Ledger\<close> (\<open>LedgerStore\<close> of \<open>paper.py\<close>): the files of an account, the strict reader, the idempotent append,
    the projection to a state. \<open>Ledger_Log\<close>: the log the files stand for. \<open>Ledger_Steps\<close>: the abstract logs
    (inductive \<open>log_of\<close>) and the step relation of ledgers. \<open>Ledger_State\<close>: the projection as sums over the log.
  \<^item> \<open>Settlement\<close>, \<open>Paper_Session\<close>, \<open>Paper_Acceptance\<close> (rest of \<open>paper.py\<close>): corporate actions, fills, valuation;
    creation, session, approval, report, rebuild, reconciliation; the acceptance report.
  \<^item> \<open>Paper_Safety\<close>: the condition \<open>justified\<close> that every appended event meets, and the accounts that can be reached
    (inductive \<open>paper_reachable\<close>). \<open>Paper_Progress\<close>: what a session that returned has done, and which exceptions
    can leave it. \<open>Paper_Properties\<close>: the theorems on the paper engine.
  \<^item> \<open>Experiment\<close> (\<open>experiments.py\<close>): the experiment specification, its normal form, identity, hash and store.
    \<open>Experiment_Valid\<close>: a normalised specification validates to itself.
  \<^item> \<open>Backtest\<close> (\<open>backtest.py\<close>): the state of the engine and one session: actions, fills, mark, decision.
    \<open>Backtest_Relation\<close>: the locales \<open>state_relation\<close> and \<open>state_frame\<close>, what the steps of a session keep related in
    two runs. \<open>Backtest_Lookahead\<close>, \<open>Backtest_Fills\<close>, \<open>Backtest_Invariant\<close>: no look-ahead, the limits of a fill, and the invariant
    of the state between sessions. \<open>Backtest_Checkpoint\<close>: documents, files and restoration of checkpoints;
    \<open>Backtest_Restore\<close>: every state between sessions survives them. \<open>Backtest_Simulate\<close>: metrics, attribution, and
    \<open>simulate_backtest\<close> with interruption and resumption. \<open>Backtest_Metrics\<close>: what the drawdown and the integer root
    compute. \<open>Backtest_Resume\<close>: results do not depend on the order of dictionaries, so a resumed run equals the
    uninterrupted one; the checkpoint directory only grows.
  \<^item> \<open>Example_*\<close>: one account and one experiment over two securities and two or three sessions, carried through every
    component; each theorem with hypotheses is applied to it, so that its hypotheses are seen to hold. \<open>Example_Later\<close> has
    a second data set that the loader returns, equal to the first up to a clock and different after it.

  \<^bold>\<open>What the theorems show.\<close> For the paper engine: fills only follow approved orders of an approved target and
  happen once; settlement is complete; the log is append-only however a session ends; reachable accounts refine
  the abstract log of justified events; reconciliation passes and the rebuilt state is the sum of the log;
  sessions are idempotent; errors of the data are contained. For construction and risk: no look-ahead, targets
  are well formed, orders are the difference of target and holdings, approval is exactly the conjunction of the
  limits, the check never raises on what construction publishes. For the loader, account and experiment:
  well-formedness, hash pins, round trips. For the backtest: no look-ahead, with the late corporate action that stops a run as the named exception, fills within order, holding, volume
  and cash, no order left pending, one NAV row per session with a positive NAV that adds up, a numbered ledger,
  no negative holding, the bounds of the bisection, checkpoints that restore what was
  written, resumption that gives the uninterrupted result, and checkpoints that are never changed.

  \<^bold>\<open>Arguments of the model.\<close> \<open>env\<close> has SHA-256, UUID version 5, the printing of floats and the iteration order of a
  set; \<open>data_root\<close> gives for a path the outcome of reading a file; clock readings are arguments of the session.
  \<open>say\<close> prints an amount in a reason and \<open>ratio_text\<close> the ratio of a split, because \<open>str\<close> shows trailing zeros
  that a rational does not have. \<open>decimal_functions\<close> has the logarithm, exponential and square of the decimal module.

  \<^bold>\<open>Bounds.\<close> Event files and checkpoints have six digits in their names: the ledger theorems speak of readable
  ledgers, which that bounds by a million events, and resumption is shown below a million sessions. Decimal contexts have their precision but no exponent limits. The bisection
  for the affordable quantity runs the 120 rounds of the code. All recursion is structural except the integer
  square root, which has its termination proof; no fuel is used.

  \<^bold>\<open>Where the model is narrower than Python.\<close> ISO dates and clocks are read in the spellings that the writers
  use and refused in others. A file is the JSON document it holds: two files are the same if they have the same
  canonical text; strict readers (duplicate keys, non-finite numbers) and failures of the file system are part of
  the argument that gives the document. A dictionary in a document keeps its order, where the writer sorts keys.
  The key lists in a message are printed for names without quotes. The messages of library exceptions are
  not tracked, those of the program are.

  \<^bold>\<open>Not modelled.\<close> The Go collector and the SQL migrations are another language. Of the Python modules: the
  publication of results and acceptance evidence (\<open>backtest_results.py\<close>, \<open>backtest_acceptance.py\<close>,
  \<open>paper_acceptance.py\<close>) are file writers around the engines; \<open>catalog.py\<close> and \<open>registry.py\<close> talk to a database;
  \<open>features.py\<close>, \<open>market_momentum.py\<close>, \<open>adjustments.py\<close>, \<open>fx.py\<close>, \<open>macro_state.py\<close>, \<open>fundamental_growth.py\<close>,
  \<open>derived_artifacts.py\<close> and \<open>historical.py\<close> produce artifacts with Parquet and DuckDB; \<open>workflow.py\<close>, \<open>batches.py\<close>,
  \<open>events.py\<close>, \<open>documents.py\<close>, \<open>evidence.py\<close>, \<open>discovery.py\<close>, \<open>operator.py\<close>, \<open>release.py\<close> and the others keep research
  records; the command lines only parse arguments. None of them is called by the modelled modules.
\<close>

end
